(* ===== verification/Prelude.thy ===== *)
theory Prelude
  imports Main "HOL-Library.AList" "HOL-Library.State_Monad"
begin

text \<open>
  What every component shares: JavaScript \<open>Map\<close>s as association lists in insertion order, the
  interface they promise, the state monad in which effectful code is written, preservation of
  an invariant by such code, and the strings the program builds.
\<close>

named_theorems js_simps \<open>equations of the JavaScript primitives\<close>
named_theorems keeps_intros \<open>preservation of an invariant, one rule per program construct\<close>
named_theorems run_simps \<open>what running a monadic operation does to the state\<close>

section \<open>Insertion-ordered maps\<close>

text \<open>
  A JavaScript \<open>Map\<close> iterates in insertion order; \<open>set\<close> on a present key keeps its position and
  replaces the value, on an absent key appends. That is \<open>AList.update\<close>.
\<close>

type_synonym ('k, 'v) jsmap = "('k \<times> 'v) list"

definition js_get :: "('k, 'v) jsmap \<Rightarrow> 'k \<Rightarrow> 'v option" where
  "js_get m k = map_of m k"

definition js_set :: "'k \<Rightarrow> 'v \<Rightarrow> ('k, 'v) jsmap \<Rightarrow> ('k, 'v) jsmap" where
  "js_set k v m = AList.update k v m"

definition js_delete :: "'k \<Rightarrow> ('k, 'v) jsmap \<Rightarrow> ('k, 'v) jsmap" where
  "js_delete k m = AList.delete k m"

definition js_has :: "('k, 'v) jsmap \<Rightarrow> 'k \<Rightarrow> bool" where
  "js_has m k \<longleftrightarrow> js_get m k \<noteq> None"

definition js_keys :: "('k, 'v) jsmap \<Rightarrow> 'k list" where
  "js_keys m = map fst m"

definition js_values :: "('k, 'v) jsmap \<Rightarrow> 'v list" where
  "js_values m = map snd m"

definition js_ok :: "('k, 'v) jsmap \<Rightarrow> bool" where
  "js_ok m \<longleftrightarrow> distinct (map fst m)"

text \<open>The interface the components rely on: lookup laws and distinct keys.\<close>

locale keyed_map =
  fixes empty :: "'m"
    and get :: "'m \<Rightarrow> 'k \<Rightarrow> 'v option"
    and put :: "'k \<Rightarrow> 'v \<Rightarrow> 'm \<Rightarrow> 'm"
    and del :: "'k \<Rightarrow> 'm \<Rightarrow> 'm"
    and ok :: "'m \<Rightarrow> bool"
  assumes get_empty: "get empty k = None"
    and get_put: "get (put k v m) k' = (if k' = k then Some v else get m k')"
    and get_del: "get (del k m) k' = (if k' = k then None else get m k')"
    and ok_empty: "ok empty"
    and ok_put: "ok m \<Longrightarrow> ok (put k v m)"
    and ok_del: "ok m \<Longrightarrow> ok (del k m)"
begin

fun put_all :: "('k \<times> 'v) list \<Rightarrow> 'm \<Rightarrow> 'm" where
  "put_all [] m = m"
| "put_all ((k, v) # kvs) m = put_all kvs (put k v m)"

lemma get_put_all:
  "get (put_all kvs m) k = (case map_of (rev kvs) k of Some v \<Rightarrow> Some v | None \<Rightarrow> get m k)"
  by (induction kvs m rule: put_all.induct)
     (auto simp: get_put map_add_def split: option.splits)

lemma get_put_all_other: "k \<notin> fst ` set kvs \<Longrightarrow> get (put_all kvs m) k = get m k"
  by (induction kvs m rule: put_all.induct) (auto simp: get_put)

lemma ok_put_all: "ok m \<Longrightarrow> ok (put_all kvs m)"
  by (induction kvs m rule: put_all.induct) (auto intro: ok_put)

lemma put_same_get: "get m k = Some v \<Longrightarrow> get (put k v m) = get m"
  by (rule ext) (simp add: get_put)

end

lemma js_get_Nil [simp]: "js_get [] k = None"
  by (simp add: js_get_def)

lemma js_get_set [simp]: "js_get (js_set k v m) k' = (if k' = k then Some v else js_get m k')"
  by (simp add: js_get_def js_set_def update_conv')

lemma js_get_delete [simp]: "js_get (js_delete k m) k' = (if k' = k then None else js_get m k')"
  by (simp add: js_get_def js_delete_def delete_conv')

lemma js_ok_Nil [simp, intro]: "js_ok []"
  by (simp add: js_ok_def)

lemma js_ok_set [simp, intro]: "js_ok m \<Longrightarrow> js_ok (js_set k v m)"
  unfolding js_ok_def js_set_def by (rule distinct_update)

lemma js_ok_delete [simp, intro]: "js_ok m \<Longrightarrow> js_ok (js_delete k m)"
  unfolding js_ok_def js_delete_def by (rule distinct_delete)

lemma js_has_set [simp]: "js_has (js_set k v m) k' \<longleftrightarrow> k' = k \<or> js_has m k'"
  by (simp add: js_has_def)

lemma js_set_absent: "js_get m k = None \<Longrightarrow> js_set k v m = m @ [(k, v)]"
  unfolding js_get_def js_set_def by (induction m) (auto split: if_splits)

lemma js_values_iff: "js_ok m \<Longrightarrow> v \<in> set (js_values m) \<longleftrightarrow> (\<exists>k. js_get m k = Some v)"
  unfolding js_ok_def js_values_def js_get_def by (force dest: map_of_SomeD)

lemma js_get_in_values: "js_get m k = Some v \<Longrightarrow> v \<in> set (js_values m)"
  unfolding js_get_def js_values_def by (force dest: map_of_SomeD)

interpretation jsm: keyed_map "[] :: ('k, 'v) jsmap" js_get js_set js_delete js_ok
  by unfold_locales auto

section \<open>Effectful code\<close>

text \<open>
  An effectful function of the source is a value of the state monad of
  \<^theory_text>\<open>HOL-Library.State_Monad\<close>; its \<open>do\<close> block follows the statements of the source.
  \<open>keeps I m\<close> says that running \<open>m\<close> from any state in which \<open>I\<close> holds ends in one where
  \<open>I\<close> holds; the rules below discharge it construct by construct.
\<close>

definition act :: "('s \<Rightarrow> 's) \<Rightarrow> ('s, unit) state" where
  "act f = State (\<lambda>s. ((), f s))"

definition ask :: "('s \<Rightarrow> 'a) \<Rightarrow> ('s, 'a) state" where
  "ask f = State (\<lambda>s. (f s, s))"

definition skip :: "('s, unit) state" where
  "skip = State_Monad.return ()"

fun for_each :: "'a list \<Rightarrow> ('a \<Rightarrow> ('s, unit) state) \<Rightarrow> ('s, unit) state" where
  "for_each [] f = skip"
| "for_each (x # xs) f = do { _ \<leftarrow> f x; for_each xs f }"

definition final :: "('s, 'a) state \<Rightarrow> 's \<Rightarrow> 's" where
  "final m s = snd (run_state m s)"

definition result :: "('s, 'a) state \<Rightarrow> 's \<Rightarrow> 'a" where
  "result m s = fst (run_state m s)"

definition keeps :: "('s \<Rightarrow> bool) \<Rightarrow> ('s, 'a) state \<Rightarrow> bool" where
  "keeps I m \<longleftrightarrow> (\<forall>s. I s \<longrightarrow> I (final m s))"

lemma run_act [simp]: "run_state (act f) s = ((), f s)"
  by (simp add: act_def)

lemma run_ask [simp]: "run_state (ask f) s = (f s, s)"
  by (simp add: ask_def)

lemma run_skip [simp]: "run_state skip s = ((), s)"
  by (simp add: skip_def)

lemma final_return [simp]: "final (State_Monad.return x) s = s"
  and final_act [simp]: "final (act f) s = f s"
  and final_ask [simp]: "final (ask g) s = s"
  and final_skip [simp]: "final skip s = s"
  by (simp_all add: final_def)

lemma final_bind: "final (State_Monad.bind m f) s = final (f (result m s)) (final m s)"
  by (simp add: final_def result_def split: prod.splits)

lemma result_bind: "result (State_Monad.bind m f) s = result (f (result m s)) (final m s)"
  by (simp add: final_def result_def split: prod.splits)

lemma run_state_eq: "run_state m s = (result m s, final m s)"
  by (simp add: result_def final_def)

lemma final_for_each: "final (for_each xs f) s = fold (\<lambda>x. final (f x)) xs s"
  by (induction xs arbitrary: s) (simp_all add: final_bind)

lemma keepsI: "(\<And>s. I s \<Longrightarrow> I (final m s)) \<Longrightarrow> keeps I m"
  by (simp add: keeps_def)

lemma keepsD: "keeps I m \<Longrightarrow> I s \<Longrightarrow> I (final m s)"
  by (simp add: keeps_def)

lemma keeps_return [keeps_intros]: "keeps I (State_Monad.return x)"
  and keeps_ask [keeps_intros]: "keeps I (ask g)"
  and keeps_skip [keeps_intros]: "keeps I skip"
  by (simp_all add: keeps_def)

lemma keeps_act [keeps_intros]: "(\<And>s. I s \<Longrightarrow> I (f s)) \<Longrightarrow> keeps I (act f)"
  by (simp add: keeps_def)

lemma keeps_bind [keeps_intros]:
  "keeps I m \<Longrightarrow> (\<And>x. keeps I (f x)) \<Longrightarrow> keeps I (State_Monad.bind m f)"
  by (simp add: keeps_def final_bind)

lemma keeps_for_each [keeps_intros]: "(\<And>x. keeps I (f x)) \<Longrightarrow> keeps I (for_each xs f)"
  by (induction xs) (auto intro!: keeps_intros)

lemma keeps_if [keeps_intros]:
  "(b \<Longrightarrow> keeps I m) \<Longrightarrow> (\<not> b \<Longrightarrow> keeps I n) \<Longrightarrow> keeps I (if b then m else n)"
  by simp

lemma keeps_option [keeps_intros]:
  "(x = None \<Longrightarrow> keeps I m) \<Longrightarrow> (\<And>y. x = Some y \<Longrightarrow> keeps I (f y)) \<Longrightarrow>
    keeps I (case x of None \<Rightarrow> m | Some y \<Rightarrow> f y)"
  by (simp split: option.splits)

lemma keeps_let [keeps_intros]: "keeps I (f x) \<Longrightarrow> keeps I (let y = x in f y)"
  by simp

section \<open>Runs of operations\<close>

text \<open>
  A component driven by a sequence of operations, with an invariant every operation keeps under
  the environment's condition \<open>fit\<close>: every state of a run satisfies the invariant.
\<close>

locale invariant_system =
  fixes step :: "'op \<Rightarrow> 's \<Rightarrow> 's"
    and inv :: "'s \<Rightarrow> bool"
  assumes step_inv: "inv s \<Longrightarrow> inv (step x s)"
begin

lemma run_inv: "inv s \<Longrightarrow> inv (fold step xs s)"
  by (induction xs arbitrary: s) (auto intro: step_inv)

lemma prefix_inv: "inv s \<Longrightarrow> inv (fold step (take n xs) s)"
  by (rule run_inv)

end

locale monotone_system = invariant_system step inv
  for step :: "'op \<Rightarrow> 's \<Rightarrow> 's" and inv :: "'s \<Rightarrow> bool" +
  fixes grows :: "'s \<Rightarrow> 's \<Rightarrow> bool"
  assumes grows_refl: "grows s s"
    and grows_trans: "grows s t \<Longrightarrow> grows t u \<Longrightarrow> grows s u"
    and step_grows: "inv s \<Longrightarrow> grows s (step x s)"
begin

lemma run_grows: "inv s \<Longrightarrow> grows s (fold step xs s)"
  by (induction xs arbitrary: s) (auto intro: grows_refl grows_trans step_grows step_inv)

end

section \<open>Strings\<close>

definition starts_with :: "string \<Rightarrow> string \<Rightarrow> bool" where
  "starts_with s p \<longleftrightarrow> take (length p) s = p"

fun str_includes :: "string \<Rightarrow> string \<Rightarrow> bool" where
  "str_includes [] p \<longleftrightarrow> p = []"
| "str_includes (c # cs) p \<longleftrightarrow> starts_with (c # cs) p \<or> str_includes cs p"

text \<open>\<open>split_on c s\<close> is JavaScript's \<open>s.split(c)\<close>: at least one part, empty parts kept.\<close>

fun split_on :: "char \<Rightarrow> string \<Rightarrow> string list" where
  "split_on c [] = [[]]"
| "split_on c (x # xs) =
     (case split_on c xs of
        [] \<Rightarrow> [[x]]
      | p # ps \<Rightarrow> (if x = c then [] # p # ps else (x # p) # ps))"

fun join_with :: "string \<Rightarrow> string list \<Rightarrow> string" where
  "join_with sep [] = []"
| "join_with sep [x] = x"
| "join_with sep (x # y # xs) = x @ sep @ join_with sep (y # xs)"

definition digit_char :: "nat \<Rightarrow> char" where
  "digit_char n = ''0123456789abcdef'' ! n"

fun radix_str :: "nat \<Rightarrow> nat \<Rightarrow> string" where
  "radix_str b n =
     (if b < 2 \<or> n < b then [digit_char n] else radix_str b (n div b) @ [digit_char (n mod b)])"

declare radix_str.simps [simp del]

definition nat_str :: "nat \<Rightarrow> string" where
  "nat_str n = radix_str 10 n"

definition int_str :: "int \<Rightarrow> string" where
  "int_str i = (if i < 0 then CHR ''-'' # nat_str (nat (- i)) else nat_str (nat i))"

definition pad_start :: "nat \<Rightarrow> char \<Rightarrow> string \<Rightarrow> string" where
  "pad_start n c s = replicate (n - length s) c @ s"

lemma split_on_nonempty [simp]: "split_on c s \<noteq> []"
  by (induction s) (auto split: list.splits)

lemma join_split: "join_with [c] (split_on c s) = s"
proof (induction s)
  case Nil
  show ?case by simp
next
  case (Cons x xs)
  obtain p ps where ps: "split_on c xs = p # ps"
    using split_on_nonempty [of c xs] by (cases "split_on c xs") auto
  show ?case using Cons ps by (cases ps) auto
qed

definition digit_value :: "char \<Rightarrow> nat" where
  "digit_value c = length (takeWhile (\<lambda>d. d \<noteq> c) ''0123456789abcdef'')"

lemma digits_table:
  "list_all (\<lambda>n. digit_value (digit_char n) = n \<and> digit_char n \<noteq> CHR '':'') [0..<16]"
  by code_simp

lemma digit_below: "n < 16 \<Longrightarrow> digit_value (digit_char n) = n \<and> digit_char n \<noteq> CHR '':''"
  using digits_table by (simp only: list_all_iff set_upt atLeastLessThan_iff) simp

lemma digit_value_char: "n < 16 \<Longrightarrow> digit_value (digit_char n) = n"
  using digit_below by blast

definition radix_value :: "nat \<Rightarrow> string \<Rightarrow> nat" where
  "radix_value b s = foldl (\<lambda>a c. a * b + digit_value c) 0 s"

lemma radix_value_str: "2 \<le> b \<Longrightarrow> b \<le> 16 \<Longrightarrow> radix_value b (radix_str b n) = n"
proof (induction b n rule: radix_str.induct)
  case (1 b n)
  show ?case
  proof (cases "n < b")
    case True
    with 1 show ?thesis
      by (subst radix_str.simps) (simp add: radix_value_def digit_value_char)
  next
    case False
    with 1 have "radix_value b (radix_str b (n div b)) = n div b" by simp
    moreover have "n mod b < 16" using 1 by (metis less_le_trans mod_less_divisor not_numeral_le_zero neq0_conv)
    ultimately show ?thesis using 1 False
      by (subst radix_str.simps) (simp add: radix_value_def digit_value_char)
  qed
qed

lemma nat_str_inject [simp]: "nat_str m = nat_str n \<longleftrightarrow> m = n"
proof
  assume "nat_str m = nat_str n"
  then have "radix_value 10 (radix_str 10 m) = radix_value 10 (radix_str 10 n)"
    by (simp add: nat_str_def)
  then show "m = n" by (simp add: radix_value_str)
qed simp

end
