(* ===== verification/JsValue.thy ===== *)
theory JsValue
  imports Prelude
begin

text \<open>
  The values a \<open>Record<string, unknown>\<close> of the program holds, with the JavaScript operations the
  program applies to them: truthiness, \<open>===\<close>, \<open>String(v)\<close>, property access, the \<open>in\<close> operator and
  object spread. Numbers are the integers the program stores (revisions, sequence numbers).
\<close>

datatype json =
    JUndef
  | JNull
  | JBool bool
  | JNum int
  | JStr string
  | JArr "json list"
  | JObj "(string \<times> json) list"

type_synonym jobj = "(string, json) jsmap"

text \<open>Reading an absent property and reading one stored as \<open>undefined\<close> give the same value.\<close>

definition prop_of :: "jobj \<Rightarrow> string \<Rightarrow> json" where
  "prop_of ob k = (case js_get ob k of None \<Rightarrow> JUndef | Some v \<Rightarrow> v)"

definition spread :: "jobj \<Rightarrow> jobj \<Rightarrow> jobj" where
  "spread a b = fold (\<lambda>(k, v) m. js_set k v m) b a"

fun truthy :: "json \<Rightarrow> bool" where
  "truthy JUndef = False"
| "truthy JNull = False"
| "truthy (JBool b) = b"
| "truthy (JNum n) = (n \<noteq> 0)"
| "truthy (JStr s) = (s \<noteq> [])"
| "truthy (JArr _) = True"
| "truthy (JObj _) = True"

text \<open>A defined, non-empty optional string: the test \<open>if (s)\<close> on a \<open>string | undefined\<close>.\<close>

definition truthy_str :: "string option \<Rightarrow> bool" where
  "truthy_str x \<longleftrightarrow> x \<noteq> None \<and> x \<noteq> Some []"

text \<open>
  \<open>===\<close>: primitives by value; two objects are equal only when they are the same reference, which
  values from different sources (a journal payload, a stored condition) never are.
\<close>

fun strict_eq :: "json \<Rightarrow> json \<Rightarrow> bool" where
  "strict_eq (JArr _) _ = False"
| "strict_eq (JObj _) _ = False"
| "strict_eq x y = (x = y)"

fun js_string :: "json \<Rightarrow> string" where
  "js_string JUndef = ''undefined''"
| "js_string JNull = ''null''"
| "js_string (JBool b) = (if b then ''true'' else ''false'')"
| "js_string (JNum n) = int_str n"
| "js_string (JStr s) = s"
| "js_string (JArr xs) =
     join_with '','' (map (\<lambda>x. if x = JUndef \<or> x = JNull then '''' else js_string x) xs)"
| "js_string (JObj _) = ''[object Object]''"

text \<open>
  One step of a property path: own properties of an object, indices and \<open>length\<close> of an array.
  \<open>None\<close> is \<open>part in value\<close> being false, or \<open>value\<close> being no object.
\<close>

fun js_member :: "json \<Rightarrow> string \<Rightarrow> json option" where
  "js_member (JObj ob) part = js_get ob part"
| "js_member (JArr xs) part =
     (if part = ''length'' then Some (JNum (int (length xs)))
      else map_option (\<lambda>i. xs ! i) (find (\<lambda>i. nat_str i = part) [0..<length xs]))"
| "js_member _ part = None"

fun js_path :: "json \<Rightarrow> string list \<Rightarrow> json" where
  "js_path v [] = v"
| "js_path v (p # ps) = (case js_member v p of None \<Rightarrow> JUndef | Some w \<Rightarrow> js_path w ps)"

text \<open>Optional fields read as values, and casts (\<open>p.state as string\<close>) back.\<close>

definition opt_str :: "string option \<Rightarrow> json" where
  "opt_str x = (case x of None \<Rightarrow> JUndef | Some s \<Rightarrow> JStr s)"

definition opt_obj :: "jobj option \<Rightarrow> json" where
  "opt_obj x = (case x of None \<Rightarrow> JUndef | Some ob \<Rightarrow> JObj ob)"

fun nullish :: "json \<Rightarrow> bool" where
  "nullish JUndef = True"
| "nullish JNull = True"
| "nullish _ = False"

fun as_str :: "json \<Rightarrow> string" where
  "as_str (JStr s) = s"
| "as_str _ = []"

fun as_obj :: "json \<Rightarrow> jobj" where
  "as_obj (JObj ob) = ob"
| "as_obj _ = []"

fun as_int :: "json \<Rightarrow> int" where
  "as_int (JNum n) = n"
| "as_int _ = 0"

lemma prop_Nil [js_simps, simp]: "prop_of [] k = JUndef"
  by (simp add: prop_of_def)

lemma prop_Cons [js_simps, simp]: "prop_of ((k, v) # ob) k' = (if k' = k then v else prop_of ob k')"
  by (simp add: prop_of_def js_get_def)

lemma prop_set [js_simps, simp]: "prop_of (js_set k v ob) k' = (if k' = k then v else prop_of ob k')"
  by (simp add: prop_of_def)

lemma spread_Nil [js_simps, simp]: "spread a [] = a"
  by (simp add: spread_def)

lemma spread_Cons [js_simps, simp]: "spread a ((k, v) # b) = spread (js_set k v a) b"
  by (simp add: spread_def)

lemma js_get_spread:
  "js_get (spread a b) k = (case map_of (rev b) k of Some v \<Rightarrow> Some v | None \<Rightarrow> js_get a k)"
proof (induction b arbitrary: a)
  case (Cons p b)
  then show ?case by (cases p) (auto simp: map_add_def split: option.splits)
qed simp

lemma spread_ok: "js_ok a \<Longrightarrow> js_ok (spread a b)"
proof (induction b arbitrary: a)
  case (Cons p b)
  then show ?case by (cases p) auto
qed simp

text \<open>Writing the same patch twice changes nothing the second time.\<close>

lemma get_spread_twice: "js_get (spread (spread a b) b) = js_get (spread a b)"
  by (rule ext) (simp add: js_get_spread split: option.splits)

lemma truthy_str_simps [js_simps, simp]:
  "\<not> truthy_str None" "truthy_str (Some s) \<longleftrightarrow> s \<noteq> []"
  by (simp_all add: truthy_str_def)

lemma opt_simps [js_simps, simp]:
  "opt_str None = JUndef" "opt_str (Some s) = JStr s"
  "opt_obj None = JUndef" "opt_obj (Some ob) = JObj ob"
  by (simp_all add: opt_str_def opt_obj_def)

lemma truthy_opt_obj [simp]: "truthy (opt_obj x) \<longleftrightarrow> x \<noteq> None"
  by (cases x) simp_all

lemma strict_eq_refl_iff: "strict_eq v v \<longleftrightarrow> (\<nexists>xs. v = JArr xs) \<and> (\<nexists>ob. v = JObj ob)"
  by (cases v) auto

lemma strict_eq_imp_eq: "strict_eq v w \<Longrightarrow> v = w"
  by (cases v) auto

end
