(* ===== verification/Contracts.thy ===== *)
theory Contracts
  imports JsValue
begin

text \<open>
  The wire types of \<open>packages/runtime-contracts/src\<close>: one record per interface, one datatype per
  union of literals. Fields carry a two-letter prefix of their interface, since record fields are
  global. An optional field is an \<open>option\<close>. A time stamp is the number of milliseconds since the
  epoch that the ISO string denotes: the program writes all of them with \<open>toISOString\<close>, whose
  fixed-width output orders as a string exactly as that number does.
\<close>

type_synonym iso_time = nat

section \<open>Primitives\<close>

datatype actor_kind = Human | Agent | System
datatype outcome = Success | Denial
datatype aggregate_status = Active | Terminal | Archived
datatype checkpoint_status = CpPending | CpResolved | CpRejected
datatype http_semantic = Http200 | Http202 | Http400 | Http403 | Http404 | Http409

text \<open>\<open>DENIAL_CODES\<close>, the ones the kernel uses.\<close>

definition POLICY_DENIED :: string where "POLICY_DENIED = ''policy_denied''"
definition NOT_FOUND :: string where "NOT_FOUND = ''not_found''"
definition REVISION_CONFLICT :: string where "REVISION_CONFLICT = ''revision_conflict''"
definition TRANSITION_DENIED :: string where "TRANSITION_DENIED = ''transition_denied''"
definition CHECKPOINT_PENDING :: string where "CHECKPOINT_PENDING = ''checkpoint_pending''"
definition VALIDATION_DENIED :: string where "VALIDATION_DENIED = ''validation_denied''"
definition IDEMPOTENCY_REPLAY :: string where "IDEMPOTENCY_REPLAY = ''idempotency_replay''"

text \<open>\<open>ENTRY_TYPES\<close> and the set of state-mutating ones.\<close>

definition E_AGGREGATE_CREATED :: string where "E_AGGREGATE_CREATED = ''aggregate.created''"
definition E_TRANSITION_APPLIED :: string where "E_TRANSITION_APPLIED = ''transition.applied''"
definition E_TRANSITION_DENIED :: string where "E_TRANSITION_DENIED = ''transition.denied''"
definition E_POLICY_DENIED :: string where "E_POLICY_DENIED = ''policy.denied''"
definition E_REVISION_CONFLICT :: string where "E_REVISION_CONFLICT = ''revision.conflict''"
definition E_VALIDATION_DENIED :: string where "E_VALIDATION_DENIED = ''validation.denied''"
definition E_CHECKPOINT_CREATED :: string where "E_CHECKPOINT_CREATED = ''checkpoint.created''"
definition E_CHECKPOINT_VOTE :: string where "E_CHECKPOINT_VOTE = ''checkpoint.vote''"
definition E_CHECKPOINT_RESOLVED :: string where "E_CHECKPOINT_RESOLVED = ''checkpoint.resolved''"
definition E_CHECKPOINT_REJECTED :: string where "E_CHECKPOINT_REJECTED = ''checkpoint.rejected''"
definition E_EVENT_APPENDED :: string where "E_EVENT_APPENDED = ''event.appended''"
definition E_WAIT_REGISTERED :: string where "E_WAIT_REGISTERED = ''wait.registered''"
definition E_WAIT_CANCELLED :: string where "E_WAIT_CANCELLED = ''wait.cancelled''"
definition E_REACTION_REGISTERED :: string where "E_REACTION_REGISTERED = ''reaction.registered''"
definition E_REACTION_DISABLED :: string where "E_REACTION_DISABLED = ''reaction.disabled''"

lemmas entry_type_defs =
  E_AGGREGATE_CREATED_def E_TRANSITION_APPLIED_def E_TRANSITION_DENIED_def E_POLICY_DENIED_def
  E_REVISION_CONFLICT_def E_VALIDATION_DENIED_def E_CHECKPOINT_CREATED_def E_CHECKPOINT_VOTE_def
  E_CHECKPOINT_RESOLVED_def E_CHECKPOINT_REJECTED_def E_EVENT_APPENDED_def E_WAIT_REGISTERED_def
  E_WAIT_CANCELLED_def E_REACTION_REGISTERED_def E_REACTION_DISABLED_def

lemmas denial_code_defs =
  POLICY_DENIED_def NOT_FOUND_def REVISION_CONFLICT_def TRANSITION_DENIED_def
  CHECKPOINT_PENDING_def VALIDATION_DENIED_def IDEMPOTENCY_REPLAY_def

definition STATE_MUTATING_TYPES :: "string list" where
  "STATE_MUTATING_TYPES = [E_AGGREGATE_CREATED, E_TRANSITION_APPLIED]"

section \<open>Commands, aggregates, checkpoints\<close>

record provenance =
  pv_scope_id :: string
  pv_actor_id :: string
  pv_credential_id :: string
  pv_aggregate_id :: "string option"
  pv_command_id :: "string option"
  pv_actor_kind :: "actor_kind option"

record rule_ref =
  rr_rule_ref_id :: string
  rr_digest :: string
  rr_version :: string

record aggregate =
  ag_aggregate_id :: string
  ag_scope_id :: string
  ag_rule_ref :: rule_ref
  ag_state :: string
  ag_metadata :: jobj
  ag_revision :: int
  ag_status :: aggregate_status
  ag_created_at :: iso_time
  ag_updated_at :: iso_time

datatype quorum_mode = QuorumAny | QuorumAll | QuorumCount

record checkpoint_quorum =
  cq_mode :: quorum_mode
  cq_count :: int
  cq_assignees :: "string list"

record checkpoint_vote =
  cv_actor_id :: string
  cv_approved :: bool
  cv_ts :: iso_time

record checkpoint =
  cp_checkpoint_id :: string
  cp_aggregate_id :: string
  cp_scope_id :: string
  cp_transition_id :: string
  cp_from_state :: string
  cp_to_state :: string
  cp_status :: checkpoint_status
  cp_quorum :: checkpoint_quorum
  cp_votes :: "checkpoint_vote list"
  cp_created_at :: iso_time
  cp_resolved_at :: "iso_time option"

record command_result =
  cr_outcome :: outcome
  cr_http_semantic :: http_semantic
  cr_code :: string
  cr_body :: jobj
  cr_journal_entry_id :: "string option"
  cr_seq :: "nat option"

definition successResult :: "string \<Rightarrow> jobj \<Rightarrow> command_result" where
  "successResult code body = \<lparr>cr_outcome = Success, cr_http_semantic = Http200, cr_code = code,
     cr_body = body, cr_journal_entry_id = None, cr_seq = None\<rparr>"

definition denialResult :: "string \<Rightarrow> jobj \<Rightarrow> http_semantic \<Rightarrow> command_result" where
  "denialResult code body http = \<lparr>cr_outcome = Denial, cr_http_semantic = http, cr_code = code,
     cr_body = body, cr_journal_entry_id = None, cr_seq = None\<rparr>"

section \<open>The journal\<close>

record journal_denial =
  jd_code :: string
  jd_message :: string
  jd_retryable :: bool
  jd_context :: "jobj option"

datatype entry_kind = KCommand | KEvent | KSystem

record journal_entry_draft =
  je_entry_id :: string
  je_kind :: entry_kind
  je_outcome :: outcome
  je_scope_id :: string
  je_aggregate_id :: "string option"
  je_actor_id :: string
  je_credential_id :: string
  je_command_id :: "string option"
  je_ts :: iso_time
  je_type :: string
  je_payload :: jobj
  je_payload_ref :: "string option"
  je_ext :: "jobj option"
  je_denial :: "journal_denial option"
  je_causation :: "string option"
  je_correlation :: "string option"

record journal_entry = journal_entry_draft +
  je_seq :: nat
  je_scope_seq :: "nat option"
  je_aggregate_seq :: "nat option"

text \<open>\<open>{ ...draft, seq, scope_seq, aggregate_seq }\<close>.\<close>

definition commit_entry ::
    "journal_entry_draft \<Rightarrow> nat \<Rightarrow> nat option \<Rightarrow> nat option \<Rightarrow> journal_entry" where
  "commit_entry d s ss as = \<lparr>je_entry_id = je_entry_id d, je_kind = je_kind d,
     je_outcome = je_outcome d, je_scope_id = je_scope_id d, je_aggregate_id = je_aggregate_id d,
     je_actor_id = je_actor_id d, je_credential_id = je_credential_id d,
     je_command_id = je_command_id d, je_ts = je_ts d, je_type = je_type d,
     je_payload = je_payload d, je_payload_ref = je_payload_ref d, je_ext = je_ext d,
     je_denial = je_denial d, je_causation = je_causation d, je_correlation = je_correlation d,
     je_seq = s, je_scope_seq = ss, je_aggregate_seq = as\<rparr>"

record allocated_seq =
  al_seq :: nat
  al_scope_seq :: "nat option"
  al_aggregate_seq :: "nat option"

section \<open>Waits and reactions\<close>

datatype cp_resolution = Approved | Rejected

datatype wait_condition =
    WState string
  | WEntry string "jobj option"
  | WCheckpoint "string option" "cp_resolution option"
  | WArtifact string "string option"
  | WCompound "wait_condition list option" "wait_condition list option"

datatype wait_status = WPending | WResolved | WCancelled | WTimedOut

record wait_row =
  wt_wait_id :: string
  wt_scope_id :: string
  wt_aggregate_id :: "string option"
  wt_condition :: wait_condition
  wt_bound_command_id :: "string option"
  wt_status :: wait_status
  wt_registered_at_seq :: nat
  wt_expires_at :: "iso_time option"
  wt_created_at :: iso_time

datatype resolution_status = Matched | Denied | TimedOut

record wait_resolution =
  wr_wait_id :: string
  wr_status :: resolution_status
  wr_entry :: "journal_entry option"
  wr_denial :: "command_result option"

record action_spec =
  as_type :: string
  as_config :: jobj

record reaction_filter =
  rf_entry_types :: "string list option"
  rf_source_scope_id :: "string option"
  rf_aggregate_id :: "string option"

datatype key_extractor = ByEntryId | ByJsonPath | ByCustom

record reaction_dedup =
  rd_required :: bool
  rd_key_extractor :: key_extractor
  rd_key_path :: "string option"
  rd_window_seconds :: nat

datatype partition_by = PScope | PAggregate | PScopeAggregate | PReaction

text \<open>\<open>ReactionSpecInput\<close> is \<open>ReactionSpec\<close> without the two fields the kernel fills in.\<close>

record reaction_spec_input =
  rx_reaction_id :: string
  rx_scope_id :: string
  rx_filter :: reaction_filter
  rx_action :: action_spec
  rx_dedup :: reaction_dedup
  rx_partition :: partition_by

record reaction_spec = reaction_spec_input +
  rx_registered_at_seq :: nat
  rx_enabled :: bool

datatype delivery_outcome = Delivered | DedupSkipped | DeliveryFailed

record delivery_log_entry =
  dl_entry_id :: string
  dl_reaction_id :: string
  dl_attempt_no :: nat
  dl_dedup_key :: string
  dl_outcome :: delivery_outcome
  dl_ts :: iso_time

record reaction_queue_item =
  rq_queue_id :: string
  rq_reaction_id :: string
  rq_entry_id :: string
  rq_partition_key :: string
  rq_fingerprint :: string
  rq_attempt_no :: nat
  rq_entry :: journal_entry
  rq_enqueued_at :: iso_time

datatype kernel_command =
    AggregateCreate provenance rule_ref "jobj option"
  | StateTransition provenance string string "jobj option" int "wait_condition option"
  | EventAppend provenance string string "jobj option"
  | WaitRegister provenance wait_condition "string option" "string option"
  | WaitCancel provenance string
  | ReactionRegister provenance reaction_spec_input
  | ReactionDisable provenance string
  | ReactionReplay provenance string string bool string

text \<open>
  The arguments are, in order: the rule reference and metadata; the aggregate, event, payload,
  expected revision and \<open>block_on\<close>; the aggregate, event type and payload; the condition, bound
  command and aggregate; the wait; the specification; the reaction; and the reaction, source
  entry, \<open>bypass_dedup\<close> and reason.
\<close>

fun command_provenance :: "kernel_command \<Rightarrow> provenance" where
  "command_provenance (AggregateCreate p _ _) = p"
| "command_provenance (StateTransition p _ _ _ _ _) = p"
| "command_provenance (EventAppend p _ _ _) = p"
| "command_provenance (WaitRegister p _ _ _) = p"
| "command_provenance (WaitCancel p _) = p"
| "command_provenance (ReactionRegister p _) = p"
| "command_provenance (ReactionDisable p _) = p"
| "command_provenance (ReactionReplay p _ _ _ _) = p"

fun command_kind :: "kernel_command \<Rightarrow> string" where
  "command_kind (AggregateCreate _ _ _) = ''aggregate.create''"
| "command_kind (StateTransition _ _ _ _ _ _) = ''state.transition''"
| "command_kind (EventAppend _ _ _ _) = ''event.append''"
| "command_kind (WaitRegister _ _ _ _) = ''wait.register''"
| "command_kind (WaitCancel _ _) = ''wait.cancel''"
| "command_kind (ReactionRegister _ _) = ''reaction.register''"
| "command_kind (ReactionDisable _ _) = ''reaction.disable''"
| "command_kind (ReactionReplay _ _ _ _ _) = ''reaction.replay''"

fun command_block_on :: "kernel_command \<Rightarrow> wait_condition option" where
  "command_block_on (StateTransition _ _ _ _ _ b) = b"
| "command_block_on _ = None"

lemma commit_entry_sel [simp]:
  "je_entry_id (commit_entry d s ss as) = je_entry_id d"
  "je_outcome (commit_entry d s ss as) = je_outcome d"
  "je_scope_id (commit_entry d s ss as) = je_scope_id d"
  "je_aggregate_id (commit_entry d s ss as) = je_aggregate_id d"
  "je_type (commit_entry d s ss as) = je_type d"
  "je_payload (commit_entry d s ss as) = je_payload d"
  "je_ts (commit_entry d s ss as) = je_ts d"
  "je_command_id (commit_entry d s ss as) = je_command_id d"
  "je_denial (commit_entry d s ss as) = je_denial d"
  "je_seq (commit_entry d s ss as) = s"
  "je_scope_seq (commit_entry d s ss as) = ss"
  "je_aggregate_seq (commit_entry d s ss as) = as"
  by (simp_all add: commit_entry_def)

lemma entry_types_distinct:
  "distinct [E_AGGREGATE_CREATED, E_TRANSITION_APPLIED, E_TRANSITION_DENIED, E_POLICY_DENIED,
     E_REVISION_CONFLICT, E_VALIDATION_DENIED, E_CHECKPOINT_CREATED, E_CHECKPOINT_VOTE,
     E_CHECKPOINT_RESOLVED, E_CHECKPOINT_REJECTED, E_EVENT_APPENDED, E_WAIT_REGISTERED,
     E_WAIT_CANCELLED, E_REACTION_REGISTERED, E_REACTION_DISABLED]"
  by (simp add: entry_type_defs)

lemma entry_types_distinct_rev:
  "distinct (rev [E_AGGREGATE_CREATED, E_TRANSITION_APPLIED, E_TRANSITION_DENIED, E_POLICY_DENIED,
     E_REVISION_CONFLICT, E_VALIDATION_DENIED, E_CHECKPOINT_CREATED, E_CHECKPOINT_VOTE,
     E_CHECKPOINT_RESOLVED, E_CHECKPOINT_REJECTED, E_EVENT_APPENDED, E_WAIT_REGISTERED,
     E_WAIT_CANCELLED, E_REACTION_REGISTERED, E_REACTION_DISABLED])"
  by (simp only: distinct_rev entry_types_distinct)

lemmas entry_types_neq [simp] =
  entry_types_distinct [simplified] entry_types_distinct_rev [simplified]

section \<open>Rule artifacts\<close>

record transition_checkpoint =
  tc_quorum :: quorum_mode
  tc_count :: "int option"
  tc_assignees :: "string list"
  tc_reject_requires_quorum :: "bool option"

record rule_transition =
  tr_id :: string
  tr_from :: string
  tr_to :: string
  tr_event :: string
  tr_actors :: "string list"
  tr_condition :: "string option"
  tr_checkpoint :: "transition_checkpoint option"
  tr_emit :: "string list"

record event_declaration =
  ed_type :: string
  ed_schema :: jobj

text \<open>\<open>'k\<close> is the type of a state's kind: optional as parsed, present once normalised.\<close>

record 'k rule_artifact_of =
  ra_schema_version :: string
  ra_id :: string
  ra_version :: string
  ra_initial_state :: string
  ra_terminal_states :: "string list"
  ra_metadata_schema :: jobj
  ra_states :: "(string \<times> 'k) list"
  ra_transitions :: "rule_transition list"
  ra_events :: "event_declaration list option"
  ra_convergence :: "(string list \<times> json list) option"
  ra_checkpoints :: "string option option"

type_synonym rule_artifact_parsed = "aggregate_status option rule_artifact_of"
type_synonym rule_artifact = "aggregate_status rule_artifact_of"

definition normalizeRuleArtifact :: "rule_artifact_parsed \<Rightarrow> rule_artifact" where
  "normalizeRuleArtifact raw =
     \<lparr>ra_schema_version = ra_schema_version raw, ra_id = ra_id raw, ra_version = ra_version raw,
      ra_initial_state = ra_initial_state raw, ra_terminal_states = ra_terminal_states raw,
      ra_metadata_schema = ra_metadata_schema raw,
      ra_states = map (\<lambda>(i, k). (i, case k of Some k' \<Rightarrow> k'
         | None \<Rightarrow> if i \<in> set (ra_terminal_states raw) then Terminal else Active)) (ra_states raw),
      ra_transitions = ra_transitions raw, ra_events = ra_events raw,
      ra_convergence = ra_convergence raw, ra_checkpoints = ra_checkpoints raw\<rparr>"

end
