(* ===== verification/MemoryStore.thy ===== *)
theory MemoryStore
  imports Contracts
begin

text \<open>
  The in-memory persistence adapter, \<open>packages/runtime-persistence/src/memory/store.ts\<close>: the store,
  a transaction that buffers its writes (but allocates sequence numbers at once), commit and
  rollback, and the operations outside a transaction. Times that the code reads with \<open>new Date()\<close>
  or \<open>Date.now()\<close> are arguments.
\<close>

section \<open>State\<close>

record outbox_row =
  ob_seq :: nat
  ob_processed_at :: "iso_time option"
  ob_lease_owner :: "string option"
  ob_lease_expires_at :: "iso_time option"
  ob_attempt_count :: nat
  ob_next_attempt_at :: "iso_time option"
  ob_last_error :: "string option"

record memory_store_state =
  ms_journal :: "journal_entry list"
  ms_snapshots :: "(string, aggregate) jsmap"
  ms_checkpoints :: "(string, checkpoint) jsmap"
  ms_idempotency :: "(string, command_result) jsmap"
  ms_waits :: "(string, wait_row) jsmap"
  ms_dedup :: "(string, iso_time) jsmap"
  ms_deliveryLog :: "delivery_log_entry list"
  ms_projections :: "(string, nat \<times> jobj) jsmap"
  ms_reactions :: "(string, reaction_spec) jsmap"
  ms_outbox :: "(nat, outbox_row) jsmap"
  ms_nextSeq :: nat
  ms_scopeSeq :: "(string, nat) jsmap"
  ms_aggregateSeq :: "(string, nat) jsmap"
  ms_reactionQueue :: "reaction_queue_item list"
  ms_reactionQueueClaimed :: "string set"
  ms_projectionApplied :: "string set"
  ms_projectionCursors :: "(string, int) jsmap"
  ms_projectionLocks :: "(string, string \<times> iso_time) jsmap"

definition createMemoryStoreState :: memory_store_state where
  "createMemoryStoreState = \<lparr>ms_journal = [], ms_snapshots = [], ms_checkpoints = [],
     ms_idempotency = [], ms_waits = [], ms_dedup = [], ms_deliveryLog = [], ms_projections = [],
     ms_reactions = [], ms_outbox = [], ms_nextSeq = 1, ms_scopeSeq = [], ms_aggregateSeq = [],
     ms_reactionQueue = [], ms_reactionQueueClaimed = {}, ms_projectionApplied = {},
     ms_projectionCursors = [], ms_projectionLocks = []\<rparr>"

definition projectionKey :: "string \<Rightarrow> string \<Rightarrow> string option \<Rightarrow> string" where
  "projectionKey name scope aid =
     name @ '':'' @ scope @ '':'' @ (case aid of None \<Rightarrow> ''_'' | Some a \<Rightarrow> a)"

definition appliedKey :: "string \<Rightarrow> nat \<Rightarrow> string" where
  "appliedKey name sq = name @ '':'' @ nat_str sq"

record projection_op =
  po_name :: string
  po_scope_id :: string
  po_aggregate_id :: "string option"
  po_seq :: nat
  po_state :: jobj

text \<open>The buffers of \<open>MemoryTransaction\<close>; the last component of an outcome tells \<open>inserted\<close>.\<close>

record memory_transaction =
  tx_state :: memory_store_state
  tx_journalDrafts :: "journal_entry list"
  tx_snapshotOps :: "aggregate list"
  tx_checkpointOps :: "checkpoint list"
  tx_checkpointCasOps :: "(string \<times> checkpoint_status \<times> checkpoint_status \<times> bool) list"
  tx_idempotencyOps :: "(string \<times> command_result \<times> bool) list"
  tx_waitOps :: "wait_row list"
  tx_outboxOps :: "nat list"
  tx_dedupOps :: "(string \<times> iso_time \<times> bool) list"
  tx_deliveryOps :: "delivery_log_entry list"
  tx_projectionOps :: "projection_op list"
  tx_reactionOps :: "reaction_spec list"
  tx_reactionQueueOps :: "reaction_queue_item list"
  tx_projectionAppliedOps :: "(string \<times> nat \<times> bool) list"

definition begin_tx :: "memory_store_state \<Rightarrow> memory_transaction" where
  "begin_tx s = \<lparr>tx_state = s, tx_journalDrafts = [], tx_snapshotOps = [], tx_checkpointOps = [],
     tx_checkpointCasOps = [], tx_idempotencyOps = [], tx_waitOps = [], tx_outboxOps = [],
     tx_dedupOps = [], tx_deliveryOps = [], tx_projectionOps = [], tx_reactionOps = [],
     tx_reactionQueueOps = [], tx_projectionAppliedOps = []\<rparr>"

section \<open>Operations of a transaction\<close>

definition counter_of :: "(string, nat) jsmap \<Rightarrow> string \<Rightarrow> nat" where
  "counter_of m k = (case js_get m k of None \<Rightarrow> 0 | Some n \<Rightarrow> n)"

definition appendJournal ::
    "journal_entry_draft \<Rightarrow> memory_transaction \<Rightarrow> allocated_seq \<times> memory_transaction" where
  "appendJournal d t =
     (let s = tx_state t;
          sq = ms_nextSeq s;
          scope_seq = counter_of (ms_scopeSeq s) (je_scope_id d) + 1;
          s1 = s\<lparr>ms_nextSeq := sq + 1, ms_scopeSeq := js_set (je_scope_id d) scope_seq (ms_scopeSeq s)\<rparr>;
          (agg_seq, s2) =
            (if truthy_str (je_aggregate_id d)
             then let aid = the (je_aggregate_id d);
                      n = counter_of (ms_aggregateSeq s1) aid + 1
                  in (Some n, s1\<lparr>ms_aggregateSeq := js_set aid n (ms_aggregateSeq s1)\<rparr>)
             else (None, s1))
      in (\<lparr>al_seq = sq, al_scope_seq = Some scope_seq, al_aggregate_seq = agg_seq\<rparr>,
          t\<lparr>tx_state := s2,
            tx_journalDrafts := tx_journalDrafts t @ [commit_entry d sq (Some scope_seq) agg_seq]\<rparr>))"

text \<open>\<open>True\<close> is the outcome \<open>ok\<close>, \<open>False\<close> is \<open>conflict\<close>.\<close>

definition upsertSnapshotIfRevision ::
    "aggregate \<Rightarrow> int \<Rightarrow> memory_transaction \<Rightarrow> bool \<times> memory_transaction" where
  "upsertSnapshotIfRevision ag expected t =
     (let current = js_get (ms_snapshots (tx_state t)) (ag_aggregate_id ag);
          effective = (case current of None \<Rightarrow> - 1 | Some c \<Rightarrow> ag_revision c)
      in if effective \<noteq> expected then (False, t)
         else (True, t\<lparr>tx_snapshotOps := tx_snapshotOps t @ [ag]\<rparr>))"

definition tx_getSnapshot :: "string \<Rightarrow> memory_transaction \<Rightarrow> aggregate option" where
  "tx_getSnapshot aid t = js_get (ms_snapshots (tx_state t)) aid"

definition upsertCheckpoint :: "checkpoint \<Rightarrow> memory_transaction \<Rightarrow> memory_transaction" where
  "upsertCheckpoint c t = t\<lparr>tx_checkpointOps := tx_checkpointOps t @ [c]\<rparr>"

definition tx_getCheckpoint :: "string \<Rightarrow> memory_transaction \<Rightarrow> checkpoint option" where
  "tx_getCheckpoint cid t = js_get (ms_checkpoints (tx_state t)) cid"

definition casCheckpointStatus ::
    "string \<Rightarrow> checkpoint_status \<Rightarrow> checkpoint_status \<Rightarrow> memory_transaction
     \<Rightarrow> bool \<times> memory_transaction" where
  "casCheckpointStatus cid expected target t =
     (let hit = (case js_get (ms_checkpoints (tx_state t)) cid of
                   None \<Rightarrow> False | Some c \<Rightarrow> cp_status c = expected)
      in (hit, t\<lparr>tx_checkpointCasOps := tx_checkpointCasOps t @ [(cid, expected, target, hit)]\<rparr>))"

text \<open>\<open>True\<close> is \<open>inserted\<close>, \<open>False\<close> is \<open>exists\<close>.\<close>

definition insertIdempotency ::
    "string \<Rightarrow> command_result \<Rightarrow> memory_transaction \<Rightarrow> bool \<times> memory_transaction" where
  "insertIdempotency cid r t =
     (let fresh = (\<not> js_has (ms_idempotency (tx_state t)) cid)
      in (fresh, t\<lparr>tx_idempotencyOps := tx_idempotencyOps t @ [(cid, r, fresh)]\<rparr>))"

definition tx_getIdempotency :: "string \<Rightarrow> memory_transaction \<Rightarrow> command_result option" where
  "tx_getIdempotency cid t = js_get (ms_idempotency (tx_state t)) cid"

definition insertWait :: "wait_row \<Rightarrow> memory_transaction \<Rightarrow> memory_transaction" where
  "insertWait r t = t\<lparr>tx_waitOps := tx_waitOps t @ [r]\<rparr>"

definition tx_getWait :: "string \<Rightarrow> memory_transaction \<Rightarrow> wait_row option" where
  "tx_getWait wid t = js_get (ms_waits (tx_state t)) wid"

definition updateWait :: "wait_row \<Rightarrow> memory_transaction \<Rightarrow> memory_transaction" where
  "updateWait r t = t\<lparr>tx_waitOps := tx_waitOps t @ [r]\<rparr>"

definition deleteWait :: "string \<Rightarrow> memory_transaction \<Rightarrow> memory_transaction" where
  "deleteWait wid t =
     t\<lparr>tx_state := (tx_state t)\<lparr>ms_waits := js_delete wid (ms_waits (tx_state t))\<rparr>\<rparr>"

definition insertOutbox :: "nat \<Rightarrow> memory_transaction \<Rightarrow> memory_transaction" where
  "insertOutbox sq t = t\<lparr>tx_outboxOps := tx_outboxOps t @ [sq]\<rparr>"

definition insertDedup ::
    "iso_time \<Rightarrow> string \<Rightarrow> iso_time \<Rightarrow> memory_transaction \<Rightarrow> bool \<times> memory_transaction" where
  "insertDedup now key expires t =
     (let live = (case js_get (ms_dedup (tx_state t)) key of None \<Rightarrow> False | Some e \<Rightarrow> e > now)
      in (\<not> live, t\<lparr>tx_dedupOps := tx_dedupOps t @ [(key, expires, \<not> live)]\<rparr>))"

definition appendDeliveryLog :: "delivery_log_entry \<Rightarrow> memory_transaction \<Rightarrow> memory_transaction" where
  "appendDeliveryLog e t = t\<lparr>tx_deliveryOps := tx_deliveryOps t @ [e]\<rparr>"

definition upsertProjection ::
    "string \<Rightarrow> string \<Rightarrow> string option \<Rightarrow> nat \<Rightarrow> jobj \<Rightarrow> memory_transaction \<Rightarrow> memory_transaction" where
  "upsertProjection name scope aid sq st t =
     t\<lparr>tx_projectionOps := tx_projectionOps t @
        [\<lparr>po_name = name, po_scope_id = scope, po_aggregate_id = aid, po_seq = sq, po_state = st\<rparr>]\<rparr>"

definition insertReaction :: "reaction_spec \<Rightarrow> memory_transaction \<Rightarrow> memory_transaction" where
  "insertReaction r t = t\<lparr>tx_reactionOps := tx_reactionOps t @ [r]\<rparr>"

definition enqueueReaction :: "reaction_queue_item \<Rightarrow> memory_transaction \<Rightarrow> memory_transaction" where
  "enqueueReaction i t = t\<lparr>tx_reactionQueueOps := tx_reactionQueueOps t @ [i]\<rparr>"

definition tryMarkProjectionApplied ::
    "string \<Rightarrow> nat \<Rightarrow> memory_transaction \<Rightarrow> bool \<times> memory_transaction" where
  "tryMarkProjectionApplied name sq t =
     (let fresh = (appliedKey name sq \<notin> ms_projectionApplied (tx_state t))
      in (fresh, t\<lparr>tx_projectionAppliedOps := tx_projectionAppliedOps t @ [(name, sq, fresh)]\<rparr>))"

section \<open>Commit and rollback\<close>

definition fresh_outbox_row :: "nat \<Rightarrow> outbox_row" where
  "fresh_outbox_row sq = \<lparr>ob_seq = sq, ob_processed_at = None, ob_lease_owner = None,
     ob_lease_expires_at = None, ob_attempt_count = 0, ob_next_attempt_at = None,
     ob_last_error = None\<rparr>"

definition apply_cas ::
    "(string \<times> checkpoint_status \<times> checkpoint_status \<times> bool) \<Rightarrow> (string, checkpoint) jsmap
     \<Rightarrow> (string, checkpoint) jsmap" where
  "apply_cas op m =
     (case op of (cid, _, target, hit) \<Rightarrow>
        if hit then (case js_get m cid of None \<Rightarrow> m
                     | Some c \<Rightarrow> js_set cid (c\<lparr>cp_status := target\<rparr>) m)
        else m)"

definition apply_projection_op ::
    "projection_op \<Rightarrow> (string, nat \<times> jobj) jsmap \<Rightarrow> (string, nat \<times> jobj) jsmap" where
  "apply_projection_op p m =
     (let key = projectionKey (po_name p) (po_scope_id p) (po_aggregate_id p)
      in case js_get m key of
           None \<Rightarrow> js_set key (po_seq p, po_state p) m
         | Some old \<Rightarrow> if po_seq p \<ge> fst old then js_set key (po_seq p, po_state p) m else m)"

definition commit_tx :: "memory_transaction \<Rightarrow> memory_store_state" where
  "commit_tx t =
     (let s = tx_state t in
      s\<lparr>ms_journal := ms_journal s @ tx_journalDrafts t,
        ms_snapshots := fold (\<lambda>a. js_set (ag_aggregate_id a) a) (tx_snapshotOps t) (ms_snapshots s),
        ms_checkpoints := fold apply_cas (tx_checkpointCasOps t)
          (fold (\<lambda>c. js_set (cp_checkpoint_id c) c) (tx_checkpointOps t) (ms_checkpoints s)),
        ms_idempotency := fold (\<lambda>(cid, r, ins) m. if ins then js_set cid r m else m)
          (tx_idempotencyOps t) (ms_idempotency s),
        ms_waits := fold (\<lambda>w. js_set (wt_wait_id w) w) (tx_waitOps t) (ms_waits s),
        ms_outbox := fold (\<lambda>sq. js_set sq (fresh_outbox_row sq)) (tx_outboxOps t) (ms_outbox s),
        ms_dedup := fold (\<lambda>(k, e, ins) m. if ins then js_set k e m else m) (tx_dedupOps t) (ms_dedup s),
        ms_deliveryLog := ms_deliveryLog s @ tx_deliveryOps t,
        ms_projections := fold apply_projection_op (tx_projectionOps t) (ms_projections s),
        ms_reactions := fold (\<lambda>r. js_set (rx_reaction_id r) r) (tx_reactionOps t) (ms_reactions s),
        ms_reactionQueue := ms_reactionQueue s @ tx_reactionQueueOps t,
        ms_projectionApplied := fold (\<lambda>(n, sq, ins) m. if ins then insert (appliedKey n sq) m else m)
          (tx_projectionAppliedOps t) (ms_projectionApplied s)\<rparr>)"

definition rollback_tx :: "memory_transaction \<Rightarrow> memory_store_state" where
  "rollback_tx t =
     (tx_state t)\<lparr>ms_nextSeq := fold (\<lambda>e n. min n (je_seq e)) (tx_journalDrafts t)
                                 (ms_nextSeq (tx_state t))\<rparr>"

datatype js_error = JsError string

text \<open>The callback either throws (\<open>Inl\<close>, rolled back and thrown on) or returns (\<open>Inr\<close>, committed).\<close>

definition runInTransaction ::
    "(memory_transaction \<Rightarrow> (js_error + 'a) \<times> memory_transaction) \<Rightarrow> memory_store_state
     \<Rightarrow> (js_error + 'a) \<times> memory_store_state" where
  "runInTransaction body s =
     (case body (begin_tx s) of
        (Inr r, t) \<Rightarrow> (Inr r, commit_tx t)
      | (Inl e, t) \<Rightarrow> (Inl e, rollback_tx t))"

section \<open>Operations outside a transaction\<close>

definition tailJournal :: "nat \<Rightarrow> nat \<Rightarrow> memory_store_state \<Rightarrow> journal_entry list" where
  "tailJournal from limit s = take limit (filter (\<lambda>e. je_seq e > from) (ms_journal s))"

fun claim_loop ::
    "nat \<Rightarrow> string \<Rightarrow> iso_time \<Rightarrow> iso_time \<Rightarrow> journal_entry list \<Rightarrow> (nat \<times> outbox_row) list
     \<Rightarrow> journal_entry list \<Rightarrow> (nat, outbox_row) jsmap
     \<Rightarrow> journal_entry list \<times> (nat, outbox_row) jsmap" where
  "claim_loop limit worker now lease_expires journal [] claimed ob = (claimed, ob)"
| "claim_loop limit worker now lease_expires journal ((sq, row) # rows) claimed ob =
     (if length claimed \<ge> limit then (claimed, ob)
      else if ob_processed_at row \<noteq> None then
        claim_loop limit worker now lease_expires journal rows claimed ob
      else if (case ob_lease_expires_at row of None \<Rightarrow> False | Some e \<Rightarrow> e > now)
              \<and> ob_lease_owner row \<noteq> Some worker then
        claim_loop limit worker now lease_expires journal rows claimed ob
      else case find (\<lambda>e. je_seq e = sq) journal of
          None \<Rightarrow> claim_loop limit worker now lease_expires journal rows claimed ob
        | Some e \<Rightarrow>
            claim_loop limit worker now lease_expires journal rows (claimed @ [e])
              (js_set sq (row\<lparr>ob_lease_owner := Some worker,
                              ob_lease_expires_at := Some lease_expires,
                              ob_attempt_count := ob_attempt_count row + 1\<rparr>) ob))"

definition claimFanoutBatch ::
    "nat \<Rightarrow> string \<Rightarrow> nat \<Rightarrow> iso_time \<Rightarrow> memory_store_state
     \<Rightarrow> journal_entry list \<times> memory_store_state" where
  "claimFanoutBatch limit worker lease_ms now s =
     (case claim_loop limit worker now (now + lease_ms) (ms_journal s) (ms_outbox s) [] (ms_outbox s) of
        (claimed, ob) \<Rightarrow> (claimed, s\<lparr>ms_outbox := ob\<rparr>))"

definition ackFanout :: "nat \<Rightarrow> iso_time \<Rightarrow> memory_store_state \<Rightarrow> memory_store_state" where
  "ackFanout sq now s =
     (case js_get (ms_outbox s) sq of
        None \<Rightarrow> s
      | Some row \<Rightarrow> s\<lparr>ms_outbox := js_set sq (row\<lparr>ob_processed_at := Some now,
            ob_lease_owner := None, ob_lease_expires_at := None\<rparr>) (ms_outbox s)\<rparr>)"

definition failFanout :: "nat \<Rightarrow> string \<Rightarrow> iso_time \<Rightarrow> memory_store_state \<Rightarrow> memory_store_state" where
  "failFanout sq err retry_at s =
     (case js_get (ms_outbox s) sq of
        None \<Rightarrow> s
      | Some row \<Rightarrow> s\<lparr>ms_outbox := js_set sq (row\<lparr>ob_lease_owner := None,
            ob_lease_expires_at := None, ob_next_attempt_at := Some retry_at,
            ob_last_error := Some err\<rparr>) (ms_outbox s)\<rparr>)"

definition getReaction :: "string \<Rightarrow> memory_store_state \<Rightarrow> reaction_spec option" where
  "getReaction rid s = js_get (ms_reactions s) rid"

definition listReactions :: "string \<Rightarrow> memory_store_state \<Rightarrow> reaction_spec list" where
  "listReactions scope s =
     filter (\<lambda>r. rx_scope_id r = scope \<and> rx_enabled r) (js_values (ms_reactions s))"

definition getProjection ::
    "string \<Rightarrow> string \<Rightarrow> string option \<Rightarrow> memory_store_state \<Rightarrow> (nat \<times> jobj) option" where
  "getProjection name scope aid s = js_get (ms_projections s) (projectionKey name scope aid)"

definition getMaxSeq :: "memory_store_state \<Rightarrow> nat" where
  "getMaxSeq s = (if ms_journal s = [] then 0 else je_seq (last (ms_journal s)))"

definition listPendingWaits ::
    "string \<Rightarrow> string option \<Rightarrow> memory_store_state \<Rightarrow> wait_row list" where
  "listPendingWaits scope aid s =
     filter (\<lambda>w. wt_scope_id w = scope \<and> wt_status w = WPending
                 \<and> (\<not> truthy_str aid \<or> wt_aggregate_id w = aid)) (js_values (ms_waits s))"

definition listCheckpoints :: "string \<Rightarrow> memory_store_state \<Rightarrow> checkpoint list" where
  "listCheckpoints aid s = filter (\<lambda>c. cp_aggregate_id c = aid) (js_values (ms_checkpoints s))"

definition claimReactionBatch ::
    "nat \<Rightarrow> memory_store_state \<Rightarrow> reaction_queue_item list \<times> memory_store_state" where
  "claimReactionBatch limit s =
     (let batch = take limit
            (filter (\<lambda>q. rq_queue_id q \<notin> ms_reactionQueueClaimed s) (ms_reactionQueue s))
      in (batch, s\<lparr>ms_reactionQueueClaimed :=
            fold (\<lambda>q. insert (rq_queue_id q)) batch (ms_reactionQueueClaimed s)\<rparr>))"

fun remove_first :: "('a \<Rightarrow> bool) \<Rightarrow> 'a list \<Rightarrow> 'a list" where
  "remove_first P [] = []"
| "remove_first P (x # xs) = (if P x then xs else x # remove_first P xs)"

definition completeReaction ::
    "string \<Rightarrow> delivery_log_entry \<Rightarrow> memory_store_state \<Rightarrow> memory_store_state" where
  "completeReaction qid delivery s =
     s\<lparr>ms_deliveryLog := ms_deliveryLog s @ [delivery],
       ms_reactionQueue := remove_first (\<lambda>q. rq_queue_id q = qid) (ms_reactionQueue s),
       ms_reactionQueueClaimed := ms_reactionQueueClaimed s - {qid}\<rparr>"

text \<open>The lease starts at the second clock reading, \<open>now2\<close>.\<close>

definition acquireProjectionLock ::
    "string \<Rightarrow> string \<Rightarrow> nat \<Rightarrow> iso_time \<Rightarrow> iso_time \<Rightarrow> memory_store_state
     \<Rightarrow> bool \<times> memory_store_state" where
  "acquireProjectionLock name owner lease_ms now now2 s =
     (if (case js_get (ms_projectionLocks s) name of
            None \<Rightarrow> False | Some (holder, expires) \<Rightarrow> expires > now \<and> holder \<noteq> owner)
      then (False, s)
      else (True, s\<lparr>ms_projectionLocks :=
             js_set name (owner, now2 + lease_ms) (ms_projectionLocks s)\<rparr>))"

definition releaseProjectionLock :: "string \<Rightarrow> string \<Rightarrow> memory_store_state \<Rightarrow> memory_store_state" where
  "releaseProjectionLock name owner s =
     (case js_get (ms_projectionLocks s) name of
        None \<Rightarrow> s
      | Some (holder, _) \<Rightarrow>
          if holder = owner then s\<lparr>ms_projectionLocks := js_delete name (ms_projectionLocks s)\<rparr> else s)"

definition getProjectionCursor :: "string \<Rightarrow> memory_store_state \<Rightarrow> int" where
  "getProjectionCursor name s =
     (case js_get (ms_projectionCursors s) name of None \<Rightarrow> 0 | Some c \<Rightarrow> c)"

definition setProjectionCursor :: "string \<Rightarrow> int \<Rightarrow> memory_store_state \<Rightarrow> memory_store_state" where
  "setProjectionCursor name c s = s\<lparr>ms_projectionCursors := js_set name c (ms_projectionCursors s)\<rparr>"

end
