(* ===== verification/StoreProofs.thy ===== *)
theory StoreProofs
  imports MemoryStore
begin

text \<open>
  What the in-memory store guarantees: a journal numbered without gaps across commit and
  rollback, compare-and-swap on revisions, idempotency and deduplication by first write, fan-out
  leases, acknowledgement, the reaction queue and projection locks. Two interfaces are stated as
  locales, a sequenced log and an owned lease, and interpreted on the store's own operations.
\<close>

section \<open>Reading the results of the operations\<close>

lemma begin_tx_sel [simp]:
  "tx_state (begin_tx s) = s" "tx_journalDrafts (begin_tx s) = []" "tx_snapshotOps (begin_tx s) = []"
  "tx_checkpointOps (begin_tx s) = []" "tx_checkpointCasOps (begin_tx s) = []"
  "tx_idempotencyOps (begin_tx s) = []" "tx_waitOps (begin_tx s) = []"
  "tx_outboxOps (begin_tx s) = []" "tx_dedupOps (begin_tx s) = []"
  "tx_deliveryOps (begin_tx s) = []" "tx_projectionOps (begin_tx s) = []"
  "tx_reactionOps (begin_tx s) = []" "tx_reactionQueueOps (begin_tx s) = []"
  "tx_projectionAppliedOps (begin_tx s) = []"
  by (simp_all add: begin_tx_def)

lemma commit_tx_sel [simp]:
  "ms_journal (commit_tx t) = ms_journal (tx_state t) @ tx_journalDrafts t"
  "ms_snapshots (commit_tx t) =
     fold (\<lambda>a. js_set (ag_aggregate_id a) a) (tx_snapshotOps t) (ms_snapshots (tx_state t))"
  "ms_checkpoints (commit_tx t) = fold apply_cas (tx_checkpointCasOps t)
     (fold (\<lambda>c. js_set (cp_checkpoint_id c) c) (tx_checkpointOps t) (ms_checkpoints (tx_state t)))"
  "ms_idempotency (commit_tx t) = fold (\<lambda>(cid, r, ins) m. if ins then js_set cid r m else m)
     (tx_idempotencyOps t) (ms_idempotency (tx_state t))"
  "ms_waits (commit_tx t) =
     fold (\<lambda>w. js_set (wt_wait_id w) w) (tx_waitOps t) (ms_waits (tx_state t))"
  "ms_outbox (commit_tx t) =
     fold (\<lambda>sq. js_set sq (fresh_outbox_row sq)) (tx_outboxOps t) (ms_outbox (tx_state t))"
  "ms_dedup (commit_tx t) = fold (\<lambda>(k, e, ins) m. if ins then js_set k e m else m)
     (tx_dedupOps t) (ms_dedup (tx_state t))"
  "ms_deliveryLog (commit_tx t) = ms_deliveryLog (tx_state t) @ tx_deliveryOps t"
  "ms_projections (commit_tx t) =
     fold apply_projection_op (tx_projectionOps t) (ms_projections (tx_state t))"
  "ms_reactions (commit_tx t) =
     fold (\<lambda>r. js_set (rx_reaction_id r) r) (tx_reactionOps t) (ms_reactions (tx_state t))"
  "ms_reactionQueue (commit_tx t) = ms_reactionQueue (tx_state t) @ tx_reactionQueueOps t"
  "ms_projectionApplied (commit_tx t) =
     fold (\<lambda>(n, sq, ins) m. if ins then insert (appliedKey n sq) m else m)
       (tx_projectionAppliedOps t) (ms_projectionApplied (tx_state t))"
  "ms_nextSeq (commit_tx t) = ms_nextSeq (tx_state t)"
  "ms_scopeSeq (commit_tx t) = ms_scopeSeq (tx_state t)"
  "ms_aggregateSeq (commit_tx t) = ms_aggregateSeq (tx_state t)"
  "ms_reactionQueueClaimed (commit_tx t) = ms_reactionQueueClaimed (tx_state t)"
  "ms_projectionCursors (commit_tx t) = ms_projectionCursors (tx_state t)"
  "ms_projectionLocks (commit_tx t) = ms_projectionLocks (tx_state t)"
  by (simp_all add: commit_tx_def Let_def)

text \<open>A transaction that buffers nothing commits to the same store.\<close>

lemma commit_begin [simp]: "commit_tx (begin_tx s) = s"
  by (simp add: commit_tx_def Let_def)

text \<open>The entry an append buffers, and the counters it advances.\<close>

definition appended :: "journal_entry_draft \<Rightarrow> memory_store_state \<Rightarrow> journal_entry" where
  "appended d s = commit_entry d (ms_nextSeq s) (Some (counter_of (ms_scopeSeq s) (je_scope_id d) + 1))
     (if truthy_str (je_aggregate_id d)
      then Some (counter_of (ms_aggregateSeq s) (the (je_aggregate_id d)) + 1) else None)"

definition advanced :: "journal_entry_draft \<Rightarrow> memory_store_state \<Rightarrow> memory_store_state" where
  "advanced d s = s\<lparr>ms_nextSeq := ms_nextSeq s + 1,
     ms_scopeSeq := js_set (je_scope_id d) (counter_of (ms_scopeSeq s) (je_scope_id d) + 1) (ms_scopeSeq s),
     ms_aggregateSeq := (if truthy_str (je_aggregate_id d)
       then js_set (the (je_aggregate_id d))
              (counter_of (ms_aggregateSeq s) (the (je_aggregate_id d)) + 1) (ms_aggregateSeq s)
       else ms_aggregateSeq s)\<rparr>"

lemma appendJournal_eq:
  "appendJournal d t =
     (\<lparr>al_seq = ms_nextSeq (tx_state t), al_scope_seq = je_scope_seq (appended d (tx_state t)),
       al_aggregate_seq = je_aggregate_seq (appended d (tx_state t))\<rparr>,
      t\<lparr>tx_state := advanced d (tx_state t),
        tx_journalDrafts := tx_journalDrafts t @ [appended d (tx_state t)]\<rparr>)"
  by (simp add: appendJournal_def appended_def advanced_def Let_def)

lemma appended_sel [simp]:
  "je_seq (appended d s) = ms_nextSeq s" "je_entry_id (appended d s) = je_entry_id d"
  "je_outcome (appended d s) = je_outcome d" "je_type (appended d s) = je_type d"
  "je_payload (appended d s) = je_payload d" "je_scope_id (appended d s) = je_scope_id d"
  "je_aggregate_id (appended d s) = je_aggregate_id d" "je_ts (appended d s) = je_ts d"
  "je_command_id (appended d s) = je_command_id d" "je_denial (appended d s) = je_denial d"
  by (simp_all add: appended_def)

lemma advanced_sel [simp]:
  "ms_journal (advanced d s) = ms_journal s" "ms_snapshots (advanced d s) = ms_snapshots s"
  "ms_checkpoints (advanced d s) = ms_checkpoints s"
  "ms_idempotency (advanced d s) = ms_idempotency s" "ms_waits (advanced d s) = ms_waits s"
  "ms_dedup (advanced d s) = ms_dedup s" "ms_deliveryLog (advanced d s) = ms_deliveryLog s"
  "ms_projections (advanced d s) = ms_projections s" "ms_reactions (advanced d s) = ms_reactions s"
  "ms_outbox (advanced d s) = ms_outbox s" "ms_nextSeq (advanced d s) = ms_nextSeq s + 1"
  "ms_reactionQueue (advanced d s) = ms_reactionQueue s"
  "ms_reactionQueueClaimed (advanced d s) = ms_reactionQueueClaimed s"
  "ms_projectionApplied (advanced d s) = ms_projectionApplied s"
  "ms_projectionCursors (advanced d s) = ms_projectionCursors s"
  "ms_projectionLocks (advanced d s) = ms_projectionLocks s"
  by (simp_all add: advanced_def)

lemmas tx_op_defs =
  appendJournal_eq upsertSnapshotIfRevision_def tx_getSnapshot_def upsertCheckpoint_def
  tx_getCheckpoint_def casCheckpointStatus_def insertIdempotency_def tx_getIdempotency_def
  insertWait_def tx_getWait_def updateWait_def deleteWait_def insertOutbox_def insertDedup_def
  appendDeliveryLog_def upsertProjection_def insertReaction_def enqueueReaction_def
  tryMarkProjectionApplied_def

section \<open>A sequenced log\<close>

text \<open>
  The interface the kernel relies on when it writes: entries numbered from the log's counter.
  \<open>seqs\<close> is the sequence of numbers allocated, \<open>next\<close> the number allocated next.
\<close>

locale sequenced_log =
  fixes seqs :: "'t \<Rightarrow> nat list"
    and "next" :: "'t \<Rightarrow> nat"
    and append :: "'d \<Rightarrow> 't \<Rightarrow> 't"
  assumes seqs_append: "seqs (append d t) = seqs t @ [next t]"
    and next_append: "next (append d t) = Suc (next t)"
begin

definition gapless :: "'t \<Rightarrow> bool" where
  "gapless t \<longleftrightarrow> 1 \<le> next t \<and> seqs t = [1..<next t]"

lemma gapless_append: "gapless t \<Longrightarrow> gapless (append d t)"
  by (simp add: gapless_def seqs_append next_append)

lemma gapless_appends: "gapless t \<Longrightarrow> gapless (fold append ds t)"
  by (induction ds arbitrary: t) (auto intro: gapless_append)

lemma next_appends: "next (fold append ds t) = next t + length ds"
  by (induction ds arbitrary: t) (simp_all add: next_append)

lemma appends_numbers: "seqs (fold append ds t) = seqs t @ [next t..<next t + length ds]"
proof (induction ds arbitrary: t)
  case Nil
  show ?case by simp
next
  case (Cons d ds)
  have "[next t..<next t + length (d # ds)] = next t # [Suc (next t)..<Suc (next t) + length ds]"
    by (subst upt_conv_Cons) simp_all
  with Cons show ?case by (simp add: seqs_append next_append)
qed

end

definition tx_seqs :: "memory_transaction \<Rightarrow> nat list" where
  "tx_seqs t = map je_seq (ms_journal (tx_state t) @ tx_journalDrafts t)"

definition tx_next :: "memory_transaction \<Rightarrow> nat" where
  "tx_next t = ms_nextSeq (tx_state t)"

interpretation txlog: sequenced_log tx_seqs tx_next "\<lambda>d t. snd (appendJournal d t)"
  by unfold_locales (simp_all add: tx_seqs_def tx_next_def appendJournal_eq)

text \<open>The journal's invariant: numbered 1, 2, 3, ... and the counter is one past its length.\<close>

definition journal_ok :: "memory_store_state \<Rightarrow> bool" where
  "journal_ok s \<longleftrightarrow> 1 \<le> ms_nextSeq s \<and> map je_seq (ms_journal s) = [1..<ms_nextSeq s]"

definition tx_ok :: "memory_transaction \<Rightarrow> bool" where
  "tx_ok t \<longleftrightarrow> journal_ok ((tx_state t)\<lparr>ms_journal := ms_journal (tx_state t) @ tx_journalDrafts t\<rparr>)"

lemma tx_ok_gapless: "tx_ok t \<longleftrightarrow> txlog.gapless t"
  by (simp add: tx_ok_def journal_ok_def txlog.gapless_def tx_seqs_def tx_next_def)

lemma journal_ok_create [simp]: "journal_ok createMemoryStoreState"
  by (simp add: journal_ok_def createMemoryStoreState_def)

lemma tx_ok_begin [simp]: "tx_ok (begin_tx s) \<longleftrightarrow> journal_ok s"
  by (simp add: tx_ok_def)

lemma tx_ok_append: "tx_ok t \<Longrightarrow> tx_ok (snd (appendJournal d t))"
  unfolding tx_ok_gapless by (rule txlog.gapless_append)

interpretation tx_run: invariant_system "\<lambda>d t. snd (appendJournal d t)" tx_ok
  by unfold_locales (rule tx_ok_append)

lemma journal_ok_commit: "tx_ok t \<Longrightarrow> journal_ok (commit_tx t)"
  by (simp add: tx_ok_def journal_ok_def)

lemma journal_ok_nextSeq: "journal_ok s \<Longrightarrow> ms_nextSeq s = Suc (length (ms_journal s))"
proof -
  assume "journal_ok s"
  then have "length (map je_seq (ms_journal s)) = length [1..<ms_nextSeq s]" and "1 \<le> ms_nextSeq s"
    by (simp_all only: journal_ok_def)
  then show ?thesis by simp
qed

lemma journal_ok_nth: "journal_ok s \<Longrightarrow> i < length (ms_journal s) \<Longrightarrow> je_seq (ms_journal s ! i) = Suc i"
proof -
  assume *: "journal_ok s" "i < length (ms_journal s)"
  then have "map je_seq (ms_journal s) ! i = [1..<ms_nextSeq s] ! i"
    by (simp add: journal_ok_def)
  with * show ?thesis by (simp add: journal_ok_nextSeq nth_upt del: upt_Suc)
qed

lemma journal_ok_sorted: "journal_ok s \<Longrightarrow> sorted (map je_seq (ms_journal s))"
  by (simp add: journal_ok_def)

lemma journal_ok_bound: "journal_ok s \<Longrightarrow> e \<in> set (ms_journal s) \<Longrightarrow> je_seq e < ms_nextSeq s"
  unfolding journal_ok_def by (metis atLeastLessThan_iff imageI set_map set_upt)

lemma getMaxSeq_eq: "journal_ok s \<Longrightarrow> getMaxSeq s = length (ms_journal s)"
  by (auto simp: getMaxSeq_def last_conv_nth journal_ok_nth)

lemma filter_above:
  assumes "map je_seq xs = [Suc 0..<Suc (length xs)]"
  shows "filter (\<lambda>e. je_seq e > n) xs = drop n xs"
  using assms
proof (induction xs rule: rev_induct)
  case (snoc x xs)
  then have "map je_seq xs = [Suc 0..<Suc (length xs)]" and "je_seq x = Suc (length xs)" by auto
  with snoc.IH show ?case by auto
qed simp

lemma journal_ok_seqs: "journal_ok s \<Longrightarrow> map je_seq (ms_journal s) = [Suc 0..<Suc (length (ms_journal s))]"
  by (metis One_nat_def journal_ok_def journal_ok_nextSeq)

lemma tailJournal_eq: "journal_ok s \<Longrightarrow> tailJournal n limit s = take limit (drop n (ms_journal s))"
  by (simp only: tailJournal_def filter_above [OF journal_ok_seqs])

section \<open>Rollback\<close>

lemma fold_min_least: "\<forall>e \<in> set es. a \<le> je_seq e \<Longrightarrow> fold (\<lambda>e k. min k (je_seq e)) es a = a"
  by (induction es) (auto simp: min_def)

lemma fold_min_seq:
  assumes "map je_seq es = [a..<n]" and "a \<le> n"
  shows "fold (\<lambda>e k. min k (je_seq e)) es n = a"
proof (cases es)
  case Nil
  with assms have "\<not> a < n" by (metis length_0_conv length_map length_upt zero_less_diff less_numeral_extra(3))
  with Nil assms show ?thesis by simp
next
  case (Cons f fs)
  with assms have lt: "a < n" by (cases "a < n") simp_all
  with Cons assms have "je_seq f = a" and "map je_seq fs = [Suc a..<n]"
    by (simp_all add: upt_conv_Cons)
  moreover from this(2) have "\<forall>e \<in> set fs. a \<le> je_seq e"
    by (metis Suc_leD atLeastLessThan_iff imageI set_map set_upt)
  ultimately show ?thesis using Cons lt by (simp add: fold_min_least)
qed

lemma rollback_sel [simp]:
  "ms_journal (rollback_tx t) = ms_journal (tx_state t)"
  "ms_snapshots (rollback_tx t) = ms_snapshots (tx_state t)"
  "ms_idempotency (rollback_tx t) = ms_idempotency (tx_state t)"
  "ms_scopeSeq (rollback_tx t) = ms_scopeSeq (tx_state t)"
  "ms_aggregateSeq (rollback_tx t) = ms_aggregateSeq (tx_state t)"
  by (simp_all add: rollback_tx_def)

lemma journal_ok_rollback:
  assumes "tx_ok t"
  shows "journal_ok (rollback_tx t)"
proof -
  let ?s = "tx_state t" and ?n = "length (ms_journal (tx_state t))"
  from assms have all: "map je_seq (ms_journal ?s) @ map je_seq (tx_journalDrafts t) = [1..<ms_nextSeq ?s]"
    and pos: "1 \<le> ms_nextSeq ?s"
    by (simp_all add: tx_ok_def journal_ok_def)
  have len: "ms_nextSeq ?s = Suc (?n + length (tx_journalDrafts t))"
    using arg_cong [OF all, of length] pos by simp
  have j: "map je_seq (ms_journal ?s) = [1..<Suc ?n]"
    using arg_cong [OF all, of "take ?n"] len by (simp add: take_upt del: upt_Suc)
  have d: "map je_seq (tx_journalDrafts t) = [Suc ?n..<ms_nextSeq ?s]"
    using arg_cong [OF all, of "drop ?n"] len by (simp add: drop_upt del: upt_Suc)
  have "ms_nextSeq (rollback_tx t) = Suc ?n"
    using fold_min_seq [OF d] len by (simp add: rollback_tx_def)
  with j show ?thesis by (simp add: journal_ok_def)
qed

text \<open>Whatever the callback does, returning or throwing, the journal stays gapless.\<close>

lemma journal_ok_run:
  assumes "\<And>t. tx_ok t \<Longrightarrow> tx_ok (snd (body t))" and "journal_ok s"
  shows "journal_ok (snd (runInTransaction body s))"
proof -
  have "tx_ok (snd (body (begin_tx s)))" using assms by simp
  then show ?thesis
    by (auto simp: runInTransaction_def journal_ok_commit journal_ok_rollback
        split: prod.splits sum.splits)
qed

section \<open>Write-once tables\<close>

text \<open>The interface of the idempotency table and of the applied-projection marks.\<close>

locale write_once =
  fixes look :: "'k \<Rightarrow> 's \<Rightarrow> 'v option"
    and store :: "'k \<Rightarrow> 'v \<Rightarrow> 's \<Rightarrow> 's"
  assumes look_store:
    "look k' (store k v s) = (if k' = k \<and> look k s = None then Some v else look k' s)"
begin

lemma stored_stays: "look k s = Some v \<Longrightarrow> look k (store k' w s) = Some v"
  by (auto simp: look_store)

lemma stored_stays_run: "look k s = Some v \<Longrightarrow> look k (fold (\<lambda>(a, b). store a b) kvs s) = Some v"
  by (induction kvs arbitrary: s) (auto simp: stored_stays)

lemma first_wins:
  "look k s = None \<Longrightarrow> look k (fold (\<lambda>(a, b). store a b) ((k, v) # kvs) s) = Some v"
  by (simp add: look_store stored_stays_run)

end

definition record_result :: "string \<Rightarrow> command_result \<Rightarrow> memory_store_state \<Rightarrow> memory_store_state" where
  "record_result cid r s = snd (runInTransaction
     (\<lambda>t. case insertIdempotency cid r t of (b, t') \<Rightarrow> (Inr b, t')) s)"

definition recorded_result :: "string \<Rightarrow> memory_store_state \<Rightarrow> command_result option" where
  "recorded_result cid s = tx_getIdempotency cid (begin_tx s)"

interpretation idem: write_once recorded_result record_result
  by unfold_locales
    (auto simp: recorded_result_def record_result_def runInTransaction_def tx_op_defs js_has_def Let_def
      split: if_splits)

definition mark_applied :: "string \<times> nat \<Rightarrow> unit \<Rightarrow> memory_store_state \<Rightarrow> memory_store_state" where
  "mark_applied k u s = snd (runInTransaction
     (\<lambda>t. case tryMarkProjectionApplied (fst k) (snd k) t of (b, t') \<Rightarrow> (Inr b, t')) s)"

text \<open>The key \<open>name:seq\<close> determines both: the number is the part after the last colon.\<close>

lemma digit_char_not_colon: "n < 16 \<Longrightarrow> digit_char n \<noteq> CHR '':''"
  using digit_below by blast

lemma radix_no_colon: "2 \<le> b \<Longrightarrow> b \<le> 16 \<Longrightarrow> CHR '':'' \<notin> set (radix_str b n)"
proof (induction b n rule: radix_str.induct)
  case (1 b n)
  have "n mod b < 16" and "n < b \<Longrightarrow> n < 16"
    using 1 by (auto intro: less_le_trans [OF mod_less_divisor])
  with 1 show ?case
    by (subst radix_str.simps) (auto dest: digit_char_not_colon [of "n mod b"] digit_char_not_colon [of n])
qed

lemma nat_str_no_colon [simp]: "CHR '':'' \<notin> set (nat_str n)"
  by (simp add: nat_str_def radix_no_colon)

lemma split_at_last:
  assumes "xs @ c # ys = xs' @ c # ys'" and "c \<notin> set ys" and "c \<notin> set ys'"
  shows "xs = xs' \<and> ys = ys'"
proof -
  have "rev ys @ c # rev xs = rev ys' @ c # rev xs'"
    using arg_cong [OF assms(1), of rev] by simp
  then have "takeWhile (\<lambda>x. x \<noteq> c) (rev ys @ c # rev xs) = takeWhile (\<lambda>x. x \<noteq> c) (rev ys' @ c # rev xs')"
    by simp
  then have "rev ys = rev ys'"
    using assms(2,3) by (subst (asm) (1 2) takeWhile_append2) auto
  with assms(1) show ?thesis by simp
qed

lemma appliedKey_inject: "appliedKey m i = appliedKey n j \<longleftrightarrow> m = n \<and> i = j"
proof
  assume "appliedKey m i = appliedKey n j"
  then have "m @ CHR '':'' # nat_str i = n @ CHR '':'' # nat_str j"
    by (simp add: appliedKey_def)
  then show "m = n \<and> i = j"
    by (auto dest!: split_at_last simp: nat_str_no_colon)
qed simp

interpretation applied: write_once
  "\<lambda>k s. if appliedKey (fst k) (snd k) \<in> ms_projectionApplied s then Some () else None" mark_applied
  by unfold_locales
    (auto simp: mark_applied_def runInTransaction_def tx_op_defs Let_def appliedKey_inject
      split: if_splits)

section \<open>Optimistic concurrency\<close>

lemma upsertSnapshot_ok:
  "fst (upsertSnapshotIfRevision ag expected t) \<longleftrightarrow>
     (case js_get (ms_snapshots (tx_state t)) (ag_aggregate_id ag) of
        None \<Rightarrow> expected = - 1 | Some c \<Rightarrow> ag_revision c = expected)"
  by (auto simp: upsertSnapshotIfRevision_def Let_def split: option.splits)

lemma upsertSnapshot_tx:
  "snd (upsertSnapshotIfRevision ag expected t) =
     (if fst (upsertSnapshotIfRevision ag expected t) then t\<lparr>tx_snapshotOps := tx_snapshotOps t @ [ag]\<rparr> else t)"
  by (simp add: upsertSnapshotIfRevision_def Let_def)

text \<open>One committed write of a snapshot.\<close>

definition write_snapshot ::
    "aggregate \<Rightarrow> int \<Rightarrow> memory_store_state \<Rightarrow> (js_error + bool) \<times> memory_store_state" where
  "write_snapshot ag expected s = runInTransaction
     (\<lambda>t. case upsertSnapshotIfRevision ag expected t of (ok, t') \<Rightarrow> (Inr ok, t')) s"

text \<open>
  Of two writers that read the same revision, at most one succeeds, provided a writer changes the
  revision it read.
\<close>

lemma write_snapshot_race:
  assumes "write_snapshot a r s = (Inr True, s')" and "ag_aggregate_id b = ag_aggregate_id a"
    and "ag_revision a \<noteq> r"
  shows "write_snapshot b r s' = (Inr False, s')"
proof -
  from assms(1) have "s' = commit_tx ((begin_tx s)\<lparr>tx_snapshotOps := [a]\<rparr>)"
    by (auto simp: write_snapshot_def runInTransaction_def upsertSnapshotIfRevision_def Let_def
        split: if_splits)
  then have "js_get (ms_snapshots s') (ag_aggregate_id b) = Some a"
    using assms(2) by simp
  with assms(3) show ?thesis
    by (simp add: write_snapshot_def runInTransaction_def upsertSnapshotIfRevision_def)
qed

section \<open>Deduplication\<close>

definition dedup_live :: "iso_time \<Rightarrow> string \<Rightarrow> memory_store_state \<Rightarrow> bool" where
  "dedup_live now k s \<longleftrightarrow> (case js_get (ms_dedup s) k of None \<Rightarrow> False | Some e \<Rightarrow> e > now)"

lemma insertDedup_eq:
  "insertDedup now k e t = (\<not> dedup_live now k (tx_state t),
     t\<lparr>tx_dedupOps := tx_dedupOps t @ [(k, e, \<not> dedup_live now k (tx_state t))]\<rparr>)"
  by (simp add: insertDedup_def dedup_live_def Let_def)

definition record_dedup ::
    "iso_time \<Rightarrow> string \<Rightarrow> iso_time \<Rightarrow> memory_store_state \<Rightarrow> (js_error + bool) \<times> memory_store_state" where
  "record_dedup now k e s = runInTransaction
     (\<lambda>t. case insertDedup now k e t of (b, t') \<Rightarrow> (Inr b, t')) s"

lemma record_dedup_window:
  assumes "record_dedup now k e s = (Inr True, s')"
  shows "fst (record_dedup later k e' s') = Inr (e \<le> later)"
proof -
  from assms have "s' = commit_tx ((begin_tx s)\<lparr>tx_dedupOps := [(k, e, True)]\<rparr>)"
    by (auto simp: record_dedup_def runInTransaction_def insertDedup_eq)
  then have "js_get (ms_dedup s') k = Some e" by simp
  then show ?thesis
    by (auto simp: record_dedup_def runInTransaction_def insertDedup_eq dedup_live_def)
qed

end
