(* ===== verification/Leases.thy ===== *)
theory Leases
  imports StoreProofs
begin

text \<open>
  The store's leases: fan-out batches claimed from the outbox, their acknowledgement, the reaction
  queue's claims and the projection locks. A claim is characterised as the first claimable rows of
  the outbox; a lease keeps every other worker out until it expires.
\<close>

section \<open>Fan-out batches\<close>

definition row_claimable ::
    "string \<Rightarrow> iso_time \<Rightarrow> journal_entry list \<Rightarrow> nat \<times> outbox_row \<Rightarrow> bool" where
  "row_claimable worker now journal r \<longleftrightarrow>
     ob_processed_at (snd r) = None \<and>
     \<not> ((case ob_lease_expires_at (snd r) of None \<Rightarrow> False | Some e \<Rightarrow> e > now)
        \<and> ob_lease_owner (snd r) \<noteq> Some worker) \<and>
     find (\<lambda>e. je_seq e = fst r) journal \<noteq> None"

definition lease_row :: "string \<Rightarrow> iso_time \<Rightarrow> outbox_row \<Rightarrow> outbox_row" where
  "lease_row worker expires row = row\<lparr>ob_lease_owner := Some worker,
     ob_lease_expires_at := Some expires, ob_attempt_count := ob_attempt_count row + 1\<rparr>"

definition batch_rows ::
    "nat \<Rightarrow> string \<Rightarrow> iso_time \<Rightarrow> memory_store_state \<Rightarrow> (nat \<times> outbox_row) list" where
  "batch_rows limit worker now s = take limit (filter (row_claimable worker now (ms_journal s)) (ms_outbox s))"

definition lease_all ::
    "string \<Rightarrow> iso_time \<Rightarrow> (nat \<times> outbox_row) list \<Rightarrow> (nat, outbox_row) jsmap \<Rightarrow> (nat, outbox_row) jsmap" where
  "lease_all worker expires rs ob = fold (\<lambda>(sq, row). js_set sq (lease_row worker expires row)) rs ob"

lemma claim_loop_skip:
  assumes "\<not> row_claimable worker now journal (sq, row)" and "\<not> limit \<le> length claimed"
  shows "claim_loop limit worker now expires journal ((sq, row) # rows) claimed ob =
     claim_loop limit worker now expires journal rows claimed ob"
proof -
  let ?skip = "claim_loop limit worker now expires journal rows claimed ob"
  from assms(1) consider "ob_processed_at row \<noteq> None"
    | "(case ob_lease_expires_at row of None \<Rightarrow> False | Some e \<Rightarrow> e > now)
        \<and> ob_lease_owner row \<noteq> Some worker"
    | "find (\<lambda>e. je_seq e = sq) journal = None"
    unfolding row_claimable_def fst_conv snd_conv by argo
  then show ?thesis
    unfolding claim_loop.simps(2) if_not_P [OF assms(2)]
    by cases (simp_all only: if_True simp_thms option.case if_cancel not_None_eq)
qed

lemma claim_loop_hit:
  assumes "row_claimable worker now journal (sq, row)" and "\<not> limit \<le> length claimed"
  shows "claim_loop limit worker now expires journal ((sq, row) # rows) claimed ob =
     claim_loop limit worker now expires journal rows
       (claimed @ [the (find (\<lambda>e. je_seq e = sq) journal)])
       (js_set sq (lease_row worker expires row) ob)"
proof -
  from assms(1) obtain e where e: "find (\<lambda>e. je_seq e = sq) journal = Some e"
    and un: "ob_processed_at row = None"
    and lease: "\<not> ((case ob_lease_expires_at row of None \<Rightarrow> False | Some e \<Rightarrow> e > now)
        \<and> ob_lease_owner row \<noteq> Some worker)"
    unfolding row_claimable_def fst_conv snd_conv by blast
  show ?thesis
    unfolding claim_loop.simps(2) if_not_P [OF assms(2)] un if_not_P [OF lease] e lease_row_def by simp
qed

lemma claim_loop_full: "limit \<le> length claimed \<Longrightarrow>
    claim_loop limit worker now expires journal rows claimed ob = (claimed, ob)"
  by (cases rows) (simp, metis claim_loop.simps(2) prod.collapse)

lemma claim_loop_eq:
  "claim_loop limit worker now expires journal rows claimed ob =
     (let hits = take (limit - length claimed) (filter (row_claimable worker now journal) rows)
      in (claimed @ map (\<lambda>r. the (find (\<lambda>e. je_seq e = fst r) journal)) hits,
          lease_all worker expires hits ob))"
proof (induction rows arbitrary: claimed ob)
  case Nil
  show ?case by (simp add: lease_all_def)
next
  case (Cons r rows)
  obtain sq row where r: "r = (sq, row)" by (cases r)
  consider "limit \<le> length claimed"
    | "\<not> limit \<le> length claimed" "\<not> row_claimable worker now journal r"
    | "\<not> limit \<le> length claimed" "row_claimable worker now journal r" by blast
  then show ?case
  proof cases
    case 1
    then show ?thesis by (simp add: claim_loop_full lease_all_def)
  next
    case 2
    then show ?thesis unfolding r by (simp add: claim_loop_skip Cons del: claim_loop.simps)
  next
    case 3
    then have n: "limit - length claimed = Suc (limit - Suc (length claimed))" by simp
    show ?thesis using 3 unfolding r
      by (simp add: claim_loop_hit Cons n Let_def lease_all_def del: claim_loop.simps)
  qed
qed

lemma claimFanoutBatch_eq:
  "claimFanoutBatch limit worker lease_ms now s =
     (map (\<lambda>r. the (find (\<lambda>e. je_seq e = fst r) (ms_journal s))) (batch_rows limit worker now s),
      s\<lparr>ms_outbox := lease_all worker (now + lease_ms) (batch_rows limit worker now s) (ms_outbox s)\<rparr>)"
  by (simp add: claimFanoutBatch_def claim_loop_eq batch_rows_def Let_def)

lemma found_seq: "find (\<lambda>e. je_seq e = n) j \<noteq> None \<Longrightarrow> je_seq (the (find (\<lambda>e. je_seq e = n) j)) = n"
  by (induction j) auto

lemma claimed_seqs:
  "map je_seq (fst (claimFanoutBatch limit worker lease_ms now s)) = map fst (batch_rows limit worker now s)"
proof -
  have "je_seq (the (find (\<lambda>e. je_seq e = fst r) (ms_journal s))) = fst r"
    if "r \<in> set (batch_rows limit worker now s)" for r
    using that by (intro found_seq) (auto simp: batch_rows_def row_claimable_def dest: in_set_takeD)
  then show ?thesis by (simp add: claimFanoutBatch_eq)
qed

lemma js_get_lease_all:
  "js_get (lease_all worker expires rs ob) sq =
     (case map_of (rev rs) sq of Some row \<Rightarrow> Some (lease_row worker expires row) | None \<Rightarrow> js_get ob sq)"
proof (induction rs arbitrary: ob)
  case Nil
  show ?case by (simp add: lease_all_def)
next
  case (Cons r rs)
  have "lease_all worker expires (r # rs) ob =
      lease_all worker expires rs (js_set (fst r) (lease_row worker expires (snd r)) ob)"
    by (cases r) (simp add: lease_all_def)
  with Cons show ?case by (cases r) (auto simp: map_add_def split: option.splits)
qed

lemma js_ok_lease_all: "js_ok ob \<Longrightarrow> js_ok (lease_all worker expires rs ob)"
  unfolding lease_all_def by (induction rs arbitrary: ob) (auto split: prod.splits)

lemma js_get_of_pair: "js_ok m \<Longrightarrow> (k, v) \<in> set m \<Longrightarrow> js_get m k = Some v"
  by (simp add: js_ok_def js_get_def)

text \<open>A row another worker leased, or one acknowledged, is in nobody else's next batch.\<close>

lemma leased_not_claimed:
  assumes "js_ok (ms_outbox s)" and "js_get (ms_outbox s) sq = Some row"
    and "ob_processed_at row \<noteq> None \<or>
         (\<exists>e. ob_lease_expires_at row = Some e \<and> e > now) \<and> ob_lease_owner row \<noteq> Some worker"
  shows "sq \<notin> je_seq ` set (fst (claimFanoutBatch limit worker lease_ms now s))"
proof
  assume "sq \<in> je_seq ` set (fst (claimFanoutBatch limit worker lease_ms now s))"
  then have "sq \<in> set (map je_seq (fst (claimFanoutBatch limit worker lease_ms now s)))" by simp
  then have "sq \<in> fst ` set (batch_rows limit worker now s)"
    unfolding claimed_seqs by simp
  then obtain row' where r: "(sq, row') \<in> set (ms_outbox s)" "row_claimable worker now (ms_journal s) (sq, row')"
    by (auto simp: batch_rows_def dest!: in_set_takeD)
  with assms(1,2) have "row' = row" by (auto dest: js_get_of_pair)
  with r(2) assms(3) show False by (auto simp: row_claimable_def)
qed

lemma claim_exclusive:
  assumes "js_ok (ms_outbox s)" and "claimFanoutBatch l w lease now s = (b, s')"
    and "w' \<noteq> w" and "now' < now + lease" and "e \<in> set b"
  shows "je_seq e \<notin> je_seq ` set (fst (claimFanoutBatch l' w' lease' now' s'))"
proof -
  let ?rs = "batch_rows l w now s"
  have b: "b = fst (claimFanoutBatch l w lease now s)"
    and s': "ms_outbox s' = lease_all w (now + lease) ?rs (ms_outbox s)"
    using assms(2) by (auto simp: claimFanoutBatch_eq)
  have "je_seq e \<in> set (map fst ?rs)"
    using assms(5) unfolding b by (metis claimed_seqs imageI set_map)
  then obtain row where "map_of (rev ?rs) (je_seq e) = Some row"
    by (metis weak_map_of_SomeI map_of_eq_None_iff not_None_eq set_rev set_map)
  then have "js_get (ms_outbox s') (je_seq e) = Some (lease_row w (now + lease) row)"
    by (simp add: s' js_get_lease_all)
  then show ?thesis
    using assms(1,3,4)
    by (intro leased_not_claimed) (auto simp: s' js_ok_lease_all lease_row_def)
qed

lemma ack_processed:
  assumes "js_get (ms_outbox s) sq = Some row"
  shows "\<exists>row'. js_get (ms_outbox (ackFanout sq now s)) sq = Some row' \<and> ob_processed_at row' = Some now"
  using assms by (simp add: ackFanout_def)

lemma ack_ok: "js_ok (ms_outbox s) \<Longrightarrow> js_ok (ms_outbox (ackFanout sq now s))"
  by (simp add: ackFanout_def split: option.splits)

text \<open>A failed delivery frees the row at once: \<open>next_attempt_at\<close> is recorded but no claim reads it.\<close>

lemma fail_reclaimable:
  assumes "js_get (ms_outbox s) sq = Some row" and "ob_processed_at row = None"
    and "find (\<lambda>e. je_seq e = sq) (ms_journal s) \<noteq> None"
  shows "\<exists>row'. js_get (ms_outbox (failFanout sq err retry_at s)) sq = Some row' \<and>
     ob_next_attempt_at row' = Some retry_at \<and>
     row_claimable worker now (ms_journal (failFanout sq err retry_at s)) (sq, row')"
  using assms by (auto simp: failFanout_def row_claimable_def)

section \<open>Owned leases\<close>

text \<open>
  The contract of a lock with a lease: \<open>holder\<close> reads who holds it until when; acquiring fails only
  while somebody else holds it, and a release by anybody else does nothing.
\<close>

locale owned_lease =
  fixes holder :: "'k \<Rightarrow> 's \<Rightarrow> ('w \<times> nat) option"
    and acquire :: "'k \<Rightarrow> 'w \<Rightarrow> nat \<Rightarrow> nat \<Rightarrow> 's \<Rightarrow> bool \<times> 's"
    and release :: "'k \<Rightarrow> 'w \<Rightarrow> 's \<Rightarrow> 's"
  assumes busy: "holder k s = Some (w, e) \<Longrightarrow> now < e \<Longrightarrow> w' \<noteq> w \<Longrightarrow> acquire k w' now until s = (False, s)"
    and free: "(\<And>w e. holder k s = Some (w, e) \<Longrightarrow> now < e \<Longrightarrow> w = w') \<Longrightarrow> fst (acquire k w' now until s)"
    and held: "acquire k w now until s = (True, s') \<Longrightarrow> holder k s' = Some (w, until)"
    and release_holder: "holder k (release k w s) =
          (case holder k s of Some (w', e) \<Rightarrow> if w' = w then None else Some (w', e) | None \<Rightarrow> None)"
begin

lemma exclusive:
  "acquire k w now until s = (True, s') \<Longrightarrow> now' < until \<Longrightarrow> w' \<noteq> w \<Longrightarrow> acquire k w' now' until' s' = (False, s')"
  using busy held by blast

lemma reentrant: "acquire k w now until s = (True, s') \<Longrightarrow> fst (acquire k w now' until' s')"
  by (rule free) (simp add: held)

lemma expired: "acquire k w now until s = (True, s') \<Longrightarrow> until \<le> now' \<Longrightarrow> fst (acquire k w' now' until' s')"
  by (rule free) (simp add: held)

lemma released: "acquire k w now until s = (True, s') \<Longrightarrow> fst (acquire k w' now' until' (release k w s'))"
  by (rule free) (simp add: release_holder held)

lemma foreign_release:
  "acquire k w now until s = (True, s') \<Longrightarrow> w' \<noteq> w \<Longrightarrow> holder k (release k w' s') = Some (w, until)"
  by (simp add: release_holder held)

end

interpretation plock: owned_lease
  "\<lambda>k s. js_get (ms_projectionLocks s) k"
  "\<lambda>k w now until s. acquireProjectionLock k w 0 now until s"
  releaseProjectionLock
  by unfold_locales
    (auto simp: acquireProjectionLock_def releaseProjectionLock_def split: if_splits option.splits)

text \<open>\<open>acquireProjectionLock\<close> with a lease time is the acquisition until the end of the lease.\<close>

lemma acquire_until:
  "acquireProjectionLock k w lease now now2 s = acquireProjectionLock k w 0 now (now2 + lease) s"
  by (simp add: acquireProjectionLock_def)

section \<open>The reaction queue\<close>

lemma fold_insert_ids: "fold (\<lambda>q. insert (f q)) qs A = A \<union> f ` set qs"
  by (induction qs arbitrary: A) auto

lemma claimReactionBatch_eq:
  "claimReactionBatch limit s =
     (let b = take limit (filter (\<lambda>q. rq_queue_id q \<notin> ms_reactionQueueClaimed s) (ms_reactionQueue s))
      in (b, s\<lparr>ms_reactionQueueClaimed := ms_reactionQueueClaimed s \<union> rq_queue_id ` set b\<rparr>))"
  by (simp add: claimReactionBatch_def fold_insert_ids Let_def)

lemma claimReaction_exclusive:
  assumes "claimReactionBatch limit s = (b, s')" and "q \<in> set b"
  shows "q \<notin> set (fst (claimReactionBatch limit' s'))"
proof
  assume "q \<in> set (fst (claimReactionBatch limit' s'))"
  then have "rq_queue_id q \<notin> ms_reactionQueueClaimed s'"
    by (auto simp: claimReactionBatch_eq Let_def dest!: in_set_takeD)
  moreover have "rq_queue_id q \<in> ms_reactionQueueClaimed s'"
    using assms by (auto simp: claimReactionBatch_eq Let_def)
  ultimately show False by simp
qed

lemma remove_first_eq: "remove_first P xs = takeWhile (\<lambda>x. \<not> P x) xs @ tl (dropWhile (\<lambda>x. \<not> P x) xs)"
  by (induction xs) auto

lemma set_remove_first_subset: "set (remove_first P xs) \<subseteq> set xs"
  by (induction xs) auto

lemma remove_first_distinct:
  "distinct (map f xs) \<Longrightarrow> set (remove_first (\<lambda>x. f x = k) xs) = {x \<in> set xs. f x \<noteq> k}"
  by (induction xs) (auto simp: image_iff)

end
