(* ===== verification/Reactions.thy ===== *)
theory Reactions
  imports Contracts "HOL-Library.Word"
begin

text \<open>
  Which entries trigger a reaction, and the keys under which its deliveries are partitioned and
  deduplicated: \<open>reactions/matcher.ts\<close> of \<open>packages/runtime-kernel/src\<close>. The hash of a fingerprint
  is a 32-bit word, as \<open>>>> 0\<close> makes it. Characters are those of Isabelle's \<open>char\<close>, codes below 256.
\<close>

section \<open>An entry as a JavaScript object\<close>

text \<open>\<open>new Date(ms).toISOString()\<close> for the years 1970 to 9999.\<close>

definition civil_date :: "nat \<Rightarrow> nat \<times> nat \<times> nat" where
  "civil_date days =
     (let z = days + 719468; era = z div 146097; doe = z mod 146097;
          yoe = (doe - doe div 1460 + doe div 36524 - doe div 146096) div 365;
          doy = doe - (365 * yoe + yoe div 4 - yoe div 100);
          mp = (5 * doy + 2) div 153;
          m = (if mp < 10 then mp + 3 else mp - 9)
      in (yoe + era * 400 + (if m \<le> 2 then 1 else 0), m, doy - (153 * mp + 2) div 5 + 1))"

definition iso_string :: "iso_time \<Rightarrow> string" where
  "iso_string t =
     (let pad = (\<lambda>n k. pad_start n CHR ''0'' (nat_str k)) in
      case civil_date (t div 86400000) of (y, m, d) \<Rightarrow>
        pad 4 y @ ''-'' @ pad 2 m @ ''-'' @ pad 2 d @ ''T'' @ pad 2 (t div 3600000 mod 24) @ '':'' @
        pad 2 (t div 60000 mod 60) @ '':'' @ pad 2 (t div 1000 mod 60) @ ''.'' @ pad 3 (t mod 1000) @ ''Z'')"

fun kind_str :: "entry_kind \<Rightarrow> string" where
  "kind_str KCommand = ''command''"
| "kind_str KEvent = ''event''"
| "kind_str KSystem = ''system''"

fun outcome_str :: "outcome \<Rightarrow> string" where
  "outcome_str Success = ''success''"
| "outcome_str Denial = ''denial''"

definition opt_num :: "nat option \<Rightarrow> json" where
  "opt_num n = (case n of None \<Rightarrow> JUndef | Some k \<Rightarrow> JNum (int k))"

definition denial_json :: "journal_denial option \<Rightarrow> json" where
  "denial_json x = (case x of None \<Rightarrow> JUndef
     | Some d \<Rightarrow> JObj [(''code'', JStr (jd_code d)), (''message'', JStr (jd_message d)),
                      (''retryable'', JBool (jd_retryable d)), (''context'', opt_obj (jd_context d))])"

definition entry_json :: "journal_entry \<Rightarrow> json" where
  "entry_json e = JObj
     [(''entry_id'', JStr (je_entry_id e)), (''kind'', JStr (kind_str (je_kind e))),
      (''outcome'', JStr (outcome_str (je_outcome e))), (''scope_id'', JStr (je_scope_id e)),
      (''aggregate_id'', opt_str (je_aggregate_id e)), (''actor_id'', JStr (je_actor_id e)),
      (''credential_id'', JStr (je_credential_id e)), (''command_id'', opt_str (je_command_id e)),
      (''ts'', JStr (iso_string (je_ts e))), (''type'', JStr (je_type e)),
      (''payload'', JObj (je_payload e)), (''denial'', denial_json (je_denial e)),
      (''correlation'', case je_correlation e of None \<Rightarrow> JUndef | Some c \<Rightarrow> JObj [(''command_id'', JStr c)]),
      (''seq'', JNum (int (je_seq e))), (''scope_seq'', opt_num (je_scope_seq e)),
      (''aggregate_seq'', opt_num (je_aggregate_seq e))]"

section \<open>Matching and keys\<close>

definition matchesReaction :: "reaction_spec \<Rightarrow> journal_entry \<Rightarrow> bool" where
  "matchesReaction r e =
     (if \<not> rx_enabled r then False
      else if je_seq e < rx_registered_at_seq r then False
      else let f = rx_filter r in
        if truthy_str (rf_source_scope_id f) \<and> Some (je_scope_id e) \<noteq> rf_source_scope_id f then False
        else if truthy_str (rf_aggregate_id f) \<and> je_aggregate_id e \<noteq> rf_aggregate_id f then False
        else case rf_entry_types f of Some tys \<Rightarrow> je_type e \<in> set tys | None \<Rightarrow> True)"

text \<open>\<open>key_path.replace(/^\$\.?/, "")\<close>.\<close>

fun strip_root :: "string \<Rightarrow> string" where
  "strip_root (c # d # s) =
     (if c = CHR ''$'' then (if d = CHR ''.'' then s else d # s) else c # d # s)"
| "strip_root [c] = (if c = CHR ''$'' then [] else [c])"
| "strip_root [] = []"

definition extractDedupKey :: "reaction_spec \<Rightarrow> journal_entry \<Rightarrow> string" where
  "extractDedupKey r e =
     (let dd = rx_dedup r;
          v = (if rd_key_extractor dd = ByJsonPath \<and> truthy_str (rd_key_path dd)
               then js_path (entry_json e) (split_on CHR ''.'' (strip_root (the (rd_key_path dd))))
               else JUndef)
      in if v \<noteq> JUndef then js_string v
         else if truthy (prop_of (je_payload e) ''dedup_key'')
         then js_string (prop_of (je_payload e) ''dedup_key'')
         else je_entry_id e)"

definition partitionKey :: "reaction_spec \<Rightarrow> journal_entry \<Rightarrow> string" where
  "partitionKey r e =
     (let agg = (case je_aggregate_id e of None \<Rightarrow> ''_'' | Some a \<Rightarrow> a)
      in case rx_partition r of
           PScope \<Rightarrow> je_scope_id e
         | PAggregate \<Rightarrow> agg
         | PScopeAggregate \<Rightarrow> je_scope_id e @ '':'' @ agg
         | PReaction \<Rightarrow> rx_reaction_id r)"

definition string_hash :: "string \<Rightarrow> 32 word" where
  "string_hash s = foldl (\<lambda>h c. h * 31 + of_nat (of_char c)) 0 s"

definition dedupFingerprint :: "reaction_spec \<Rightarrow> journal_entry \<Rightarrow> string" where
  "dedupFingerprint r e =
     (let raw = rx_reaction_id r @ ''|'' @ partitionKey r e @ ''|'' @ extractDedupKey r e
      in pad_start 16 CHR ''0'' (radix_str 16 (unat (string_hash raw))))"

section \<open>Fingerprints\<close>

lemma radix_str_length: "2 \<le> b \<Longrightarrow> n < b ^ k \<Longrightarrow> 0 < k \<Longrightarrow> length (radix_str b n) \<le> k"
proof (induction b n arbitrary: k rule: radix_str.induct)
  case (1 b n)
  show ?case
  proof (cases "n < b")
    case True
    with 1 show ?thesis by (subst radix_str.simps) simp
  next
    case False
    with 1 obtain k' where k: "k = Suc k'" "0 < k'" by (cases k) (auto, cases "k - 1", auto)
    with 1 have "n div b < b ^ k'" by (simp add: less_mult_imp_div_less mult.commute)
    then have "length (radix_str b (n div b)) \<le> k'" using 1 False k by simp
    with False k 1 show ?thesis by (subst radix_str.simps) simp
  qed
qed

lemma fingerprint_shape:
  "length (dedupFingerprint r e) = 16 \<and> take 8 (dedupFingerprint r e) = replicate 8 CHR ''0''"
proof -
  let ?h = "string_hash (rx_reaction_id r @ ''|'' @ partitionKey r e @ ''|'' @ extractDedupKey r e)"
  have "unat ?h < 16 ^ 8" using unsigned_less [of ?h] by simp
  then have len: "length (radix_str 16 (unat ?h)) \<le> 8" by (intro radix_str_length) auto
  then have "\<exists>k. 16 - length (radix_str 16 (unat ?h)) = 8 + k" by presburger
  then obtain k where k: "16 - length (radix_str 16 (unat ?h)) = 8 + k" ..
  show ?thesis
    using len k by (simp add: dedupFingerprint_def Let_def pad_start_def replicate_add)
qed

text \<open>The 32-bit hash behind a fingerprint decides equality: distinct keys of one hash collide.\<close>

lemma radix_value_pad: "radix_value b (pad_start n CHR ''0'' s) = radix_value b s"
proof -
  have z: "digit_value CHR ''0'' = 0" by (simp add: digit_value_def)
  have "foldl (\<lambda>a c. a * b + digit_value c) 0 (replicate k CHR ''0'' @ s) =
      foldl (\<lambda>a c. a * b + digit_value c) 0 s" for k
    by (induction k) (simp_all add: z)
  then show ?thesis by (simp add: radix_value_def pad_start_def)
qed

lemma fingerprint_eq_iff:
  "dedupFingerprint r e = dedupFingerprint r' e' \<longleftrightarrow>
     string_hash (rx_reaction_id r @ ''|'' @ partitionKey r e @ ''|'' @ extractDedupKey r e) =
     string_hash (rx_reaction_id r' @ ''|'' @ partitionKey r' e' @ ''|'' @ extractDedupKey r' e')"
    (is "_ \<longleftrightarrow> ?h = ?h'")
proof
  assume "dedupFingerprint r e = dedupFingerprint r' e'"
  then have "radix_value 16 (radix_str 16 (unat ?h)) = radix_value 16 (radix_str 16 (unat ?h'))"
    by (metis dedupFingerprint_def radix_value_pad)
  then show "?h = ?h'" by (simp only: radix_value_str word_unat_eq_iff)
qed (simp add: dedupFingerprint_def)

lemma string_hash_append:
  "string_hash s = string_hash s' \<Longrightarrow> string_hash (s @ u) = string_hash (s' @ u)"
  by (simp add: string_hash_def)

text \<open>The first two characters of a key trade against each other, 31 to one.\<close>

lemma hash_collision:
  assumes "of_char b + 31 * of_char a = (of_char d + 31 * of_char c :: nat)"
  shows "string_hash (p @ [a, b]) = string_hash (p @ [c, d])"
proof -
  let ?h = "foldl (\<lambda>h c. h * 31 + of_nat (of_char c)) (0 :: 32 word) p"
  have "of_nat (of_char b + 31 * of_char a) = (of_nat (of_char d + 31 * of_char c) :: 32 word)"
    using assms by (simp only:)
  then show ?thesis by (simp add: string_hash_def algebra_simps)
qed

lemma matchesReaction_iff:
  "matchesReaction r e \<longleftrightarrow>
     rx_enabled r \<and> rx_registered_at_seq r \<le> je_seq e \<and>
     (truthy_str (rf_source_scope_id (rx_filter r)) \<longrightarrow> rf_source_scope_id (rx_filter r) = Some (je_scope_id e)) \<and>
     (truthy_str (rf_aggregate_id (rx_filter r)) \<longrightarrow> rf_aggregate_id (rx_filter r) = je_aggregate_id e) \<and>
     (case rf_entry_types (rx_filter r) of None \<Rightarrow> True | Some tys \<Rightarrow> je_type e \<in> set tys)"
  by (auto simp: matchesReaction_def Let_def split: option.splits)

end
