(* ===== verification/Executor.thy ===== *)
theory Executor
  imports Contracts
begin

text \<open>
  The kernel's ports as functions, and its pure code: \<open>executor/match.ts\<close>,
  \<open>checkpoint/lifecycle.ts\<close> and \<open>journal/build-entry.ts\<close> of \<open>packages/runtime-kernel/src\<close>.
\<close>

section \<open>Ports\<close>

record policy_result =
  pr_allowed :: bool
  pr_denial :: "(string \<times> string \<times> bool) option"

record schema_validation =
  sv_valid :: bool
  sv_errors :: "string list option"

type_synonym projection_handler = "journal_entry \<Rightarrow> jobj option \<Rightarrow> jobj option"

text \<open>
  \<open>KernelDeps\<close>: what adapters supply. \<open>rules_load\<close> is \<open>None\<close> where the promise rejects; the
  \<open>n\<close>-th call of \<open>ids.ulid\<close>, \<open>clock.nowIso\<close> and \<open>Date.now\<close> is \<open>ulid_at n\<close>, \<open>now_iso_at n\<close> and
  \<open>date_now_at n\<close>; \<open>action_invoke n\<close> tells whether the \<open>n\<close>-th side effect succeeds.
\<close>

record kernel_deps =
  policy_evaluate :: "provenance \<Rightarrow> string \<Rightarrow> policy_result"
  rules_load :: "rule_ref \<Rightarrow> rule_artifact option"
  condition_evaluate :: "string option \<Rightarrow> aggregate \<Rightarrow> string \<Rightarrow> bool"
  match_actor :: "string \<Rightarrow> string list \<Rightarrow> actor_kind option \<Rightarrow> bool"
  schema_validate :: "jobj \<Rightarrow> jobj \<Rightarrow> schema_validation"
  action_invoke :: "nat \<Rightarrow> action_spec \<Rightarrow> journal_entry \<Rightarrow> string \<Rightarrow> nat \<Rightarrow> bool"
  ulid_at :: "nat \<Rightarrow> string"
  now_iso_at :: "nat \<Rightarrow> iso_time"
  date_now_at :: "nat \<Rightarrow> iso_time"
  projection_handlers :: "(string \<times> projection_handler) list"

section \<open>Matching transitions\<close>

definition transition_eligible ::
    "kernel_deps \<Rightarrow> aggregate \<Rightarrow> string \<Rightarrow> actor_kind option \<Rightarrow> string \<Rightarrow> rule_transition \<Rightarrow> bool" where
  "transition_eligible d ag actor kind event t \<longleftrightarrow>
     match_actor d actor (tr_actors t) kind \<and> condition_evaluate d (tr_condition t) ag event"

definition findMatchingTransition ::
    "kernel_deps \<Rightarrow> aggregate \<Rightarrow> rule_artifact \<Rightarrow> string \<Rightarrow> string \<Rightarrow> actor_kind option
     \<Rightarrow> rule_transition option" where
  "findMatchingTransition d ag art event actor kind =
     find (transition_eligible d ag actor kind event)
       (filter (\<lambda>t. tr_from t = ag_state ag \<and> tr_event t = event) (ra_transitions art))"

definition findLegalTransitionsForActor ::
    "kernel_deps \<Rightarrow> aggregate \<Rightarrow> rule_artifact \<Rightarrow> string \<Rightarrow> actor_kind option
     \<Rightarrow> (string \<times> string \<times> string) list" where
  "findLegalTransitionsForActor d ag art actor kind =
     map (\<lambda>t. (tr_event t, tr_to t, tr_id t))
       (filter (\<lambda>t. transition_eligible d ag actor kind (tr_event t) t)
         (filter (\<lambda>t. tr_from t = ag_state ag) (ra_transitions art)))"

definition resolveAggregateStatus :: "string \<Rightarrow> rule_artifact \<Rightarrow> aggregate_status" where
  "resolveAggregateStatus state art =
     (case map_of (ra_states art) state of
        Some Terminal \<Rightarrow> Terminal
      | Some Archived \<Rightarrow> Archived
      | _ \<Rightarrow> if state \<in> set (ra_terminal_states art) then Terminal else Active)"

definition applyTransition ::
    "aggregate \<Rightarrow> rule_transition \<Rightarrow> rule_artifact \<Rightarrow> iso_time \<Rightarrow> jobj option \<Rightarrow> aggregate" where
  "applyTransition ag t art ts patch =
     ag\<lparr>ag_state := tr_to t,
        ag_revision := ag_revision ag + 1,
        ag_metadata := (case patch of None \<Rightarrow> ag_metadata ag | Some m \<Rightarrow> spread (ag_metadata ag) m),
        ag_updated_at := ts,
        ag_status := resolveAggregateStatus (tr_to t) art\<rparr>"

fun status_str :: "aggregate_status \<Rightarrow> string" where
  "status_str Active = ''active''"
| "status_str Terminal = ''terminal''"
| "status_str Archived = ''archived''"

definition transitionAppliedPayload :: "rule_transition \<Rightarrow> aggregate \<Rightarrow> jobj option \<Rightarrow> jobj" where
  "transitionAppliedPayload t ag patch =
     [(''transition_id'', JStr (tr_id t)), (''event'', JStr (tr_event t)),
      (''from'', JStr (tr_from t)), (''to'', JStr (tr_to t)),
      (''status'', JStr (status_str (ag_status ag))), (''revision'', JNum (ag_revision ag)),
      (''metadata_patch'', opt_obj patch)]"

section \<open>Checkpoints\<close>

definition checkpointFromTransition ::
    "string \<Rightarrow> string \<Rightarrow> string \<Rightarrow> rule_transition \<Rightarrow> transition_checkpoint \<Rightarrow> iso_time \<Rightarrow> checkpoint" where
  "checkpointFromTransition cid scope aid t c ts =
     \<lparr>cp_checkpoint_id = cid, cp_aggregate_id = aid, cp_scope_id = scope,
      cp_transition_id = tr_id t, cp_from_state = tr_from t, cp_to_state = tr_to t,
      cp_status = CpPending,
      cp_quorum = \<lparr>cq_mode = tc_quorum c,
        cq_count = (case tc_count c of None \<Rightarrow> 1 | Some n \<Rightarrow> n), cq_assignees = tc_assignees c\<rparr>,
      cp_votes = [], cp_created_at = ts, cp_resolved_at = None\<rparr>"

section \<open>Building journal entries\<close>

definition buildEntry ::
    "provenance \<Rightarrow> string \<Rightarrow> iso_time \<Rightarrow> string \<Rightarrow> outcome \<Rightarrow> jobj \<Rightarrow> string option
     \<Rightarrow> entry_kind option \<Rightarrow> journal_denial option \<Rightarrow> journal_entry_draft" where
  "buildEntry p eid ts type out payload aid kind den =
     \<lparr>je_entry_id = eid, je_kind = (case kind of None \<Rightarrow> KCommand | Some k \<Rightarrow> k),
      je_outcome = out, je_scope_id = pv_scope_id p, je_aggregate_id = aid,
      je_actor_id = pv_actor_id p, je_credential_id = pv_credential_id p,
      je_command_id = pv_command_id p, je_ts = ts, je_type = type, je_payload = payload,
      je_payload_ref = None, je_ext = None, je_denial = den, je_causation = None,
      je_correlation = (if truthy_str (pv_command_id p) then pv_command_id p else None)\<rparr>"

definition buildDenialEntry ::
    "provenance \<Rightarrow> string \<Rightarrow> iso_time \<Rightarrow> string \<Rightarrow> string \<Rightarrow> string \<Rightarrow> bool \<Rightarrow> jobj option
     \<Rightarrow> string option \<Rightarrow> journal_entry_draft" where
  "buildDenialEntry p eid ts type code msg retryable ctx aid =
     buildEntry p eid ts type Denial [] aid None
       (Some \<lparr>jd_code = code, jd_message = msg, jd_retryable = retryable, jd_context = ctx\<rparr>)"

definition resultFromEntry ::
    "string \<Rightarrow> nat \<Rightarrow> string \<Rightarrow> jobj \<Rightarrow> http_semantic \<Rightarrow> outcome \<Rightarrow> command_result" where
  "resultFromEntry eid sq code body http out =
     \<lparr>cr_outcome = out, cr_http_semantic = http, cr_code = code, cr_body = body,
      cr_journal_entry_id = Some eid, cr_seq = Some sq\<rparr>"

lemma buildEntry_sel [simp]:
  "je_entry_id (buildEntry p eid ts type out payload aid kind den) = eid"
  "je_outcome (buildEntry p eid ts type out payload aid kind den) = out"
  "je_scope_id (buildEntry p eid ts type out payload aid kind den) = pv_scope_id p"
  "je_aggregate_id (buildEntry p eid ts type out payload aid kind den) = aid"
  "je_command_id (buildEntry p eid ts type out payload aid kind den) = pv_command_id p"
  "je_actor_id (buildEntry p eid ts type out payload aid kind den) = pv_actor_id p"
  "je_credential_id (buildEntry p eid ts type out payload aid kind den) = pv_credential_id p"
  "je_ts (buildEntry p eid ts type out payload aid kind den) = ts"
  "je_type (buildEntry p eid ts type out payload aid kind den) = type"
  "je_payload (buildEntry p eid ts type out payload aid kind den) = payload"
  "je_denial (buildEntry p eid ts type out payload aid kind den) = den"
  by (simp_all add: buildEntry_def)

lemma buildDenialEntry_sel [simp]:
  "je_entry_id (buildDenialEntry p eid ts type code msg re ctx aid) = eid"
  "je_outcome (buildDenialEntry p eid ts type code msg re ctx aid) = Denial"
  "je_scope_id (buildDenialEntry p eid ts type code msg re ctx aid) = pv_scope_id p"
  "je_aggregate_id (buildDenialEntry p eid ts type code msg re ctx aid) = aid"
  "je_command_id (buildDenialEntry p eid ts type code msg re ctx aid) = pv_command_id p"
  "je_type (buildDenialEntry p eid ts type code msg re ctx aid) = type"
  "je_payload (buildDenialEntry p eid ts type code msg re ctx aid) = []"
  by (simp_all add: buildDenialEntry_def)

lemma resultFromEntry_sel [simp]:
  "cr_outcome (resultFromEntry eid sq code body http out) = out"
  "cr_code (resultFromEntry eid sq code body http out) = code"
  "cr_seq (resultFromEntry eid sq code body http out) = Some sq"
  "cr_http_semantic (resultFromEntry eid sq code body http out) = http"
  "cr_journal_entry_id (resultFromEntry eid sq code body http out) = Some eid"
  by (simp_all add: resultFromEntry_def)

lemma applyTransition_sel [simp]:
  "ag_aggregate_id (applyTransition ag t art ts patch) = ag_aggregate_id ag"
  "ag_scope_id (applyTransition ag t art ts patch) = ag_scope_id ag"
  "ag_rule_ref (applyTransition ag t art ts patch) = ag_rule_ref ag"
  "ag_state (applyTransition ag t art ts patch) = tr_to t"
  "ag_revision (applyTransition ag t art ts patch) = ag_revision ag + 1"
  "ag_status (applyTransition ag t art ts patch) = resolveAggregateStatus (tr_to t) art"
  by (simp_all add: applyTransition_def)

section \<open>What the matcher guarantees\<close>

lemma find_filter_first:
  assumes "find P (filter Q xs) = Some x"
  obtains ys zs where "xs = ys @ x # zs" "P x" "Q x" "\<And>y. y \<in> set ys \<Longrightarrow> Q y \<Longrightarrow> \<not> P y"
  using assms
proof (induction xs arbitrary: thesis)
  case Nil
  then show ?case by simp
next
  case (Cons a xs)
  show ?case
  proof (cases "P a \<and> Q a")
    case True
    with Cons.prems show ?thesis by (intro Cons.prems(1) [of "[]" xs]) auto
  next
    case False
    with Cons.prems(2) have "find P (filter Q xs) = Some x" by (auto split: if_splits)
    then obtain ys zs where *: "xs = ys @ x # zs" "P x" "Q x" "\<And>y. y \<in> set ys \<Longrightarrow> Q y \<Longrightarrow> \<not> P y"
      using Cons.IH by blast
    show ?thesis
      by (rule Cons.prems(1) [of "a # ys" zs]) (use * False in auto)
  qed
qed

lemma findMatchingTransition_Some:
  assumes "findMatchingTransition d ag art event actor kind = Some t"
  shows "t \<in> set (ra_transitions art)" and "tr_from t = ag_state ag" and "tr_event t = event"
    and "transition_eligible d ag actor kind event t"
  using assms unfolding findMatchingTransition_def
  by (auto elim!: find_filter_first)

lemma findMatchingTransition_None:
  "findMatchingTransition d ag art event actor kind = None \<longleftrightarrow>
     (\<forall>t \<in> set (ra_transitions art). tr_from t = ag_state ag \<longrightarrow> tr_event t = event \<longrightarrow>
        \<not> transition_eligible d ag actor kind event t)"
  unfolding findMatchingTransition_def by (auto simp: find_None_iff)

end
