(* ===== verification/Projections.thy ===== *)
theory Projections
  imports Leases Reactions Executor
begin

text \<open>
  Projections of the journal: \<open>projections/dispatcher.ts\<close> of \<open>packages/runtime-kernel/src\<close>. The
  handler of the audit tail, the dispatch of one entry (at most once per entry, under the
  projection's mark) and the rebuild of a projection from the journal under its lock.
\<close>

definition audit_entry_json :: "journal_entry \<Rightarrow> json" where
  "audit_entry_json e = JObj
     [(''seq'', JNum (int (je_seq e))), (''entry_id'', JStr (je_entry_id e)),
      (''type'', JStr (je_type e)), (''outcome'', JStr (outcome_str (je_outcome e))),
      (''scope_id'', JStr (je_scope_id e)), (''aggregate_id'', opt_str (je_aggregate_id e)),
      (''actor_id'', JStr (je_actor_id e)), (''credential_id'', JStr (je_credential_id e)),
      (''command_id'', opt_str (je_command_id e)), (''ts'', JStr (iso_string (je_ts e))),
      (''kind'', JStr (kind_str (je_kind e))), (''payload'', JObj (je_payload e))]"

fun as_arr :: "json \<Rightarrow> json list" where
  "as_arr (JArr xs) = xs"
| "as_arr _ = []"

definition auditTailHandler :: projection_handler where
  "auditTailHandler e prior =
     (let old = (case prior of None \<Rightarrow> [] | Some p \<Rightarrow>
            if nullish (prop_of p ''entries'') then [] else as_arr (prop_of p ''entries''));
          entries = old @ [audit_entry_json e]
      in Some [(''entries'', JArr entries), (''count'', JNum (int (length entries)))])"

definition dispatchProjection ::
    "string \<Rightarrow> projection_handler \<Rightarrow> journal_entry \<Rightarrow> memory_store_state \<Rightarrow> memory_store_state" where
  "dispatchProjection name handler e s =
     (let body = (\<lambda>t. case tryMarkProjectionApplied name (je_seq e) t of (applied, t1) \<Rightarrow>
            if \<not> applied then (Inr (), t1)
            else let existing = getProjection name (je_scope_id e) (je_aggregate_id e) (tx_state t1);
                     prior = map_option snd existing
                 in case handler e prior of
                      None \<Rightarrow> (Inr (), t1)
                    | Some nxt \<Rightarrow> (Inr (), upsertProjection name (je_scope_id e) (je_aggregate_id e)
                                           (je_seq e) nxt t1))
      in setProjectionCursor name (int (je_seq e)) (snd (runInTransaction body s)))"

text \<open>
  The loop of the rebuild: the state so far with the number, scope and aggregate of the last entry
  the handler took. \<open>rebuild_init\<close> is \<open>lastSeq = 0\<close>, \<open>lastScope = ""\<close>, \<open>lastAgg\<close> undefined.
\<close>

type_synonym rebuild_acc = "jobj option \<times> nat \<times> string \<times> string option"

definition rebuild_init :: rebuild_acc where
  "rebuild_init = (None, 0, [], None)"

definition rebuild_step :: "projection_handler \<Rightarrow> journal_entry \<Rightarrow> rebuild_acc \<Rightarrow> rebuild_acc" where
  "rebuild_step handler e acc =
     (case handler e (fst acc) of
        None \<Rightarrow> acc
      | Some nxt \<Rightarrow> (Some nxt, je_seq e, je_scope_id e, je_aggregate_id e))"

definition rebuildProjection ::
    "string \<Rightarrow> projection_handler \<Rightarrow> nat \<Rightarrow> string \<Rightarrow> iso_time \<Rightarrow> iso_time \<Rightarrow> memory_store_state
     \<Rightarrow> (js_error + unit) \<times> memory_store_state" where
  "rebuildProjection name handler from owner now now2 s =
     (case acquireProjectionLock name owner 60000 now now2 s of
        (False, s1) \<Rightarrow> (Inl (JsError (''Projection lock held: '' @ name)), s1)
      | (True, s1) \<Rightarrow>
          let s2 = setProjectionCursor name (int from - 1) s1;
              entries = tailJournal from 1000 s2;
              s3 = (case fold (rebuild_step handler) entries rebuild_init of
                      (Some st, lastSeq, lastScope, lastAgg) \<Rightarrow>
                        if lastSeq > 0
                        then setProjectionCursor name (int lastSeq)
                               (snd (runInTransaction
                                  (\<lambda>t. (Inr (), upsertProjection name lastScope lastAgg lastSeq st t)) s2))
                        else s2
                    | (None, _) \<Rightarrow> s2)
          in (Inr (), releaseProjectionLock name owner s3))"

section \<open>Dispatch\<close>

definition is_applied :: "string \<Rightarrow> nat \<Rightarrow> memory_store_state \<Rightarrow> bool" where
  "is_applied name sq s \<longleftrightarrow> appliedKey name sq \<in> ms_projectionApplied s"

lemma dispatch_again:
  "is_applied name (je_seq e) s \<Longrightarrow>
     dispatchProjection name h e s = setProjectionCursor name (int (je_seq e)) s"
  by (simp add: dispatchProjection_def runInTransaction_def tryMarkProjectionApplied_def is_applied_def
      Let_def commit_tx_def begin_tx_def)

lemma dispatch_marks: "is_applied name (je_seq e) (dispatchProjection name h e s)"
  by (simp add: dispatchProjection_def runInTransaction_def tx_op_defs is_applied_def Let_def
      setProjectionCursor_def split: option.splits)

lemma dispatch_applied_mono:
  "is_applied n sq s \<Longrightarrow> is_applied n sq (dispatchProjection name h e s)"
  by (simp add: dispatchProjection_def runInTransaction_def tx_op_defs is_applied_def Let_def
      setProjectionCursor_def split: option.splits)

lemma dispatch_applied_other:
  "sq \<noteq> je_seq e \<Longrightarrow> is_applied name sq (dispatchProjection name h e s) = is_applied name sq s"
  by (simp add: dispatchProjection_def runInTransaction_def tx_op_defs is_applied_def Let_def
      setProjectionCursor_def appliedKey_inject split: option.splits)

text \<open>The reference: a projection of one scope and aggregate is the fold of its handler.\<close>

definition proj_step ::
    "projection_handler \<Rightarrow> journal_entry \<Rightarrow> (nat \<times> jobj) option \<Rightarrow> (nat \<times> jobj) option" where
  "proj_step h e acc =
     (case h e (map_option snd acc) of None \<Rightarrow> acc | Some nxt \<Rightarrow> Some (je_seq e, nxt))"

lemma dispatch_projection:
  assumes "\<not> is_applied name (je_seq e) s"
    and "\<And>old. getProjection name (je_scope_id e) (je_aggregate_id e) s = Some old \<Longrightarrow> fst old \<le> je_seq e"
  shows "getProjection name (je_scope_id e) (je_aggregate_id e) (dispatchProjection name h e s) =
     proj_step h e (getProjection name (je_scope_id e) (je_aggregate_id e) s)"
  using assms
  by (auto simp: dispatchProjection_def runInTransaction_def tx_op_defs is_applied_def Let_def
      setProjectionCursor_def getProjection_def proj_step_def apply_projection_op_def
      split: option.splits)

text \<open>Every entry of the list is of one scope and aggregate, in sequence order, not applied yet.\<close>

definition fresh_run :: "string \<Rightarrow> string \<Rightarrow> string option \<Rightarrow> journal_entry list \<Rightarrow> memory_store_state \<Rightarrow> bool" where
  "fresh_run name sc ag es s \<longleftrightarrow>
     list_all (\<lambda>e. je_scope_id e = sc \<and> je_aggregate_id e = ag \<and> \<not> is_applied name (je_seq e) s) es \<and>
     sorted_wrt (\<lambda>a b. je_seq a < je_seq b) es"

lemma dispatch_all:
  assumes "fresh_run name sc ag es s"
    and "\<And>old e. getProjection name sc ag s = Some old \<Longrightarrow> e \<in> set es \<Longrightarrow> fst old \<le> je_seq e"
  shows "getProjection name sc ag (fold (dispatchProjection name h) es s) =
     fold (proj_step h) es (getProjection name sc ag s)"
  using assms
proof (induction es arbitrary: s)
  case Nil
  show ?case by simp
next
  case (Cons e es)
  let ?s = "dispatchProjection name h e s"
  from Cons.prems(1) have e: "je_scope_id e = sc" "je_aggregate_id e = ag" "\<not> is_applied name (je_seq e) s"
    and lt: "\<And>x. x \<in> set es \<Longrightarrow> je_seq e < je_seq x"
    by (auto simp: fresh_run_def)
  have step: "getProjection name sc ag ?s = proj_step h e (getProjection name sc ag s)"
    using dispatch_projection [of name e s h] e Cons.prems(2) by simp
  have "is_applied name (je_seq x) ?s = is_applied name (je_seq x) s" if "x \<in> set es" for x
    using lt [OF that] by (simp add: dispatch_applied_other)
  then have "fresh_run name sc ag es ?s"
    using Cons.prems(1) by (auto simp: fresh_run_def list_all_iff)
  moreover have "fst old \<le> je_seq x" if "getProjection name sc ag ?s = Some old" "x \<in> set es" for old x
    using that lt [OF that(2)] Cons.prems(2) [of _ x] unfolding step proj_step_def
    by (auto split: option.splits)
  ultimately show ?case using Cons.IH [of ?s] step by simp
qed

section \<open>Rebuild\<close>

lemma rebuild_fold:
  assumes "list_all (\<lambda>e. je_scope_id e = sc \<and> je_aggregate_id e = ag) es"
  shows "fold (rebuild_step h) es
       (case acc of None \<Rightarrow> rebuild_init | Some (n, st) \<Rightarrow> (Some st, n, sc, ag)) =
     (case fold (proj_step h) es acc of None \<Rightarrow> rebuild_init | Some (n, st) \<Rightarrow> (Some st, n, sc, ag))"
  using assms
proof (induction es arbitrary: acc)
  case (Cons e es)
  have "rebuild_step h e (case acc of None \<Rightarrow> rebuild_init | Some (n, st) \<Rightarrow> (Some st, n, sc, ag)) =
      (case proj_step h e acc of None \<Rightarrow> rebuild_init | Some (n, st) \<Rightarrow> (Some st, n, sc, ag))"
    using Cons.prems
    by (auto simp: rebuild_step_def proj_step_def rebuild_init_def split: option.splits)
  with Cons show ?case by simp
qed simp

lemma proj_step_seq:
  "fold (proj_step h) es None = Some (n, st) \<Longrightarrow> \<exists>e \<in> set es. je_seq e = n"
proof (induction es arbitrary: n st rule: rev_induct)
  case (snoc e es)
  then show ?case
    by (cases "fold (proj_step h) es None") (auto simp: proj_step_def split: option.splits)
qed simp

lemma rebuild_None:
  assumes "rebuildProjection name h from owner now now2 s = (Inr (), s')"
    and "list_all (\<lambda>e. je_scope_id e = sc \<and> je_aggregate_id e = ag \<and> 0 < je_seq e) (tailJournal from 1000 s)"
    and "getProjection name sc ag s = None"
  shows "getProjection name sc ag s' = fold (proj_step h) (tailJournal from 1000 s) None"
proof -
  let ?es = "tailJournal from 1000 s"
  obtain s1 where s1: "acquireProjectionLock name owner 60000 now now2 s = (True, s1)"
    using assms(1) by (cases "acquireProjectionLock name owner 60000 now now2 s")
      (auto simp: rebuildProjection_def split: bool.splits)
  then have same: "ms_journal s1 = ms_journal s" "ms_projections s1 = ms_projections s"
    by (auto simp: acquireProjectionLock_def split: if_splits)
  have es: "tailJournal from 1000 (setProjectionCursor name (int from - 1) s1) = ?es"
    by (simp add: tailJournal_def setProjectionCursor_def same)
  have rel: "ms_projections (releaseProjectionLock name owner x) = ms_projections x" for x
    by (simp add: releaseProjectionLock_def split: option.splits)
  have f: "fold (rebuild_step h) ?es rebuild_init =
      (case fold (proj_step h) ?es None of None \<Rightarrow> rebuild_init | Some (n, st) \<Rightarrow> (Some st, n, sc, ag))"
    using rebuild_fold [of sc ag ?es h None] assms(2) by (simp add: list_all_iff)
  show ?thesis
  proof (cases "fold (proj_step h) ?es None")
    case None
    with assms(1) s1 es f assms(3) same show ?thesis
      by (auto simp: rebuildProjection_def Let_def rebuild_init_def rel getProjection_def setProjectionCursor_def)
  next
    case (Some p)
    then obtain n st where p: "fold (proj_step h) ?es None = Some (n, st)" by (cases p) auto
    then have "0 < n" using proj_step_seq assms(2) by (fastforce simp: list_all_iff)
    with assms(1) s1 es f p assms(3) same show ?thesis
      by (auto simp: rebuildProjection_def Let_def rel getProjection_def setProjectionCursor_def
          runInTransaction_def upsertProjection_def apply_projection_op_def)
  qed
qed

lemma audit_step:
  "proj_step auditTailHandler e None = Some (je_seq e, [(''entries'', JArr [audit_entry_json e]), (''count'', JNum 1)])"
  by (simp add: proj_step_def auditTailHandler_def)

text \<open>The audit tail of a list of entries is the list of their audit records, with its length.\<close>

lemma audit_fold:
  "es \<noteq> [] \<Longrightarrow> fold (proj_step auditTailHandler) es None =
     Some (je_seq (last es), [(''entries'', JArr (map audit_entry_json es)), (''count'', JNum (int (length es)))])"
proof (induction es rule: rev_induct)
  case (snoc e es)
  then show ?case
    by (cases "es = []") (auto simp: proj_step_def auditTailHandler_def)
qed simp

end
