(* ===== verification/Waiters.thy ===== *)
theory Waiters
  imports Contracts
begin

text \<open>
  Wait conditions and the in-process registry of blocked callers: \<open>waiters/match.ts\<close> and
  \<open>waiters/registry.ts\<close> of \<open>packages/runtime-kernel/src\<close>. The progress of a compound condition is
  one set of keys, shared by reference with the conditions nested in it: a nested \<open>all_of\<close> reads
  and writes the very set of the enclosing one.
\<close>

section \<open>Matching\<close>

type_synonym compound_progress = "string set"

definition all_key :: "nat \<Rightarrow> string" where
  "all_key i = ''all:'' @ nat_str i"

definition payloadMatches :: "jobj \<Rightarrow> jobj \<Rightarrow> bool" where
  "payloadMatches payload m = list_all (\<lambda>(k, v). strict_eq (prop_of payload k) v) m"

fun matchesWaitCondition ::
    "wait_condition \<Rightarrow> journal_entry \<Rightarrow> compound_progress option \<Rightarrow> bool \<times> compound_progress option"
and match_all ::
    "wait_condition list \<Rightarrow> nat \<Rightarrow> journal_entry \<Rightarrow> compound_progress \<Rightarrow> compound_progress"
and match_any :: "wait_condition list \<Rightarrow> journal_entry \<Rightarrow> bool" where
  "matchesWaitCondition (WState st) e progress =
     (if je_type e = E_TRANSITION_APPLIED \<and> je_outcome e = Success
      then (strict_eq (prop_of (je_payload e) ''to'') (JStr st), None)
      else if je_type e = E_AGGREGATE_CREATED \<and> je_outcome e = Success
      then (strict_eq (prop_of (je_payload e) ''initial_state'') (JStr st), None)
      else (False, None))"
| "matchesWaitCondition (WEntry ty mat) e progress =
     (if je_type e \<noteq> ty \<or> je_outcome e \<noteq> Success then (False, None)
      else case mat of None \<Rightarrow> (True, None) | Some m \<Rightarrow> (payloadMatches (je_payload e) m, None))"
| "matchesWaitCondition (WCheckpoint cid res) e progress =
     (if truthy_str cid \<and> \<not> strict_eq (prop_of (je_payload e) ''checkpoint_id'') (opt_str cid)
      then (False, None)
      else if je_type e = E_CHECKPOINT_RESOLVED \<and> res = Some Approved then (True, None)
      else if je_type e = E_CHECKPOINT_REJECTED \<and> res = Some Rejected then (True, None)
      else (False, None))"
| "matchesWaitCondition (WArtifact h c) e progress = (False, None)"
| "matchesWaitCondition (WCompound (Some cs) any_of) e progress =
     (let prog = match_all cs 0 e (case progress of Some p \<Rightarrow> p | None \<Rightarrow> {})
      in (list_all (\<lambda>i. all_key i \<in> prog) [0..<length cs], Some prog))"
| "matchesWaitCondition (WCompound None (Some cs)) e progress = (match_any cs e, None)"
| "matchesWaitCondition (WCompound None None) e progress = (False, None)"
| "match_all [] i e prog = prog"
| "match_all (c # cs) i e prog =
     (if all_key i \<in> prog then match_all cs (Suc i) e prog
      else let r = matchesWaitCondition c e (Some prog);
               prog1 = (case snd r of Some p \<Rightarrow> p | None \<Rightarrow> prog)
           in match_all cs (Suc i) e (if fst r then insert (all_key i) prog1 else prog1))"
| "match_any [] e = False"
| "match_any (c # cs) e =
     (if fst (matchesWaitCondition c e None) then True else match_any cs e)"

lemma all_key_inject [simp]: "all_key i = all_key j \<longleftrightarrow> i = j"
  by (simp add: all_key_def)

lemma match_any_iff: "match_any cs e \<longleftrightarrow> (\<exists>c \<in> set cs. fst (matchesWaitCondition c e None))"
  by (induction cs) auto

text \<open>A condition is stateless when it is no \<open>all_of\<close>: its verdict never reads the progress.\<close>

fun stateless :: "wait_condition \<Rightarrow> bool" where
  "stateless (WCompound (Some _) _) = False"
| "stateless _ = True"

lemma stateless_match:
  "stateless c \<Longrightarrow> matchesWaitCondition c e p = (fst (matchesWaitCondition c e None), None)"
proof (cases c)
  case (WCompound all_of any_of)
  then show "stateless c \<Longrightarrow> ?thesis" by (cases all_of; cases any_of) simp_all
qed (auto split: option.splits)

lemma match_all_stateless:
  "list_all stateless cs \<Longrightarrow> match_all cs i e prog =
     prog \<union> {all_key (i + k) | k. k < length cs \<and> fst (matchesWaitCondition (cs ! k) e None)}"
proof (induction cs arbitrary: i prog)
  case Nil
  show ?case by simp
next
  case (Cons c cs)
  let ?hit = "\<lambda>c. fst (matchesWaitCondition c e None)"
  have split: "{all_key (i + k) | k. k < length (c # cs) \<and> ?hit ((c # cs) ! k)} =
      (if ?hit c then {all_key i} else {}) \<union>
      {all_key (Suc i + k) | k. k < length cs \<and> ?hit (cs ! k)}" (is "?L = ?A \<union> ?B")
  proof (rule set_eqI)
    fix x
    show "x \<in> ?L \<longleftrightarrow> x \<in> ?A \<union> ?B"
    proof
      assume "x \<in> ?L"
      then obtain k where k: "x = all_key (i + k)" "k < length (c # cs)" "?hit ((c # cs) ! k)" by blast
      then show "x \<in> ?A \<union> ?B" by (cases k) auto
    next
      assume "x \<in> ?A \<union> ?B"
      then show "x \<in> ?L"
      proof
        assume "x \<in> ?A"
        then show ?thesis by (auto split: if_splits intro!: exI [of _ 0])
      next
        assume "x \<in> ?B"
        then obtain k where "x = all_key (Suc i + k)" "k < length cs" "?hit (cs ! k)" by blast
        then show ?thesis by (auto intro!: exI [of _ "Suc k"])
      qed
    qed
  qed
  from Cons.prems have "stateless c" by simp
  then have m: "matchesWaitCondition c e (Some prog) = (?hit c, None)"
    by (rule stateless_match)
  show ?case
    using Cons by (subst split) (auto simp: m Let_def)
qed

section \<open>Feeding a wait with entries\<close>

text \<open>
  What the fan-out keeps of a wait between entries: its progress. A wait fed with the entries so
  far, in order; the verdict is that of the last one.
\<close>

definition feed_wait ::
    "wait_condition \<Rightarrow> journal_entry \<Rightarrow> compound_progress option \<Rightarrow> compound_progress option" where
  "feed_wait c e p = (case snd (matchesWaitCondition c e p) of Some q \<Rightarrow> Some q | None \<Rightarrow> p)"

lemma feed_all_of:
  assumes "list_all stateless cs"
  shows "fold (feed_wait (WCompound (Some cs) a)) es (Some p) = Some (p \<union>
     {all_key k | k. k < length cs \<and> (\<exists>e \<in> set es. fst (matchesWaitCondition (cs ! k) e None))})"
  using assms
  by (induction es arbitrary: p) (auto simp: feed_wait_def Let_def match_all_stateless)

lemma feed_progress_None:
  "feed_wait c e None = snd (matchesWaitCondition c e None)"
  by (simp add: feed_wait_def split: option.splits)

lemma match_all_None: "matchesWaitCondition (WCompound (Some cs) a) e None =
    matchesWaitCondition (WCompound (Some cs) a) e (Some {})"
  by simp

lemma all_of_verdict:
  assumes "list_all stateless cs"
  shows "fst (matchesWaitCondition (WCompound (Some cs) a) e (fold (feed_wait (WCompound (Some cs) a)) es None))
     \<longleftrightarrow> (\<forall>c \<in> set cs. \<exists>e' \<in> set (es @ [e]). fst (matchesWaitCondition c e' None))"
proof -
  have start: "fst (matchesWaitCondition (WCompound (Some cs) a) e (fold (feed_wait (WCompound (Some cs) a)) es None)) =
      fst (matchesWaitCondition (WCompound (Some cs) a) e (fold (feed_wait (WCompound (Some cs) a)) es (Some {})))"
    by (cases es) (simp_all add: feed_wait_def Let_def)
  show ?thesis
    unfolding start feed_all_of [OF assms]
    using assms
    by (auto simp: Let_def match_all_stateless list_all_iff all_set_conv_all_nth)
qed

section \<open>The registry\<close>

text \<open>
  A promise is a number; \<open>rg_settled\<close> holds the value each settled promise was resolved with.
\<close>

record registry =
  rg_deferred :: "(string, nat) jsmap"
  rg_next :: nat
  rg_settled :: "(nat, wait_resolution) jsmap"

definition empty_registry :: registry where
  "empty_registry = \<lparr>rg_deferred = [], rg_next = 0, rg_settled = []\<rparr>"

definition registerDeferred :: "string \<Rightarrow> registry \<Rightarrow> nat \<times> registry" where
  "registerDeferred wid g =
     (rg_next g, g\<lparr>rg_deferred := js_set wid (rg_next g) (rg_deferred g), rg_next := Suc (rg_next g)\<rparr>)"

definition resolve :: "string \<Rightarrow> wait_resolution \<Rightarrow> registry \<Rightarrow> registry" where
  "resolve wid r g =
     (case js_get (rg_deferred g) wid of
        None \<Rightarrow> g
      | Some d \<Rightarrow> g\<lparr>rg_settled := js_set d r (rg_settled g), rg_deferred := js_delete wid (rg_deferred g)\<rparr>)"

text \<open>
  Promises are numbered below \<open>rg_next\<close>, no two waits share one, and none that a wait still holds
  is settled: so \<open>resolve\<close> settles a promise at most once.
\<close>

definition registry_ok :: "registry \<Rightarrow> bool" where
  "registry_ok g \<longleftrightarrow>
     (\<forall>w d. js_get (rg_deferred g) w = Some d \<longrightarrow> d < rg_next g \<and> js_get (rg_settled g) d = None) \<and>
     (\<forall>w w' d. js_get (rg_deferred g) w = Some d \<longrightarrow> js_get (rg_deferred g) w' = Some d \<longrightarrow> w = w') \<and>
     (\<forall>d r. js_get (rg_settled g) d = Some r \<longrightarrow> d < rg_next g)"

lemma registry_ok_empty: "registry_ok empty_registry"
  by (simp add: registry_ok_def empty_registry_def)

lemma registry_ok_register: "registry_ok g \<Longrightarrow> registry_ok (snd (registerDeferred wid g))"
  unfolding registry_ok_def registerDeferred_def
  by (auto split: if_splits simp: less_Suc_eq)

lemma registry_ok_resolve: "registry_ok g \<Longrightarrow> registry_ok (resolve wid r g)"
  unfolding registry_ok_def resolve_def
  by (auto split: option.splits if_splits)

datatype registry_op = RegisterOp string | ResolveOp string wait_resolution

fun registry_step :: "registry_op \<Rightarrow> registry \<Rightarrow> registry" where
  "registry_step (RegisterOp w) g = snd (registerDeferred w g)"
| "registry_step (ResolveOp w r) g = resolve w r g"

definition settled_grows :: "registry \<Rightarrow> registry \<Rightarrow> bool" where
  "settled_grows g h \<longleftrightarrow> (\<forall>d r. js_get (rg_settled g) d = Some r \<longrightarrow> js_get (rg_settled h) d = Some r)"

lemma resolve_settled_grows: "registry_ok g \<Longrightarrow> settled_grows g (resolve w r g)"
  unfolding settled_grows_def registry_ok_def resolve_def
  by (auto split: option.splits)

interpretation reg: monotone_system registry_step registry_ok settled_grows
proof unfold_locales
  fix s x assume "registry_ok s"
  then show "registry_ok (registry_step x s)"
    by (cases x) (simp_all add: registry_ok_register registry_ok_resolve)
next
  fix s show "settled_grows s s" by (simp add: settled_grows_def)
next
  fix s t u assume "settled_grows s t" "settled_grows t u"
  then show "settled_grows s u" by (simp add: settled_grows_def)
next
  fix s x assume "registry_ok s"
  then show "settled_grows s (registry_step x s)"
    by (cases x) (simp_all add: resolve_settled_grows, simp add: settled_grows_def registerDeferred_def)
qed

lemma resolve_registered:
  "registerDeferred w g = (d, g') \<Longrightarrow> js_get (rg_settled (resolve w r g')) d = Some r"
  by (auto simp: registerDeferred_def resolve_def)

end
