(* ===== verification/Fanout.thy ===== *)
theory Fanout
  imports Projections Waiters
begin

text \<open>
  Fan-out after a command: \<open>fanout/dispatch.ts\<close> of \<open>packages/runtime-kernel/src\<close>. The \<open>world\<close> is
  what the kernel's code reads and changes: the store, the progress of compound waits, the registry
  of blocked callers, and the points reached in the streams of identifiers and clock readings.
  Effectful functions are values of the state monad over it; the body of a transaction runs over
  the transaction and the world.
\<close>

section \<open>The world\<close>

record world =
  w_store :: memory_store_state
  w_progress :: "(string, compound_progress) jsmap"
  w_registry :: registry
  w_notified :: "(string \<times> wait_resolution) list"
  w_invoked :: "(string \<times> string \<times> nat \<times> bool) list"
  w_ids :: nat
  w_clock :: nat
  w_dates :: nat

definition init_world :: world where
  "init_world = \<lparr>w_store = createMemoryStoreState, w_progress = [], w_registry = empty_registry,
     w_notified = [], w_invoked = [], w_ids = 0, w_clock = 0, w_dates = 0\<rparr>"

definition ids_ulid :: "kernel_deps \<Rightarrow> (world, string) state" where
  "ids_ulid d = State (\<lambda>w. (ulid_at d (w_ids w), w\<lparr>w_ids := Suc (w_ids w)\<rparr>))"

definition clock_nowIso :: "kernel_deps \<Rightarrow> (world, iso_time) state" where
  "clock_nowIso d = State (\<lambda>w. (now_iso_at d (w_clock w), w\<lparr>w_clock := Suc (w_clock w)\<rparr>))"

definition date_now :: "kernel_deps \<Rightarrow> (world, iso_time) state" where
  "date_now d = State (\<lambda>w. (date_now_at d (w_dates w), w\<lparr>w_dates := Suc (w_dates w)\<rparr>))"

definition on_store :: "(memory_store_state \<Rightarrow> memory_store_state) \<Rightarrow> (world, unit) state" where
  "on_store f = act (\<lambda>w. w\<lparr>w_store := f (w_store w)\<rparr>)"

definition ask_store :: "(memory_store_state \<Rightarrow> 'a) \<Rightarrow> (world, 'a) state" where
  "ask_store f = ask (\<lambda>w. f (w_store w))"

section \<open>Transactions over the world\<close>

definition in_tx :: "(memory_transaction \<times> world, 'a) state \<Rightarrow> (world, 'a) state" where
  "in_tx body = State (\<lambda>w.
     case run_state body (begin_tx (w_store w), w) of (r, (t, w')) \<Rightarrow> (r, w'\<lparr>w_store := commit_tx t\<rparr>))"

definition tx_ask :: "(memory_transaction \<Rightarrow> 'a) \<Rightarrow> (memory_transaction \<times> world, 'a) state" where
  "tx_ask f = ask (\<lambda>(t, w). f t)"

definition tx_act :: "(memory_transaction \<Rightarrow> memory_transaction) \<Rightarrow> (memory_transaction \<times> world, unit) state" where
  "tx_act f = act (\<lambda>(t, w). (f t, w))"

definition tx_op :: "(memory_transaction \<Rightarrow> 'a \<times> memory_transaction) \<Rightarrow> (memory_transaction \<times> world, 'a) state" where
  "tx_op f = State (\<lambda>(t, w). case f t of (r, t') \<Rightarrow> (r, (t', w)))"

definition tx_world :: "(world, 'a) state \<Rightarrow> (memory_transaction \<times> world, 'a) state" where
  "tx_world m = State (\<lambda>(t, w). case run_state m w of (r, w') \<Rightarrow> (r, (t, w')))"

text \<open>The transactions of the kernel do not throw: \<open>in_tx\<close> is \<open>runInTransaction\<close> on such bodies.\<close>

lemma in_tx_run:
  "\<exists>r w' s. runInTransaction
         (\<lambda>t. case run_state body (t, w) of (r, (t', w')) \<Rightarrow> (Inr (r, w'), t')) (w_store w) = (Inr (r, w'), s) \<and>
       run_state (in_tx body) w = (r, w'\<lparr>w_store := s\<rparr>)"
proof -
  obtain r t w' where "run_state body (begin_tx (w_store w), w) = (r, (t, w'))"
    by (metis prod.collapse)
  then show ?thesis by (simp add: in_tx_def runInTransaction_def)
qed

lemma run_ids_ulid [simp]: "run_state (ids_ulid d) w = (ulid_at d (w_ids w), w\<lparr>w_ids := Suc (w_ids w)\<rparr>)"
  by (simp add: ids_ulid_def)

lemma run_clock_nowIso [simp]:
  "run_state (clock_nowIso d) w = (now_iso_at d (w_clock w), w\<lparr>w_clock := Suc (w_clock w)\<rparr>)"
  by (simp add: clock_nowIso_def)

lemma run_date_now [simp]:
  "run_state (date_now d) w = (date_now_at d (w_dates w), w\<lparr>w_dates := Suc (w_dates w)\<rparr>)"
  by (simp add: date_now_def)

lemma run_on_store [simp]: "run_state (on_store f) w = ((), w\<lparr>w_store := f (w_store w)\<rparr>)"
  by (simp add: on_store_def)

lemma run_ask_store [simp]: "run_state (ask_store f) w = (f (w_store w), w)"
  by (simp add: ask_store_def)

lemma run_in_tx [simp]:
  "run_state (in_tx body) w =
     (case run_state body (begin_tx (w_store w), w) of (r, (t, w')) \<Rightarrow> (r, w'\<lparr>w_store := commit_tx t\<rparr>))"
  by (simp add: in_tx_def)

lemma run_tx_ask [simp]: "run_state (tx_ask f) (t, w) = (f t, (t, w))"
  by (simp add: tx_ask_def)

lemma run_tx_act [simp]: "run_state (tx_act f) (t, w) = ((), (f t, w))"
  by (simp add: tx_act_def)

lemma run_tx_op [simp]: "run_state (tx_op f) (t, w) = (case f t of (r, t') \<Rightarrow> (r, (t', w)))"
  by (simp add: tx_op_def)

lemma run_tx_world [simp]: "run_state (tx_world m) (t, w) = (case run_state m w of (r, w') \<Rightarrow> (r, (t, w')))"
  by (simp add: tx_world_def)

text \<open>
  An invariant of the world, read through a transaction as what its commit would make of it: it is
  kept by a transaction whose every operation keeps that reading.
\<close>

definition through :: "(world \<Rightarrow> bool) \<Rightarrow> memory_transaction \<times> world \<Rightarrow> bool" where
  "through I tw = I ((snd tw)\<lparr>w_store := commit_tx (fst tw)\<rparr>)"

lemma keeps_in_tx [keeps_intros]: "keeps (through I) body \<Longrightarrow> keeps I (in_tx body)"
proof (rule keepsI)
  fix w assume body: "keeps (through I) body" and w: "I w"
  from w have "through I (begin_tx (w_store w), w)"
    by (simp add: through_def)
  with body have "through I (final body (begin_tx (w_store w), w))"
    by (rule keepsD)
  moreover obtain r t w' where "run_state body (begin_tx (w_store w), w) = (r, (t, w'))"
    by (metis prod.collapse)
  ultimately show "I (final (in_tx body) w)"
    by (simp add: final_def through_def)
qed

lemma keeps_tx_ask [keeps_intros]: "keeps J (tx_ask f)"
  by (simp add: tx_ask_def keeps_ask)

lemma keeps_tx_act [keeps_intros]: "(\<And>t w. J (t, w) \<Longrightarrow> J (f t, w)) \<Longrightarrow> keeps J (tx_act f)"
  by (auto simp: keeps_def final_def)

lemma keeps_tx_op [keeps_intros]: "(\<And>t w. J (t, w) \<Longrightarrow> J (snd (f t), w)) \<Longrightarrow> keeps J (tx_op f)"
  unfolding keeps_def by (auto simp: final_def split_beta)

lemma keeps_on_store [keeps_intros]:
  "(\<And>w. I w \<Longrightarrow> I (w\<lparr>w_store := f (w_store w)\<rparr>)) \<Longrightarrow> keeps I (on_store f)"
  by (simp add: keeps_def final_def)

lemma keeps_ask_store [keeps_intros]: "keeps I (ask_store f)"
  by (simp add: ask_store_def keeps_ask)

section \<open>Dispatch\<close>

definition notify_resolveWait :: "string \<Rightarrow> wait_resolution \<Rightarrow> (world, unit) state" where
  "notify_resolveWait wid r = act (\<lambda>w. w\<lparr>w_notified := w_notified w @ [(wid, r)],
     w_registry := resolve wid r (w_registry w)\<rparr>)"

definition invoke_action ::
    "kernel_deps \<Rightarrow> reaction_spec \<Rightarrow> journal_entry \<Rightarrow> nat \<Rightarrow> (world, bool) state" where
  "invoke_action d r e attempt = State (\<lambda>w.
     let good = action_invoke d (length (w_invoked w)) (rx_action r) e (rx_reaction_id r) attempt
     in (good, w\<lparr>w_invoked := w_invoked w @ [(rx_reaction_id r, je_entry_id e, attempt, good)]\<rparr>))"

definition denied_resolution :: "string \<Rightarrow> command_result \<Rightarrow> wait_resolution" where
  "denied_resolution wid den = \<lparr>wr_wait_id = wid, wr_status = Denied, wr_entry = None, wr_denial = Some den\<rparr>"

definition matched_resolution :: "string \<Rightarrow> journal_entry \<Rightarrow> wait_resolution" where
  "matched_resolution wid e = \<lparr>wr_wait_id = wid, wr_status = Matched, wr_entry = Some e, wr_denial = None\<rparr>"

definition resolveBoundWait :: "string \<Rightarrow> command_result \<Rightarrow> (world, unit) state" where
  "resolveBoundWait wid den = do {
     _ \<leftarrow> notify_resolveWait wid (denied_resolution wid den);
     row \<leftarrow> in_tx (tx_ask (tx_getWait wid));
     (case row of
        None \<Rightarrow> skip
      | Some r \<Rightarrow> in_tx (tx_act (updateWait (r\<lparr>wt_status := WResolved\<rparr>))))
   }"

definition resolveWait :: "wait_row \<Rightarrow> wait_resolution \<Rightarrow> (world, unit) state" where
  "resolveWait row r = do {
     _ \<leftarrow> notify_resolveWait (wt_wait_id row) r;
     in_tx (tx_act (updateWait (row\<lparr>wt_status := WResolved\<rparr>)))
   }"

definition enqueueReactionIfNeeded :: "kernel_deps \<Rightarrow> reaction_spec \<Rightarrow> journal_entry \<Rightarrow> (world, unit) state" where
  "enqueueReactionIfNeeded d r e = do {
     let fingerprint = dedupFingerprint r e;
     n \<leftarrow> date_now d;
     let expires = n + rd_window_seconds (rx_dedup r) * 1000;
     qid \<leftarrow> ids_ulid d;
     in_tx (do {
       now \<leftarrow> tx_world (date_now d);
       inserted \<leftarrow> tx_op (insertDedup now fingerprint expires);
       (if rd_required (rx_dedup r) \<and> \<not> inserted
        then tx_act (appendDeliveryLog
               \<lparr>dl_entry_id = je_entry_id e, dl_reaction_id = rx_reaction_id r, dl_attempt_no = 1,
                dl_dedup_key = fingerprint, dl_outcome = DedupSkipped, dl_ts = je_ts e\<rparr>)
        else tx_act (enqueueReaction
               \<lparr>rq_queue_id = qid, rq_reaction_id = rx_reaction_id r, rq_entry_id = je_entry_id e,
                rq_partition_key = partitionKey r e, rq_fingerprint = fingerprint,
                rq_attempt_no = 1, rq_entry = e, rq_enqueued_at = je_ts e\<rparr>))
     })
   }"

definition delivery_of :: "reaction_queue_item \<Rightarrow> delivery_outcome \<Rightarrow> delivery_log_entry" where
  "delivery_of q out = \<lparr>dl_entry_id = rq_entry_id q, dl_reaction_id = rq_reaction_id q,
     dl_attempt_no = rq_attempt_no q, dl_dedup_key = rq_fingerprint q, dl_outcome = out,
     dl_ts = je_ts (rq_entry q)\<rparr>"

definition drain_item :: "kernel_deps \<Rightarrow> reaction_queue_item \<Rightarrow> (world, unit) state" where
  "drain_item d q = do {
     reaction \<leftarrow> ask_store (getReaction (rq_reaction_id q));
     (case reaction of
        None \<Rightarrow> on_store (completeReaction (rq_queue_id q) (delivery_of q DeliveryFailed))
      | Some r \<Rightarrow> do {
          good \<leftarrow> invoke_action d r (rq_entry q) (rq_attempt_no q);
          on_store (completeReaction (rq_queue_id q)
            (delivery_of q (if good then Delivered else DeliveryFailed)))
        })
   }"

definition claim_reactions :: "nat \<Rightarrow> (world, reaction_queue_item list) state" where
  "claim_reactions limit = State (\<lambda>w.
     case claimReactionBatch limit (w_store w) of (b, s) \<Rightarrow> (b, w\<lparr>w_store := s\<rparr>))"

definition drainReactionQueue :: "kernel_deps \<Rightarrow> (world, unit) state" where
  "drainReactionQueue d = do {
     batch \<leftarrow> claim_reactions 100;
     for_each batch (drain_item d)
   }"

definition dispatch_wait ::
    "bool \<Rightarrow> command_result option \<Rightarrow> journal_entry \<Rightarrow> wait_row \<Rightarrow> (world, unit) state" where
  "dispatch_wait denied den e row =
     (if truthy_str (wt_bound_command_id row) \<and> denied \<and> den \<noteq> None
      then resolveBoundWait (wt_wait_id row) (the den)
      else do {
        progress \<leftarrow> ask (\<lambda>w. js_get (w_progress w) (wt_wait_id row));
        let (matched, progress') = matchesWaitCondition (wt_condition row) e progress;
        _ \<leftarrow> (case progress' of
                None \<Rightarrow> skip
              | Some p \<Rightarrow> act (\<lambda>w. w\<lparr>w_progress := js_set (wt_wait_id row) p (w_progress w)\<rparr>));
        (if matched then resolveWait row (matched_resolution (wt_wait_id row) e) else skip)
      })"

definition dispatch_entry ::
    "kernel_deps \<Rightarrow> string option \<Rightarrow> bool \<Rightarrow> command_result option \<Rightarrow> journal_entry \<Rightarrow> (world, unit) state" where
  "dispatch_entry d bound denied den e =
     (if truthy_str bound \<and> denied \<and> den \<noteq> None then resolveBoundWait (the bound) (the den)
      else do {
        waits \<leftarrow> ask_store (listPendingWaits (je_scope_id e) (je_aggregate_id e));
        _ \<leftarrow> for_each waits (dispatch_wait denied den e);
        reactions \<leftarrow> ask_store (listReactions (je_scope_id e));
        _ \<leftarrow> for_each reactions (\<lambda>r. if \<not> matchesReaction r e then skip else enqueueReactionIfNeeded d r e);
        for_each (projection_handlers d) (\<lambda>(name, h). on_store (dispatchProjection name h e))
      })"

definition dispatchFanout ::
    "kernel_deps \<Rightarrow> journal_entry list \<Rightarrow> string option \<Rightarrow> bool \<Rightarrow> command_result option \<Rightarrow> (world, unit) state" where
  "dispatchFanout d entries bound denied den = do {
     _ \<leftarrow> for_each entries (dispatch_entry d bound denied den);
     drainReactionQueue d
   }"

end
