(* ===== verification/Fold.thy ===== *)
theory Fold
  imports Executor
begin

text \<open>
  Replaying the journal: \<open>journal/fold.ts\<close> of \<open>packages/runtime-contracts/src\<close>. An aggregate is
  rebuilt from the successful \<open>aggregate.created\<close> and \<open>transition.applied\<close> entries that carry its
  id, in sequence order. The lemmas give the fold of a journal extended by one entry.
\<close>

definition isStateMutatingEntry :: "journal_entry \<Rightarrow> bool" where
  "isStateMutatingEntry e \<longleftrightarrow> je_outcome e = Success \<and> je_type e \<in> set STATE_MUTATING_TYPES"

definition shouldSkipForFold :: "journal_entry \<Rightarrow> bool" where
  "shouldSkipForFold e \<longleftrightarrow>
     (if je_outcome e = Denial then True
      else if je_type e = E_CHECKPOINT_VOTE then True
      else if je_type e = E_EVENT_APPENDED then True
      else False)"

text \<open>The casts of payload fields. A status string is one of the three the kernel writes.\<close>

definition rule_ref_json :: "rule_ref \<Rightarrow> json" where
  "rule_ref_json r = JObj [(''rule_ref_id'', JStr (rr_rule_ref_id r)),
     (''digest'', JStr (rr_digest r)), (''version'', JStr (rr_version r))]"

definition as_rule_ref :: "json \<Rightarrow> rule_ref" where
  "as_rule_ref v = \<lparr>rr_rule_ref_id = as_str (prop_of (as_obj v) ''rule_ref_id''),
     rr_digest = as_str (prop_of (as_obj v) ''digest''),
     rr_version = as_str (prop_of (as_obj v) ''version'')\<rparr>"

definition as_status :: "json \<Rightarrow> aggregate_status" where
  "as_status v = (if as_str v = ''terminal'' then Terminal
     else if as_str v = ''archived'' then Archived else Active)"

definition resolveStatus :: "string \<Rightarrow> rule_artifact option \<Rightarrow> aggregate_status" where
  "resolveStatus state art =
     (case art of
        None \<Rightarrow> Active
      | Some a \<Rightarrow>
          (case map_of (ra_states a) state of
             Some Terminal \<Rightarrow> Terminal
           | Some Archived \<Rightarrow> Archived
           | _ \<Rightarrow> if state \<in> set (ra_terminal_states a) then Terminal else Active))"

definition created_aggregate :: "rule_artifact option \<Rightarrow> string \<Rightarrow> journal_entry \<Rightarrow> aggregate" where
  "created_aggregate art aid e =
     (let p = je_payload e in
      \<lparr>ag_aggregate_id = aid, ag_scope_id = je_scope_id e,
       ag_rule_ref = as_rule_ref (prop_of p ''rule_ref''),
       ag_state = (if nullish (prop_of p ''initial_state'')
                   then (case art of None \<Rightarrow> [] | Some a \<Rightarrow> ra_initial_state a)
                   else as_str (prop_of p ''initial_state'')),
       ag_metadata = (if nullish (prop_of p ''metadata'') then [] else as_obj (prop_of p ''metadata'')),
       ag_revision = (if nullish (prop_of p ''revision'') then 0 else as_int (prop_of p ''revision'')),
       ag_status = (if nullish (prop_of p ''status'') then Active else as_status (prop_of p ''status'')),
       ag_created_at = je_ts e, ag_updated_at = je_ts e\<rparr>)"

definition transitioned_aggregate ::
    "rule_artifact option \<Rightarrow> aggregate \<Rightarrow> journal_entry \<Rightarrow> aggregate" where
  "transitioned_aggregate art ag e =
     (let p = je_payload e in
      ag\<lparr>ag_state := as_str (prop_of p ''to''),
         ag_revision := (if nullish (prop_of p ''revision'') then ag_revision ag + 1
                         else as_int (prop_of p ''revision'')),
         ag_metadata := (if truthy (prop_of p ''metadata_patch'')
                         then spread (ag_metadata ag) (as_obj (prop_of p ''metadata_patch''))
                         else ag_metadata ag),
         ag_updated_at := je_ts e,
         ag_status := (if nullish (prop_of p ''status'')
                       then resolveStatus (as_str (prop_of p ''to'')) art
                       else as_status (prop_of p ''status''))\<rparr>)"

definition fold_step ::
    "rule_artifact option \<Rightarrow> string \<Rightarrow> aggregate option \<Rightarrow> journal_entry \<Rightarrow> aggregate option" where
  "fold_step art aid acc e =
     (if \<not> isStateMutatingEntry e then acc
      else if je_type e = E_AGGREGATE_CREATED then Some (created_aggregate art aid e)
      else case acc of
        None \<Rightarrow> None
      | Some ag \<Rightarrow>
          if je_type e = E_TRANSITION_APPLIED then Some (transitioned_aggregate art ag e) else acc)"

definition foldJournalToSnapshot ::
    "journal_entry list \<Rightarrow> string \<Rightarrow> rule_artifact option \<Rightarrow> aggregate option" where
  "foldJournalToSnapshot entries aid art =
     foldl (fold_step art aid) None
       (sort_key je_seq
         (filter (\<lambda>e. \<not> shouldSkipForFold e)
           (filter (\<lambda>e. je_aggregate_id e = Some aid) entries)))"

section \<open>Casts undo the encodings\<close>

lemma as_rule_ref_json [simp]: "as_rule_ref (rule_ref_json r) = r"
  by (simp add: as_rule_ref_def rule_ref_json_def)

lemma as_status_str [simp]: "as_status (JStr (status_str s)) = s"
  by (cases s) (simp_all add: as_status_def)

lemma status_str_inject: "status_str s = status_str t \<longleftrightarrow> s = t"
  by (cases s; cases t) simp_all

lemma resolveStatus_Some: "resolveStatus state (Some art) = resolveAggregateStatus state art"
  by (simp add: resolveStatus_def resolveAggregateStatus_def)

section \<open>Folding an extended journal\<close>

text \<open>An entry is relevant to the fold of \<open>aid\<close> when it is successful, mutating and carries \<open>aid\<close>.\<close>

definition fold_relevant :: "string \<Rightarrow> journal_entry \<Rightarrow> bool" where
  "fold_relevant aid e \<longleftrightarrow> je_aggregate_id e = Some aid \<and> isStateMutatingEntry e"

lemma mutating_not_skipped: "isStateMutatingEntry e \<Longrightarrow> \<not> shouldSkipForFold e"
  by (auto simp: isStateMutatingEntry_def shouldSkipForFold_def STATE_MUTATING_TYPES_def)

lemma foldl_fold_step_relevant:
  "foldl (fold_step art aid) acc xs = foldl (fold_step art aid) acc (filter isStateMutatingEntry xs)"
  by (induction xs arbitrary: acc) (auto simp: fold_step_def)

text \<open>On a journal in sequence order the sort does nothing.\<close>

lemma fold_in_order:
  assumes "sorted (map je_seq entries)"
  shows "foldJournalToSnapshot entries aid art =
     foldl (fold_step art aid) None (filter (fold_relevant aid) entries)"
proof -
  let ?xs = "filter (\<lambda>e. \<not> shouldSkipForFold e)
               (filter (\<lambda>e. je_aggregate_id e = Some aid) entries)"
  have "sorted (map je_seq ?xs)"
    using assms by (intro sorted_filter) auto
  then have "sort_key je_seq ?xs = ?xs"
    by (rule sort_key_id_if_sorted)
  moreover have "filter isStateMutatingEntry ?xs = filter (fold_relevant aid) entries"
    unfolding filter_filter fold_relevant_def
    by (rule filter_cong) (use mutating_not_skipped in auto)
  ultimately show ?thesis
    by (metis foldJournalToSnapshot_def foldl_fold_step_relevant)
qed

lemma sorted_snoc_seq:
  "sorted (map je_seq j) \<Longrightarrow> \<forall>x \<in> set j. je_seq x \<le> je_seq e \<Longrightarrow> sorted (map je_seq (j @ [e]))"
  by (auto simp: sorted_append)

lemma fold_snoc:
  assumes "sorted (map je_seq (j @ [e]))"
  shows "foldJournalToSnapshot (j @ [e]) aid art =
    (if fold_relevant aid e then fold_step art aid (foldJournalToSnapshot j aid art) e
     else foldJournalToSnapshot j aid art)"
proof -
  from assms have "sorted (map je_seq j)" by (simp add: sorted_append)
  with assms show ?thesis by (simp add: fold_in_order)
qed

lemma fold_snoc_other:
  assumes "sorted (map je_seq (j @ [e]))" and "\<not> fold_relevant aid e"
  shows "foldJournalToSnapshot (j @ [e]) aid art = foldJournalToSnapshot j aid art"
  using assms by (simp add: fold_snoc)

lemma fold_Nil [simp]: "foldJournalToSnapshot [] aid art = None"
  by (simp add: foldJournalToSnapshot_def)

lemma not_relevant_denial [simp]: "je_outcome e = Denial \<Longrightarrow> \<not> fold_relevant aid e"
  by (simp add: fold_relevant_def isStateMutatingEntry_def)

lemma not_relevant_type [simp]:
  "je_type e \<noteq> E_AGGREGATE_CREATED \<Longrightarrow> je_type e \<noteq> E_TRANSITION_APPLIED \<Longrightarrow> \<not> fold_relevant aid e"
  by (simp add: fold_relevant_def isStateMutatingEntry_def STATE_MUTATING_TYPES_def)

lemma not_relevant_aggregate [simp]: "je_aggregate_id e \<noteq> Some aid \<Longrightarrow> \<not> fold_relevant aid e"
  by (simp add: fold_relevant_def)

text \<open>The entry a transition appends replays to exactly the snapshot the transition wrote.\<close>

lemma replay_transition:
  assumes "je_ts e = ts" and "je_payload e = transitionAppliedPayload t (applyTransition ag t a ts patch) patch"
  shows "transitioned_aggregate art ag e = applyTransition ag t a ts patch"
  using assms
  by (simp add: transitioned_aggregate_def transitionAppliedPayload_def applyTransition_def
      split: option.splits)

end
