(* ===== verification/Kernel.thy ===== *)
theory Kernel
  imports Fanout Fold
begin

text \<open>
  The runtime kernel, \<open>command/handler.ts\<close> of \<open>packages/runtime-kernel/src\<close>: one definition per
  method of \<open>RuntimeKernel\<close>. One command runs to the end of its asynchronous calls before the next
  starts; a caller that waits for \<open>block_on\<close> ends as \<open>Blocked\<close> and is resumed by
  \<open>block_result\<close> once its promise is settled. A rejected \<open>rules.load\<close> is the outcome \<open>Raised\<close>.
\<close>

section \<open>Commits\<close>

definition remember_result ::
    "provenance \<Rightarrow> command_result \<Rightarrow> (memory_transaction \<times> world, command_result) state" where
  "remember_result p r =
     (if truthy_str (pv_command_id p)
      then do {
        inserted \<leftarrow> tx_op (insertIdempotency (the (pv_command_id p)) r);
        (if \<not> inserted
         then do {
           prev \<leftarrow> tx_ask (tx_getIdempotency (the (pv_command_id p)));
           State_Monad.return (case prev of Some q \<Rightarrow> q | None \<Rightarrow> r)
         }
         else State_Monad.return r)
      }
      else State_Monad.return r)"

definition append_with_outbox ::
    "journal_entry_draft \<Rightarrow> (memory_transaction \<times> world, allocated_seq) state" where
  "append_with_outbox draft = do {
     allocated \<leftarrow> tx_op (appendJournal draft);
     _ \<leftarrow> tx_act (insertOutbox (al_seq allocated));
     State_Monad.return allocated
   }"

definition commitSuccess ::
    "kernel_deps \<Rightarrow> provenance \<Rightarrow> journal_entry_draft \<Rightarrow> aggregate \<Rightarrow> int \<Rightarrow> string \<Rightarrow> jobj
     \<Rightarrow> (world, command_result) state" where
  "commitSuccess d p draft ag expected code body = in_tx (do {
     allocated \<leftarrow> append_with_outbox draft;
     cas \<leftarrow> tx_op (upsertSnapshotIfRevision ag expected);
     (if \<not> cas then do {
        eid \<leftarrow> tx_world (ids_ulid d);
        ts \<leftarrow> tx_world (clock_nowIso d);
        let denial = buildDenialEntry p eid ts E_REVISION_CONFLICT REVISION_CONFLICT ''Revision conflict''
                       True None (Some (ag_aggregate_id ag));
        dAlloc \<leftarrow> append_with_outbox denial;
        remember_result p (resultFromEntry (je_entry_id denial) (al_seq dAlloc) REVISION_CONFLICT
          [(''message'', JStr ''Revision conflict'')] Http409 Denial)
      }
      else remember_result p
             (resultFromEntry (je_entry_id draft) (al_seq allocated) code body Http200 Success))
   })"

definition commitCheckpointPending ::
    "provenance \<Rightarrow> journal_entry_draft \<Rightarrow> checkpoint \<Rightarrow> (world, command_result) state" where
  "commitCheckpointPending p draft c = in_tx (do {
     allocated \<leftarrow> append_with_outbox draft;
     _ \<leftarrow> tx_act (upsertCheckpoint c);
     remember_result p (resultFromEntry (je_entry_id draft) (al_seq allocated) CHECKPOINT_PENDING
       [(''checkpoint_id'', JStr (cp_checkpoint_id c)), (''aggregate_id'', JStr (cp_aggregate_id c)),
        (''transition_id'', JStr (cp_transition_id c))] Http202 Success)
   })"

definition commitJournalOnly ::
    "provenance \<Rightarrow> journal_entry_draft \<Rightarrow> (memory_transaction \<Rightarrow> memory_transaction) \<Rightarrow> string \<Rightarrow> jobj
     \<Rightarrow> (world, command_result) state" where
  "commitJournalOnly p draft extra code body = in_tx (do {
     allocated \<leftarrow> append_with_outbox draft;
     _ \<leftarrow> tx_act extra;
     remember_result p
       (resultFromEntry (je_entry_id draft) (al_seq allocated) code body Http200 Success)
   })"

definition commitDenial ::
    "kernel_deps \<Rightarrow> provenance \<Rightarrow> string \<Rightarrow> string \<Rightarrow> string \<Rightarrow> http_semantic \<Rightarrow> bool \<Rightarrow> jobj option
     \<Rightarrow> string option \<Rightarrow> (world, command_result) state" where
  "commitDenial d p type code msg http retryable ctx aid = in_tx (do {
     eid \<leftarrow> tx_world (ids_ulid d);
     ts \<leftarrow> tx_world (clock_nowIso d);
     let draft = buildDenialEntry p eid ts type code msg retryable ctx aid;
     allocated \<leftarrow> append_with_outbox draft;
     remember_result p (resultFromEntry (je_entry_id draft) (al_seq allocated) code
       [(''message'', JStr msg), (''context'', opt_obj ctx)] http Denial)
   })"

section \<open>Handlers\<close>

type_synonym handled = "js_error + command_result"

definition handled_by :: "(world, command_result) state \<Rightarrow> (world, handled) state" where
  "handled_by m = do { r \<leftarrow> m; State_Monad.return (Inr r) }"

definition load_failed :: "(world, handled) state" where
  "load_failed = State_Monad.return (Inl (JsError ''rules.load''))"

definition join_errors :: "string list option \<Rightarrow> string \<Rightarrow> string" where
  "join_errors errs dflt = (case errs of None \<Rightarrow> dflt | Some es \<Rightarrow> join_with ''; '' es)"

definition create_and_commit ::
    "kernel_deps \<Rightarrow> provenance \<Rightarrow> rule_ref \<Rightarrow> jobj option \<Rightarrow> rule_artifact \<Rightarrow> (world, command_result) state" where
  "create_and_commit d p ref metadata art = do {
     aid \<leftarrow> ids_ulid d;
     ts \<leftarrow> clock_nowIso d;
     eid \<leftarrow> ids_ulid d;
     let meta = (case metadata of None \<Rightarrow> [] | Some m \<Rightarrow> m);
     let ag = \<lparr>ag_aggregate_id = aid, ag_scope_id = pv_scope_id p, ag_rule_ref = ref,
               ag_state = ra_initial_state art, ag_metadata = meta, ag_revision = 0,
               ag_status = Active, ag_created_at = ts, ag_updated_at = ts\<rparr>;
     let draft = buildEntry p eid ts E_AGGREGATE_CREATED Success
               [(''rule_ref'', rule_ref_json ref), (''initial_state'', JStr (ra_initial_state art)),
                (''status'', JStr ''active''), (''metadata'', JObj meta), (''revision'', JNum 0)]
               (Some aid) None None;
     commitSuccess d p draft ag (- 1) ''aggregate_created''
       [(''aggregate_id'', JStr aid), (''state'', JStr (ag_state ag)), (''revision'', JNum 0)]
   }"

definition handleCreate ::
    "kernel_deps \<Rightarrow> provenance \<Rightarrow> rule_ref \<Rightarrow> jobj option \<Rightarrow> (world, handled) state" where
  "handleCreate d p ref metadata =
     (case rules_load d ref of
        None \<Rightarrow> load_failed
      | Some art \<Rightarrow>
          (case metadata of
             None \<Rightarrow> handled_by (create_and_commit d p ref metadata art)
           | Some m \<Rightarrow>
               let v = schema_validate d (ra_metadata_schema art) m in
               if \<not> sv_valid v
               then handled_by (commitDenial d p E_VALIDATION_DENIED VALIDATION_DENIED
                      (join_errors (sv_errors v) ''Invalid metadata'') Http403 False None None)
               else handled_by (create_and_commit d p ref metadata art)))"

definition legal_json :: "string \<times> string \<times> string \<Rightarrow> json" where
  "legal_json l = (case l of (event, dest, tid) \<Rightarrow>
     JObj [(''event'', JStr event), (''to'', JStr dest), (''transition_id'', JStr tid)])"

definition pause_at_checkpoint ::
    "kernel_deps \<Rightarrow> provenance \<Rightarrow> string \<Rightarrow> rule_transition \<Rightarrow> transition_checkpoint \<Rightarrow> iso_time
     \<Rightarrow> (world, command_result) state" where
  "pause_at_checkpoint d p aid t c ts = do {
     cid \<leftarrow> ids_ulid d;
     let cp = checkpointFromTransition cid (pv_scope_id p) aid t c ts;
     eid \<leftarrow> ids_ulid d;
     let draft = buildEntry p eid ts E_CHECKPOINT_CREATED Success
               [(''checkpoint_id'', JStr cid), (''transition_id'', JStr (tr_id t)),
                (''from'', JStr (tr_from t)), (''to'', JStr (tr_to t))] (Some aid) None None;
     commitCheckpointPending p draft cp
   }"

definition transition_and_commit ::
    "kernel_deps \<Rightarrow> provenance \<Rightarrow> string \<Rightarrow> aggregate \<Rightarrow> rule_artifact \<Rightarrow> rule_transition \<Rightarrow> jobj option
     \<Rightarrow> iso_time \<Rightarrow> (world, command_result) state" where
  "transition_and_commit d p aid ag art t payload ts = do {
     let updated = applyTransition ag t art ts payload;
     eid \<leftarrow> ids_ulid d;
     let draft = buildEntry p eid ts E_TRANSITION_APPLIED Success
               (transitionAppliedPayload t updated payload) (Some aid) None None;
     commitSuccess d p draft updated (ag_revision ag) ''transition_applied''
       [(''aggregate_id'', JStr (ag_aggregate_id updated)), (''state'', JStr (ag_state updated)),
        (''revision'', JNum (ag_revision updated))]
   }"

definition handleTransition ::
    "kernel_deps \<Rightarrow> provenance \<Rightarrow> string \<Rightarrow> string \<Rightarrow> jobj option \<Rightarrow> int \<Rightarrow> (world, handled) state" where
  "handleTransition d p aid event payload expected = do {
     snapshot \<leftarrow> in_tx (tx_ask (tx_getSnapshot aid));
     (case snapshot of
        None \<Rightarrow> handled_by (commitDenial d p E_TRANSITION_DENIED NOT_FOUND ''Aggregate not found'' Http404
                  False None (Some aid))
      | Some ag \<Rightarrow>
          (case rules_load d (ag_rule_ref ag) of
             None \<Rightarrow> load_failed
           | Some art \<Rightarrow>
               (case findMatchingTransition d ag art event (pv_actor_id p) (pv_actor_kind p) of
                  None \<Rightarrow> handled_by (commitDenial d p E_TRANSITION_DENIED TRANSITION_DENIED
                     (''No matching transition for event '' @ [CHR 0x27] @ event @ [CHR 0x27]) Http409 False
                     (Some [(''legal_transitions_for_actor'', JArr (map legal_json
                       (findLegalTransitionsForActor d ag art (pv_actor_id p) (pv_actor_kind p))))])
                     (Some aid))
                | Some t \<Rightarrow>
                    if expected \<noteq> ag_revision ag
                    then handled_by (commitDenial d p E_REVISION_CONFLICT REVISION_CONFLICT
                           (''Expected revision '' @ int_str expected @ '', current '' @ int_str (ag_revision ag))
                           Http409 True None (Some aid))
                    else do {
                      ts \<leftarrow> clock_nowIso d;
                      (case tr_checkpoint t of
                         Some c \<Rightarrow> handled_by (pause_at_checkpoint d p aid t c ts)
                       | None \<Rightarrow> handled_by (transition_and_commit d p aid ag art t payload ts))
                    })))
   }"

definition handleEventAppend ::
    "kernel_deps \<Rightarrow> provenance \<Rightarrow> string \<Rightarrow> string \<Rightarrow> jobj option \<Rightarrow> (world, handled) state" where
  "handleEventAppend d p aid ety payload = do {
     snapshot \<leftarrow> in_tx (tx_ask (tx_getSnapshot aid));
     (case snapshot of
        None \<Rightarrow> handled_by (commitDenial d p E_VALIDATION_DENIED NOT_FOUND ''Aggregate not found'' Http404
                  False None (Some aid))
      | Some ag \<Rightarrow>
          (case rules_load d (ag_rule_ref ag) of
             None \<Rightarrow> load_failed
           | Some art \<Rightarrow>
               (case find (\<lambda>x. ed_type x = ety) (case ra_events art of None \<Rightarrow> [] | Some xs \<Rightarrow> xs) of
                  None \<Rightarrow> handled_by (commitDenial d p E_VALIDATION_DENIED VALIDATION_DENIED
                            ''Undeclared event'' Http403 False None (Some aid))
                | Some declared \<Rightarrow>
                    (let v = (case payload of None \<Rightarrow> \<lparr>sv_valid = True, sv_errors = None\<rparr>
                                | Some pl \<Rightarrow> schema_validate d (ed_schema declared) pl) in
                     if \<not> sv_valid v
                     then handled_by (commitDenial d p E_VALIDATION_DENIED VALIDATION_DENIED
                            (join_errors (sv_errors v) ''Invalid'') Http403 False None (Some aid))
                     else do {
                       ts \<leftarrow> clock_nowIso d;
                       eid \<leftarrow> ids_ulid d;
                       let draft = buildEntry p eid ts E_EVENT_APPENDED Success
                             (spread [(''type'', JStr ety)] (case payload of None \<Rightarrow> [] | Some pl \<Rightarrow> pl))
                             (Some aid) (Some KEvent) None;
                       handled_by (commitJournalOnly p draft id ''event_appended'' [(''type'', JStr ety)])
                     }))))
   }"

definition pending_row ::
    "string \<Rightarrow> string \<Rightarrow> string option \<Rightarrow> wait_condition \<Rightarrow> string option \<Rightarrow> nat \<Rightarrow> iso_time \<Rightarrow> wait_row" where
  "pending_row wid scope aid c bound sq ts = \<lparr>wt_wait_id = wid, wt_scope_id = scope,
     wt_aggregate_id = aid, wt_condition = c, wt_bound_command_id = bound, wt_status = WPending,
     wt_registered_at_seq = sq, wt_expires_at = None, wt_created_at = ts\<rparr>"

definition handleWaitRegister ::
    "kernel_deps \<Rightarrow> provenance \<Rightarrow> wait_condition \<Rightarrow> string option \<Rightarrow> string option \<Rightarrow> (world, handled) state" where
  "handleWaitRegister d p c bound aid = do {
     wid \<leftarrow> ids_ulid d;
     ts \<leftarrow> clock_nowIso d;
     maxSeq \<leftarrow> ask_store getMaxSeq;
     let row = pending_row wid (pv_scope_id p) aid c bound maxSeq ts;
     eid \<leftarrow> ids_ulid d;
     let draft = buildEntry p eid ts E_WAIT_REGISTERED Success [(''wait_id'', JStr wid)] aid None None;
     handled_by (commitJournalOnly p draft (insertWait row) ''wait_registered'' [(''wait_id'', JStr wid)])
   }"

definition handleWaitCancel :: "kernel_deps \<Rightarrow> provenance \<Rightarrow> string \<Rightarrow> (world, handled) state" where
  "handleWaitCancel d p wid = do {
     row \<leftarrow> in_tx (tx_ask (tx_getWait wid));
     (case row of
        None \<Rightarrow> State_Monad.return (Inr (denialResult NOT_FOUND [(''message'', JStr ''Wait not found'')] Http404))
      | Some r \<Rightarrow> do {
          ts \<leftarrow> clock_nowIso d;
          eid \<leftarrow> ids_ulid d;
          let draft = buildEntry p eid ts E_WAIT_CANCELLED Success [(''wait_id'', JStr wid)] None None None;
          handled_by (commitJournalOnly p draft (updateWait (r\<lparr>wt_status := WCancelled\<rparr>))
            ''wait_cancelled'' [(''wait_id'', JStr wid)])
        })
   }"

definition register_spec :: "reaction_spec_input \<Rightarrow> nat \<Rightarrow> reaction_spec" where
  "register_spec i sq = \<lparr>rx_reaction_id = rx_reaction_id i, rx_scope_id = rx_scope_id i,
     rx_filter = rx_filter i, rx_action = rx_action i, rx_dedup = rx_dedup i,
     rx_partition = rx_partition i, rx_registered_at_seq = sq, rx_enabled = True\<rparr>"

definition handleReactionRegister ::
    "kernel_deps \<Rightarrow> provenance \<Rightarrow> reaction_spec_input \<Rightarrow> (world, handled) state" where
  "handleReactionRegister d p spec = do {
     maxSeq \<leftarrow> ask_store getMaxSeq;
     let r = register_spec spec (maxSeq + 1);
     ts \<leftarrow> clock_nowIso d;
     eid \<leftarrow> ids_ulid d;
     let body = [(''reaction_id'', JStr (rx_reaction_id r))];
     let draft = buildEntry p eid ts E_REACTION_REGISTERED Success body None None None;
     handled_by (commitJournalOnly p draft (insertReaction r) ''reaction_registered'' body)
   }"

definition handleReactionDisable :: "kernel_deps \<Rightarrow> provenance \<Rightarrow> string \<Rightarrow> (world, handled) state" where
  "handleReactionDisable d p rid = do {
     reaction \<leftarrow> ask_store (getReaction rid);
     _ \<leftarrow> (case reaction of
             None \<Rightarrow> skip
           | Some r \<Rightarrow> in_tx (tx_act (insertReaction (r\<lparr>rx_enabled := False\<rparr>))));
     ts \<leftarrow> clock_nowIso d;
     eid \<leftarrow> ids_ulid d;
     let body = [(''reaction_id'', JStr rid)];
     let draft = buildEntry p eid ts E_REACTION_DISABLED Success body None None None;
     handled_by (commitJournalOnly p draft id ''reaction_disabled'' body)
   }"

definition replay_action ::
    "kernel_deps \<Rightarrow> reaction_spec \<Rightarrow> journal_entry \<Rightarrow> string \<Rightarrow> (world, handled) state" where
  "replay_action d r source reason = do {
     good \<leftarrow> invoke_action d r source 1;
     _ \<leftarrow> in_tx (tx_act (appendDeliveryLog
       \<lparr>dl_entry_id = je_entry_id source, dl_reaction_id = rx_reaction_id r, dl_attempt_no = 1,
        dl_dedup_key = dedupFingerprint r source,
        dl_outcome = (if good then Delivered else DeliveryFailed), dl_ts = je_ts source\<rparr>));
     State_Monad.return (Inr (successResult ''reaction_replayed''
       [(''reaction_id'', JStr (rx_reaction_id r)), (''reason'', JStr reason)]))
   }"

definition handleReactionReplay ::
    "kernel_deps \<Rightarrow> string \<Rightarrow> string \<Rightarrow> bool \<Rightarrow> string \<Rightarrow> (world, handled) state" where
  "handleReactionReplay d rid source_id bypass reason = do {
     reaction \<leftarrow> ask_store (getReaction rid);
     (case reaction of
        None \<Rightarrow> State_Monad.return (Inr (denialResult NOT_FOUND [(''message'', JStr ''Reaction not found'')] Http404))
      | Some r \<Rightarrow> do {
          journal \<leftarrow> ask_store (tailJournal 0 1000);
          (case find (\<lambda>e. je_entry_id e = source_id) journal of
             None \<Rightarrow> State_Monad.return
               (Inr (denialResult NOT_FOUND [(''message'', JStr ''Source entry not found'')] Http404))
           | Some source \<Rightarrow>
               if bypass then replay_action d r source reason
               else do {
                 n \<leftarrow> date_now d;
                 let expires = n + rd_window_seconds (rx_dedup r) * 1000;
                 inserted \<leftarrow> in_tx (do {
                   now \<leftarrow> tx_world (date_now d);
                   tx_op (insertDedup now (dedupFingerprint r source) expires)
                 });
                 (if rd_required (rx_dedup r) \<and> \<not> inserted
                  then State_Monad.return (Inr (successResult ''dedup_skipped'' [(''reason'', JStr reason)]))
                  else replay_action d r source reason)
               })
        })
   }"

section \<open>Executing a command\<close>

datatype exec_outcome = Returned command_result | Blocked nat command_result | Raised js_error

definition ensureProvenance :: "kernel_deps \<Rightarrow> kernel_command \<Rightarrow> (world, provenance) state" where
  "ensureProvenance d cmd =
     (let p = command_provenance cmd in
      case pv_command_id p of
        Some _ \<Rightarrow> State_Monad.return p
      | None \<Rightarrow> do { cid \<leftarrow> ids_ulid d; State_Monad.return (p\<lparr>pv_command_id := Some cid\<rparr>) })"

definition defer_wait :: "string \<Rightarrow> (world, nat) state" where
  "defer_wait wid = State (\<lambda>w. case registerDeferred wid (w_registry w) of
     (n, g) \<Rightarrow> (n, w\<lparr>w_registry := g\<rparr>))"

definition registerBlockWait ::
    "kernel_deps \<Rightarrow> provenance \<Rightarrow> wait_condition \<Rightarrow> string \<Rightarrow> (world, string) state" where
  "registerBlockWait d p c bound = do {
     wid \<leftarrow> ids_ulid d;
     ts \<leftarrow> clock_nowIso d;
     maxSeq \<leftarrow> ask_store getMaxSeq;
     _ \<leftarrow> in_tx (tx_act (insertWait
       (pending_row wid (pv_scope_id p) (pv_aggregate_id p) c (Some bound) maxSeq ts)));
     _ \<leftarrow> defer_wait wid;
     State_Monad.return wid
   }"

definition replay_result :: "command_result \<Rightarrow> command_result" where
  "replay_result r =
     r\<lparr>cr_code := IDEMPOTENCY_REPLAY, cr_body := spread (cr_body r) [(''replay'', JBool True)]\<rparr>"

fun handle :: "kernel_deps \<Rightarrow> kernel_command \<Rightarrow> provenance \<Rightarrow> (world, handled) state" where
  "handle d (AggregateCreate _ ref meta) p = handleCreate d p ref meta"
| "handle d (StateTransition _ aid event payload expected _) p = handleTransition d p aid event payload expected"
| "handle d (EventAppend _ aid ety payload) p = handleEventAppend d p aid ety payload"
| "handle d (WaitRegister _ c bound aid) p = handleWaitRegister d p c bound aid"
| "handle d (WaitCancel _ wid) p = handleWaitCancel d p wid"
| "handle d (ReactionRegister _ spec) p = handleReactionRegister d p spec"
| "handle d (ReactionDisable _ rid) p = handleReactionDisable d p rid"
| "handle d (ReactionReplay _ rid src bypass reason) p = handleReactionReplay d rid src bypass reason"

definition ack_entry :: "kernel_deps \<Rightarrow> journal_entry \<Rightarrow> (world, unit) state" where
  "ack_entry d e = do {
     present \<leftarrow> ask_store (\<lambda>s. js_has (ms_outbox s) (je_seq e));
     (if present then do { now \<leftarrow> date_now d; on_store (ackFanout (je_seq e) now) } else skip)
   }"

definition fan_out ::
    "kernel_deps \<Rightarrow> nat \<Rightarrow> string option \<Rightarrow> command_result \<Rightarrow> (world, unit) state" where
  "fan_out d maxSeqBefore bound r = do {
     entries \<leftarrow> ask_store (tailJournal maxSeqBefore 1000);
     _ \<leftarrow> dispatchFanout d entries bound (cr_outcome r = Denial)
            (if cr_outcome r = Denial then Some r else None);
     for_each entries (ack_entry d)
   }"

text \<open>What \<open>execute\<close> returns once the promise it waits for is settled.\<close>

definition block_result :: "wait_resolution \<Rightarrow> command_result \<Rightarrow> command_result" where
  "block_result res r =
     (case (wr_status res, wr_denial res, wr_entry res) of
        (Denied, Some den, _) \<Rightarrow> den
      | (Matched, _, Some e) \<Rightarrow> successResult ''wait_matched''
          [(''wait_id'', JStr (wr_wait_id res)), (''entry_type'', JStr (je_type e))]
      | _ \<Rightarrow> r)"

definition await_block :: "nat option \<Rightarrow> command_result \<Rightarrow> (world, exec_outcome) state" where
  "await_block blk r =
     (case blk of
        None \<Rightarrow> State_Monad.return (Returned r)
      | Some promise \<Rightarrow> do {
          settled \<leftarrow> ask (\<lambda>w. js_get (rg_settled (w_registry w)) promise);
          State_Monad.return (case settled of None \<Rightarrow> Blocked promise r
                                | Some res \<Rightarrow> Returned (block_result res r))
        })"

definition register_block ::
    "kernel_deps \<Rightarrow> provenance \<Rightarrow> wait_condition option \<Rightarrow> (world, (string \<times> nat) option) state" where
  "register_block d p blk =
     (case blk of
        None \<Rightarrow> State_Monad.return None
      | Some c \<Rightarrow>
          if truthy_str (pv_command_id p)
          then do {
            wid \<leftarrow> registerBlockWait d p c (the (pv_command_id p));
            promise \<leftarrow> defer_wait wid;
            State_Monad.return (Some (wid, promise))
          }
          else State_Monad.return None)"

definition run_command :: "kernel_deps \<Rightarrow> kernel_command \<Rightarrow> provenance \<Rightarrow> (world, exec_outcome) state" where
  "run_command d cmd p = do {
     blk \<leftarrow> register_block d p (command_block_on cmd);
     maxSeqBefore \<leftarrow> ask_store getMaxSeq;
     res \<leftarrow> handle d cmd p;
     (case res of
        Inl err \<Rightarrow> State_Monad.return (Raised err)
      | Inr r \<Rightarrow> do {
          _ \<leftarrow> fan_out d maxSeqBefore (map_option fst blk) r;
          await_block (map_option snd blk) r
        })
   }"

definition existing_result :: "provenance \<Rightarrow> (world, command_result option) state" where
  "existing_result p =
     (if truthy_str (pv_command_id p)
      then in_tx (tx_ask (tx_getIdempotency (the (pv_command_id p))))
      else State_Monad.return None)"

definition execute :: "kernel_deps \<Rightarrow> kernel_command \<Rightarrow> (world, exec_outcome) state" where
  "execute d cmd = do {
     p \<leftarrow> ensureProvenance d cmd;
     existing \<leftarrow> existing_result p;
     (case existing of
        Some r \<Rightarrow> State_Monad.return (Returned (replay_result r))
      | None \<Rightarrow>
          (let policy = policy_evaluate d p (command_kind cmd) in
           if \<not> pr_allowed policy
           then do {
             r \<leftarrow> commitDenial d p E_POLICY_DENIED
                    (case pr_denial policy of None \<Rightarrow> POLICY_DENIED | Some (code, _, _) \<Rightarrow> code)
                    (case pr_denial policy of None \<Rightarrow> ''Policy denied'' | Some (_, msg, _) \<Rightarrow> msg)
                    Http403 False None None;
             State_Monad.return (Returned r)
           }
           else run_command d cmd p))
   }"

section \<open>Queries and the space journal\<close>

definition appendSpaceJournal ::
    "kernel_deps \<Rightarrow> string \<Rightarrow> string \<Rightarrow> jobj \<Rightarrow> string \<Rightarrow> string \<Rightarrow> (world, nat \<times> string) state" where
  "appendSpaceJournal d scope type payload actor cred = do {
     eid \<leftarrow> ids_ulid d;
     ts \<leftarrow> clock_nowIso d;
     let p = \<lparr>pv_scope_id = scope, pv_actor_id = actor, pv_credential_id = cred,
              pv_aggregate_id = None, pv_command_id = None, pv_actor_kind = Some Agent\<rparr>;
     let draft = buildEntry p eid ts type Success payload None (Some KEvent) None;
     in_tx (do {
       allocated \<leftarrow> append_with_outbox draft;
       State_Monad.return (al_seq allocated, eid)
     })
   }"

definition getAggregate :: "string \<Rightarrow> (world, aggregate option) state" where
  "getAggregate aid = in_tx (tx_ask (tx_getSnapshot aid))"

definition kernel_getWait :: "string \<Rightarrow> (world, wait_row option) state" where
  "kernel_getWait wid = in_tx (tx_ask (tx_getWait wid))"

definition kernel_getProjection ::
    "string \<Rightarrow> string \<Rightarrow> string option \<Rightarrow> (world, jobj option) state" where
  "kernel_getProjection name scope aid = ask_store (\<lambda>s. map_option snd (getProjection name scope aid s))"

definition kernel_rebuildProjection ::
    "kernel_deps \<Rightarrow> string \<Rightarrow> nat \<Rightarrow> (world, js_error + unit) state" where
  "kernel_rebuildProjection d name from =
     (case map_of (projection_handlers d) name of
        None \<Rightarrow> State_Monad.return (Inl (JsError (''Unknown projection: '' @ name)))
      | Some h \<Rightarrow> do {
          now \<leftarrow> date_now d;
          now2 \<leftarrow> date_now d;
          State (\<lambda>w. case rebuildProjection name h from ''rebuild'' now now2 (w_store w) of
                   (r, s) \<Rightarrow> (r, w\<lparr>w_store := s\<rparr>))
        })"

definition verifyFold :: "string \<Rightarrow> (world, bool) state" where
  "verifyFold aid = do {
     snapshot \<leftarrow> getAggregate aid;
     journal \<leftarrow> ask_store (tailJournal 0 1000);
     let folded = foldJournalToSnapshot journal aid None;
     State_Monad.return (case (snapshot, folded) of
       (None, None) \<Rightarrow> True
     | (Some a, Some b) \<Rightarrow> ag_state a = ag_state b \<and> ag_revision a = ag_revision b \<and> ag_status a = ag_status b
     | _ \<Rightarrow> False)
   }"

end
