(* ===== verification/FanoutProofs.thy ===== *)
theory FanoutProofs
  imports Fanout
begin

text \<open>
  What fan-out leaves alone. \<open>core\<close> is the part of the store that carries the kernel's guarantees:
  journal, snapshots, checkpoints, idempotency and counters. Dispatching waits, reactions and
  projections changes none of it, whatever the handlers and side effects do.
\<close>

definition core ::
    "memory_store_state \<Rightarrow> journal_entry list \<times> (string, aggregate) jsmap \<times> (string, checkpoint) jsmap \<times>
       (string, command_result) jsmap \<times> nat \<times> (string, nat) jsmap \<times> (string, nat) jsmap" where
  "core s = (ms_journal s, ms_snapshots s, ms_checkpoints s, ms_idempotency s, ms_nextSeq s,
     ms_scopeSeq s, ms_aggregateSeq s)"

text \<open>The core is \<open>c\<close> and at least \<open>n\<close> identifiers have been drawn.\<close>

definition core_is ::
    "journal_entry list \<times> (string, aggregate) jsmap \<times> (string, checkpoint) jsmap \<times>
       (string, command_result) jsmap \<times> nat \<times> (string, nat) jsmap \<times> (string, nat) jsmap \<Rightarrow> nat \<Rightarrow> world \<Rightarrow> bool" where
  "core_is c n w \<longleftrightarrow> core (w_store w) = c \<and> n \<le> w_ids w"

abbreviation core_keeps :: "(world, 'a) state \<Rightarrow> bool" where
  "core_keeps m \<equiv> \<forall>c n. keeps (core_is c n) m"

lemma core_commit_tx_acts [simp]:
  "core (commit_tx (updateWait r t)) = core (commit_tx t)"
  "core (commit_tx (insertWait r t)) = core (commit_tx t)"
  "core (commit_tx (appendDeliveryLog dl t)) = core (commit_tx t)"
  "core (commit_tx (enqueueReaction q t)) = core (commit_tx t)"
  "core (commit_tx (insertReaction rx t)) = core (commit_tx t)"
  "core (commit_tx (upsertProjection nm sc ag sq st t)) = core (commit_tx t)"
  "core (commit_tx (snd (insertDedup now k e t))) = core (commit_tx t)"
  "core (commit_tx (snd (tryMarkProjectionApplied nm sq t))) = core (commit_tx t)"
  by (simp_all add: core_def tx_op_defs Let_def)

lemma core_store_acts [simp]:
  "core (completeReaction q dl s) = core s"
  "core (snd (claimReactionBatch limit s)) = core s"
  "core (setProjectionCursor nm i s) = core s"
  "core (ackFanout sq now s) = core s"
  "core (releaseProjectionLock nm ow s) = core s"
  "core (snd (acquireProjectionLock nm ow le now now2 s)) = core s"
  by (simp_all add: core_def completeReaction_def claimReactionBatch_def setProjectionCursor_def
      ackFanout_def releaseProjectionLock_def acquireProjectionLock_def Let_def split: option.splits)

lemma core_dispatchProjection [simp]: "core (dispatchProjection nm h e s) = core s"
  by (simp add: dispatchProjection_def runInTransaction_def tx_op_defs Let_def core_def
      setProjectionCursor_def split: option.splits)

lemma core_is_store [simp]:
  "core_is c n (w\<lparr>w_store := s\<rparr>) \<longleftrightarrow> core s = c \<and> n \<le> w_ids w"
  by (simp add: core_is_def)

lemma through_core_is [simp]: "through (core_is c n) (t, w) \<longleftrightarrow> core (commit_tx t) = c \<and> n \<le> w_ids w"
  by (simp add: through_def core_is_def)

lemma keeps_draws [keeps_intros]:
  "keeps (core_is c n) (ids_ulid d)" "keeps (core_is c n) (clock_nowIso d)" "keeps (core_is c n) (date_now d)"
  by (simp_all add: keeps_def final_def core_is_def)

lemma keeps_tx_draws [keeps_intros]:
  "keeps (through (core_is c n)) (tx_world (ids_ulid d))"
  "keeps (through (core_is c n)) (tx_world (clock_nowIso d))"
  "keeps (through (core_is c n)) (tx_world (date_now d))"
  by (auto simp: keeps_def final_def)

lemma keeps_notify [keeps_intros]: "keeps (core_is c n) (notify_resolveWait wid r)"
  by (simp add: notify_resolveWait_def keeps_def core_is_def)

lemma keeps_invoke [keeps_intros]: "keeps (core_is c n) (invoke_action d r e k)"
  by (simp add: invoke_action_def keeps_def final_def core_is_def Let_def)

lemma keeps_claim [keeps_intros]: "keeps (core_is c n) (claim_reactions k)"
  by (simp add: claim_reactions_def keeps_def final_def core_is_def split_beta)

lemma keeps_store_core [keeps_intros]: "(\<And>s. core (f s) = core s) \<Longrightarrow> keeps (core_is c n) (on_store f)"
  by (rule keeps_on_store) (simp add: core_is_def)

lemma keeps_resolveBoundWait [keeps_intros]: "keeps (core_is c n) (resolveBoundWait wid den)"
  unfolding resolveBoundWait_def by (auto intro!: keeps_intros)

lemma keeps_resolveWait [keeps_intros]: "keeps (core_is c n) (resolveWait row r)"
  unfolding resolveWait_def by (auto intro!: keeps_intros)

lemma keeps_enqueue [keeps_intros]: "keeps (core_is c n) (enqueueReactionIfNeeded d r e)"
  unfolding enqueueReactionIfNeeded_def Let_def by (auto intro!: keeps_intros)

lemma keeps_drain_item [keeps_intros]: "keeps (core_is c n) (drain_item d q)"
  unfolding drain_item_def by (auto intro!: keeps_intros)

lemma keeps_drain [keeps_intros]: "keeps (core_is c n) (drainReactionQueue d)"
  unfolding drainReactionQueue_def by (auto intro!: keeps_intros)

lemma keeps_progress [keeps_intros]: "keeps (core_is c n) (act (\<lambda>w. w\<lparr>w_progress := f w\<rparr>))"
  by (simp add: keeps_def core_is_def)

lemma keeps_dispatch_wait [keeps_intros]: "keeps (core_is c n) (dispatch_wait denied den e row)"
  unfolding dispatch_wait_def Let_def split_beta by (auto intro!: keeps_intros)

lemma keeps_dispatch_entry [keeps_intros]: "keeps (core_is c n) (dispatch_entry d bound denied den e)"
  unfolding dispatch_entry_def split_beta by (auto intro!: keeps_intros)

lemma keeps_dispatchFanout [keeps_intros]: "keeps (core_is c n) (dispatchFanout d es bound denied den)"
  unfolding dispatchFanout_def by (auto intro!: keeps_intros)

end
