(* ===== verification/KernelProofs.thy ===== *)
theory KernelProofs
  imports Kernel FanoutProofs
begin

text \<open>
  What each commit of the kernel does to the store, and the invariant every command keeps: the
  journal is numbered without gaps and the stored snapshots are exactly the fold of the journal.
\<close>

section \<open>Commits\<close>

definition idem_add :: "provenance \<Rightarrow> command_result \<Rightarrow> (string, command_result) jsmap \<Rightarrow> (string, command_result) jsmap" where
  "idem_add p r m =
     (if truthy_str (pv_command_id p) \<and> js_get m (the (pv_command_id p)) = None
      then js_set (the (pv_command_id p)) r m else m)"

definition idem_ret :: "provenance \<Rightarrow> command_result \<Rightarrow> (string, command_result) jsmap \<Rightarrow> command_result" where
  "idem_ret p r m =
     (if truthy_str (pv_command_id p)
      then (case js_get m (the (pv_command_id p)) of None \<Rightarrow> r | Some q \<Rightarrow> q) else r)"

definition remember_tx :: "provenance \<Rightarrow> command_result \<Rightarrow> memory_transaction \<Rightarrow> memory_transaction" where
  "remember_tx p r t =
     (if truthy_str (pv_command_id p) then snd (insertIdempotency (the (pv_command_id p)) r t) else t)"

lemma run_remember:
  "run_state (remember_result p r) (t, w) =
     (idem_ret p r (ms_idempotency (tx_state t)), (remember_tx p r t, w))"
  by (auto simp: remember_result_def idem_ret_def remember_tx_def insertIdempotency_def
      tx_getIdempotency_def js_has_def Let_def split: option.splits)

lemma remember_tx_sel [simp]:
  "tx_state (remember_tx p r t) = tx_state t" "tx_journalDrafts (remember_tx p r t) = tx_journalDrafts t"
  "tx_snapshotOps (remember_tx p r t) = tx_snapshotOps t"
  "tx_checkpointOps (remember_tx p r t) = tx_checkpointOps t"
  "tx_checkpointCasOps (remember_tx p r t) = tx_checkpointCasOps t"
  "tx_outboxOps (remember_tx p r t) = tx_outboxOps t"
  "tx_waitOps (remember_tx p r t) = tx_waitOps t"
  "tx_reactionOps (remember_tx p r t) = tx_reactionOps t"
  by (simp_all add: remember_tx_def insertIdempotency_def Let_def)

lemma remember_tx_idem:
  "tx_idempotencyOps t = [] \<Longrightarrow> ms_idempotency (tx_state t) = m \<Longrightarrow>
     fold (\<lambda>(cid, r, ins) m. if ins then js_set cid r m else m) (tx_idempotencyOps (remember_tx p r t)) m =
     idem_add p r m"
  by (auto simp: remember_tx_def insertIdempotency_def idem_add_def js_has_def Let_def)

lemma run_append_with_outbox:
  "run_state (append_with_outbox draft) (t, w) =
     (fst (appendJournal draft t), (insertOutbox (ms_nextSeq (tx_state t)) (snd (appendJournal draft t)), w))"
  by (simp add: append_with_outbox_def appendJournal_eq)

text \<open>\<open>store_step draft s s'\<close>: exactly the entry of \<open>draft\<close> is appended, with an open outbox row.\<close>

definition store_step :: "journal_entry_draft \<Rightarrow> memory_store_state \<Rightarrow> memory_store_state \<Rightarrow> bool" where
  "store_step draft s s' \<longleftrightarrow>
     ms_journal s' = ms_journal s @ [appended draft s] \<and>
     ms_nextSeq s' = Suc (ms_nextSeq s) \<and>
     ms_outbox s' = js_set (ms_nextSeq s) (fresh_outbox_row (ms_nextSeq s)) (ms_outbox s)"

lemmas run_commit = run_append_with_outbox run_remember appendJournal_eq insertOutbox_def

definition denial_draft ::
    "kernel_deps \<Rightarrow> provenance \<Rightarrow> string \<Rightarrow> string \<Rightarrow> string \<Rightarrow> bool \<Rightarrow> jobj option \<Rightarrow> string option \<Rightarrow> world
     \<Rightarrow> journal_entry_draft" where
  "denial_draft d p type code msg re ctx aid w =
     buildDenialEntry p (ulid_at d (w_ids w)) (now_iso_at d (w_clock w)) type code msg re ctx aid"

lemma commitDenial_effect:
  fixes d p type code msg http re ctx aid w
  defines "w' \<equiv> final (commitDenial d p type code msg http re ctx aid) w"
  defines "s \<equiv> w_store w" and "s' \<equiv> w_store w'"
  shows "store_step (denial_draft d p type code msg re ctx aid w) s s'"
    and "ms_snapshots s' = ms_snapshots s" and "ms_checkpoints s' = ms_checkpoints s"
    and "ms_waits s' = ms_waits s" and "ms_reactions s' = ms_reactions s"
    and "w_ids w' = Suc (w_ids w)" and "w_registry w' = w_registry w"
    and "ms_idempotency s' = idem_add p (resultFromEntry (ulid_at d (w_ids w)) (ms_nextSeq s) code
           [(''message'', JStr msg), (''context'', opt_obj ctx)] http Denial) (ms_idempotency s)"
    and "result (commitDenial d p type code msg http re ctx aid) w =
           idem_ret p (resultFromEntry (ulid_at d (w_ids w)) (ms_nextSeq s) code
             [(''message'', JStr msg), (''context'', opt_obj ctx)] http Denial) (ms_idempotency s)"
  unfolding w'_def s'_def s_def commitDenial_def final_def result_def
  by (simp_all add: run_commit store_step_def denial_draft_def Let_def remember_tx_idem)

lemma commitCheckpointPending_effect:
  fixes p draft c w
  defines "w' \<equiv> final (commitCheckpointPending p draft c) w"
  defines "s \<equiv> w_store w" and "s' \<equiv> w_store w'"
  defines "r \<equiv> resultFromEntry (je_entry_id draft) (ms_nextSeq s) CHECKPOINT_PENDING
       [(''checkpoint_id'', JStr (cp_checkpoint_id c)), (''aggregate_id'', JStr (cp_aggregate_id c)),
        (''transition_id'', JStr (cp_transition_id c))] Http202 Success"
  shows "store_step draft s s'"
    and "ms_snapshots s' = ms_snapshots s"
    and "ms_checkpoints s' = js_set (cp_checkpoint_id c) c (ms_checkpoints s)"
    and "w_ids w' = w_ids w" and "w_registry w' = w_registry w"
    and "ms_idempotency s' = idem_add p r (ms_idempotency s)"
    and "result (commitCheckpointPending p draft c) w = idem_ret p r (ms_idempotency s)"
  unfolding w'_def s'_def s_def r_def commitCheckpointPending_def final_def result_def
  by (simp_all add: run_commit store_step_def upsertCheckpoint_def Let_def remember_tx_idem)

text \<open>The extra writes of a journal-only commit touch waits and reactions only.\<close>

definition tame :: "(memory_transaction \<Rightarrow> memory_transaction) \<Rightarrow> bool" where
  "tame f \<longleftrightarrow> (\<forall>t. tx_state (f t) = tx_state t \<and> tx_journalDrafts (f t) = tx_journalDrafts t \<and>
     tx_snapshotOps (f t) = tx_snapshotOps t \<and> tx_checkpointOps (f t) = tx_checkpointOps t \<and>
     tx_checkpointCasOps (f t) = tx_checkpointCasOps t \<and>
     tx_idempotencyOps (f t) = tx_idempotencyOps t \<and> tx_outboxOps (f t) = tx_outboxOps t)"

lemma tame_extras [simp]: "tame id" "tame (insertWait r)" "tame (updateWait r)" "tame (insertReaction rx)"
  by (simp_all add: tame_def tx_op_defs)

lemma commitJournalOnly_effect:
  fixes p draft extra code body w
  assumes "tame extra"
  defines "w' \<equiv> final (commitJournalOnly p draft extra code body) w"
  defines "s \<equiv> w_store w" and "s' \<equiv> w_store w'"
  defines "r \<equiv> resultFromEntry (je_entry_id draft) (ms_nextSeq s) code body Http200 Success"
  shows "store_step draft s s'"
    and "ms_snapshots s' = ms_snapshots s" and "ms_checkpoints s' = ms_checkpoints s"
    and "w_ids w' = w_ids w" and "w_registry w' = w_registry w"
    and "ms_idempotency s' = idem_add p r (ms_idempotency s)"
    and "result (commitJournalOnly p draft extra code body) w = idem_ret p r (ms_idempotency s)"
  using assms(1)
  unfolding w'_def s'_def s_def r_def commitJournalOnly_def final_def result_def tame_def
  by (simp_all add: run_commit store_step_def Let_def remember_tx_idem)

definition cas_ok :: "aggregate \<Rightarrow> int \<Rightarrow> memory_store_state \<Rightarrow> bool" where
  "cas_ok ag expected s \<longleftrightarrow> expected =
     (case js_get (ms_snapshots s) (ag_aggregate_id ag) of None \<Rightarrow> - 1 | Some c \<Rightarrow> ag_revision c)"

lemma commitSuccess_ok:
  fixes d p draft ag expected code body w
  assumes "cas_ok ag expected (w_store w)"
  defines "w' \<equiv> final (commitSuccess d p draft ag expected code body) w"
  defines "s \<equiv> w_store w" and "s' \<equiv> w_store w'"
  defines "r \<equiv> resultFromEntry (je_entry_id draft) (ms_nextSeq s) code body Http200 Success"
  shows "store_step draft s s'"
    and "ms_snapshots s' = js_set (ag_aggregate_id ag) ag (ms_snapshots s)"
    and "ms_checkpoints s' = ms_checkpoints s"
    and "w_ids w' = w_ids w" and "w_registry w' = w_registry w"
    and "ms_idempotency s' = idem_add p r (ms_idempotency s)"
    and "result (commitSuccess d p draft ag expected code body) w = idem_ret p r (ms_idempotency s)"
  using assms(1)
  unfolding w'_def s'_def s_def r_def commitSuccess_def final_def result_def cas_ok_def
  by (simp_all add: run_commit store_step_def upsertSnapshotIfRevision_def Let_def remember_tx_idem)

text \<open>
  A lost race: the denial is appended, but behind the successful entry, which stays in the journal;
  no snapshot is written.
\<close>

lemma commitSuccess_conflict:
  fixes d p draft ag expected code body w
  assumes "\<not> cas_ok ag expected (w_store w)"
  defines "w' \<equiv> final (commitSuccess d p draft ag expected code body) w"
  defines "s \<equiv> w_store w" and "s' \<equiv> w_store w'"
  defines "den \<equiv> denial_draft d p E_REVISION_CONFLICT REVISION_CONFLICT ''Revision conflict'' True None
                  (Some (ag_aggregate_id ag)) w"
  defines "r \<equiv> resultFromEntry (je_entry_id den) (Suc (ms_nextSeq s)) REVISION_CONFLICT
                [(''message'', JStr ''Revision conflict'')] Http409 Denial"
  shows "ms_journal s' = ms_journal s @ [appended draft s, appended den (advanced draft s)]"
    and "ms_nextSeq s' = Suc (Suc (ms_nextSeq s))"
    and "ms_snapshots s' = ms_snapshots s" and "ms_checkpoints s' = ms_checkpoints s"
    and "w_ids w' = Suc (w_ids w)" and "w_registry w' = w_registry w"
    and "ms_idempotency s' = idem_add p r (ms_idempotency s)"
    and "result (commitSuccess d p draft ag expected code body) w = idem_ret p r (ms_idempotency s)"
  using assms(1)
  unfolding w'_def s'_def s_def r_def den_def denial_draft_def commitSuccess_def final_def result_def cas_ok_def
  by (simp_all add: run_commit upsertSnapshotIfRevision_def Let_def remember_tx_idem)

end
