(* ===== verification/KernelInv.thy ===== *)
theory KernelInv
  imports KernelProofs
begin

text \<open>
  The kernel's invariant and its preservation by every command: \<open>handled_step\<close> lists the three ways a
  handler can end (nothing of the core written, one entry noted, one entry applied to a snapshot),
  and the invariant is carried through each of them, through fan-out and through whole runs.
\<close>

section \<open>The invariant\<close>

definition issued :: "kernel_deps \<Rightarrow> nat \<Rightarrow> string \<Rightarrow> bool" where
  "issued d n x \<longleftrightarrow> (\<exists>k < n. x = ulid_at d k)"

lemma issued_mono: "issued d m x \<Longrightarrow> m \<le> n \<Longrightarrow> issued d n x"
  by (auto simp: issued_def intro: less_le_trans)

lemma issued_next [simp]: "k < n \<Longrightarrow> issued d n (ulid_at d k)"
  by (auto simp: issued_def)

definition kernel_inv :: "kernel_deps \<Rightarrow> world \<Rightarrow> bool" where
  "kernel_inv d w \<longleftrightarrow>
     journal_ok (w_store w) \<and>
     (\<forall>aid. js_get (ms_snapshots (w_store w)) aid = foldJournalToSnapshot (ms_journal (w_store w)) aid None) \<and>
     (\<forall>aid ag. js_get (ms_snapshots (w_store w)) aid = Some ag \<longrightarrow>
        ag_aggregate_id ag = aid \<and> issued d (w_ids w) aid)"

lemma kernel_inv_init: "kernel_inv d init_world"
  by (simp add: kernel_inv_def init_world_def) (simp add: createMemoryStoreState_def)

lemma kernel_inv_core:
  "kernel_inv d w \<Longrightarrow> core (w_store w') = core (w_store w) \<Longrightarrow> w_ids w \<le> w_ids w' \<Longrightarrow> kernel_inv d w'"
  unfolding kernel_inv_def core_def journal_ok_def by auto (metis issued_mono)

lemma keeps_kernel_inv: "core_keeps m \<Longrightarrow> keeps (kernel_inv d) m"
proof (rule keepsI)
  fix w assume m: "core_keeps m" and w: "kernel_inv d w"
  from m have "keeps (core_is (core (w_store w)) (w_ids w)) m" by blast
  then have "core_is (core (w_store w)) (w_ids w) (final m w)"
    by (rule keepsD) (simp add: core_is_def)
  then show "kernel_inv d (final m w)"
    by (intro kernel_inv_core [OF w]) (simp_all add: core_is_def)
qed

lemma kernel_inv_snapshot:
  assumes "kernel_inv d w" and "js_get (ms_snapshots (w_store w)) aid = Some ag"
  shows "ag_aggregate_id ag = aid" and "issued d (w_ids w) aid"
  using assms by (auto simp: kernel_inv_def)

lemma kernel_inv_fresh:
  assumes "kernel_inv d w" and "inj (ulid_at d)"
  shows "js_get (ms_snapshots (w_store w)) (ulid_at d (w_ids w)) = None"
proof (rule ccontr)
  assume "js_get (ms_snapshots (w_store w)) (ulid_at d (w_ids w)) \<noteq> None"
  then obtain k where "k < w_ids w" "ulid_at d (w_ids w) = ulid_at d k"
    using kernel_inv_snapshot(2) [OF assms(1)] by (fastforce simp: issued_def)
  with assms(2) show False by (simp add: inj_eq)
qed

section \<open>How a handler ends\<close>

definition recorded ::
    "provenance \<Rightarrow> world \<Rightarrow> journal_entry_draft \<Rightarrow> command_result \<Rightarrow> handled \<Rightarrow> world \<Rightarrow> bool" where
  "recorded p w draft rr r w' \<longleftrightarrow>
     store_step draft (w_store w) (w_store w') \<and> w_ids w \<le> w_ids w' \<and>
     w_registry w' = w_registry w \<and>
     r = Inr (idem_ret p rr (ms_idempotency (w_store w))) \<and>
     ms_idempotency (w_store w') = idem_add p rr (ms_idempotency (w_store w)) \<and>
     cr_outcome rr = je_outcome draft \<and> cr_seq rr = Some (ms_nextSeq (w_store w)) \<and>
     cr_journal_entry_id rr = Some (je_entry_id draft) \<and>
     je_scope_id draft = pv_scope_id p \<and> je_command_id draft = pv_command_id p"

definition mutates :: "journal_entry_draft \<Rightarrow> bool" where
  "mutates d \<longleftrightarrow> je_outcome d = Success \<and> je_type d \<in> set STATE_MUTATING_TYPES"

text \<open>A snapshot starts at revision 0 and advances one revision at a time; its origin never changes.\<close>

definition evolves :: "aggregate option \<Rightarrow> aggregate \<Rightarrow> bool" where
  "evolves old ag \<longleftrightarrow> (case old of None \<Rightarrow> ag_revision ag = 0
     | Some b \<Rightarrow> ag_revision ag = ag_revision b + 1 \<and> ag_aggregate_id ag = ag_aggregate_id b \<and>
         ag_scope_id ag = ag_scope_id b \<and> ag_rule_ref ag = ag_rule_ref b \<and> ag_created_at ag = ag_created_at b)"

inductive handled_step :: "kernel_deps \<Rightarrow> provenance \<Rightarrow> world \<Rightarrow> handled \<Rightarrow> world \<Rightarrow> bool" for d p where
  quiet: "core (w_store w') = core (w_store w) \<Longrightarrow> w_ids w \<le> w_ids w' \<Longrightarrow>
            w_registry w' = w_registry w \<Longrightarrow> handled_step d p w r w'"
| noted: "recorded p w draft rr r w' \<Longrightarrow> \<not> mutates draft \<Longrightarrow>
            ms_snapshots (w_store w') = ms_snapshots (w_store w) \<Longrightarrow>
            (je_outcome draft = Denial \<longrightarrow> ms_checkpoints (w_store w') = ms_checkpoints (w_store w)) \<Longrightarrow>
            handled_step d p w r w'"
| applied: "recorded p w draft rr r w' \<Longrightarrow> mutates draft \<Longrightarrow> je_aggregate_id draft = Some (ag_aggregate_id ag) \<Longrightarrow>
            ms_snapshots (w_store w') = js_set (ag_aggregate_id ag) ag (ms_snapshots (w_store w)) \<Longrightarrow>
            ms_checkpoints (w_store w') = ms_checkpoints (w_store w) \<Longrightarrow>
            fold_step None (ag_aggregate_id ag)
              (js_get (ms_snapshots (w_store w)) (ag_aggregate_id ag)) (appended draft (w_store w)) = Some ag \<Longrightarrow>
            issued d (w_ids w') (ag_aggregate_id ag) \<Longrightarrow>
            evolves (js_get (ms_snapshots (w_store w)) (ag_aggregate_id ag)) ag \<Longrightarrow> handled_step d p w r w'"

inductive_cases handled_stepE: "handled_step d p w r w'"

lemma mutates_appended: "isStateMutatingEntry (appended draft s) \<longleftrightarrow> mutates draft"
  by (simp add: isStateMutatingEntry_def mutates_def)

lemma store_step_journal_ok: "store_step draft s s' \<Longrightarrow> journal_ok s \<Longrightarrow> journal_ok s'"
  by (simp add: store_step_def journal_ok_def)

lemma fold_store_step:
  assumes "store_step draft s s'" and "journal_ok s"
  shows "foldJournalToSnapshot (ms_journal s') aid art =
    (if mutates draft \<and> je_aggregate_id draft = Some aid
     then fold_step art aid (foldJournalToSnapshot (ms_journal s) aid art) (appended draft s)
     else foldJournalToSnapshot (ms_journal s) aid art)"
proof -
  have j: "ms_journal s' = ms_journal s @ [appended draft s]"
    using assms(1) by (simp add: store_step_def)
  have "sorted (map je_seq (ms_journal s'))"
    using store_step_journal_ok [OF assms] by (rule journal_ok_sorted)
  then show ?thesis
    unfolding j by (simp add: fold_snoc fold_relevant_def mutates_appended conj_commute)
qed

lemma handled_step_inv:
  assumes "handled_step d p w r w'" and inv: "kernel_inv d w"
  shows "kernel_inv d w'"
  using assms(1)
proof (cases rule: handled_step.cases)
  case quiet
  then show ?thesis by (intro kernel_inv_core [OF inv]) auto
next
  case (noted draft rr)
  then have st: "store_step draft (w_store w) (w_store w')" and n: "w_ids w \<le> w_ids w'"
    by (simp_all add: recorded_def)
  have ok: "journal_ok (w_store w)" using inv by (simp add: kernel_inv_def)
  show ?thesis
    using inv noted n store_step_journal_ok [OF st ok]
    by (auto simp: kernel_inv_def fold_store_step [OF st ok]) (metis issued_mono)+
next
  case (applied draft rr ag)
  then have st: "store_step draft (w_store w) (w_store w')" and n: "w_ids w \<le> w_ids w'"
    by (simp_all add: recorded_def)
  have ok: "journal_ok (w_store w)" using inv by (simp add: kernel_inv_def)
  have f: "js_get (ms_snapshots (w_store w)) aid = foldJournalToSnapshot (ms_journal (w_store w)) aid None" for aid
    using inv by (simp add: kernel_inv_def)
  show ?thesis
    unfolding kernel_inv_def
  proof (intro conjI allI impI)
    show "journal_ok (w_store w')" by (rule store_step_journal_ok [OF st ok])
    show "js_get (ms_snapshots (w_store w')) aid = foldJournalToSnapshot (ms_journal (w_store w')) aid None" for aid
      using applied by (auto simp: fold_store_step [OF st ok] f)
    show "ag_aggregate_id b = aid" if "js_get (ms_snapshots (w_store w')) aid = Some b" for aid b
      using that applied(4) inv by (auto simp: kernel_inv_def split: if_splits)
    show "issued d (w_ids w') aid" if "js_get (ms_snapshots (w_store w')) aid = Some b" for aid b
      using that applied(4,7) inv n by (auto simp: kernel_inv_def split: if_splits intro: issued_mono)
  qed
qed

section \<open>The handlers\<close>

lemma draws [simp]:
  "result (ids_ulid d) w = ulid_at d (w_ids w)" "final (ids_ulid d) w = w\<lparr>w_ids := Suc (w_ids w)\<rparr>"
  "result (clock_nowIso d) w = now_iso_at d (w_clock w)"
  "final (clock_nowIso d) w = w\<lparr>w_clock := Suc (w_clock w)\<rparr>"
  "result (date_now d) w = date_now_at d (w_dates w)"
  "final (date_now d) w = w\<lparr>w_dates := Suc (w_dates w)\<rparr>"
  "result (ask_store f) w = f (w_store w)" "final (ask_store f) w = w"
  "result (ask g) w = g w"
  "result (State_Monad.return x) w = x"
  by (simp_all add: result_def final_def)

lemma read_only_tx [simp]:
  "result (in_tx (tx_ask f)) w = f (begin_tx (w_store w))" "final (in_tx (tx_ask f)) w = w"
  by (simp_all add: result_def final_def)

lemma handled_by_sel [simp]:
  "result (handled_by m) w = Inr (result m w)" "final (handled_by m) w = final m w"
  by (simp_all add: handled_by_def result_bind final_bind)

lemma load_failed_sel [simp]:
  "result load_failed w = Inl (JsError ''rules.load'')" "final load_failed w = w"
  by (simp_all add: load_failed_def)

text \<open>The draws of a handler before its commit change nothing of the store.\<close>

definition same_store :: "world \<Rightarrow> world \<Rightarrow> bool" where
  "same_store w v \<longleftrightarrow> w_store v = w_store w \<and> w_registry v = w_registry w \<and> w_ids w \<le> w_ids v"

lemma denied_step:
  assumes "same_store w v"
  shows "handled_step d p w (Inr (result (commitDenial d p type code msg http re ctx aid) v))
           (final (commitDenial d p type code msg http re ctx aid) v)"
proof (rule handled_step.noted)
  note e = commitDenial_effect [where d = d and p = p and type = type and code = code and msg = msg and http = http
    and re = re and ctx = ctx and aid = aid and w = v]
  show "recorded p w (denial_draft d p type code msg re ctx aid v)
      (resultFromEntry (ulid_at d (w_ids v)) (ms_nextSeq (w_store v)) code
         [(''message'', JStr msg), (''context'', opt_obj ctx)] http Denial)
      (Inr (result (commitDenial d p type code msg http re ctx aid) v))
      (final (commitDenial d p type code msg http re ctx aid) v)"
    using e assms by (simp add: recorded_def same_store_def denial_draft_def)
  show "\<not> mutates (denial_draft d p type code msg re ctx aid v)"
    by (simp add: mutates_def denial_draft_def)
  show "ms_snapshots (w_store (final (commitDenial d p type code msg http re ctx aid) v)) =
      ms_snapshots (w_store w)"
    using e(2) assms by (simp add: same_store_def)
  show "je_outcome (denial_draft d p type code msg re ctx aid v) = Denial \<longrightarrow>
      ms_checkpoints (w_store (final (commitDenial d p type code msg http re ctx aid) v)) =
      ms_checkpoints (w_store w)"
    using e(3) assms by (simp add: same_store_def)
qed

lemma noted_step:
  assumes "same_store w v" and "tame extra"
    and "je_outcome draft = Success" and "je_type draft \<noteq> E_AGGREGATE_CREATED" "je_type draft \<noteq> E_TRANSITION_APPLIED"
    and "je_scope_id draft = pv_scope_id p" "je_command_id draft = pv_command_id p"
  shows "handled_step d p w (Inr (result (commitJournalOnly p draft extra code body) v))
           (final (commitJournalOnly p draft extra code body) v)"
proof (rule handled_step.noted)
  note e = commitJournalOnly_effect [where p = p and draft = draft and code = code and body = body and w = v,
    OF assms(2)]
  show "recorded p w draft (resultFromEntry (je_entry_id draft) (ms_nextSeq (w_store v)) code body Http200 Success)
      (Inr (result (commitJournalOnly p draft extra code body) v))
      (final (commitJournalOnly p draft extra code body) v)"
    using e assms by (simp add: recorded_def same_store_def)
  show "\<not> mutates draft" using assms(4,5) by (simp add: mutates_def STATE_MUTATING_TYPES_def)
  show "ms_snapshots (w_store (final (commitJournalOnly p draft extra code body) v)) = ms_snapshots (w_store w)"
    using e(2) assms(1) by (simp add: same_store_def)
qed (use assms(3) in simp)

lemma paused_step:
  assumes "same_store w v"
    and "je_outcome draft = Success" and "je_type draft = E_CHECKPOINT_CREATED"
    and "je_scope_id draft = pv_scope_id p" "je_command_id draft = pv_command_id p"
  shows "handled_step d p w (Inr (result (commitCheckpointPending p draft c) v))
           (final (commitCheckpointPending p draft c) v)"
proof (rule handled_step.noted)
  note e = commitCheckpointPending_effect [where p = p and draft = draft and c = c and w = v]
  show "recorded p w draft (resultFromEntry (je_entry_id draft) (ms_nextSeq (w_store v)) CHECKPOINT_PENDING
       [(''checkpoint_id'', JStr (cp_checkpoint_id c)), (''aggregate_id'', JStr (cp_aggregate_id c)),
        (''transition_id'', JStr (cp_transition_id c))] Http202 Success)
      (Inr (result (commitCheckpointPending p draft c) v)) (final (commitCheckpointPending p draft c) v)"
    using e assms by (simp add: recorded_def same_store_def)
  show "\<not> mutates draft" using assms(3) by (simp add: mutates_def STATE_MUTATING_TYPES_def)
  show "ms_snapshots (w_store (final (commitCheckpointPending p draft c) v)) = ms_snapshots (w_store w)"
    using e(2) assms(1) by (simp add: same_store_def)
qed (use assms(2) in simp)

lemma applied_step:
  assumes "same_store w v" and "cas_ok ag expected (w_store v)" and "mutates draft"
    and "je_aggregate_id draft = Some (ag_aggregate_id ag)"
    and "je_scope_id draft = pv_scope_id p" "je_command_id draft = pv_command_id p"
    and "fold_step None (ag_aggregate_id ag)
           (js_get (ms_snapshots (w_store w)) (ag_aggregate_id ag)) (appended draft (w_store w)) = Some ag"
    and "issued d (w_ids v) (ag_aggregate_id ag)"
    and "evolves (js_get (ms_snapshots (w_store w)) (ag_aggregate_id ag)) ag"
  shows "handled_step d p w (Inr (result (commitSuccess d p draft ag expected code body) v))
           (final (commitSuccess d p draft ag expected code body) v)"
proof (rule handled_step.applied)
  note e = commitSuccess_ok [where d = d and p = p and draft = draft and code = code and body = body,
    OF assms(2)]
  show "recorded p w draft (resultFromEntry (je_entry_id draft) (ms_nextSeq (w_store v)) code body Http200 Success)
      (Inr (result (commitSuccess d p draft ag expected code body) v))
      (final (commitSuccess d p draft ag expected code body) v)"
    using e assms by (simp add: recorded_def same_store_def mutates_def)
  show "ms_snapshots (w_store (final (commitSuccess d p draft ag expected code body) v)) =
      js_set (ag_aggregate_id ag) ag (ms_snapshots (w_store w))"
    using e(2) assms(1) by (simp add: same_store_def)
  show "ms_checkpoints (w_store (final (commitSuccess d p draft ag expected code body) v)) =
      ms_checkpoints (w_store w)"
    using e(3) assms(1) by (simp add: same_store_def)
  show "issued d (w_ids (final (commitSuccess d p draft ag expected code body) v)) (ag_aggregate_id ag)"
    using e(4) assms(8) by simp
qed (use assms in auto)

lemma same_store_draws [simp]:
  "same_store w w" "same_store w (w\<lparr>w_ids := Suc (w_ids w)\<rparr>)" "same_store w (w\<lparr>w_clock := n\<rparr>)"
  "same_store w (w\<lparr>w_ids := Suc (w_ids w), w_clock := n\<rparr>)"
  "same_store w (w\<lparr>w_ids := Suc (Suc (w_ids w)), w_clock := n\<rparr>)"
  "same_store w (w\<lparr>w_clock := n, w_ids := Suc (w_ids w)\<rparr>)"
  "same_store w (w\<lparr>w_clock := n, w_ids := Suc (Suc (w_ids w))\<rparr>)"
  by (simp_all add: same_store_def)

lemmas run_rules = result_bind final_bind Let_def

lemma quiet_step: "core_keeps m \<Longrightarrow> w_registry (final m w) = w_registry w \<Longrightarrow>
    handled_step d p w r (final m w)"
proof -
  assume m: "core_keeps m" and g: "w_registry (final m w) = w_registry w"
  from m have "keeps (core_is (core (w_store w)) (w_ids w)) m" by blast
  then have "core_is (core (w_store w)) (w_ids w) (final m w)"
    by (rule keepsD) (simp add: core_is_def)
  with g show ?thesis by (intro handled_step.quiet) (simp_all add: core_is_def)
qed

lemma step_create_and_commit:
  assumes "kernel_inv d w" and "inj (ulid_at d)"
  shows "handled_step d p w (Inr (result (create_and_commit d p ref metadata art) w))
           (final (create_and_commit d p ref metadata art) w)"
proof -
  have fresh: "js_get (ms_snapshots (w_store w)) (ulid_at d (w_ids w)) = None"
    using assms by (rule kernel_inv_fresh)
  show ?thesis
    unfolding create_and_commit_def
    by (simp add: run_rules,
      rule applied_step)
      (simp_all add: same_store_def cas_ok_def fresh mutates_def STATE_MUTATING_TYPES_def fold_step_def
        isStateMutatingEntry_def created_aggregate_def as_status_def evolves_def)
qed

lemma step_handleCreate:
  assumes "kernel_inv d w" and "inj (ulid_at d)"
  shows "handled_step d p w (result (handleCreate d p ref metadata) w) (final (handleCreate d p ref metadata) w)"
  unfolding handleCreate_def
  using step_create_and_commit [OF assms]
  by (auto simp: Let_def intro: denied_step handled_step.quiet split: option.splits)

lemma step_transition_and_commit:
  assumes inv: "kernel_inv d w" and ag: "js_get (ms_snapshots (w_store w)) aid = Some ag"
    and v: "same_store w v"
  shows "handled_step d p w (Inr (result (transition_and_commit d p aid ag art t payload ts) v))
           (final (transition_and_commit d p aid ag art t payload ts) v)"
proof -
  have id: "ag_aggregate_id ag = aid" and "issued d (w_ids w) aid"
    using kernel_inv_snapshot [OF inv ag] by auto
  then have issued: "issued d (Suc (w_ids v)) aid"
    using v by (auto simp: same_store_def intro: issued_mono [of d "w_ids w"])
  have replay: "transitioned_aggregate None ag (appended (buildEntry p eid ts E_TRANSITION_APPLIED Success
       (transitionAppliedPayload t (applyTransition ag t art ts payload) payload) (Some aid) None None) s) =
      applyTransition ag t art ts payload" for eid s
    by (rule replay_transition) simp_all
  show ?thesis
    unfolding transition_and_commit_def
    by (simp add: run_rules, rule applied_step)
      (use v id issued ag replay in \<open>simp_all add: same_store_def cas_ok_def mutates_def
        STATE_MUTATING_TYPES_def fold_step_def isStateMutatingEntry_def evolves_def applyTransition_def
        split: option.splits\<close>)
qed

lemma step_pause:
  assumes "same_store w v"
  shows "handled_step d p w (Inr (result (pause_at_checkpoint d p aid t c ts) v))
           (final (pause_at_checkpoint d p aid t c ts) v)"
  unfolding pause_at_checkpoint_def
  by (simp add: run_rules, rule paused_step) (use assms in \<open>simp_all add: same_store_def\<close>)

lemma step_handleTransition:
  assumes "kernel_inv d w"
  shows "handled_step d p w (result (handleTransition d p aid event payload expected) w)
           (final (handleTransition d p aid event payload expected) w)"
  unfolding handleTransition_def
  by (auto simp: run_rules tx_getSnapshot_def
      intro: denied_step step_pause step_transition_and_commit assms handled_step.quiet
      split: option.splits)

lemma step_handleEventAppend:
  "handled_step d p w (result (handleEventAppend d p aid ety payload) w)
     (final (handleEventAppend d p aid ety payload) w)"
  unfolding handleEventAppend_def
  by (auto simp: run_rules tx_getSnapshot_def intro: denied_step noted_step handled_step.quiet
      split: option.splits)

lemma step_handleWaitRegister:
  "handled_step d p w (result (handleWaitRegister d p c bound aid) w) (final (handleWaitRegister d p c bound aid) w)"
  unfolding handleWaitRegister_def
  by (simp add: run_rules, rule noted_step) (simp_all add: same_store_def)

lemma step_handleWaitCancel:
  "handled_step d p w (result (handleWaitCancel d p wid) w) (final (handleWaitCancel d p wid) w)"
  unfolding handleWaitCancel_def
  by (auto simp: run_rules intro: noted_step handled_step.quiet split: option.splits)

lemma step_handleReactionRegister:
  "handled_step d p w (result (handleReactionRegister d p spec) w) (final (handleReactionRegister d p spec) w)"
  unfolding handleReactionRegister_def
  by (simp add: run_rules, rule noted_step) (simp_all add: same_store_def)

text \<open>A step from a world of the same core and outbox is a step from this one.\<close>

definition same_core :: "world \<Rightarrow> world \<Rightarrow> bool" where
  "same_core w v \<longleftrightarrow> core (w_store v) = core (w_store w) \<and> ms_outbox (w_store v) = ms_outbox (w_store w) \<and>
     w_registry v = w_registry w \<and> w_ids w \<le> w_ids v"

lemma core_eqs:
  assumes "core s' = core s"
  shows "ms_journal s' = ms_journal s" "ms_snapshots s' = ms_snapshots s"
    "ms_checkpoints s' = ms_checkpoints s" "ms_idempotency s' = ms_idempotency s"
    "ms_nextSeq s' = ms_nextSeq s" "appended draft s' = appended draft s"
  using assms by (simp_all add: core_def appended_def)

lemma same_core_eqs:
  assumes "same_core w v"
  shows "ms_journal (w_store v) = ms_journal (w_store w)" "ms_snapshots (w_store v) = ms_snapshots (w_store w)"
    "ms_checkpoints (w_store v) = ms_checkpoints (w_store w)"
    "ms_idempotency (w_store v) = ms_idempotency (w_store w)"
    "ms_nextSeq (w_store v) = ms_nextSeq (w_store w)"
    "appended draft (w_store v) = appended draft (w_store w)"
    "ms_outbox (w_store v) = ms_outbox (w_store w)" "w_registry v = w_registry w" "w_ids w \<le> w_ids v"
  using assms core_eqs [of "w_store v" "w_store w"] by (simp_all add: same_core_def)

lemma recorded_shift:
  assumes "recorded p v draft rr r w'" and "same_core w v"
  shows "recorded p w draft rr r w'"
  using assms(1) same_core_eqs [OF assms(2)] by (simp add: recorded_def store_step_def)

lemma handled_step_shift:
  assumes "handled_step d p v r w'" and s: "same_core w v"
  shows "handled_step d p w r w'"
  using assms(1)
proof (cases rule: handled_step.cases)
  case quiet
  with s show ?thesis by (intro handled_step.quiet) (auto simp: same_core_def)
next
  case (noted draft rr)
  with s show ?thesis
    by (intro handled_step.noted [OF recorded_shift]) (simp_all add: same_core_eqs [OF s])
next
  case (applied draft rr ag)
  with s show ?thesis
    by (intro handled_step.applied [OF recorded_shift]) (simp_all add: same_core_eqs [OF s])
qed

lemma step_handleReactionDisable:
  "handled_step d p w (result (handleReactionDisable d p rid) w) (final (handleReactionDisable d p rid) w)"
proof -
  let ?m = "(case getReaction rid (w_store w) of None \<Rightarrow> skip
     | Some r \<Rightarrow> in_tx (tx_act (insertReaction (r\<lparr>rx_enabled := False\<rparr>))))"
  let ?v = "final ?m w"
  have core: "core_keeps ?m" by (auto intro!: keeps_intros)
  have sc: "same_core w ?v"
    by (auto simp: same_core_def final_def core_def insertReaction_def split: option.splits)
  show ?thesis
    unfolding handleReactionDisable_def
    by (simp add: run_rules, rule handled_step_shift [OF _ sc], rule noted_step)
      (simp_all add: same_store_def)
qed

lemma core_keeps_replay_action: "core_keeps (replay_action d r e reason)"
  unfolding replay_action_def by (auto intro!: keeps_intros)

lemma core_keeps_handleReactionReplay: "core_keeps (handleReactionReplay d rid src bypass reason)"
  unfolding handleReactionReplay_def Let_def
  by (auto intro!: keeps_intros core_keeps_replay_action [rule_format])

lemma registry_draws:
  "w_registry (final (invoke_action d r e k) w) = w_registry w"
  "w_registry (final (in_tx (tx_act f)) w) = w_registry w"
  by (simp_all add: final_def invoke_action_def Let_def)

lemma registry_handleReactionReplay:
  "w_registry (final (handleReactionReplay d rid src bypass reason) w) = w_registry w"
proof -
  have a: "w_registry (final (replay_action d r e rs) v) = w_registry v" for r e rs v
    by (simp add: replay_action_def final_bind registry_draws)
  have b: "w_registry (final (in_tx (State_Monad.bind (tx_world (date_now d)) (\<lambda>now. tx_op (f now)))) v) = w_registry v" for f v
    by (simp add: final_def split: prod.splits)
  show ?thesis
    unfolding handleReactionReplay_def
    by (auto simp: run_rules a b split: option.splits)
qed

lemma step_handleReactionReplay:
  "handled_step d p w (result (handleReactionReplay d rid src bypass reason) w)
     (final (handleReactionReplay d rid src bypass reason) w)"
  by (rule quiet_step [OF core_keeps_handleReactionReplay registry_handleReactionReplay])

theorem handle_step:
  assumes "kernel_inv d w" and "inj (ulid_at d)"
  shows "handled_step d p w (result (handle d cmd p) w) (final (handle d cmd p) w)"
  by (cases cmd)
    (simp_all add: step_handleCreate [OF assms] step_handleTransition [OF assms(1)] step_handleEventAppend
      step_handleWaitRegister step_handleWaitCancel step_handleReactionRegister
      step_handleReactionDisable step_handleReactionReplay)

section \<open>A whole command\<close>

lemma keeps_inv_handle [keeps_intros]: "inj (ulid_at d) \<Longrightarrow> keeps (kernel_inv d) (handle d cmd p)"
  by (rule keepsI) (rule handled_step_inv [OF handle_step])

lemma core_keeps_defer: "core_keeps (defer_wait wid)"
  by (simp add: defer_wait_def keeps_def final_def core_is_def split_beta)

lemma core_keeps_ensure: "core_keeps (ensureProvenance d cmd)"
  unfolding ensureProvenance_def Let_def by (auto intro!: keeps_intros)

lemma core_keeps_register_block: "core_keeps (register_block d p blk)"
  unfolding register_block_def registerBlockWait_def Let_def
  by (auto intro!: keeps_intros core_keeps_defer [rule_format])

lemma core_keeps_fan_out: "core_keeps (fan_out d n b r)"
  unfolding fan_out_def ack_entry_def by (auto intro!: keeps_intros)

lemma core_keeps_await: "core_keeps (await_block blk r)"
  unfolding await_block_def by (auto intro!: keeps_intros)

lemma core_keeps_existing: "core_keeps (existing_result p)"
  unfolding existing_result_def by (auto intro!: keeps_intros)

lemma keeps_inv_denial [keeps_intros]: "keeps (kernel_inv d) (commitDenial d p type code msg http re ctx aid)"
proof (rule keepsI)
  fix w assume w: "kernel_inv d w"
  have "handled_step d p w (Inr (result (commitDenial d p type code msg http re ctx aid) w))
      (final (commitDenial d p type code msg http re ctx aid) w)"
    by (rule denied_step) simp
  then show "kernel_inv d (final (commitDenial d p type code msg http re ctx aid) w)"
    using w by (rule handled_step_inv)
qed

lemmas keeps_inv_quiet =
  keeps_kernel_inv [OF core_keeps_register_block] keeps_kernel_inv [OF core_keeps_fan_out]
  keeps_kernel_inv [OF core_keeps_await] keeps_kernel_inv [OF core_keeps_ensure]
  keeps_kernel_inv [OF core_keeps_existing]

lemma keeps_inv_run: "inj (ulid_at d) \<Longrightarrow> keeps (kernel_inv d) (run_command d cmd p)"
  unfolding run_command_def
  by (auto intro!: keeps_intros keeps_inv_quiet split: sum.split)

theorem execute_inv: "inj (ulid_at d) \<Longrightarrow> keeps (kernel_inv d) (execute d cmd)"
  unfolding execute_def Let_def
  by (auto intro!: keeps_intros keeps_inv_quiet keeps_inv_run)

end
