(* ===== verification/KernelRuns.thy ===== *)
theory KernelRuns
  imports KernelInv
begin

text \<open>
  Runs of the kernel. A run is any sequence of the operations a host calls: commands, appends to
  the space journal and projection rebuilds. Along a run the kernel's invariant holds, the journal
  only grows, a recorded result is never replaced and a snapshot only advances.
\<close>

datatype kernel_op =
    Execute kernel_command
  | AppendSpace string string jobj string string
  | Rebuild string nat
  | Verify string

fun kernel_step :: "kernel_deps \<Rightarrow> kernel_op \<Rightarrow> world \<Rightarrow> world" where
  "kernel_step d (Execute cmd) w = final (execute d cmd) w"
| "kernel_step d (AppendSpace scope type payload actor cred) w =
     final (appendSpaceJournal d scope type payload actor cred) w"
| "kernel_step d (Rebuild name from) w = final (kernel_rebuildProjection d name from) w"
| "kernel_step d (Verify aid) w = final (verifyFold aid) w"

section \<open>Growth\<close>

definition older :: "aggregate option \<Rightarrow> aggregate option \<Rightarrow> bool" where
  "older x y \<longleftrightarrow> (case x of None \<Rightarrow> True
     | Some a \<Rightarrow> (case y of None \<Rightarrow> False
         | Some b \<Rightarrow> ag_revision a \<le> ag_revision b \<and> ag_aggregate_id b = ag_aggregate_id a \<and>
             ag_scope_id b = ag_scope_id a \<and> ag_rule_ref b = ag_rule_ref a \<and> ag_created_at b = ag_created_at a))"

definition store_grows :: "memory_store_state \<Rightarrow> memory_store_state \<Rightarrow> bool" where
  "store_grows s t \<longleftrightarrow>
     (\<exists>es. ms_journal t = ms_journal s @ es) \<and>
     (\<forall>cid r. js_get (ms_idempotency s) cid = Some r \<longrightarrow> js_get (ms_idempotency t) cid = Some r) \<and>
     (\<forall>aid. older (js_get (ms_snapshots s) aid) (js_get (ms_snapshots t) aid))"

definition world_grows :: "world \<Rightarrow> world \<Rightarrow> bool" where
  "world_grows w v \<longleftrightarrow> store_grows (w_store w) (w_store v)"

lemma older_refl: "older x x"
  by (simp add: older_def split: option.splits)

lemma older_trans: "older x y \<Longrightarrow> older y z \<Longrightarrow> older x z"
  by (auto simp: older_def split: option.splits)

lemma evolves_older: "evolves x ag \<Longrightarrow> older x (Some ag)"
  by (auto simp: evolves_def older_def split: option.splits)

lemma store_grows_core: "core t = core s \<Longrightarrow> store_grows s t"
  unfolding store_grows_def by (simp add: core_eqs [of t s] older_refl)

lemma store_grows_trans: "store_grows s t \<Longrightarrow> store_grows t u \<Longrightarrow> store_grows s u"
  unfolding store_grows_def by (auto intro: older_trans)

lemma world_grows_refl: "world_grows w w"
  by (simp add: world_grows_def store_grows_core)

lemma world_grows_trans: "world_grows u v \<Longrightarrow> world_grows v w \<Longrightarrow> world_grows u w"
  unfolding world_grows_def by (rule store_grows_trans)

lemma idem_add_keeps: "js_get m cid = Some q \<Longrightarrow> js_get (idem_add p r m) cid = Some q"
  by (auto simp: idem_add_def)

lemma handled_step_grows:
  assumes "handled_step d p w r w'"
  shows "world_grows w w'"
  using assms
proof (cases rule: handled_step.cases)
  case quiet
  then show ?thesis by (simp add: world_grows_def store_grows_core)
next
  case (noted draft rr)
  then show ?thesis
    by (auto simp: world_grows_def store_grows_def recorded_def store_step_def idem_add_keeps older_refl)
next
  case (applied draft rr ag)
  then show ?thesis
    by (auto simp: world_grows_def store_grows_def recorded_def store_step_def idem_add_keeps
        older_refl evolves_older)
qed

text \<open>The invariant together with having grown from \<open>u\<close> is what the commands keep.\<close>

definition grown :: "kernel_deps \<Rightarrow> world \<Rightarrow> world \<Rightarrow> bool" where
  "grown d u w \<longleftrightarrow> kernel_inv d w \<and> world_grows u w"

lemma keeps_grown: "core_keeps m \<Longrightarrow> keeps (grown d u) m"
proof (rule keepsI)
  fix w assume m: "core_keeps m" and w: "grown d u w"
  from m have "keeps (core_is (core (w_store w)) (w_ids w)) m" by blast
  then have c: "core_is (core (w_store w)) (w_ids w) (final m w)"
    by (rule keepsD) (simp add: core_is_def)
  moreover have "kernel_inv d (final m w)"
    using m w by (auto simp: grown_def intro: keepsD [OF keeps_kernel_inv])
  ultimately show "grown d u (final m w)"
    using w by (auto simp: grown_def core_is_def world_grows_def
        intro: store_grows_trans store_grows_core)
qed

lemma keeps_grown_step:
  assumes "\<And>w. kernel_inv d w \<Longrightarrow> handled_step d p w (f w) (final m w)"
  shows "keeps (grown d u) m"
proof (rule keepsI)
  fix w assume "grown d u w"
  then show "grown d u (final m w)"
    using handled_step_inv [OF assms] handled_step_grows [OF assms]
    by (auto simp: grown_def intro: world_grows_trans)
qed

lemma keeps_grown_handle [keeps_intros]: "inj (ulid_at d) \<Longrightarrow> keeps (grown d u) (handle d cmd p)"
  by (rule keeps_grown_step) (rule handle_step)

lemma keeps_grown_denial [keeps_intros]: "keeps (grown d u) (commitDenial d p type code msg http re ctx aid)"
  by (rule keeps_grown_step) (rule denied_step, simp)

lemmas keeps_grown_quiet =
  keeps_grown [OF core_keeps_register_block] keeps_grown [OF core_keeps_fan_out]
  keeps_grown [OF core_keeps_await] keeps_grown [OF core_keeps_ensure]
  keeps_grown [OF core_keeps_existing]

lemma keeps_grown_run: "inj (ulid_at d) \<Longrightarrow> keeps (grown d u) (run_command d cmd p)"
  unfolding run_command_def
  by (auto intro!: keeps_intros keeps_grown_quiet split: sum.split)

lemma keeps_grown_execute: "inj (ulid_at d) \<Longrightarrow> keeps (grown d u) (execute d cmd)"
  unfolding execute_def Let_def
  by (auto intro!: keeps_intros keeps_grown_quiet keeps_grown_run)

section \<open>The other operations\<close>

lemma space_journal_step:
  fixes d scope type payload actor cred w
  defines "draft \<equiv> buildEntry \<lparr>pv_scope_id = scope, pv_actor_id = actor, pv_credential_id = cred,
       pv_aggregate_id = None, pv_command_id = None, pv_actor_kind = Some Agent\<rparr>
       (ulid_at d (w_ids w)) (now_iso_at d (w_clock w)) type Success payload None (Some KEvent) None"
  defines "w' \<equiv> final (appendSpaceJournal d scope type payload actor cred) w"
  shows "store_step draft (w_store w) (w_store w')"
    and "ms_snapshots (w_store w') = ms_snapshots (w_store w)"
    and "ms_idempotency (w_store w') = ms_idempotency (w_store w)"
    and "w_ids w' = Suc (w_ids w)"
    and "result (appendSpaceJournal d scope type payload actor cred) w =
           (ms_nextSeq (w_store w), ulid_at d (w_ids w))"
  unfolding draft_def w'_def appendSpaceJournal_def
  by (simp_all add: final_def result_def Let_def store_step_def run_commit)

lemma grown_space_journal:
  assumes "kernel_inv d w"
  shows "grown d w (final (appendSpaceJournal d scope type payload actor cred) w)"
proof -
  let ?w = "final (appendSpaceJournal d scope type payload actor cred) w"
  note e = space_journal_step [where d = d and scope = scope and type = type and payload = payload
      and actor = actor and cred = cred and w = w]
  have ok: "journal_ok (w_store w)" using assms by (simp add: kernel_inv_def)
  have "kernel_inv d ?w"
    using assms e(2,4) store_step_journal_ok [OF e(1) ok]
    by (auto simp: kernel_inv_def fold_store_step [OF e(1) ok]) (metis issued_mono le_SucI order_refl)
  moreover have "world_grows w ?w"
    using e by (auto simp: world_grows_def store_grows_def store_step_def older_refl)
  ultimately show ?thesis by (simp add: grown_def)
qed

lemma core_rebuild: "core (snd (rebuildProjection name h from owner now now2 s)) = core s"
proof -
  obtain b s1 where a: "acquireProjectionLock name owner 60000 now now2 s = (b, s1)"
    by (cases "acquireProjectionLock name owner 60000 now now2 s")
  then have c: "core s1 = core s"
    using core_store_acts(6) [of name owner 60000 now now2 s] by simp
  have up: "core (snd (runInTransaction (\<lambda>t. (Inr (), upsertProjection n sc ag sq st t)) x)) = core x"
    for n sc ag sq st x by (simp add: runInTransaction_def)
  let ?es = "tailJournal from 1000 (setProjectionCursor name (int from - 1) s1)"
  obtain st n sc ag where "fold (rebuild_step h) ?es rebuild_init = (st, n, sc, ag)"
    by (metis prod.collapse)
  then show ?thesis
    using c by (cases b; cases st) (auto simp: rebuildProjection_def a Let_def up)
qed

lemma grown_rebuild: "kernel_inv d w \<Longrightarrow> grown d w (final (kernel_rebuildProjection d name from) w)"
proof -
  assume w: "kernel_inv d w"
  have "core (w_store (final (kernel_rebuildProjection d name from) w)) = core (w_store w) \<and>
      w_ids (final (kernel_rebuildProjection d name from) w) = w_ids w"
  proof (cases "map_of (projection_handlers d) name")
    case None
    then show ?thesis by (simp add: kernel_rebuildProjection_def)
  next
    case (Some h)
    then show ?thesis
      using core_rebuild [of name h "from" "''rebuild''"]
      by (simp add: kernel_rebuildProjection_def final_bind) (simp add: final_def split: prod.splits, metis snd_conv)
  qed
  then show ?thesis
    using kernel_inv_core [OF w] by (simp add: grown_def world_grows_def store_grows_core)
qed

lemma verifyFold_final [simp]: "final (verifyFold aid) w = w"
  by (simp add: verifyFold_def getAggregate_def final_bind Let_def)

theorem kernel_step_grown:
  assumes "inj (ulid_at d)" and "kernel_inv d w"
  shows "grown d w (kernel_step d x w)"
proof (cases x)
  case (Execute cmd)
  then show ?thesis
    using keepsD [OF keeps_grown_execute [OF assms(1), of w cmd], of w] assms(2)
    by (simp add: grown_def world_grows_refl)
qed (use assms in \<open>simp_all add: grown_space_journal grown_rebuild\<close>,
     simp add: grown_def world_grows_refl)

interpretation kernel_run: monotone_system "kernel_step d"
  "\<lambda>w. inj (ulid_at d) \<and> kernel_inv d w" world_grows for d
  using kernel_step_grown
  by unfold_locales (auto simp: grown_def intro: world_grows_refl world_grows_trans)

theorem reachable_inv: "inj (ulid_at d) \<Longrightarrow> kernel_inv d (fold (kernel_step d) ops init_world)"
  using kernel_run.run_inv [of d init_world ops] by (simp add: kernel_inv_init)

text \<open>The query agrees, as long as the journal fits in the thousand entries it reads.\<close>

lemma verifyFold_true:
  assumes "kernel_inv d w" and "length (ms_journal (w_store w)) \<le> 1000"
  shows "result (verifyFold aid) w"
proof -
  have "journal_ok (w_store w)" using assms(1) by (simp add: kernel_inv_def)
  then have "tailJournal 0 1000 (w_store w) = ms_journal (w_store w)"
    using assms(2) by (simp add: tailJournal_eq)
  with assms(1) show ?thesis
    by (auto simp: verifyFold_def getAggregate_def result_bind final_bind Let_def tx_getSnapshot_def
        kernel_inv_def split: option.splits)
qed

text \<open>Beyond it, it can only fail: an aggregate created later is not seen at all.\<close>

lemma verifyFold_beyond:
  assumes "journal_ok (w_store w)" and "js_get (ms_snapshots (w_store w)) aid = Some ag"
    and "\<forall>e \<in> set (take 1000 (ms_journal (w_store w))). je_aggregate_id e \<noteq> Some aid"
  shows "\<not> result (verifyFold aid) w"
proof -
  have "foldJournalToSnapshot (tailJournal 0 1000 (w_store w)) aid None = None"
    using assms(1,3) by (simp add: tailJournal_eq foldJournalToSnapshot_def filter_empty_conv)
  with assms(2) show ?thesis
    by (simp add: verifyFold_def getAggregate_def result_bind final_bind Let_def tx_getSnapshot_def)
qed

end
