(* ===== verification/KernelBehaviour.thy ===== *)
theory KernelBehaviour
  imports KernelRuns
begin

text \<open>
  What a command does, branch by branch: replays, denials, transitions, checkpoints and lost races
  in the store, and what fan-out does to blocked callers, reactions and deliveries.
\<close>

section \<open>Replays\<close>

lemma ensure_given:
  "pv_command_id (command_provenance cmd) = Some cid \<Longrightarrow>
     run_state (ensureProvenance d cmd) w = (command_provenance cmd, w)"
  by (simp add: ensureProvenance_def Let_def)

lemma run_existing:
  "run_state (existing_result p) w =
     ((if truthy_str (pv_command_id p) then js_get (ms_idempotency (w_store w)) (the (pv_command_id p)) else None), w)"
  by (simp add: existing_result_def tx_getIdempotency_def)

lemma execute_replay:
  assumes "pv_command_id (command_provenance cmd) = Some cid" and "cid \<noteq> []"
    and "js_get (ms_idempotency (w_store w)) cid = Some r"
  shows "run_state (execute d cmd) w = (Returned (replay_result r), w)"
  using assms by (simp add: execute_def ensure_given run_existing)

text \<open>The command identifier a handler that writes leaves recorded, with the result it returned.\<close>

lemma recorded_idem:
  assumes "recorded p w draft rr r w'" and "pv_command_id p = Some cid" and "cid \<noteq> []"
    and "js_get (ms_idempotency (w_store w)) cid = None"
  shows "r = Inr rr" and "js_get (ms_idempotency (w_store w')) cid = Some rr"
  using assms by (auto simp: recorded_def idem_ret_def idem_add_def)

section \<open>A command that is new\<close>

text \<open>The stages of a command whose identifier is given, new, and allowed by the policy.\<close>

definition block_stage :: "kernel_deps \<Rightarrow> kernel_command \<Rightarrow> world \<Rightarrow> world" where
  "block_stage d cmd w = final (register_block d (command_provenance cmd) (command_block_on cmd)) w"

definition handle_stage :: "kernel_deps \<Rightarrow> kernel_command \<Rightarrow> world \<Rightarrow> world" where
  "handle_stage d cmd w = final (handle d cmd (command_provenance cmd)) (block_stage d cmd w)"

definition handle_outcome :: "kernel_deps \<Rightarrow> kernel_command \<Rightarrow> world \<Rightarrow> handled" where
  "handle_outcome d cmd w = result (handle d cmd (command_provenance cmd)) (block_stage d cmd w)"

definition block_of :: "kernel_deps \<Rightarrow> kernel_command \<Rightarrow> world \<Rightarrow> (string \<times> nat) option" where
  "block_of d cmd w = result (register_block d (command_provenance cmd) (command_block_on cmd)) w"

definition new_command :: "kernel_deps \<Rightarrow> kernel_command \<Rightarrow> world \<Rightarrow> bool" where
  "new_command d cmd w \<longleftrightarrow>
     (\<exists>cid. pv_command_id (command_provenance cmd) = Some cid \<and> cid \<noteq> [] \<and>
        js_get (ms_idempotency (w_store w)) cid = None) \<and>
     pr_allowed (policy_evaluate d (command_provenance cmd) (command_kind cmd))"

lemma core_of_keeps: "core_keeps m \<Longrightarrow> core (w_store (final m w)) = core (w_store w) \<and> w_ids w \<le> w_ids (final m w)"
proof -
  assume "core_keeps m"
  then have "keeps (core_is (core (w_store w)) (w_ids w)) m" by blast
  then have "core_is (core (w_store w)) (w_ids w) (final m w)"
    by (rule keepsD) (simp add: core_is_def)
  then show ?thesis by (simp add: core_is_def)
qed

lemma execute_new:
  assumes "new_command d cmd w"
  shows "final (execute d cmd) w =
     (case handle_outcome d cmd w of
        Inl err \<Rightarrow> handle_stage d cmd w
      | Inr r \<Rightarrow> final (fan_out d (getMaxSeq (w_store (block_stage d cmd w)))
                    (map_option fst (block_of d cmd w)) r) (handle_stage d cmd w))"
    and "result (execute d cmd) w =
     (case handle_outcome d cmd w of
        Inl err \<Rightarrow> Raised err
      | Inr r \<Rightarrow> result (await_block (map_option snd (block_of d cmd w)) r) (final (execute d cmd) w))"
proof -
  obtain cid where p: "pv_command_id (command_provenance cmd) = Some cid" "cid \<noteq> []"
    "js_get (ms_idempotency (w_store w)) cid = None"
    using assms by (auto simp: new_command_def)
  have e: "run_state (execute d cmd) w = run_state (run_command d cmd (command_provenance cmd)) w"
    using assms p by (simp add: execute_def ensure_given run_existing new_command_def)
  have aw: "final (await_block b r) v = v" for b r v
    by (simp add: await_block_def final_bind split: option.splits)
  show f: "final (execute d cmd) w =
     (case handle_outcome d cmd w of
        Inl err \<Rightarrow> handle_stage d cmd w
      | Inr r \<Rightarrow> final (fan_out d (getMaxSeq (w_store (block_stage d cmd w)))
                    (map_option fst (block_of d cmd w)) r) (handle_stage d cmd w))"
    unfolding final_def [of "execute d cmd"] e final_def [of "run_command d cmd (command_provenance cmd)", symmetric]
    by (simp add: run_command_def final_bind aw block_stage_def handle_stage_def handle_outcome_def
        block_of_def split: sum.split)
  show "result (execute d cmd) w =
     (case handle_outcome d cmd w of
        Inl err \<Rightarrow> Raised err
      | Inr r \<Rightarrow> result (await_block (map_option snd (block_of d cmd w)) r) (final (execute d cmd) w))"
    unfolding f unfolding result_def [of "execute d cmd"] e
      result_def [of "run_command d cmd (command_provenance cmd)", symmetric]
    by (simp add: run_command_def result_bind final_bind block_stage_def handle_stage_def handle_outcome_def
        block_of_def split: sum.split)
qed

lemma core_block_stage: "core (w_store (block_stage d cmd w)) = core (w_store w)"
  unfolding block_stage_def using core_of_keeps [OF core_keeps_register_block] by blast

lemma inv_block_stage: "kernel_inv d w \<Longrightarrow> kernel_inv d (block_stage d cmd w)"
  unfolding block_stage_def by (rule keepsD [OF keeps_kernel_inv [OF core_keeps_register_block]])

lemma core_execute_new:
  "new_command d cmd w \<Longrightarrow> core (w_store (final (execute d cmd) w)) = core (w_store (handle_stage d cmd w))"
  unfolding execute_new(1)
  using core_of_keeps [OF core_keeps_fan_out] by (auto split: sum.splits)

lemma handle_stage_step:
  assumes "kernel_inv d w" and "inj (ulid_at d)"
  shows "handled_step d (command_provenance cmd) (block_stage d cmd w) (handle_outcome d cmd w)
           (handle_stage d cmd w)"
  unfolding handle_stage_def handle_outcome_def
  by (rule handle_step [OF inv_block_stage [OF assms(1)] assms(2)])

text \<open>A denied command changes no aggregate and no checkpoint, and writes at most one entry, a denial.\<close>

lemma denied_changes_nothing:
  assumes "kernel_inv d w" and "inj (ulid_at d)" and new: "new_command d cmd w"
    and "handle_outcome d cmd w = Inr r" and "cr_outcome r = Denial"
  defines "s \<equiv> w_store w" and "s' \<equiv> w_store (final (execute d cmd) w)"
  shows "ms_snapshots s' = ms_snapshots s" and "ms_checkpoints s' = ms_checkpoints s"
    and "ms_journal s' = ms_journal s \<or>
         (\<exists>e. ms_journal s' = ms_journal s @ [e] \<and> je_outcome e = Denial \<and> cr_seq r = Some (je_seq e))"
proof -
  have c: "core s' = core (w_store (handle_stage d cmd w))"
    unfolding s'_def using new by (rule core_execute_new)
  have b: "core (w_store (block_stage d cmd w)) = core s"
    unfolding s_def by (rule core_block_stage)
  obtain cid where cid: "pv_command_id (command_provenance cmd) = Some cid" "cid \<noteq> []"
    "js_get (ms_idempotency s) cid = None"
    using new by (auto simp: new_command_def s_def)
  have idem: "js_get (ms_idempotency (w_store (block_stage d cmd w))) cid = None"
    using cid(3) core_eqs(4) [OF b] by simp
  from handle_stage_step [OF assms(1,2), of cmd]
  have "ms_snapshots s' = ms_snapshots s \<and> ms_checkpoints s' = ms_checkpoints s \<and>
    (ms_journal s' = ms_journal s \<or>
      (\<exists>e. ms_journal s' = ms_journal s @ [e] \<and> je_outcome e = Denial \<and> cr_seq r = Some (je_seq e)))"
  proof (cases rule: handled_step.cases)
    case quiet
    then show ?thesis using core_eqs [OF c] core_eqs [OF b] core_eqs [OF quiet(1)] by simp
  next
    case (noted draft rr)
    have r: "r = rr" using recorded_idem(1) [OF noted(1) cid(1,2) idem] assms(4) by simp
    then have "je_outcome draft = Denial" using noted(1) assms(5) by (simp add: recorded_def)
    then show ?thesis
      using noted r core_eqs [OF c] core_eqs [OF b] by (simp add: recorded_def store_step_def)
  next
    case (applied draft rr ag)
    have "r = rr" using recorded_idem(1) [OF applied(1) cid(1,2) idem] assms(4) by simp
    then show ?thesis using applied(1,2) assms(5) by (simp add: recorded_def mutates_def)
  qed
  then show "ms_snapshots s' = ms_snapshots s" and "ms_checkpoints s' = ms_checkpoints s"
    and "ms_journal s' = ms_journal s \<or>
         (\<exists>e. ms_journal s' = ms_journal s @ [e] \<and> je_outcome e = Denial \<and> cr_seq r = Some (je_seq e))"
    by auto
qed

text \<open>A command the policy refuses is denied before anything is read.\<close>

lemma execute_refused:
  assumes "pv_command_id (command_provenance cmd) = Some cid" and "cid \<noteq> []"
    and "js_get (ms_idempotency (w_store w)) cid = None"
    and "\<not> pr_allowed (policy_evaluate d (command_provenance cmd) (command_kind cmd))"
  defines "w' \<equiv> final (execute d cmd) w"
  shows "ms_snapshots (w_store w') = ms_snapshots (w_store w)"
    and "ms_waits (w_store w') = ms_waits (w_store w)"
    and "\<exists>e. ms_journal (w_store w') = ms_journal (w_store w) @ [e] \<and> je_type e = E_POLICY_DENIED \<and>
           je_outcome e = Denial \<and> je_command_id e = Some cid"
    and "\<exists>r. result (execute d cmd) w = Returned r \<and> cr_outcome r = Denial \<and> cr_http_semantic r = Http403 \<and>
           js_get (ms_idempotency (w_store w')) cid = Some r"
proof -
  define code where "code = (case pr_denial (policy_evaluate d (command_provenance cmd) (command_kind cmd)) of
      None \<Rightarrow> POLICY_DENIED | Some (code, _, _) \<Rightarrow> code)"
  define msg where "msg = (case pr_denial (policy_evaluate d (command_provenance cmd) (command_kind cmd)) of
      None \<Rightarrow> ''Policy denied'' | Some (_, msg, _) \<Rightarrow> msg)"
  let ?m = "commitDenial d (command_provenance cmd) E_POLICY_DENIED code msg Http403 False None None"
  have f: "w' = final ?m w" and r: "result (execute d cmd) w = Returned (result ?m w)"
    using assms by (simp_all add: w'_def execute_def final_def result_def ensure_given run_existing
        code_def msg_def Let_def split: prod.splits)
  note e = commitDenial_effect [where d = d and p = "command_provenance cmd" and type = E_POLICY_DENIED
      and code = code and msg = msg and http = Http403 and re = False and ctx = None and aid = None and w = w]
  show "ms_snapshots (w_store w') = ms_snapshots (w_store w)" "ms_waits (w_store w') = ms_waits (w_store w)"
    using e unfolding f by simp_all
  show "\<exists>e. ms_journal (w_store w') = ms_journal (w_store w) @ [e] \<and> je_type e = E_POLICY_DENIED \<and>
           je_outcome e = Denial \<and> je_command_id e = Some cid"
    using e(1) assms(1) unfolding f by (simp add: store_step_def denial_draft_def)
  show "\<exists>r. result (execute d cmd) w = Returned r \<and> cr_outcome r = Denial \<and> cr_http_semantic r = Http403 \<and>
           js_get (ms_idempotency (w_store w')) cid = Some r"
    using e(8,9) assms(1-3) unfolding f r by (simp add: idem_ret_def idem_add_def)
qed

section \<open>Transitions\<close>

text \<open>The four ends of a transition on a stored aggregate with a loadable rule artifact.\<close>

lemma transition_applies:
  fixes payload :: "jobj option"
  assumes "js_get (ms_snapshots (w_store w)) aid = Some ag" and "ag_aggregate_id ag = aid"
    and "rules_load d (ag_rule_ref ag) = Some art"
    and "findMatchingTransition d ag art event (pv_actor_id p) (pv_actor_kind p) = Some t"
    and "tr_checkpoint t = None"
  defines "w' \<equiv> final (handleTransition d p aid event payload (ag_revision ag)) w"
  defines "ag' \<equiv> applyTransition ag t art (now_iso_at d (w_clock w)) payload"
  shows "ms_snapshots (w_store w') = js_set aid ag' (ms_snapshots (w_store w))"
    and "\<exists>e. ms_journal (w_store w') = ms_journal (w_store w) @ [e] \<and> je_type e = E_TRANSITION_APPLIED \<and>
          je_outcome e = Success \<and> je_aggregate_id e = Some aid \<and>
          je_payload e = transitionAppliedPayload t ag' payload"
proof -
  let ?v = "w\<lparr>w_clock := Suc (w_clock w), w_ids := Suc (w_ids w)\<rparr>"
  define draft where "draft = buildEntry p (ulid_at d (w_ids w)) (now_iso_at d (w_clock w)) E_TRANSITION_APPLIED Success
       (transitionAppliedPayload t ag' payload) (Some aid) None None"
  define body where "body = [(''aggregate_id'', JStr (ag_aggregate_id ag')), (''state'', JStr (ag_state ag')),
        (''revision'', JNum (ag_revision ag'))]"
  have w': "w' = final (commitSuccess d p draft ag' (ag_revision ag) ''transition_applied'' body) ?v"
    using assms by (simp add: w'_def handleTransition_def run_rules tx_getSnapshot_def
        transition_and_commit_def draft_def body_def)
  have id: "ag_aggregate_id ag' = aid" by (simp add: ag'_def assms(2))
  have ok: "cas_ok ag' (ag_revision ag) (w_store ?v)"
    by (simp add: cas_ok_def id assms(1))
  note e = commitSuccess_ok [where d = d and p = p and draft = draft and code = "''transition_applied''"
      and body = body, OF ok]
  show "ms_snapshots (w_store w') = js_set aid ag' (ms_snapshots (w_store w))"
    unfolding w' using e(2) by (simp add: id)
  show "\<exists>e. ms_journal (w_store w') = ms_journal (w_store w) @ [e] \<and> je_type e = E_TRANSITION_APPLIED \<and>
          je_outcome e = Success \<and> je_aggregate_id e = Some aid \<and>
          je_payload e = transitionAppliedPayload t ag' payload"
    unfolding w' using e(1) by (simp add: store_step_def draft_def)
qed

lemma transition_pauses:
  fixes payload :: "jobj option"
  assumes "js_get (ms_snapshots (w_store w)) aid = Some ag"
    and "rules_load d (ag_rule_ref ag) = Some art"
    and "findMatchingTransition d ag art event (pv_actor_id p) (pv_actor_kind p) = Some t"
    and "tr_checkpoint t = Some c"
  defines "w' \<equiv> final (handleTransition d p aid event payload (ag_revision ag)) w"
  defines "cp \<equiv> checkpointFromTransition (ulid_at d (w_ids w)) (pv_scope_id p) aid t c (now_iso_at d (w_clock w))"
  shows "ms_snapshots (w_store w') = ms_snapshots (w_store w)"
    and "ms_checkpoints (w_store w') = js_set (cp_checkpoint_id cp) cp (ms_checkpoints (w_store w))"
    and "\<exists>e. ms_journal (w_store w') = ms_journal (w_store w) @ [e] \<and> je_type e = E_CHECKPOINT_CREATED"
proof -
  let ?v = "w\<lparr>w_clock := Suc (w_clock w), w_ids := Suc (Suc (w_ids w))\<rparr>"
  define draft where "draft = buildEntry p (ulid_at d (Suc (w_ids w))) (now_iso_at d (w_clock w)) E_CHECKPOINT_CREATED
       Success [(''checkpoint_id'', JStr (ulid_at d (w_ids w))), (''transition_id'', JStr (tr_id t)),
                (''from'', JStr (tr_from t)), (''to'', JStr (tr_to t))] (Some aid) None None"
  have w': "w' = final (commitCheckpointPending p draft cp) ?v"
    using assms by (simp add: w'_def handleTransition_def run_rules tx_getSnapshot_def
        pause_at_checkpoint_def draft_def cp_def)
  note e = commitCheckpointPending_effect [where p = p and draft = draft and c = cp and w = ?v]
  show "ms_snapshots (w_store w') = ms_snapshots (w_store w)" unfolding w' using e(2) by simp
  show "ms_checkpoints (w_store w') = js_set (cp_checkpoint_id cp) cp (ms_checkpoints (w_store w))"
    unfolding w' using e(3) by simp
  show "\<exists>e. ms_journal (w_store w') = ms_journal (w_store w) @ [e] \<and> je_type e = E_CHECKPOINT_CREATED"
    unfolding w' using e(1) by (simp add: store_step_def draft_def)
qed

lemma transition_stale:
  fixes payload :: "jobj option"
  assumes "js_get (ms_snapshots (w_store w)) aid = Some ag"
    and "rules_load d (ag_rule_ref ag) = Some art"
    and "findMatchingTransition d ag art event (pv_actor_id p) (pv_actor_kind p) = Some t"
    and "expected \<noteq> ag_revision ag"
  defines "w' \<equiv> final (handleTransition d p aid event payload expected) w"
  shows "ms_snapshots (w_store w') = ms_snapshots (w_store w)"
    and "\<exists>e. ms_journal (w_store w') = ms_journal (w_store w) @ [e] \<and> je_type e = E_REVISION_CONFLICT"
proof -
  define msg where "msg = ''Expected revision '' @ int_str expected @ '', current '' @ int_str (ag_revision ag)"
  have w': "w' = final (commitDenial d p E_REVISION_CONFLICT REVISION_CONFLICT msg Http409 True None (Some aid)) w"
    using assms by (simp add: w'_def handleTransition_def run_rules tx_getSnapshot_def msg_def)
  note e = commitDenial_effect [where d = d and p = p and type = E_REVISION_CONFLICT
      and code = REVISION_CONFLICT and msg = msg and http = Http409 and re = True and ctx = None
      and aid = "Some aid" and w = w]
  show "ms_snapshots (w_store w') = ms_snapshots (w_store w)" unfolding w' using e(2) by simp
  show "\<exists>e. ms_journal (w_store w') = ms_journal (w_store w) @ [e] \<and> je_type e = E_REVISION_CONFLICT"
    unfolding w' using e(1) by (simp add: store_step_def denial_draft_def)
qed

text \<open>
  Two handlers that read the same snapshot before either commits: the second commit finds the
  revision moved on. Its \<open>transition.applied\<close> entry nevertheless stays in the journal, so that
  replaying the journal gives the loser's state and not the stored one.
\<close>

lemma lost_race_diverges:
  fixes d p draft ag expected code body w
  assumes ok: "journal_ok (w_store w)" and lost: "\<not> cas_ok ag expected (w_store w)"
    and cur: "js_get (ms_snapshots (w_store w)) aid = Some cur"
      "foldJournalToSnapshot (ms_journal (w_store w)) aid None = Some cur"
    and draft: "mutates draft" "je_type draft = E_TRANSITION_APPLIED" "je_aggregate_id draft = Some aid"
  defines "s' \<equiv> w_store (final (commitSuccess d p draft ag expected code body) w)"
  shows "js_get (ms_snapshots s') aid = Some cur"
    and "foldJournalToSnapshot (ms_journal s') aid None =
           Some (transitioned_aggregate None cur (appended draft (w_store w)))"
proof -
  let ?s = "w_store w"
  define den where "den = denial_draft d p E_REVISION_CONFLICT REVISION_CONFLICT ''Revision conflict'' True None
      (Some (ag_aggregate_id ag)) w"
  note e = commitSuccess_conflict [where d = d and p = p and draft = draft and code = code and body = body, OF lost]
  show "js_get (ms_snapshots s') aid = Some cur"
    unfolding s'_def using e(3) cur(1) by simp
  have j: "ms_journal s' = (ms_journal ?s @ [appended draft ?s]) @ [appended den (advanced draft ?s)]"
    unfolding s'_def den_def using e(1) by simp
  have sorted: "sorted (map je_seq (ms_journal s'))"
    unfolding j using ok
    by (auto simp: sorted_append journal_ok_sorted dest: journal_ok_bound intro: less_imp_le less_SucI)
  then have sorted1: "sorted (map je_seq (ms_journal ?s @ [appended draft ?s]))"
    unfolding j by (simp add: sorted_append)
  have "\<not> fold_relevant aid (appended den (advanced draft ?s))"
    by (simp add: den_def denial_draft_def)
  moreover have "fold_relevant aid (appended draft ?s)"
    using draft by (simp add: fold_relevant_def mutates_appended)
  ultimately have "foldJournalToSnapshot (ms_journal s') aid None =
      fold_step None aid (Some cur) (appended draft ?s)"
    using sorted sorted1 cur(2) unfolding j by (simp only: fold_snoc if_True if_False)
  then show "foldJournalToSnapshot (ms_journal s') aid None =
           Some (transitioned_aggregate None cur (appended draft ?s))"
    using draft by (simp add: fold_step_def mutates_appended)
qed

end
