(* ===== verification/FanoutBehaviour.thy ===== *)
theory FanoutBehaviour
  imports KernelBehaviour
begin

text \<open>
  What fan-out does: a denied command releases the caller it blocks, a reaction is enqueued at most
  once in its deduplication window, a drained batch is delivered exactly once, and every entry a
  command writes is acknowledged.
\<close>

section \<open>Blocked callers\<close>

lemma resolve_absent: "js_get (rg_deferred g) wid = None \<Longrightarrow> resolve wid x g = g"
  by (simp add: resolve_def)

text \<open>\<open>released\<close>: the promise is settled with \<open>r\<close> and the wait is registered no more.\<close>

definition released :: "string \<Rightarrow> nat \<Rightarrow> wait_resolution \<Rightarrow> world \<Rightarrow> bool" where
  "released wid k r w \<longleftrightarrow>
     js_get (rg_settled (w_registry w)) k = Some r \<and> js_get (rg_deferred (w_registry w)) wid = None"

lemma registry_resolveBoundWait:
  "w_registry (final (resolveBoundWait wid den) w) = resolve wid (denied_resolution wid den) (w_registry w)"
  by (simp add: resolveBoundWait_def final_bind notify_resolveWait_def final_def split: option.splits)

lemma dispatch_entry_bound:
  "truthy_str bound \<Longrightarrow> dispatch_entry d bound True (Some den) e = resolveBoundWait (the bound) den"
  by (simp add: dispatch_entry_def)

lemma released_entries:
  assumes "wid \<noteq> []" and "released wid k r w"
  shows "released wid k r (final (for_each es (dispatch_entry d (Some wid) True (Some den))) w)"
  using assms(2)
proof (induction es arbitrary: w)
  case (Cons e es)
  have "released wid k r (final (dispatch_entry d (Some wid) True (Some den) e) w)"
    using Cons.prems assms(1)
    by (simp add: dispatch_entry_bound registry_resolveBoundWait released_def resolve_absent)
  then show ?case using Cons.IH by (simp add: final_bind)
qed simp

lemma registry_drain: "w_registry (final (drainReactionQueue d) w) = w_registry w"
proof -
  have "w_registry (final (drain_item d q) v) = w_registry v" for q v
    by (simp add: drain_item_def final_bind final_def invoke_action_def Let_def split: option.splits)
  then have "w_registry (final (for_each qs (drain_item d)) v) = w_registry v" for qs v
    by (induction qs arbitrary: v) (simp_all add: final_bind)
  then show ?thesis
    by (simp add: drainReactionQueue_def final_bind) (simp add: claim_reactions_def final_def split: prod.splits)
qed

lemma registry_ack_entry: "w_registry (final (ack_entry d e) w) = w_registry w"
  by (simp add: ack_entry_def final_bind) (simp add: final_def)

lemma registry_ack: "w_registry (final (for_each es (ack_entry d)) w) = w_registry w"
  by (induction es arbitrary: w) (simp_all add: final_bind registry_ack_entry)

lemma fan_out_releases:
  assumes "wid \<noteq> []" and "cr_outcome r = Denial" and "tailJournal n 1000 (w_store w) \<noteq> []"
    and "js_get (rg_deferred (w_registry w)) wid = Some k"
  shows "js_get (rg_settled (w_registry (final (fan_out d n (Some wid) r) w))) k = Some (denied_resolution wid r)"
proof -
  obtain e es where es: "tailJournal n 1000 (w_store w) = e # es"
    using assms(3) by (cases "tailJournal n 1000 (w_store w)") auto
  let ?v = "final (dispatch_entry d (Some wid) True (Some r) e) w"
  have "released wid k (denied_resolution wid r) ?v"
    using assms(1,4) by (simp add: dispatch_entry_bound registry_resolveBoundWait released_def resolve_def)
  then have "released wid k (denied_resolution wid r)
      (final (for_each es (dispatch_entry d (Some wid) True (Some r))) ?v)"
    by (rule released_entries [OF assms(1)])
  then show ?thesis
    using assms(2) by (simp add: fan_out_def dispatchFanout_def final_bind es registry_drain registry_ack registry_ack_entry released_def)
qed

text \<open>Every end of a transition but a failed load appends to the journal.\<close>

lemma store_step_longer: "store_step draft s s' \<Longrightarrow> length (ms_journal s) < length (ms_journal s')"
  by (simp add: store_step_def)

lemma commits_longer:
  "length (ms_journal (w_store w)) < length (ms_journal (w_store (final (commitDenial d p ty code msg http re ctx aid) w)))"
  "length (ms_journal (w_store w)) < length (ms_journal (w_store (final (commitCheckpointPending p draft c) w)))"
  "length (ms_journal (w_store w)) < length (ms_journal (w_store (final (commitSuccess d p draft ag n code body) w)))"
    apply (rule store_step_longer [OF commitDenial_effect(1)])
   apply (rule store_step_longer [OF commitCheckpointPending_effect(1)])
  apply (cases "cas_ok ag n (w_store w)")
   apply (rule store_step_longer [OF commitSuccess_ok(1)], assumption)
  apply (simp add: commitSuccess_conflict(1))
  done

lemma transition_longer:
  "result (handleTransition d p aid event payload n) w = Inr r \<Longrightarrow>
     length (ms_journal (w_store w)) < length (ms_journal (w_store (final (handleTransition d p aid event payload n) w)))"
  using commits_longer(1) [of w] commits_longer(2,3) [where w = "w\<lparr>w_clock := x, w_ids := y\<rparr>" for x y]
  by (auto simp: handleTransition_def run_rules transition_and_commit_def pause_at_checkpoint_def
      split: option.splits if_splits)

lemma register_block_some:
  assumes "cid \<noteq> []" and "pv_command_id p = Some cid"
  shows "\<exists>k. result (register_block d p (Some c)) w = Some (ulid_at d (w_ids w), k) \<and>
     js_get (rg_deferred (w_registry (final (register_block d p (Some c)) w))) (ulid_at d (w_ids w)) = Some k"
  using assms
  by (simp add: register_block_def registerBlockWait_def run_rules defer_wait_def)
    (simp add: final_def result_def registerDeferred_def)

text \<open>
  A transition that blocks its caller and is denied returns that denial at once: the caller is
  never left waiting for a condition its own command did not bring about.
\<close>

theorem denied_never_blocks:
  assumes inv: "kernel_inv d w" and inj: "inj (ulid_at d)" and new: "new_command d cmd w"
    and cmd: "cmd = StateTransition p aid event payload n (Some c)"
    and out: "handle_outcome d cmd w = Inr r" "cr_outcome r = Denial"
    and ids: "ulid_at d (w_ids w) \<noteq> []"
  shows "result (execute d cmd) w = Returned r"
proof -
  let ?wid = "ulid_at d (w_ids w)" and ?b = "block_stage d cmd w" and ?h = "handle_stage d cmd w"
  obtain cid where cid: "pv_command_id p = Some cid" "cid \<noteq> []"
    using new cmd by (auto simp: new_command_def)
  obtain k where k: "block_of d cmd w = Some (?wid, k)" "js_get (rg_deferred (w_registry ?b)) ?wid = Some k"
    using register_block_some [OF cid(2,1), of d c w] by (auto simp: block_of_def block_stage_def cmd)
  have step: "handled_step d p ?b (handle_outcome d cmd w) ?h"
    using handle_stage_step [OF inv inj, of cmd] by (simp add: cmd)
  then have reg: "w_registry ?h = w_registry ?b"
    by (cases rule: handled_step.cases) (simp_all add: recorded_def)
  have okb: "journal_ok (w_store ?b)" and okh: "journal_ok (w_store ?h)"
    using inv_block_stage [OF inv, of cmd] handled_step_inv [OF step]
    by (simp_all add: kernel_inv_def)
  have "length (ms_journal (w_store ?b)) < length (ms_journal (w_store ?h))"
    using out(1) by (simp add: handle_outcome_def handle_stage_def cmd transition_longer)
  then have ne: "tailJournal (getMaxSeq (w_store ?b)) 1000 (w_store ?h) \<noteq> []"
    by (simp add: tailJournal_eq okh getMaxSeq_eq okb)
  have "js_get (rg_settled (w_registry (final (execute d cmd) w))) k = Some (denied_resolution ?wid r)"
    using fan_out_releases [OF ids out(2) ne] k reg by (simp add: execute_new(1) [OF new] out(1))
  then show ?thesis
    by (simp add: execute_new(2) [OF new] out(1) k(1) await_block_def result_bind block_result_def
        denied_resolution_def)
qed

text \<open>
  A denied command without \<open>block_on\<close> releases every pending wait of its scope that is bound to any
  command, not only those bound to it.
\<close>

lemma foreign_wait_denied:
  assumes "wt_bound_command_id row = Some other" and "other \<noteq> []"
    and "js_get (rg_deferred (w_registry w)) (wt_wait_id row) = Some k"
  shows "js_get (rg_settled (w_registry (final (dispatch_wait True (Some den) e row) w))) k =
     Some (denied_resolution (wt_wait_id row) den)"
  using assms by (simp add: dispatch_wait_def registry_resolveBoundWait resolve_def)

section \<open>Reactions\<close>

definition skip_log :: "reaction_spec \<Rightarrow> journal_entry \<Rightarrow> delivery_log_entry" where
  "skip_log r e = \<lparr>dl_entry_id = je_entry_id e, dl_reaction_id = rx_reaction_id r, dl_attempt_no = 1,
     dl_dedup_key = dedupFingerprint r e, dl_outcome = DedupSkipped, dl_ts = je_ts e\<rparr>"

text \<open>The clock reading the store compares with is the second one of the call.\<close>

lemma enqueue_effect:
  fixes d r e w
  defines "w' \<equiv> final (enqueueReactionIfNeeded d r e) w"
  defines "live \<equiv> dedup_live (date_now_at d (Suc (w_dates w))) (dedupFingerprint r e) (w_store w)"
  shows "ms_reactionQueue (w_store w') = ms_reactionQueue (w_store w) @
      (if rd_required (rx_dedup r) \<and> live then []
       else [\<lparr>rq_queue_id = ulid_at d (w_ids w), rq_reaction_id = rx_reaction_id r,
              rq_entry_id = je_entry_id e, rq_partition_key = partitionKey r e,
              rq_fingerprint = dedupFingerprint r e, rq_attempt_no = 1, rq_entry = e,
              rq_enqueued_at = je_ts e\<rparr>])"
    and "ms_deliveryLog (w_store w') = ms_deliveryLog (w_store w) @
      (if rd_required (rx_dedup r) \<and> live then [skip_log r e] else [])"
    and "ms_dedup (w_store w') = (if live then ms_dedup (w_store w)
      else js_set (dedupFingerprint r e) (date_now_at d (w_dates w) + rd_window_seconds (rx_dedup r) * 1000)
             (ms_dedup (w_store w)))"
    and "w_dates w' = Suc (Suc (w_dates w))"
  unfolding w'_def live_def
  by (simp_all add: enqueueReactionIfNeeded_def final_def Let_def insertDedup_eq appendDeliveryLog_def
      enqueueReaction_def skip_log_def)

lemma enqueue_once:
  assumes req: "rd_required (rx_dedup r)" and same: "dedupFingerprint r e' = dedupFingerprint r e"
    and new: "\<not> dedup_live (date_now_at d (Suc (w_dates w))) (dedupFingerprint r e) (w_store w)"
    and window: "date_now_at d (w_dates w + 3) < date_now_at d (w_dates w) + rd_window_seconds (rx_dedup r) * 1000"
  defines "v \<equiv> final (enqueueReactionIfNeeded d r e) w"
  defines "u \<equiv> final (enqueueReactionIfNeeded d r e') v"
  shows "ms_reactionQueue (w_store u) = ms_reactionQueue (w_store v)"
    and "ms_deliveryLog (w_store u) = ms_deliveryLog (w_store v) @ [skip_log r e']"
proof -
  have "dedup_live (date_now_at d (Suc (w_dates v))) (dedupFingerprint r e') (w_store v)"
    using new window unfolding v_def
    by (simp add: dedup_live_def [of _ _ "w_store (final _ w)"] enqueue_effect same numeral_3_eq_3)
  then show "ms_reactionQueue (w_store u) = ms_reactionQueue (w_store v)"
    and "ms_deliveryLog (w_store u) = ms_deliveryLog (w_store v) @ [skip_log r e']"
    unfolding u_def using req by (simp_all add: enqueue_effect)
qed

text \<open>Draining delivers each claimed item once, in order, and takes it off the queue.\<close>

lemma drain_item_effect:
  "ms_reactionQueue (w_store (final (drain_item d q) w)) =
     remove_first (\<lambda>x. rq_queue_id x = rq_queue_id q) (ms_reactionQueue (w_store w)) \<and>
   (\<exists>out. ms_deliveryLog (w_store (final (drain_item d q) w)) =
      ms_deliveryLog (w_store w) @ [delivery_of q out] \<and> out \<noteq> DedupSkipped)"
  by (auto simp: drain_item_def final_bind final_def invoke_action_def completeReaction_def Let_def
      split: option.splits)

lemma drain_items_log:
  "\<exists>outs. length outs = length qs \<and> DedupSkipped \<notin> set outs \<and>
     ms_deliveryLog (w_store (final (for_each qs (drain_item d)) w)) =
       ms_deliveryLog (w_store w) @ map2 delivery_of qs outs"
proof (induction qs arbitrary: w)
  case (Cons q qs)
  obtain out where o1: "ms_deliveryLog (w_store (final (drain_item d q) w)) =
      ms_deliveryLog (w_store w) @ [delivery_of q out]" "out \<noteq> DedupSkipped"
    using drain_item_effect [of d q w] by blast
  obtain outs where "length outs = length qs" "DedupSkipped \<notin> set outs"
    "ms_deliveryLog (w_store (final (for_each qs (drain_item d)) (final (drain_item d q) w))) =
       ms_deliveryLog (w_store (final (drain_item d q) w)) @ map2 delivery_of qs outs"
    using Cons.IH by blast
  then show ?case using o1 by (intro exI [of _ "out # outs"]) (simp add: final_bind)
qed simp

lemma drain_items_queue:
  "ms_reactionQueue (w_store (final (for_each qs (drain_item d)) w)) =
     fold (\<lambda>q. remove_first (\<lambda>x. rq_queue_id x = rq_queue_id q)) qs (ms_reactionQueue (w_store w))"
  by (induction qs arbitrary: w) (simp_all add: final_bind drain_item_effect)

definition unclaimed :: "memory_store_state \<Rightarrow> reaction_queue_item list" where
  "unclaimed s = filter (\<lambda>q. rq_queue_id q \<notin> ms_reactionQueueClaimed s) (ms_reactionQueue s)"

lemma drain_delivers:
  "\<exists>outs. length outs = length (take 100 (unclaimed (w_store w))) \<and> DedupSkipped \<notin> set outs \<and>
     ms_deliveryLog (w_store (final (drainReactionQueue d) w)) =
       ms_deliveryLog (w_store w) @ map2 delivery_of (take 100 (unclaimed (w_store w))) outs"
proof -
  obtain b s where c: "claimReactionBatch 100 (w_store w) = (b, s)"
    by (cases "claimReactionBatch 100 (w_store w)")
  then have "b = take 100 (unclaimed (w_store w))" "ms_deliveryLog s = ms_deliveryLog (w_store w)"
    by (auto simp: claimReactionBatch_eq unclaimed_def Let_def)
  moreover have "final (drainReactionQueue d) w = final (for_each b (drain_item d)) (w\<lparr>w_store := s\<rparr>)"
    by (simp add: drainReactionQueue_def final_bind) (simp add: claim_reactions_def final_def result_def c)
  ultimately show ?thesis using drain_items_log [of b d "w\<lparr>w_store := s\<rparr>"] by simp
qed

end
