(* ===== verification/Samples.thy ===== *)
theory Samples
  imports FanoutBehaviour
begin

text \<open>
  One small configuration on which the theorems are applied: ports that allow everything, a rule
  with an ordinary and a checkpointed transition, an aggregate in its first state, and the worlds
  before and after its creation.
\<close>

definition sample_transition :: rule_transition where
  "sample_transition = \<lparr>tr_id = ''t1'', tr_from = ''draft'', tr_to = ''live'', tr_event = ''publish'',
     tr_actors = [''*''], tr_condition = None, tr_checkpoint = None, tr_emit = []\<rparr>"

definition sample_checkpoint :: transition_checkpoint where
  "sample_checkpoint = \<lparr>tc_quorum = QuorumAny, tc_count = None, tc_assignees = [''bob''],
     tc_reject_requires_quorum = None\<rparr>"

definition sample_review :: rule_transition where
  "sample_review = \<lparr>tr_id = ''t2'', tr_from = ''draft'', tr_to = ''reviewed'', tr_event = ''review'',
     tr_actors = [''*''], tr_condition = None, tr_checkpoint = Some sample_checkpoint, tr_emit = []\<rparr>"

definition sample_artifact :: rule_artifact where
  "sample_artifact = \<lparr>ra_schema_version = ''1.0'', ra_id = ''r'', ra_version = ''1'', ra_initial_state = ''draft'',
     ra_terminal_states = [''live''], ra_metadata_schema = [],
     ra_states = [(''draft'', Active), (''live'', Terminal), (''reviewed'', Active)],
     ra_transitions = [sample_transition, sample_review], ra_events = None, ra_convergence = None,
     ra_checkpoints = None\<rparr>"

definition sample_deps :: kernel_deps where
  "sample_deps = \<lparr>policy_evaluate = (\<lambda>p k. \<lparr>pr_allowed = (pv_actor_id p \<noteq> ''mallory''), pr_denial = None\<rparr>),
     rules_load = (\<lambda>r. Some sample_artifact), condition_evaluate = (\<lambda>c ag ev. True),
     match_actor = (\<lambda>a ps k. True), schema_validate = (\<lambda>s x. \<lparr>sv_valid = True, sv_errors = None\<rparr>),
     action_invoke = (\<lambda>n a e r k. True), ulid_at = (\<lambda>n. ''id'' @ nat_str n), now_iso_at = (\<lambda>n. 1000 * n),
     date_now_at = (\<lambda>n. 1000 * n), projection_handlers = [(''audit_tail'', auditTailHandler)]\<rparr>"

definition sample_prov :: "string \<Rightarrow> provenance" where
  "sample_prov cid = \<lparr>pv_scope_id = ''s'', pv_actor_id = ''alice'', pv_credential_id = ''c'',
     pv_aggregate_id = None, pv_command_id = Some cid, pv_actor_kind = Some Human\<rparr>"

definition sample_ref :: rule_ref where
  "sample_ref = \<lparr>rr_rule_ref_id = ''r'', rr_digest = ''0'', rr_version = ''1''\<rparr>"

definition sample_ag :: aggregate where
  "sample_ag = \<lparr>ag_aggregate_id = ''id0'', ag_scope_id = ''s'', ag_rule_ref = sample_ref, ag_state = ''draft'',
     ag_metadata = [], ag_revision = 0, ag_status = Active, ag_created_at = 0, ag_updated_at = 0\<rparr>"

text \<open>The world after the aggregate's creation.\<close>

definition sample_world :: world where
  "sample_world = final (handleCreate sample_deps (sample_prov ''c0'') sample_ref None) init_world"

lemma sample_inj: "inj (ulid_at sample_deps)"
  by (simp add: sample_deps_def inj_def)

lemma nat_str_0 [simp]: "nat_str 0 = ''0''"
  by (simp add: nat_str_def radix_str.simps digit_char_def)

lemma sample_ulid_0 [simp]: "ulid_at sample_deps 0 = ''id0''"
  by (simp add: sample_deps_def)

lemma sample_world_inv: "kernel_inv sample_deps sample_world"
  unfolding sample_world_def
  by (rule handled_step_inv [OF step_handleCreate [OF kernel_inv_init sample_inj] kernel_inv_init])

lemmas world_eval = init_world_def createMemoryStoreState_def

lemma sample_world_snapshots: "ms_snapshots (w_store sample_world) = [(''id0'', sample_ag)]"
  by (simp add: sample_world_def handleCreate_def sample_deps_def create_and_commit_def run_rules)
    (simp add: final_def commitSuccess_def run_commit upsertSnapshotIfRevision_def world_eval
      sample_artifact_def sample_ag_def sample_prov_def js_set_def Let_def)

lemma sample_match:
  "findMatchingTransition sample_deps sample_ag sample_artifact ''publish'' a k = Some sample_transition"
  "findMatchingTransition sample_deps sample_ag sample_artifact ''review'' a k = Some sample_review"
  by (simp_all add: findMatchingTransition_def sample_artifact_def sample_ag_def sample_transition_def
      sample_review_def transition_eligible_def sample_deps_def)

lemma sample_load: "rules_load sample_deps r = Some sample_artifact"
  by (simp add: sample_deps_def)

lemma sample_get [simp]: "js_get (ms_snapshots (w_store sample_world)) ''id0'' = Some sample_ag"
  by (simp add: sample_world_snapshots js_get_def)

lemma init_stores [simp]:
  "ms_idempotency (w_store init_world) = []" "ms_snapshots (w_store init_world) = []"
  "ms_journal (w_store init_world) = []" "w_ids init_world = 0"
  by (simp_all add: world_eval)

lemma sample_allowed:
  "pr_allowed (policy_evaluate sample_deps p k) \<longleftrightarrow> pv_actor_id p \<noteq> ''mallory''"
  by (simp add: sample_deps_def)

text \<open>A transition of an aggregate that does not exist: new, allowed and denied.\<close>

definition lost_command :: "wait_condition option \<Rightarrow> kernel_command" where
  "lost_command blk = StateTransition (sample_prov ''c1'') ''nobody'' ''publish'' None 0 blk"

lemma lost_command_new: "new_command sample_deps (lost_command blk) init_world"
  by (simp add: new_command_def lost_command_def sample_prov_def sample_allowed)

definition not_found_result :: "world \<Rightarrow> command_result" where
  "not_found_result w = result (commitDenial sample_deps (sample_prov ''c1'') E_TRANSITION_DENIED NOT_FOUND
     ''Aggregate not found'' Http404 False None (Some ''nobody'')) w"

lemma lost_command_outcome:
  "handle_outcome sample_deps (lost_command blk) init_world =
     Inr (not_found_result (block_stage sample_deps (lost_command blk) init_world))"
proof -
  let ?b = "block_stage sample_deps (lost_command blk) init_world"
  have "ms_snapshots (w_store ?b) = []"
    using core_eqs(2) [OF core_block_stage, of sample_deps "lost_command blk" init_world] by simp
  then show ?thesis
    by (simp add: handle_outcome_def lost_command_def handleTransition_def run_rules tx_getSnapshot_def
        not_found_result_def)
qed

lemma lost_command_denied:
  "cr_outcome (not_found_result (block_stage sample_deps (lost_command blk) init_world)) = Denial"
proof -
  let ?b = "block_stage sample_deps (lost_command blk) init_world"
  have "ms_idempotency (w_store ?b) = []"
    using core_eqs(4) [OF core_block_stage, of sample_deps "lost_command blk" init_world] by simp
  then show ?thesis
    unfolding not_found_result_def by (simp add: commitDenial_effect idem_ret_def)
qed

end
