(* ===== verification/KernelProperties.thy ===== *)
theory KernelProperties
  imports Samples
begin

text \<open>
  The properties of the kernel's components, each with a concrete instance: commits that lose a
  race, waits and blocked callers, reactions and their deduplication, fan-out leases, the journal's
  numbering and projections.
\<close>

section \<open>Commits and waits\<close>

text \<open>
  A transition handler that loses the race to commit is denied and leaves the stored aggregate
  alone, but its \<open>transition.applied\<close> entry stays in the journal: replaying the journal gives the
  loser's state.
\<close>

theorem lost_race_breaks_replay:
  assumes "journal_ok (w_store w)" and "\<not> cas_ok ag expected (w_store w)"
    and "js_get (ms_snapshots (w_store w)) aid = Some cur"
    and "foldJournalToSnapshot (ms_journal (w_store w)) aid None = Some cur"
    and "mutates draft" "je_type draft = E_TRANSITION_APPLIED" "je_aggregate_id draft = Some aid"
    and "s' = w_store (final (commitSuccess d p draft ag expected code body) w)"
  shows "js_get (ms_snapshots s') aid = Some cur \<and>
    foldJournalToSnapshot (ms_journal s') aid None =
      Some (transitioned_aggregate None cur (appended draft (w_store w)))"
  using lost_race_diverges [OF assms(1-7)] unfolding assms(8) by blast

definition loser_draft :: journal_entry_draft where
  "loser_draft = buildEntry (sample_prov ''c2'') ''e9'' 7 E_TRANSITION_APPLIED Success
     (transitionAppliedPayload sample_transition (applyTransition sample_ag sample_transition sample_artifact 7 None) None)
     (Some ''id0'') None None"

theorem lost_race_breaks_replay_witness:
  "\<exists>s' ag. s' = w_store (final (commitSuccess sample_deps (sample_prov ''c2'') loser_draft sample_ag 5 [] []) sample_world) \<and>
     js_get (ms_snapshots s') ''id0'' = Some sample_ag \<and>
     foldJournalToSnapshot (ms_journal s') ''id0'' None = Some ag \<and> ag_state ag \<noteq> ag_state sample_ag"
proof -
  have inv: "journal_ok (w_store sample_world)"
    "foldJournalToSnapshot (ms_journal (w_store sample_world)) ''id0'' None = Some sample_ag"
    using sample_world_inv sample_get unfolding kernel_inv_def by metis+
  have lost: "\<not> cas_ok sample_ag 5 (w_store sample_world)"
    by (simp add: cas_ok_def sample_world_snapshots js_get_def sample_ag_def)
  have "mutates loser_draft" "je_type loser_draft = E_TRANSITION_APPLIED" "je_aggregate_id loser_draft = Some ''id0''"
    by (simp_all add: loser_draft_def mutates_def STATE_MUTATING_TYPES_def)
  from lost_race_breaks_replay [OF inv(1) lost sample_get inv(2) this refl]
  show ?thesis
    by (auto simp: transitioned_aggregate_def loser_draft_def transitionAppliedPayload_def
        sample_transition_def sample_ag_def)
qed

text \<open>
  While a denied command is fanned out, a pending wait bound to any other command is resolved
  as denied with this command's denial.
\<close>

theorem foreign_bound_wait_is_denied:
  assumes "wt_bound_command_id row = Some other" and "other \<noteq> []"
    and "js_get (rg_deferred (w_registry w)) (wt_wait_id row) = Some k"
  shows "js_get (rg_settled (w_registry (final (dispatch_wait True (Some den) e row) w))) k =
     Some (denied_resolution (wt_wait_id row) den)"
  using assms by (rule foreign_wait_denied)

definition other_wait :: wait_row where
  "other_wait = pending_row ''w1'' ''s'' None (WState ''live'') (Some ''other'') 0 0"

theorem foreign_bound_wait_witness:
  "js_get (rg_settled (w_registry (final (dispatch_wait True (Some (denialResult NOT_FOUND [] Http404))
       (appended loser_draft createMemoryStoreState) other_wait)
     (init_world\<lparr>w_registry := snd (registerDeferred ''w1'' empty_registry)\<rparr>)))) 0 =
   Some (denied_resolution ''w1'' (denialResult NOT_FOUND [] Http404))"
proof -
  have row: "wt_bound_command_id other_wait = Some ''other''" "''other'' \<noteq> []" "wt_wait_id other_wait = ''w1''"
    by (simp_all add: other_wait_def pending_row_def)
  show ?thesis
    using foreign_bound_wait_is_denied [OF row(1,2),
        of "init_world\<lparr>w_registry := snd (registerDeferred ''w1'' empty_registry)\<rparr>" 0]
    by (simp add: row(3) registerDeferred_def empty_registry_def)
qed

text \<open>
  An \<open>all_of\<close> wait whose parts are no \<open>all_of\<close> themselves, fed with entries one by one, is met
  exactly when every part was matched by some entry seen so far.
\<close>

theorem all_of_met_iff:
  assumes "list_all stateless cs" and "W = WCompound (Some cs) any_of"
  shows "fst (matchesWaitCondition W e (fold (feed_wait W) es None)) \<longleftrightarrow>
     (\<forall>c \<in> set cs. \<exists>e' \<in> set (es @ [e]). fst (matchesWaitCondition c e' None))"
  unfolding assms(2) using assms(1) by (rule all_of_verdict)

definition applied_to :: "string \<Rightarrow> journal_entry" where
  "applied_to st = appended (buildEntry (sample_prov ''c'') ''e'' 0 E_TRANSITION_APPLIED Success
     [(''to'', JStr st)] (Some ''id0'') None None) createMemoryStoreState"

theorem all_of_met_witness:
  "let W = WCompound (Some [WState ''a'', WState ''b'']) None in
   fst (matchesWaitCondition W (applied_to ''b'') (fold (feed_wait W) [applied_to ''a''] None))"
  unfolding Let_def
  by (subst all_of_met_iff [OF _ refl]) (simp_all add: applied_to_def)

text \<open>
  Nested \<open>all_of\<close> conditions share their progress: the outer condition \<open>all_of [all_of [a, b], c]\<close>
  is met by an \<open>a\<close> followed by a \<open>c\<close>, although no \<open>b\<close> was ever seen.
\<close>

theorem nested_all_of_fires_early:
  "let W = WCompound (Some [WCompound (Some [WState ''a'', WState ''b'']) None, WState ''c'']) None in
   fst (matchesWaitCondition W (applied_to ''c'') (fold (feed_wait W) [applied_to ''a''] None)) \<and>
   \<not> fst (matchesWaitCondition (WState ''b'') (applied_to ''a'') None) \<and>
   \<not> fst (matchesWaitCondition (WState ''b'') (applied_to ''c'') None)"
  by (simp add: applied_to_def feed_wait_def Let_def upt_rec)

text \<open>
  A promise of the wait registry, once settled, keeps its value through any later
  registrations and resolutions.
\<close>

theorem promise_settles_once:
  assumes "g = fold registry_step ops empty_registry" and "js_get (rg_settled g) k = Some r"
  shows "js_get (rg_settled (fold registry_step rest g)) k = Some r"
proof -
  have "registry_ok g" unfolding assms(1) by (rule reg.run_inv [OF registry_ok_empty])
  then have "settled_grows g (fold registry_step rest g)" by (rule reg.run_grows)
  with assms(2) show ?thesis by (simp add: settled_grows_def)
qed

theorem promise_settles_once_witness:
  "js_get (rg_settled (fold registry_step [RegisterOp ''w'', ResolveOp ''w'' (matched_resolution ''w'' (applied_to ''b''))]
     (fold registry_step [RegisterOp ''w'', ResolveOp ''w'' (matched_resolution ''w'' (applied_to ''a''))] empty_registry))) 0
   = Some (matched_resolution ''w'' (applied_to ''a''))"
  by (rule promise_settles_once [OF refl])
    (simp add: registerDeferred_def resolve_def empty_registry_def)

section \<open>Reactions\<close>

text \<open>
  Within its deduplication window a reaction is enqueued once: a second matching entry of the
  same fingerprint adds nothing to the queue and is logged as skipped.
\<close>

theorem reaction_enqueued_once:
  assumes "rd_required (rx_dedup r)" and "dedupFingerprint r e' = dedupFingerprint r e"
    and "\<not> dedup_live (date_now_at d (Suc (w_dates w))) (dedupFingerprint r e) (w_store w)"
    and "date_now_at d (w_dates w + 3) < date_now_at d (w_dates w) + rd_window_seconds (rx_dedup r) * 1000"
    and "v = final (enqueueReactionIfNeeded d r e) w" and "u = final (enqueueReactionIfNeeded d r e') v"
  shows "length (ms_reactionQueue (w_store v)) = Suc (length (ms_reactionQueue (w_store w))) \<and>
    ms_reactionQueue (w_store u) = ms_reactionQueue (w_store v) \<and>
    ms_deliveryLog (w_store u) = ms_deliveryLog (w_store v) @ [skip_log r e']"
  using enqueue_once [OF assms(1-4)] assms(3) enqueue_effect(1) [of d r e w]
  unfolding assms(5,6) by simp

definition sample_reaction :: reaction_spec where
  "sample_reaction = \<lparr>rx_reaction_id = ''r1'', rx_scope_id = ''s'',
     rx_filter = \<lparr>rf_entry_types = None, rf_source_scope_id = None, rf_aggregate_id = None\<rparr>,
     rx_action = \<lparr>as_type = ''hook'', as_config = []\<rparr>,
     rx_dedup = \<lparr>rd_required = True, rd_key_extractor = ByJsonPath, rd_key_path = Some ''$.payload.key'',
       rd_window_seconds = 60\<rparr>, rx_partition = PReaction, rx_registered_at_seq = 1, rx_enabled = True\<rparr>"

definition keyed_entry :: "string \<Rightarrow> journal_entry" where
  "keyed_entry k = appended (buildEntry (sample_prov ''c'') (''e'' @ k) 0 E_EVENT_APPENDED Success
     [(''key'', JStr k)] None None None) createMemoryStoreState"

theorem reaction_enqueued_once_witness:
  "let v = final (enqueueReactionIfNeeded sample_deps sample_reaction (keyed_entry ''k'')) init_world;
       u = final (enqueueReactionIfNeeded sample_deps sample_reaction (keyed_entry ''k'')) v
   in length (ms_reactionQueue (w_store u)) = 1"
proof -
  have "rd_required (rx_dedup sample_reaction)" "rd_window_seconds (rx_dedup sample_reaction) = 60"
    by (simp_all add: sample_reaction_def)
  then show ?thesis
    using reaction_enqueued_once [of sample_reaction "keyed_entry ''k''" "keyed_entry ''k''" sample_deps init_world,
        OF _ refl _ _ refl refl]
    by (simp add: dedup_live_def world_eval sample_deps_def Let_def)
qed

text \<open>
  The fingerprint keeps 32 bits of the key, in its last eight digits: two entries with the
  different keys \<open>Aa\<close> and \<open>BB\<close> have the same fingerprint, so the second one is skipped.
\<close>

theorem fingerprints_collide:
  "extractDedupKey sample_reaction (keyed_entry ''Aa'') \<noteq> extractDedupKey sample_reaction (keyed_entry ''BB'') \<and>
   dedupFingerprint sample_reaction (keyed_entry ''Aa'') = dedupFingerprint sample_reaction (keyed_entry ''BB'') \<and>
   take 8 (dedupFingerprint r e) = replicate 8 CHR ''0''"
proof -
  have k: "extractDedupKey sample_reaction (keyed_entry s) = s" for s
    by (simp add: extractDedupKey_def sample_reaction_def keyed_entry_def entry_json_def js_get_def)
  have "string_hash (''r1|r1|'' @ ''Aa'') = string_hash (''r1|r1|'' @ ''BB'')"
    by (rule hash_collision) simp
  then have "dedupFingerprint sample_reaction (keyed_entry ''Aa'') = dedupFingerprint sample_reaction (keyed_entry ''BB'')"
    unfolding fingerprint_eq_iff k by (simp add: partitionKey_def sample_reaction_def)
  then show ?thesis using k fingerprint_shape [of r e] by simp
qed

text \<open>
  Draining the queue delivers each claimed item exactly once, in queue order: the delivery log
  grows by one record per item of the batch, delivered or failed, never skipped.
\<close>

theorem drain_delivers_each_once:
  "\<exists>log. ms_deliveryLog (w_store (final (drainReactionQueue d) w)) = ms_deliveryLog (w_store w) @ log \<and>
     map dl_entry_id log = map rq_entry_id (take 100 (unclaimed (w_store w))) \<and>
     map dl_reaction_id log = map rq_reaction_id (take 100 (unclaimed (w_store w))) \<and>
     DedupSkipped \<notin> dl_outcome ` set log"
proof -
  let ?b = "take 100 (unclaimed (w_store w))"
  obtain outs where o: "length outs = length ?b" "DedupSkipped \<notin> set outs"
    "ms_deliveryLog (w_store (final (drainReactionQueue d) w)) =
       ms_deliveryLog (w_store w) @ map2 delivery_of ?b outs"
    using drain_delivers by blast
  have "map dl_entry_id (map2 delivery_of ?b outs) = map rq_entry_id ?b"
    "map dl_reaction_id (map2 delivery_of ?b outs) = map rq_reaction_id ?b"
    by (rule nth_equalityI; simp add: delivery_of_def o(1))+
  moreover have "DedupSkipped \<notin> dl_outcome ` set (map2 delivery_of ?b outs)"
    using o(2) by (auto simp: delivery_of_def dest: set_zip_rightD)
  ultimately show ?thesis using o(3) by blast
qed

section \<open>The store\<close>

text \<open>
  Whatever a transaction's callback does with the journal, returning or throwing, the journal
  stays numbered without gaps and the next number is one past its end.
\<close>

theorem journal_survives_transactions:
  assumes "\<And>t. snd (body t) = fold (\<lambda>dr t. snd (appendJournal dr t)) (drafts t) t"
    and "journal_ok s" and "s' = snd (runInTransaction body s)"
  shows "map je_seq (ms_journal s') = [1..<ms_nextSeq s'] \<and> ms_nextSeq s' = Suc (length (ms_journal s'))"
proof -
  have keep: "tx_ok (snd (body t))" if "tx_ok t" for t
    unfolding assms(1) using that by (rule tx_run.run_inv)
  have "journal_ok s'" unfolding assms(3) by (rule journal_ok_run) (rule keep, assumption, rule assms(2))
  with journal_ok_nextSeq [OF this] show ?thesis unfolding journal_ok_def by blast
qed

definition failing_body :: "memory_transaction \<Rightarrow> (js_error + unit) \<times> memory_transaction" where
  "failing_body t = (Inl (JsError ''boom''), snd (appendJournal loser_draft (snd (appendJournal loser_draft t))))"

theorem journal_survives_transactions_witness:
  "ms_nextSeq (snd (runInTransaction failing_body createMemoryStoreState)) = 1"
proof -
  have "snd (failing_body t) = fold (\<lambda>dr t. snd (appendJournal dr t)) [loser_draft, loser_draft] t" for t
    by (simp add: failing_body_def)
  from journal_survives_transactions [OF this journal_ok_create refl] show ?thesis
    by (simp add: runInTransaction_def failing_body_def) (simp add: appendJournal_eq createMemoryStoreState_def)
qed

text \<open>
  A rolled-back transaction gives its journal numbers back but not its numbers within the
  scope and the aggregate: after two failed appends the first entry of the scope is its number 3.
\<close>

theorem rollback_leaves_scope_gap:
  "let s = snd (runInTransaction failing_body createMemoryStoreState)
   in ms_journal s = [] \<and> ms_nextSeq s = 1 \<and> je_seq (appended loser_draft s) = 1 \<and>
      je_scope_seq (appended loser_draft s) = Some 3 \<and> je_aggregate_seq (appended loser_draft s) = Some 3"
  by (simp add: runInTransaction_def failing_body_def appendJournal_eq rollback_tx_def Let_def)
    (simp add: createMemoryStoreState_def advanced_def appended_def counter_of_def loser_draft_def
      commit_entry_def)

text \<open>
  Of two writers that read the same revision of an aggregate at most one succeeds.
\<close>

theorem one_writer_wins:
  assumes "write_snapshot a r s = (Inr True, s')" and "ag_aggregate_id b = ag_aggregate_id a"
    and "ag_revision a \<noteq> r"
  shows "write_snapshot b r s' = (Inr False, s')"
  using assms by (rule write_snapshot_race)

theorem one_writer_wins_witness:
  "fst (write_snapshot sample_ag (- 1) (snd (write_snapshot sample_ag (- 1) createMemoryStoreState))) = Inr False"
proof -
  have "write_snapshot sample_ag (- 1) createMemoryStoreState =
      (Inr True, snd (write_snapshot sample_ag (- 1) createMemoryStoreState))"
    by (simp add: write_snapshot_def runInTransaction_def upsertSnapshotIfRevision_def createMemoryStoreState_def)
  from one_writer_wins [OF this refl] show ?thesis by (simp add: sample_ag_def)
qed

text \<open>
  The result recorded first for a command identifier is the one every later lookup returns,
  whatever results are recorded afterwards.
\<close>

theorem first_result_wins:
  assumes "recorded_result cid s = None"
  shows "recorded_result cid (fold (\<lambda>(c, r). record_result c r) ((cid, r) # later) s) = Some r"
  using assms by (rule idem.first_wins)

theorem first_result_wins_witness:
  "recorded_result ''c'' (fold (\<lambda>(c, r). record_result c r)
     [(''c'', successResult ''a'' []), (''c'', successResult ''b'' [])] createMemoryStoreState) =
   Some (successResult ''a'' [])"
  by (rule first_result_wins)
    (simp add: recorded_result_def tx_getIdempotency_def createMemoryStoreState_def)

text \<open>
  C5. A fan-out claim is exclusive while its lease lasts: an entry that one worker claimed is in no
  batch another worker claims before the lease expires.
\<close>

theorem fanout_claim_exclusive:
  assumes "js_ok (ms_outbox s)" and "claimFanoutBatch l w lease now s = (b, s')"
    and "w' \<noteq> w" and "now' < now + lease" and "e \<in> set b"
  shows "je_seq e \<notin> je_seq ` set (fst (claimFanoutBatch l' w' lease' now' s'))"
  using assms by (rule claim_exclusive)

definition sample_store :: memory_store_state where
  "sample_store = snd (runInTransaction
     (\<lambda>t. case appendJournal loser_draft t of (al, t') \<Rightarrow> (Inr (), insertOutbox (al_seq al) t'))
     createMemoryStoreState)"

theorem fanout_claim_exclusive_witness:
  "let b = fst (claimFanoutBatch 10 ''w1'' 100 0 sample_store);
       s' = snd (claimFanoutBatch 10 ''w1'' 100 0 sample_store)
   in b \<noteq> [] \<and> je_seq (hd b) \<notin> je_seq ` set (fst (claimFanoutBatch 10 ''w2'' 100 50 s'))"
proof -
  let ?b = "fst (claimFanoutBatch 10 ''w1'' 100 0 sample_store)"
  let ?s = "snd (claimFanoutBatch 10 ''w1'' 100 0 sample_store)"
  have ob: "ms_outbox sample_store = [(1, fresh_outbox_row 1)]" "ms_journal sample_store = [appended loser_draft createMemoryStoreState]"
    by (simp_all add: sample_store_def runInTransaction_def appendJournal_eq insertOutbox_def)
      (simp_all add: createMemoryStoreState_def js_set_def)
  have ne: "?b \<noteq> []"
    by (simp add: claimFanoutBatch_def ob fresh_outbox_row_def) (simp add: createMemoryStoreState_def)
  have "js_ok (ms_outbox sample_store)" by (simp add: ob js_ok_def)
  then have "je_seq (hd ?b) \<notin> je_seq ` set (fst (claimFanoutBatch 10 ''w2'' 100 50 ?s))"
    by (rule fanout_claim_exclusive [OF _ prod.collapse [symmetric]]) (use ne in auto)
  with ne show ?thesis by simp
qed

text \<open>
  A projection lock is held by one owner at a time: after a successful acquisition everybody
  else is refused until the lease ends, and the holder's release frees it.
\<close>

theorem projection_lock_exclusive:
  assumes "acquireProjectionLock k w lease now now2 s = (True, s')" and "now' < now2 + lease" and "w' \<noteq> w"
  shows "acquireProjectionLock k w' lease' now' now2' s' = (False, s') \<and>
    fst (acquireProjectionLock k w' lease' now' now2' (releaseProjectionLock k w s'))"
proof
  have a: "acquireProjectionLock k w 0 now (now2 + lease) s = (True, s')"
    using assms(1) by (subst (asm) acquire_until)
  show "acquireProjectionLock k w' lease' now' now2' s' = (False, s')"
    by (subst acquire_until) (rule plock.exclusive [OF a assms(2,3)])
  show "fst (acquireProjectionLock k w' lease' now' now2' (releaseProjectionLock k w s'))"
    by (subst acquire_until) (rule plock.released [OF a])
qed

theorem projection_lock_exclusive_witness:
  "fst (acquireProjectionLock ''p'' ''b'' 60 30 30 (snd (acquireProjectionLock ''p'' ''a'' 60 0 0 createMemoryStoreState))) = False"
proof -
  have "acquireProjectionLock ''p'' ''a'' 60 0 0 createMemoryStoreState =
      (True, snd (acquireProjectionLock ''p'' ''a'' 60 0 0 createMemoryStoreState))"
    by (simp add: acquireProjectionLock_def createMemoryStoreState_def)
  from projection_lock_exclusive [OF this, of 30 "''b''" 60 30] show ?thesis by simp
qed

section \<open>Projections\<close>

text \<open>
  For a journal of one scope and aggregate, rebuilding a projection gives what dispatching the
  entries one by one gives, for any handler.
\<close>

theorem rebuild_equals_dispatch:
  assumes "fresh_run name sc ag (tailJournal from 1000 s) s" and "getProjection name sc ag s = None"
    and "list_all (\<lambda>e. 0 < je_seq e) (tailJournal from 1000 s)"
    and "rebuildProjection name h from owner now now2 s = (Inr (), s')"
  shows "getProjection name sc ag s' =
    getProjection name sc ag (fold (dispatchProjection name h) (tailJournal from 1000 s) s)"
proof -
  have "getProjection name sc ag s' = fold (proj_step h) (tailJournal from 1000 s) None"
    using assms by (intro rebuild_None [OF assms(4)]) (auto simp: fresh_run_def list_all_iff)
  also have "\<dots> = getProjection name sc ag (fold (dispatchProjection name h) (tailJournal from 1000 s) s)"
    using dispatch_all [OF assms(1), of h] assms(2) by simp
  finally show ?thesis .
qed

theorem rebuild_equals_dispatch_witness:
  "getProjection ''audit_tail'' ''s'' (Some ''id0'')
     (snd (rebuildProjection ''audit_tail'' auditTailHandler 0 ''rebuild'' 0 0 sample_store)) =
   getProjection ''audit_tail'' ''s'' (Some ''id0'')
     (fold (dispatchProjection ''audit_tail'' auditTailHandler) (tailJournal 0 1000 sample_store) sample_store)"
proof -
  have st: "ms_journal sample_store = [appended loser_draft createMemoryStoreState]"
    "ms_projectionApplied sample_store = {}" "ms_projections sample_store = []" "ms_projectionLocks sample_store = []"
    by (simp_all add: sample_store_def runInTransaction_def appendJournal_eq insertOutbox_def)
      (simp_all add: createMemoryStoreState_def)
  have seq: "je_seq (appended loser_draft createMemoryStoreState) = 1"
    by (simp add: createMemoryStoreState_def)
  have tj: "tailJournal 0 1000 sample_store = [appended loser_draft createMemoryStoreState]"
    by (simp add: tailJournal_def st seq del: appended_sel)
  have "fst (rebuildProjection ''audit_tail'' auditTailHandler 0 ''rebuild'' 0 0 sample_store) = Inr ()"
    by (simp add: rebuildProjection_def acquireProjectionLock_def st Let_def)
  then have "rebuildProjection ''audit_tail'' auditTailHandler 0 ''rebuild'' 0 0 sample_store =
      (Inr (), snd (rebuildProjection ''audit_tail'' auditTailHandler 0 ''rebuild'' 0 0 sample_store))"
    by (metis prod.collapse)
  from rebuild_equals_dispatch [OF _ _ _ this, of "''s''" "Some ''id0''"] show ?thesis
    by (simp add: tj fresh_run_def is_applied_def st getProjection_def loser_draft_def sample_prov_def
        createMemoryStoreState_def)
qed

definition two_scopes :: memory_store_state where
  "two_scopes = createMemoryStoreState\<lparr>ms_journal :=
     [commit_entry loser_draft 1 None None, commit_entry (loser_draft\<lparr>je_scope_id := ''z''\<rparr>) 2 None None], ms_nextSeq := 3\<rparr>"

text \<open>
  A rebuild does not separate scopes: with two entries of two scopes it folds both into one
  state and stores it under the last scope only.
\<close>

theorem rebuild_mixes_scopes:
  "let s' = snd (rebuildProjection ''audit_tail'' auditTailHandler 0 ''rebuild'' 0 0 two_scopes)
   in getProjection ''audit_tail'' ''s'' (Some ''id0'') s' = None \<and>
      (\<exists>st. getProjection ''audit_tail'' ''z'' (Some ''id0'') s' = Some (2, st) \<and> prop_of st ''count'' = JNum 2)"
proof -
  have ag: "je_aggregate_id loser_draft = Some ''id0''" "je_scope_id loser_draft = ''s''"
    by (simp_all add: loser_draft_def sample_prov_def)
  show ?thesis
    by (simp add: two_scopes_def createMemoryStoreState_def rebuildProjection_def acquireProjectionLock_def
        releaseProjectionLock_def tailJournal_def setProjectionCursor_def rebuild_step_def rebuild_init_def
        auditTailHandler_def runInTransaction_def upsertProjection_def apply_projection_op_def ag
        getProjection_def projectionKey_def js_set_def js_get_def Let_def)
qed

text \<open>
  The fold query agrees with the stored aggregate in every reachable world whose journal fits
  in the thousand entries it reads.
\<close>

theorem verify_fold_agrees:
  assumes "inj (ulid_at d)" and "w = fold (kernel_step d) ops init_world"
    and "length (ms_journal (w_store w)) \<le> 1000"
  shows "result (verifyFold aid) w"
  by (rule verifyFold_true [OF _ assms(3)]) (unfold assms(2), rule reachable_inv [OF assms(1)])

theorem verify_fold_agrees_witness: "result (verifyFold ''id0'') (fold (kernel_step sample_deps) [] init_world)"
  by (rule verify_fold_agrees [OF sample_inj refl]) simp

end
