(* ===== verification/FlowTypes.thy ===== *)
theory FlowTypes
  imports JsValue
begin

text \<open>
  The data of the flow engine, from \<open>packages/contracts/src/\<close>: the authored manifest
  (\<open>flow/manifest.ts\<close>, \<open>entities/step-contract.ts\<close>), the compiled intermediate representation
  (\<open>flow/ir.ts\<close>) and the step-contract catalog, with the warnings the compiler reports. The dash
  of the messages is not a HOL character and stands as its three UTF-8 bytes.
\<close>

section \<open>Strings of the compiler\<close>

definition is_space :: "char \<Rightarrow> bool" where
  "is_space c \<longleftrightarrow> (9 \<le> (of_char c :: nat) \<and> (of_char c :: nat) \<le> 13) \<or> c = CHR 0x20 \<or> c = CHR 0xA0"

definition trim :: "string \<Rightarrow> string" where
  "trim s = rev (dropWhile is_space (rev (dropWhile is_space s)))"

definition is_lower :: "char \<Rightarrow> bool" where
  "is_lower c \<longleftrightarrow> 97 \<le> (of_char c :: nat) \<and> (of_char c :: nat) \<le> 122"

definition is_upper :: "char \<Rightarrow> bool" where
  "is_upper c \<longleftrightarrow> 65 \<le> (of_char c :: nat) \<and> (of_char c :: nat) \<le> 90"

definition is_digit :: "char \<Rightarrow> bool" where
  "is_digit c \<longleftrightarrow> 48 \<le> (of_char c :: nat) \<and> (of_char c :: nat) \<le> 57"

definition is_alnum :: "char \<Rightarrow> bool" where
  "is_alnum c \<longleftrightarrow> is_lower c \<or> is_upper c \<or> is_digit c"

definition char_lower :: "char \<Rightarrow> char" where
  "char_lower c =
     (if is_upper c \<or> (192 \<le> (of_char c :: nat) \<and> (of_char c :: nat) \<le> 222 \<and> c \<noteq> CHR 0xD7)
      then char_of ((of_char c :: nat) + 32) else c)"

definition to_lower :: "string \<Rightarrow> string" where
  "to_lower s = map char_lower s"

definition em_dash :: string where
  "em_dash = [CHR 0xE2, CHR 0x80, CHR 0x94]"

definition quoted :: "string \<Rightarrow> string" where
  "quoted s = CHR 0x27 # s @ [CHR 0x27]"

text \<open>Property names every plain object inherits: \<open>ob[name]\<close> is defined for them without an own property.\<close>

definition OBJECT_PROTOTYPE :: "string list" where
  "OBJECT_PROTOTYPE =
     [''constructor'', ''hasOwnProperty'', ''isPrototypeOf'', ''propertyIsEnumerable'', ''toLocaleString'',
      ''toString'', ''valueOf'', ''__proto__'', ''__defineGetter__'', ''__defineSetter__'',
      ''__lookupGetter__'', ''__lookupSetter__'']"

section \<open>Authored manifests\<close>

record artifact_slot =
  sl_description :: "string option"
  sl_media_types :: "string list option"
  sl_extensions :: "string list option"
  sl_min_bytes :: "int option"
  sl_max_bytes :: "int option"
  sl_min_files :: "int option"
  sl_max_files :: "int option"
  sl_max_total_bytes :: "int option"

datatype schema_value = SchemaObject jobj | SchemaRef string

datatype run_end = RunCompleted | RunFailed

record branch_route =
  br_step :: "string option"
  br_run :: "run_end option"

record branch_def =
  bd_schema :: "schema_value option"
  bd_schema_ref :: "string option"
  bd_artifact_slots :: "(string, artifact_slot) jsmap option"
  bd_route :: "branch_route option"
  bd_resume :: "string option"

record gate_form =
  gf_id :: string
  gf_fields :: "json list"

record invoke_step =
  iv_space :: string
  iv_action :: string
  iv_params :: "jobj option"
  iv_artifacts_in :: "string list option"

record gate_step =
  gs_form :: "gate_form option"
  gs_assignees :: "string list option"

record lane_step =
  ln_id :: string
  ln_invoke :: "invoke_step option"
  ln_gate :: "gate_step option"

record parallel_step =
  pl_matrix :: string
  pl_lane :: "lane_step list"

record start_flow_step =
  sf_flow_id :: string
  sf_input :: "jobj option"
  sf_wait :: "bool option"
  sf_continue_on_error :: "bool option"

text \<open>
  \<open>FlowStep\<close> and \<open>StepContractManifestStep\<close> in one type: a nested step has no \<open>parallel\<close>,
  \<open>start_flow\<close> and \<open>meeting\<close>. An absent \<open>steps\<close> and an empty one are read alike everywhere
  (\<open>step.steps?.length\<close>, \<open>step.steps ?? []\<close>), so \<open>fs_steps\<close> is a list. \<open>fs_extra\<close> are the
  properties outside the schema that an unparsed step may still carry (\<open>invoke\<close>, \<open>gate\<close>, \<open>checkpoint\<close>).
\<close>

datatype flow_step = FlowStep
  (fs_id: string)
  (fs_description: "string option")
  (fs_branches: "(string \<times> branch_def) list option")
  (fs_steps: "flow_step list")
  (fs_parallel: "parallel_step option")
  (fs_start_flow: "start_flow_step option")
  (fs_meeting: "jobj option")
  (fs_extra: jobj)

record start_event =
  se_type :: string
  se_source :: "string option"

record start_conditions =
  sc_manual :: "bool option"
  sc_flow_call :: "bool option"
  sc_events :: "start_event list option"
  sc_schedule :: "string option"
  sc_idempotency :: "string option"

record flow_manifest =
  fm_name :: string
  fm_description :: "string option"
  fm_triggers :: start_conditions
  fm_suggested :: "string list option"
  fm_steps :: "flow_step list"

section \<open>The intermediate representation\<close>

datatype step_kind = KInvoke | KGate | KParallel | KStartFlow | KStepContract

record ir_gate =
  ig_form :: "string option"
  ig_assignees :: "string list option"

record ir_lane =
  il_id :: string
  il_kind :: step_kind
  il_invoke :: "invoke_step option"
  il_gate :: "ir_gate option"

record ir_parallel =
  ip_matrix :: string
  ip_lane :: "ir_lane list"

record ir_contract =
  ic_qualified_id :: string
  ic_parent_id :: "string option"

record step_ir =
  ir_id :: string
  ir_kind :: step_kind
  ir_invoke :: "invoke_step option"
  ir_gate :: "ir_gate option"
  ir_parallel :: "ir_parallel option"
  ir_start_flow :: "start_flow_step option"
  ir_step_contract :: "ir_contract option"

record flow_ir_body =
  fi_flow_id :: string
  fi_name :: string
  fi_triggers :: start_conditions
  fi_steps :: "step_ir list"

record flow_ir = flow_ir_body +
  fi_digest :: string

section \<open>The step-contract catalog\<close>

datatype route_engine = Open | Advance | FailRun | Resume

record catalog_route =
  rt_engine :: route_engine
  rt_step_id :: "string option"

record catalog_branch =
  cb_schema_ref :: "string option"
  cb_schema :: "jobj option"
  cb_payload_required :: "string list"
  cb_artifact_required :: "string list"
  cb_artifact_slots :: "(string, artifact_slot) jsmap"
  cb_routes :: "catalog_route list"

record catalog_entry =
  ce_step_id :: string
  ce_parent_id :: "string option"
  ce_description :: "string option"
  ce_branches :: "(string, catalog_branch) jsmap"
  ce_meeting :: "jobj option"

record catalog_body =
  ct_flow_id :: string
  ct_entries :: "catalog_entry list"
  ct_step_ids :: "string list"
  ct_graph_digest :: string

record step_catalog = catalog_body +
  ct_digest :: string

record lint_warning =
  wn_flow_id :: string
  wn_step_id :: "string option"
  wn_code :: string
  wn_message :: string

record compile_result =
  cr_catalog :: "step_catalog option"
  cr_warnings :: "lint_warning list"

section \<open>A manifest as a JSON value\<close>

text \<open>
  The token lint walks the manifest object itself. These functions give the value the walk sees,
  with the keys in the order of the schema that parsed them.
\<close>

definition opt_field :: "string \<Rightarrow> ('a \<Rightarrow> json) \<Rightarrow> 'a option \<Rightarrow> jobj" where
  "opt_field k f x = (case x of None \<Rightarrow> [] | Some v \<Rightarrow> [(k, f v)])"

definition strs_json :: "string list \<Rightarrow> json" where
  "strs_json xs = JArr (map JStr xs)"

definition slot_json :: "artifact_slot \<Rightarrow> json" where
  "slot_json sl = JObj
     (opt_field ''description'' JStr (sl_description sl)
      @ opt_field ''media_types'' strs_json (sl_media_types sl)
      @ opt_field ''extensions'' strs_json (sl_extensions sl)
      @ opt_field ''min_bytes'' JNum (sl_min_bytes sl)
      @ opt_field ''max_bytes'' JNum (sl_max_bytes sl)
      @ opt_field ''min_files'' JNum (sl_min_files sl)
      @ opt_field ''max_files'' JNum (sl_max_files sl)
      @ opt_field ''max_total_bytes'' JNum (sl_max_total_bytes sl))"

fun schema_json :: "schema_value \<Rightarrow> json" where
  "schema_json (SchemaObject ob) = JObj ob"
| "schema_json (SchemaRef r) = JStr r"

fun run_end_str :: "run_end \<Rightarrow> string" where
  "run_end_str RunCompleted = ''completed''"
| "run_end_str RunFailed = ''failed''"

definition route_json :: "branch_route \<Rightarrow> json" where
  "route_json r = JObj
     (opt_field ''step'' JStr (br_step r)
      @ opt_field ''run'' (\<lambda>e. JStr (run_end_str e)) (br_run r))"

definition branch_json :: "branch_def \<Rightarrow> json" where
  "branch_json b = JObj
     (opt_field ''schema'' schema_json (bd_schema b)
      @ opt_field ''schema_ref'' JStr (bd_schema_ref b)
      @ opt_field ''artifact_slots'' (\<lambda>m. JObj (map (\<lambda>(k, sl). (k, slot_json sl)) m)) (bd_artifact_slots b)
      @ opt_field ''route'' route_json (bd_route b)
      @ opt_field ''resume'' JStr (bd_resume b))"

definition branches_json :: "(string \<times> branch_def) list \<Rightarrow> json" where
  "branches_json m = JObj (map (\<lambda>(k, b). (k, branch_json b)) m)"

definition invoke_json :: "invoke_step \<Rightarrow> json" where
  "invoke_json v = JObj
     ([(''space'', JStr (iv_space v)), (''action'', JStr (iv_action v))]
      @ opt_field ''params'' JObj (iv_params v)
      @ opt_field ''artifacts_in'' strs_json (iv_artifacts_in v))"

definition gate_json :: "gate_step \<Rightarrow> json" where
  "gate_json g = JObj
     (opt_field ''form'' (\<lambda>f. JObj [(''id'', JStr (gf_id f)), (''fields'', JArr (gf_fields f))]) (gs_form g)
      @ opt_field ''assignees'' strs_json (gs_assignees g))"

definition lane_json :: "lane_step \<Rightarrow> json" where
  "lane_json l = JObj
     ((''id'', JStr (ln_id l))
      # opt_field ''invoke'' invoke_json (ln_invoke l) @ opt_field ''gate'' gate_json (ln_gate l))"

definition parallel_json :: "parallel_step \<Rightarrow> json" where
  "parallel_json p = JObj
     [(''matrix'', JStr (pl_matrix p)), (''lane'', JArr (map lane_json (pl_lane p)))]"

definition start_flow_json :: "start_flow_step \<Rightarrow> json" where
  "start_flow_json s = JObj
     ((''flow_id'', JStr (sf_flow_id s))
      # opt_field ''input'' JObj (sf_input s)
      @ opt_field ''wait'' JBool (sf_wait s)
      @ opt_field ''continue_on_error'' JBool (sf_continue_on_error s))"

fun step_json :: "flow_step \<Rightarrow> json" where
  "step_json (FlowStep i d b ss p sf mt ex) = JObj
     ((''id'', JStr i)
      # opt_field ''description'' JStr d
      @ opt_field ''branches'' branches_json b
      @ (''steps'', JArr (map step_json ss))
      # opt_field ''parallel'' parallel_json p
      @ opt_field ''start_flow'' start_flow_json sf
      @ opt_field ''meeting'' JObj mt
      @ ex)"

definition triggers_json :: "start_conditions \<Rightarrow> json" where
  "triggers_json t = JObj
     (opt_field ''manual'' JBool (sc_manual t)
      @ opt_field ''flow_call'' JBool (sc_flow_call t)
      @ opt_field ''events''
          (\<lambda>es. JArr (map (\<lambda>e. JObj ((''type'', JStr (se_type e)) # opt_field ''source'' JStr (se_source e))) es))
          (sc_events t)
      @ opt_field ''schedule'' JStr (sc_schedule t)
      @ opt_field ''idempotency'' JStr (sc_idempotency t))"

definition manifest_json :: "flow_manifest \<Rightarrow> json" where
  "manifest_json m = JObj
     ([(''apiVersion'', JStr ''murrmure.flow/v1''), (''name'', JStr (fm_name m))]
      @ opt_field ''description'' JStr (fm_description m)
      @ [(''triggers'', triggers_json (fm_triggers m))]
      @ opt_field ''grants'' (\<lambda>cs. JObj [(''suggested'', strs_json cs)]) (fm_suggested m)
      @ [(''steps'', JArr (map step_json (fm_steps m)))])"

lemma step_size [termination_simp]: "size_list size (fs_steps s) < size s"
  by (cases s) simp

lemma child_size [termination_simp]: "c \<in> set (fs_steps s) \<Longrightarrow> size c < size s"
  by (cases s) (auto dest!: split_list)

text \<open>The step as the selectors see it, for recursions that go by them.\<close>

lemma step_induct [case_names step]:
  "(\<And>s. (\<And>c. c \<in> set (fs_steps s) \<Longrightarrow> P c) \<Longrightarrow> P s) \<Longrightarrow> P s"
  by (induction "size s" arbitrary: s rule: less_induct) (simp add: child_size)

end
