(* ===== verification/TokenLint.thy ===== *)
theory TokenLint
  imports FlowTypes
begin

text \<open>
  The \<open>{{murrmure.\<dots>}}\<close> tokens of manifests and actions, from
  \<open>hub-core/src/flow-engine/step-contract-compile.ts\<close>. Each regular expression is written out as
  the scan it performs: its classes exclude the delimiter that follows them, so matching is
  deterministic, and the one greedy group over dots takes the longest split.
\<close>

datatype slot_cardinality = Singleton | Collection

definition KNOWN_MURRMURE_TOKENS :: "string list" where
  "KNOWN_MURRMURE_TOKENS = [''run_id'', ''space_root'', ''agentStepContract'', ''inputs.json'']"

definition STEP_CONTRACT_MIGRATION_DOC :: string where
  "STEP_CONTRACT_MIGRATION_DOC = ''studio-specs/current/bridges/step-contract.md''"

text \<open>\<open>text.matchAll(MURRMURE_TOKEN_PATTERN)\<close>: the first group of every match, left to right.\<close>

definition token_open :: string where
  "token_open = ''{{murrmure.''"

function murrmure_tokens :: "string \<Rightarrow> string list" where
  "murrmure_tokens [] = []"
| "murrmure_tokens (c # cs) =
     (let rest = drop (length token_open) (c # cs);
          body = takeWhile (\<lambda>d. d \<noteq> CHR ''}'') rest;
          after = dropWhile (\<lambda>d. d \<noteq> CHR ''}'') rest
      in if starts_with (c # cs) token_open \<and> body \<noteq> [] \<and> starts_with after ''}}''
         then body # murrmure_tokens (drop 2 after)
         else murrmure_tokens cs)"
  by pat_completeness auto

termination
proof (relation "measure length")
  fix c cs rest body after
  assume rest: "rest = drop (length token_open) (c # cs)"
    and after: "after = dropWhile (\<lambda>d. d \<noteq> CHR ''}'') rest"
  have "length after \<le> length rest" unfolding after by (rule length_dropWhile_le)
  then show "(drop 2 after, c # cs) \<in> measure length"
    using rest by (simp add: token_open_def)
qed simp_all

text \<open>The character classes of the patterns: step ids and field paths, slot names.\<close>

definition path_char :: "char \<Rightarrow> bool" where
  "path_char c \<longleftrightarrow> is_alnum c \<or> c \<in> {CHR ''_'', CHR ''.'', CHR ''-''}"

definition slot_char :: "char \<Rightarrow> bool" where
  "slot_char c \<longleftrightarrow> is_alnum c \<or> c \<in> {CHR ''_'', CHR ''-''}"

definition dotted :: "string list \<Rightarrow> string" where
  "dotted segs = join_with ''.'' segs"

definition path_text :: "string \<Rightarrow> bool" where
  "path_text s \<longleftrightarrow> s \<noteq> [] \<and> list_all path_char s"

text \<open>\<open>QUALIFIED_STEP_TOKEN_PATTERN\<close>: \<open>step.<id>.<scalar>\<close>; gives the id.\<close>

definition step_token :: "string \<Rightarrow> string option" where
  "step_token path =
     (let segs = split_on (CHR ''.'') path; mid = butlast (tl segs); scalar = last segs in
      if 3 \<le> length segs \<and> hd segs = ''step''
         \<and> scalar \<in> {''description'', ''workdir'', ''iteration''} \<and> path_text (dotted mid)
      then Some (dotted mid) else None)"

text \<open>\<open>QUALIFIED_ARTIFACT_TOKEN_PATTERN\<close>: \<open>step.<id>.artifact.<slot>.<kind>\<close>; gives id, slot and kind.\<close>

definition artifact_token :: "string \<Rightarrow> (string \<times> string \<times> string) option" where
  "artifact_token path =
     (let segs = split_on (CHR ''.'') path; n = length segs;
          mid = take (n - 4) (tl segs); slot = segs ! (n - 2); kind = last segs in
      if 5 \<le> n \<and> hd segs = ''step'' \<and> segs ! (n - 3) = ''artifact''
         \<and> kind \<in> {''path'', ''directory'', ''transfer_id''}
         \<and> slot \<noteq> [] \<and> list_all slot_char slot \<and> path_text (dotted mid)
      then Some (dotted mid, slot, kind) else None)"

text \<open>\<open>QUALIFIED_OUTPUT_TOKEN_PATTERN\<close>: \<open>step.<id>.output.<field>\<close>; the id is the longest that fits.\<close>

definition output_split :: "string list \<Rightarrow> nat \<Rightarrow> bool" where
  "output_split segs i \<longleftrightarrow>
     segs ! i = ''output'' \<and> path_text (dotted (take (i - 1) (tl segs))) \<and> path_text (dotted (drop (Suc i) segs))"

definition output_token :: "string \<Rightarrow> string option" where
  "output_token path =
     (let segs = split_on (CHR ''.'') path in
      if hd segs = ''step''
      then map_option (\<lambda>i. dotted (take (i - 1) (tl segs))) (find (output_split segs) (rev [2..<length segs]))
      else None)"

definition known_in :: "string list \<Rightarrow> string option \<Rightarrow> bool" where
  "known_in ids m = (case m of None \<Rightarrow> False | Some i \<Rightarrow> i \<in> set ids)"

definition isKnownMurrmureToken :: "string \<Rightarrow> string list \<Rightarrow> bool" where
  "isKnownMurrmureToken path ids \<longleftrightarrow>
     path \<in> set KNOWN_MURRMURE_TOKENS
     \<or> known_in ids (step_token path)
     \<or> known_in ids (map_option fst (artifact_token path))
     \<or> known_in ids (output_token path)"

section \<open>The lint\<close>

fun walkJsonValues :: "json \<Rightarrow> string list" where
  "walkJsonValues (JStr s) = [s]"
| "walkJsonValues (JArr xs) = concat (map walkJsonValues xs)"
| "walkJsonValues (JObj ob) = concat (map (\<lambda>kv. walkJsonValues (snd kv)) ob)"
| "walkJsonValues _ = []"

type_synonym slot_map = "(string, (string, slot_cardinality) jsmap) jsmap"

definition cardinality_of :: "slot_map \<Rightarrow> string \<Rightarrow> string \<Rightarrow> slot_cardinality option" where
  "cardinality_of sm producer slot = (case js_get sm producer of None \<Rightarrow> None | Some m \<Rightarrow> js_get m slot)"

definition unknown_token :: "string \<Rightarrow> string option \<Rightarrow> string \<Rightarrow> lint_warning" where
  "unknown_token flowId stepId token = \<lparr>
     wn_flow_id = flowId, wn_step_id = stepId, wn_code = ''UNKNOWN_MURRMURE_TOKEN'',
     wn_message = ''Unknown {{murrmure.'' @ token @ ''}} '' @ em_dash @ '' see '' @ STEP_CONTRACT_MIGRATION_DOC \<rparr>"

definition cardinality_mismatch :: "string \<Rightarrow> string option \<Rightarrow> string \<Rightarrow> string \<Rightarrow> string \<Rightarrow> lint_warning" where
  "cardinality_mismatch flowId stepId producer slot kind = \<lparr>
     wn_flow_id = flowId, wn_step_id = stepId, wn_code = ''ARTIFACT_TOKEN_CARDINALITY_MISMATCH'',
     wn_message =
       (let name = quoted (producer @ ''.'' @ slot) in
        if kind = ''path''
        then ''Slot '' @ name @ '' is a collection (max_files > 1); bind it with .directory, not .path''
        else ''Slot '' @ name @ '' is a singleton (max_files = 1); bind it with .path, not .directory (got singleton)'') \<rparr>"

definition scan_token :: "string \<Rightarrow> string list \<Rightarrow> slot_map \<Rightarrow> string option \<Rightarrow> string \<Rightarrow> lint_warning list" where
  "scan_token flowId ids sm stepId token =
     (if \<not> isKnownMurrmureToken token ids then [unknown_token flowId stepId token]
      else case artifact_token token of
        None \<Rightarrow> []
      | Some (producer, slot, kind) \<Rightarrow>
          (if (kind = ''path'' \<and> cardinality_of sm producer slot = Some Collection)
              \<or> (kind = ''directory'' \<and> cardinality_of sm producer slot = Some Singleton)
           then [cardinality_mismatch flowId stepId producer slot kind] else []))"

definition scanString :: "string \<Rightarrow> string list \<Rightarrow> slot_map \<Rightarrow> string option \<Rightarrow> string \<Rightarrow> lint_warning list" where
  "scanString flowId ids sm stepId text =
     concat (map (\<lambda>t. scan_token flowId ids sm stepId (trim t)) (murrmure_tokens text))"

text \<open>\<open>walkActionStrings\<close> and \<open>lintActionMurrmureTokens\<close>: an action's prompt, command and working directory.\<close>

record action_strings =
  as_prompt :: "string option"
  as_command :: "string option"
  as_cwd :: "string option"

definition opt_text :: "string option \<Rightarrow> string list" where
  "opt_text x = (if truthy_str x then [the x] else [])"

definition walkActionStrings :: "(string, action_strings) jsmap \<Rightarrow> (string \<times> string) list" where
  "walkActionStrings actions =
     concat (map (\<lambda>(name, a). map (\<lambda>t. (t, name))
       (opt_text (as_prompt a) @ opt_text (as_command a) @ opt_text (as_cwd a))) actions)"

definition lintActionMurrmureTokens ::
    "(string, action_strings) jsmap \<Rightarrow> string list \<Rightarrow> string \<Rightarrow> lint_warning list" where
  "lintActionMurrmureTokens actions ids flowId =
     concat (map (\<lambda>(text, name). concat (map (\<lambda>m.
         (let token = trim m in
          if isKnownMurrmureToken token ids then []
          else [\<lparr> wn_flow_id = flowId, wn_step_id = Some name, wn_code = ''UNKNOWN_MURRMURE_TOKEN'',
                  wn_message = ''Unknown {{murrmure.'' @ token @ ''}} in action prompt '' @ em_dash
                    @ '' see '' @ STEP_CONTRACT_MIGRATION_DOC \<rparr>]))
       (murrmure_tokens text))) (walkActionStrings actions))"

end
