(* ===== verification/BranchContract.thy ===== *)
theory BranchContract
  imports FlowTypes
begin

text \<open>
  Validation of what a step resolution submits against the branch's contract, from
  \<open>contracts/src/branch-validation.ts\<close>: the payload against the JSON schema, the files against the
  artifact slots. The JSON-schema validator (\<open>ajv\<close>) is a library and a parameter: \<open>compile\<close> throws
  or gives a validator, and a validator that rejects gives its error objects. File slots are looked
  up as own properties; only the test \<open>slots[supplied]\<close> and the payload test read inherited names.
\<close>

record ajv_error =
  ae_instancePath :: string
  ae_keyword :: string
  ae_missingProperty :: "string option"
  ae_message :: "string option"

type_synonym ajv_compile = "jobj \<Rightarrow> string + (jobj \<Rightarrow> ajv_error list option)"

datatype error_source = FromPayload | FromArtifact

record contract_error =
  er_source :: error_source
  er_path :: string
  er_rule :: string
  er_message :: string

record file_metadata =
  fl_name :: string
  fl_media_type :: string
  fl_size_bytes :: int

datatype file_input = OneFile file_metadata | ManyFiles "file_metadata list"

record branch_contract =
  bc_schema :: "jobj option"
  bc_payload_required :: "string list option"
  bc_artifact_required :: "string list option"
  bc_artifact_slots :: "(string, artifact_slot) jsmap option"

record branch_input =
  bi_payload :: "jobj option"
  bi_files :: "(string, file_input) jsmap option"

definition or_empty :: "('k, 'v) jsmap option \<Rightarrow> ('k, 'v) jsmap" where
  "or_empty m = (case m of None \<Rightarrow> [] | Some x \<Rightarrow> x)"

definition opt_default :: "'a \<Rightarrow> 'a option \<Rightarrow> 'a" where
  "opt_default d x = (case x of None \<Rightarrow> d | Some v \<Rightarrow> v)"

fun escape_char :: "char \<Rightarrow> string" where
  "escape_char c = (if c = CHR ''~'' then ''~0'' else if c = CHR ''/'' then ''~1'' else [c])"

definition escapeJsonPointer :: "string \<Rightarrow> string" where
  "escapeJsonPointer s = concat (map escape_char s)"

fun string_items :: "json list \<Rightarrow> string list" where
  "string_items [] = []"
| "string_items (JStr s # vs) = s # string_items vs"
| "string_items (_ # vs) = string_items vs"

definition required_names :: "jobj option \<Rightarrow> string list" where
  "required_names schema =
     (case schema of None \<Rightarrow> [] | Some sc \<Rightarrow>
        (case prop_of sc ''required'' of JArr vs \<Rightarrow> string_items vs | _ \<Rightarrow> []))"

definition partitionRequiredFields ::
    "jobj option \<Rightarrow> (string, artifact_slot) jsmap option \<Rightarrow> string list \<times> string list" where
  "partitionRequiredFields schema slots =
     (let required = required_names schema; names = js_keys (or_empty slots) in
      (filter (\<lambda>n. n \<notin> set names) required, filter (\<lambda>n. n \<in> set names) required))"

definition payload_keeps :: "string list \<Rightarrow> json \<Rightarrow> bool" where
  "payload_keeps artifactNames v = (case v of JStr s \<Rightarrow> s \<notin> set artifactNames | _ \<Rightarrow> False)"

definition payloadSchemaForContract :: "jobj option \<Rightarrow> string list \<Rightarrow> jobj option" where
  "payloadSchemaForContract schema artifactRequired =
     map_option (\<lambda>sc. case prop_of sc ''required'' of
         JArr vs \<Rightarrow> spread sc [(''required'', JArr (filter (payload_keeps artifactRequired) vs))]
       | _ \<Rightarrow> sc) schema"

text \<open>\<open>/^[a-z][a-z0-9+.-]*:/i\<close>, a URI scheme.\<close>

definition scheme_char :: "char \<Rightarrow> bool" where
  "scheme_char c \<longleftrightarrow> is_alnum c \<or> c \<in> {CHR ''+'', CHR ''.'', CHR ''-''}"

definition has_scheme :: "string \<Rightarrow> bool" where
  "has_scheme s =
     (case s of [] \<Rightarrow> False
      | c # cs \<Rightarrow> (is_lower c \<or> is_upper c) \<and> starts_with (dropWhile scheme_char cs) '':'')"

definition remote_text :: "string \<Rightarrow> bool" where
  "remote_text s \<longleftrightarrow> has_scheme s \<or> starts_with s ''//''"

fun is_remote_ref :: "json \<Rightarrow> bool" where
  "is_remote_ref (JStr s) = remote_text s"
| "is_remote_ref _ = False"

fun hasRemoteRef :: "json \<Rightarrow> bool" where
  "hasRemoteRef (JArr xs) = list_ex hasRemoteRef xs"
| "hasRemoteRef (JObj ob) =
     list_ex (\<lambda>kv. (fst kv = ''$ref'' \<and> is_remote_ref (snd kv)) \<or> hasRemoteRef (snd kv)) ob"
| "hasRemoteRef _ = False"

text \<open>The validator of a supported schema, or the message of the exception.\<close>

definition assertSupportedPayloadSchema ::
    "ajv_compile \<Rightarrow> jobj \<Rightarrow> string + (jobj \<Rightarrow> ajv_error list option)" where
  "assertSupportedPayloadSchema ajv schema =
     (if hasRemoteRef (JObj schema)
      then Inl (''Remote $ref is not allowed in step branch schemas'')
      else ajv schema)"

definition normalizeAjvError :: "ajv_error \<Rightarrow> contract_error" where
  "normalizeAjvError e = \<lparr>
     er_source = FromPayload,
     er_path = (if ae_keyword e = ''required'' \<and> truthy_str (ae_missingProperty e)
                then ae_instancePath e @ ''/'' @ escapeJsonPointer (the (ae_missingProperty e))
                else ae_instancePath e),
     er_rule = ae_keyword e,
     er_message = opt_default ''Payload does not match the branch schema'' (ae_message e) \<rparr>"

definition filesForSlot :: "(string, file_input) jsmap option \<Rightarrow> string \<Rightarrow> file_metadata list" where
  "filesForSlot files slot =
     (case js_get (or_empty files) slot of
        None \<Rightarrow> [] | Some (OneFile f) \<Rightarrow> [f] | Some (ManyFiles fs) \<Rightarrow> fs)"

definition base_name :: "string \<Rightarrow> string" where
  "base_name filename =
     last (split_on (CHR ''/'') (map (\<lambda>c. if c = CHR 0x5C then CHR ''/'' else c) filename))"

definition extensionOf :: "string \<Rightarrow> string" where
  "extensionOf filename =
     (let safe = base_name filename in
      if CHR ''.'' \<in> set safe
      then to_lower (CHR ''.'' # rev (takeWhile (\<lambda>c. c \<noteq> CHR ''.'') (rev safe)))
      else '''')"

definition artifactError :: "string \<Rightarrow> string \<Rightarrow> string \<Rightarrow> nat option \<Rightarrow> contract_error" where
  "artifactError slot rule message index = \<lparr>
     er_source = FromArtifact,
     er_path = ''/files/'' @ escapeJsonPointer slot @ (case index of None \<Rightarrow> '''' | Some i \<Rightarrow> ''/'' @ nat_str i),
     er_rule = rule, er_message = message \<rparr>"

definition err_if :: "bool \<Rightarrow> 'e \<Rightarrow> 'e list" where
  "err_if b e = (if b then [e] else [])"

section \<open>The payload\<close>

definition missing_payload :: "jobj option \<Rightarrow> string \<Rightarrow> bool" where
  "missing_payload payload name \<longleftrightarrow>
     (case js_get (or_empty payload) name of
        None \<Rightarrow> name \<notin> set OBJECT_PROTOTYPE | Some v \<Rightarrow> v = JUndef)"

definition missing_payload_error :: "string \<Rightarrow> contract_error" where
  "missing_payload_error name = \<lparr>
     er_source = FromPayload, er_path = ''/'' @ escapeJsonPointer name, er_rule = ''required'',
     er_message = ''must have required property '' @ quoted name \<rparr>"

definition payload_errors ::
    "ajv_compile \<Rightarrow> jobj option \<Rightarrow> string list \<Rightarrow> jobj option \<Rightarrow> contract_error list" where
  "payload_errors ajv schema payloadRequired payload =
     (case schema of
        Some sc \<Rightarrow>
          (case assertSupportedPayloadSchema ajv sc of
             Inl message \<Rightarrow>
               [\<lparr> er_source = FromPayload, er_path = '''', er_rule = ''schema'', er_message = message \<rparr>]
           | Inr validate \<Rightarrow>
               (case validate (or_empty payload) of None \<Rightarrow> [] | Some es \<Rightarrow> map normalizeAjvError es))
      | None \<Rightarrow> map missing_payload_error (filter (missing_payload payload) payloadRequired))"

section \<open>The files\<close>

definition unknown_slot_errors ::
    "(string, artifact_slot) jsmap \<Rightarrow> (string, file_input) jsmap option \<Rightarrow> contract_error list" where
  "unknown_slot_errors slots files =
     map (\<lambda>s. artifactError s ''unknown_slot'' (''Unknown artifact slot '' @ quoted s) None)
       (filter (\<lambda>s. \<not> js_has slots s \<and> s \<notin> set OBJECT_PROTOTYPE) (js_keys (or_empty files)))"

definition normalized_name :: "file_metadata \<Rightarrow> string" where
  "normalized_name f = to_lower (base_name (fl_name f))"

definition invalid_name :: "string \<Rightarrow> bool" where
  "invalid_name n \<longleftrightarrow> n = [] \<or> n = ''.'' \<or> n = ''..''"

definition name_errors :: "string \<Rightarrow> string list \<Rightarrow> nat \<Rightarrow> file_metadata \<Rightarrow> contract_error list" where
  "name_errors slot names i f =
     (if invalid_name (normalized_name f)
      then [artifactError slot ''filename'' ''Artifact filename is invalid'' (Some i)]
      else err_if (normalized_name f \<in> set names)
             (artifactError slot ''unique_filename'' (''Duplicate artifact filename '' @ quoted (fl_name f)) (Some i)))"

definition rule_errors :: "string \<Rightarrow> artifact_slot \<Rightarrow> nat \<Rightarrow> file_metadata \<Rightarrow> contract_error list" where
  "rule_errors slot d i f =
     (case sl_min_bytes d of None \<Rightarrow> [] | Some m \<Rightarrow> err_if (fl_size_bytes f < m)
        (artifactError slot ''min_bytes''
          (''Artifact '' @ quoted (fl_name f) @ '' is smaller than '' @ int_str m @ '' bytes'') (Some i)))
   @ (case sl_max_bytes d of None \<Rightarrow> [] | Some m \<Rightarrow> err_if (m < fl_size_bytes f)
        (artifactError slot ''max_bytes''
          (''Artifact '' @ quoted (fl_name f) @ '' exceeds '' @ int_str m @ '' bytes'') (Some i)))
   @ (case sl_media_types d of None \<Rightarrow> [] | Some ts \<Rightarrow>
        err_if (ts \<noteq> [] \<and> to_lower (fl_media_type f) \<notin> set ts)
        (artifactError slot ''media_type''
          (''Artifact '' @ quoted (fl_name f) @ '' has unsupported media type '' @ quoted (fl_media_type f)) (Some i)))
   @ (case sl_extensions d of None \<Rightarrow> [] | Some es \<Rightarrow>
        err_if (es \<noteq> [] \<and> extensionOf (fl_name f) \<notin> set (map to_lower es))
        (artifactError slot ''extension''
          (''Artifact '' @ quoted (fl_name f) @ '' has an unsupported extension'') (Some i)))"

text \<open>The loop over a slot's files, with the names seen so far.\<close>

fun file_errors :: "string \<Rightarrow> artifact_slot \<Rightarrow> string list \<Rightarrow> nat \<Rightarrow> file_metadata list \<Rightarrow> contract_error list" where
  "file_errors slot d names i [] = []"
| "file_errors slot d names i (f # fs) =
     name_errors slot names i f @ rule_errors slot d i f
     @ file_errors slot d (normalized_name f # names) (Suc i) fs"

definition min_files :: "artifact_slot \<Rightarrow> bool \<Rightarrow> int" where
  "min_files d required = max (opt_default 0 (sl_min_files d)) (if required then 1 else 0)"

definition max_files :: "artifact_slot \<Rightarrow> int" where
  "max_files d = opt_default 1 (sl_max_files d)"

definition total_bytes :: "file_metadata list \<Rightarrow> int" where
  "total_bytes fs = sum_list (map fl_size_bytes fs)"

definition slot_errors ::
    "string list \<Rightarrow> (string, file_input) jsmap option \<Rightarrow> string \<times> artifact_slot \<Rightarrow> contract_error list" where
  "slot_errors artifactRequired files = (\<lambda>(slot, d).
     (let fs = filesForSlot files slot; n = int (length fs); required = slot \<in> set artifactRequired in
      err_if (n < min_files d required)
        (artifactError slot ''min_files''
          (''Artifact slot '' @ quoted slot @ '' requires at least '' @ int_str (min_files d required) @ '' file(s)'') None)
      @ err_if (max_files d < n)
        (artifactError slot ''max_files''
          (''Artifact slot '' @ quoted slot @ '' accepts at most '' @ int_str (max_files d) @ '' file(s)'') None)
      @ file_errors slot d [] 0 fs
      @ (case sl_max_total_bytes d of None \<Rightarrow> [] | Some m \<Rightarrow> err_if (m < total_bytes fs)
          (artifactError slot ''max_total_bytes''
            (''Artifact slot '' @ quoted slot @ '' exceeds '' @ int_str m @ '' total bytes'') None))))"

text \<open>\<open>None\<close> is \<open>{ ok: true }\<close>, \<open>Some errors\<close> the \<open>CONTRACT_VALIDATION_FAILED\<close> result.\<close>

definition validateBranchContract ::
    "ajv_compile \<Rightarrow> branch_contract \<Rightarrow> branch_input \<Rightarrow> contract_error list option" where
  "validateBranchContract ajv contract inp =
     (let partition = partitionRequiredFields (bc_schema contract) (bc_artifact_slots contract);
          payloadRequired = opt_default (fst partition) (bc_payload_required contract);
          artifactRequired = opt_default (snd partition) (bc_artifact_required contract);
          schema = payloadSchemaForContract (bc_schema contract) artifactRequired;
          slots = or_empty (bc_artifact_slots contract);
          errors = payload_errors ajv schema payloadRequired (bi_payload inp)
            @ unknown_slot_errors slots (bi_files inp)
            @ concat (map (slot_errors artifactRequired (bi_files inp)) slots)
      in if errors \<noteq> [] then Some errors else None)"


section \<open>What is accepted\<close>

definition file_ok :: "artifact_slot \<Rightarrow> file_metadata \<Rightarrow> bool" where
  "file_ok d f \<longleftrightarrow> \<not> invalid_name (normalized_name f)
     \<and> (\<forall>m. sl_min_bytes d = Some m \<longrightarrow> m \<le> fl_size_bytes f)
     \<and> (\<forall>m. sl_max_bytes d = Some m \<longrightarrow> fl_size_bytes f \<le> m)
     \<and> (\<forall>ts. sl_media_types d = Some ts \<and> ts \<noteq> [] \<longrightarrow> to_lower (fl_media_type f) \<in> set ts)
     \<and> (\<forall>es. sl_extensions d = Some es \<and> es \<noteq> [] \<longrightarrow> extensionOf (fl_name f) \<in> to_lower ` set es)"

definition slot_ok :: "artifact_slot \<Rightarrow> bool \<Rightarrow> file_metadata list \<Rightarrow> bool" where
  "slot_ok d required fs \<longleftrightarrow>
     (if required then 1 else 0) \<le> length fs
     \<and> opt_default 0 (sl_min_files d) \<le> int (length fs) \<and> int (length fs) \<le> opt_default 1 (sl_max_files d)
     \<and> list_all (file_ok d) fs \<and> distinct (map normalized_name fs)
     \<and> (\<forall>m. sl_max_total_bytes d = Some m \<longrightarrow> sum_list (map fl_size_bytes fs) \<le> m)"

lemma err_if_Nil [simp]: "err_if b e = [] \<longleftrightarrow> \<not> b"
  by (simp add: err_if_def)

lemma rule_errors_Nil:
  "\<not> invalid_name (normalized_name f) \<Longrightarrow> rule_errors slot d i f = [] \<longleftrightarrow> file_ok d f"
  by (auto simp: rule_errors_def file_ok_def not_less split: option.splits)

lemma file_errors_Nil:
  "file_errors slot d names i fs = [] \<longleftrightarrow>
     list_all (file_ok d) fs \<and> distinct (map normalized_name fs) \<and> set (map normalized_name fs) \<inter> set names = {}"
proof (induction fs arbitrary: names i)
  case Nil
  show ?case by simp
next
  case (Cons f fs)
  have ok: "file_ok d f \<Longrightarrow> \<not> invalid_name (normalized_name f)" by (simp add: file_ok_def)
  show ?case
    using Cons.IH [of "normalized_name f # names" "Suc i"] rule_errors_Nil [of f slot d i] ok
    by (auto simp: name_errors_def)
qed

lemma slot_errors_Nil:
  "slot_errors required files (slot, d) = [] \<longleftrightarrow> slot_ok d (slot \<in> set required) (filesForSlot files slot)"
proof -
  let ?fs = "filesForSlot files slot"
  have low: "min_files d b \<le> int (length ?fs) \<longleftrightarrow>
      opt_default 0 (sl_min_files d) \<le> int (length ?fs) \<and> (if b then 1 else 0) \<le> length ?fs" for b
    by (auto simp: min_files_def)
  show ?thesis
    unfolding slot_ok_def low [symmetric]
    using low [of "slot \<in> set required"]
    by (cases "sl_max_total_bytes d")
       (auto simp: slot_errors_def file_errors_Nil max_files_def total_bytes_def not_less Let_def)
qed

text \<open>What the contract requires, as given or from the schema's \<open>required\<close> list.\<close>

definition required_slots :: "branch_contract \<Rightarrow> string list" where
  "required_slots c =
     opt_default (snd (partitionRequiredFields (bc_schema c) (bc_artifact_slots c))) (bc_artifact_required c)"

definition required_payload :: "branch_contract \<Rightarrow> string list" where
  "required_payload c =
     opt_default (fst (partitionRequiredFields (bc_schema c) (bc_artifact_slots c))) (bc_payload_required c)"

lemma contract_accepts:
  "validateBranchContract ajv c inp = None \<longleftrightarrow>
     payload_errors ajv (payloadSchemaForContract (bc_schema c) (required_slots c)) (required_payload c) (bi_payload inp) = []
     \<and> (\<forall>s\<in>set (js_keys (or_empty (bi_files inp))). js_has (or_empty (bc_artifact_slots c)) s \<or> s \<in> set OBJECT_PROTOTYPE)
     \<and> (\<forall>(slot, d)\<in>set (or_empty (bc_artifact_slots c)).
          slot_ok d (slot \<in> set (required_slots c)) (filesForSlot (bi_files inp) slot))"
  by (auto simp: validateBranchContract_def Let_def required_slots_def required_payload_def unknown_slot_errors_def
      filter_empty_conv slot_errors_Nil split: prod.splits)

section \<open>Error paths\<close>

text \<open>The reader of a JSON pointer segment: \<open>~1\<close> is a slash, \<open>~0\<close> a tilde.\<close>

fun unescape_pointer :: "string \<Rightarrow> string" where
  "unescape_pointer [] = []"
| "unescape_pointer (c # cs) =
     (if c = CHR ''~'' then
        (case cs of [] \<Rightarrow> [c] | d # ds \<Rightarrow> (if d = CHR ''0'' then CHR ''~'' else CHR ''/'') # unescape_pointer ds)
      else c # unescape_pointer cs)"

lemma unescape_escape: "unescape_pointer (escapeJsonPointer s) = s"
  by (induction s) (auto simp: escapeJsonPointer_def)

lemma escape_no_slash: "CHR ''/'' \<notin> set (escapeJsonPointer s)"
  by (induction s) (auto simp: escapeJsonPointer_def)


lemma split_on_plain: "c \<notin> set xs \<Longrightarrow> split_on c xs = [xs]"
  by (induction xs) auto

lemma split_on_at: "c \<notin> set xs \<Longrightarrow> split_on c (xs @ c # ys) = xs # split_on c ys"
proof (induction xs)
  case Nil
  then show ?case by (cases "split_on c ys") auto
next
  case (Cons x xs)
  then show ?case by auto
qed

lemma unescape_plain: "CHR ''~'' \<notin> set s \<Longrightarrow> unescape_pointer s = s"
  by (induction s) auto

lemma radix_str_digits: "2 \<le> b \<Longrightarrow> b \<le> 16 \<Longrightarrow> set (radix_str b n) \<subseteq> digit_char ` {..<16}"
proof (induction b n rule: radix_str.induct)
  case (1 b n)
  then show ?case by (subst radix_str.simps) (auto simp: image_def intro!: exI [of _ "_ mod b"] less_le_trans [OF mod_less_divisor])
qed

lemma digit_chars: "CHR ''/'' \<notin> digit_char ` {..<16}" "CHR ''~'' \<notin> digit_char ` {..<16}"
proof -
  have "list_all (\<lambda>n. digit_char n \<noteq> CHR ''/'' \<and> digit_char n \<noteq> CHR ''~'') [0..<16]" by code_simp
  then show "CHR ''/'' \<notin> digit_char ` {..<16}" "CHR ''~'' \<notin> digit_char ` {..<16}"
    by (force simp: list_all_iff atLeast0LessThan)+
qed

lemma nat_str_plain: "CHR ''/'' \<notin> set (nat_str n)" "CHR ''~'' \<notin> set (nat_str n)"
  using radix_str_digits [of 10 n] digit_chars by (auto simp: nat_str_def)

lemma error_path_segments:
  "map unescape_pointer (split_on (CHR ''/'') (er_path (artifactError slot rule message index))) =
     ['''', ''files'', slot] @ (case index of None \<Rightarrow> [] | Some i \<Rightarrow> [nat_str i])"
proof -
  have head: "split_on (CHR ''/'') (''/files/'' @ rest) = '''' # ''files'' # split_on (CHR ''/'') rest" for rest
    using split_on_at [of "CHR ''/''" "''files''" rest] by simp
  show ?thesis
  proof (cases index)
    case None
    then show ?thesis using head split_on_plain escape_no_slash unescape_escape by (simp add: artifactError_def)
  next
    case (Some i)
    then show ?thesis
      using head split_on_at [OF escape_no_slash] split_on_plain [OF nat_str_plain(1)] unescape_escape
        unescape_plain [OF nat_str_plain(2)] by (simp add: artifactError_def)
  qed
qed

end
