(* ===== verification/StepCompile.thy ===== *)
theory StepCompile
  imports TokenLint BranchContract
begin

text \<open>
  The step-contract compiler, \<open>hub-core/src/flow-engine/step-contract-compile.ts\<close>: it checks a
  manifest for deprecated steps, injects the default branches, flattens the step tree under
  qualified ids, lowers every branch to its route, lints, and builds the catalog. The warnings the
  source pushes to one array are returned in that order. Content digests (SHA-256 over canonical
  JSON) are parameters, one per kind of value digested.
\<close>

record content_digests =
  dg_graph :: "(string \<times> (string \<times> catalog_route list) list) list \<Rightarrow> string"
  dg_catalog :: "catalog_body \<Rightarrow> string"
  dg_ir :: "flow_ir_body \<Rightarrow> string"

section \<open>Deprecated steps\<close>

definition LEGACY_STEP_KEYS :: "string list" where
  "LEGACY_STEP_KEYS = [''invoke'', ''checkpoint'', ''gate'']"

definition isStepContractStep :: "flow_step \<Rightarrow> bool" where
  "isStepContractStep s \<longleftrightarrow>
     fs_parallel s = None \<and> fs_start_flow s = None
     \<and> list_all (\<lambda>k. prop_of (fs_extra s) k = JUndef) LEGACY_STEP_KEYS"

fun uses_contracts :: "flow_step list \<Rightarrow> bool" where
  "uses_contracts [] = False"
| "uses_contracts (s # ss) =
     (isStepContractStep s \<or> (fs_steps s \<noteq> [] \<and> uses_contracts (fs_steps s)) \<or> uses_contracts ss)"

definition manifestUsesStepContracts :: "flow_manifest \<Rightarrow> bool" where
  "manifestUsesStepContracts m = uses_contracts (fm_steps m)"

definition lane_hits :: "lane_step \<Rightarrow> (string \<times> string) list" where
  "lane_hits l = (if ln_invoke l \<noteq> None then [(ln_id l, ''invoke'')] else [])
     @ (if ln_gate l \<noteq> None then [(ln_id l, ''gate'')] else [])"

definition step_hits :: "flow_step \<Rightarrow> (string \<times> string) list" where
  "step_hits s =
     map (Pair (fs_id s)) (filter (\<lambda>k. prop_of (fs_extra s) k \<noteq> JUndef) LEGACY_STEP_KEYS)
     @ (case fs_parallel s of None \<Rightarrow> [] | Some p \<Rightarrow> concat (map lane_hits (pl_lane p)))"

definition findLegacyStepKinds :: "flow_manifest \<Rightarrow> (string \<times> string) list" where
  "findLegacyStepKinds m = concat (map step_hits (fm_steps m))"

definition lintLegacySteps :: "flow_manifest \<Rightarrow> string \<Rightarrow> lint_warning list" where
  "lintLegacySteps m flowId = map (\<lambda>(sid, key). \<lparr>
     wn_flow_id = flowId, wn_step_id = Some sid, wn_code = ''LEGACY_STEP_KIND'',
     wn_message = ''Step uses deprecated '' @ quoted (key @ '':'') @ '' '' @ em_dash
       @ '' migrate to unified step contracts ('' @ STEP_CONTRACT_MIGRATION_DOC @ '')'' \<rparr>) (findLegacyStepKinds m)"

section \<open>Flattening\<close>

record flat_step =
  fr_step :: flow_step
  fr_qualifiedId :: string
  fr_parentId :: "string option"
  fr_isNested :: bool
  fr_nextSiblingId :: "string option"

text \<open>\<open>topLevelOrder.indexOf(stepId)\<close> and the id after it.\<close>

fun nextTopLevelSibling :: "string list \<Rightarrow> string \<Rightarrow> string option" where
  "nextTopLevelSibling [] sid = None"
| "nextTopLevelSibling (x # xs) sid =
     (if x = sid then (case xs of [] \<Rightarrow> None | y # _ \<Rightarrow> Some y) else nextTopLevelSibling xs sid)"

definition qualify :: "string option \<Rightarrow> string \<Rightarrow> string" where
  "qualify prefix sid = (if truthy_str prefix then the prefix @ ''.'' @ sid else sid)"

definition flat_row :: "string option \<Rightarrow> string option \<Rightarrow> string list \<Rightarrow> flow_step \<Rightarrow> flat_step" where
  "flat_row parentId prefix order s = \<lparr>
     fr_step = s, fr_qualifiedId = qualify prefix (fs_id s), fr_parentId = parentId,
     fr_isNested = (parentId \<noteq> None),
     fr_nextSiblingId = (if parentId = None then nextTopLevelSibling order (fs_id s) else None) \<rparr>"

fun flattenManifestSteps ::
    "flow_step list \<Rightarrow> string option \<Rightarrow> string option \<Rightarrow> string list \<Rightarrow> flat_step list" where
  "flattenManifestSteps [] parentId prefix order = []"
| "flattenManifestSteps (s # ss) parentId prefix order =
     flat_row parentId prefix order s
     # flattenManifestSteps (fs_steps s) (Some (qualify prefix (fs_id s))) (Some (qualify prefix (fs_id s))) order
     @ flattenManifestSteps ss parentId prefix order"

definition default_branch :: branch_def where
  "default_branch = \<lparr>
     bd_schema = Some (SchemaObject [(''type'', JStr ''object'')]), bd_schema_ref = None,
     bd_artifact_slots = None, bd_route = None, bd_resume = None \<rparr>"

definition default_branches :: "(string \<times> branch_def) list" where
  "default_branches = [(''completed'', default_branch), (''failed'', default_branch)]"

fun with_defaults :: "flow_step \<Rightarrow> flow_step" where
  "with_defaults (FlowStep i d b ss p sf mt ex) =
     FlowStep i d (case b of None \<Rightarrow> Some default_branches | Some m \<Rightarrow> Some m) (map with_defaults ss) p sf mt ex"

definition applyDefaultBranches :: "flow_step list \<Rightarrow> flow_step list" where
  "applyDefaultBranches ss = map with_defaults ss"

section \<open>Routes\<close>

definition route_to :: "route_engine \<Rightarrow> string \<Rightarrow> catalog_route" where
  "route_to e s = \<lparr> rt_engine = e, rt_step_id = Some s \<rparr>"

definition route_end :: "route_engine \<Rightarrow> catalog_route" where
  "route_end e = \<lparr> rt_engine = e, rt_step_id = None \<rparr>"

text \<open>\<open>cursor.slice(0, cursor.lastIndexOf("."))\<close> while the dot is not the first character.\<close>

definition parent_path :: "string \<Rightarrow> string" where
  "parent_path s =
     (let before = dropWhile (\<lambda>c. c \<noteq> CHR ''.'') (rev s) in
      if length before \<le> 1 then [] else rev (tl before))"

lemma parent_path_shorter: "s \<noteq> [] \<Longrightarrow> length (parent_path s) < length s"
proof -
  assume s: "s \<noteq> []"
  have "length (dropWhile (\<lambda>c. c \<noteq> CHR ''.'') (rev s)) \<le> length (rev s)"
    by (rule length_dropWhile_le)
  then show ?thesis using s by (auto simp: parent_path_def Let_def)
qed

function ancestor_walk :: "string \<Rightarrow> string \<Rightarrow> bool" where
  "ancestor_walk cursor target =
     (if cursor = [] then False
      else if cursor = target then True
      else ancestor_walk (parent_path cursor) target)"
  by pat_completeness auto

termination
  by (relation "measure (\<lambda>(c, _). length c)") (auto simp: parent_path_shorter)

declare ancestor_walk.simps [simp del]

definition isAncestorOf :: "flat_step \<Rightarrow> string \<Rightarrow> string list \<Rightarrow> bool" where
  "isAncestorOf row target ids \<longleftrightarrow>
     target \<in> set ids
     \<and> (case fr_parentId row of None \<Rightarrow> False | Some p \<Rightarrow> ancestor_walk p target)"

definition row_warning :: "string \<Rightarrow> flat_step \<Rightarrow> string \<Rightarrow> string \<Rightarrow> lint_warning" where
  "row_warning flowId row code message = \<lparr>
     wn_flow_id = flowId, wn_step_id = Some (fr_qualifiedId row), wn_code = code, wn_message = message \<rparr>"

text \<open>\<open>row.parentId!\<close>, read only where the row is nested.\<close>

definition parent_of :: "flat_step \<Rightarrow> string" where
  "parent_of row = (case fr_parentId row of None \<Rightarrow> '''' | Some p \<Rightarrow> p)"

definition no_control :: "flat_step \<Rightarrow> catalog_route list \<times> lint_warning list" where
  "no_control row = (if fr_isNested row then ([route_to Resume (parent_of row)], []) else ([], []))"

definition compileBranchRoutes ::
    "branch_def \<Rightarrow> flat_step \<Rightarrow> string list \<Rightarrow> string \<Rightarrow> catalog_route list \<times> lint_warning list" where
  "compileBranchRoutes branch row ids flowId =
     (if truthy_str (bd_resume branch) then
        (let target = the (bd_resume branch) in
         ([route_to Resume target],
          if isAncestorOf row target ids then []
          else [row_warning flowId row ''RESUME_TARGET_NOT_ANCESTOR''
            (''resume target '' @ quoted target @ '' is not an open ancestor of '' @ quoted (fr_qualifiedId row))]))
      else case bd_route branch of
        None \<Rightarrow> no_control row
      | Some r \<Rightarrow>
          (case br_step r of
             Some target \<Rightarrow>
               if fr_isNested row then
                 ([route_to Resume (parent_of row)],
                  [row_warning flowId row ''NESTED_ROUTE_STEP_FORBIDDEN''
                    ''nested children return with resume; only the resumed parent may activate a direct child''])
               else
                 ([route_to Open target],
                  if target \<in> set ids then []
                  else [row_warning flowId row ''ROUTE_TARGET_NOT_FOUND''
                    (''route.step '' @ quoted target @ '' is not a known step id'')])
           | None \<Rightarrow>
               (case br_run r of
                  Some RunCompleted \<Rightarrow> ([route_end Advance], [])
                | Some RunFailed \<Rightarrow> ([route_end FailRun], [])
                | None \<Rightarrow> no_control row)))"

definition resolveTopLevelDefaultRoutes ::
    "string \<Rightarrow> flat_step \<Rightarrow> string \<Rightarrow> catalog_route list \<times> lint_warning list" where
  "resolveTopLevelDefaultRoutes name row flowId =
     (if name = ''completed'' then
        ([if truthy_str (fr_nextSiblingId row) then route_to Open (the (fr_nextSiblingId row))
          else route_end Advance], [])
      else if name = ''failed'' then ([route_end FailRun], [])
      else ([route_end Advance],
            [row_warning flowId row ''CUSTOM_BRANCH_REQUIRES_ROUTE''
              (''Custom top-level branch '' @ quoted name @ '' requires an explicit route'')]))"

definition branch_routes ::
    "string \<Rightarrow> branch_def \<Rightarrow> flat_step \<Rightarrow> string list \<Rightarrow> string \<Rightarrow> catalog_route list \<times> lint_warning list" where
  "branch_routes name branch row ids flowId =
     (case compileBranchRoutes branch row ids flowId of
        ([], ws) \<Rightarrow> (case resolveTopLevelDefaultRoutes name row flowId of (rs, ws') \<Rightarrow> (rs, ws @ ws'))
      | (r # rs, ws) \<Rightarrow> (r # rs, ws))"

section \<open>Catalog entries\<close>

definition schemaRefForBranch :: "string \<Rightarrow> branch_def \<Rightarrow> string option" where
  "schemaRefForBranch name b =
     (if truthy_str (bd_schema_ref b) then bd_schema_ref b
      else case bd_schema b of
        Some (SchemaRef r) \<Rightarrow> Some r
      | Some (SchemaObject _) \<Rightarrow> Some (''murrmure.schemas/inline.'' @ name @ ''.v1.json'')
      | None \<Rightarrow> None)"

definition object_schema :: "branch_def \<Rightarrow> jobj option" where
  "object_schema b = (case bd_schema b of Some (SchemaObject ob) \<Rightarrow> Some ob | _ \<Rightarrow> None)"

definition schema_properties :: "jobj option \<Rightarrow> jobj" where
  "schema_properties sc =
     (case sc of None \<Rightarrow> [] | Some ob \<Rightarrow> (case prop_of ob ''properties'' of JObj ps \<Rightarrow> ps | _ \<Rightarrow> []))"

definition collision_warnings :: "string \<Rightarrow> flat_step \<Rightarrow> string \<Rightarrow> branch_def \<Rightarrow> lint_warning list" where
  "collision_warnings flowId row name b =
     map (\<lambda>slot. row_warning flowId row ''PAYLOAD_ARTIFACT_NAME_COLLISION''
            (''Branch '' @ quoted name @ '' declares '' @ quoted slot
              @ '' as both a payload property and artifact slot''))
       (filter (\<lambda>slot. js_has (schema_properties (object_schema b)) slot)
         (js_keys (or_empty (bd_artifact_slots b))))"

definition schema_warnings :: "ajv_compile \<Rightarrow> string \<Rightarrow> flat_step \<Rightarrow> branch_def \<Rightarrow> lint_warning list" where
  "schema_warnings ajv flowId row b =
     (case object_schema b of
        None \<Rightarrow> []
      | Some sc \<Rightarrow> (case assertSupportedPayloadSchema ajv sc of
            Inl message \<Rightarrow> [row_warning flowId row ''INVALID_BRANCH_SCHEMA'' message]
          | Inr _ \<Rightarrow> []))"

definition compile_branch ::
    "ajv_compile \<Rightarrow> string list \<Rightarrow> string \<Rightarrow> flat_step \<Rightarrow> string \<times> branch_def
     \<Rightarrow> (string \<times> catalog_branch) \<times> lint_warning list" where
  "compile_branch ajv ids flowId row = (\<lambda>(name, b).
     (let (routes, ws) = branch_routes name b row ids flowId;
          slots = bd_artifact_slots b;
          partition = partitionRequiredFields (object_schema b) slots in
      ((name, \<lparr> cb_schema_ref = schemaRefForBranch name b, cb_schema = object_schema b,
                cb_payload_required = fst partition, cb_artifact_required = snd partition,
                cb_artifact_slots = or_empty slots, cb_routes = routes \<rparr>),
       ws @ collision_warnings flowId row name b @ schema_warnings ajv flowId row b)))"

definition compile_entry ::
    "ajv_compile \<Rightarrow> string list \<Rightarrow> string \<Rightarrow> flat_step \<Rightarrow> catalog_entry \<times> lint_warning list" where
  "compile_entry ajv ids flowId row =
     (let compiled = map (compile_branch ajv ids flowId row) (or_empty (fs_branches (fr_step row))) in
      (\<lparr> ce_step_id = fr_qualifiedId row, ce_parent_id = fr_parentId row,
         ce_description = fs_description (fr_step row), ce_branches = map fst compiled,
         ce_meeting = fs_meeting (fr_step row) \<rparr>,
       concat (map snd compiled)))"

definition compileCatalogEntries ::
    "ajv_compile \<Rightarrow> flat_step list \<Rightarrow> string \<Rightarrow> catalog_entry list \<times> lint_warning list" where
  "compileCatalogEntries ajv flat flowId =
     (let compiled = map (compile_entry ajv (map fr_qualifiedId flat) flowId) flat in
      (map fst compiled, concat (map snd compiled)))"

section \<open>Lints over the flattened steps\<close>

definition put_slot :: "string \<times> artifact_slot \<Rightarrow> (string, slot_cardinality) jsmap \<Rightarrow> (string, slot_cardinality) jsmap" where
  "put_slot = (\<lambda>(slot, d) sm.
     js_set slot (if opt_default 1 (sl_max_files d) > 1 \<or> js_get sm slot = Some Collection
                  then Collection else Singleton) sm)"

definition row_slots :: "flat_step \<Rightarrow> (string \<times> artifact_slot) list" where
  "row_slots row = concat (map (\<lambda>(_, b). or_empty (bd_artifact_slots b)) (or_empty (fs_branches (fr_step row))))"

definition put_row :: "flat_step \<Rightarrow> slot_map \<Rightarrow> slot_map" where
  "put_row row sm =
     js_set (fr_qualifiedId row) (fold put_slot (row_slots row) (or_empty (js_get sm (fr_qualifiedId row)))) sm"

definition buildSlotCardinality :: "flat_step list \<Rightarrow> slot_map" where
  "buildSlotCardinality flat = fold put_row flat []"

definition lintMurrmureTokens ::
    "flat_step list \<Rightarrow> flow_manifest \<Rightarrow> string \<Rightarrow> string list \<Rightarrow> slot_map \<Rightarrow> lint_warning list" where
  "lintMurrmureTokens flat m flowId ids sm =
     concat (map (scanString flowId ids sm None) (walkJsonValues (manifest_json m)))
     @ concat (map (\<lambda>row.
         concat (map (scanString flowId ids sm (Some (fr_qualifiedId row)))
           ((if truthy_str (fs_description (fr_step row)) then [the (fs_description (fr_step row))] else [])
            @ walkJsonValues (branches_json (or_empty (fs_branches (fr_step row))))))) flat)"

definition lintEmptyBranches :: "flat_step list \<Rightarrow> string \<Rightarrow> lint_warning list" where
  "lintEmptyBranches flat flowId =
     map (\<lambda>row. row_warning flowId row ''EMPTY_BRANCHES''
           (''Step '' @ quoted (fr_qualifiedId row) @ '' declares branches: {} '' @ em_dash
             @ '' omit branches to receive defaults or declare at least one branch''))
       (filter (\<lambda>row. fs_branches (fr_step row) = Some []) flat)"

text \<open>
  The reachability search of \<open>lintDeadSteps\<close>: a queue and a visited set, following \<open>open\<close> and
  \<open>resume\<close> routes to top-level steps. \<open>search_targets\<close> is the body of the two inner loops.
\<close>

definition followed_routes :: "catalog_entry \<Rightarrow> catalog_route list" where
  "followed_routes e = concat (map (\<lambda>(_, b). cb_routes b) (ce_branches e))"

definition route_target :: "(string, catalog_entry) jsmap \<Rightarrow> catalog_route \<Rightarrow> string option" where
  "route_target byId r =
     (if (rt_engine r = Open \<or> rt_engine r = Resume) \<and> rt_step_id r \<noteq> None
         \<and> js_has byId (the (rt_step_id r))
      then rt_step_id r else None)"

fun visit_routes ::
    "(string, catalog_entry) jsmap \<Rightarrow> catalog_route list \<Rightarrow> string list \<times> string list \<Rightarrow> string list \<times> string list" where
  "visit_routes byId [] st = st"
| "visit_routes byId (r # rs) (reachable, queue) =
     (case route_target byId r of
        Some t \<Rightarrow> (if t \<in> set reachable then visit_routes byId rs (reachable, queue)
                   else visit_routes byId rs (reachable @ [t], queue @ [t]))
      | None \<Rightarrow> visit_routes byId rs (reachable, queue))"

fun search :: "nat \<Rightarrow> (string, catalog_entry) jsmap \<Rightarrow> string list \<times> string list \<Rightarrow> string list option" where
  "search fuel byId (reachable, []) = Some reachable"
| "search 0 byId (reachable, c # queue) = None"
| "search (Suc fuel) byId (reachable, c # queue) =
     (case js_get byId c of
        None \<Rightarrow> search fuel byId (reachable, queue)
      | Some e \<Rightarrow> search fuel byId (visit_routes byId (followed_routes e) (reachable, queue)))"

definition by_id :: "catalog_entry list \<Rightarrow> (string, catalog_entry) jsmap" where
  "by_id es = fold (\<lambda>e. js_set (ce_step_id e) e) es []"

definition top_level :: "catalog_entry list \<Rightarrow> catalog_entry list" where
  "top_level es = filter (\<lambda>e. ce_parent_id e = None) es"

text \<open>The steps reachable from the entry; the fuel is enough, as every step is queued at most once.\<close>

definition reachable_ids :: "catalog_entry list \<Rightarrow> string list" where
  "reachable_ids tops =
     (case tops of [] \<Rightarrow> []
      | e # _ \<Rightarrow> (case search (Suc (length tops)) (by_id tops) ([ce_step_id e], [ce_step_id e]) of
                    None \<Rightarrow> [] | Some r \<Rightarrow> r))"

definition lintDeadSteps :: "catalog_entry list \<Rightarrow> string \<Rightarrow> lint_warning list" where
  "lintDeadSteps entries flowId =
     (let tops = top_level entries in
      case tops of [] \<Rightarrow> []
      | e # _ \<Rightarrow>
          map (\<lambda>row. \<lparr> wn_flow_id = flowId, wn_step_id = Some (ce_step_id row), wn_code = ''DEAD_STEP'',
                 wn_message = ''Step '' @ quoted (ce_step_id row) @ '' is not reachable from flow entry ''
                   @ quoted (ce_step_id e) \<rparr>)
            (filter (\<lambda>row. ce_step_id row \<noteq> ce_step_id e \<and> ce_step_id row \<notin> set (reachable_ids tops)) tops))"

section \<open>The compiler\<close>

definition graph_body :: "catalog_entry list \<Rightarrow> (string \<times> (string \<times> catalog_route list) list) list" where
  "graph_body es = map (\<lambda>e. (ce_step_id e, map (\<lambda>(n, b). (n, cb_routes b)) (ce_branches e))) es"

definition contract_steps :: "flow_manifest \<Rightarrow> flow_step list" where
  "contract_steps m = applyDefaultBranches (filter isStepContractStep (fm_steps m))"

definition flat_steps :: "flow_manifest \<Rightarrow> flat_step list" where
  "flat_steps m =
     (let steps = contract_steps m in flattenManifestSteps steps None None (map fs_id steps))"

definition catalog_of :: "content_digests \<Rightarrow> string \<Rightarrow> catalog_entry list \<Rightarrow> step_catalog" where
  "catalog_of dg flowId entries =
     (let ids = map ce_step_id entries; gd = dg_graph dg (graph_body entries);
          body = \<lparr> ct_flow_id = flowId, ct_entries = entries, ct_step_ids = ids, ct_graph_digest = gd \<rparr> in
      \<lparr> ct_flow_id = flowId, ct_entries = entries, ct_step_ids = ids, ct_graph_digest = gd,
        ct_digest = dg_catalog dg body \<rparr>)"

definition compileStepContractCatalog ::
    "content_digests \<Rightarrow> ajv_compile \<Rightarrow> flow_manifest \<Rightarrow> string \<Rightarrow> compile_result" where
  "compileStepContractCatalog dg ajv m flowId =
     (if \<not> manifestUsesStepContracts m
      then \<lparr> cr_catalog = None, cr_warnings = lintLegacySteps m flowId \<rparr>
      else
        (let flat = flat_steps m; ids = map fr_qualifiedId flat;
             (entries, compile_ws) = compileCatalogEntries ajv flat flowId in
         \<lparr> cr_catalog = Some (catalog_of dg flowId entries),
           cr_warnings = lintMurrmureTokens flat m flowId ids (buildSlotCardinality flat)
             @ lintEmptyBranches flat flowId @ compile_ws @ lintDeadSteps entries flowId \<rparr>))"

definition lintStepContractManifest ::
    "content_digests \<Rightarrow> ajv_compile \<Rightarrow> flow_manifest \<Rightarrow> string \<Rightarrow> lint_warning list" where
  "lintStepContractManifest dg ajv m flowId = cr_warnings (compileStepContractCatalog dg ajv m flowId)"

end
