(* ===== verification/StepCompileProofs.thy ===== *)
theory StepCompileProofs
  imports StepCompile
begin

text \<open>
  What the compiler guarantees: the dead-step search finds exactly the reachable steps, flattening
  keeps parents before children, every branch has exactly one route and the targets are steps of
  the catalog unless a warning says otherwise, and injected default branches are like authored ones.
\<close>

section \<open>The reachability search\<close>

definition flow_edges :: "catalog_entry list \<Rightarrow> (string \<times> string) set" where
  "flow_edges tops = {(a, b). \<exists>e r. js_get (by_id tops) a = Some e
     \<and> r \<in> set (followed_routes e) \<and> route_target (by_id tops) r = Some b}"

definition targets_of :: "(string, catalog_entry) jsmap \<Rightarrow> catalog_route list \<Rightarrow> string set" where
  "targets_of m rs = {t. \<exists>r \<in> set rs. route_target m r = Some t}"

lemma targets_of_simps [simp]:
  "targets_of m [] = {}"
  "targets_of m (r # rs) = (case route_target m r of None \<Rightarrow> {} | Some t \<Rightarrow> {t}) \<union> targets_of m rs"
  by (auto simp: targets_of_def split: option.splits)

lemma visit_routes_effect:
  "\<exists>N. visit_routes m rs (R, Q) = (R @ N, Q @ N) \<and> distinct N
     \<and> set N = targets_of m rs - set R"
proof (induction rs arbitrary: R Q)
  case Nil
  show ?case by simp
next
  case (Cons r rs)
  show ?case
  proof (cases "route_target m r")
    case None
    then show ?thesis using Cons.IH [of R Q] by simp
  next
    case (Some t)
    show ?thesis
    proof (cases "t \<in> set R")
      case True
      obtain N where "visit_routes m rs (R, Q) = (R @ N, Q @ N)" "distinct N"
          "set N = targets_of m rs - set R"
        using Cons.IH by blast
      then show ?thesis using Some True by (intro exI [of _ N]) auto
    next
      case False
      obtain N where "visit_routes m rs (R @ [t], Q @ [t]) = ((R @ [t]) @ N, (Q @ [t]) @ N)" "distinct N"
          "set N = targets_of m rs - set (R @ [t])"
        using Cons.IH by blast
      then show ?thesis using Some False by (intro exI [of _ "t # N"]) auto
    qed
  qed
qed

lemma route_target_key: "route_target m r = Some t \<Longrightarrow> t \<in> fst ` set m"
  by (auto simp: route_target_def js_has_def js_get_def map_of_eq_None_iff split: if_splits)

text \<open>The invariant of the search: what left the queue is closed, all that was reached is reachable.\<close>

definition search_edges :: "(string, catalog_entry) jsmap \<Rightarrow> (string \<times> string) set" where
  "search_edges m = {(a, b). \<exists>e. js_get m a = Some e \<and> b \<in> targets_of m (followed_routes e)}"

lemma search_edgesI: "js_get m a = Some e \<Longrightarrow> b \<in> targets_of m (followed_routes e) \<Longrightarrow> (a, b) \<in> search_edges m"
  by (auto simp: search_edges_def)

definition closed_from :: "(string, catalog_entry) jsmap \<Rightarrow> string set \<Rightarrow> string set \<Rightarrow> bool" where
  "closed_from m A R \<longleftrightarrow> (\<forall>a\<in>A. \<forall>b. (a, b) \<in> search_edges m \<longrightarrow> b \<in> R)"

definition search_inv :: "(string, catalog_entry) jsmap \<Rightarrow> string \<Rightarrow> string list \<Rightarrow> string list \<Rightarrow> bool" where
  "search_inv m s R Q \<longleftrightarrow>
     s \<in> set R \<and> set Q \<subseteq> set R \<and> set R \<subseteq> fst ` set m
     \<and> closed_from m (set R - set Q) (set R) \<and> set R \<subseteq> (search_edges m)\<^sup>* `` {s}"

lemma search_inv_step:
  assumes inv: "search_inv m s R (c # Q)" and e: "js_get m c = Some e"
    and N: "set N = targets_of m (followed_routes e) - set R"
  shows "search_inv m s (R @ N) (Q @ N)"
proof -
  have c: "(s, c) \<in> (search_edges m)\<^sup>*" using inv by (auto simp: search_inv_def)
  have "set N \<subseteq> (search_edges m)\<^sup>* `` {s}"
    using N by (auto intro: rtrancl_into_rtrancl [OF c] search_edgesI [OF e])
  moreover have "set N \<subseteq> fst ` set m"
    using N by (auto simp: targets_of_def intro: route_target_key)
  moreover have "closed_from m (set (R @ N) - set (Q @ N)) (set (R @ N))"
    unfolding closed_from_def
  proof (intro ballI allI impI)
    fix a b assume a: "a \<in> set (R @ N) - set (Q @ N)" and ab: "(a, b) \<in> search_edges m"
    show "b \<in> set (R @ N)"
    proof (cases "a = c")
      case True
      then show ?thesis using e ab N by (auto simp: search_edges_def)
    next
      case False
      then have "a \<in> set R - set (c # Q)" using a by auto
      then have "b \<in> set R" using inv ab unfolding search_inv_def closed_from_def by blast
      then show ?thesis by simp
    qed
  qed
  moreover have "s \<in> set (R @ N)" "set (Q @ N) \<subseteq> set (R @ N)" "set R \<subseteq> fst ` set m"
      "set R \<subseteq> (search_edges m)\<^sup>* `` {s}"
    using inv by (auto simp: search_inv_def)
  ultimately show ?thesis unfolding search_inv_def by simp
qed

lemma search_works:
  assumes "search_inv m s R Q" and "distinct R" and "card (fst ` set m) - card (set R) + length Q \<le> fuel"
  shows "\<exists>R'. search fuel m (R, Q) = Some R' \<and> search_inv m s R' []"
  using assms
proof (induction fuel arbitrary: R Q)
  case 0
  then show ?case by (cases Q) auto
next
  case (Suc fuel)
  show ?case
  proof (cases Q)
    case Nil
    then show ?thesis using Suc.prems by auto
  next
    case (Cons c Q')
    have "c \<in> fst ` set m" using Suc.prems(1) Cons by (auto simp: search_inv_def)
    then obtain e where e: "js_get m c = Some e"
      unfolding js_get_def by (metis map_of_eq_None_iff not_None_eq)
    obtain N where N: "visit_routes m (followed_routes e) (R, Q') = (R @ N, Q' @ N)"
        "distinct N" "set N = targets_of m (followed_routes e) - set R"
      using visit_routes_effect by blast
    have inv': "search_inv m s (R @ N) (Q' @ N)"
      using search_inv_step Suc.prems(1) Cons e N(3) by blast
    have d: "distinct (R @ N)" using Suc.prems(2) N(2,3) by auto
    have sub: "set (R @ N) \<subseteq> fst ` set m" using inv' by (simp add: search_inv_def)
    have "card (set (R @ N)) = card (set R) + length N"
      using d by (simp add: distinct_card del: set_append)
    moreover have "card (set (R @ N)) \<le> card (fst ` set m)"
      by (rule card_mono [OF _ sub]) simp
    ultimately have "card (fst ` set m) - card (set (R @ N)) + length (Q' @ N) \<le> fuel"
      using Suc.prems(3) Cons by simp
    then show ?thesis using Suc.IH [OF inv' d] e N(1) Cons by simp
  qed
qed

lemma by_id_keys: "fst ` set (by_id es) = ce_step_id ` set es"
proof -
  have "fst ` set (fold (\<lambda>e. js_set (ce_step_id e) e) es m) = ce_step_id ` set es \<union> fst ` set m" for m
    by (induction es arbitrary: m) (auto simp: js_set_def dom_update)
  then show ?thesis by (simp add: by_id_def)
qed

lemma search_edges_eq: "search_edges (by_id tops) = flow_edges tops"
  by (auto simp: flow_edges_def targets_of_def search_edges_def)

lemma search_inv_final:
  assumes inv: "search_inv m s R []"
  shows "set R = (search_edges m)\<^sup>* `` {s}"
proof -
  have "b \<in> set R" if "(s, b) \<in> (search_edges m)\<^sup>*" for b
    using that
  proof (induction rule: rtrancl_induct)
    case base
    then show ?case using inv by (simp add: search_inv_def)
  next
    case (step y z)
    then show ?case using inv by (simp add: search_inv_def closed_from_def)
  qed
  then show ?thesis using inv by (auto simp: search_inv_def)
qed

lemma reachable_ids_exact:
  assumes "tops = e # rest"
  shows "set (reachable_ids tops) = (flow_edges tops)\<^sup>* `` {ce_step_id e}"
proof -
  let ?m = "by_id tops" and ?s = "ce_step_id e"
  have keys: "fst ` set ?m = ce_step_id ` set tops" by (rule by_id_keys)
  have inv: "search_inv ?m ?s [?s] [?s]"
    using keys assms by (simp add: search_inv_def closed_from_def)
  have "card (fst ` set ?m) \<le> length tops"
    unfolding keys by (metis card_image_le card_length le_trans finite_set)
  then have "card (fst ` set ?m) - card (set [?s]) + length [?s] \<le> Suc (length tops)" by simp
  from search_works [OF inv _ this] obtain R
    where R: "search (Suc (length tops)) ?m ([?s], [?s]) = Some R" and "search_inv ?m ?s R []"
    by auto
  then have "set R = (flow_edges tops)\<^sup>* `` {?s}"
    using search_inv_final [of ?m ?s R] by (simp only: search_edges_eq)
  then show ?thesis using R assms by (simp add: reachable_ids_def del: search.simps)
qed

lemma dead_steps_eq:
  "map wn_step_id (lintDeadSteps es fid) =
     map (\<lambda>row. Some (ce_step_id row))
       (filter (\<lambda>row. (ce_step_id (hd (top_level es)), ce_step_id row) \<notin> (flow_edges (top_level es))\<^sup>*)
         (top_level es))"
proof (cases "top_level es")
  case Nil
  then show ?thesis by (simp add: lintDeadSteps_def)
next
  case (Cons e rest)
  have dead: "ce_step_id row \<noteq> ce_step_id e \<and> ce_step_id row \<notin> set (reachable_ids (top_level es))
      \<longleftrightarrow> (ce_step_id e, ce_step_id row) \<notin> (flow_edges (top_level es))\<^sup>*" for row
    unfolding reachable_ids_exact [OF Cons]
    by (cases "ce_step_id row = ce_step_id e") simp_all
  have "map wn_step_id (lintDeadSteps es fid) = map (\<lambda>row. Some (ce_step_id row))
      (filter (\<lambda>row. ce_step_id row \<noteq> ce_step_id e \<and> ce_step_id row \<notin> set (reachable_ids (top_level es)))
        (top_level es))"
    unfolding lintDeadSteps_def Let_def by (simp add: Cons o_def)
  then show ?thesis unfolding dead by (simp add: Cons)
qed

section \<open>Flattened rows\<close>

lemma next_sibling_in: "nextTopLevelSibling ids sid = Some y \<Longrightarrow> y \<in> set ids"
  by (induction ids sid rule: nextTopLevelSibling.induct) (auto split: if_splits list.splits)

lemma flat_row_sel [simp]:
  "fr_step (flat_row p q ord s) = s" "fr_parentId (flat_row p q ord s) = p"
  "fr_qualifiedId (flat_row p q ord s) = qualify q (fs_id s)"
  "fr_isNested (flat_row p q ord s) = (p \<noteq> None)"
  by (simp_all add: flat_row_def)

lemma flatten_nested:
  "row \<in> set (flattenManifestSteps ss p q ord) \<Longrightarrow> fr_isNested row \<longleftrightarrow> fr_parentId row \<noteq> None"
  by (induction ss p q ord rule: flattenManifestSteps.induct) auto

lemma flatten_next_in:
  "row \<in> set (flattenManifestSteps ss p q ord) \<Longrightarrow> fr_nextSiblingId row = Some y \<Longrightarrow> y \<in> set ord"
  by (induction ss p q ord rule: flattenManifestSteps.induct)
     (auto simp: flat_row_def split: if_splits dest: next_sibling_in)

lemma flatten_parent_in:
  "row \<in> set (flattenManifestSteps ss p q ord) \<Longrightarrow> fr_parentId row = Some x \<Longrightarrow>
     Some x = p \<or> x \<in> fr_qualifiedId ` set (flattenManifestSteps ss p q ord)"
  by (induction ss p q ord rule: flattenManifestSteps.induct) auto

lemma flatten_heads_in:
  "s \<in> set ss \<Longrightarrow> qualify q (fs_id s) \<in> fr_qualifiedId ` set (flattenManifestSteps ss p q ord)"
  by (induction ss p q ord rule: flattenManifestSteps.induct) auto

lemma flat_steps_rows:
  assumes "row \<in> set (flat_steps m)"
  shows "fr_isNested row \<longleftrightarrow> fr_parentId row \<noteq> None"
    and "fr_parentId row = Some x \<Longrightarrow> x \<in> fr_qualifiedId ` set (flat_steps m)"
    and "fr_nextSiblingId row = Some y \<Longrightarrow> y \<in> fr_qualifiedId ` set (flat_steps m)"
proof -
  let ?ss = "contract_steps m"
  have flat: "flat_steps m = flattenManifestSteps ?ss None None (map fs_id ?ss)"
    by (simp add: flat_steps_def Let_def)
  show "fr_isNested row \<longleftrightarrow> fr_parentId row \<noteq> None"
    using flatten_nested assms unfolding flat by blast
  show "x \<in> fr_qualifiedId ` set (flat_steps m)" if "fr_parentId row = Some x"
    using flatten_parent_in assms that unfolding flat by blast
  show "y \<in> fr_qualifiedId ` set (flat_steps m)" if "fr_nextSiblingId row = Some y"
  proof -
    have "y \<in> set (map fs_id ?ss)" using flatten_next_in assms that unfolding flat by blast
    then obtain s where "s \<in> set ?ss" "y = qualify None (fs_id s)"
      by (auto simp: qualify_def truthy_str_def)
    then show ?thesis unfolding flat using flatten_heads_in by blast
  qed
qed

section \<open>Routes\<close>

lemma route_sel [simp]:
  "rt_engine (route_to e s) = e" "rt_step_id (route_to e s) = Some s"
  "rt_engine (route_end e) = e" "rt_step_id (route_end e) = None"
  by (simp_all add: route_to_def route_end_def)

lemma compile_routes_le: "length (fst (compileBranchRoutes b row ids f)) \<le> 1"
  by (auto simp: compileBranchRoutes_def no_control_def Let_def split: option.splits run_end.splits)

lemma branch_routes_one: "length (fst (branch_routes name b row ids f)) = 1"
  using compile_routes_le [of b row ids f]
  by (auto simp: branch_routes_def resolveTopLevelDefaultRoutes_def split: prod.splits list.splits)

lemma branch_routes_unique: "\<exists>r ws. branch_routes name b row ids f = ([r], ws)"
  using branch_routes_one [of name b row ids f]
  by (cases "branch_routes name b row ids f") (auto simp: length_Suc_conv)

text \<open>The codes that report a route to a step the catalog does not have.\<close>

definition dangling_codes :: "string set" where
  "dangling_codes = {''RESUME_TARGET_NOT_ANCESTOR'', ''ROUTE_TARGET_NOT_FOUND''}"

lemma row_warning_code [simp]: "wn_code (row_warning f row c msg) = c"
  by (simp add: row_warning_def)

lemma compile_routes_closed:
  assumes "compileBranchRoutes b row ids f = (rs, ws)" and "r \<in> set rs" and "rt_step_id r = Some t"
    and "\<forall>w\<in>set ws. wn_code w \<notin> dangling_codes"
    and "fr_isNested row \<longleftrightarrow> fr_parentId row \<noteq> None"
    and "\<And>x. fr_parentId row = Some x \<Longrightarrow> x \<in> set ids"
  shows "t \<in> set ids"
  using assms
  by (auto simp: compileBranchRoutes_def no_control_def parent_of_def Let_def dangling_codes_def isAncestorOf_def
      split: if_splits option.splits run_end.splits)

lemma branch_routes_closed:
  assumes "branch_routes name b row ids f = (rs, ws)" and "r \<in> set rs" and "rt_step_id r = Some t"
    and clean: "\<forall>w\<in>set ws. wn_code w \<notin> dangling_codes"
    and "fr_isNested row \<longleftrightarrow> fr_parentId row \<noteq> None"
    and "\<And>x. fr_parentId row = Some x \<Longrightarrow> x \<in> set ids"
    and sib: "\<And>y. fr_nextSiblingId row = Some y \<Longrightarrow> y \<in> set ids"
  shows "t \<in> set ids"
proof -
  obtain rs' ws' where c: "compileBranchRoutes b row ids f = (rs', ws')" by (cases "compileBranchRoutes b row ids f")
  show ?thesis
  proof (cases rs')
    case Nil
    then show ?thesis using assms(1,2,3) sib c
      by (auto simp: branch_routes_def resolveTopLevelDefaultRoutes_def truthy_str_def split: if_splits)
  next
    case (Cons r' rest)
    then have "rs = rs'" "ws = ws'" using assms(1) c by (auto simp: branch_routes_def)
    then show ?thesis using compile_routes_closed [OF c] assms by simp
  qed
qed

lemma nested_routes:
  assumes "fr_isNested row" and "branch_routes name b row ids f = (rs, ws)" and "r \<in> set rs"
  shows "rt_engine r = Resume \<and> rt_step_id r \<noteq> None
     \<or> (\<exists>e. map_option br_run (bd_route b) = Some (Some e) \<and> rt_step_id r = None \<and> rt_engine r \<in> {Advance, FailRun})"
  using assms
  by (auto simp: branch_routes_def compileBranchRoutes_def no_control_def Let_def
      split: if_splits option.splits run_end.splits)

section \<open>Entries of the compiled catalog\<close>

lemma compile_branch_eq:
  "compile_branch ajv ids f row (n, b) =
     ((n, \<lparr> cb_schema_ref = schemaRefForBranch n b, cb_schema = object_schema b,
            cb_payload_required = fst (partitionRequiredFields (object_schema b) (bd_artifact_slots b)),
            cb_artifact_required = snd (partitionRequiredFields (object_schema b) (bd_artifact_slots b)),
            cb_artifact_slots = or_empty (bd_artifact_slots b), cb_routes = fst (branch_routes n b row ids f) \<rparr>),
      snd (branch_routes n b row ids f) @ collision_warnings f row n b @ schema_warnings ajv f row b)"
  by (simp add: compile_branch_def Let_def split: prod.splits)

lemma compile_entry_sel [simp]:
  "ce_step_id (fst (compile_entry ajv ids f row)) = fr_qualifiedId row"
  "ce_parent_id (fst (compile_entry ajv ids f row)) = fr_parentId row"
  "ce_branches (fst (compile_entry ajv ids f row)) =
     map (\<lambda>nb. fst (compile_branch ajv ids f row nb)) (or_empty (fs_branches (fr_step row)))"
  by (simp_all add: compile_entry_def Let_def)

lemma compiled_catalog:
  assumes "cr_catalog (compileStepContractCatalog dg ajv m f) = Some c"
  shows "ct_entries c = map (\<lambda>row. fst (compile_entry ajv (map fr_qualifiedId (flat_steps m)) f row)) (flat_steps m)"
    and "ct_step_ids c = map fr_qualifiedId (flat_steps m)"
    and "row \<in> set (flat_steps m) \<Longrightarrow> set (snd (compile_entry ajv (map fr_qualifiedId (flat_steps m)) f row))
           \<subseteq> set (cr_warnings (compileStepContractCatalog dg ajv m f))"
  using assms
  by (auto simp: compileStepContractCatalog_def compileCatalogEntries_def catalog_of_def Let_def
      split: if_splits)

lemma entry_branch:
  assumes "(n, cb) \<in> set (ce_branches (fst (compile_entry ajv ids f row)))"
  obtains b where "(n, b) \<in> set (or_empty (fs_branches (fr_step row)))"
    and "cb_routes cb = fst (branch_routes n b row ids f)"
    and "set (snd (branch_routes n b row ids f)) \<subseteq> set (snd (compile_entry ajv ids f row))"
  using assms
  by (fastforce simp: compile_branch_eq compile_entry_def Let_def)

section \<open>Authored and injected default branches\<close>

text \<open>The manifest with the default branches written out.\<close>

definition explicit_defaults :: "flow_manifest \<Rightarrow> flow_manifest" where
  "explicit_defaults m =
     m\<lparr> fm_steps := map (\<lambda>s. if isStepContractStep s then with_defaults s else s) (fm_steps m) \<rparr>"

lemma with_defaults_sel [simp]:
  "fs_id (with_defaults s) = fs_id s" "fs_parallel (with_defaults s) = fs_parallel s"
  "fs_start_flow (with_defaults s) = fs_start_flow s" "fs_extra (with_defaults s) = fs_extra s"
  by (cases s; simp)+

lemma with_defaults_twice [simp]: "with_defaults (with_defaults s) = with_defaults s"
  by (induction s) (auto split: option.splits)

lemma contract_with_defaults [simp]: "isStepContractStep (with_defaults s) = isStepContractStep s"
  by (simp add: isStepContractStep_def)

lemma explicit_flat [simp]: "flat_steps (explicit_defaults m) = flat_steps m"
proof -
  have "map with_defaults (filter isStepContractStep (map (\<lambda>s. if isStepContractStep s then with_defaults s else s) ss))
      = map with_defaults (filter isStepContractStep ss)" for ss
    by (induction ss) auto
  then show ?thesis by (simp add: flat_steps_def contract_steps_def applyDefaultBranches_def explicit_defaults_def)
qed

lemma explicit_uses: "manifestUsesStepContracts (explicit_defaults m) = manifestUsesStepContracts m"
proof -
  have "uses_contracts (map (\<lambda>s. if isStepContractStep s then with_defaults s else s) ss) = uses_contracts ss" for ss
    by (induction ss) auto
  then show ?thesis by (simp add: manifestUsesStepContracts_def explicit_defaults_def)
qed

text \<open>The strings a scan \<open>g\<close> says nothing about may be added without changing its report.\<close>

definition report :: "(string \<Rightarrow> 'w list) \<Rightarrow> json \<Rightarrow> 'w list" where
  "report g v = concat (map g (walkJsonValues v))"

lemma concat_map_concat: "concat (map g (concat (map h vs))) = concat (map (\<lambda>v. concat (map g (h v))) vs)"
  by (induction vs) auto

lemma report_simps [simp]:
  "report g (JStr s) = g s"
  "report g (JArr vs) = concat (map (report g) vs)"
  "report g (JObj ob) = concat (map (\<lambda>kv. report g (snd kv)) ob)"
  by (simp_all add: report_def [abs_def] concat_map_concat [of g])

lemma report_defaults:
  assumes g: "g ''object'' = []"
  shows "report g (branches_json default_branches) = []"
  by (simp add: branches_json_def default_branches_def branch_json_def default_branch_def opt_field_def g)

lemma report_step_defaults:
  assumes g: "g ''object'' = []"
  shows "report g (step_json (with_defaults s)) = report g (step_json s)"
proof (induction s)
  case (FlowStep i d b ss p sf mt ex)
  have kids: "map (\<lambda>v. report g (step_json (with_defaults v))) ss = map (\<lambda>v. report g (step_json v)) ss"
    using FlowStep by simp
  have br: "concat (map (\<lambda>kv. report g (snd kv)) (opt_field ''branches'' branches_json
        (case b of None \<Rightarrow> Some default_branches | Some m \<Rightarrow> Some m)))
      = concat (map (\<lambda>kv. report g (snd kv)) (opt_field ''branches'' branches_json b))"
    using report_defaults [of g, OF g] by (cases b) (simp_all add: opt_field_def)
  show ?case by (simp add: br kids o_def)
qed

lemma report_explicit:
  assumes g: "g ''object'' = []"
  shows "report g (manifest_json (explicit_defaults m)) = report g (manifest_json m)"
proof -
  have "report g (step_json (if isStepContractStep s then with_defaults s else s)) = report g (step_json s)" for s
    using report_step_defaults [of g, OF g] by simp
  then show ?thesis by (simp add: manifest_json_def explicit_defaults_def o_def)
qed

lemma lint_explicit:
  "lintMurrmureTokens flat (explicit_defaults m) f ids sm = lintMurrmureTokens flat m f ids sm"
proof -
  have "scanString f ids sm None ''object'' = []" by (simp add: scanString_def starts_with_def token_open_def)
  from report_explicit [of "scanString f ids sm None", OF this] show ?thesis by (simp add: lintMurrmureTokens_def report_def)
qed

lemma legacy_explicit: "lintLegacySteps (explicit_defaults m) f = lintLegacySteps m f"
proof -
  have "map step_hits (map (\<lambda>s. if isStepContractStep s then with_defaults s else s) ss) = map step_hits ss" for ss
    by (induction ss) (auto simp: step_hits_def)
  then show ?thesis by (simp add: lintLegacySteps_def findLegacyStepKinds_def explicit_defaults_def del: map_map)
qed

lemma compile_explicit:
  "compileStepContractCatalog dg ajv (explicit_defaults m) f = compileStepContractCatalog dg ajv m f"
  by (simp add: compileStepContractCatalog_def explicit_uses lint_explicit legacy_explicit)

section \<open>Ancestors\<close>

text \<open>
  The ancestors of a step in the tree, by parent links of the rows; the compiler computes them by
  cutting the qualified id at its dots, which agrees when the authored ids have none.
\<close>

inductive tree_ancestor :: "flat_step list \<Rightarrow> string \<Rightarrow> string \<Rightarrow> bool" for flat where
  parent: "row \<in> set flat \<Longrightarrow> fr_parentId row = Some p \<Longrightarrow> tree_ancestor flat (fr_qualifiedId row) p"
| above: "row \<in> set flat \<Longrightarrow> fr_parentId row = Some p \<Longrightarrow> tree_ancestor flat p a
    \<Longrightarrow> tree_ancestor flat (fr_qualifiedId row) a"

definition plain_id :: "string \<Rightarrow> bool" where
  "plain_id i \<longleftrightarrow> i \<noteq> [] \<and> CHR ''.'' \<notin> set i"

fun plain_ids :: "flow_step list \<Rightarrow> bool" where
  "plain_ids [] = True"
| "plain_ids (s # ss) = (plain_id (fs_id s) \<and> plain_ids (fs_steps s) \<and> plain_ids ss)"

definition parent_by_id :: "flat_step \<Rightarrow> bool" where
  "parent_by_id row \<longleftrightarrow> fr_qualifiedId row \<noteq> []
     \<and> fr_parentId row = (if parent_path (fr_qualifiedId row) = [] then None else Some (parent_path (fr_qualifiedId row)))"

lemma dropWhile_plain: "c \<notin> set xs \<Longrightarrow> dropWhile (\<lambda>x. x \<noteq> c) (xs @ ys) = dropWhile (\<lambda>x. x \<noteq> c) ys"
  by (induction xs) auto

lemma parent_path_plain: "plain_id i \<Longrightarrow> parent_path i = []"
proof -
  assume "plain_id i"
  then have "CHR ''.'' \<notin> set (rev i)" by (simp add: plain_id_def)
  from dropWhile_plain [OF this, of "[]"]
  have "dropWhile (\<lambda>c. c \<noteq> CHR ''.'') (rev i) = []" by (simp only: append_Nil2 dropWhile.simps)
  then show ?thesis by (simp add: parent_path_def Let_def del: dropWhile_eq_Nil_conv)
qed

lemma parent_path_qualified: "plain_id i \<Longrightarrow> p \<noteq> [] \<Longrightarrow> parent_path (p @ ''.'' @ i) = p"
  using dropWhile_plain [of "CHR ''.''" "rev i" "CHR ''.'' # rev p"]
  by (cases p rule: rev_cases) (simp_all add: parent_path_def plain_id_def Let_def)

lemma flatten_parent_by_id:
  assumes "plain_ids ss" and "p = q" and "q \<noteq> Some []" and "row \<in> set (flattenManifestSteps ss p q ord)"
  shows "parent_by_id row"
  using assms
proof (induction ss p q ord rule: flattenManifestSteps.induct)
  case (1 p q ord)
  then show ?case by simp
next
  case (2 s ss p q ord)
  have i: "plain_id (fs_id s)" using "2.prems"(1) by simp
  have ne: "qualify q (fs_id s) \<noteq> []" using i by (auto simp: qualify_def plain_id_def)
  consider "row = flat_row p q ord s"
    | "row \<in> set (flattenManifestSteps (fs_steps s) (Some (qualify q (fs_id s))) (Some (qualify q (fs_id s))) ord)"
    | "row \<in> set (flattenManifestSteps ss p q ord)"
    using "2.prems"(4) by auto
  then show ?case
  proof cases
    case 1
    then show ?thesis using i ne "2.prems"(2,3)
      by (cases q) (auto simp: parent_by_id_def qualify_def truthy_str_def parent_path_plain parent_path_qualified
          simp del: append_Cons)
  next
    case 2
    then show ?thesis using "2.IH"(1) "2.prems"(1) ne by simp
  next
    case 3
    then show ?thesis using "2.IH"(2) "2.prems" by simp
  qed
qed

lemma walk_nil [simp]: "\<not> ancestor_walk [] t"
  by (subst ancestor_walk.simps) simp

lemma walk_step:
  "c \<noteq> [] \<Longrightarrow> ancestor_walk c t \<longleftrightarrow> c = t \<or> (parent_path c \<noteq> [] \<and> ancestor_walk (parent_path c) t)"
  by (subst ancestor_walk.simps) auto

definition id_tree :: "flat_step list \<Rightarrow> bool" where
  "id_tree flat \<longleftrightarrow> (\<forall>row\<in>set flat. parent_by_id row
     \<and> (\<forall>p. fr_parentId row = Some p \<longrightarrow> p \<in> fr_qualifiedId ` set flat))"

lemma id_tree_parent:
  "id_tree flat \<Longrightarrow> row \<in> set flat \<Longrightarrow> fr_parentId row = Some p \<Longrightarrow>
     p = parent_path (fr_qualifiedId row) \<and> p \<noteq> [] \<and> p \<in> fr_qualifiedId ` set flat"
  by (auto simp: id_tree_def parent_by_id_def split: if_splits)

lemma ancestor_walks:
  assumes "id_tree flat" shows "tree_ancestor flat c t \<Longrightarrow> parent_path c \<noteq> [] \<and> ancestor_walk (parent_path c) t"
proof (induction rule: tree_ancestor.induct)
  case (parent row p)
  then show ?case using id_tree_parent [OF assms] walk_step [of p p] by auto
next
  case (above row p a)
  then show ?case using id_tree_parent [OF assms above(1,2)] walk_step [of p a] by auto
qed

lemma walk_ancestor:
  assumes t: "id_tree flat"
  shows "row \<in> set flat \<Longrightarrow> fr_parentId row = Some p \<Longrightarrow> ancestor_walk p t \<Longrightarrow> tree_ancestor flat (fr_qualifiedId row) t"
proof (induction "length p" arbitrary: row p rule: less_induct)
  case less
  obtain row' where row': "row' \<in> set flat" "p = fr_qualifiedId row'" and ne: "p \<noteq> []"
    using id_tree_parent [OF t less.prems(1,2)] by blast
  show ?case
  proof (cases "p = t")
    case True
    then show ?thesis using less.prems by (auto intro: tree_ancestor.parent)
  next
    case False
    then have up: "parent_path p \<noteq> []" "ancestor_walk (parent_path p) t"
      using walk_step [OF ne, of t] less.prems by auto
    have "fr_parentId row' = Some (parent_path p)"
      using t row' up unfolding id_tree_def parent_by_id_def by auto
    then have "tree_ancestor flat p t"
      using less.hyps [OF parent_path_shorter [OF ne], of row'] row' up by simp
    then show ?thesis using less.prems by (auto intro: tree_ancestor.above)
  qed
qed

lemma isAncestorOf_tree:
  assumes tree: "id_tree flat" and row: "row \<in> set flat" and t: "t \<in> fr_qualifiedId ` set flat"
  shows "isAncestorOf row t (map fr_qualifiedId flat) \<longleftrightarrow> tree_ancestor flat (fr_qualifiedId row) t"
proof (cases "fr_parentId row")
  case None
  then have "parent_path (fr_qualifiedId row) = []"
    using tree row unfolding id_tree_def parent_by_id_def by (auto split: if_splits)
  then show ?thesis using None ancestor_walks [OF tree] by (auto simp: isAncestorOf_def)
next
  case (Some p)
  then have "p = parent_path (fr_qualifiedId row)" using id_tree_parent [OF tree row] by blast
  then show ?thesis
    using Some t walk_ancestor [OF tree row Some] ancestor_walks [OF tree, of "fr_qualifiedId row" t]
    by (auto simp: isAncestorOf_def)
qed

lemma plain_with_defaults: "plain_ids ss \<Longrightarrow> plain_ids (map with_defaults ss)"
proof (induction ss rule: plain_ids.induct)
  case 1
  then show ?case by simp
next
  case (2 s ss)
  have "fs_steps (with_defaults s) = map with_defaults (fs_steps s)" by (cases s) simp
  then show ?case using 2 by simp
qed

lemma plain_filter: "plain_ids ss \<Longrightarrow> plain_ids (filter P ss)"
  by (induction ss rule: plain_ids.induct) auto

lemma flat_steps_tree: "plain_ids (fm_steps m) \<Longrightarrow> id_tree (flat_steps m)"
proof -
  assume plain: "plain_ids (fm_steps m)"
  let ?ss = "contract_steps m"
  have flat: "flat_steps m = flattenManifestSteps ?ss None None (map fs_id ?ss)" by (simp add: flat_steps_def Let_def)
  have "plain_ids ?ss" using plain by (simp add: contract_steps_def applyDefaultBranches_def plain_filter plain_with_defaults)
  then have "parent_by_id row" if "row \<in> set (flat_steps m)" for row
    using flatten_parent_by_id [of ?ss None None] that unfolding flat by simp
  then show "id_tree (flat_steps m)"
    unfolding id_tree_def using flat_steps_rows(2) by blast
qed

section \<open>Slot cardinality\<close>

definition takes_many :: "artifact_slot \<Rightarrow> bool" where
  "takes_many d \<longleftrightarrow> opt_default 1 (sl_max_files d) > 1"

lemma put_slots_get:
  "js_get (fold put_slot xs sm) s =
     (if js_get sm s = Some Collection \<or> (\<exists>d. (s, d) \<in> set xs \<and> takes_many d) then Some Collection
      else if js_get sm s \<noteq> None \<or> (\<exists>d. (s, d) \<in> set xs) then Some Singleton else None)"
proof (induction xs arbitrary: sm)
  case Nil
  show ?case by (cases "js_get sm s") (auto intro: slot_cardinality.exhaust)
next
  case (Cons x xs)
  obtain k d where x: "x = (k, d)" by (cases x)
  have put: "js_get (put_slot x sm) s =
      (if s = k then Some (if takes_many d \<or> js_get sm s = Some Collection then Collection else Singleton)
       else js_get sm s)"
    by (simp add: put_slot_def x takes_many_def)
  show ?case unfolding fold_Cons comp_def Cons.IH put using x by auto
qed

definition declares :: "flat_step list \<Rightarrow> string \<Rightarrow> string \<Rightarrow> artifact_slot \<Rightarrow> bool" where
  "declares flat sid slot d \<longleftrightarrow>
     (\<exists>row\<in>set flat. fr_qualifiedId row = sid \<and> (slot, d) \<in> set (row_slots row))"

definition cardinality_spec :: "slot_cardinality option \<Rightarrow> bool \<Rightarrow> bool \<Rightarrow> slot_cardinality option" where
  "cardinality_spec old many some =
     (if old = Some Collection \<or> many then Some Collection
      else if old \<noteq> None \<or> some then Some Singleton else None)"

lemma put_rows_get:
  "cardinality_of (fold put_row flat sm) sid slot =
     cardinality_spec (cardinality_of sm sid slot)
       (\<exists>d. declares flat sid slot d \<and> takes_many d) (\<exists>d. declares flat sid slot d)"
proof (induction flat arbitrary: sm)
  case Nil
  show ?case
    by (cases "cardinality_of sm sid slot") (auto simp: cardinality_spec_def declares_def intro: slot_cardinality.exhaust)
next
  case (Cons row flat)
  have row: "cardinality_of (put_row row sm) sid slot =
      (if sid = fr_qualifiedId row
       then cardinality_spec (cardinality_of sm sid slot)
         (\<exists>d. (slot, d) \<in> set (row_slots row) \<and> takes_many d) (\<exists>d. (slot, d) \<in> set (row_slots row))
       else cardinality_of sm sid slot)"
    by (cases "js_get sm (fr_qualifiedId row)")
       (auto simp: cardinality_of_def put_row_def put_slots_get cardinality_spec_def or_empty_def)
  have decl: "declares (row # flat) sid slot d \<longleftrightarrow>
      (fr_qualifiedId row = sid \<and> (slot, d) \<in> set (row_slots row)) \<or> declares flat sid slot d" for d
    by (auto simp: declares_def)
  show ?case unfolding fold_Cons comp_def Cons.IH row decl
    by (auto simp: cardinality_spec_def)
qed

lemma buildSlotCardinality_eq:
  "cardinality_of (buildSlotCardinality flat) sid slot =
     (if \<exists>d. declares flat sid slot d \<and> takes_many d then Some Collection
      else if \<exists>d. declares flat sid slot d then Some Singleton else None)"
  unfolding buildSlotCardinality_def put_rows_get
  by (simp add: cardinality_spec_def cardinality_of_def)


lemma search_returns:
  "\<exists>r. search (Suc (length (e # tops))) (by_id (e # tops)) ([ce_step_id e], [ce_step_id e]) = Some r"
proof -
  let ?t = "e # tops"
  have inv: "search_inv (by_id ?t) (ce_step_id e) [ce_step_id e] [ce_step_id e]"
    using by_id_keys [of ?t] by (simp add: search_inv_def closed_from_def)
  have "card (fst ` set (by_id ?t)) \<le> length ?t"
    unfolding by_id_keys by (metis card_image_le card_length le_trans finite_set)
  then have "card (fst ` set (by_id ?t)) - card (set [ce_step_id e]) + length [ce_step_id e] \<le> Suc (length ?t)" by simp
  from search_works [OF inv _ this] show ?thesis by auto
qed

end
