(* ===== verification/FlowGraph.thy ===== *)
theory FlowGraph
  imports StepCompile
begin

text \<open>
  The compiled flow and its graph, from \<open>hub-core/src/flow-engine/\<close>: the intermediate representation
  (\<open>compile.ts\<close>), the linear plan and the active step (\<open>plan.ts\<close>, \<open>advance.ts\<close>), joins of parallel
  lanes (\<open>join.ts\<close>), catalog queries (\<open>step-catalog.ts\<close>), and the detection of cycles among
  flows that start each other (\<open>cycle-detect.ts\<close>).
\<close>

section \<open>Compiling to the intermediate representation\<close>

definition ir_step :: "string \<Rightarrow> step_kind \<Rightarrow> step_ir" where
  "ir_step i k = \<lparr> ir_id = i, ir_kind = k, ir_invoke = None, ir_gate = None, ir_parallel = None,
     ir_start_flow = None, ir_step_contract = None \<rparr>"

definition stepContractToIr :: "flow_step \<Rightarrow> string \<Rightarrow> string option \<Rightarrow> step_ir" where
  "stepContractToIr step qualifiedId parentId =
     (ir_step qualifiedId KStepContract)
       \<lparr> ir_step_contract := Some \<lparr> ic_qualified_id = qualifiedId, ic_parent_id = parentId \<rparr> \<rparr>"

function flattenStepContractIr :: "flow_step \<Rightarrow> string option \<Rightarrow> string option \<Rightarrow> step_ir list" where
  "flattenStepContractIr step parentId prefix =
     (if \<not> isStepContractStep step then []
      else (let qualifiedId = qualify prefix (fs_id step) in
        stepContractToIr step qualifiedId parentId
        # concat (map (\<lambda>child. flattenStepContractIr child (Some qualifiedId) (Some qualifiedId)) (fs_steps step))))"
  by pat_completeness auto

termination
  by (relation "measure (\<lambda>(s, _, _). size s)") (auto simp: child_size)

declare flattenStepContractIr.simps [simp del]

definition lane_ir :: "lane_step \<Rightarrow> ir_lane" where
  "lane_ir l =
     (case ln_invoke l of
        Some iv \<Rightarrow> \<lparr> il_id = ln_id l, il_kind = KInvoke, il_invoke = Some iv, il_gate = None \<rparr>
      | None \<Rightarrow> \<lparr> il_id = ln_id l, il_kind = KGate, il_invoke = None,
          il_gate = Some \<lparr>
            ig_form = (case ln_gate l of None \<Rightarrow> None | Some g \<Rightarrow> map_option gf_id (gs_form g)),
            ig_assignees = (case ln_gate l of None \<Rightarrow> None | Some g \<Rightarrow> gs_assignees g) \<rparr> \<rparr>)"

definition stepToIr :: "flow_step \<Rightarrow> step_ir" where
  "stepToIr step =
     (case fs_parallel step of
        Some p \<Rightarrow> (ir_step (fs_id step) KParallel)
          \<lparr> ir_parallel := Some \<lparr> ip_matrix = pl_matrix p, ip_lane = map lane_ir (pl_lane p) \<rparr> \<rparr>
      | None \<Rightarrow> (case fs_start_flow step of
          Some sf \<Rightarrow> (ir_step (fs_id step) KStartFlow)
            \<lparr> ir_start_flow := Some \<lparr> sf_flow_id = sf_flow_id sf, sf_input = sf_input sf,
                sf_wait = Some (opt_default True (sf_wait sf)),
                sf_continue_on_error = Some (opt_default False (sf_continue_on_error sf)) \<rparr> \<rparr>
        | None \<Rightarrow> stepContractToIr step (fs_id step) None))"

definition manifest_ir :: "flow_step list \<Rightarrow> step_ir list" where
  "manifest_ir steps =
     concat (map (\<lambda>s. if isStepContractStep s then flattenStepContractIr s None None else [stepToIr s]) steps)"

definition compileFlowIr :: "content_digests \<Rightarrow> flow_manifest \<Rightarrow> string \<Rightarrow> flow_ir" where
  "compileFlowIr dg m flow_id =
     (let steps = manifest_ir (fm_steps m);
          body = \<lparr> fi_flow_id = flow_id, fi_name = fm_name m, fi_triggers = fm_triggers m, fi_steps = steps \<rparr> in
      \<lparr> fi_flow_id = flow_id, fi_name = fm_name m, fi_triggers = fm_triggers m, fi_steps = steps,
        fi_digest = dg_ir dg body \<rparr>)"

section \<open>The plan and the active step\<close>

datatype run_lifecycle = RWorking | RInputRequired | RCompleted | RFailed | RCancelled

datatype step_status = SPending | SWorking | SYielded | SCompleted | SFailed | SSkipped

record step_memo =
  me_run_id :: string
  me_step_id :: string
  me_status :: step_status
  me_idempotency_key :: "string option"
  me_result_hash :: "string option"
  me_started_at :: "nat option"
  me_completed_at :: "nat option"
  me_error_code :: "string option"
  me_executor_type :: "string option"

definition planLinearSteps :: "flow_ir \<Rightarrow> step_ir list" where
  "planLinearSteps ir = filter (\<lambda>s. ir_kind s \<in> {KInvoke, KGate, KStartFlow, KStepContract}) (fi_steps ir)"

definition firstDispatchableStep :: "flow_ir \<Rightarrow> step_ir option" where
  "firstDispatchableStep ir = (case planLinearSteps ir of [] \<Rightarrow> None | s # _ \<Rightarrow> Some s)"

definition memo_for :: "step_memo list \<Rightarrow> string \<Rightarrow> step_memo option" where
  "memo_for memos sid = find (\<lambda>m. me_step_id m = sid) memos"

definition step_is_active :: "step_memo list \<Rightarrow> step_ir \<Rightarrow> bool" where
  "step_is_active memos s =
     (case memo_for memos (ir_id s) of
        None \<Rightarrow> True | Some m \<Rightarrow> me_status m \<in> {SPending, SWorking, SFailed})"

fun active_from :: "step_memo list \<Rightarrow> nat \<Rightarrow> step_ir list \<Rightarrow> nat" where
  "active_from memos i [] = i"
| "active_from memos i (s # ss) = (if step_is_active memos s then i else active_from memos (Suc i) ss)"

definition activeStepIndex :: "step_memo list \<Rightarrow> flow_ir \<Rightarrow> nat" where
  "activeStepIndex memos ir = active_from memos 0 (planLinearSteps ir)"

definition isRunPlanComplete :: "step_memo list \<Rightarrow> flow_ir \<Rightarrow> bool" where
  "isRunPlanComplete memos ir \<longleftrightarrow> length (planLinearSteps ir) \<le> activeStepIndex memos ir"

section \<open>Joins\<close>

definition isRunTerminal :: "run_lifecycle \<Rightarrow> bool" where
  "isRunTerminal l \<longleftrightarrow> l \<in> {RCompleted, RFailed, RCancelled}"

definition allSiblingsTerminal :: "run_lifecycle list \<Rightarrow> bool" where
  "allSiblingsTerminal ls \<longleftrightarrow> length ls > 0 \<and> list_all isRunTerminal ls"

definition parallelStepReadyToJoin :: "step_memo option \<Rightarrow> run_lifecycle list \<Rightarrow> bool" where
  "parallelStepReadyToJoin memo ls =
     (case memo of
        None \<Rightarrow> allSiblingsTerminal ls
      | Some m \<Rightarrow> (if me_status m = SPending then allSiblingsTerminal ls else me_status m = SCompleted))"

definition joinParallelStepStatus :: "run_lifecycle list \<Rightarrow> step_status" where
  "joinParallelStepStatus ls =
     (if list_all (\<lambda>l. l = RCompleted) ls then SCompleted
      else if list_ex (\<lambda>l. l = RCompleted) ls then SFailed
      else SFailed)"

section \<open>Catalog queries\<close>

definition catalogEntryForStep :: "step_catalog option \<Rightarrow> string \<Rightarrow> catalog_entry option" where
  "catalogEntryForStep c sid =
     (case c of None \<Rightarrow> None | Some ct \<Rightarrow> find (\<lambda>e. ce_step_id e = sid) (ct_entries ct))"

definition topLevelCatalogSteps :: "step_catalog \<Rightarrow> catalog_entry list" where
  "topLevelCatalogSteps c = filter (\<lambda>e. ce_parent_id e = None) (ct_entries c)"

definition order_index :: "string list \<Rightarrow> string \<Rightarrow> int" where
  "order_index order sid =
     (if sid \<in> set order then int (length (takeWhile (\<lambda>x. x \<noteq> sid) order)) else -1)"

definition nestedCatalogChildren :: "step_catalog \<Rightarrow> string \<Rightarrow> catalog_entry list" where
  "nestedCatalogChildren c parent =
     sort_key (\<lambda>e. order_index (ct_step_ids c) (ce_step_id e))
       (filter (\<lambda>e. ce_parent_id e = Some parent) (ct_entries c))"

definition parentHasNestedChildren :: "step_catalog \<Rightarrow> string \<Rightarrow> bool" where
  "parentHasNestedChildren c parent \<longleftrightarrow> length (nestedCatalogChildren c parent) > 0"

definition isTopLevelStepContractStep :: "step_catalog option \<Rightarrow> string \<Rightarrow> bool" where
  "isTopLevelStepContractStep c sid =
     (case catalogEntryForStep c sid of None \<Rightarrow> False | Some e \<Rightarrow> ce_parent_id e = None)"

section \<open>Flow-call cycles\<close>

definition FLOW_CALL_CYCLE :: string where "FLOW_CALL_CYCLE = ''FLOW_CALL_CYCLE''"

text \<open>\<open>name.replace(/[^a-zA-Z0-9]+/g, "_")\<close>: every run of other characters becomes one underscore.\<close>

fun underscore_runs :: "bool \<Rightarrow> string \<Rightarrow> string" where
  "underscore_runs in_run [] = []"
| "underscore_runs in_run (c # cs) =
     (if is_alnum c then c # underscore_runs False cs
      else if in_run then underscore_runs True cs else CHR ''_'' # underscore_runs True cs)"

definition strip_lead :: "string \<Rightarrow> string" where
  "strip_lead s = (case s of [] \<Rightarrow> [] | c # cs \<Rightarrow> if c = CHR ''_'' then cs else s)"

definition flowIdFromName :: "string \<Rightarrow> string" where
  "flowIdFromName name =
     (let slug = rev (strip_lead (rev (strip_lead (underscore_runs False name)))) in
      ''flw_'' @ (if slug = [] then ''unnamed'' else slug))"

text \<open>The lanes of a parallel step are walked too, but a lane step has no \<open>start_flow\<close> or \<open>parallel\<close>.\<close>

definition collectStartFlowTargets :: "flow_manifest \<Rightarrow> string list" where
  "collectStartFlowTargets m =
     concat (map (\<lambda>s. case fs_start_flow s of
         None \<Rightarrow> [] | Some sf \<Rightarrow> if sf_flow_id sf \<noteq> [] then [sf_flow_id sf] else []) (fm_steps m))"

type_synonym call_graph = "(string, string list) jsmap"

record bundle_flow =
  bf_flow_id :: "string option"
  bf_manifest :: flow_manifest

definition buildFlowCallGraph :: "bundle_flow list \<Rightarrow> call_graph" where
  "buildFlowCallGraph flows =
     fold (\<lambda>f. js_set (if truthy_str (bf_flow_id f) then the (bf_flow_id f) else flowIdFromName (fm_name (bf_manifest f)))
                 (collectStartFlowTargets (bf_manifest f))) flows []"

definition graph_targets :: "call_graph \<Rightarrow> string \<Rightarrow> string list" where
  "graph_targets g n = (case js_get g n of None \<Rightarrow> [] | Some ts \<Rightarrow> ts)"

text \<open>
  The search keeps three mutable collections, threaded here as one state. \<open>None\<close> is a search that
  ran out of fuel; the inner value is the cycle, if one was found.
\<close>

record dfs_state =
  df_visiting :: "string list"
  df_visited :: "string list"
  df_path :: "string list"

definition cycle_at :: "string list \<Rightarrow> string \<Rightarrow> string list" where
  "cycle_at path node =
     (if node \<in> set path then dropWhile (\<lambda>x. x \<noteq> node) path @ [node] else [node, node])"

definition df_enter :: "string \<Rightarrow> dfs_state \<Rightarrow> dfs_state" where
  "df_enter node st = st\<lparr> df_visiting := df_visiting st @ [node], df_path := df_path st @ [node] \<rparr>"

definition df_leave :: "string \<Rightarrow> dfs_state \<Rightarrow> dfs_state" where
  "df_leave node st = st\<lparr> df_path := butlast (df_path st), df_visiting := removeAll node (df_visiting st),
     df_visited := df_visited st @ [node] \<rparr>"

function dfs :: "nat \<Rightarrow> call_graph \<Rightarrow> string \<Rightarrow> dfs_state \<Rightarrow> (string list option \<times> dfs_state) option"
  and dfs_targets :: "nat \<Rightarrow> call_graph \<Rightarrow> string list \<Rightarrow> dfs_state \<Rightarrow> (string list option \<times> dfs_state) option" where
  "dfs 0 g node st = None"
| "dfs (Suc fuel) g node st =
     (if node \<in> set (df_visiting st) then Some (Some (cycle_at (df_path st) node), st)
      else if node \<in> set (df_visited st) then Some (None, st)
      else case dfs_targets fuel g (graph_targets g node) (df_enter node st) of
        None \<Rightarrow> None
      | Some (Some c, st') \<Rightarrow> Some (Some c, st')
      | Some (None, st') \<Rightarrow> Some (None, df_leave node st'))"
| "dfs_targets fuel g [] st = Some (None, st)"
| "dfs_targets fuel g (t # ts) st =
     (case dfs fuel g t st of
        None \<Rightarrow> None
      | Some (Some c, st') \<Rightarrow> Some (Some c, st')
      | Some (None, st') \<Rightarrow> dfs_targets fuel g ts st')"
  by pat_completeness auto

termination
  by (relation "measures [\<lambda>x. case x of Inl (n, _, _, _) \<Rightarrow> n | Inr (n, _, _, _) \<Rightarrow> n,
        \<lambda>x. case x of Inl _ \<Rightarrow> 0 | Inr (_, _, ts, _) \<Rightarrow> Suc (length ts)]") auto

text \<open>A node is entered only while not being visited, so the number of nodes bounds the depth.\<close>

definition graph_nodes :: "call_graph \<Rightarrow> string list" where
  "graph_nodes g = remdups (concat (map (\<lambda>(k, ts). k # ts) g))"

definition dfs_start :: dfs_state where
  "dfs_start = \<lparr> df_visiting = [], df_visited = [], df_path = [] \<rparr>"

definition detectCycleInGraph :: "call_graph \<Rightarrow> string list option" where
  "detectCycleInGraph g =
     (case dfs_targets (length (graph_nodes g) + 2) g (js_keys g) dfs_start of None \<Rightarrow> None | Some (c, _) \<Rightarrow> c)"

record cycle_error =
  cy_code :: string
  cy_message :: string
  cy_cycle :: "string list"

definition arrow :: string where
  "arrow = [CHR 0xE2, CHR 0x86, CHR 0x92]"

definition detectFlowCallCycles :: "bundle_flow list option \<Rightarrow> cycle_error option" where
  "detectFlowCallCycles flows =
     (case flows of None \<Rightarrow> None | Some [] \<Rightarrow> None
      | Some fs \<Rightarrow> map_option (\<lambda>c. \<lparr> cy_code = FLOW_CALL_CYCLE,
          cy_message = ''Flow-call cycle detected: '' @ join_with ('' '' @ arrow @ '' '') c, cy_cycle = c \<rparr>)
          (detectCycleInGraph (buildFlowCallGraph fs)))"

end
