(* ===== verification/FlowGraphProofs.thy ===== *)
theory FlowGraphProofs
  imports FlowGraph StepCompileProofs
begin

text \<open>
  The cycle search terminates within its fuel, reports only real cycles and misses none; the
  intermediate representation and the catalog list the same steps; the active step is the first
  one not settled.
\<close>

section \<open>The cycle search\<close>

definition call_edges :: "call_graph \<Rightarrow> (string \<times> string) set" where
  "call_edges g = {(a, b). b \<in> set (graph_targets g a)}"

definition call_path :: "call_graph \<Rightarrow> string list \<Rightarrow> bool" where
  "call_path g xs \<longleftrightarrow> successively (\<lambda>a b. b \<in> set (graph_targets g a)) xs"

definition call_cycle :: "call_graph \<Rightarrow> string list \<Rightarrow> bool" where
  "call_cycle g c \<longleftrightarrow> 2 \<le> length c \<and> hd c = last c \<and> call_path g c"

text \<open>Every visited node's targets were visited before it.\<close>

definition settled :: "call_graph \<Rightarrow> string list \<Rightarrow> bool" where
  "settled g xs \<longleftrightarrow> (\<forall>i<length xs. set (graph_targets g (xs ! i)) \<subseteq> set (take i xs))"

lemma settled_snoc: "settled g xs \<Longrightarrow> set (graph_targets g x) \<subseteq> set xs \<Longrightarrow> settled g (xs @ [x])"
  by (auto simp: settled_def nth_append less_Suc_eq)

definition df_ok :: "call_graph \<Rightarrow> dfs_state \<Rightarrow> bool" where
  "df_ok g st \<longleftrightarrow> df_path st = df_visiting st \<and> distinct (df_visiting st)
     \<and> call_path g (df_path st) \<and> settled g (df_visited st)"

definition reached :: "call_graph \<Rightarrow> dfs_state \<Rightarrow> string \<Rightarrow> bool" where
  "reached g st node \<longleftrightarrow> df_path st = [] \<or> node \<in> set (graph_targets g (last (df_path st)))"

definition came_back :: "call_graph \<Rightarrow> dfs_state \<Rightarrow> dfs_state \<Rightarrow> bool" where
  "came_back g st st' \<longleftrightarrow> df_ok g st' \<and> df_path st' = df_path st \<and> df_visiting st' = df_visiting st
     \<and> set (df_visited st) \<subseteq> set (df_visited st')"

lemma came_back_refl: "df_ok g st \<Longrightarrow> came_back g st st"
  by (simp add: came_back_def)

lemma came_back_trans: "came_back g a b \<Longrightarrow> came_back g b c \<Longrightarrow> came_back g a c"
  by (auto simp: came_back_def)

lemma call_path_snoc: "call_path g xs \<Longrightarrow> xs = [] \<or> x \<in> set (graph_targets g (last xs)) \<Longrightarrow> call_path g (xs @ [x])"
  by (auto simp: call_path_def successively_append_iff)

lemma call_path_suffix: "call_path g (xs @ ys) \<Longrightarrow> call_path g ys"
  by (simp add: call_path_def successively_append_iff)

lemma cycle_at_cycle:
  assumes "call_path g path" and "node \<in> set path" and "node \<in> set (graph_targets g (last path))"
  shows "call_cycle g (cycle_at path node)"
proof -
  obtain xs ys where p: "path = xs @ node # ys" "node \<notin> set xs" using split_list_first assms(2) by fastforce
  have c: "cycle_at path node = node # ys @ [node]"
    using dropWhile_plain [OF p(2), of "node # ys"] by (simp add: p(1) cycle_at_def)
  have "call_path g (node # ys)" using assms(1) p(1) call_path_suffix by blast
  then have "call_path g ((node # ys) @ [node])" by (rule call_path_snoc) (use assms(3) p(1) in simp)
  then show ?thesis using c by (simp add: call_cycle_def)
qed

lemma df_enter_ok:
  assumes st: "df_ok g st" and "reached g st node" and "node \<notin> set (df_visiting st)"
  shows "df_ok g (df_enter node st)"
proof -
  have "call_path g (df_path st @ [node])"
    by (rule call_path_snoc) (use assms in \<open>auto simp: df_ok_def reached_def\<close>)
  then show ?thesis using st assms(3) by (simp add: df_ok_def df_enter_def)
qed

lemma df_leave_back:
  assumes st: "df_ok g st" "node \<notin> set (df_visiting st)" and ret: "came_back g (df_enter node st) st'"
    and targets: "set (graph_targets g node) \<subseteq> set (df_visited st')"
  shows "came_back g st (df_leave node st') \<and> node \<in> set (df_visited (df_leave node st'))"
proof -
  have v: "df_visiting st' = df_visiting st @ [node]" "df_path st' = df_visiting st @ [node]"
      "settled g (df_visited st')" "set (df_visited st) \<subseteq> set (df_visited st')"
    using st(1) ret by (auto simp: came_back_def df_enter_def df_ok_def)
  have "settled g (df_visited st' @ [node])" using v(3) targets by (rule settled_snoc)
  then show ?thesis using st v by (auto simp: came_back_def df_leave_def df_ok_def)
qed

lemma dfs_sound:
  shows "dfs fuel g node st = Some (r, st') \<Longrightarrow> df_ok g st \<Longrightarrow> reached g st node \<Longrightarrow>
      (case r of None \<Rightarrow> came_back g st st' \<and> node \<in> set (df_visited st') | Some c \<Rightarrow> call_cycle g c)"
    and "dfs_targets fuel g ts st = Some (r, st') \<Longrightarrow> df_ok g st \<Longrightarrow> \<forall>t\<in>set ts. reached g st t \<Longrightarrow>
      (case r of None \<Rightarrow> came_back g st st' \<and> set ts \<subseteq> set (df_visited st') | Some c \<Rightarrow> call_cycle g c)"
proof (induction fuel g node st and fuel g ts st arbitrary: r st' and r st' rule: dfs_dfs_targets.induct)
  case (1 g node st)
  then show ?case by simp
next
  case (2 fuel g node st)
  show ?case
  proof (cases "node \<in> set (df_visiting st)")
    case True
    have "call_cycle g (cycle_at (df_path st) node)"
      by (rule cycle_at_cycle) (use "2.prems"(2,3) True in \<open>auto simp: reached_def df_ok_def\<close>)
    then show ?thesis using "2.prems"(1) True by auto
  next
    case new: False
    show ?thesis
    proof (cases "node \<in> set (df_visited st)")
      case True
      then show ?thesis using "2.prems" new came_back_refl by auto
    next
      case False
      have ok: "df_ok g (df_enter node st)" using "2.prems" new by (simp add: df_enter_ok)
      have re: "\<forall>t\<in>set (graph_targets g node). reached g (df_enter node st) t"
        by (simp add: reached_def df_enter_def)
      obtain r1 s1 where t: "dfs_targets fuel g (graph_targets g node) (df_enter node st) = Some (r1, s1)"
        using "2.prems"(1) new False by (auto split: option.splits)
      from "2.IH" [OF new False t ok re] show ?thesis
        using "2.prems" new False t df_leave_back [of g st node s1] by (cases r1) auto
    qed
  qed
next
  case (3 fuel g st)
  then show ?case by (auto simp: came_back_refl)
next
  case (4 fuel g t ts st)
  obtain r1 s1 where t: "dfs fuel g t st = Some (r1, s1)" using "4.prems"(1) by (auto split: option.splits)
  have first: "case r1 of None \<Rightarrow> came_back g st s1 \<and> t \<in> set (df_visited s1) | Some c \<Rightarrow> call_cycle g c"
    using "4.IH"(1) [OF t] "4.prems" by simp
  show ?case
  proof (cases r1)
    case None
    then have b: "came_back g st s1" "t \<in> set (df_visited s1)" using first by auto
    have rest: "dfs_targets fuel g ts s1 = Some (r, st')" using "4.prems"(1) t None by simp
    have "\<forall>u\<in>set ts. reached g s1 u" using "4.prems"(3) b(1) by (auto simp: reached_def came_back_def)
    then have "case r of None \<Rightarrow> came_back g s1 st' \<and> set ts \<subseteq> set (df_visited st') | Some c \<Rightarrow> call_cycle g c"
      using "4.IH"(2) [OF t _ refl rest] None b(1) by (simp add: came_back_def)
    then show ?thesis using b came_back_trans [OF b(1)] by (cases r) (auto simp: came_back_def)
  next
    case (Some c)
    then show ?thesis using first "4.prems"(1) t by (cases r) auto
  qed
qed

lemma graph_targets_key: "t \<in> set (graph_targets g n) \<Longrightarrow> \<exists>ts. (n, ts) \<in> set g \<and> t \<in> set ts"
  by (cases "map_of g n") (auto simp: graph_targets_def js_get_def dest: map_of_SomeD)

lemma target_node: "t \<in> set (graph_targets g n) \<Longrightarrow> t \<in> set (graph_nodes g)"
  using graph_targets_key [of t g n] by (fastforce simp: graph_nodes_def)

lemma key_node: "k \<in> set (js_keys g) \<Longrightarrow> k \<in> set (graph_nodes g)"
  by (force simp: graph_nodes_def js_keys_def)

definition room :: "call_graph \<Rightarrow> dfs_state \<Rightarrow> nat" where
  "room g st = card (set (graph_nodes g) - set (df_visiting st))"

lemma room_enter:
  assumes "node \<in> set (graph_nodes g)" and "node \<notin> set (df_visiting st)"
  shows "room g (df_enter node st) < room g st"
proof -
  have "set (graph_nodes g) - set (df_visiting st) - {node} \<subset> set (graph_nodes g) - set (df_visiting st)"
    using assms by blast
  then have "card (set (graph_nodes g) - set (df_visiting st) - {node}) < room g st"
    unfolding room_def by (intro psubset_card_mono) simp_all
  moreover have "set (graph_nodes g) - set (df_visiting (df_enter node st))
      = set (graph_nodes g) - set (df_visiting st) - {node}"
    by (auto simp: df_enter_def)
  ultimately show ?thesis by (simp add: room_def)
qed

lemma dfs_total:
  shows "df_ok g st \<Longrightarrow> reached g st node \<Longrightarrow> node \<in> set (graph_nodes g) \<Longrightarrow> room g st < fuel \<Longrightarrow>
      dfs fuel g node st \<noteq> None"
    and "df_ok g st \<Longrightarrow> \<forall>t\<in>set ts. reached g st t \<and> t \<in> set (graph_nodes g) \<Longrightarrow> room g st < fuel \<Longrightarrow>
      dfs_targets fuel g ts st \<noteq> None"
proof (induction fuel g node st and fuel g ts st rule: dfs_dfs_targets.induct)
  case (1 g node st)
  then show ?case by simp
next
  case (2 fuel g node st)
  show ?case
  proof (cases "node \<in> set (df_visiting st) \<or> node \<in> set (df_visited st)")
    case True
    then show ?thesis by auto
  next
    case False
    then have new: "node \<notin> set (df_visiting st)" "node \<notin> set (df_visited st)" by auto
    have ok: "df_ok g (df_enter node st)" using "2.prems" new by (simp add: df_enter_ok)
    have re: "\<forall>t\<in>set (graph_targets g node). reached g (df_enter node st) t \<and> t \<in> set (graph_nodes g)"
      using target_node by (simp add: reached_def df_enter_def)
    have "room g (df_enter node st) < fuel" using room_enter [OF "2.prems"(3) new(1)] "2.prems"(4) by simp
    from "2.IH" [OF new ok re this] show ?thesis using new by (auto split: option.splits)
  qed
next
  case (3 fuel g st)
  then show ?case by simp
next
  case (4 fuel g t ts st)
  have "dfs fuel g t st \<noteq> None" using "4.IH"(1) "4.prems" by simp
  then obtain r1 s1 where t: "dfs fuel g t st = Some (r1, s1)" by auto
  show ?case
  proof (cases r1)
    case None
    have b: "came_back g st s1" using dfs_sound(1) [OF t "4.prems"(1)] "4.prems"(2) None by simp
    then have "\<forall>u\<in>set ts. reached g s1 u \<and> u \<in> set (graph_nodes g)" "room g s1 < fuel" "df_ok g s1"
      using "4.prems" by (simp_all add: reached_def came_back_def room_def)
    then have "dfs_targets fuel g ts s1 \<noteq> None" using "4.IH"(2) [OF t _ refl] None by simp
    then show ?thesis using t None by simp
  next
    case (Some c)
    then show ?thesis using t by simp
  qed
qed

lemma settled_edge:
  assumes "settled g xs" and "(a, b) \<in> (call_edges g)\<^sup>+"
  shows "i < length xs \<Longrightarrow> xs ! i = a \<Longrightarrow> \<exists>j<i. xs ! j = b"
  using assms(2)
proof (induction arbitrary: i rule: trancl_induct)
  case (base y)
  then have "y \<in> set (take i xs)" using assms(1) by (auto simp: settled_def call_edges_def)
  then show ?case using base.prems by (auto simp: in_set_conv_nth)
next
  case (step y z)
  obtain j where j: "j < i" "xs ! j = y" using step.IH step.prems by blast
  then have "z \<in> set (take j xs)"
    using assms(1) step.hyps(2) less_trans [OF j(1) step.prems(1)] by (fastforce simp: settled_def call_edges_def)
  then obtain k where "k < j" "xs ! k = z" by (auto simp: in_set_conv_nth)
  then show ?case using j(1) less_trans by blast
qed

lemma settled_acyclic:
  assumes "settled g xs" and keys: "set (js_keys g) \<subseteq> set xs"
  shows "acyclic (call_edges g)"
proof (rule acyclicI, intro allI notI)
  fix x assume x: "(x, x) \<in> (call_edges g)\<^sup>+"
  have no: "\<not> (i < length xs \<and> xs ! i = x)" for i
  proof (induction i rule: less_induct)
    case (less i)
    then show ?case using settled_edge [OF assms(1) x, of i] by (meson less_trans)
  qed
  from x obtain y where "(x, y) \<in> call_edges g" by (meson tranclD)
  then have "x \<in> set (js_keys g)"
    by (force simp: call_edges_def js_keys_def dest: graph_targets_key)
  then have "x \<in> set xs" using keys by blast
  then show False using no by (auto simp: in_set_conv_nth)
qed

lemma dfs_start_ok [simp]: "df_ok g dfs_start" "reached g dfs_start n"
  by (simp_all add: df_ok_def dfs_start_def call_path_def settled_def reached_def)

lemma detect_defined:
  obtains r st where "dfs_targets (length (graph_nodes g) + 2) g (js_keys g) dfs_start = Some (r, st)"
proof -
  have "room g dfs_start < length (graph_nodes g) + 2"
    using card_length [of "graph_nodes g"] by (simp add: room_def dfs_start_def)
  then have "dfs_targets (length (graph_nodes g) + 2) g (js_keys g) dfs_start \<noteq> None"
    using dfs_total(2) [of g dfs_start "js_keys g"] key_node by simp
  then show ?thesis using that by auto
qed

lemma detect_cycle_correct:
  "case detectCycleInGraph g of None \<Rightarrow> acyclic (call_edges g) | Some c \<Rightarrow> call_cycle g c"
proof -
  obtain r st where d: "dfs_targets (length (graph_nodes g) + 2) g (js_keys g) dfs_start = Some (r, st)"
    by (rule detect_defined)
  then have r: "detectCycleInGraph g = r" by (simp add: detectCycleInGraph_def)
  have "case r of None \<Rightarrow> came_back g dfs_start st \<and> set (js_keys g) \<subseteq> set (df_visited st) | Some c \<Rightarrow> call_cycle g c"
    using dfs_sound(2) [OF d] by simp
  then show ?thesis unfolding r
    by (cases r) (auto simp: came_back_def df_ok_def intro: settled_acyclic)
qed

lemma call_cycle_edges: "call_cycle g c \<Longrightarrow> (hd c, hd c) \<in> (call_edges g)\<^sup>+"
proof -
  have "call_path g xs \<Longrightarrow> 2 \<le> length xs \<Longrightarrow> (hd xs, last xs) \<in> (call_edges g)\<^sup>+" for xs
  proof (induction xs)
    case Nil
    then show ?case by simp
  next
    case (Cons x xs)
    then obtain y ys where xs: "xs = y # ys" by (cases xs) auto
    have e: "(x, y) \<in> call_edges g" and p: "call_path g xs"
      using Cons.prems(1) xs by (auto simp: call_path_def call_edges_def)
    show ?case
    proof (cases ys)
      case Nil
      then show ?thesis using e xs by auto
    next
      case (Cons z zs)
      then have "(y, last xs) \<in> (call_edges g)\<^sup>+" using Cons.IH p xs by simp
      then show ?thesis using e xs by (auto intro: trancl_into_trancl2)
    qed
  qed
  from this [of c] show "call_cycle g c \<Longrightarrow> (hd c, hd c) \<in> (call_edges g)\<^sup>+" by (auto simp: call_cycle_def)
qed

section \<open>Catalog and intermediate representation\<close>

text \<open>Nested steps carry none of the top-level step kinds, as the manifest schema requires.\<close>

fun contract_trees :: "flow_step list \<Rightarrow> bool" where
  "contract_trees [] = True"
| "contract_trees (s # ss) = (isStepContractStep s \<and> contract_trees (fs_steps s) \<and> contract_trees ss)"

lemma steps_with_defaults [simp]: "fs_steps (with_defaults s) = map with_defaults (fs_steps s)"
  by (cases s) simp

definition contract_row :: "flat_step \<Rightarrow> step_ir" where
  "contract_row row = stepContractToIr (fr_step row) (fr_qualifiedId row) (fr_parentId row)"

lemma stepContractToIr_step: "stepContractToIr s i p = stepContractToIr t i p"
  by (simp add: stepContractToIr_def)

lemma flatten_ir_list:
  "contract_trees ss \<Longrightarrow>
     concat (map (\<lambda>s. flattenStepContractIr s p q) ss) = map contract_row (flattenManifestSteps (map with_defaults ss) p q ord)"
proof (induction ss arbitrary: p q rule: contract_trees.induct)
  case 1
  then show ?case by simp
next
  case (2 s ss)
  have "flattenStepContractIr s p q =
      contract_row (flat_row p q ord (with_defaults s))
      # map contract_row (flattenManifestSteps (map with_defaults (fs_steps s))
          (Some (qualify q (fs_id s))) (Some (qualify q (fs_id s))) ord)"
    using "2.IH"(1) "2.prems"
    by (subst flattenStepContractIr.simps)
       (simp add: Let_def contract_row_def stepContractToIr_step [of s _ _ "with_defaults s"])
  then show ?case using "2.IH"(2) "2.prems" by simp
qed

lemma stepContractToIr_sel [simp]:
  "ir_kind (stepContractToIr s i p) = KStepContract" "ir_id (stepContractToIr s i p) = i"
  "ir_step_contract (stepContractToIr s i p) = Some \<lparr> ic_qualified_id = i, ic_parent_id = p \<rparr>"
  by (simp_all add: stepContractToIr_def ir_step_def)

lemma stepToIr_kind: "fs_parallel s \<noteq> None \<or> fs_start_flow s \<noteq> None \<Longrightarrow> ir_kind (stepToIr s) \<noteq> KStepContract"
  by (auto simp: stepToIr_def ir_step_def split: option.splits)

text \<open>A manifest whose steps are contracts, parallel steps and flow starts, without deprecated keys.\<close>

definition clean_step :: "flow_step \<Rightarrow> bool" where
  "clean_step s \<longleftrightarrow>
     (if isStepContractStep s then contract_trees (fs_steps s)
      else fs_parallel s \<noteq> None \<or> fs_start_flow s \<noteq> None)"

definition clean_steps :: "flow_step list \<Rightarrow> bool" where
  "clean_steps ss \<longleftrightarrow> list_all clean_step ss"

lemma filter_flatten_ir:
  "filter (\<lambda>s. ir_kind s = KStepContract) (flattenStepContractIr s p q) = flattenStepContractIr s p q"
proof (induction s arbitrary: p q rule: step_induct)
  case (step s)
  then show ?case
    by (subst (1 2) flattenStepContractIr.simps)
       (auto simp: Let_def filter_concat o_def intro!: arg_cong [of _ _ concat] map_cong)
qed

lemma manifest_ir_contracts:
  assumes "clean_steps ss"
  shows "filter (\<lambda>s. ir_kind s = KStepContract) (manifest_ir ss) =
    concat (map (\<lambda>s. flattenStepContractIr s None None) (filter isStepContractStep ss))"
  using assms
proof (induction ss)
  case Nil
  show ?case by (simp add: manifest_ir_def)
next
  case (Cons s ss)
  have tail: "filter (\<lambda>s. ir_kind s = KStepContract) (manifest_ir ss) =
      concat (map (\<lambda>s. flattenStepContractIr s None None) (filter isStepContractStep ss))"
    by (rule Cons.IH) (use Cons.prems in \<open>simp add: clean_steps_def\<close>)
  have cons: "manifest_ir (s # ss) =
      (if isStepContractStep s then flattenStepContractIr s None None else [stepToIr s]) @ manifest_ir ss"
    by (simp add: manifest_ir_def)
  show ?case
  proof (cases "isStepContractStep s")
    case True
    then show ?thesis unfolding cons by (simp add: tail filter_flatten_ir)
  next
    case False
    then have "ir_kind (stepToIr s) \<noteq> KStepContract"
      using Cons.prems stepToIr_kind by (simp add: clean_steps_def clean_step_def)
    then show ?thesis using False unfolding cons by (simp add: tail)
  qed
qed

lemma ir_matches_catalog:
  assumes "clean_steps (fm_steps m)"
  shows "map (\<lambda>s. (ir_id s, map_option ic_parent_id (ir_step_contract s)))
      (filter (\<lambda>s. ir_kind s = KStepContract) (fi_steps (compileFlowIr dg m f)))
    = map (\<lambda>row. (fr_qualifiedId row, Some (fr_parentId row))) (flat_steps m)"
proof -
  let ?ss = "filter isStepContractStep (fm_steps m)"
  have "contract_trees xs" if "\<forall>s\<in>set xs. isStepContractStep s \<and> contract_trees (fs_steps s)" for xs
    using that by (induction xs) auto
  then have t: "contract_trees ?ss" using assms by (auto simp: clean_steps_def clean_step_def list_all_iff)
  have fields: "fi_steps (compileFlowIr dg m f) = manifest_ir (fm_steps m)" by (simp add: compileFlowIr_def Let_def)
  show ?thesis
    unfolding fields manifest_ir_contracts [OF assms]
      flatten_ir_list [OF t, of None None "map fs_id (map with_defaults ?ss)"]
    by (simp add: flat_steps_def contract_steps_def applyDefaultBranches_def contract_row_def Let_def)
qed

section \<open>The active step\<close>

lemma active_from_spec:
  "i \<le> active_from memos i ss \<and> active_from memos i ss \<le> i + length ss
   \<and> (\<forall>k<active_from memos i ss - i. \<not> step_is_active memos (ss ! k))
   \<and> (active_from memos i ss < i + length ss \<longrightarrow> step_is_active memos (ss ! (active_from memos i ss - i)))"
proof (induction ss arbitrary: i)
  case Nil
  show ?case by simp
next
  case (Cons s ss)
  show ?case
  proof (cases "step_is_active memos s")
    case True
    then show ?thesis by simp
  next
    case False
    have IH: "Suc i \<le> active_from memos (Suc i) ss" "active_from memos (Suc i) ss \<le> Suc i + length ss"
      "\<forall>k<active_from memos (Suc i) ss - Suc i. \<not> step_is_active memos (ss ! k)"
      "active_from memos (Suc i) ss < Suc i + length ss \<longrightarrow>
         step_is_active memos (ss ! (active_from memos (Suc i) ss - Suc i))"
      using Cons.IH [of "Suc i"] by auto
    have "\<not> step_is_active memos ((s # ss) ! k)" if "k < active_from memos (Suc i) ss - i" for k
      using that False IH(3) by (cases k) auto
    moreover have "active_from memos (Suc i) ss - i = Suc (active_from memos (Suc i) ss - Suc i)"
      using IH(1) by simp
    ultimately show ?thesis using False IH by simp
  qed
qed

lemma plan_complete_iff: "isRunPlanComplete memos ir \<longleftrightarrow> list_all (\<lambda>s. \<not> step_is_active memos s) (planLinearSteps ir)"
  using active_from_spec [of 0 memos "planLinearSteps ir"]
  by (auto simp: isRunPlanComplete_def activeStepIndex_def list_all_length not_less intro: ccontr)

end
