(* ===== verification/ParseManifest.thy ===== *)
theory ParseManifest
  imports StepCompile
begin

text \<open>
  Parsing a flow manifest, from \<open>hub-core/src/index/parse-flow-manifest.ts\<close> and the raw scans of
  \<open>flow-engine/step-contract-compile.ts\<close>: guards over the unparsed value, in order, each with its
  error code, then the schema parse and the check of every branch schema. The schema parser (\<open>zod\<close>)
  is a library and a parameter: it gives its issues or the manifest.
\<close>

datatype 'a parse_result = ParseOk 'a | ParseError string string

record zod_issue =
  zi_path :: "string list"
  zi_message :: string

type_synonym zod_parse = "json \<Rightarrow> zod_issue list + flow_manifest"

text \<open>\<open>v && typeof v === "object"\<close>, property access on such a value, and \<open>Array.isArray(v.k)\<close> items.\<close>

fun obj_like :: "json \<Rightarrow> bool" where
  "obj_like (JObj _) = True"
| "obj_like (JArr _) = True"
| "obj_like _ = False"

definition get_prop :: "json \<Rightarrow> string \<Rightarrow> json" where
  "get_prop v k = (case js_member v k of None \<Rightarrow> JUndef | Some w \<Rightarrow> w)"

definition arr_prop :: "json \<Rightarrow> string \<Rightarrow> json list" where
  "arr_prop v k = (case get_prop v k of JArr xs \<Rightarrow> xs | _ \<Rightarrow> [])"

lemma member_size: "js_member v k = Some w \<Longrightarrow> size w \<le> size v"
proof (induction v k rule: js_member.induct)
  case (1 ob part)
  then have "(part, w) \<in> set ob" by (auto simp: js_get_def dest: map_of_SomeD)
  then show ?case by (auto dest!: split_list)
next
  case (2 xs part)
  have el: "size x < size (JArr xs)" if "x \<in> set xs" for x using that by (auto dest!: split_list)
  show ?case
  proof (cases "part = ''length''")
    case True
    then have "w = JNum (int (length xs))" using 2 by auto
    then show ?thesis by simp
  next
    case False
    then obtain i where "find (\<lambda>i. nat_str i = part) [0..<length xs] = Some i" "w = xs ! i" using 2 by auto
    then have "w \<in> set xs" by (auto simp: find_Some_iff)
    then show ?thesis using el by fastforce
  qed
qed simp_all

lemma get_prop_size: "size (get_prop v k) \<le> size v"
  using member_size [of v k] by (auto simp: get_prop_def split: option.splits)

lemma arr_prop_size: "size_list size (arr_prop v k) < Suc (size v)"
  using get_prop_size [of v k] by (auto simp: arr_prop_def split: json.splits)

lemma arr_prop_size_in [termination_simp]:
  "size_list size (arr_prop v k) < Suc (size v + n)"
  "size_list size (arr_prop (get_prop v j) k) < Suc (size v + n)"
  using arr_prop_size [of v k] arr_prop_size [of "get_prop v j" k] get_prop_size [of v j] by auto

definition raw_id :: "json \<Rightarrow> string" where
  "raw_id step = (case get_prop step ''id'' of JStr s \<Rightarrow> s | _ \<Rightarrow> ''(unknown)'')"

definition present :: "json \<Rightarrow> string \<Rightarrow> bool" where
  "present v k \<longleftrightarrow> get_prop v k \<noteq> JUndef"

definition raw_steps :: "json \<Rightarrow> json list" where
  "raw_steps raw = (if obj_like raw then arr_prop raw ''steps'' else [])"

section \<open>Deprecated step kinds\<close>

definition raw_lane_hits :: "json \<Rightarrow> (string \<times> string) list" where
  "raw_lane_hits lane =
     (if obj_like lane
      then (if present lane ''invoke'' then [(raw_id lane, ''invoke'')] else [])
        @ (if present lane ''gate'' then [(raw_id lane, ''gate'')] else [])
      else [])"

definition raw_step_hits :: "json \<Rightarrow> (string \<times> string) list" where
  "raw_step_hits step =
     (if obj_like step
      then map (Pair (raw_id step)) (filter (present step) LEGACY_STEP_KEYS)
        @ concat (map raw_lane_hits (arr_prop (get_prop step ''parallel'') ''lane''))
      else [])"

definition scanRawLegacyStepKinds :: "json \<Rightarrow> (string \<times> string) list" where
  "scanRawLegacyStepKinds raw = concat (map raw_step_hits (raw_steps raw))"

definition rejectLegacyStepKinds :: "json \<Rightarrow> json parse_result" where
  "rejectLegacyStepKinds raw =
     (case scanRawLegacyStepKinds raw of
        [] \<Rightarrow> ParseOk raw
      | (sid, key) # _ \<Rightarrow> ParseError ''LEGACY_STEP_KIND''
          (''Step '' @ quoted sid @ '' uses deprecated '' @ quoted (key @ '':'') @ '' '' @ em_dash
            @ '' migrate to unified step contracts ('' @ STEP_CONTRACT_MIGRATION_DOC @ '')''))"

section \<open>Removed fields\<close>

definition REMOVED_STEP_KEYS :: "string list" where
  "REMOVED_STEP_KEYS = [''role'', ''presentation'', ''orchestration'', ''deriveRole'', ''executor'', ''next'',
     ''fail_run'', ''complete'', ''continue'', ''goto'', ''fail'']"

definition REMOVED_BRANCH_KEYS :: "string list" where
  "REMOVED_BRANCH_KEYS = [''next'', ''fail_run'', ''complete'', ''continue'', ''goto'', ''fail'', ''payload'', ''outcome'']"

definition BRANCH_WRAPPER_KEYS :: "string list" where
  "BRANCH_WRAPPER_KEYS = [''payload'', ''outcome'']"

record removed_hit =
  rh_step_id :: string
  rh_branch :: "string option"
  rh_key :: string

definition raw_branches :: "json \<Rightarrow> (string \<times> json) list" where
  "raw_branches step = (case get_prop step ''branches'' of JObj ob \<Rightarrow> ob | _ \<Rightarrow> [])"

definition own_removed :: "string \<Rightarrow> json \<Rightarrow> removed_hit list" where
  "own_removed qid step =
     map (\<lambda>k. \<lparr> rh_step_id = qid, rh_branch = None, rh_key = k \<rparr>) (filter (present step) REMOVED_STEP_KEYS)
     @ concat (map (\<lambda>(name, branch).
         if obj_like branch
         then map (\<lambda>k. \<lparr> rh_step_id = qid, rh_branch = Some name, rh_key = k \<rparr>) (filter (present branch) REMOVED_BRANCH_KEYS)
         else []) (raw_branches step))"

text \<open>\<open>visitStep\<close> over a list of steps, children under the qualified id of their parent.\<close>

fun visit_removed :: "json list \<Rightarrow> string option \<Rightarrow> removed_hit list" where
  "visit_removed [] prefix = []"
| "visit_removed (s # ss) prefix =
     (if obj_like s
      then own_removed (qualify prefix (raw_id s)) s
        @ visit_removed (arr_prop s ''steps'') (Some (qualify prefix (raw_id s)))
      else []) @ visit_removed ss prefix"

definition scanRawRemovedFields :: "json \<Rightarrow> removed_hit list" where
  "scanRawRemovedFields raw = visit_removed (raw_steps raw) None"

definition removed_message :: "removed_hit \<Rightarrow> string" where
  "removed_message h =
     (case rh_branch h of
        Some b \<Rightarrow> ''Step '' @ quoted (rh_step_id h) @ '' branch '' @ quoted b
      | None \<Rightarrow> ''Step '' @ quoted (rh_step_id h))
     @ (if rh_key h \<in> set BRANCH_WRAPPER_KEYS
        then '' uses removed wrapper '' @ quoted (rh_key h @ '':'') @ '' '' @ em_dash
          @ '' keep schema/artifact_slots/route/resume flat''
        else '' uses removed '' @ quoted (rh_key h @ '':'') @ '' '' @ em_dash @ '' see '' @ STEP_CONTRACT_MIGRATION_DOC)"

definition rejectRemovedFields :: "json \<Rightarrow> json parse_result" where
  "rejectRemovedFields raw =
     (case scanRawRemovedFields raw of
        [] \<Rightarrow> ParseOk raw | h # _ \<Rightarrow> ParseError ''REMOVED_FIELD'' (removed_message h))"

section \<open>Inline scripts, start keys, empty branch maps\<close>

definition INLINE_SCRIPT_KEYS :: "string list" where
  "INLINE_SCRIPT_KEYS = [''script'', ''run'', ''shell'', ''command'']"

definition or_else :: "'a option \<Rightarrow> 'a option \<Rightarrow> 'a option" where
  "or_else x y = (case x of None \<Rightarrow> y | Some v \<Rightarrow> Some v)"

definition at_index :: "string \<Rightarrow> nat \<Rightarrow> string" where
  "at_index path i = path @ ''['' @ nat_str i @ '']''"

fun findInlineScriptStep :: "json list \<Rightarrow> string \<Rightarrow> nat \<Rightarrow> string option" where
  "findInlineScriptStep [] path i = None"
| "findInlineScriptStep (s # ss) path i =
     or_else
       (if obj_like s then
          (case find (\<lambda>k. js_member s k \<noteq> None) INLINE_SCRIPT_KEYS of
             Some k \<Rightarrow> Some (at_index path i @ ''.'' @ k)
           | None \<Rightarrow>
               or_else (findInlineScriptStep (arr_prop s ''lane'') (at_index path i @ ''.lane'') 0)
                 (findInlineScriptStep (arr_prop (get_prop s ''parallel'') ''lane'') (at_index path i @ ''.parallel.lane'') 0))
        else None)
       (findInlineScriptStep ss path (Suc i))"

definition rejectInlineScriptSteps :: "json \<Rightarrow> json parse_result" where
  "rejectInlineScriptSteps raw =
     (case findInlineScriptStep (raw_steps raw) ''steps'' 0 of
        None \<Rightarrow> ParseOk raw
      | Some v \<Rightarrow> ParseError ''INLINE_SCRIPT_STEP'' (''Flow manifest rejects inline script steps (found '' @ v @ '')''))"

definition rejectRemovedStartFields :: "json \<Rightarrow> json parse_result" where
  "rejectRemovedStartFields raw =
     (if \<not> obj_like raw then ParseOk raw
      else if present raw ''start'' then ParseError ''LEGACY_START_KEY''
        (''Top-level '' @ quoted ''start:'' @ '' is removed '' @ em_dash @ '' use '' @ quoted ''triggers:''
          @ '' as the only start-condition field (see studio-specs/current/bridges/step-contract.md)'')
      else case get_prop raw ''triggers'' of
        JObj ts \<Rightarrow>
          if js_has ts ''requires_view'' then ParseError ''LEGACY_REQUIRES_VIEW''
            (quoted ''requires_view'' @ '' is removed '' @ em_dash
              @ '' spaces bind Views through handlers.yaml, not the portable flow'')
          else ParseOk raw
      | _ \<Rightarrow> ParseOk raw)"

text \<open>\<open>visit\<close> of \<open>rejectEmptyBranches\<close>: a hit is its qualified id, and an empty id is no hit (\<open>if (hit)\<close>).\<close>

definition hit_of :: "string option \<Rightarrow> string option" where
  "hit_of x = (if truthy_str x then x else None)"

fun visit_empty :: "json list \<Rightarrow> string option \<Rightarrow> string option" where
  "visit_empty [] prefix = None"
| "visit_empty (s # ss) prefix =
     or_else
       (hit_of
         (if \<not> obj_like s then None
          else if get_prop s ''branches'' = JObj [] then Some (qualify prefix (raw_id s))
          else visit_empty (arr_prop s ''steps'') (Some (qualify prefix (raw_id s)))))
       (visit_empty ss prefix)"

definition rejectEmptyBranches :: "json \<Rightarrow> json parse_result" where
  "rejectEmptyBranches raw =
     (case visit_empty (raw_steps raw) None of
        None \<Rightarrow> ParseOk raw
      | Some hit \<Rightarrow> ParseError ''EMPTY_BRANCHES''
          (''Step '' @ quoted hit @ '' declares branches: {} '' @ em_dash
            @ '' omit branches to receive defaults or declare at least one branch''))"

section \<open>The parser\<close>

text \<open>\<open>validateSchemas\<close>: the first branch schema the validator does not compile.\<close>

definition branch_schema_error :: "ajv_compile \<Rightarrow> string \<Rightarrow> string \<times> branch_def \<Rightarrow> string option" where
  "branch_schema_error ajv sid = (\<lambda>(name, b).
     (case object_schema b of
        None \<Rightarrow> None
      | Some sc \<Rightarrow> (case assertSupportedPayloadSchema ajv sc of
            Inr _ \<Rightarrow> None
          | Inl message \<Rightarrow>
              Some (''Step '' @ quoted sid @ '' branch '' @ quoted name @ '' schema is invalid: '' @ message))))"

fun first_some :: "('a \<Rightarrow> 'b option) \<Rightarrow> 'a list \<Rightarrow> 'b option" where
  "first_some f [] = None"
| "first_some f (x # xs) = or_else (f x) (first_some f xs)"

fun validateSchemas :: "ajv_compile \<Rightarrow> flow_step list \<Rightarrow> string option" where
  "validateSchemas ajv [] = None"
| "validateSchemas ajv (s # ss) =
     or_else (first_some (branch_schema_error ajv (fs_id s)) (or_empty (fs_branches s)))
       (or_else (validateSchemas ajv (fs_steps s)) (validateSchemas ajv ss))"

definition issue_summary :: "zod_issue list \<Rightarrow> string" where
  "issue_summary issues =
     join_with ''; ''
       (map (\<lambda>i. (if zi_path i \<noteq> [] then join_with ''.'' (zi_path i) else ''(root)'') @ '': '' @ zi_message i)
         (take 5 issues))
     @ (if length issues > 5 then '' (+'' @ nat_str (length issues - 5) @ '' more)'' else '''')"

fun and_then :: "json parse_result \<Rightarrow> 'a parse_result \<Rightarrow> 'a parse_result" where
  "and_then (ParseOk _) k = k"
| "and_then (ParseError code message) k = ParseError code message"

definition parseFlowManifest :: "zod_parse \<Rightarrow> ajv_compile \<Rightarrow> json \<Rightarrow> flow_manifest parse_result" where
  "parseFlowManifest safeParse ajv raw =
     and_then (rejectInlineScriptSteps raw)
      (and_then (rejectRemovedStartFields raw)
       (and_then (rejectRemovedFields raw)
        (and_then (rejectLegacyStepKinds raw)
         (and_then (rejectEmptyBranches raw)
          (case safeParse raw of
             Inl issues \<Rightarrow> ParseError ''INVALID_FLOW_MANIFEST''
               (''flow.manifest.yaml failed validation '' @ em_dash @ '' '' @ issue_summary issues)
           | Inr m \<Rightarrow>
               (case validateSchemas ajv (fm_steps m) of
                  None \<Rightarrow> ParseOk m
                | Some message \<Rightarrow> ParseError ''INVALID_BRANCH_SCHEMA'' message))))))"

section \<open>What an accepted manifest cannot hold\<close>

text \<open>The steps of a raw manifest, at every nesting depth.\<close>

inductive raw_step :: "json list \<Rightarrow> json \<Rightarrow> bool" for steps where
  top: "s \<in> set steps \<Longrightarrow> obj_like s \<Longrightarrow> raw_step steps s"
| child: "raw_step steps p \<Longrightarrow> c \<in> set (arr_prop p ''steps'') \<Longrightarrow> obj_like c \<Longrightarrow> raw_step steps c"

lemma raw_step_Nil [simp]: "\<not> raw_step [] c"
proof
  assume "raw_step [] c"
  then show False by (induction rule: raw_step.induct) auto
qed

lemma raw_step_cons: "raw_step ss c \<Longrightarrow> raw_step (s # ss) c"
  by (induction rule: raw_step.induct) (auto intro: raw_step.intros)

lemma raw_step_split:
  "raw_step (s # ss) c \<Longrightarrow> raw_step ss c \<or> (obj_like s \<and> (c = s \<or> raw_step (arr_prop s ''steps'') c))"
  by (induction rule: raw_step.induct) (auto intro: raw_step.intros)

lemma own_removed_none:
  "own_removed q s = [] \<longleftrightarrow> (\<forall>k\<in>set REMOVED_STEP_KEYS. \<not> present s k)
     \<and> (\<forall>(name, b)\<in>set (raw_branches s). obj_like b \<longrightarrow> (\<forall>k\<in>set REMOVED_BRANCH_KEYS. \<not> present b k))"
  by (fastforce simp: own_removed_def filter_empty_conv)

lemma visit_removed_none: "visit_removed ss q = [] \<Longrightarrow> raw_step ss s \<Longrightarrow> \<exists>q'. own_removed q' s = []"
  by (induction ss q rule: visit_removed.induct)
     (auto dest!: raw_step_split split: if_splits)

lemma visit_empty_none:
  "visit_empty ss q = None \<Longrightarrow> raw_step ss s \<Longrightarrow> \<forall>c. raw_step ss c \<longrightarrow> raw_id c \<noteq> [] \<Longrightarrow> get_prop s ''branches'' \<noteq> JObj []"
proof (induction ss q rule: visit_empty.induct)
  case (1 q)
  then show ?case by simp
next
  case (2 a ss q)
  have rest: "visit_empty ss q = None" using "2.prems"(1) by (auto simp: or_else_def split: option.splits)
  have top: "qualify q (raw_id a) \<noteq> []" if "obj_like a"
    using "2.prems"(3) that raw_step.top [of a "a # ss"] by (auto simp: qualify_def)
  have own: "get_prop a ''branches'' \<noteq> JObj []" if "obj_like a"
    using "2.prems"(1) that top by (auto simp: or_else_def hit_of_def truthy_str_def split: if_splits option.splits)
  from raw_step_split [OF "2.prems"(2)] show ?case
  proof (elim disjE conjE)
    assume "raw_step ss s"
    then show ?thesis using "2.IH"(2) [OF rest] "2.prems"(3) raw_step_cons by blast
  next
    assume "obj_like a" "s = a"
    then show ?thesis using own by simp
  next
    assume a: "obj_like a" "raw_step (arr_prop a ''steps'') s"
    have ra: "raw_step (a # ss) a" by (rule raw_step.top) (use a(1) in simp_all)
    have ids: "\<forall>c. raw_step (arr_prop a ''steps'') c \<longrightarrow> raw_id c \<noteq> []"
    proof (intro allI impI)
      fix c assume "raw_step (arr_prop a ''steps'') c"
      then have "raw_step (a # ss) c"
        by (induction rule: raw_step.induct) (use raw_step.child [OF ra] raw_step.child in \<open>blast+\<close>)
      then show "raw_id c \<noteq> []" using "2.prems"(3) by blast
    qed
    have "hit_of (visit_empty (arr_prop a ''steps'') (Some (qualify q (raw_id a)))) = None"
      using "2.prems"(1) a(1) own by (auto simp: or_else_def split: option.splits)
    moreover have "visit_empty xs q' \<noteq> Some []" for xs q'
      by (induction xs q' rule: visit_empty.induct)
         (auto simp: or_else_def hit_of_def truthy_str_def split: option.splits if_splits)
    ultimately have "visit_empty (arr_prop a ''steps'') (Some (qualify q (raw_id a))) = None"
      by (auto simp: hit_of_def truthy_str_def split: if_splits)
    then show ?thesis using "2.IH"(1) a own ids by simp
  qed
qed

lemma and_then_ok: "and_then r k = ParseOk m \<longleftrightarrow> (\<exists>v. r = ParseOk v) \<and> k = ParseOk m"
  by (cases r) auto

lemma parse_ok_parts:
  assumes "parseFlowManifest safeParse ajv raw = ParseOk m"
  shows "scanRawRemovedFields raw = []" "scanRawLegacyStepKinds raw = []" "visit_empty (raw_steps raw) None = None"
    and "findInlineScriptStep (raw_steps raw) ''steps'' 0 = None" and "safeParse raw = Inr m"
    and "validateSchemas ajv (fm_steps m) = None"
  using assms
  by (auto simp: parseFlowManifest_def and_then_ok rejectRemovedFields_def rejectLegacyStepKinds_def
      rejectEmptyBranches_def rejectInlineScriptSteps_def split: list.splits option.splits sum.splits)


lemma raw_step_obj: "raw_step ss s \<Longrightarrow> obj_like s"
  by (induction rule: raw_step.induct) auto

lemma legacy_none:
  assumes "scanRawLegacyStepKinds raw = []" and "s \<in> set (raw_steps raw)" and "raw_step ss s"
  shows "\<forall>k\<in>set LEGACY_STEP_KEYS. \<not> present s k"
proof -
  have "raw_step_hits s = []" using assms(1,2) by (simp add: scanRawLegacyStepKinds_def)
  then show ?thesis using raw_step_obj [OF assms(3)] by (simp add: raw_step_hits_def filter_empty_conv)
qed

lemma inline_none:
  "findInlineScriptStep ss p i = None \<Longrightarrow> s \<in> set ss \<Longrightarrow> raw_step ss' s \<Longrightarrow> \<forall>k\<in>set INLINE_SCRIPT_KEYS. js_member s k = None"
proof (induction ss arbitrary: i)
  case (Cons a ss)
  have "findInlineScriptStep ss p (Suc i) = None" using Cons.prems(1) by (auto simp: or_else_def split: option.splits)
  moreover have "find (\<lambda>k. js_member a k \<noteq> None) INLINE_SCRIPT_KEYS = None" if "obj_like a"
    using Cons.prems(1) that by (auto simp: or_else_def split: option.splits)
  ultimately show ?case using Cons.IH Cons.prems(2,3) raw_step_obj by (auto simp: find_None_iff)
qed simp

end
