(* ===== verification/Grants.thy ===== *)
theory Grants
  imports FlowTypes
begin

text \<open>
  Capabilities of grants (\<open>contracts/src/grants/capability.ts\<close>, \<open>hub-core/src/grants/migrate.ts\<close>),
  what an actor sees of a gate (\<open>hub-core/src/gates/redaction.ts\<close>) and who is notified
  (\<open>hub-core/src/projections/notifications.ts\<close>). The scope table is a plain object, so a lookup
  also finds the properties every object inherits; iterating such a value throws a \<open>TypeError\<close>,
  which is \<open>None\<close> here.
\<close>

section \<open>Capabilities\<close>

type_synonym capability = string

definition CAPABILITY_STRINGS :: "capability list" where
  "CAPABILITY_STRINGS =
     [''space:read'', ''space:write'', ''space:enter'', ''flow:read'', ''flow:run'', ''event:emit'',
      ''step:resolve'', ''journal:read'', ''blob:read'', ''blob:write'', ''memory:read'',
      ''memory:write'', ''executor:poll'', ''hub:admin'']"

definition isCapability :: "json \<Rightarrow> bool" where
  "isCapability v = (case v of JStr s \<Rightarrow> s \<in> set CAPABILITY_STRINGS | _ \<Rightarrow> False)"

text \<open>The string reported for an invalid entry: itself, or \<open>String(value)\<close>.\<close>

definition partitionCapabilities :: "json list \<Rightarrow> string list \<times> string list" where
  "partitionCapabilities vs =
     (map as_str (filter isCapability vs), map js_string (filter (\<lambda>v. \<not> isCapability v) vs))"

definition V1_SCOPE_TO_CAPABILITIES :: "(string, capability list) jsmap" where
  "V1_SCOPE_TO_CAPABILITIES =
     [(''space:read'', [''space:read'']),
      (''space:enter'', [''space:enter'']),
      (''space:admin'', [''hub:admin'', ''space:read'', ''space:write'', ''space:enter'']),
      (''state:transition'', [''flow:run'']),
      (''event:read'', [''journal:read'']),
      (''event:emit'', [''event:emit'']),
      (''flow:install'', [''space:write'', ''flow:read'']),
      (''flow:configure'', [''space:write'', ''flow:read'']),
      (''trigger:register'', [''space:write'']),
      (''blob:read'', [''space:read'']),
      (''blob:write'', [''space:write'']),
      (''federation:emit'', [''event:emit''])]"

text \<open>A JavaScript \<open>Set\<close> of strings, in insertion order.\<close>

definition set_add :: "'a \<Rightarrow> 'a list \<Rightarrow> 'a list" where
  "set_add x xs = (if x \<in> set xs then xs else xs @ [x])"

definition set_of :: "'a list \<Rightarrow> 'a list" where
  "set_of xs = fold set_add xs []"

fun map_scopes :: "string list \<Rightarrow> capability list \<Rightarrow> capability list option" where
  "map_scopes [] out = Some out"
| "map_scopes (s # ss) out =
     (case js_get V1_SCOPE_TO_CAPABILITIES s of
        Some caps \<Rightarrow> map_scopes ss (fold set_add caps out)
      | None \<Rightarrow>
          (if s \<in> set OBJECT_PROTOTYPE then None
           else map_scopes ss (if s \<in> set CAPABILITY_STRINGS then set_add s out else out)))"

definition mapV1ScopesToCapabilities :: "string list \<Rightarrow> capability list option" where
  "mapV1ScopesToCapabilities scopes = map_scopes scopes []"

definition valid_scope :: "json \<Rightarrow> bool" where
  "valid_scope v = (case v of
       JStr s \<Rightarrow> js_has V1_SCOPE_TO_CAPABILITIES s \<or> s \<in> set OBJECT_PROTOTYPE \<or> s \<in> set CAPABILITY_STRINGS
     | _ \<Rightarrow> False)"

definition partitionScopes :: "json list \<Rightarrow> string list \<times> string list" where
  "partitionScopes vs = (map as_str (filter valid_scope vs), map js_string (filter (\<lambda>v. \<not> valid_scope v) vs))"

definition resolveEffectiveCapabilities :: "string list \<Rightarrow> capability list option \<Rightarrow> capability list option" where
  "resolveEffectiveCapabilities scopes caps =
     (case caps of Some (c # cs) \<Rightarrow> Some (set_of (c # cs)) | _ \<Rightarrow> mapV1ScopesToCapabilities scopes)"

definition hasCapability :: "capability list \<Rightarrow> capability list \<Rightarrow> bool" where
  "hasCapability effective required \<longleftrightarrow>
     ''hub:admin'' \<in> set effective \<or> list_ex (\<lambda>c. c \<in> set effective) required"

definition canStartFlow :: "capability list \<Rightarrow> bool" where
  "canStartFlow caps = hasCapability caps [''flow:run'']"

definition canResolveGate :: "capability list \<Rightarrow> bool" where
  "canResolveGate caps = hasCapability caps [''flow:run'']"

section \<open>What an actor sees of a gate\<close>

record gate_visibility =
  gv_actor_id :: string
  gv_assignees :: "string list option"
  gv_can_read_space :: bool
  gv_space_name :: "string option"
  gv_space_id :: string

record gate_context =
  gx_visible :: bool
  gx_space_hidden :: bool
  gx_space_label :: string
  gx_space_link :: "string option"
  gx_action_name :: "string option"

definition nonempty :: "'a list option \<Rightarrow> bool" where
  "nonempty x = (case x of Some (_ # _) \<Rightarrow> True | _ \<Rightarrow> False)"

definition is_assignee :: "gate_visibility \<Rightarrow> bool" where
  "is_assignee v \<longleftrightarrow> \<not> nonempty (gv_assignees v) \<or> gv_actor_id v \<in> set (the (gv_assignees v))"

definition sanitizeGateContext :: "gate_visibility \<Rightarrow> string option \<Rightarrow> bool \<Rightarrow> gate_context" where
  "sanitizeGateContext v action_name federated =
     (if federated then
        \<lparr> gx_visible = True, gx_space_hidden = False, gx_space_label = ''Remote space'',
          gx_space_link = None, gx_action_name = action_name \<rparr>
      else if \<not> gv_can_read_space v \<and> \<not> is_assignee v then
        \<lparr> gx_visible = False, gx_space_hidden = True, gx_space_label = ''Private space'',
          gx_space_link = None, gx_action_name = None \<rparr>
      else if gv_can_read_space v then
        \<lparr> gx_visible = True, gx_space_hidden = False,
          gx_space_label = (case gv_space_name v of None \<Rightarrow> gv_space_id v | Some n \<Rightarrow> n),
          gx_space_link = Some (''/spaces/'' @ gv_space_id v), gx_action_name = action_name \<rparr>
      else
        \<lparr> gx_visible = True, gx_space_hidden = True, gx_space_label = ''Private space'',
          gx_space_link = None, gx_action_name = action_name \<rparr>)"

definition shouldNotifyActor :: "gate_visibility \<Rightarrow> bool" where
  "shouldNotifyActor v = gx_visible (sanitizeGateContext v None False)"

section \<open>Who is notified\<close>

datatype grant_status = GrantActive | GrantRevoked

record grant_row =
  gn_grant_id :: string
  gn_space_id :: string
  gn_actor_id :: string
  gn_scopes :: "string list"
  gn_capabilities :: "capability list option"
  gn_flow_acl :: "string list option"
  gn_status :: grant_status

datatype created_by = ByActor string | ByHook string | ByFlow string

definition grant_has :: "capability \<Rightarrow> grant_row \<Rightarrow> bool option" where
  "grant_has cap g =
     map_option (\<lambda>caps. hasCapability caps [cap])
       (resolveEffectiveCapabilities (gn_scopes g) (gn_capabilities g))"

definition grantHasFlowRun :: "grant_row \<Rightarrow> bool option" where
  "grantHasFlowRun g = grant_has ''flow:run'' g"

definition grantHasStepResolve :: "grant_row \<Rightarrow> bool option" where
  "grantHasStepResolve g = grant_has ''step:resolve'' g"

text \<open>The loop that adds the actor of every active grant with the capability.\<close>

fun add_holders :: "(grant_row \<Rightarrow> bool option) \<Rightarrow> grant_row list \<Rightarrow> string list \<Rightarrow> string list option" where
  "add_holders has [] recipients = Some recipients"
| "add_holders has (g # gs) recipients =
     (if gn_status g \<noteq> GrantActive then add_holders has gs recipients
      else case has g of
        None \<Rightarrow> None
      | Some b \<Rightarrow> add_holders has gs (if b then set_add (gn_actor_id g) recipients else recipients))"

definition resolveHumanStepNotificationRecipients :: "string list option \<Rightarrow> grant_row list \<Rightarrow> string list option" where
  "resolveHumanStepNotificationRecipients assignees grants =
     (if nonempty assignees then Some (set_of (the assignees)) else add_holders grantHasStepResolve grants [])"

definition resolveGateNotificationRecipients :: "string list option \<Rightarrow> grant_row list \<Rightarrow> string list option" where
  "resolveGateNotificationRecipients assignees grants =
     (if nonempty assignees then Some (set_of (the assignees)) else add_holders grantHasFlowRun grants [])"

definition resolveRunFailedNotificationRecipients ::
    "string option \<Rightarrow> created_by option \<Rightarrow> grant_row list \<Rightarrow> string list option" where
  "resolveRunFailedNotificationRecipients session_actor creator grants =
     add_holders grantHasFlowRun grants
       ((case creator of Some (ByActor a) \<Rightarrow> set_add a | _ \<Rightarrow> id)
         (if truthy_str session_actor then [the session_actor] else []))"

end
