(* ===== verification/FlowProperties.thy ===== *)
theory FlowProperties
  imports StepCompileProofs FlowGraphProofs ParseManifest Grants
begin

text \<open>
  The properties of flows, each with a concrete instance: parsing a manifest, compiling it to a
  catalog of steps and routes, the lints over the catalog, the graph of flow calls, and the contract
  a resolved branch is checked against.
\<close>

section \<open>A small flow\<close>

text \<open>A step with a nested child, and a step after it.\<close>

definition plain_step :: "string \<Rightarrow> flow_step list \<Rightarrow> flow_step" where
  "plain_step i children = FlowStep i None None children None None None []"

definition sample_flow :: flow_manifest where
  "sample_flow = \<lparr> fm_name = ''n'', fm_description = None,
     fm_triggers = \<lparr> sc_manual = None, sc_flow_call = None, sc_events = None, sc_schedule = None, sc_idempotency = None \<rparr>,
     fm_suggested = None, fm_steps = [plain_step ''a'' [plain_step ''b'' []], plain_step ''c'' []] \<rparr>"

definition no_digests :: content_digests where
  "no_digests = \<lparr> dg_graph = (\<lambda>_. ''g''), dg_catalog = (\<lambda>_. ''c''), dg_ir = (\<lambda>_. ''i'') \<rparr>"

definition any_schema :: ajv_compile where
  "any_schema = (\<lambda>_. Inr (\<lambda>_. None))"

definition sample_catalog :: step_catalog where
  "sample_catalog = the (cr_catalog (compileStepContractCatalog no_digests any_schema sample_flow ''f''))"

definition sample_raw :: json where
  "sample_raw = JObj [(''steps'', JArr [JObj [(''id'', JStr ''a''), (''steps'', JArr [JObj [(''id'', JStr ''b'')]])]])]"

lemma route_warning_step:
  "w \<in> set (snd (branch_routes n b row ids f)) \<Longrightarrow> wn_step_id w = Some (fr_qualifiedId row)"
  by (auto simp: branch_routes_def compileBranchRoutes_def resolveTopLevelDefaultRoutes_def no_control_def Let_def
      row_warning_def split: if_splits option.splits run_end.splits)

section \<open>Compiled catalogs\<close>

text \<open>
  C9. A compiled catalog is well formed: the parent of an entry is an entry; every branch has
  exactly one route; a nested entry never opens a step; and a route leads to an entry of the catalog
  unless the compiler reported the branch's target as missing or as no ancestor.
\<close>

theorem compiled_catalog_well_formed:
  assumes c: "cr_catalog (compileStepContractCatalog dg ajv m f) = Some c" and e: "e \<in> set (ct_entries c)"
  shows "ce_step_id e \<in> set (ct_step_ids c) \<and>
    (\<forall>p. ce_parent_id e = Some p \<longrightarrow> p \<in> set (ct_step_ids c)) \<and>
    (\<forall>(n, b)\<in>set (ce_branches e). \<exists>r. cb_routes b = [r] \<and>
       (ce_parent_id e \<noteq> None \<longrightarrow> rt_engine r \<noteq> Open) \<and>
       (\<forall>t. rt_step_id r = Some t \<longrightarrow> t \<in> set (ct_step_ids c) \<or>
          (\<exists>w\<in>set (cr_warnings (compileStepContractCatalog dg ajv m f)).
             wn_code w \<in> dangling_codes \<and> wn_step_id w = Some (ce_step_id e))))"
proof -
  let ?ids = "map fr_qualifiedId (flat_steps m)" and ?ws = "cr_warnings (compileStepContractCatalog dg ajv m f)"
  obtain row where row: "row \<in> set (flat_steps m)" and er: "e = fst (compile_entry ajv ?ids f row)"
    using e compiled_catalog(1) [OF c] by auto
  have ids: "ct_step_ids c = ?ids" by (rule compiled_catalog(2) [OF c])
  note flat = flat_steps_rows [OF row]
  have parents: "p \<in> set ?ids" if "fr_parentId row = Some p" for p using flat(2) that by simp
  have branch: "\<exists>r. cb_routes b = [r] \<and> (ce_parent_id e \<noteq> None \<longrightarrow> rt_engine r \<noteq> Open) \<and>
      (\<forall>t. rt_step_id r = Some t \<longrightarrow> t \<in> set ?ids \<or>
        (\<exists>w\<in>set ?ws. wn_code w \<in> dangling_codes \<and> wn_step_id w = Some (ce_step_id e)))"
    if nb: "(n, b) \<in> set (ce_branches e)" for n b
  proof -
    obtain d where cb: "cb_routes b = fst (branch_routes n d row ?ids f)"
      and sub: "set (snd (branch_routes n d row ?ids f)) \<subseteq> set (snd (compile_entry ajv ?ids f row))"
      using entry_branch [OF nb [unfolded er]] by blast
    obtain r ws where rw: "branch_routes n d row ?ids f = ([r], ws)" using branch_routes_unique by blast
    have nested: "rt_engine r \<noteq> Open" if "ce_parent_id e \<noteq> None"
      using nested_routes [OF _ rw, of r] that flat(1) er by auto
    have "t \<in> set ?ids" if "rt_step_id r = Some t" "\<forall>w\<in>set ws. wn_code w \<notin> dangling_codes" for t
      using branch_routes_closed [OF rw _ that] flat(1,3) parents by simp
    moreover have "wn_step_id w = Some (ce_step_id e)" "w \<in> set ?ws" if "w \<in> set ws" for w
      using that route_warning_step [of w n d row ?ids f] sub compiled_catalog(3) [OF c row] rw er by auto
    ultimately show ?thesis using cb rw nested by (metis fst_conv)
  qed
  have "ce_step_id e \<in> set ?ids" "\<And>p. ce_parent_id e = Some p \<Longrightarrow> p \<in> set ?ids" using row er parents by auto
  then show ?thesis unfolding ids using branch by blast
qed

theorem compiled_catalog_well_formed_witness:
  "map ce_step_id (ct_entries sample_catalog) = [''a'', ''a.b'', ''c''] \<and>
   list_all (\<lambda>e. ce_step_id e \<in> set (ct_step_ids sample_catalog)) (ct_entries sample_catalog)"
proof
  show "map ce_step_id (ct_entries sample_catalog) = [''a'', ''a.b'', ''c'']" by code_simp
  have c: "cr_catalog (compileStepContractCatalog no_digests any_schema sample_flow ''f'') = Some sample_catalog"
    by code_simp
  show "list_all (\<lambda>e. ce_step_id e \<in> set (ct_step_ids sample_catalog)) (ct_entries sample_catalog)"
    using compiled_catalog_well_formed [OF c] by (simp add: list_all_iff)
qed

text \<open>
  C10. The dead-step lint reports, in order, exactly the top-level steps that no sequence of open
  and resume routes leads to from the first one.
\<close>

theorem dead_steps_are_the_unreachable_ones:
  "map wn_step_id (lintDeadSteps es fid) =
     map (\<lambda>row. Some (ce_step_id row))
       (filter (\<lambda>row. (ce_step_id (hd (top_level es)), ce_step_id row) \<notin> (flow_edges (top_level es))\<^sup>*)
         (top_level es))"
  by (rule dead_steps_eq)

text \<open>
  Leaving the branches of a step out means exactly the two default branches: compiling the
  manifest with them written out gives the same catalog, digests and warnings.
\<close>

theorem omitted_branches_are_the_defaults:
  "compileStepContractCatalog dg ajv (explicit_defaults m) f = compileStepContractCatalog dg ajv m f"
  by (rule compile_explicit)

text \<open>
  With step ids that are not empty and contain no dot, the target of a \<open>resume\<close> passes the check
  exactly when it is an ancestor of the step in the tree of steps.
\<close>

theorem resume_targets_are_ancestors:
  assumes "plain_ids (fm_steps m)" and "row \<in> set (flat_steps m)" and "t \<in> fr_qualifiedId ` set (flat_steps m)"
  shows "isAncestorOf row t (map fr_qualifiedId (flat_steps m)) \<longleftrightarrow>
    tree_ancestor (flat_steps m) (fr_qualifiedId row) t"
  by (rule isAncestorOf_tree [OF flat_steps_tree [OF assms(1)] assms(2,3)])

theorem resume_targets_are_ancestors_witness:
  "let rows = flat_steps sample_flow in tree_ancestor rows (fr_qualifiedId (rows ! 1)) ''a''"
proof -
  let ?rows = "flat_steps sample_flow"
  have "plain_ids (fm_steps sample_flow)" "isAncestorOf (?rows ! 1) ''a'' (map fr_qualifiedId ?rows)"
    "''a'' \<in> fr_qualifiedId ` set ?rows" by code_simp+
  moreover have "?rows ! 1 \<in> set ?rows" by (rule nth_mem) code_simp
  ultimately show ?thesis
    unfolding Let_def using resume_targets_are_ancestors [of sample_flow "?rows ! 1" "''a''"] by simp
qed

section \<open>Flow calls\<close>

text \<open>
  C11. The cycle check is exact: without an error the call graph has no cycle, and the path of an
  error is a cycle of the graph, following its edges from a flow back to itself.
\<close>

theorem call_cycles_are_found:
  "case detectCycleInGraph g of
     None \<Rightarrow> acyclic (call_edges g)
   | Some c \<Rightarrow> 2 \<le> length c \<and> hd c = last c \<and> successively (\<lambda>a b. b \<in> set (graph_targets g a)) c"
  using detect_cycle_correct [of g] by (auto simp: call_cycle_def call_path_def split: option.splits)

text \<open>
  Both searches return. The depth of the cycle search is bounded by the number of flows named
  in the graph, and the dead-step search empties its queue within one round per step.
\<close>

theorem searches_return:
  "(\<exists>r st. dfs_targets (length (graph_nodes g) + 2) g (js_keys g) dfs_start = Some (r, st)) \<and>
   (\<exists>r. search (Suc (length (e # tops))) (by_id (e # tops)) ([ce_step_id e], [ce_step_id e]) = Some r)"
proof
  show "\<exists>r st. dfs_targets (length (graph_nodes g) + 2) g (js_keys g) dfs_start = Some (r, st)"
    by (rule detect_defined) blast
  show "\<exists>r. search (Suc (length (e # tops))) (by_id (e # tops)) ([ce_step_id e], [ce_step_id e]) = Some r"
    by (rule search_returns)
qed

section \<open>Parsing\<close>

text \<open>
  A manifest that parses has none of the removed fields at any depth of its raw steps: no
  removed key on a step, none on a branch, no deprecated step kind at the top level, no inline
  script, and, where every step has a name, no empty branch map.
\<close>

theorem parsed_manifests_are_clean:
  assumes "parseFlowManifest safeParse ajv raw = ParseOk m" and "raw_step (raw_steps raw) s"
  shows "(\<forall>k\<in>set REMOVED_STEP_KEYS. \<not> present s k) \<and>
    (\<forall>(name, b)\<in>set (raw_branches s). obj_like b \<longrightarrow> (\<forall>k\<in>set REMOVED_BRANCH_KEYS. \<not> present b k)) \<and>
    (s \<in> set (raw_steps raw) \<longrightarrow> (\<forall>k\<in>set LEGACY_STEP_KEYS. \<not> present s k) \<and>
       (\<forall>k\<in>set INLINE_SCRIPT_KEYS. js_member s k = None)) \<and>
    ((\<forall>c. raw_step (raw_steps raw) c \<longrightarrow> raw_id c \<noteq> []) \<longrightarrow> get_prop s ''branches'' \<noteq> JObj [])"
proof -
  note parts = parse_ok_parts [OF assms(1)]
  have "\<exists>q. own_removed q s = []" using parts(1) visit_removed_none assms(2) by (simp add: scanRawRemovedFields_def)
  moreover have "get_prop s ''branches'' \<noteq> JObj []" if "\<forall>c. raw_step (raw_steps raw) c \<longrightarrow> raw_id c \<noteq> []"
    using visit_empty_none [OF parts(3) assms(2) that] .
  moreover have "\<forall>k\<in>set LEGACY_STEP_KEYS. \<not> present s k" if "s \<in> set (raw_steps raw)"
    using legacy_none parts(2) that assms(2) by blast
  moreover have "\<forall>k\<in>set INLINE_SCRIPT_KEYS. js_member s k = None" if "s \<in> set (raw_steps raw)"
    using inline_none parts(4) that assms(2) by blast
  ultimately show ?thesis by (auto simp: own_removed_none)
qed


theorem parsed_manifests_are_clean_witness:
  "\<not> present (JObj [(''id'', JStr ''b'')]) ''role''"
proof -
  let ?b = "JObj [(''id'', JStr ''b'')]" and ?a = "JObj [(''id'', JStr ''a''), (''steps'', JArr [JObj [(''id'', JStr ''b'')]])]"
  have "parseFlowManifest (\<lambda>_. Inr sample_flow) any_schema sample_raw = ParseOk sample_flow" by code_simp
  moreover have "raw_step (raw_steps sample_raw) ?b"
  proof (rule raw_step.child)
    show "raw_step (raw_steps sample_raw) ?a" by (rule raw_step.top) code_simp+
    show "?b \<in> set (arr_prop ?a ''steps'')" "obj_like ?b" by code_simp+
  qed
  moreover have "''role'' \<in> set REMOVED_STEP_KEYS" by code_simp
  ultimately show ?thesis using parsed_manifests_are_clean by blast
qed

section \<open>Branch contracts\<close>

text \<open>
  C12. A branch resolution is accepted exactly when its payload passes the branch schema (or, without
  one, holds the required fields), every supplied slot is declared or an inherited name, and each
  declared slot is given files within its bounds: count, distinct valid names, sizes, media types,
  extensions and total size.
\<close>

theorem branch_contract_accepts:
  "validateBranchContract ajv c inp = None \<longleftrightarrow>
     payload_errors ajv (payloadSchemaForContract (bc_schema c) (required_slots c)) (required_payload c) (bi_payload inp) = []
     \<and> (\<forall>s\<in>set (js_keys (or_empty (bi_files inp))). js_has (or_empty (bc_artifact_slots c)) s \<or> s \<in> set OBJECT_PROTOTYPE)
     \<and> (\<forall>(slot, d)\<in>set (or_empty (bc_artifact_slots c)).
          slot_ok d (slot \<in> set (required_slots c)) (filesForSlot (bi_files inp) slot))"
  by (rule contract_accepts)

theorem branch_contract_accepts_witness:
  "slot_ok \<lparr> sl_description = None, sl_media_types = None, sl_extensions = None, sl_min_bytes = None, sl_max_bytes = Some 10,
       sl_min_files = None, sl_max_files = None, sl_max_total_bytes = None \<rparr> False
     [\<lparr> fl_name = ''x.txt'', fl_media_type = ''text/plain'', fl_size_bytes = 3 \<rparr>]"
proof -
  let ?d = "\<lparr> sl_description = None, sl_media_types = None, sl_extensions = None, sl_min_bytes = None, sl_max_bytes = Some 10,
       sl_min_files = None, sl_max_files = None, sl_max_total_bytes = None \<rparr>"
  let ?c = "\<lparr> bc_schema = None, bc_payload_required = None, bc_artifact_required = None, bc_artifact_slots = Some [(''log'', ?d)] \<rparr>"
  let ?i = "\<lparr> bi_payload = None, bi_files = Some [(''log'', OneFile \<lparr> fl_name = ''x.txt'', fl_media_type = ''text/plain'', fl_size_bytes = 3 \<rparr>)] \<rparr>"
  have "validateBranchContract any_schema ?c ?i = None" by code_simp
  then have "\<forall>(slot, d)\<in>set (or_empty (bc_artifact_slots ?c)).
      slot_ok d (slot \<in> set (required_slots ?c)) (filesForSlot (bi_files ?i) slot)"
    unfolding branch_contract_accepts by blast
  moreover have "set (required_slots ?c) = {}" by code_simp
  ultimately show ?thesis by (simp add: or_empty_def filesForSlot_def js_get_def)
qed

text \<open>
  The path of an artifact error is a JSON pointer that reads back to the slot and the index of
  the file, whatever characters the slot's name contains.
\<close>

theorem artifact_error_paths_read_back:
  "map unescape_pointer (split_on (CHR ''/'') (er_path (artifactError slot rule message index))) =
     ['''', ''files'', slot] @ (case index of None \<Rightarrow> [] | Some i \<Rightarrow> [nat_str i])"
  by (rule error_path_segments)

end
