(* ===== verification/Studio.thy ===== *)
theory Studio
  imports FlowGraph Grants
begin

text \<open>
  The hub's own persistence, the in-memory implementation
  \<open>hub-persistence/src/memory.ts\<close> (\<open>MemoryStudioPersistence\<close>): sessions, runs, step memos, gates and
  notifications, with the indexed run policies and flows of a space. Every operation is a function
  on the record of its maps. Ids are stored bare and looked up bare or prefixed. ISO timestamps are
  their milliseconds.
\<close>

datatype session_status = SsActive | SsCompleted | SsPartialFailure | SsFailed | SsCancelled

record session_row =
  ss_session_id :: string
  ss_title :: string
  ss_subject :: "string option"
  ss_status :: session_status
  ss_created_by :: created_by
  ss_spaces_touched :: "string list"
  ss_actor_id :: string
  ss_cancel_requested_at :: "nat option"

record run_row =
  rr_run_id :: string
  rr_session_id :: string
  rr_space_id :: "string option"
  rr_flow_id :: "string option"
  rr_flow_digest :: "string option"
  rr_lifecycle :: run_lifecycle
  rr_exec_context :: jobj
  rr_reference_run_ids :: "string list"
  rr_instance_id :: "string option"
  rr_started_at :: nat
  rr_ended_at :: "nat option"

datatype gate_status = GatePending | GateApproved | GateRejected | GateExpired

record gate_row =
  ga_gate_id :: string
  ga_run_id :: string
  ga_session_id :: string
  ga_space_id :: string
  ga_step_id :: string
  ga_status :: gate_status
  ga_assignees :: "string list option"
  ga_expires_at :: "nat option"
  ga_form :: "gate_form option"
  ga_payload_ref :: "string option"
  ga_action_name :: "string option"
  ga_created_at :: nat
  ga_resolved_at :: "nat option"
  ga_resolved_by :: "string option"
  ga_decision :: "string option"

datatype notification_status = NtPending | NtDismissed | NtResolved

record notification_row =
  nt_notification_id :: string
  nt_actor_id :: string
  nt_kind :: string
  nt_status :: notification_status
  nt_gate_id :: "string option"
  nt_step_id :: "string option"
  nt_run_id :: "string option"
  nt_session_id :: "string option"
  nt_space_id :: string
  nt_space_hidden :: bool
  nt_title :: string
  nt_summary :: "string option"
  nt_expires_at :: "nat option"
  nt_created_at :: nat
  nt_dismissed_at :: "nat option"
  nt_resolved_at :: "nat option"

record run_policy =
  rp_flow :: string
  rp_flow_id :: string
  rp_origin_space_id :: string
  rp_flow_digest :: string
  rp_max_concurrent_runs :: nat

record flow_index_entry =
  fe_flow_id :: string
  fe_origin_space_id :: string
  fe_name :: string
  fe_digest :: string
  fe_triggers :: "start_conditions option"
  fe_ir :: "flow_ir option"
  fe_catalog :: "step_catalog option"

datatype handler_type = ShellSpawn | McpSession | QueuePoll | RemoteHub | ViewResolver

text \<open>
  A handler's \<open>on\<close> is a step binding or an event filter: the type, the sources it accepts and the
  participant. A single source and a list of one are the same filter, and an empty source is no
  filter. Nothing modelled reads \<open>hs_config\<close>, the command, prompt and session it is run with;
  digests of handlers cover it.
\<close>

datatype handler_on = OnStep string | OnEvent string "string list option" "string option"

record handler_spec =
  hs_id :: string
  hs_on :: handler_on
  hs_type :: handler_type
  hs_view :: "string option"
  hs_params :: "jobj option"
  hs_config :: jobj

text \<open>
  A hook: an event filter and actions. The hook rows of a space are handlers, as \<open>HandlerSpecSchema\<close>
  parses them, hooks with their name, and rows that are neither.
\<close>

datatype hook_action =
    EnsureSession string "string option"
  | InvokeAction string "jobj option" "string option"
  | StartFlow string "jobj option"

record hook_spec =
  hk_type :: string
  hk_sources :: "string list option"
  hk_do :: "hook_action list"

datatype hook_row = HandlerRow handler_spec | HookRow string hook_spec | OtherRow

record persona_ad =
  pn_id :: string
  pn_summary :: string
  pn_asks :: "string list option"
  pn_requests :: "string list option"

text \<open>Host, path and the primary flag; the peer hub, its space and the primary flag.\<close>

datatype space_binding = LocalBinding string string bool | RemoteHubBinding string string bool

record space_names =
  sn_name :: "string option"
  sn_slug :: "string option"
  sn_active :: bool

record studio =
  sd_spaces :: "(string, space_names) jsmap"
  sd_grants :: "(string, grant_row) jsmap"
  sd_bindings :: "(string, space_binding list) jsmap"
  sd_hooks :: "(string, hook_row list) jsmap"
  sd_personas :: "(string, persona_ad list) jsmap"
  sd_run_policies :: "(string, run_policy list) jsmap"
  sd_flow_index :: "(string, flow_index_entry) jsmap"
  sd_sessions :: "(string, session_row) jsmap"
  sd_runs :: "(string, run_row) jsmap"
  sd_memos :: "(string, step_memo) jsmap"
  sd_gates :: "(string, gate_row) jsmap"
  sd_notifications :: "(string, notification_row) jsmap"

section \<open>Ids\<close>

text \<open>\<open>id.startsWith("spc_") ? id.slice(4) : id\<close> and its kin.\<close>

definition bare_with :: "string \<Rightarrow> string \<Rightarrow> string" where
  "bare_with prefix i = (if starts_with i prefix then drop (length prefix) i else i)"

definition bareSpaceId :: "string \<Rightarrow> string" where
  "bareSpaceId i = bare_with ''spc_'' i"

definition bareSessionId :: "string \<Rightarrow> string" where
  "bareSessionId i = bare_with ''ses_'' i"

definition bareRunId :: "string \<Rightarrow> string" where
  "bareRunId i = (if starts_with i ''run_'' then drop 4 i else bare_with ''ins_'' i)"

text \<open>\<open>bridge/ids.ts\<close>: cut at the first underscore, whatever is before it.\<close>

definition stripPrefix :: "string \<Rightarrow> string" where
  "stripPrefix i = (if CHR ''_'' \<in> set i then tl (dropWhile (\<lambda>c. c \<noteq> CHR ''_'') i) else i)"

definition addSpaceId :: "string \<Rightarrow> string" where
  "addSpaceId bare = ''spc_'' @ bare"

section \<open>Lookups\<close>

definition listGrants :: "studio \<Rightarrow> string \<Rightarrow> grant_row list" where
  "listGrants st space_id = filter (\<lambda>g. gn_space_id g = space_id) (js_values (sd_grants st))"

definition getSpace :: "studio \<Rightarrow> string \<Rightarrow> space_names option" where
  "getSpace st space_id = js_get (sd_spaces st) space_id"

definition listIndexedRunPolicies :: "studio \<Rightarrow> string \<Rightarrow> run_policy list" where
  "listIndexedRunPolicies st space_id = opt_default [] (js_get (sd_run_policies st) (bareSpaceId space_id))"

text \<open>The ids of the active spaces, in the order they were added.\<close>

definition listSpaces :: "studio \<Rightarrow> string list" where
  "listSpaces st = js_keys (filter (\<lambda>(_, n). sn_active n) (sd_spaces st))"

definition listIndexedHooks :: "studio \<Rightarrow> string \<Rightarrow> hook_row list" where
  "listIndexedHooks st space_id = opt_default [] (js_get (sd_hooks st) (bareSpaceId space_id))"

definition handlers_of :: "hook_row list \<Rightarrow> handler_spec list" where
  "handlers_of rows = List.map_filter (\<lambda>r. case r of HandlerRow hs \<Rightarrow> Some hs | _ \<Rightarrow> None) rows"

definition listIndexedPersonas :: "studio \<Rightarrow> string \<Rightarrow> persona_ad list" where
  "listIndexedPersonas st space_id = opt_default [] (js_get (sd_personas st) (bareSpaceId space_id))"

definition getSpaceBindings :: "studio \<Rightarrow> string \<Rightarrow> space_binding list" where
  "getSpaceBindings st space_id = opt_default [] (js_get (sd_bindings st) (bareSpaceId space_id))"

definition setSpaceBindings :: "string \<Rightarrow> space_binding list \<Rightarrow> studio \<Rightarrow> studio" where
  "setSpaceBindings space_id bs st = st\<lparr> sd_bindings := js_set (bareSpaceId space_id) bs (sd_bindings st) \<rparr>"

definition flowIndexKey :: "string \<Rightarrow> string \<Rightarrow> string" where
  "flowIndexKey origin flow_id = bareSpaceId origin @ '':'' @ flow_id"

definition getFlowIndexEntry :: "studio \<Rightarrow> string \<Rightarrow> string option \<Rightarrow> flow_index_entry option" where
  "getFlowIndexEntry st flow_id origin =
     (if truthy_str origin then js_get (sd_flow_index st) (flowIndexKey (the origin) flow_id)
      else find (\<lambda>e. fe_flow_id e = flow_id) (js_values (sd_flow_index st)))"

section \<open>Sessions\<close>

definition insertSession :: "session_row \<Rightarrow> studio \<Rightarrow> studio" where
  "insertSession row st = st\<lparr> sd_sessions := js_set (ss_session_id row) row (sd_sessions st) \<rparr>"

definition getSession :: "studio \<Rightarrow> string \<Rightarrow> session_row option" where
  "getSession st i = js_get (sd_sessions st) (bareSessionId i)"

definition listSessions :: "studio \<Rightarrow> string option \<Rightarrow> session_status option \<Rightarrow> session_row list" where
  "listSessions st space_id status =
     filter (\<lambda>s. (status = None \<or> status = Some (ss_status s))
               \<and> (\<not> truthy_str space_id \<or> the space_id \<in> set (ss_spaces_touched s)))
       (js_values (sd_sessions st))"

text \<open>The pattern of every update: look up the row, and replace it if it is there.\<close>

definition map_at :: "'k \<Rightarrow> ('v \<Rightarrow> 'v) \<Rightarrow> ('k, 'v) jsmap \<Rightarrow> ('k, 'v) jsmap" where
  "map_at k f m = (case js_get m k of None \<Rightarrow> m | Some v \<Rightarrow> js_set k (f v) m)"

definition updateSessionStatus :: "string \<Rightarrow> session_status \<Rightarrow> studio \<Rightarrow> studio" where
  "updateSessionStatus i status st =
     st\<lparr> sd_sessions := map_at (bareSessionId i) (\<lambda>s. s\<lparr> ss_status := status \<rparr>) (sd_sessions st) \<rparr>"

definition markSessionCancelRequested :: "string \<Rightarrow> nat \<Rightarrow> studio \<Rightarrow> studio" where
  "markSessionCancelRequested i at st =
     st\<lparr> sd_sessions := map_at (bareSessionId i)
          (\<lambda>s. s\<lparr> ss_cancel_requested_at := Some at, ss_status := SsCancelled \<rparr>) (sd_sessions st) \<rparr>"

definition updateSessionSpacesTouched :: "string \<Rightarrow> string list \<Rightarrow> studio \<Rightarrow> studio" where
  "updateSessionSpacesTouched i spaces st =
     st\<lparr> sd_sessions := map_at (bareSessionId i) (\<lambda>s. s\<lparr> ss_spaces_touched := spaces \<rparr>) (sd_sessions st) \<rparr>"

section \<open>Runs\<close>

definition insertRun :: "run_row \<Rightarrow> studio \<Rightarrow> studio" where
  "insertRun row st = st\<lparr> sd_runs := js_set (rr_run_id row) row (sd_runs st) \<rparr>"

definition getRun :: "studio \<Rightarrow> string \<Rightarrow> run_row option" where
  "getRun st i = js_get (sd_runs st) (bareRunId i)"

definition listRunsBySession :: "studio \<Rightarrow> string \<Rightarrow> run_row list" where
  "listRunsBySession st i = filter (\<lambda>r. rr_session_id r = bareSessionId i) (js_values (sd_runs st))"

record run_filter =
  rf_space_id :: "string option"
  rf_flow_id :: "string option"
  rf_lifecycles :: "run_lifecycle list"
  rf_limit :: nat

definition run_matches :: "run_filter \<Rightarrow> run_row \<Rightarrow> bool" where
  "run_matches f r \<longleftrightarrow>
     (\<not> truthy_str (rf_space_id f)
        \<or> rr_space_id r = Some (bareSpaceId (the (rf_space_id f))) \<or> rr_space_id r = rf_space_id f)
     \<and> (\<not> truthy_str (rf_flow_id f) \<or> rr_flow_id r = rf_flow_id f)
     \<and> (rf_lifecycles f = [] \<or> rr_lifecycle r \<in> set (rf_lifecycles f))"

text \<open>Newest first; the sort is stable. A limit of zero is no limit.\<close>

definition listRuns :: "studio \<Rightarrow> run_filter \<Rightarrow> run_row list" where
  "listRuns st f =
     (let rows = sort_key (\<lambda>r. - int (rr_started_at r)) (filter (run_matches f) (js_values (sd_runs st))) in
      if rf_limit f \<noteq> 0 then take (rf_limit f) rows else rows)"

definition updateRunLifecycle :: "string \<Rightarrow> run_lifecycle \<Rightarrow> nat option \<Rightarrow> studio \<Rightarrow> studio" where
  "updateRunLifecycle i l ended st =
     st\<lparr> sd_runs := map_at (bareRunId i)
          (\<lambda>r. r\<lparr> rr_lifecycle := l, rr_ended_at := (case ended of None \<Rightarrow> rr_ended_at r | Some t \<Rightarrow> Some t) \<rparr>)
          (sd_runs st) \<rparr>"

definition updateRunExecContext :: "string \<Rightarrow> jobj \<Rightarrow> studio \<Rightarrow> studio" where
  "updateRunExecContext i ctx st =
     st\<lparr> sd_runs := map_at (bareRunId i) (\<lambda>r. r\<lparr> rr_exec_context := ctx \<rparr>) (sd_runs st) \<rparr>"

definition updateRunFlowBinding :: "string \<Rightarrow> string \<Rightarrow> string \<Rightarrow> jobj option \<Rightarrow> studio \<Rightarrow> studio" where
  "updateRunFlowBinding i flow_id digest ctx st =
     st\<lparr> sd_runs := map_at (bareRunId i)
          (\<lambda>r. r\<lparr> rr_flow_id := Some flow_id, rr_flow_digest := Some digest,
                  rr_exec_context := opt_default (rr_exec_context r) ctx \<rparr>) (sd_runs st) \<rparr>"

definition findRunByFlowKey :: "studio \<Rightarrow> string \<Rightarrow> string \<Rightarrow> run_row option" where
  "findRunByFlowKey st flow_id key =
     find (\<lambda>r. rr_flow_id r = Some flow_id
             \<and> rr_lifecycle r \<in> {RWorking, RInputRequired, RFailed, RCompleted}
             \<and> prop_of (rr_exec_context r) ''_run_key'' = JStr key) (js_values (sd_runs st))"

definition findRunByIdempotencyKey :: "studio \<Rightarrow> string \<Rightarrow> run_row option" where
  "findRunByIdempotencyKey st key =
     find (\<lambda>r. prop_of (rr_exec_context r) ''idempotency_key'' = JStr key) (js_values (sd_runs st))"

section \<open>Step memos\<close>

definition memo_key :: "string \<Rightarrow> string \<Rightarrow> string" where
  "memo_key run_id step_id = bare_with ''run_'' run_id @ '':'' @ step_id"

definition upsertRunStepMemo :: "step_memo \<Rightarrow> studio \<Rightarrow> studio" where
  "upsertRunStepMemo memo st =
     st\<lparr> sd_memos := js_set (memo_key (me_run_id memo) (me_step_id memo)) memo (sd_memos st) \<rparr>"

definition memo_working :: "studio \<Rightarrow> string \<Rightarrow> string \<Rightarrow> bool" where
  "memo_working st run_id step_id =
     (case js_get (sd_memos st) (memo_key run_id step_id) of None \<Rightarrow> False | Some m \<Rightarrow> me_status m = SWorking)"

text \<open>The parent yields to one child, or back: refused unless the parent works and no declared child does.\<close>

definition transitionNestedChild ::
    "string \<Rightarrow> jobj \<Rightarrow> step_memo \<Rightarrow> step_memo \<Rightarrow> string list \<Rightarrow> studio \<Rightarrow> bool \<times> studio" where
  "transitionNestedChild run_id ctx parent child declared st =
     (if \<not> memo_working st run_id (me_step_id parent) then (False, st)
      else if list_ex (memo_working st run_id) declared then (False, st)
      else case js_get (sd_runs st) (bare_with ''run_'' run_id) of
        None \<Rightarrow> (False, st)
      | Some run \<Rightarrow>
          (True, st\<lparr> sd_runs := js_set (bare_with ''run_'' run_id) (run\<lparr> rr_exec_context := ctx \<rparr>) (sd_runs st),
                   sd_memos := js_set (memo_key run_id (me_step_id child)) child
                     (js_set (memo_key run_id (me_step_id parent)) parent (sd_memos st)) \<rparr>))"

definition ends_with :: "string \<Rightarrow> string \<Rightarrow> bool" where
  "ends_with s p = starts_with (rev s) (rev p)"

text \<open>A memo belongs to the run when its run id is the prefixed id, or merely ends in the bare one.\<close>

definition listRunStepMemos :: "studio \<Rightarrow> string \<Rightarrow> step_memo list" where
  "listRunStepMemos st run_id =
     (let bare = bare_with ''run_'' run_id in
      filter (\<lambda>m. me_run_id m = ''run_'' @ bare \<or> ends_with (me_run_id m) bare) (js_values (sd_memos st)))"

definition getRunStepMemoByIdempotencyKey :: "studio \<Rightarrow> string \<Rightarrow> step_memo option" where
  "getRunStepMemoByIdempotencyKey st key =
     find (\<lambda>m. me_idempotency_key m = Some key) (js_values (sd_memos st))"

definition deleteRunStepMemos :: "string \<Rightarrow> studio \<Rightarrow> studio" where
  "deleteRunStepMemos run_id st =
     st\<lparr> sd_memos := filter (\<lambda>(k, _). \<not> starts_with k (bare_with ''run_'' run_id @ '':'')) (sd_memos st) \<rparr>"

section \<open>Gates and notifications\<close>

definition insertGate :: "gate_row \<Rightarrow> studio \<Rightarrow> studio" where
  "insertGate row st = st\<lparr> sd_gates := js_set (ga_gate_id row) row (sd_gates st) \<rparr>"

definition getGate :: "studio \<Rightarrow> string \<Rightarrow> gate_row option" where
  "getGate st i = js_get (sd_gates st) (bare_with ''gate_'' i)"

definition listGatesByRun :: "studio \<Rightarrow> string \<Rightarrow> gate_row list" where
  "listGatesByRun st run_id = filter (\<lambda>g. ga_run_id g = bare_with ''run_'' run_id) (js_values (sd_gates st))"

definition listPendingGates :: "studio \<Rightarrow> string option \<Rightarrow> string option \<Rightarrow> gate_row list" where
  "listPendingGates st run_id session_id =
     filter (\<lambda>g. ga_status g = GatePending
         \<and> (\<not> truthy_str run_id \<or> ga_run_id g = bare_with ''run_'' (the run_id))
         \<and> (\<not> truthy_str session_id \<or> ga_session_id g = bareSessionId (the session_id)))
       (js_values (sd_gates st))"

definition updateGateStatus ::
    "string \<Rightarrow> gate_status \<Rightarrow> nat option \<Rightarrow> string option \<Rightarrow> string option \<Rightarrow> studio \<Rightarrow> studio" where
  "updateGateStatus i status resolved_at resolved_by decision st =
     st\<lparr> sd_gates := map_at (bare_with ''gate_'' i)
          (\<lambda>g. g\<lparr> ga_status := status, ga_resolved_at := resolved_at, ga_resolved_by := resolved_by,
                  ga_decision := decision \<rparr>) (sd_gates st) \<rparr>"

definition insertNotification :: "notification_row \<Rightarrow> studio \<Rightarrow> studio" where
  "insertNotification row st =
     st\<lparr> sd_notifications := js_set (nt_notification_id row) row (sd_notifications st) \<rparr>"

text \<open>The loops over all notifications that resolve the pending ones \<open>P\<close> selects.\<close>

definition resolve_pending :: "(notification_row \<Rightarrow> bool) \<Rightarrow> nat \<Rightarrow> studio \<Rightarrow> studio" where
  "resolve_pending P at st =
     st\<lparr> sd_notifications :=
          map (\<lambda>(i, n). (i, if P n \<and> nt_status n = NtPending
                            then n\<lparr> nt_status := NtResolved, nt_resolved_at := Some at \<rparr> else n))
            (sd_notifications st) \<rparr>"

definition resolveNotificationsForRunStep :: "string \<Rightarrow> string \<Rightarrow> nat \<Rightarrow> studio \<Rightarrow> studio" where
  "resolveNotificationsForRunStep run_id step_id at =
     resolve_pending (\<lambda>n. nt_run_id n = Some (bare_with ''run_'' run_id) \<and> nt_step_id n = Some step_id) at"

definition resolveNotificationsForGate :: "string \<Rightarrow> nat \<Rightarrow> studio \<Rightarrow> studio" where
  "resolveNotificationsForGate gate_id at =
     resolve_pending (\<lambda>n. nt_gate_id n = Some (bare_with ''gate_'' gate_id)) at"

definition dismissNotification :: "string \<Rightarrow> string \<Rightarrow> nat \<Rightarrow> studio \<Rightarrow> studio" where
  "dismissNotification i actor at st =
     (case js_get (sd_notifications st) i of
        None \<Rightarrow> st
      | Some n \<Rightarrow>
          if nt_actor_id n = actor
          then st\<lparr> sd_notifications := js_set i (n\<lparr> nt_status := NtDismissed, nt_dismissed_at := Some at \<rparr>)
                     (sd_notifications st) \<rparr>
          else st)"

definition countPendingNotifications :: "studio \<Rightarrow> string \<Rightarrow> nat" where
  "countPendingNotifications st actor =
     length (filter (\<lambda>n. nt_actor_id n = actor \<and> nt_status n = NtPending) (js_values (sd_notifications st)))"

end
