(* ===== verification/RunService.thy ===== *)
theory RunService
  imports Studio
begin

text \<open>
  Sessions and runs, from \<open>hub-core/src/\<close>: the session status derived from its runs
  (\<open>session/status.ts\<close>, \<open>session/index.ts\<close>), lifecycles and ids (\<open>run/lifecycle.ts\<close>), admission under
  the capacity policy (\<open>run/admission.ts\<close>) and the run service (\<open>run/service.ts\<close>). The state is the
  studio store with a log of the journal entries appended through the hub handler and a log of
  executor terminations. Creating an aggregate for a run goes through the command kernel and is a
  parameter, as is the id generator. The per-space guard makes each operation one step.
\<close>

section \<open>Session status and run lifecycle\<close>

definition TERMINAL :: "run_lifecycle list" where "TERMINAL = [RCompleted, RFailed, RCancelled]"
definition ACTIVE :: "run_lifecycle list" where "ACTIVE = [RWorking, RInputRequired]"

definition deriveSessionStatus :: "run_lifecycle list \<Rightarrow> bool \<Rightarrow> session_status" where
  "deriveSessionStatus ls cancelRequested =
     (if cancelRequested \<and> list_all (\<lambda>l. l \<in> set TERMINAL) ls then SsCancelled
      else if ls = [] then (if cancelRequested then SsCancelled else SsActive)
      else if list_ex (\<lambda>l. l \<in> set ACTIVE) ls then SsActive
      else if list_all (\<lambda>l. l = RCompleted) ls then SsCompleted
      else if list_all (\<lambda>l. l = RFailed \<or> l = RCancelled) ls
        then (if list_all (\<lambda>l. l = RCancelled) ls then SsCancelled else SsFailed)
      else if list_all (\<lambda>l. l \<in> set TERMINAL) ls then SsPartialFailure
      else SsActive)"

definition any_of :: "string \<Rightarrow> string list \<Rightarrow> bool" where
  "any_of s ps \<longleftrightarrow> list_ex (str_includes s) ps"

definition instanceStateToLifecycle :: "string \<Rightarrow> run_lifecycle" where
  "instanceStateToLifecycle state =
     (let s = to_lower state in
      if any_of s [''cancel''] then RCancelled
      else if any_of s [''fail'', ''error''] then RFailed
      else if any_of s [''input'', ''pending'', ''gate'', ''wait''] then RInputRequired
      else if any_of s [''complete'', ''resolved'', ''done'', ''converged''] then RCompleted
      else RWorking)"

definition assertRunNotTerminal :: "run_lifecycle \<Rightarrow> string option" where
  "assertRunNotTerminal l = (if isRunTerminal l then Some ''RUN_TERMINAL'' else None)"

definition runIdToInstanceId :: "string \<Rightarrow> string" where
  "runIdToInstanceId i = ''ins_'' @ bare_with ''run_'' i"

definition instanceIdToRunBare :: "string \<Rightarrow> string" where
  "instanceIdToRunBare i =
     (if starts_with i ''ins_'' then drop 4 i else if starts_with i ''run_'' then drop 4 i else i)"

definition prefixed :: "string \<Rightarrow> string \<Rightarrow> string" where
  "prefixed prefix bare = prefix @ ''_'' @ bare"

definition with_prefix :: "string \<Rightarrow> string \<Rightarrow> string" where
  "with_prefix p i = (if starts_with i p then i else p @ i)"

definition prefixedRun :: "string \<Rightarrow> string" where "prefixedRun i = with_prefix ''run_'' i"
definition prefixedSession :: "string \<Rightarrow> string" where "prefixedSession i = with_prefix ''ses_'' i"

section \<open>What clients see\<close>

record session_dto =
  sv_session_id :: string
  sv_title :: string
  sv_subject :: "string option"
  sv_status :: session_status
  sv_created_by :: created_by
  sv_spaces_touched :: "string list"

record run_dto =
  rv_run_id :: string
  rv_session_id :: string
  rv_space_id :: "string option"
  rv_flow_id :: "string option"
  rv_flow_digest :: "string option"
  rv_lifecycle :: run_lifecycle
  rv_exec_context :: jobj
  rv_reference_run_ids :: "string list"
  rv_started_at :: nat
  rv_ended_at :: "nat option"

definition toSessionDto :: "session_row \<Rightarrow> session_dto" where
  "toSessionDto s = \<lparr>
     sv_session_id = prefixed ''ses'' (ss_session_id s), sv_title = ss_title s, sv_subject = ss_subject s,
     sv_status = ss_status s, sv_created_by = ss_created_by s,
     sv_spaces_touched = map (\<lambda>i. if starts_with i ''spc_'' then i else addSpaceId i) (ss_spaces_touched s) \<rparr>"

definition space_id_dto :: "string option \<Rightarrow> string option" where
  "space_id_dto i =
     (if truthy_str i then Some (if starts_with (the i) ''spc_'' then the i else addSpaceId (the i)) else None)"

definition toRunDto :: "run_row \<Rightarrow> run_dto" where
  "toRunDto r = \<lparr>
     rv_run_id = prefixed ''run'' (rr_run_id r), rv_session_id = prefixed ''ses'' (rr_session_id r),
     rv_space_id = space_id_dto (rr_space_id r), rv_flow_id = rr_flow_id r, rv_flow_digest = rr_flow_digest r,
     rv_lifecycle = rr_lifecycle r, rv_exec_context = js_delete ''_flow_snapshot'' (rr_exec_context r),
     rv_reference_run_ids = map (\<lambda>i. prefixed ''run'' (stripPrefix i)) (rr_reference_run_ids r),
     rv_started_at = rr_started_at r, rv_ended_at = rr_ended_at r \<rparr>"

section \<open>The hub state\<close>

record journal_call =
  jc_type :: string
  jc_space_id :: string
  jc_session_id :: "string option"
  jc_run_id :: "string option"
  jc_actor_id :: string
  jc_token_id :: string
  jc_data :: jobj

text \<open>What the hub asks of code outside the model, in the order it asks.\<close>

record step_dispatch =
  dp_step_id :: string
  dp_space_id :: string
  dp_action_name :: string
  dp_params :: "jobj option"

record dispatch_call =
  dc_dispatch :: "step_dispatch list"
  dc_session_id :: string
  dc_run_id :: string
  dc_actor_id :: string
  dc_token_id :: string

record meeting_call =
  mc_facet :: jobj
  mc_exec_context :: jobj
  mc_session_id :: string
  mc_run_id :: string
  mc_step_id :: string
  mc_title :: string
  mc_actor_id :: string
  mc_token_id :: string
  mc_space_id :: string

datatype hub_effect =
    StepExecutorCancelled string string
  | StepCredentialsRevoked string string
  | StepsDispatched dispatch_call
  | MeetingConvened meeting_call

record hub =
  hb_studio :: studio
  hb_journal :: "journal_call list"
  hb_terminated :: "(string \<times> string) list"
  hb_effects :: "hub_effect list"
  hb_now :: nat
  hb_next_id :: nat

record session_run_deps =
  rd_ulid :: "nat \<Rightarrow> string"
  rd_instance_create :: "string \<Rightarrow> string \<Rightarrow> string \<Rightarrow> jobj option \<Rightarrow> jobj option"

type_synonym 'a hub_op = "(hub, 'a) state"

definition studio_do :: "(studio \<Rightarrow> studio) \<Rightarrow> unit hub_op" where
  "studio_do f = act (\<lambda>h. h\<lparr> hb_studio := f (hb_studio h) \<rparr>)"

definition studio_ask :: "(studio \<Rightarrow> 'a) \<Rightarrow> 'a hub_op" where
  "studio_ask f = ask (\<lambda>h. f (hb_studio h))"

definition nowIso :: "nat hub_op" where
  "nowIso = ask hb_now"

definition ulid :: "session_run_deps \<Rightarrow> string hub_op" where
  "ulid deps = State (\<lambda>h. (rd_ulid deps (hb_next_id h), h\<lparr> hb_next_id := Suc (hb_next_id h) \<rparr>))"

definition append_journal :: "journal_call \<Rightarrow> unit hub_op" where
  "append_journal c = act (\<lambda>h. h\<lparr> hb_journal := hb_journal h @ [c] \<rparr>)"

definition terminateRunExecutors :: "string \<Rightarrow> string \<Rightarrow> unit hub_op" where
  "terminateRunExecutors run_id reason = act (\<lambda>h. h\<lparr> hb_terminated := hb_terminated h @ [(run_id, reason)] \<rparr>)"

text \<open>\<open>Threw\<close> is an exception leaving the operation.\<close>

record admission_error =
  ax_message :: string
  ax_flow_id :: string
  ax_flow_name :: string
  ax_origin_space_id :: string
  ax_flow_digest :: string
  ax_max_concurrent_runs :: nat
  ax_active_run_ids :: "string list"

datatype 'a reply = Reply 'a | Refused string string | AtCapacity admission_error | Threw

section \<open>Sessions\<close>

definition refreshSessionStatus :: "string \<Rightarrow> session_status hub_op" where
  "refreshSessionStatus session_id =
     do {
       let bare = stripPrefix session_id;
       session \<leftarrow> studio_ask (\<lambda>st. getSession st bare);
       case session of
         None \<Rightarrow> State_Monad.return SsActive
       | Some s \<Rightarrow> do {
           runs \<leftarrow> studio_ask (\<lambda>st. listRunsBySession st bare);
           let status = deriveSessionStatus (map rr_lifecycle runs) (ss_cancel_requested_at s \<noteq> None);
           _ \<leftarrow> (if status \<noteq> ss_status s then studio_do (updateSessionStatus bare status) else skip);
           State_Monad.return status
         }
     }"

definition getSessionWithStatus :: "string \<Rightarrow> session_dto option hub_op" where
  "getSessionWithStatus session_id =
     do {
       let bare = stripPrefix session_id;
       row \<leftarrow> studio_ask (\<lambda>st. getSession st bare);
       case row of
         None \<Rightarrow> State_Monad.return None
       | Some r \<Rightarrow> do {
           status \<leftarrow> refreshSessionStatus bare;
           State_Monad.return (Some (toSessionDto (r\<lparr> ss_status := status \<rparr>)))
         }
     }"

fun refresh_each :: "session_status option \<Rightarrow> session_row list \<Rightarrow> session_dto list hub_op" where
  "refresh_each want [] = State_Monad.return []"
| "refresh_each want (row # rows) =
     do {
       status \<leftarrow> refreshSessionStatus (ss_session_id row);
       rest \<leftarrow> refresh_each want rows;
       State_Monad.return
         (if want \<noteq> None \<and> want \<noteq> Some status then rest else toSessionDto (row\<lparr> ss_status := status \<rparr>) # rest)
     }"

definition listSessionsFiltered :: "session_status option \<Rightarrow> string option \<Rightarrow> session_dto list hub_op" where
  "listSessionsFiltered status space_id =
     do {
       rows \<leftarrow> studio_ask (\<lambda>st. listSessions st
         (if truthy_str space_id then Some (stripPrefix (the space_id)) else None) status);
       refresh_each status rows
     }"

record create_session_input =
  cs_title :: string
  cs_subject :: "string option"
  cs_actor_id :: string
  cs_token_id :: string
  cs_space_id :: "string option"
  cs_created_by :: "created_by option"

definition createSession :: "session_run_deps \<Rightarrow> create_session_input \<Rightarrow> session_dto hub_op" where
  "createSession deps inp =
     do {
       session_id \<leftarrow> ulid deps;
       let row = \<lparr> ss_session_id = session_id, ss_title = cs_title inp, ss_subject = cs_subject inp,
         ss_status = SsActive, ss_created_by = opt_default (ByActor (cs_actor_id inp)) (cs_created_by inp),
         ss_spaces_touched = (if truthy_str (cs_space_id inp) then [stripPrefix (the (cs_space_id inp))] else []),
         ss_actor_id = cs_actor_id inp, ss_cancel_requested_at = None \<rparr>;
       _ \<leftarrow> studio_do (insertSession row);
       _ \<leftarrow> (if truthy_str (cs_space_id inp) then append_journal \<lparr>
           jc_type = ''mrmr.session.created'', jc_space_id = the (cs_space_id inp),
           jc_session_id = Some (''ses_'' @ session_id), jc_run_id = None,
           jc_actor_id = cs_actor_id inp, jc_token_id = cs_token_id inp,
           jc_data = [(''title'', JStr (cs_title inp)), (''subject'', opt_str (cs_subject inp))] \<rparr>
         else skip);
       State_Monad.return (toSessionDto row)
     }"

section \<open>Admission\<close>

definition NON_TERMINAL_LIFECYCLES :: "run_lifecycle list" where
  "NON_TERMINAL_LIFECYCLES = [RWorking, RInputRequired]"

definition active_runs :: "studio \<Rightarrow> string \<Rightarrow> string option \<Rightarrow> run_row list" where
  "active_runs st space_bare flow_id =
     listRuns st \<lparr> rf_space_id = Some space_bare, rf_flow_id = flow_id,
       rf_lifecycles = NON_TERMINAL_LIFECYCLES, rf_limit = 0 \<rparr>"

text \<open>\<open>None\<close> admits the run.\<close>

definition admitFlowRun :: "studio \<Rightarrow> string \<Rightarrow> string \<Rightarrow> admission_error option" where
  "admitFlowRun st space_id flow_id =
     (let space_bare = bareSpaceId space_id in
      case find (\<lambda>p. rp_flow_id p = flow_id) (listIndexedRunPolicies st space_bare) of
        None \<Rightarrow> None
      | Some p \<Rightarrow>
          (let active = active_runs st space_bare (Some flow_id); limit = rp_max_concurrent_runs p in
           if limit \<le> length active
           then Some \<lparr>
             ax_message = ''Flow '' @ quoted (rp_flow p) @ '' is at capacity ('' @ nat_str limit @ '' concurrent run''
               @ (if limit = 1 then '''' else ''s'') @ '' allowed)'',
             ax_flow_id = rp_flow_id p, ax_flow_name = rp_flow p, ax_origin_space_id = rp_origin_space_id p,
             ax_flow_digest = rp_flow_digest p, ax_max_concurrent_runs = limit,
             ax_active_run_ids = map (\<lambda>r. prefixedRun (rr_run_id r)) active \<rparr>
           else None))"

definition assertSpaceQuiescent :: "studio \<Rightarrow> string \<Rightarrow> string list option" where
  "assertSpaceQuiescent st space_id =
     (let active = active_runs st (bareSpaceId space_id) None in
      if active = [] then None else Some (map (\<lambda>r. prefixedRun (rr_run_id r)) active))"

section \<open>Creating runs\<close>

record create_run_input =
  ci_session_id :: string
  ci_space_id :: "string option"
  ci_flow_id :: "string option"
  ci_flow_digest :: "string option"
  ci_input_params :: "jobj option"
  ci_reference_run_ids :: "string list option"
  ci_actor_id :: string
  ci_token_id :: string
  ci_capabilities :: "capability list"
  ci_contract_ref_id :: "string option"
  ci_metadata :: "jobj option"
  ci_from_step_id :: "string option"

text \<open>The aggregate created for the run: its bare id becomes the run id.\<close>

definition instance_for ::
    "session_run_deps \<Rightarrow> create_run_input \<Rightarrow> string \<Rightarrow> string option option" where
  "instance_for deps inp run_id =
     (if truthy_str (ci_contract_ref_id inp) \<and> truthy_str (ci_space_id inp) then
        (case rd_instance_create deps (the (ci_space_id inp)) (ci_actor_id inp) (the (ci_contract_ref_id inp))
                (ci_metadata inp) of
           None \<Rightarrow> None
         | Some body \<Rightarrow>
             (let i = prop_of body ''instance_id''; a = prop_of body ''aggregate_id'' in
              Some (Some (stripPrefix (js_string (if \<not> nullish i then i else if \<not> nullish a then a else JStr run_id))))))
      else Some None)"

definition new_run_row :: "create_run_input \<Rightarrow> string \<Rightarrow> string option \<Rightarrow> nat \<Rightarrow> run_row" where
  "new_run_row inp run_id instance_bare ts = \<lparr>
     rr_run_id = run_id, rr_session_id = stripPrefix (ci_session_id inp),
     rr_space_id = (if truthy_str (ci_space_id inp) then Some (stripPrefix (the (ci_space_id inp))) else None),
     rr_flow_id = ci_flow_id inp, rr_flow_digest = ci_flow_digest inp, rr_lifecycle = RWorking,
     rr_exec_context = opt_default [] (ci_input_params inp),
     rr_reference_run_ids = map stripPrefix (opt_default [] (ci_reference_run_ids inp)),
     rr_instance_id = instance_bare, rr_started_at = ts, rr_ended_at = None \<rparr>"

definition insert_run_steps ::
    "create_run_input \<Rightarrow> session_row \<Rightarrow> run_row \<Rightarrow> unit hub_op" where
  "insert_run_steps inp session row =
     do {
       let session_bare = stripPrefix (ci_session_id inp);
       _ \<leftarrow> studio_do (insertRun row);
       _ \<leftarrow> studio_do (updateSessionSpacesTouched session_bare
         (if truthy_str (ci_space_id inp)
          then set_add (stripPrefix (the (ci_space_id inp))) (set_of (ss_spaces_touched session))
          else set_of (ss_spaces_touched session)));
       (if truthy_str (ci_space_id inp) then append_journal \<lparr>
           jc_type = ''mrmr.run.started'', jc_space_id = the (ci_space_id inp),
           jc_session_id = Some (''ses_'' @ session_bare), jc_run_id = Some (''run_'' @ rr_run_id row),
           jc_actor_id = ci_actor_id inp, jc_token_id = ci_token_id inp,
           jc_data = [(''flow_id'', (case ci_flow_id inp of None \<Rightarrow> JNull | Some f \<Rightarrow> JStr f)),
             (''flow_digest'', opt_str (ci_flow_digest inp)),
             (''reference_run_ids'', strs_json (opt_default [] (ci_reference_run_ids inp))),
             (''from_step_id'', opt_str (ci_from_step_id inp))] \<rparr>
        else skip)
     }"

definition createRun :: "session_run_deps \<Rightarrow> create_run_input \<Rightarrow> (run_dto \<times> string option) reply hub_op" where
  "createRun deps inp =
     do {
       found \<leftarrow> studio_ask (\<lambda>st. getSession st (stripPrefix (ci_session_id inp)));
       case found of
         None \<Rightarrow> State_Monad.return (Refused ''SESSION_NOT_FOUND'' ''Session not found'')
       | Some session \<Rightarrow>
           if truthy_str (ci_flow_id inp) \<and> \<not> canStartFlow (ci_capabilities inp)
           then State_Monad.return (Refused ''SCOPE_ENFORCEMENT_FAILURE'' ''Grant lacks flow:run capability'')
           else do {
             ts \<leftarrow> nowIso;
             fresh \<leftarrow> ulid deps;
             case instance_for deps inp fresh of
               None \<Rightarrow> State_Monad.return (Refused ''INSTANCE_CREATE_FAILED'' ''Failed to create aggregate'')
             | Some instance_bare \<Rightarrow> do {
                 let row = new_run_row inp (opt_default fresh instance_bare) instance_bare ts;
                 _ \<leftarrow> insert_run_steps inp session row;
                 State_Monad.return (Reply (toRunDto row,
                   if truthy_str instance_bare then Some (runIdToInstanceId (''run_'' @ rr_run_id row)) else None))
               }
           }
     }"

definition admitAndCreateRun ::
    "session_run_deps \<Rightarrow> create_run_input \<Rightarrow> (run_dto \<times> string option) reply hub_op" where
  "admitAndCreateRun deps inp =
     (if \<not> truthy_str (ci_space_id inp) then createRun deps inp
      else if truthy_str (ci_flow_id inp) then
        do {
          let space_id = the (ci_space_id inp);
          let flow_id = the (ci_flow_id inp);
          entry \<leftarrow> studio_ask (\<lambda>st. getFlowIndexEntry st flow_id (Some (bareSpaceId space_id)));
          case entry of
            None \<Rightarrow> State_Monad.return (Refused ''FLOW_NOT_FOUND'' ''Flow not indexed in target space'')
          | Some e \<Rightarrow> do {
              admission \<leftarrow> studio_ask (\<lambda>st. admitFlowRun st space_id flow_id);
              case admission of
                Some err \<Rightarrow> State_Monad.return (AtCapacity err)
              | None \<Rightarrow> createRun deps (inp\<lparr> ci_flow_digest := Some (fe_digest e) \<rparr>)
            }
        }
      else createRun deps inp)"

section \<open>Ending runs\<close>

definition notification_copy :: "string option \<Rightarrow> string \<times> string option" where
  "notification_copy reason =
     (case reason of
        None \<Rightarrow> (''Run failed'', None)
      | Some r \<Rightarrow>
          if r = ''ACTION_TIMED_OUT'' then
            (''Run failed: agent action timed out'',
             Some (''An executor exceeded its agent-work time limit. ''
               @ ''Human review wait time is excluded from action timeouts.''))
          else if starts_with r ''ACTION_TIMED_OUT:'' then
            (''Run failed: agent action timed out'', Some (drop (length ''ACTION_TIMED_OUT:'') r))
          else if r = ''HUB_RESTART_ORPHANED'' then
            (''Run failed: hub restarted'',
             Some ''The handler process died when the hub process was replaced. Retry the run.'')
          else (''Run failed'', None))"

definition space_label :: "space_names option \<Rightarrow> string option" where
  "space_label sp = (case sp of None \<Rightarrow> None | Some n \<Rightarrow> (case sn_name n of Some x \<Rightarrow> Some x | None \<Rightarrow> sn_slug n))"

definition actorCanReadSpaceForNotification :: "string \<Rightarrow> grant_row list \<Rightarrow> string option \<Rightarrow> bool" where
  "actorCanReadSpaceForNotification actor grants session_actor \<longleftrightarrow>
     (truthy_str session_actor \<and> session_actor = Some actor)
     \<or> list_ex (\<lambda>g. gn_actor_id g = actor \<and> gn_status g = GrantActive \<and> ''space:read'' \<in> set (gn_scopes g)) grants"

record notify_run =
  nr_run :: run_row
  nr_space :: string
  nr_label :: "string option"
  nr_title :: string
  nr_summary :: "string option"
  nr_now :: nat

text \<open>One iteration of the recipient loop: nothing for an actor who cannot read the space.\<close>

definition notify_failed :: "session_run_deps \<Rightarrow> notify_run \<Rightarrow> bool \<Rightarrow> string \<Rightarrow> unit hub_op" where
  "notify_failed deps n can_read actor =
     (if \<not> can_read then skip
      else do {
        i \<leftarrow> ulid deps;
        studio_do (insertNotification \<lparr>
          nt_notification_id = i, nt_actor_id = actor, nt_kind = ''run_failed'', nt_status = NtPending,
          nt_gate_id = None, nt_step_id = None, nt_run_id = Some (rr_run_id (nr_run n)),
          nt_session_id = Some (rr_session_id (nr_run n)), nt_space_id = nr_space n, nt_space_hidden = False,
          nt_title = nr_title n,
          nt_summary = Some (case nr_summary n of Some s \<Rightarrow> s | None \<Rightarrow>
            (case nr_label n of Some l \<Rightarrow> l | None \<Rightarrow> addSpaceId (nr_space n))),
          nt_expires_at = None, nt_created_at = nr_now n, nt_dismissed_at = None, nt_resolved_at = None \<rparr>)
      })"

record fail_input =
  fn_run_id :: string
  fn_actor_id :: string
  fn_token_id :: string
  fn_reason :: "string option"
  fn_notify :: "bool option"

definition run_event :: "string \<Rightarrow> string \<Rightarrow> run_row \<Rightarrow> string \<Rightarrow> string \<Rightarrow> jobj \<Rightarrow> journal_call" where
  "run_event type space_id run actor token data = \<lparr>
     jc_type = type, jc_space_id = space_id, jc_session_id = Some (prefixedSession (rr_session_id run)),
     jc_run_id = Some (prefixedRun (rr_run_id run)), jc_actor_id = actor, jc_token_id = token, jc_data = data \<rparr>"

text \<open>The notifications and the journal entry of a failed run; \<open>False\<close> if reading the grants threw.\<close>

definition notify_all_failed :: "session_run_deps \<Rightarrow> fail_input \<Rightarrow> run_row \<Rightarrow> string \<Rightarrow> nat \<Rightarrow> bool hub_op" where
  "notify_all_failed deps inp run space_bare ts =
     do {
       let (title, summary) = notification_copy (fn_reason inp);
       session \<leftarrow> studio_ask (\<lambda>st. getSession st (rr_session_id run));
       space \<leftarrow> studio_ask (\<lambda>st. getSpace st space_bare);
       grants \<leftarrow> studio_ask (\<lambda>st. listGrants st space_bare);
       case resolveRunFailedNotificationRecipients
              (map_option ss_actor_id session) (map_option ss_created_by session) grants of
         None \<Rightarrow> State_Monad.return False
       | Some recipients \<Rightarrow> do {
           let n = \<lparr> nr_run = run, nr_space = space_bare, nr_label = space_label space, nr_title = title,
             nr_summary = summary, nr_now = ts \<rparr>;
           _ \<leftarrow> for_each recipients (\<lambda>actor. notify_failed deps n
             (actorCanReadSpaceForNotification actor grants (map_option ss_actor_id session)) actor);
           _ \<leftarrow> append_journal (run_event ''mrmr.run.failed'' (addSpaceId space_bare) run
             (fn_actor_id inp) (fn_token_id inp)
             [(''reason'', opt_str (fn_reason inp)), (''title'', JStr title), (''summary'', opt_str summary)]);
           State_Monad.return True
         }
     }"

definition failRunWithNotification :: "session_run_deps \<Rightarrow> fail_input \<Rightarrow> run_dto reply hub_op" where
  "failRunWithNotification deps inp =
     do {
       let run_bare = stripPrefix (fn_run_id inp);
       found \<leftarrow> studio_ask (\<lambda>st. getRun st run_bare);
       case found of
         None \<Rightarrow> State_Monad.return (Refused ''RUN_NOT_FOUND'' ''Run not found'')
       | Some run \<Rightarrow>
           if isRunTerminal (rr_lifecycle run) then State_Monad.return (Reply (toRunDto run))
           else do {
             ts \<leftarrow> nowIso;
             _ \<leftarrow> terminateRunExecutors (fn_run_id inp) (opt_default ''Run failed'' (fn_reason inp));
             _ \<leftarrow> studio_do (updateRunLifecycle run_bare RFailed (Some ts));
             ok \<leftarrow> (if truthy_str (rr_space_id run) \<and> fn_notify inp \<noteq> Some False
                   then notify_all_failed deps inp run (the (rr_space_id run)) ts
                   else State_Monad.return True);
             if \<not> ok then State_Monad.return Threw
             else do {
               _ \<leftarrow> refreshSessionStatus (rr_session_id run);
               State_Monad.return (Reply (toRunDto (run\<lparr> rr_lifecycle := RFailed, rr_ended_at := Some ts \<rparr>)))
             }
           }
     }"

definition run_space_id :: "run_row \<Rightarrow> string option" where
  "run_space_id run = (if truthy_str (rr_space_id run) then Some (addSpaceId (the (rr_space_id run))) else None)"

definition or_try :: "'a option \<Rightarrow> 'a option \<Rightarrow> 'a option" where
  "or_try x y = (case x of None \<Rightarrow> y | Some v \<Rightarrow> Some v)"

record cancel_run_input =
  cr_run_id :: string
  cr_actor_id :: string
  cr_token_id :: string
  cr_space_id :: "string option"

definition cancelRun :: "cancel_run_input \<Rightarrow> run_dto reply hub_op" where
  "cancelRun inp =
     do {
       let run_bare = stripPrefix (cr_run_id inp);
       found \<leftarrow> studio_ask (\<lambda>st. getRun st run_bare);
       case found of
         None \<Rightarrow> State_Monad.return (Refused ''RUN_NOT_FOUND'' ''Run not found'')
       | Some run \<Rightarrow>
           if isRunTerminal (rr_lifecycle run)
           then State_Monad.return (Refused ''RUN_TERMINAL'' ''Run is already terminal'')
           else do {
             ts \<leftarrow> nowIso;
             _ \<leftarrow> terminateRunExecutors (prefixedRun run_bare) ''cancelled'';
             _ \<leftarrow> studio_do (updateRunLifecycle run_bare RCancelled (Some ts));
             let space_id = or_try (cr_space_id inp) (run_space_id run);
             _ \<leftarrow> (if truthy_str space_id then append_journal \<lparr>
                 jc_type = ''mrmr.run.failed'', jc_space_id = the space_id,
                 jc_session_id = Some (''ses_'' @ rr_session_id run), jc_run_id = Some (''run_'' @ run_bare),
                 jc_actor_id = cr_actor_id inp, jc_token_id = cr_token_id inp,
                 jc_data = [(''reason'', JStr ''cancelled'')] \<rparr>
               else skip);
             _ \<leftarrow> refreshSessionStatus (rr_session_id run);
             State_Monad.return (Reply (toRunDto (run\<lparr> rr_lifecycle := RCancelled, rr_ended_at := Some ts \<rparr>)))
           }
     }"

record cancel_session_input =
  cn_session_id :: string
  cn_actor_id :: string
  cn_token_id :: string
  cn_space_id :: "string option"

definition cancel_active_run :: "nat \<Rightarrow> run_row \<Rightarrow> unit hub_op" where
  "cancel_active_run ts run =
     (if rr_lifecycle run \<in> {RWorking, RInputRequired} then do {
        _ \<leftarrow> terminateRunExecutors (prefixedRun (rr_run_id run)) ''session cancelled'';
        studio_do (updateRunLifecycle (rr_run_id run) RCancelled (Some ts))
      } else skip)"

text \<open>The callback of \<open>setTimeout\<close>, a step of its own that happens later.\<close>

definition cancel_session_timeout :: "string \<Rightarrow> unit hub_op" where
  "cancel_session_timeout session_bare =
     do {
       pending \<leftarrow> studio_ask (\<lambda>st. listRunsBySession st session_bare);
       now \<leftarrow> nowIso;
       _ \<leftarrow> for_each pending (cancel_active_run now);
       studio_do (updateSessionStatus session_bare SsCancelled)
     }"

definition session_space :: "cancel_session_input \<Rightarrow> session_row \<Rightarrow> run_row list \<Rightarrow> string option" where
  "session_space inp session runs =
     or_try (cn_space_id inp)
       (or_try (case ss_spaces_touched session of s # _ \<Rightarrow> (if s \<noteq> [] then Some (addSpaceId s) else None) | [] \<Rightarrow> None)
         (case find (\<lambda>r. truthy_str (rr_space_id r)) runs of None \<Rightarrow> None | Some r \<Rightarrow> run_space_id r))"

definition cancelSession :: "cancel_session_input \<Rightarrow> session_dto reply hub_op" where
  "cancelSession inp =
     do {
       let session_bare = stripPrefix (cn_session_id inp);
       found \<leftarrow> studio_ask (\<lambda>st. getSession st session_bare);
       case found of
         None \<Rightarrow> State_Monad.return (Refused ''SESSION_NOT_FOUND'' ''Session not found'')
       | Some session \<Rightarrow> do {
           ts \<leftarrow> nowIso;
           _ \<leftarrow> studio_do (markSessionCancelRequested session_bare ts);
           runs \<leftarrow> studio_ask (\<lambda>st. listRunsBySession st session_bare);
           let space_id = session_space inp session runs;
           _ \<leftarrow> (if truthy_str space_id then append_journal \<lparr>
               jc_type = ''mrmr.session.cancel_requested'', jc_space_id = the space_id,
               jc_session_id = Some (''ses_'' @ session_bare), jc_run_id = None,
               jc_actor_id = cn_actor_id inp, jc_token_id = cn_token_id inp, jc_data = [] \<rparr>
             else skip);
           _ \<leftarrow> for_each runs (cancel_active_run ts);
           let status = deriveSessionStatus
             (map (\<lambda>r. if rr_lifecycle r \<in> {RWorking, RInputRequired} then RCancelled else rr_lifecycle r) runs) True;
           _ \<leftarrow> studio_do (updateSessionStatus session_bare status);
           State_Monad.return (Reply (toSessionDto (session\<lparr> ss_status := status \<rparr>)))
         }
     }"

section \<open>Retrying, syncing and reconciling\<close>

record retry_input =
  ri_run_id :: string
  ri_actor_id :: string
  ri_token_id :: string
  ri_space_id :: "string option"
  ri_from_step_id :: "string option"
  ri_capabilities :: "capability list"

definition retryRun :: "session_run_deps \<Rightarrow> retry_input \<Rightarrow> (run_dto \<times> string option) reply hub_op" where
  "retryRun deps inp =
     do {
       let run_bare = stripPrefix (ri_run_id inp);
       found \<leftarrow> studio_ask (\<lambda>st. getRun st run_bare);
       case found of
         None \<Rightarrow> State_Monad.return (Refused ''RUN_NOT_FOUND'' ''Run not found'')
       | Some failed \<Rightarrow>
           if rr_lifecycle failed \<notin> {RFailed, RCancelled}
           then State_Monad.return (Refused ''RUN_NOT_RETRYABLE'' ''Only failed or cancelled runs can be retried'')
           else admitAndCreateRun deps \<lparr>
             ci_session_id = ''ses_'' @ rr_session_id failed,
             ci_space_id = or_try (ri_space_id inp) (run_space_id failed),
             ci_flow_id = rr_flow_id failed, ci_flow_digest = rr_flow_digest failed, ci_input_params = None,
             ci_reference_run_ids = Some [''run_'' @ run_bare], ci_actor_id = ri_actor_id inp,
             ci_token_id = ri_token_id inp, ci_capabilities = ri_capabilities inp, ci_contract_ref_id = None,
             ci_metadata = None, ci_from_step_id = ri_from_step_id inp \<rparr>
     }"

definition syncRunLifecycleFromInstance :: "string \<Rightarrow> string \<Rightarrow> unit hub_op" where
  "syncRunLifecycleFromInstance instance_id state =
     do {
       let run_bare = stripPrefix instance_id;
       found \<leftarrow> studio_ask (\<lambda>st. getRun st run_bare);
       case found of
         None \<Rightarrow> skip
       | Some run \<Rightarrow>
           (let lifecycle = instanceStateToLifecycle state in
            if rr_lifecycle run \<noteq> lifecycle then do {
              ts \<leftarrow> nowIso;
              _ \<leftarrow> studio_do (updateRunLifecycle run_bare lifecycle (if isRunTerminal lifecycle then Some ts else None));
              _ \<leftarrow> refreshSessionStatus (rr_session_id run);
              skip
            } else skip)
     }"

definition memo_terminal :: "step_memo \<Rightarrow> bool" where
  "memo_terminal m \<longleftrightarrow> me_status m = SCompleted \<or> me_status m = SFailed"

text \<open>The actor of the run's session, \<open>"system"\<close> without one.\<close>

definition session_actor_of :: "run_row \<Rightarrow> string hub_op" where
  "session_actor_of run =
     studio_ask (\<lambda>st. opt_default ''system'' (map_option ss_actor_id (getSession st (rr_session_id run))))"

definition complete_run :: "run_row \<Rightarrow> string \<Rightarrow> unit hub_op" where
  "complete_run run run_bare =
     do {
       ts \<leftarrow> nowIso;
       _ \<leftarrow> terminateRunExecutors (prefixedRun run_bare) ''run completed'';
       _ \<leftarrow> studio_do (updateRunLifecycle run_bare RCompleted (Some ts));
       actor \<leftarrow> session_actor_of run;
       _ \<leftarrow> (case run_space_id run of
           Some space_id \<Rightarrow> append_journal \<lparr>
             jc_type = ''mrmr.run.completed'', jc_space_id = space_id,
             jc_session_id = Some (''ses_'' @ rr_session_id run), jc_run_id = Some (''run_'' @ run_bare),
             jc_actor_id = actor, jc_token_id = ''system'', jc_data = [] \<rparr>
         | None \<Rightarrow> skip);
       _ \<leftarrow> refreshSessionStatus (rr_session_id run);
       skip
     }"

text \<open>From here on \<open>False\<close> says that the exception of a failing notification leaves the operation.\<close>

definition fail_as_system :: "session_run_deps \<Rightarrow> run_row \<Rightarrow> string \<Rightarrow> string option \<Rightarrow> bool hub_op" where
  "fail_as_system deps run run_bare reason =
     do {
       actor \<leftarrow> session_actor_of run;
       r \<leftarrow> failRunWithNotification deps \<lparr> fn_run_id = prefixedRun run_bare, fn_actor_id = actor,
         fn_token_id = ''system'', fn_reason = reason, fn_notify = None \<rparr>;
       State_Monad.return (r \<noteq> Threw)
     }"

definition maybeCompleteHeadlessRun :: "session_run_deps \<Rightarrow> string \<Rightarrow> bool hub_op" where
  "maybeCompleteHeadlessRun deps run_id =
     do {
       let run_bare = stripPrefix run_id;
       found \<leftarrow> studio_ask (\<lambda>st. getRun st run_bare);
       case found of
         None \<Rightarrow> State_Monad.return True
       | Some run \<Rightarrow>
           if truthy_str (rr_flow_id run) \<or> isRunTerminal (rr_lifecycle run) then State_Monad.return True
           else do {
             memos \<leftarrow> studio_ask (\<lambda>st. listRunStepMemos st (''run_'' @ run_bare));
             if memos = [] \<or> \<not> list_all memo_terminal memos then State_Monad.return True
             else if list_ex (\<lambda>m. me_status m = SFailed) memos then fail_as_system deps run run_bare None
             else do { _ \<leftarrow> complete_run run run_bare; State_Monad.return True }
           }
     }"

definition failHeadlessRun :: "session_run_deps \<Rightarrow> string \<Rightarrow> string \<Rightarrow> bool hub_op" where
  "failHeadlessRun deps run_bare reason =
     do {
       found \<leftarrow> studio_ask (\<lambda>st. getRun st run_bare);
       case found of
         None \<Rightarrow> State_Monad.return True
       | Some run \<Rightarrow> if isRunTerminal (rr_lifecycle run) then State_Monad.return True else fail_as_system deps run run_bare (Some reason)
     }"

definition STALE_HEADLESS_DISPATCH_MS :: nat where "STALE_HEADLESS_DISPATCH_MS = 300000"

record reconcile_counts =
  rk_completed :: nat
  rk_failed :: nat
  rk_stale_failed :: nat

definition count_change :: "run_lifecycle \<Rightarrow> run_lifecycle option \<Rightarrow> reconcile_counts \<Rightarrow> reconcile_counts" where
  "count_change before after c =
     c\<lparr> rk_completed := rk_completed c + (if Some before \<noteq> after \<and> after = Some RCompleted then 1 else 0),
        rk_failed := rk_failed c + (if Some before \<noteq> after \<and> after = Some RFailed then 1 else 0) \<rparr>"

definition reconcile_run :: "session_run_deps \<Rightarrow> nat \<Rightarrow> run_row \<Rightarrow> reconcile_counts \<Rightarrow> reconcile_counts option hub_op" where
  "reconcile_run deps now run c =
     (if truthy_str (rr_flow_id run) then State_Monad.return (Some c)
      else do {
        memos \<leftarrow> studio_ask (\<lambda>st. listRunStepMemos st (''run_'' @ rr_run_id run));
        if memos = [] then State_Monad.return (Some c)
        else if list_all memo_terminal memos then do {
          ok \<leftarrow> maybeCompleteHeadlessRun deps (''run_'' @ rr_run_id run);
          after \<leftarrow> studio_ask (\<lambda>st. map_option rr_lifecycle (getRun st (rr_run_id run)));
          State_Monad.return (if ok then Some (count_change (rr_lifecycle run) after c) else None)
        }
        else if \<not> list_ex (\<lambda>m. me_status m = SWorking) memos then State_Monad.return (Some c)
        else if int now - int (rr_started_at run) < int STALE_HEADLESS_DISPATCH_MS then State_Monad.return (Some c)
        else do {
          ok \<leftarrow> failHeadlessRun deps (rr_run_id run) ''stale_headless_dispatch'';
          State_Monad.return (if ok then Some (c\<lparr> rk_stale_failed := Suc (rk_stale_failed c) \<rparr>) else None)
        }
      })"

fun reconcile_each :: "session_run_deps \<Rightarrow> nat \<Rightarrow> run_row list \<Rightarrow> reconcile_counts \<Rightarrow> reconcile_counts option hub_op" where
  "reconcile_each deps now [] c = State_Monad.return (Some c)"
| "reconcile_each deps now (r # rs) c =
     do {
       c' \<leftarrow> reconcile_run deps now r c;
       case c' of None \<Rightarrow> State_Monad.return None | Some d \<Rightarrow> reconcile_each deps now rs d
     }"

definition reconcileHeadlessRuns :: "session_run_deps \<Rightarrow> reconcile_counts option hub_op" where
  "reconcileHeadlessRuns deps =
     do {
       runs \<leftarrow> studio_ask (\<lambda>st. listRuns st \<lparr> rf_space_id = None, rf_flow_id = None,
         rf_lifecycles = [RWorking, RInputRequired], rf_limit = 500 \<rparr>);
       now \<leftarrow> nowIso;
       reconcile_each deps now runs \<lparr> rk_completed = 0, rk_failed = 0, rk_stale_failed = 0 \<rparr>
     }"

record ensure_input =
  en_session_id :: "string option"
  en_run_id :: "string option"
  en_space_id :: string
  en_actor_id :: string
  en_token_id :: string
  en_title :: "string option"
  en_action_name :: "string option"

definition ensure_session :: "session_run_deps \<Rightarrow> ensure_input \<Rightarrow> string hub_op" where
  "ensure_session deps inp =
     (if truthy_str (en_session_id inp) then State_Monad.return (the (en_session_id inp))
      else do {
        s \<leftarrow> createSession deps \<lparr>
          cs_title = opt_default (''Invoke '' @ opt_default ''action'' (en_action_name inp)) (en_title inp),
          cs_subject = None, cs_actor_id = en_actor_id inp, cs_token_id = en_token_id inp,
          cs_space_id = Some (en_space_id inp), cs_created_by = None \<rparr>;
        State_Monad.return (sv_session_id s)
      })"

definition ensureSessionAndRun :: "session_run_deps \<Rightarrow> ensure_input \<Rightarrow> (string \<times> string) reply hub_op" where
  "ensureSessionAndRun deps inp =
     do {
       session_id \<leftarrow> ensure_session deps inp;
       if truthy_str (en_run_id inp) then State_Monad.return (Reply (session_id, the (en_run_id inp)))
       else do {
         created \<leftarrow> admitAndCreateRun deps \<lparr>
           ci_session_id = session_id, ci_space_id = Some (en_space_id inp), ci_flow_id = None,
           ci_flow_digest = None, ci_input_params = None, ci_reference_run_ids = None,
           ci_actor_id = en_actor_id inp, ci_token_id = en_token_id inp, ci_capabilities = [''flow:run''],
           ci_contract_ref_id = None, ci_metadata = None, ci_from_step_id = None \<rparr>;
         State_Monad.return (case created of
             Reply (run, _) \<Rightarrow> Reply (session_id, rv_run_id run)
           | Refused c m \<Rightarrow> Refused c m | AtCapacity e \<Rightarrow> AtCapacity e | Threw \<Rightarrow> Threw)
       }
     }"

end
