(* ===== verification/RunProofs.thy ===== *)
theory RunProofs
  imports RunService
begin

text \<open>
  What the run service does to the table of runs. The abstract step \<open>run_moves\<close> changes the
  lifecycle of one active run; every operation that does not create a run refines a sequence of
  such steps and leaves the policies alone, so both the capacity bound and the finality of terminal
  runs follow from the abstract steps.
\<close>

named_theorems ends_intros \<open>operations that only end runs, one rule per construct\<close>

type_synonym run_table = "(string, run_row) jsmap"

inductive run_moves :: "run_table \<Rightarrow> run_table \<Rightarrow> bool" where
  run_moves: "js_get R k = Some r \<Longrightarrow> \<not> isRunTerminal (rr_lifecycle r) \<Longrightarrow>
    run_moves R (js_set k (r\<lparr> rr_lifecycle := l, rr_ended_at := e \<rparr>) R)"

definition studio_moves :: "studio \<Rightarrow> studio \<Rightarrow> bool" where
  "studio_moves st st' \<longleftrightarrow> sd_run_policies st' = sd_run_policies st \<and> run_moves\<^sup>*\<^sup>* (sd_runs st) (sd_runs st')"

definition ends :: "'a hub_op \<Rightarrow> bool" where
  "ends m \<longleftrightarrow> (\<forall>h. studio_moves (hb_studio h) (hb_studio (final m h)))"

lemma studio_moves_refl [simp, intro]: "studio_moves st st"
  by (simp add: studio_moves_def)

lemma studio_moves_trans: "studio_moves a b \<Longrightarrow> studio_moves b c \<Longrightarrow> studio_moves a c"
  unfolding studio_moves_def by (metis rtranclp_trans)

lemma ends_return [ends_intros]: "ends (State_Monad.return x)"
  by (simp add: ends_def)

lemma ends_skip [ends_intros]: "ends skip"
  by (simp add: skip_def ends_return)

lemma ends_bind [ends_intros]: "ends m \<Longrightarrow> (\<And>x. ends (f x)) \<Longrightarrow> ends (State_Monad.bind m f)"
  unfolding ends_def final_bind by (blast intro: studio_moves_trans)

lemma ends_for_each [ends_intros]: "(\<And>x. ends (f x)) \<Longrightarrow> ends (for_each xs f)"
  by (induction xs) (auto intro: ends_intros)

lemma ends_if [ends_intros]: "ends a \<Longrightarrow> ends b \<Longrightarrow> ends (if c then a else b)"
  by simp

lemma ends_option [ends_intros]: "ends a \<Longrightarrow> (\<And>x. ends (b x)) \<Longrightarrow> ends (case z of None \<Rightarrow> a | Some x \<Rightarrow> b x)"
  by (cases z) auto

lemma ends_let [ends_intros]: "ends (f x) \<Longrightarrow> ends (let y = x in f y)"
  by simp

lemma ends_pair [ends_intros]: "(\<And>a b. ends (f a b)) \<Longrightarrow> ends (case p of (a, b) \<Rightarrow> f a b)"
  by (cases p) auto

lemma run_ops [simp]:
  "result (studio_ask f) h = f (hb_studio h)" "final (studio_ask f) h = h"
  "result nowIso h = hb_now h" "final nowIso h = h"
  "final (studio_do g) h = h\<lparr> hb_studio := g (hb_studio h) \<rparr>"
  "hb_studio (final (terminateRunExecutors i why) h) = hb_studio h"
  "hb_studio (final (append_journal c) h) = hb_studio h"
  "hb_studio (final (ulid deps) h) = hb_studio h"
  "result (ulid deps) h = rd_ulid deps (hb_next_id h)"
  by (simp_all add: studio_ask_def nowIso_def studio_do_def terminateRunExecutors_def append_journal_def ulid_def
      result_def final_def)

lemma ends_quiet [ends_intros]:
  "ends (studio_ask f)" "ends nowIso" "ends (ulid deps)" "ends (append_journal c)" "ends (terminateRunExecutors i why)"
  by (simp_all add: ends_def)

lemma ends_studio_do [ends_intros]: "(\<And>st. studio_moves st (g st)) \<Longrightarrow> ends (studio_do g)"
  by (simp add: ends_def)

text \<open>Updates of the store that do not touch the runs.\<close>

lemma quiet_updates [ends_intros]:
  "studio_moves st (updateSessionStatus i s st)" "studio_moves st (insertNotification n st)"
  "studio_moves st (insertSession row st)" "studio_moves st (updateSessionSpacesTouched i ss st)"
  "studio_moves st (markSessionCancelRequested i at st)"
  by (simp_all add: studio_moves_def updateSessionStatus_def insertNotification_def insertSession_def
      updateSessionSpacesTouched_def markSessionCancelRequested_def)

lemma refresh_ends [ends_intros]: "ends (refreshSessionStatus i)"
  unfolding refreshSessionStatus_def by (intro ends_intros)

lemma notify_all_ends [ends_intros]: "ends (notify_all_failed deps inp run sp ts)"
  unfolding notify_all_failed_def notify_failed_def by (intro ends_intros)

section \<open>The operations that end a run\<close>

lemma end_update:
  assumes "getRun st i = Some r" and "\<not> isRunTerminal (rr_lifecycle r)"
  shows "studio_moves st (updateRunLifecycle i l e st)"
proof -
  let ?e = "case e of None \<Rightarrow> rr_ended_at r | Some t \<Rightarrow> Some t"
  have "run_moves (sd_runs st) (sd_runs (updateRunLifecycle i l e st))"
    using assms run_moves.intros [of "sd_runs st" "bareRunId i" r ?e l]
    by (simp add: updateRunLifecycle_def map_at_def getRun_def)
  then show ?thesis by (auto simp: studio_moves_def updateRunLifecycle_def)
qed

lemma fail_ends [ends_intros]: "ends (failRunWithNotification deps inp)"
  unfolding ends_def
proof
  fix h
  show "studio_moves (hb_studio h) (hb_studio (final (failRunWithNotification deps inp) h))"
  proof (cases "getRun (hb_studio h) (stripPrefix (fn_run_id inp))")
    case None
    then show ?thesis by (simp add: failRunWithNotification_def final_bind Let_def)
  next
    case (Some run)
    show ?thesis
    proof (cases "isRunTerminal (rr_lifecycle run)")
      case True
      then show ?thesis using Some by (simp add: failRunWithNotification_def final_bind Let_def)
    next
      case False
      let ?st = "updateRunLifecycle (stripPrefix (fn_run_id inp)) RFailed (Some (hb_now h)) (hb_studio h)"
      define rest where "rest = (\<lambda>_::unit. do {
             ok \<leftarrow> (if truthy_str (rr_space_id run) \<and> fn_notify inp \<noteq> Some False
                   then notify_all_failed deps inp run (the (rr_space_id run)) (hb_now h)
                   else State_Monad.return True);
             if \<not> ok then State_Monad.return Threw
             else do {
               _ \<leftarrow> refreshSessionStatus (rr_session_id run);
               State_Monad.return (Reply (toRunDto (run\<lparr> rr_lifecycle := RFailed, rr_ended_at := Some (hb_now h) \<rparr>)))
             }
           })"
      have "ends (rest ())" unfolding rest_def by (intro ends_intros)
      moreover have "studio_moves (hb_studio h) ?st"
        using Some False by (intro end_update) (simp_all add: isRunTerminal_def)
      moreover have "\<exists>h'. final (failRunWithNotification deps inp) h = final (rest ()) h' \<and> hb_studio h' = ?st"
        using Some False by (auto simp: failRunWithNotification_def rest_def final_bind Let_def)
      ultimately show ?thesis unfolding ends_def by (metis studio_moves_trans)
    qed
  qed
qed

lemma ends_then:
  assumes "studio_moves (hb_studio h) st" and "ends m" and "final op h = final m h'" and "hb_studio h' = st"
  shows "studio_moves (hb_studio h) (hb_studio (final op h))"
  using assms unfolding ends_def by (metis studio_moves_trans)

lemma cancel_ends [ends_intros]: "ends (cancelRun inp)"
  unfolding ends_def
proof
  fix h
  show "studio_moves (hb_studio h) (hb_studio (final (cancelRun inp) h))"
  proof (cases "getRun (hb_studio h) (stripPrefix (cr_run_id inp))")
    case None
    then show ?thesis by (simp add: cancelRun_def final_bind Let_def)
  next
    case (Some run)
    show ?thesis
    proof (cases "isRunTerminal (rr_lifecycle run)")
      case True
      then show ?thesis using Some by (simp add: cancelRun_def final_bind Let_def)
    next
      case False
      let ?bare = "stripPrefix (cr_run_id inp)"
      let ?st = "updateRunLifecycle ?bare RCancelled (Some (hb_now h)) (hb_studio h)"
      let ?space = "or_try (cr_space_id inp) (run_space_id run)"
      define rest :: "run_dto reply hub_op" where "rest = do {
             _ \<leftarrow> (if truthy_str ?space then append_journal \<lparr>
                 jc_type = ''mrmr.run.failed'', jc_space_id = the ?space,
                 jc_session_id = Some (''ses_'' @ rr_session_id run), jc_run_id = Some (''run_'' @ ?bare),
                 jc_actor_id = cr_actor_id inp, jc_token_id = cr_token_id inp,
                 jc_data = [(''reason'', JStr ''cancelled'')] \<rparr>
               else skip);
             _ \<leftarrow> refreshSessionStatus (rr_session_id run);
             State_Monad.return (Reply (toRunDto (run\<lparr> rr_lifecycle := RCancelled, rr_ended_at := Some (hb_now h) \<rparr>)))
           }"
      have "ends rest" unfolding rest_def by (intro ends_intros)
      moreover have "studio_moves (hb_studio h) ?st"
        using Some False by (intro end_update) (simp_all add: isRunTerminal_def)
      moreover have "\<exists>h'. final (cancelRun inp) h = final rest h' \<and> hb_studio h' = ?st"
        using Some False by (auto simp: cancelRun_def rest_def final_bind Let_def)
      ultimately show ?thesis using ends_then by blast
    qed
  qed
qed

lemma complete_run_ends:
  assumes "getRun (hb_studio h) run_bare = Some run" and "\<not> isRunTerminal (rr_lifecycle run)"
  shows "studio_moves (hb_studio h) (hb_studio (final (complete_run run run_bare) h))"
proof -
  let ?st = "updateRunLifecycle run_bare RCompleted (Some (hb_now h)) (hb_studio h)"
  define rest :: "unit hub_op" where "rest = do {
       actor \<leftarrow> session_actor_of run;
       _ \<leftarrow> (case run_space_id run of
           Some space_id \<Rightarrow> append_journal \<lparr>
             jc_type = ''mrmr.run.completed'', jc_space_id = space_id,
             jc_session_id = Some (''ses_'' @ rr_session_id run), jc_run_id = Some (''run_'' @ run_bare),
             jc_actor_id = actor, jc_token_id = ''system'', jc_data = [] \<rparr>
         | None \<Rightarrow> skip);
       _ \<leftarrow> refreshSessionStatus (rr_session_id run);
       skip
     }"
  have "ends rest" unfolding rest_def session_actor_of_def by (intro ends_intros)
  moreover have "studio_moves (hb_studio h) ?st"
    using assms by (intro end_update) (simp_all add: isRunTerminal_def)
  moreover have "\<exists>h'. final (complete_run run run_bare) h = final rest h' \<and> hb_studio h' = ?st"
    by (auto simp: complete_run_def rest_def final_bind)
  ultimately show ?thesis using ends_then by blast
qed

lemma fail_as_system_ends [ends_intros]: "ends (fail_as_system deps run i why)"
  unfolding fail_as_system_def session_actor_of_def by (intro ends_intros)

lemma fail_headless_ends [ends_intros]: "ends (failHeadlessRun deps i why)"
  unfolding failHeadlessRun_def by (intro ends_intros)

lemma complete_headless_ends [ends_intros]: "ends (maybeCompleteHeadlessRun deps run_id)"
  unfolding ends_def
proof
  fix h :: hub
  let ?bare = "stripPrefix run_id" and ?st = "hb_studio h"
  show "studio_moves ?st (hb_studio (final (maybeCompleteHeadlessRun deps run_id) h))"
  proof (cases "getRun ?st ?bare")
    case None
    then show ?thesis by (simp add: maybeCompleteHeadlessRun_def final_bind Let_def)
  next
    case (Some run)
    have fail: "studio_moves ?st (hb_studio (final (fail_as_system deps run ?bare None) h))"
      using fail_as_system_ends by (simp add: ends_def)
    show ?thesis
      using Some fail complete_run_ends [OF Some]
      by (auto simp: maybeCompleteHeadlessRun_def final_bind Let_def)
  qed
qed

lemma reconcile_run_ends [ends_intros]: "ends (reconcile_run deps now run c)"
  unfolding reconcile_run_def by (intro ends_intros)

lemma reconcile_each_ends [ends_intros]: "ends (reconcile_each deps now rs c)"
  by (induction rs arbitrary: c) (auto intro!: ends_intros)

lemma reconcile_ends [ends_intros]: "ends (reconcileHeadlessRuns deps)"
  unfolding reconcileHeadlessRuns_def by (intro ends_intros)

section \<open>Cancelling a session\<close>

text \<open>The table is keyed by the bare run ids.\<close>

definition runs_ok :: "run_table \<Rightarrow> bool" where
  "runs_ok R \<longleftrightarrow> js_ok R \<and> (\<forall>k r. js_get R k = Some r \<longrightarrow> rr_run_id r = k \<and> bareRunId k = k)"

lemma js_ok_get: "js_ok m \<Longrightarrow> (k, v) \<in> set m \<Longrightarrow> js_get m k = Some v"
  by (simp add: js_ok_def js_get_def)

lemma runs_ok_value:
  assumes "runs_ok R" and "r \<in> set (js_values R)"
  shows "js_get R (rr_run_id r) = Some r \<and> bareRunId (rr_run_id r) = rr_run_id r"
proof -
  obtain k where "(k, r) \<in> set R" using assms(2) by (auto simp: js_values_def)
  then have k: "js_get R k = Some r" using assms(1) js_ok_get by (auto simp: runs_ok_def)
  then have "rr_run_id r = k" "bareRunId k = k" using assms(1) by (auto simp: runs_ok_def)
  then show ?thesis using k by simp
qed

lemma runs_ok_distinct: "runs_ok R \<Longrightarrow> distinct (map rr_run_id (filter P (js_values R)))"
proof -
  assume ok: "runs_ok R"
  have "map rr_run_id (js_values R) = js_keys R"
    unfolding js_values_def js_keys_def
    using ok by (fastforce simp: runs_ok_def dest: js_ok_get)
  then have "distinct (map rr_run_id (js_values R))" using ok by (simp add: runs_ok_def js_ok_def js_keys_def)
  then show ?thesis by (rule distinct_map_filter)
qed

lemma runs_ok_ends: "run_moves R R' \<Longrightarrow> runs_ok R \<Longrightarrow> runs_ok R'"
  by (induction rule: run_moves.induct) (auto simp: runs_ok_def)

definition ended_by :: "nat \<Rightarrow> run_row \<Rightarrow> run_row" where
  "ended_by ts r = (if isRunTerminal (rr_lifecycle r) then r
     else r\<lparr> rr_lifecycle := RCancelled, rr_ended_at := Some ts \<rparr>)"

lemma cancel_one_effect:
  assumes "js_get (sd_runs (hb_studio h)) (rr_run_id r) = Some r" and "bareRunId (rr_run_id r) = rr_run_id r"
  shows "studio_moves (hb_studio h) (hb_studio (final (cancel_active_run ts r) h))"
    and "i \<noteq> rr_run_id r \<Longrightarrow> js_get (sd_runs (hb_studio (final (cancel_active_run ts r) h))) i
           = js_get (sd_runs (hb_studio h)) i"
    and "js_get (sd_runs (hb_studio (final (cancel_active_run ts r) h))) (rr_run_id r) =
           Some (ended_by ts r)"
proof -
  have active: "rr_lifecycle r \<in> {RWorking, RInputRequired} \<longleftrightarrow> \<not> isRunTerminal (rr_lifecycle r)"
    by (cases "rr_lifecycle r") (auto simp: isRunTerminal_def)
  show "studio_moves (hb_studio h) (hb_studio (final (cancel_active_run ts r) h))"
    using assms active end_update [of "hb_studio h" "rr_run_id r" r RCancelled "Some ts"]
    by (auto simp: cancel_active_run_def final_bind getRun_def isRunTerminal_def)
  show "js_get (sd_runs (hb_studio (final (cancel_active_run ts r) h))) i = js_get (sd_runs (hb_studio h)) i"
    if "i \<noteq> rr_run_id r"
    using that assms by (simp add: cancel_active_run_def final_bind updateRunLifecycle_def map_at_def)
  show "js_get (sd_runs (hb_studio (final (cancel_active_run ts r) h))) (rr_run_id r) =
      Some (ended_by ts r)"
    using assms active by (simp add: ended_by_def cancel_active_run_def final_bind updateRunLifecycle_def map_at_def)
qed

definition listed :: "hub \<Rightarrow> run_row \<Rightarrow> bool" where
  "listed h r \<longleftrightarrow> js_get (sd_runs (hb_studio h)) (rr_run_id r) = Some r \<and> bareRunId (rr_run_id r) = rr_run_id r"

lemma listed_after:
  "listed h r \<Longrightarrow> listed h s \<Longrightarrow> rr_run_id s \<noteq> rr_run_id r \<Longrightarrow> listed (final (cancel_active_run ts r) h) s"
  by (simp add: listed_def cancel_one_effect(2))

lemma cancel_loop_ends:
  "\<forall>r\<in>set rs. listed h r \<Longrightarrow> distinct (map rr_run_id rs) \<Longrightarrow>
     studio_moves (hb_studio h) (hb_studio (final (for_each rs (cancel_active_run ts)) h))"
proof (induction rs arbitrary: h)
  case Nil
  show ?case by simp
next
  case (Cons r rs)
  let ?h = "final (cancel_active_run ts r) h"
  have "\<forall>s\<in>set rs. listed ?h s" using Cons.prems by (auto intro!: listed_after simp: image_iff)
  then have "studio_moves (hb_studio ?h) (hb_studio (final (for_each rs (cancel_active_run ts)) ?h))"
    using Cons.IH Cons.prems(2) by simp
  moreover have "studio_moves (hb_studio h) (hb_studio ?h)"
    using Cons.prems(1) cancel_one_effect(1) by (simp add: listed_def)
  ultimately show ?case using studio_moves_trans by (simp add: final_bind)
qed

lemma cancel_loop_get:
  "\<forall>r\<in>set rs. listed h r \<Longrightarrow> distinct (map rr_run_id rs) \<Longrightarrow>
     js_get (sd_runs (hb_studio (final (for_each rs (cancel_active_run ts)) h))) i =
       (if i \<in> set (map rr_run_id rs) then map_option (ended_by ts) (js_get (sd_runs (hb_studio h)) i)
        else js_get (sd_runs (hb_studio h)) i)"
proof (induction rs arbitrary: h)
  case Nil
  show ?case by simp
next
  case (Cons r rs)
  let ?h = "final (cancel_active_run ts r) h"
  have r: "js_get (sd_runs (hb_studio h)) (rr_run_id r) = Some r" "bareRunId (rr_run_id r) = rr_run_id r"
    using Cons.prems(1) by (auto simp: listed_def)
  have "\<forall>s\<in>set rs. listed ?h s" using Cons.prems by (auto intro!: listed_after simp: image_iff)
  then have IH: "js_get (sd_runs (hb_studio (final (for_each rs (cancel_active_run ts)) ?h))) i =
      (if i \<in> set (map rr_run_id rs) then map_option (ended_by ts) (js_get (sd_runs (hb_studio ?h)) i)
       else js_get (sd_runs (hb_studio ?h)) i)"
    using Cons.IH Cons.prems(2) by simp
  show ?case
  proof (cases "i = rr_run_id r")
    case True
    then show ?thesis using IH Cons.prems(2) cancel_one_effect(3) [OF r] r(1) by (simp add: final_bind)
  next
    case False
    then show ?thesis using IH cancel_one_effect(2) [OF r False] by (simp add: final_bind)
  qed
qed

lemma session_runs_listed:
  assumes ok: "runs_ok (sd_runs st)"
  shows "r \<in> set (listRunsBySession st i) \<Longrightarrow> js_get (sd_runs st) (rr_run_id r) = Some r \<and> bareRunId (rr_run_id r) = rr_run_id r"
    and "distinct (map rr_run_id (listRunsBySession st i))"
    and "k \<in> set (map rr_run_id (listRunsBySession st i)) \<longleftrightarrow>
      (\<exists>r. js_get (sd_runs st) k = Some r \<and> rr_session_id r = bareSessionId i)"
proof -
  show a: "js_get (sd_runs st) (rr_run_id r) = Some r \<and> bareRunId (rr_run_id r) = rr_run_id r"
    if "r \<in> set (listRunsBySession st i)" for r
    using that runs_ok_value [OF ok] by (auto simp: listRunsBySession_def)
  show "distinct (map rr_run_id (listRunsBySession st i))"
    unfolding listRunsBySession_def by (rule runs_ok_distinct [OF ok])
  show "k \<in> set (map rr_run_id (listRunsBySession st i)) \<longleftrightarrow>
      (\<exists>r. js_get (sd_runs st) k = Some r \<and> rr_session_id r = bareSessionId i)"
  proof
    assume "k \<in> set (map rr_run_id (listRunsBySession st i))"
    then obtain r where "r \<in> set (listRunsBySession st i)" "k = rr_run_id r" by auto
    then show "\<exists>r. js_get (sd_runs st) k = Some r \<and> rr_session_id r = bareSessionId i"
      using a by (auto simp: listRunsBySession_def)
  next
    assume "\<exists>r. js_get (sd_runs st) k = Some r \<and> rr_session_id r = bareSessionId i"
    then obtain r where r: "js_get (sd_runs st) k = Some r" "rr_session_id r = bareSessionId i" by blast
    then have "rr_run_id r = k" using ok by (auto simp: runs_ok_def)
    then show "k \<in> set (map rr_run_id (listRunsBySession st i))"
      using r js_get_in_values [OF r(1)] by (auto simp: listRunsBySession_def image_iff)
  qed
qed

lemma cancel_status [simp]:
  "deriveSessionStatus (map (\<lambda>r. if rr_lifecycle r = RWorking \<or> rr_lifecycle r = RInputRequired then RCancelled else rr_lifecycle r) rs) True
     = SsCancelled"
proof -
  have "list_all (\<lambda>l. l \<in> set TERMINAL)
      (map (\<lambda>r. if rr_lifecycle r = RWorking \<or> rr_lifecycle r = RInputRequired then RCancelled else rr_lifecycle r) rs)"
    by (induction rs) (auto simp: TERMINAL_def intro: run_lifecycle.exhaust)
  then show ?thesis by (simp add: deriveSessionStatus_def)
qed

text \<open>The state before the cancelling loop, and what the rest of the operation does to the runs.\<close>

lemma cancel_session_shape:
  assumes "getSession (hb_studio h) (stripPrefix (cn_session_id inp)) = Some session"
  obtains h1 where "sd_runs (hb_studio h1) = sd_runs (hb_studio h)" and "studio_moves (hb_studio h) (hb_studio h1)"
    and "hb_studio (final (cancelSession inp) h) =
      updateSessionStatus (stripPrefix (cn_session_id inp))
        SsCancelled
        (hb_studio (final (for_each (listRunsBySession (hb_studio h) (stripPrefix (cn_session_id inp)))
           (cancel_active_run (hb_now h))) h1))"
    and "sd_sessions (hb_studio h1) =
      sd_sessions (markSessionCancelRequested (stripPrefix (cn_session_id inp)) (hb_now h) (hb_studio h))"
proof -
  let ?bare = "stripPrefix (cn_session_id inp)"
  let ?h0 = "h\<lparr> hb_studio := markSessionCancelRequested ?bare (hb_now h) (hb_studio h) \<rparr>"
  have runs: "listRunsBySession (markSessionCancelRequested ?bare (hb_now h) (hb_studio h)) ?bare
      = listRunsBySession (hb_studio h) ?bare"
    by (simp add: listRunsBySession_def markSessionCancelRequested_def)
  let ?space = "session_space inp session (listRunsBySession (hb_studio h) ?bare)"
  define h1 where "h1 = (if truthy_str ?space then final (append_journal \<lparr>
               jc_type = ''mrmr.session.cancel_requested'', jc_space_id = the ?space,
               jc_session_id = Some (''ses_'' @ ?bare), jc_run_id = None,
               jc_actor_id = cn_actor_id inp, jc_token_id = cn_token_id inp, jc_data = [] \<rparr>) ?h0 else ?h0)"
  have s: "hb_studio h1 = hb_studio ?h0" by (simp add: h1_def)
  show ?thesis
  proof (rule that)
    show "sd_runs (hb_studio h1) = sd_runs (hb_studio h)" by (simp add: s markSessionCancelRequested_def)
    show "studio_moves (hb_studio h) (hb_studio h1)" using quiet_updates(5) by (simp add: s)
    show "sd_sessions (hb_studio h1) =
      sd_sessions (markSessionCancelRequested ?bare (hb_now h) (hb_studio h))" by (simp add: s)
    show "hb_studio (final (cancelSession inp) h) =
      updateSessionStatus ?bare
        SsCancelled
        (hb_studio (final (for_each (listRunsBySession (hb_studio h) ?bare) (cancel_active_run (hb_now h))) h1))"
      using assms by (simp add: cancelSession_def final_bind Let_def runs h1_def cancel_status del: map_map)
  qed
qed

lemma cancel_session_ends:
  assumes ok: "runs_ok (sd_runs (hb_studio h))"
  shows "studio_moves (hb_studio h) (hb_studio (final (cancelSession inp) h))"
proof (cases "getSession (hb_studio h) (stripPrefix (cn_session_id inp))")
  case None
  then show ?thesis by (simp add: cancelSession_def final_bind Let_def)
next
  case (Some session)
  obtain h1 where h1: "sd_runs (hb_studio h1) = sd_runs (hb_studio h)" "studio_moves (hb_studio h) (hb_studio h1)"
    "hb_studio (final (cancelSession inp) h) =
      updateSessionStatus (stripPrefix (cn_session_id inp)) SsCancelled
        (hb_studio (final (for_each (listRunsBySession (hb_studio h) (stripPrefix (cn_session_id inp)))
           (cancel_active_run (hb_now h))) h1))"
    by (rule cancel_session_shape [OF Some])
  let ?rs = "listRunsBySession (hb_studio h) (stripPrefix (cn_session_id inp))"
  have "\<forall>r\<in>set ?rs. listed h1 r" using session_runs_listed(1) [OF ok] h1(1) by (simp add: listed_def)
  then have "studio_moves (hb_studio h1) (hb_studio (final (for_each ?rs (cancel_active_run (hb_now h))) h1))"
    using cancel_loop_ends session_runs_listed(2) [OF ok] by blast
  then show ?thesis unfolding h1(3) using h1(2) quiet_updates(1) studio_moves_trans by blast
qed

lemma cancel_session_runs:
  assumes ok: "runs_ok (sd_runs (hb_studio h))"
    and s: "getSession (hb_studio h) (stripPrefix (cn_session_id inp)) = Some session"
    and r: "js_get (sd_runs (hb_studio h)) i = Some r"
  shows "js_get (sd_runs (hb_studio (final (cancelSession inp) h))) i =
    Some (if rr_session_id r = bareSessionId (stripPrefix (cn_session_id inp)) then ended_by (hb_now h) r else r)"
proof -
  obtain h1 where h1: "sd_runs (hb_studio h1) = sd_runs (hb_studio h)" "studio_moves (hb_studio h) (hb_studio h1)"
    "hb_studio (final (cancelSession inp) h) =
      updateSessionStatus (stripPrefix (cn_session_id inp)) SsCancelled
        (hb_studio (final (for_each (listRunsBySession (hb_studio h) (stripPrefix (cn_session_id inp)))
           (cancel_active_run (hb_now h))) h1))"
    by (rule cancel_session_shape [OF s])
  let ?rs = "listRunsBySession (hb_studio h) (stripPrefix (cn_session_id inp))"
  have "\<forall>r\<in>set ?rs. listed h1 r" using session_runs_listed(1) [OF ok] h1(1) by (simp add: listed_def)
  note loop = cancel_loop_get [OF this session_runs_listed(2) [OF ok], of "hb_now h" i]
  show ?thesis
    unfolding h1(3) using loop r session_runs_listed(3) [OF ok, of i "stripPrefix (cn_session_id inp)"] h1(1)
    by (auto simp: updateSessionStatus_def)
qed


lemma cancel_loop_sessions:
  "sd_sessions (hb_studio (final (for_each rs (cancel_active_run ts)) h)) = sd_sessions (hb_studio h)"
proof (induction rs arbitrary: h)
  case (Cons r rs)
  have "sd_sessions (hb_studio (final (cancel_active_run ts r) h)) = sd_sessions (hb_studio h)"
    by (simp add: cancel_active_run_def final_bind updateRunLifecycle_def)
  then show ?case using Cons by (simp add: final_bind)
qed simp

lemma cancel_session_status:
  assumes s: "getSession (hb_studio h) (stripPrefix (cn_session_id inp)) = Some session"
  shows "map_option ss_status (getSession (hb_studio (final (cancelSession inp) h)) (stripPrefix (cn_session_id inp)))
    = Some SsCancelled"
proof -
  let ?bare = "stripPrefix (cn_session_id inp)"
  obtain h1 where h1: "hb_studio (final (cancelSession inp) h) =
      updateSessionStatus ?bare SsCancelled
        (hb_studio (final (for_each (listRunsBySession (hb_studio h) ?bare) (cancel_active_run (hb_now h))) h1))"
    "sd_sessions (hb_studio h1) = sd_sessions (markSessionCancelRequested ?bare (hb_now h) (hb_studio h))"
    by (rule cancel_session_shape [OF s])
  show ?thesis
    unfolding h1(1) using s h1(2)
    by (auto simp: updateSessionStatus_def getSession_def map_at_def cancel_loop_sessions markSessionCancelRequested_def)
qed


text \<open>Statements about all lifecycles of a set, lifecycle by lifecycle.\<close>

lemma all_lifecycles:
  "(\<forall>l\<in>S. P l) \<longleftrightarrow> (RWorking \<in> S \<longrightarrow> P RWorking) \<and> (RInputRequired \<in> S \<longrightarrow> P RInputRequired)
     \<and> (RCompleted \<in> S \<longrightarrow> P RCompleted) \<and> (RFailed \<in> S \<longrightarrow> P RFailed) \<and> (RCancelled \<in> S \<longrightarrow> P RCancelled)"
proof (intro iffI ballI)
  fix l
  assume "(RWorking \<in> S \<longrightarrow> P RWorking) \<and> (RInputRequired \<in> S \<longrightarrow> P RInputRequired)
     \<and> (RCompleted \<in> S \<longrightarrow> P RCompleted) \<and> (RFailed \<in> S \<longrightarrow> P RFailed) \<and> (RCancelled \<in> S \<longrightarrow> P RCancelled)"
    and "l \<in> S"
  then show "P l" by (cases l) auto
qed auto

lemma lifecycle_singleton: "S = {x} \<longleftrightarrow> x \<in> S \<and> (\<forall>l\<in>S. l = x)" for x :: run_lifecycle
  by auto

lemma no_lifecycle: "S = {} \<longleftrightarrow> (\<forall>l\<in>S. l \<noteq> l)" for S :: "run_lifecycle set"
  by auto

lemma session_status_cases:
  "deriveSessionStatus ls requested =
     (let L = set ls in
      if L \<inter> {RWorking, RInputRequired} \<noteq> {} then SsActive
      else if requested then SsCancelled
      else if L = {} then SsActive
      else if L = {RCancelled} then SsCancelled
      else if L = {RCompleted} then SsCompleted
      else if RCompleted \<notin> L then SsFailed
      else SsPartialFailure)"
proof -
  have ended: "list_all (\<lambda>l. l \<in> set TERMINAL) ls \<longleftrightarrow> RWorking \<notin> set ls \<and> RInputRequired \<notin> set ls"
    unfolding list_all_iff all_lifecycles by (simp add: TERMINAL_def)
  have act: "list_ex (\<lambda>l. l \<in> set ACTIVE) ls \<longleftrightarrow> RWorking \<in> set ls \<or> RInputRequired \<in> set ls"
    by (auto simp: list_ex_iff ACTIVE_def)
  have bad: "list_all (\<lambda>l. l = RFailed \<or> l = RCancelled) ls \<longleftrightarrow>
      RWorking \<notin> set ls \<and> RInputRequired \<notin> set ls \<and> RCompleted \<notin> set ls"
    unfolding list_all_iff all_lifecycles by simp
  have completed: "list_all (\<lambda>l. l = RCompleted) ls \<longleftrightarrow> (\<forall>l\<in>set ls. l = RCompleted)"
    and cancelled: "list_all (\<lambda>l. l = RCancelled) ls \<longleftrightarrow> (\<forall>l\<in>set ls. l = RCancelled)"
    by (simp_all add: list_all_iff)
  have none: "ls = [] \<longleftrightarrow> (\<forall>l\<in>set ls. l \<noteq> l)" by (cases ls) auto
  show ?thesis
    unfolding deriveSessionStatus_def Let_def act ended bad completed cancelled none lifecycle_singleton
      no_lifecycle [of "set ls"]
    using all_lifecycles [of "set ls" "\<lambda>l. False"] by (simp add: all_lifecycles del: set_empty)
qed

end
