(* ===== verification/RunPolicy.thy ===== *)
theory RunPolicy
  imports RunService
begin

text \<open>
  Capacity policies: the aliases of \<open>handlers.yaml\<close> resolved against the flows of a space
  (\<open>hub-core/src/index/run-policy.ts\<close>) and the replacement of a space's index that installs them
  (\<open>hub-persistence/src/memory.ts\<close>), with the part of the apply route that guards it
  (\<open>hub-daemon/src/routes/spaces/index.ts\<close>). Resolution is shown to accept exactly the policy
  lists in which every alias names one flow and no flow is named twice.
\<close>

section \<open>Resolving policies\<close>

record authored_policy =
  ap_flow :: string
  ap_max_concurrent_runs :: nat

record run_policy_flow =
  pf_name :: string
  pf_flow_id :: string
  pf_digest :: string
  pf_origin_space_id :: string

record policy_failure =
  pe_code :: string
  pe_flow :: string
  pe_message :: string

definition flows_named :: "run_policy_flow list \<Rightarrow> string \<Rightarrow> run_policy_flow list" where
  "flows_named flows name = filter (\<lambda>f. pf_name f = name) flows"

definition resolved_policy :: "authored_policy \<Rightarrow> run_policy_flow \<Rightarrow> run_policy" where
  "resolved_policy p f = \<lparr> rp_flow = ap_flow p, rp_flow_id = pf_flow_id f,
     rp_origin_space_id = pf_origin_space_id f, rp_flow_digest = pf_digest f,
     rp_max_concurrent_runs = ap_max_concurrent_runs p \<rparr>"

definition policy_failure_of :: "string \<Rightarrow> string \<Rightarrow> string \<Rightarrow> string \<Rightarrow> policy_failure" where
  "policy_failure_of code flow before after =
     \<lparr> pe_code = code, pe_flow = flow, pe_message = before @ quoted flow @ after \<rparr>"

text \<open>The loop; \<open>seen\<close> is the set of flow ids resolved so far.\<close>

fun resolve_loop ::
    "run_policy_flow list \<Rightarrow> string list \<Rightarrow> authored_policy list \<Rightarrow> policy_failure + run_policy list" where
  "resolve_loop flows seen [] = Inr []"
| "resolve_loop flows seen (p # ps) =
     (case flows_named flows (ap_flow p) of
        [] \<Rightarrow> Inl (policy_failure_of ''RUN_POLICY_UNKNOWN_FLOW'' (ap_flow p)
                ''run_policies references unknown or stale flow alias '' '''')
      | [f] \<Rightarrow>
          if pf_flow_id f \<in> set seen
          then Inl (policy_failure_of ''RUN_POLICY_DUPLICATE'' (ap_flow p)
                 ''run_policies has duplicate entries for flow '' '''')
          else (case resolve_loop flows (pf_flow_id f # seen) ps of
                  Inl e \<Rightarrow> Inl e
                | Inr rest \<Rightarrow> Inr (resolved_policy p f # rest))
      | _ \<Rightarrow> Inl (policy_failure_of ''RUN_POLICY_AMBIGUOUS_FLOW'' (ap_flow p)
                ''run_policies references ambiguous flow name '' '' (duplicate flow names)''))"

definition resolveRunPolicies ::
    "authored_policy list \<Rightarrow> run_policy_flow list \<Rightarrow> policy_failure + run_policy list" where
  "resolveRunPolicies policies flows = resolve_loop flows [] policies"

definition names_one :: "run_policy_flow list \<Rightarrow> authored_policy \<Rightarrow> bool" where
  "names_one flows p \<longleftrightarrow> length (flows_named flows (ap_flow p)) = 1"

definition flow_of :: "run_policy_flow list \<Rightarrow> authored_policy \<Rightarrow> run_policy_flow" where
  "flow_of flows p = hd (flows_named flows (ap_flow p))"

lemma names_one_cases:
  "names_one flows p \<longleftrightarrow> flows_named flows (ap_flow p) = [flow_of flows p]"
  by (cases "flows_named flows (ap_flow p)") (auto simp: names_one_def flow_of_def)

lemma resolve_loop_ok:
  "list_all (names_one flows) ps \<Longrightarrow> distinct (map (\<lambda>p. pf_flow_id (flow_of flows p)) ps) \<Longrightarrow>
     \<forall>p\<in>set ps. pf_flow_id (flow_of flows p) \<notin> set seen \<Longrightarrow>
   resolve_loop flows seen ps = Inr (map (\<lambda>p. resolved_policy p (flow_of flows p)) ps)"
proof (induction ps arbitrary: seen)
  case Nil
  show ?case by simp
next
  case (Cons p ps)
  have "\<forall>q\<in>set ps. pf_flow_id (flow_of flows q) \<notin> set (pf_flow_id (flow_of flows p) # seen)"
    using Cons.prems(2,3) by (auto simp: image_iff dest: sym)
  then show ?case using Cons by (simp add: names_one_cases)
qed

lemma resolve_loop_only:
  "resolve_loop flows seen ps = Inr rs \<Longrightarrow>
     list_all (names_one flows) ps \<and> distinct (map (\<lambda>p. pf_flow_id (flow_of flows p)) ps)
     \<and> (\<forall>p\<in>set ps. pf_flow_id (flow_of flows p) \<notin> set seen)
     \<and> rs = map (\<lambda>p. resolved_policy p (flow_of flows p)) ps"
proof (induction ps arbitrary: seen rs)
  case Nil
  then show ?case by simp
next
  case (Cons p ps)
  then have one: "flows_named flows (ap_flow p) = [flow_of flows p]"
    by (auto simp: flow_of_def split: list.splits)
  with Cons.prems obtain rest where "pf_flow_id (flow_of flows p) \<notin> set seen"
    and rest: "resolve_loop flows (pf_flow_id (flow_of flows p) # seen) ps = Inr rest"
    and "rs = resolved_policy p (flow_of flows p) # rest"
    by (auto split: if_splits sum.splits)
  then show ?case using Cons.IH [OF rest] one by (auto simp: names_one_cases)
qed

section \<open>Installing an index\<close>

text \<open>The parts of an index snapshot that runs and flows are looked up in.\<close>

record space_index =
  sx_flows :: "flow_index_entry list"
  sx_run_policies :: "run_policy list"
  sx_hooks :: "hook_row list"
  sx_personas :: "persona_ad list"

definition normalizeFlowIndexEntry :: "flow_index_entry \<Rightarrow> flow_index_entry" where
  "normalizeFlowIndexEntry e =
     e\<lparr> fe_triggers := Some (opt_default
         \<lparr> sc_manual = None, sc_flow_call = None, sc_events = None, sc_schedule = None, sc_idempotency = None \<rparr>
         (fe_triggers e)) \<rparr>"

definition index_flow :: "flow_index_entry \<Rightarrow> (string, flow_index_entry) jsmap \<Rightarrow> (string, flow_index_entry) jsmap" where
  "index_flow f m = js_set (flowIndexKey (fe_origin_space_id f) (fe_flow_id f)) (normalizeFlowIndexEntry f) m"

definition replaceSpaceIndex :: "string \<Rightarrow> space_index \<Rightarrow> studio \<Rightarrow> studio" where
  "replaceSpaceIndex space_id snapshot st =
     (let bare = bareSpaceId space_id in
      st\<lparr> sd_run_policies := js_set bare (sx_run_policies snapshot) (sd_run_policies st),
          sd_hooks := js_set bare (sx_hooks snapshot) (sd_hooks st),
          sd_personas := js_set bare (sx_personas snapshot) (sd_personas st),
          sd_flow_index := fold index_flow (sx_flows snapshot)
            (filter (\<lambda>(_, e). bareSpaceId (fe_origin_space_id e) \<noteq> bare) (sd_flow_index st)) \<rparr>)"

text \<open>Refused with the active run ids, or the index is replaced.\<close>

definition apply_index :: "string \<Rightarrow> space_index \<Rightarrow> string list option hub_op" where
  "apply_index bare snapshot =
     do {
       busy \<leftarrow> studio_ask (\<lambda>st. assertSpaceQuiescent st bare);
       case busy of
         Some ids \<Rightarrow> State_Monad.return (Some ids)
       | None \<Rightarrow> do {
           _ \<leftarrow> studio_do (replaceSpaceIndex bare snapshot);
           State_Monad.return None
         }
     }"


lemma resolve_exactly:
  "resolveRunPolicies ps flows = Inr rs \<longleftrightarrow>
     (\<forall>p\<in>set ps. \<exists>f. flows_named flows (ap_flow p) = [f]) \<and>
     distinct (map (\<lambda>p. pf_flow_id (hd (flows_named flows (ap_flow p)))) ps) \<and>
     rs = map (\<lambda>p. resolved_policy p (hd (flows_named flows (ap_flow p)))) ps"
proof -
  have one: "list_all (names_one flows) ps \<longleftrightarrow> (\<forall>p\<in>set ps. \<exists>f. flows_named flows (ap_flow p) = [f])"
    by (auto simp: list_all_iff names_one_cases flow_of_def)
  show ?thesis
    using resolve_loop_ok [of flows ps "[]"] resolve_loop_only [of flows "[]" ps rs]
    unfolding resolveRunPolicies_def flow_of_def [symmetric] one by auto
qed

end
