(* ===== verification/RunCapacity.thy ===== *)
theory RunCapacity
  imports RunProofs RunPolicy
begin

text \<open>
  The run service as a capacity-limited table. The abstract machine has three steps: an active run
  changes its lifecycle, a run starts under a fresh id while its flow is below its limit, and the
  policies of a space without active runs are replaced. Every operation of the service refines a
  sequence of these steps, so the invariants of the abstract machine hold of the code.
\<close>

section \<open>The abstract machine\<close>

type_synonym policy_table = "(string, run_policy list) jsmap"
type_synonym capacity_state = "run_table \<times> policy_table"

definition occupies :: "string \<Rightarrow> string \<Rightarrow> run_row \<Rightarrow> bool" where
  "occupies b f r \<longleftrightarrow> rr_space_id r = Some b \<and> rr_flow_id r = Some f \<and> \<not> isRunTerminal (rr_lifecycle r)"

definition load_of :: "run_table \<Rightarrow> string \<Rightarrow> string \<Rightarrow> nat" where
  "load_of R b f = length (filter (occupies b f) (js_values R))"

definition limit_of :: "policy_table \<Rightarrow> string \<Rightarrow> string \<Rightarrow> nat option" where
  "limit_of P b f = map_option rp_max_concurrent_runs (find (\<lambda>p. rp_flow_id p = f) (opt_default [] (js_get P b)))"

text \<open>A bare space id is not empty and carries no prefix of its own.\<close>

definition plain_space :: "string \<Rightarrow> bool" where
  "plain_space b \<longleftrightarrow> b \<noteq> [] \<and> \<not> starts_with b ''spc_''"

definition row_ok :: "run_row \<Rightarrow> bool" where
  "row_ok r \<longleftrightarrow> bareRunId (rr_run_id r) = rr_run_id r
     \<and> (case rr_space_id r of None \<Rightarrow> True | Some b \<Rightarrow> plain_space b)"

definition table_ok :: "run_table \<Rightarrow> bool" where
  "table_ok R \<longleftrightarrow> js_ok R \<and> (\<forall>k r. js_get R k = Some r \<longrightarrow> rr_run_id r = k \<and> row_ok r)"

definition has_room :: "capacity_state \<Rightarrow> run_row \<Rightarrow> bool" where
  "has_room S r \<longleftrightarrow> (\<forall>b f m. rr_space_id r = Some b \<longrightarrow> rr_flow_id r = Some f \<longrightarrow> f \<noteq> [] \<longrightarrow>
     limit_of (snd S) b f = Some m \<longrightarrow> load_of (fst S) b f < m)"

definition idle :: "run_table \<Rightarrow> string \<Rightarrow> bool" where
  "idle R b \<longleftrightarrow> (\<forall>f. load_of R b f = 0)"

inductive capacity_step :: "capacity_state \<Rightarrow> capacity_state \<Rightarrow> bool" where
  move: "run_moves R R' \<Longrightarrow> capacity_step (R, P) (R', P)"
| start: "js_get R (rr_run_id r) = None \<Longrightarrow> row_ok r \<Longrightarrow> rr_lifecycle r = RWorking \<Longrightarrow> has_room (R, P) r \<Longrightarrow>
    capacity_step (R, P) (js_set (rr_run_id r) r R, P)"
| install: "idle R b \<Longrightarrow> capacity_step (R, P) (R, js_set b ps P)"

inductive_cases capacity_stepE: "capacity_step S S'"
inductive_cases run_movesE: "run_moves R R'"

definition within_limits :: "capacity_state \<Rightarrow> bool" where
  "within_limits S \<longleftrightarrow> (\<forall>b f m. plain_space b \<longrightarrow> f \<noteq> [] \<longrightarrow> limit_of (snd S) b f = Some m \<longrightarrow> load_of (fst S) b f \<le> m)"

section \<open>Counting rows\<close>

lemma count_set:
  "length (filter Q (js_values (js_set k v m))) \<le> length (filter Q (js_values m)) + (if Q v then 1 else 0)"
  by (induction m) (auto simp: js_set_def js_values_def)

lemma count_replace:
  "js_get m k = Some u \<Longrightarrow> (Q v \<Longrightarrow> Q u) \<Longrightarrow>
     length (filter Q (js_values (js_set k v m))) \<le> length (filter Q (js_values m))"
  by (induction m) (auto simp: js_set_def js_values_def js_get_def split: if_splits)

lemma load_set: "load_of (js_set k r R) b f \<le> load_of R b f + (if occupies b f r then 1 else 0)"
  unfolding load_of_def by (rule count_set)

lemma load_move: "run_moves R R' \<Longrightarrow> load_of R' b f \<le> load_of R b f"
proof (induction rule: run_moves.induct)
  case (run_moves R k r e l)
  then show ?case unfolding load_of_def by (intro count_replace) (auto simp: occupies_def)
qed

lemma load_moves: "run_moves\<^sup>*\<^sup>* R R' \<Longrightarrow> load_of R' b f \<le> load_of R b f"
  by (induction rule: rtranclp_induct) (auto dest: load_move [of _ _ b f])

section \<open>Invariants of the abstract machine\<close>

lemma table_ok_set: "table_ok R \<Longrightarrow> row_ok r \<Longrightarrow> table_ok (js_set (rr_run_id r) r R)"
  by (auto simp: table_ok_def)

lemma table_ok_move: "run_moves R R' \<Longrightarrow> table_ok R \<Longrightarrow> table_ok R'"
  by (induction rule: run_moves.induct) (auto simp: table_ok_def row_ok_def)

lemma step_table_ok: "capacity_step S S' \<Longrightarrow> table_ok (fst S) \<Longrightarrow> table_ok (fst S')"
  by (induction rule: capacity_step.induct) (auto intro: table_ok_move table_ok_set)

lemma step_within_limits:
  "capacity_step S S' \<Longrightarrow> within_limits S \<Longrightarrow> within_limits S'"
proof (induction rule: capacity_step.induct)
  case (move R R' P)
  then show ?case using load_move [OF move(1)] by (fastforce simp: within_limits_def intro: order_trans)
next
  case (start R r P)
  show ?case unfolding within_limits_def
  proof (intro allI impI)
    fix b f m
    assume a: "plain_space b" "f \<noteq> []" "limit_of (snd (js_set (rr_run_id r) r R, P)) b f = Some m"
    show "load_of (fst (js_set (rr_run_id r) r R, P)) b f \<le> m"
    proof (cases "occupies b f r")
      case True
      then have "load_of R b f < m" using start(4) a by (auto simp: has_room_def occupies_def)
      then show ?thesis using load_set [of "rr_run_id r" r R b f] True by simp
    next
      case False
      have "load_of R b f \<le> m" using start(5) a by (simp add: within_limits_def)
      then show ?thesis using load_set [of "rr_run_id r" r R b f] False by simp
    qed
  qed
next
  case (install R b P ps)
  then show ?case by (auto simp: within_limits_def limit_of_def idle_def split: if_splits)
qed

lemma step_terminal:
  "capacity_step S S' \<Longrightarrow> js_get (fst S) k = Some r \<Longrightarrow> isRunTerminal (rr_lifecycle r) \<Longrightarrow> js_get (fst S') k = Some r"
  by (induction rule: capacity_step.induct) (auto elim!: run_movesE)

lemma steps_invariant:
  assumes "capacity_step\<^sup>*\<^sup>* S S'"
  shows "table_ok (fst S) \<Longrightarrow> table_ok (fst S')"
    and "within_limits S \<Longrightarrow> within_limits S'"
    and "js_get (fst S) k = Some r \<Longrightarrow> isRunTerminal (rr_lifecycle r) \<Longrightarrow> js_get (fst S') k = Some r"
  using assms by (induction rule: rtranclp_induct) (blast intro: step_table_ok step_within_limits step_terminal)+

lemma moves_steps: "run_moves\<^sup>*\<^sup>* R R' \<Longrightarrow> capacity_step\<^sup>*\<^sup>* (R, P) (R', P)"
  by (induction rule: rtranclp_induct) (auto intro: capacity_step.move rtranclp.rtrancl_into_rtrancl)

end
