(* ===== verification/HubSteps.thy ===== *)
theory HubSteps
  imports RunCapacity
begin

text \<open>
  The operations of the run service as steps of one hub, and the proof that each refines the
  capacity-limited table of the previous theory. The premises say what a caller and the id generator
  provide: space ids are prefixed, the id of a new run is fresh and bare, and an instance whose run
  has ended does not report a new state.
\<close>

definition capacity_of :: "hub \<Rightarrow> capacity_state" where
  "capacity_of h = (sd_runs (hb_studio h), sd_run_policies (hb_studio h))"

abbreviation refines :: "hub \<Rightarrow> hub \<Rightarrow> bool" where
  "refines h h' \<equiv> capacity_step\<^sup>*\<^sup>* (capacity_of h) (capacity_of h')"

definition space_arg_ok :: "string option \<Rightarrow> bool" where
  "space_arg_ok s \<longleftrightarrow> (case s of None \<Rightarrow> True | Some i \<Rightarrow> starts_with i ''spc_'' \<and> plain_space (drop 4 i))"

definition fresh_run :: "hub \<Rightarrow> string \<Rightarrow> bool" where
  "fresh_run h i \<longleftrightarrow> js_get (sd_runs (hb_studio h)) i = None \<and> bareRunId i = i"

text \<open>The id \<open>createRun\<close> gives the run.\<close>

definition new_run_id :: "session_run_deps \<Rightarrow> create_run_input \<Rightarrow> hub \<Rightarrow> string" where
  "new_run_id deps inp h =
     (let fresh = rd_ulid deps (hb_next_id h) in
      case instance_for deps inp fresh of None \<Rightarrow> fresh | Some i \<Rightarrow> opt_default fresh i)"

definition still_active :: "hub \<Rightarrow> string \<Rightarrow> bool" where
  "still_active h i \<longleftrightarrow> (case getRun (hb_studio h) (stripPrefix i) of None \<Rightarrow> True
     | Some r \<Rightarrow> \<not> isRunTerminal (rr_lifecycle r))"

inductive hub_step :: "session_run_deps \<Rightarrow> hub \<Rightarrow> hub \<Rightarrow> bool" for deps where
  admit: "space_arg_ok (ci_space_id inp) \<Longrightarrow> fresh_run h (new_run_id deps inp h) \<Longrightarrow>
    hub_step deps h (final (admitAndCreateRun deps inp) h)"
| retry: "space_arg_ok (ri_space_id inp') \<Longrightarrow> fresh_run h (rd_ulid deps (hb_next_id h)) \<Longrightarrow>
    hub_step deps h (final (retryRun deps inp') h)"
| ensure: "space_arg_ok (Some (en_space_id inp'')) \<Longrightarrow>
    fresh_run h (rd_ulid deps (hb_next_id (final (ensure_session deps inp'') h))) \<Longrightarrow>
    hub_step deps h (final (ensureSessionAndRun deps inp'') h)"
| fail: "hub_step deps h (final (failRunWithNotification deps f) h)"
| cancel: "hub_step deps h (final (cancelRun c) h)"
| cancel_session: "hub_step deps h (final (cancelSession cn) h)"
| cancel_timeout: "hub_step deps h (final (cancel_session_timeout (bareSessionId i)) h)"
| complete_headless: "hub_step deps h (final (maybeCompleteHeadlessRun deps i) h)"
| reconcile: "hub_step deps h (final (reconcileHeadlessRuns deps) h)"
| sync: "still_active h i \<Longrightarrow> hub_step deps h (final (syncRunLifecycleFromInstance i state) h)"
| create_session: "hub_step deps h (final (createSession deps cs) h)"
| get_session: "hub_step deps h (final (getSessionWithStatus i) h)"
| list_sessions: "hub_step deps h (final (listSessionsFiltered st sp) h)"
| apply_space: "hub_step deps h (final (apply_index sp' snapshot) h)"
| tick: "hb_now h \<le> t \<Longrightarrow> hub_step deps h (h\<lparr> hb_now := t \<rparr>)"

section \<open>Creating a run\<close>

lemma strip_prefixed [simp]: "stripPrefix (CHR ''s'' # CHR ''p'' # CHR ''c'' # CHR ''_'' # b) = b"
  "bareSpaceId (CHR ''s'' # CHR ''p'' # CHR ''c'' # CHR ''_'' # b) = b"
  by (simp_all add: stripPrefix_def bareSpaceId_def bare_with_def starts_with_def)

lemma starts_with_split: "starts_with s p \<Longrightarrow> s = p @ drop (length p) s"
  by (metis append_take_drop_id starts_with_def)

lemma space_argE:
  assumes "space_arg_ok (Some s)"
  obtains b where "s = ''spc_'' @ b" and "plain_space b"
proof (rule that)
  show "s = ''spc_'' @ drop 4 s"
    using starts_with_split [of s "''spc_''"] assms by (simp add: space_arg_ok_def eval_nat_numeral)
  show "plain_space (drop 4 s)" using assms by (simp add: space_arg_ok_def)
qed

lemma plain_bare [simp]: "plain_space b \<Longrightarrow> bareSpaceId b = b"
  by (simp add: plain_space_def bareSpaceId_def bare_with_def)

text \<open>The run inserted by \<open>createRun\<close>, if one is.\<close>

definition created :: "session_run_deps \<Rightarrow> create_run_input \<Rightarrow> hub \<Rightarrow> hub \<Rightarrow> bool" where
  "created deps inp h h' \<longleftrightarrow> sd_run_policies (hb_studio h') = sd_run_policies (hb_studio h) \<and>
    (sd_runs (hb_studio h') = sd_runs (hb_studio h) \<or>
     (\<exists>inst ts. sd_runs (hb_studio h') =
        js_set (new_run_id deps inp h) (new_run_row inp (new_run_id deps inp h) inst ts) (sd_runs (hb_studio h))))"

lemma insert_run_effect [simp]:
  "sd_run_policies (hb_studio (final (insert_run_steps inp session row) h)) = sd_run_policies (hb_studio h)"
  "sd_runs (hb_studio (final (insert_run_steps inp session row) h)) = js_set (rr_run_id row) row (sd_runs (hb_studio h))"
  by (simp_all add: insert_run_steps_def final_bind Let_def insertRun_def updateSessionSpacesTouched_def)

lemma create_run_effect: "created deps inp h (final (createRun deps inp) h)"
proof (cases "getSession (hb_studio h) (stripPrefix (ci_session_id inp))")
  case None
  then show ?thesis by (simp add: created_def createRun_def final_bind)
next
  case (Some session)
  show ?thesis
  proof (cases "truthy_str (ci_flow_id inp) \<and> \<not> canStartFlow (ci_capabilities inp)")
    case True
    then show ?thesis using Some by (simp add: created_def createRun_def final_bind)
  next
    case False
    note denied = this
    show ?thesis
    proof (cases "instance_for deps inp (rd_ulid deps (hb_next_id h))")
      case None
      then show ?thesis using Some denied by (auto simp: created_def createRun_def final_bind)
    next
      case (Some inst)
      then show ?thesis
        using denied \<open>getSession _ _ = Some session\<close>
        by (auto simp: created_def createRun_def final_bind Let_def new_run_id_def new_run_row_def)
    qed
  qed
qed


lemma new_row_fields [simp]:
  "rr_run_id (new_run_row inp k inst ts) = k" "rr_flow_id (new_run_row inp k inst ts) = ci_flow_id inp"
  "rr_lifecycle (new_run_row inp k inst ts) = RWorking"
  "rr_space_id (new_run_row inp k inst ts) =
     (if truthy_str (ci_space_id inp) then Some (stripPrefix (the (ci_space_id inp))) else None)"
  by (simp_all add: new_run_row_def)

lemma new_row_ok:
  assumes "space_arg_ok (ci_space_id inp)" and "bareRunId k = k"
  shows "row_ok (new_run_row inp k inst ts)"
  using assms by (cases "ci_space_id inp") (auto simp: row_ok_def elim!: space_argE)

lemma created_refines:
  assumes "created deps inp h h'" and "space_arg_ok (ci_space_id inp)" and "fresh_run h (new_run_id deps inp h)"
    and room: "\<And>inst ts. has_room (capacity_of h) (new_run_row inp (new_run_id deps inp h) inst ts)"
  shows "refines h h'"
  using assms(1) unfolding created_def
proof (elim conjE disjE exE)
  assume "sd_run_policies (hb_studio h') = sd_run_policies (hb_studio h)" and "sd_runs (hb_studio h') = sd_runs (hb_studio h)"
  then show ?thesis by (simp add: capacity_of_def)
next
  fix inst ts
  let ?r = "new_run_row inp (new_run_id deps inp h) inst ts"
  assume "sd_run_policies (hb_studio h') = sd_run_policies (hb_studio h)"
    and "sd_runs (hb_studio h') = js_set (new_run_id deps inp h) ?r (sd_runs (hb_studio h))"
  then have "capacity_step (capacity_of h) (capacity_of h')"
    using capacity_step.start [of "sd_runs (hb_studio h)" ?r] assms(2,3) room [of inst ts] new_row_ok
    by (simp add: capacity_of_def fresh_run_def)
  then show ?thesis by blast
qed

lemma load_active_runs:
  assumes "plain_space b" and "f \<noteq> []"
  shows "length (active_runs st b (Some f)) = load_of (sd_runs st) b f"
proof -
  have "b \<noteq> []" using assms(1) by (simp add: plain_space_def)
  have "run_matches \<lparr> rf_space_id = Some b, rf_flow_id = Some f, rf_lifecycles = NON_TERMINAL_LIFECYCLES, rf_limit = 0 \<rparr>
      = occupies b f" (is "?m = _")
  proof
    fix r
    show "?m r = occupies b f r"
      using assms \<open>b \<noteq> []\<close> by (cases "rr_lifecycle r")
      (auto simp: run_matches_def occupies_def NON_TERMINAL_LIFECYCLES_def isRunTerminal_def truthy_str_def)
  qed
  then show ?thesis unfolding active_runs_def listRuns_def load_of_def by simp
qed

lemma admitted_room:
  assumes "plain_space b" and "f \<noteq> []" and "admitFlowRun st (''spc_'' @ b) f = None"
    and "limit_of (sd_run_policies st) b f = Some m"
  shows "load_of (sd_runs st) b f < m"
  using assms load_active_runs [OF assms(1,2), of st]
  by (auto simp: admitFlowRun_def limit_of_def listIndexedRunPolicies_def Let_def split: if_splits)


section \<open>Every operation refines the table\<close>

lemma moves_refine: "ends m \<Longrightarrow> refines h (final m h)"
  using moves_steps unfolding ends_def studio_moves_def capacity_of_def by metis

lemma admit_refines:
  assumes ok: "space_arg_ok (ci_space_id inp)" and fresh: "fresh_run h (new_run_id deps inp h)"
  shows "refines h (final (admitAndCreateRun deps inp) h)"
proof -
  have id: "new_run_id deps (inp\<lparr> ci_flow_digest := x \<rparr>) h = new_run_id deps inp h" for x
    by (auto simp: new_run_id_def instance_for_def Let_def)
  show ?thesis
  proof (cases "truthy_str (ci_space_id inp) \<and> truthy_str (ci_flow_id inp)")
    case False
    then have "has_room (capacity_of h) (new_run_row inp (new_run_id deps inp h) inst ts)" for inst ts
      by (auto simp: has_room_def truthy_str_def)
    moreover have "final (admitAndCreateRun deps inp) h = final (createRun deps inp) h"
      using False by (simp add: admitAndCreateRun_def)
    ultimately show ?thesis using created_refines [OF create_run_effect ok fresh] by simp
  next
    case True
    then obtain s f where args: "ci_space_id inp = Some s" "ci_flow_id inp = Some f" "f \<noteq> []"
      by (auto simp: truthy_str_def)
    then obtain b where b: "s = ''spc_'' @ b" "plain_space b" using ok by (auto elim: space_argE)
    let ?e = "getFlowIndexEntry (hb_studio h) f (Some (bareSpaceId s))"
    show ?thesis
    proof (cases "?e = None \<or> admitFlowRun (hb_studio h) s f \<noteq> None")
      case refused: True
      then have "final (admitAndCreateRun deps inp) h = h"
        using True args by (auto simp: admitAndCreateRun_def final_bind split: option.splits)
      then show ?thesis by simp
    next
      case False
      then obtain e where e: "?e = Some e" "admitFlowRun (hb_studio h) s f = None" by auto
      let ?inp = "inp\<lparr> ci_flow_digest := Some (fe_digest e) \<rparr>"
      have "final (admitAndCreateRun deps inp) h = final (createRun deps ?inp) h"
        using True args e by (simp add: admitAndCreateRun_def final_bind)
      moreover have "has_room (capacity_of h) (new_run_row ?inp (new_run_id deps ?inp h) inst ts)" for inst ts
        using True args b admitted_room [OF b(2) args(3) e(2) [unfolded b(1)]] by (simp add: has_room_def capacity_of_def)
      ultimately show ?thesis using created_refines [OF create_run_effect, of ?inp] ok fresh id by simp
    qed
  qed
qed

lemma retry_refines:
  assumes ok: "space_arg_ok (ri_space_id inp)" and fresh: "fresh_run h (rd_ulid deps (hb_next_id h))"
    and table: "table_ok (sd_runs (hb_studio h))"
  shows "refines h (final (retryRun deps inp) h)"
proof (cases "getRun (hb_studio h) (stripPrefix (ri_run_id inp))")
  case None
  then show ?thesis by (simp add: retryRun_def final_bind Let_def)
next
  case (Some r)
  have "row_ok r" using Some table by (auto simp: getRun_def table_ok_def)
  then have "space_arg_ok (run_space_id r)"
    by (auto simp: row_ok_def run_space_id_def space_arg_ok_def addSpaceId_def starts_with_def split: option.splits)
  then have "space_arg_ok (or_try (ri_space_id inp) (run_space_id r))"
    using ok by (cases "ri_space_id inp") (simp_all add: or_try_def)
  then show ?thesis
    using Some fresh by (auto simp: retryRun_def final_bind Let_def new_run_id_def instance_for_def truthy_str_def opt_default_def
        intro!: admit_refines)
qed

lemma create_session_ends [ends_intros]: "ends (createSession deps cs)"
  unfolding createSession_def by (intro ends_intros)

lemma ensure_session_runs: "sd_runs (hb_studio (final (ensure_session deps inp) h)) = sd_runs (hb_studio h)"
  by (auto simp: ensure_session_def createSession_def final_bind Let_def insertSession_def)

lemma ensure_refines:
  assumes ok: "space_arg_ok (Some (en_space_id inp))"
    and fresh_h: "fresh_run h (rd_ulid deps (hb_next_id h'))" and h': "h' = final (ensure_session deps inp) h"
  shows "refines h (final (ensureSessionAndRun deps inp) h)"
proof -
  have fresh: "fresh_run h' (rd_ulid deps (hb_next_id h'))"
    using fresh_h ensure_session_runs by (simp add: fresh_run_def h')
  have "ends (ensure_session deps inp)" unfolding ensure_session_def by (intro ends_intros)
  then have first: "refines h h'" unfolding h' by (rule moves_refine)
  show ?thesis
  proof (cases "truthy_str (en_run_id inp)")
    case True
    then show ?thesis using first by (simp add: ensureSessionAndRun_def final_bind h')
  next
    case False
    let ?inp = "\<lparr> ci_session_id = result (ensure_session deps inp) h, ci_space_id = Some (en_space_id inp), ci_flow_id = None,
      ci_flow_digest = None, ci_input_params = None, ci_reference_run_ids = None,
      ci_actor_id = en_actor_id inp, ci_token_id = en_token_id inp, ci_capabilities = [''flow:run''],
      ci_contract_ref_id = None, ci_metadata = None, ci_from_step_id = None \<rparr>"
    have "refines h' (final (admitAndCreateRun deps ?inp) h')"
      using ok fresh by (intro admit_refines) (simp_all add: new_run_id_def instance_for_def truthy_str_def opt_default_def)
    then show ?thesis
      using first False by (simp add: ensureSessionAndRun_def final_bind h')
  qed
qed


lemma table_runs_ok: "table_ok R \<Longrightarrow> runs_ok R"
  by (auto simp: table_ok_def runs_ok_def row_ok_def)

lemma studio_moves_refine: "studio_moves (hb_studio h) (hb_studio h') \<Longrightarrow> refines h h'"
  using moves_steps unfolding studio_moves_def capacity_of_def by metis

lemma timeout_moves:
  assumes "table_ok (sd_runs (hb_studio h))"
  shows "studio_moves (hb_studio h) (hb_studio (final (cancel_session_timeout i) h))"
proof -
  let ?rs = "listRunsBySession (hb_studio h) i"
  note ok = table_runs_ok [OF assms]
  have "\<forall>r\<in>set ?rs. listed h r" using session_runs_listed(1) [OF ok] by (simp add: listed_def)
  then have "studio_moves (hb_studio h) (hb_studio (final (for_each ?rs (cancel_active_run (hb_now h))) h))"
    using cancel_loop_ends session_runs_listed(2) [OF ok] by blast
  then show ?thesis
    using studio_moves_trans quiet_updates(1) by (simp add: cancel_session_timeout_def final_bind)
qed

lemma sync_moves:
  assumes "still_active h i"
  shows "studio_moves (hb_studio h) (hb_studio (final (syncRunLifecycleFromInstance i state) h))"
proof (cases "getRun (hb_studio h) (stripPrefix i)")
  case None
  then show ?thesis by (simp add: syncRunLifecycleFromInstance_def final_bind Let_def)
next
  case (Some r)
  let ?l = "instanceStateToLifecycle state"
  let ?e = "if isRunTerminal ?l then Some (hb_now h) else None"
  let ?h = "h\<lparr> hb_studio := updateRunLifecycle (stripPrefix i) ?l ?e (hb_studio h) \<rparr>"
  have "studio_moves (hb_studio h) (hb_studio ?h)"
    using end_update [OF Some] assms Some by (simp add: still_active_def)
  moreover have "studio_moves (hb_studio ?h) (hb_studio (final (refreshSessionStatus (rr_session_id r)) ?h))"
    using refresh_ends unfolding ends_def by blast
  ultimately have moved: "studio_moves (hb_studio h) (hb_studio (final (refreshSessionStatus (rr_session_id r)) ?h))"
    by (rule studio_moves_trans)
  show ?thesis
  proof (cases "rr_lifecycle r = ?l")
    case True
    then show ?thesis using Some by (simp add: syncRunLifecycleFromInstance_def final_bind Let_def)
  next
    case False
    then have "final (syncRunLifecycleFromInstance i state) h = final (refreshSessionStatus (rr_session_id r)) ?h"
      using Some by (simp add: syncRunLifecycleFromInstance_def final_bind Let_def)
    then show ?thesis using moved by simp
  qed
qed

lemma refresh_each_ends [ends_intros]: "ends (refresh_each want rows)"
  by (induction rows) (auto intro!: ends_intros)

lemma session_reads_ends [ends_intros]:
  "ends (getSessionWithStatus i)" "ends (listSessionsFiltered st sp)"
  unfolding getSessionWithStatus_def listSessionsFiltered_def Let_def by (intro ends_intros)+

lemma quiescent_idle:
  assumes "assertSpaceQuiescent st s = None"
  shows "idle (sd_runs st) (bareSpaceId s)"
proof -
  have none: "active_runs st (bareSpaceId s) None = []"
    using assms by (auto simp: assertSpaceQuiescent_def Let_def split: if_splits)
  have "filter (occupies (bareSpaceId s) f) (js_values (sd_runs st)) = []" for f
  proof (rule ccontr)
    assume "\<not> ?thesis"
    then obtain r where r: "r \<in> set (js_values (sd_runs st))" "occupies (bareSpaceId s) f r"
      by (auto simp: filter_empty_conv)
    then have "r \<in> set (active_runs st (bareSpaceId s) None)"
      by (cases "rr_lifecycle r") (auto simp: active_runs_def listRuns_def run_matches_def occupies_def
          NON_TERMINAL_LIFECYCLES_def isRunTerminal_def truthy_str_def)
    then show False using none by simp
  qed
  then show ?thesis by (simp add: idle_def load_of_def)
qed

lemma apply_refines: "refines h (final (apply_index s snapshot) h)"
proof (cases "assertSpaceQuiescent (hb_studio h) s")
  case None
  then have "capacity_step (capacity_of h) (capacity_of (final (apply_index s snapshot) h))"
    using capacity_step.install [OF quiescent_idle [OF None]]
    by (simp add: apply_index_def final_bind replaceSpaceIndex_def Let_def capacity_of_def)
  then show ?thesis by blast
next
  case (Some ids)
  then show ?thesis by (simp add: apply_index_def final_bind)
qed

lemma step_refines: "hub_step deps h h' \<Longrightarrow> table_ok (sd_runs (hb_studio h)) \<Longrightarrow> refines h h'"
proof (induction rule: hub_step.induct)
  case admit
  then show ?case by (intro admit_refines)
next
  case retry
  then show ?case by (intro retry_refines)
next
  case ensure
  then show ?case by (intro ensure_refines [OF _ _ refl])
next
  case fail
  then show ?case by (intro moves_refine ends_intros)
next
  case cancel
  then show ?case by (intro moves_refine ends_intros)
next
  case cancel_session
  then show ?case by (intro studio_moves_refine cancel_session_ends table_runs_ok)
next
  case cancel_timeout
  then show ?case by (intro studio_moves_refine timeout_moves)
next
  case complete_headless
  then show ?case by (intro moves_refine ends_intros)
next
  case reconcile
  then show ?case by (intro moves_refine ends_intros)
next
  case sync
  then show ?case by (intro studio_moves_refine sync_moves)
next
  case create_session
  then show ?case by (intro moves_refine ends_intros)
next
  case get_session
  then show ?case by (intro moves_refine ends_intros)
next
  case list_sessions
  then show ?case by (intro moves_refine ends_intros)
next
  case apply_space
  then show ?case by (intro apply_refines)
next
  case tick
  then show ?case by (simp add: capacity_of_def)
qed

lemma run_refines: "(hub_step deps)\<^sup>*\<^sup>* h h' \<Longrightarrow> table_ok (sd_runs (hb_studio h)) \<Longrightarrow> refines h h'"
proof (induction rule: rtranclp_induct)
  case base
  then show ?case by simp
next
  case (step h' h'')
  have "table_ok (sd_runs (hb_studio h'))"
    using steps_invariant(1) [OF step.IH [OF step.prems]] step.prems by (simp add: capacity_of_def)
  then show ?case using step.IH [OF step.prems] step_refines [OF step.hyps(2)] by (meson rtranclp_trans)
qed


lemma reachable_table: "(hub_step deps)\<^sup>*\<^sup>* h h' \<Longrightarrow> table_ok (sd_runs (hb_studio h)) \<Longrightarrow> table_ok (sd_runs (hb_studio h'))"
  using steps_invariant(1) [OF run_refines] by (simp add: capacity_of_def)

lemma one_step: "hub_step deps h h' \<Longrightarrow> (hub_step deps)\<^sup>*\<^sup>* h h'"
  by blast

end
