(* ===== verification/RunProperties.thy ===== *)
theory RunProperties
  imports HubSteps
begin

text \<open>
  The properties of sessions and runs, each with a concrete instance: one space with one flow whose
  policy allows a single run.
\<close>

section \<open>A small hub\<close>

definition sample_ids :: session_run_deps where
  "sample_ids = \<lparr> rd_ulid = (\<lambda>n. CHR ''r'' # nat_str n), rd_instance_create = (\<lambda>_ _ _ _. None) \<rparr>"

definition sample_policy :: run_policy where
  "sample_policy = \<lparr> rp_flow = ''deploy'', rp_flow_id = ''f'', rp_origin_space_id = ''spc_a'',
     rp_flow_digest = ''d'', rp_max_concurrent_runs = 1 \<rparr>"

definition sample_entry :: flow_index_entry where
  "sample_entry = \<lparr> fe_flow_id = ''f'', fe_origin_space_id = ''spc_a'', fe_name = ''deploy'', fe_digest = ''d'',
     fe_triggers = None, fe_ir = None, fe_catalog = None \<rparr>"

definition sample_session :: session_row where
  "sample_session = \<lparr> ss_session_id = ''s'', ss_title = ''t'', ss_subject = None, ss_status = SsActive,
     ss_created_by = ByActor ''alice'', ss_spaces_touched = [''a''], ss_actor_id = ''alice'',
     ss_cancel_requested_at = None \<rparr>"

definition sample_hub :: hub where
  "sample_hub = \<lparr> hb_studio = \<lparr> sd_spaces = [], sd_grants = [], sd_bindings = [], sd_hooks = [], sd_personas = [], sd_run_policies = [(''a'', [sample_policy])],
       sd_flow_index = [(''a:f'', sample_entry)], sd_sessions = [(''s'', sample_session)], sd_runs = [],
       sd_memos = [], sd_gates = [], sd_notifications = [] \<rparr>,
     hb_journal = [], hb_terminated = [], hb_effects = [], hb_now = 0, hb_next_id = 0 \<rparr>"

definition sample_start :: create_run_input where
  "sample_start = \<lparr> ci_session_id = ''ses_s'', ci_space_id = Some ''spc_a'', ci_flow_id = Some ''f'',
     ci_flow_digest = None, ci_input_params = None, ci_reference_run_ids = None, ci_actor_id = ''alice'',
     ci_token_id = ''t'', ci_capabilities = [''flow:run''], ci_contract_ref_id = None, ci_metadata = None,
     ci_from_step_id = None \<rparr>"

definition start_run :: "hub \<Rightarrow> hub" where
  "start_run h = final (admitAndCreateRun sample_ids sample_start) h"

definition cancel_first :: "hub \<Rightarrow> hub" where
  "cancel_first h = final (cancelRun \<lparr> cr_run_id = ''run_r0'', cr_actor_id = ''alice'', cr_token_id = ''t'',
     cr_space_id = None \<rparr>) h"

definition cancel_sample :: cancel_session_input where
  "cancel_sample = \<lparr> cn_session_id = ''ses_s'', cn_actor_id = ''alice'', cn_token_id = ''t'', cn_space_id = None \<rparr>"

lemma table_ok_Nil [simp]: "table_ok []"
  by (simp add: table_ok_def)

lemma sample_table [simp]: "sd_runs (hb_studio sample_hub) = []"
  by (simp add: sample_hub_def)


lemma sample_admissible:
  "space_arg_ok (ci_space_id sample_start)" "fresh_run sample_hub (new_run_id sample_ids sample_start sample_hub)"
  by code_simp+

lemma sample_step: "hub_step sample_ids sample_hub (start_run sample_hub)"
  unfolding start_run_def by (rule hub_step.admit [OF sample_admissible])

lemma cancel_step: "hub_step sample_ids h (cancel_first h)"
  unfolding cancel_first_def by (rule hub_step.cancel)

lemma sample_run: "(hub_step sample_ids)\<^sup>*\<^sup>* sample_hub (cancel_first (start_run sample_hub))"
  using sample_step cancel_step by (meson converse_rtranclp_into_rtranclp rtranclp.rtrancl_refl)


section \<open>The properties\<close>





text \<open>
  A run that has ended is never touched again: whatever follows, its row stays exactly as it
  was when it ended.
\<close>

theorem ended_runs_stay_ended:
  assumes "(hub_step deps)\<^sup>*\<^sup>* h h'" and "table_ok (sd_runs (hb_studio h))"
    and "getRun (hb_studio h) i = Some r" and "isRunTerminal (rr_lifecycle r)"
  shows "getRun (hb_studio h') i = Some r"
  using steps_invariant(3) [OF run_refines [OF assms(1,2)]] assms(3,4) by (simp add: getRun_def capacity_of_def)

theorem ended_runs_stay_ended_witness:
  "let h = cancel_first (start_run sample_hub) in
   getRun (hb_studio (cancel_first h)) ''run_r0'' = getRun (hb_studio h) ''run_r0''"
proof -
  let ?h = "cancel_first (start_run sample_hub)"
  let ?r = "the (getRun (hb_studio ?h) ''run_r0'')"
  have run: "getRun (hb_studio ?h) ''run_r0'' = Some ?r" "isRunTerminal (rr_lifecycle ?r)" by code_simp+
  have "table_ok (sd_runs (hb_studio ?h))" using reachable_table [OF sample_run] by simp
  then show ?thesis
    unfolding Let_def using ended_runs_stay_ended [OF one_step [OF cancel_step] _ run] run(1) by simp
qed

text \<open>
  Reporting the state of an instance does not look at whether the run has ended: an instance
  that reports an open state after its run was cancelled revives the run, and the flow then has two
  active runs under a policy that allows one.
\<close>

theorem sync_revives_ended_run:
  "let h = start_run (cancel_first (start_run sample_hub));
       h' = final (syncRunLifecycleFromInstance ''ins_r0'' ''open'') h in
   map_option rr_lifecycle (getRun (hb_studio h) ''run_r0'') = Some RCancelled \<and>
   map_option rr_lifecycle (getRun (hb_studio h') ''run_r0'') = Some RWorking \<and>
   length (active_runs (hb_studio h') ''a'' (Some ''f'')) = 2 \<and>
   map rp_max_concurrent_runs (listIndexedRunPolicies (hb_studio h') ''a'') = [1]"
  by code_simp

text \<open>
  C8. Cancelling a session ends every active run of it, leaves its ended runs and every run of
  another session exactly as they were, and stores the session as cancelled.
\<close>

theorem session_cancel_settles:
  assumes "table_ok (sd_runs (hb_studio h))"
    and "getSession (hb_studio h) (stripPrefix (cn_session_id inp)) = Some session"
    and "js_get (sd_runs (hb_studio h)) i = Some r"
  shows "js_get (sd_runs (hb_studio (final (cancelSession inp) h))) i =
      Some (if rr_session_id r = bareSessionId (stripPrefix (cn_session_id inp)) \<and> \<not> isRunTerminal (rr_lifecycle r)
            then r\<lparr> rr_lifecycle := RCancelled, rr_ended_at := Some (hb_now h) \<rparr> else r) \<and>
    map_option ss_status (getSession (hb_studio (final (cancelSession inp) h)) (stripPrefix (cn_session_id inp)))
      = Some SsCancelled"
  using cancel_session_runs [OF table_runs_ok [OF assms(1)] assms(2,3)] cancel_session_status [OF assms(2)]
  by (auto simp: ended_by_def)

theorem session_cancel_settles_witness:
  "map_option rr_lifecycle (js_get (sd_runs (hb_studio (final (cancelSession cancel_sample) (start_run sample_hub)))) ''r0'')
     = Some RCancelled"
proof -
  let ?h = "start_run sample_hub"
  let ?r = "the (js_get (sd_runs (hb_studio ?h)) ''r0'')"
  let ?s = "the (getSession (hb_studio ?h) (stripPrefix (cn_session_id cancel_sample)))"
  have "table_ok (sd_runs (hb_studio ?h))" using reachable_table [OF one_step [OF sample_step]] by simp
  moreover have "getSession (hb_studio ?h) (stripPrefix (cn_session_id cancel_sample)) = Some ?s"
    "js_get (sd_runs (hb_studio ?h)) ''r0'' = Some ?r" by code_simp+
  moreover have "rr_session_id ?r = bareSessionId (stripPrefix (cn_session_id cancel_sample))"
    "\<not> isRunTerminal (rr_lifecycle ?r)" by code_simp+
  ultimately show ?thesis using session_cancel_settles by simp
qed

text \<open>
  The status of a session depends on the set of its runs' lifecycles only: active while some run
  is; then cancelled if that was requested or nothing but cancellation happened; active without
  runs; completed or failed when all succeeded or none did; a partial failure otherwise.
\<close>

theorem session_status_reference:
  "deriveSessionStatus ls requested =
     (let L = set ls in
      if L \<inter> {RWorking, RInputRequired} \<noteq> {} then SsActive
      else if requested then SsCancelled
      else if L = {} then SsActive
      else if L = {RCancelled} then SsCancelled
      else if L = {RCompleted} then SsCompleted
      else if RCompleted \<notin> L then SsFailed
      else SsPartialFailure)"
  by (rule session_status_cases)

text \<open>
  The policies of a space are accepted exactly when every alias names one applied flow and no
  flow is named twice; each policy is then bound to the flow its alias names, in order, so that a
  flow has at most one limit.
\<close>

theorem policies_resolve_exactly:
  "resolveRunPolicies ps flows = Inr rs \<longleftrightarrow>
     (\<forall>p\<in>set ps. \<exists>f. flows_named flows (ap_flow p) = [f]) \<and>
     distinct (map (\<lambda>p. pf_flow_id (hd (flows_named flows (ap_flow p)))) ps) \<and>
     rs = map (\<lambda>p. resolved_policy p (hd (flows_named flows (ap_flow p)))) ps"
  by (rule resolve_exactly)

theorem policies_resolve_exactly_witness:
  "resolveRunPolicies [\<lparr> ap_flow = ''deploy'', ap_max_concurrent_runs = 1 \<rparr>]
     [\<lparr> pf_name = ''deploy'', pf_flow_id = ''f'', pf_digest = ''d'', pf_origin_space_id = ''spc_a'' \<rparr>] = Inr [sample_policy]"
  unfolding policies_resolve_exactly by (simp add: flows_named_def resolved_policy_def sample_policy_def)

end
