(* ===== verification/Templates.thy ===== *)
theory Templates
  imports Studio
begin

text \<open>
  Templates of step parameters, from \<open>hub-core/src/flow-engine/templates.ts\<close>: the placeholders in
  double braces are replaced in seven passes, one per pattern, each over the result of the one before.
  A pattern is a matcher at one position of the text; all of them are deterministic, so no
  backtracking is needed. Objects are read by their own properties.
\<close>

section \<open>JSON text\<close>

definition hex4 :: "nat \<Rightarrow> string" where
  "hex4 n = pad_start 4 (CHR ''0'') (radix_str 16 n)"

definition json_char :: "char \<Rightarrow> string" where
  "json_char c =
     (let n = (of_char c :: nat) in
      if c = CHR 0x22 then [CHR 0x5C, CHR 0x22]
      else if c = CHR 0x5C then [CHR 0x5C, CHR 0x5C]
      else if n = 8 then [CHR 0x5C, CHR ''b''] else if n = 9 then [CHR 0x5C, CHR ''t'']
      else if n = 10 then [CHR 0x5C, CHR ''n''] else if n = 12 then [CHR 0x5C, CHR ''f'']
      else if n = 13 then [CHR 0x5C, CHR ''r'']
      else if n < 32 then [CHR 0x5C, CHR ''u''] @ hex4 n else [c])"

definition json_quote :: "string \<Rightarrow> string" where
  "json_quote s = [CHR 0x22] @ concat (map json_char s) @ [CHR 0x22]"

text \<open>\<open>JSON.stringify\<close>: undefined members are left out of objects and are null in arrays.\<close>

fun stringify :: "json \<Rightarrow> string" where
  "stringify JUndef = ''null''"
| "stringify JNull = ''null''"
| "stringify (JBool b) = (if b then ''true'' else ''false'')"
| "stringify (JNum n) = int_str n"
| "stringify (JStr s) = json_quote s"
| "stringify (JArr xs) = ''['' @ join_with '','' (map stringify xs) @ '']''"
| "stringify (JObj ob) =
     ''{'' @ join_with '','' (map (\<lambda>kv. json_quote (fst kv) @ '':'' @ stringify (snd kv))
       (filter (\<lambda>kv. snd kv \<noteq> JUndef) ob)) @ ''}''"

section \<open>Reading values\<close>

text \<open>\<open>v?.[k]\<close>: nothing of a value that is no object.\<close>

definition opt_member :: "json \<Rightarrow> string \<Rightarrow> json" where
  "opt_member v k = (case js_member v k of None \<Rightarrow> JUndef | Some w \<Rightarrow> w)"

text \<open>\<open>v ?? w\<close>\<close>

definition coalesce :: "json \<Rightarrow> json \<Rightarrow> json" where
  "coalesce v w = (if nullish v then w else v)"

definition readPath :: "json \<Rightarrow> string \<Rightarrow> json" where
  "readPath root path = js_path root (split_on (CHR ''.'') path)"

text \<open>\<open>value === undefined || value === null ? "" : String(value)\<close>\<close>

definition shown :: "json \<Rightarrow> string" where
  "shown v = (if nullish v then '''' else js_string v)"

section \<open>Patterns\<close>

function replace_all :: "(string \<Rightarrow> (string \<times> string) option) \<Rightarrow> string \<Rightarrow> string" where
  "replace_all f [] = []"
| "replace_all f (c # cs) =
     (case f (c # cs) of
        None \<Rightarrow> c # replace_all f cs
      | Some (text, rest) \<Rightarrow>
          if length rest \<le> length cs then text @ replace_all f rest else c # replace_all f cs)"
  by pat_completeness auto

termination
  by (relation "measure (\<lambda>(_, s). length s)") auto

definition lit :: "string \<Rightarrow> string \<Rightarrow> string option" where
  "lit p s = (if starts_with s p then Some (drop (length p) s) else None)"

text \<open>A non-empty run of characters, as long as possible: \<open>[^}]+\<close> and \<open>[^.}]+\<close>.\<close>

definition run_of :: "string \<Rightarrow> string \<Rightarrow> (string \<times> string) option" where
  "run_of stop s =
     (let r = takeWhile (\<lambda>c. c \<notin> set stop) s in
      if r = [] then None else Some (r, dropWhile (\<lambda>c. c \<notin> set stop) s))"

text \<open>The optional \<open>.field\<close> of a placeholder.\<close>

definition opt_part :: "string \<Rightarrow> (string option \<times> string) option" where
  "opt_part s =
     (case lit ''.'' s of
        None \<Rightarrow> Some (None, s)
      | Some r \<Rightarrow> map_option (\<lambda>(f, r'). (Some f, r')) (run_of ''}'' r))"

fun word_of :: "string list \<Rightarrow> string \<Rightarrow> (string \<times> string) option" where
  "word_of [] s = None"
| "word_of (w # ws) s = (case lit (w @ ''}}'') s of Some r \<Rightarrow> Some (w, r) | None \<Rightarrow> word_of ws s)"

definition closed :: "(string \<times> string) option \<Rightarrow> (string \<times> string) option" where
  "closed m = (case m of None \<Rightarrow> None | Some (x, r) \<Rightarrow> map_option (\<lambda>r'. (x, r')) (lit ''}}'' r))"

definition input_pattern :: "jobj \<Rightarrow> string \<Rightarrow> (string \<times> string) option" where
  "input_pattern ctx s =
     (case lit ''{{input.'' s of None \<Rightarrow> None | Some r \<Rightarrow>
        map_option (\<lambda>(key, r'). (shown (opt_member (coalesce (prop_of ctx ''input'') (JObj ctx)) key), r'))
          (closed (run_of ''}'' r)))"

definition output_text :: "jobj \<Rightarrow> string \<Rightarrow> string option \<Rightarrow> string" where
  "output_text ctx step field =
     (let output = opt_member (opt_member (coalesce (prop_of ctx ''steps'') (JObj [])) step) ''output'' in
      if \<not> truthy output then ''''
      else case field of None \<Rightarrow> stringify output | Some f \<Rightarrow> shown (readPath output f))"

definition output_pattern :: "jobj \<Rightarrow> string \<Rightarrow> (string \<times> string) option" where
  "output_pattern ctx s =
     (case lit ''{{steps.'' s of None \<Rightarrow> None | Some r \<Rightarrow>
       (case run_of ''.}'' r of None \<Rightarrow> None | Some (step, r1) \<Rightarrow>
         (case lit ''.output'' r1 of None \<Rightarrow> None | Some r2 \<Rightarrow>
           (case opt_part r2 of None \<Rightarrow> None | Some (field, r3) \<Rightarrow>
              map_option (\<lambda>r4. (output_text ctx step field, r4)) (lit ''}}'' r3)))))"

definition artifact_text :: "jobj \<Rightarrow> string \<Rightarrow> string \<Rightarrow> string \<Rightarrow> string" where
  "artifact_text ctx step slot field =
     (let slot_value = opt_member (opt_member (coalesce (prop_of ctx ''artifacts'') (JObj [])) step) slot in
      if \<not> truthy slot_value then '''' else shown (opt_member slot_value field))"

definition artifact_pattern :: "jobj \<Rightarrow> string \<Rightarrow> (string \<times> string) option" where
  "artifact_pattern ctx s =
     (case lit ''{{murrmure.step.'' s of None \<Rightarrow> None | Some r \<Rightarrow>
       (case run_of ''.}'' r of None \<Rightarrow> None | Some (step, r1) \<Rightarrow>
         (case lit ''.artifact.'' r1 of None \<Rightarrow> None | Some r2 \<Rightarrow>
           (case run_of ''.}'' r2 of None \<Rightarrow> None | Some (slot, r3) \<Rightarrow>
             (case lit ''.'' r3 of None \<Rightarrow> None | Some r4 \<Rightarrow>
                map_option (\<lambda>(field, r5). (artifact_text ctx step slot field, r5))
                  (word_of [''path'', ''transfer_id''] r4))))))"

definition bound_text :: "(string, string) jsmap option \<Rightarrow> string \<Rightarrow> string" where
  "bound_text bs key = (case bs of None \<Rightarrow> '''' | Some m \<Rightarrow> opt_default '''' (js_get m key))"

definition scalar_pattern :: "(string, string) jsmap option \<Rightarrow> string \<Rightarrow> (string \<times> string) option" where
  "scalar_pattern bs s =
     (case lit ''{{murrmure.step.'' s of None \<Rightarrow> None | Some r \<Rightarrow>
       (case run_of ''.}'' r of None \<Rightarrow> None | Some (step, r1) \<Rightarrow>
         (case lit ''.'' r1 of None \<Rightarrow> None | Some r2 \<Rightarrow>
            map_option (\<lambda>(field, r3). (bound_text bs (''step.'' @ step @ ''.'' @ field), r3))
              (word_of [''description'', ''workdir'', ''iteration''] r2))))"

definition atomic_pattern :: "(string, string) jsmap option \<Rightarrow> string \<Rightarrow> (string \<times> string) option" where
  "atomic_pattern bs s =
     (case lit ''{{murrmure.'' s of None \<Rightarrow> None | Some r \<Rightarrow>
        map_option (\<lambda>(key, r'). (bound_text bs key, r'))
          (word_of [''run_id'', ''space_root'', ''agentStepContract'', ''inputs.json''] r))"

definition item_text :: "json \<Rightarrow> string option \<Rightarrow> string" where
  "item_text item field =
     (if nullish item then ''''
      else case field of
        None \<Rightarrow> (case item of JArr _ \<Rightarrow> stringify item | JObj _ \<Rightarrow> stringify item | _ \<Rightarrow> js_string item)
      | Some f \<Rightarrow> (case item of JArr _ \<Rightarrow> shown (readPath item f) | JObj _ \<Rightarrow> shown (readPath item f)
          | _ \<Rightarrow> js_string item))"

definition event_text :: "json \<Rightarrow> string option \<Rightarrow> string" where
  "event_text event field =
     (case field of None \<Rightarrow> stringify event | Some f \<Rightarrow> shown (readPath event f))"

text \<open>\<open>{{name}}\<close> or \<open>{{name.field}}\<close>.\<close>

definition named_pattern :: "string \<Rightarrow> (string option \<Rightarrow> string) \<Rightarrow> string \<Rightarrow> (string \<times> string) option" where
  "named_pattern name show_field s =
     (case lit (''{{'' @ name) s of None \<Rightarrow> None | Some r \<Rightarrow>
       (case opt_part r of None \<Rightarrow> None | Some (field, r1) \<Rightarrow>
          map_option (\<lambda>r2. (show_field field, r2)) (lit ''}}'' r1)))"

definition item_pattern :: "jobj \<Rightarrow> string \<Rightarrow> (string \<times> string) option" where
  "item_pattern ctx = named_pattern ''item'' (item_text (prop_of ctx ''item''))"

definition event_pattern :: "jobj \<Rightarrow> string \<Rightarrow> (string \<times> string) option" where
  "event_pattern ctx = named_pattern ''event'' (event_text (coalesce (prop_of ctx ''event'') (JObj [])))"

section \<open>Resolving templates\<close>

text \<open>The passes after the one over the input placeholders.\<close>

definition later_passes :: "jobj \<Rightarrow> (string, string) jsmap option \<Rightarrow> string \<Rightarrow> string" where
  "later_passes ctx bs s =
     replace_all (event_pattern ctx)
       (replace_all (item_pattern ctx)
         (replace_all (atomic_pattern bs)
           (replace_all (scalar_pattern bs)
             (replace_all (artifact_pattern ctx)
               (replace_all (output_pattern ctx) s)))))"

definition resolveTemplateString :: "string \<Rightarrow> jobj \<Rightarrow> (string, string) jsmap option \<Rightarrow> string" where
  "resolveTemplateString template ctx bs = later_passes ctx bs (replace_all (input_pattern ctx) template)"

definition resolveStepSpace :: "string \<Rightarrow> string \<Rightarrow> string" where
  "resolveStepSpace space origin = (if space = ''{{origin_space}}'' then origin else space)"

fun resolve_param :: "jobj \<Rightarrow> (string, string) jsmap option \<Rightarrow> json \<Rightarrow> json" where
  "resolve_param ctx bs (JStr s) = JStr (resolveTemplateString s ctx bs)"
| "resolve_param ctx bs v = v"

definition resolveStepParams :: "jobj option \<Rightarrow> jobj \<Rightarrow> (string, string) jsmap option \<Rightarrow> jobj option" where
  "resolveStepParams params ctx bs = map_option (map (\<lambda>(k, v). (k, resolve_param ctx bs v))) params"

section \<open>What the passes do\<close>

text \<open>A pattern that opens with two braces leaves text without them alone.\<close>

definition braced :: "(string \<Rightarrow> (string \<times> string) option) \<Rightarrow> bool" where
  "braced f \<longleftrightarrow> (\<forall>s. f s \<noteq> None \<longrightarrow> starts_with s ''{{'')"

lemma lit_prefix: "lit (p @ q) s \<noteq> None \<Longrightarrow> starts_with s p"
proof -
  assume "lit (p @ q) s \<noteq> None"
  then have "take (length p + length q) s = p @ q" by (simp add: lit_def starts_with_def split: if_splits)
  then have "take (length p) (take (length p + length q) s) = p" by simp
  then show ?thesis by (simp add: starts_with_def min_def)
qed

lemma opens_braces: "lit (''{{'' @ q) s = Some r \<Longrightarrow> starts_with s ''{{''"
  using lit_prefix [of "''{{''" q s] by simp

lemma patterns_braced:
  "braced (input_pattern ctx)" "braced (output_pattern ctx)" "braced (artifact_pattern ctx)"
  "braced (scalar_pattern bs)" "braced (atomic_pattern bs)" "braced (item_pattern ctx)" "braced (event_pattern ctx)"
  unfolding braced_def input_pattern_def output_pattern_def artifact_pattern_def scalar_pattern_def
    atomic_pattern_def item_pattern_def event_pattern_def named_pattern_def
  using opens_braces [of "''input.''"] opens_braces [of "''steps.''"] opens_braces [of "''murrmure.step.''"]
    opens_braces [of "''murrmure.''"] opens_braces [of "''item''"] opens_braces [of "''event''"]
  by (auto split: option.splits)

lemma replace_none:
  assumes "braced f" and "\<not> str_includes s ''{{''"
  shows "replace_all f s = s"
  using assms(2)
proof (induction s)
  case Nil
  then show ?case by simp
next
  case (Cons c cs)
  then have "f (c # cs) = None" using assms(1) unfolding braced_def by (metis str_includes.simps(2))
  then show ?case using Cons by simp
qed

lemma later_none: "\<not> str_includes s ''{{'' \<Longrightarrow> later_passes ctx bs s = s"
  by (simp add: later_passes_def replace_none patterns_braced)

lemma plain_template: "\<not> str_includes s ''{{'' \<Longrightarrow> resolveTemplateString s ctx bs = s"
  by (simp add: resolveTemplateString_def replace_none patterns_braced later_none)

text \<open>One input placeholder alone.\<close>

definition plain_key :: "string \<Rightarrow> bool" where
  "plain_key k \<longleftrightarrow> k \<noteq> [] \<and> CHR ''}'' \<notin> set k"

lemma run_of_key:
  assumes "plain_key k"
  shows "run_of ''}'' (k @ ''}}'') = Some (k, ''}}'')"
proof -
  have "\<forall>c\<in>set k. c \<noteq> CHR ''}''" using assms by (auto simp: plain_key_def)
  then have "takeWhile (\<lambda>c. c \<notin> set ''}'') (k @ ''}}'') = k" "dropWhile (\<lambda>c. c \<notin> set ''}'') (k @ ''}}'') = ''}}''"
    by (simp_all add: takeWhile_append dropWhile_append)
  then show ?thesis using assms by (simp add: run_of_def plain_key_def)
qed

lemma input_placeholder:
  assumes "plain_key k"
  shows "replace_all (input_pattern ctx) (''{{input.'' @ k @ ''}}'') =
    shown (opt_member (coalesce (prop_of ctx ''input'') (JObj ctx)) k)"
proof -
  have "lit ''{{input.'' (''{{input.'' @ k @ ''}}'') = Some (k @ ''}}'')"
    by (simp add: lit_def starts_with_def)
  moreover have "lit ''}}'' ''}}'' = Some []" by (simp add: lit_def starts_with_def)
  ultimately have "input_pattern ctx (''{{input.'' @ k @ ''}}'') =
      Some (shown (opt_member (coalesce (prop_of ctx ''input'') (JObj ctx)) k), [])"
    using run_of_key [OF assms] by (simp add: input_pattern_def closed_def)
  then show ?thesis by simp
qed

end
