(* ===== verification/ExecContext.thy ===== *)
theory ExecContext
  imports Templates
begin

text \<open>
  The execution context of a run, from \<open>hub-core/src/flow-engine/exec-context.ts\<close>, with the part of
  \<open>step-artifacts.ts\<close> that checks and records artifacts. The context is an object with sections
  (\<open>steps\<close>, \<open>artifacts\<close>, \<open>_step_iterations\<close> and others), each an object keyed by step id. An update
  copies the section, replaces one entry and writes the context back to the run.
\<close>

section \<open>Sections of the context\<close>

text \<open>\<open>{...v}\<close> of any value: own properties of an object, indices of an array or a string.\<close>

fun props_of :: "json \<Rightarrow> jobj" where
  "props_of (JObj ob) = ob"
| "props_of (JArr xs) = map (\<lambda>(i, x). (nat_str i, x)) (enumerate 0 xs)"
| "props_of (JStr s) = map (\<lambda>(i, c). (nat_str i, JStr [c])) (enumerate 0 s)"
| "props_of _ = []"

text \<open>\<open>{...((execContext.name ?? {}) as ...)}\<close>\<close>

definition section_of :: "string \<Rightarrow> jobj \<Rightarrow> jobj" where
  "section_of name ctx = props_of (coalesce (prop_of ctx name) (JObj []))"

definition section_get :: "string \<Rightarrow> jobj \<Rightarrow> string \<Rightarrow> json" where
  "section_get name ctx k = prop_of (section_of name ctx) k"

definition section_put :: "string \<Rightarrow> string \<Rightarrow> json \<Rightarrow> jobj \<Rightarrow> jobj" where
  "section_put name k v ctx = js_set name (JObj (js_set k v (section_of name ctx))) ctx"

text \<open>What every section promises: an entry reads back, all others and the rest of the context stay.\<close>

locale section_store =
  fixes get :: "'c \<Rightarrow> 'k \<Rightarrow> 'v"
    and put :: "'k \<Rightarrow> 'v \<Rightarrow> 'c \<Rightarrow> 'c"
    and frame :: "'c \<Rightarrow> 'r"
  assumes get_put: "get (put k v c) k' = (if k' = k then v else get c k')"
    and frame_put: "frame (put k v c) = frame c"
begin

lemma get_put_all:
  "get (fold (\<lambda>(k, v). put k v) kvs c) k = (case map_of (rev kvs) k of Some v \<Rightarrow> v | None \<Rightarrow> get c k)"
  by (induction kvs arbitrary: c) (auto simp: get_put map_add_def split: option.splits)

lemma frame_put_all: "frame (fold (\<lambda>(k, v). put k v) kvs c) = frame c"
  by (induction kvs arbitrary: c) (auto simp: frame_put)

lemma put_other: "k \<noteq> k' \<Longrightarrow> get (put k v c) k' = get c k'"
  by (simp add: get_put)

end

interpretation ctx_section: section_store "section_get name" "section_put name"
    "\<lambda>ctx other. if other = name then JUndef else prop_of ctx other"
  by unfold_locales (auto simp: section_get_def section_put_def section_of_def coalesce_def)

section \<open>Step outputs\<close>

datatype output_status = OutCompleted | OutFailed

fun output_status_str :: "output_status \<Rightarrow> string" where
  "output_status_str OutCompleted = ''completed''"
| "output_status_str OutFailed = ''failed''"

definition prior_output :: "json \<Rightarrow> jobj" where
  "prior_output prior = props_of (coalesce (opt_member prior ''output'') (JObj []))"

definition mergeStepOutputIntoExecContext ::
    "jobj \<Rightarrow> string \<Rightarrow> output_status \<Rightarrow> jobj option \<Rightarrow> nat \<Rightarrow> jobj" where
  "mergeStepOutputIntoExecContext ctx step_id status output completed_at =
     (let prior = section_get ''steps'' ctx step_id in
      section_put ''steps'' step_id
        (JObj (spread (props_of prior)
          [(''status'', JStr (output_status_str status)),
           (''output'', JObj (spread (prior_output prior) (opt_default [] output))),
           (''completed_at'', JNum (int completed_at))])) ctx)"

definition mergeCheckpointOutputIntoInput :: "jobj \<Rightarrow> jobj option \<Rightarrow> jobj" where
  "mergeCheckpointOutputIntoInput ctx output =
     (case output of None \<Rightarrow> ctx | Some ob \<Rightarrow>
        if ob = [] then ctx
        else js_set ''input'' (JObj (spread (section_of ''input'' ctx) ob)) ctx)"

definition shouldMergeCheckpointInput :: "int \<Rightarrow> bool option \<Rightarrow> bool" where
  "shouldMergeCheckpointInput step_index merge_input =
     (case merge_input of Some b \<Rightarrow> b | None \<Rightarrow> step_index = 0)"

definition persistRunExecContext :: "string \<Rightarrow> jobj \<Rightarrow> studio \<Rightarrow> studio" where
  "persistRunExecContext run_id ctx st =
     (let bare = bare_with ''run_'' run_id in
      case getRun st bare of
        None \<Rightarrow> st
      | Some run \<Rightarrow>
          if truthy_str (rr_flow_id run) \<and> truthy_str (rr_flow_digest run)
          then updateRunFlowBinding bare (the (rr_flow_id run)) (the (rr_flow_digest run)) (Some ctx) st
          else updateRunExecContext bare ctx st)"

text \<open>The functions that read the run, change the entry of one step and write the context back.\<close>

definition merge_into_run :: "string \<Rightarrow> (jobj \<Rightarrow> jobj) \<Rightarrow> studio \<Rightarrow> studio" where
  "merge_into_run run_id f st =
     (case getRun st (bare_with ''run_'' run_id) of
        None \<Rightarrow> st
      | Some run \<Rightarrow> persistRunExecContext run_id (f (rr_exec_context run)) st)"

definition put_audit :: "string \<Rightarrow> string \<Rightarrow> jobj \<Rightarrow> jobj \<Rightarrow> jobj" where
  "put_audit step_id name audit ctx =
     section_put ''steps'' step_id
       (JObj (spread (props_of (section_get ''steps'' ctx step_id)) [(name, JObj audit)])) ctx"

definition mergeDispatchAuditIntoRun ::
    "string \<Rightarrow> string \<Rightarrow> string \<Rightarrow> string \<Rightarrow> string \<Rightarrow> nat \<Rightarrow> studio \<Rightarrow> studio" where
  "mergeDispatchAuditIntoRun run_id step_id command prompt cwd dispatched_at =
     merge_into_run run_id (put_audit step_id ''dispatch''
       [(''command'', JStr command), (''prompt'', JStr prompt), (''cwd'', JStr cwd),
        (''dispatched_at'', JNum (int dispatched_at))])"

definition mergeSpawnAuditIntoRun :: "string \<Rightarrow> string \<Rightarrow> nat \<Rightarrow> nat \<Rightarrow> studio \<Rightarrow> studio" where
  "mergeSpawnAuditIntoRun run_id step_id pid spawned_at =
     merge_into_run run_id (put_audit step_id ''spawn''
       [(''pid'', JNum (int pid)), (''spawned_at'', JNum (int spawned_at))])"

definition mergeActionResultIntoRun ::
    "string \<Rightarrow> string \<Rightarrow> output_status \<Rightarrow> jobj option \<Rightarrow> nat \<Rightarrow> studio \<Rightarrow> studio" where
  "mergeActionResultIntoRun run_id step_id status res completed_at =
     merge_into_run run_id (\<lambda>ctx. mergeStepOutputIntoExecContext ctx step_id status
       (Some (js_set ''streaming'' (JBool False) (opt_default [] res))) completed_at)"

section \<open>Streams\<close>

definition MAX_STREAM_CHARS :: nat where "MAX_STREAM_CHARS = 256000"

text \<open>The ellipsis of the marker is its three UTF-8 bytes.\<close>

definition truncation_mark :: string where
  "truncation_mark = ''['' @ [CHR 0xE2, CHR 0x80, CHR 0xA6] @ ''truncated'' @ [CHR 0xE2, CHR 0x80, CHR 0xA6]
     @ '']'' @ [CHR 0x0A]"

definition last_chars :: "nat \<Rightarrow> string \<Rightarrow> string" where
  "last_chars n s = drop (length s - n) s"

definition appendStreamText :: "string option \<Rightarrow> string \<Rightarrow> string" where
  "appendStreamText current chunk =
     (let text = opt_default [] current @ chunk in
      if length text \<le> MAX_STREAM_CHARS then text else truncation_mark @ last_chars MAX_STREAM_CHARS text)"

fun str_option :: "json \<Rightarrow> string option" where
  "str_option (JStr s) = Some s"
| "str_option _ = None"

definition append_stream :: "string \<Rightarrow> string \<Rightarrow> string \<Rightarrow> jobj \<Rightarrow> jobj" where
  "append_stream step_id stream chunk ctx =
     (let entry = section_get ''steps'' ctx step_id; prior = coalesce (opt_member entry ''output'') (JObj []) in
      section_put ''steps'' step_id
        (JObj (spread (props_of entry)
          [(''output'', JObj (spread (props_of prior)
             [(stream, JStr (appendStreamText (str_option (opt_member prior stream)) chunk)),
              (''streaming'', JBool True)]))])) ctx)"

definition appendShellStreamToRun :: "string \<Rightarrow> string \<Rightarrow> string \<Rightarrow> string \<Rightarrow> studio \<Rightarrow> studio" where
  "appendShellStreamToRun run_id step_id stream chunk st =
     (if chunk = [] then st else merge_into_run run_id (append_stream step_id stream chunk) st)"

section \<open>Artifacts\<close>

record artifact_out =
  ao_slot :: string
  ao_path :: string
  ao_name :: "string option"
  ao_media_type :: "string option"
  ao_size_bytes :: "int option"

text \<open>\<open>None\<close> is no objection. \<open>declared_slots[out.slot]\<close> reads inherited names too.\<close>

definition validateArtifactsOut ::
    "artifact_out list option \<Rightarrow> (string, artifact_slot) jsmap option \<Rightarrow> string option" where
  "validateArtifactsOut outs slots =
     (if opt_default [] outs = [] then None
      else case slots of
        None \<Rightarrow> Some ''Step has no declared artifact_slots for artifacts_out''
      | Some m \<Rightarrow>
          if m = [] then Some ''Step has no declared artifact_slots for artifacts_out''
          else map_option (\<lambda>ao. ''Unknown artifact slot '' @ quoted (ao_slot ao))
            (find (\<lambda>ao. \<not> js_has m (ao_slot ao) \<and> ao_slot ao \<notin> set OBJECT_PROTOTYPE) (the outs)))"

record artifact_file =
  af_name :: string
  af_path :: string
  af_transfer_id :: "string option"
  af_digest :: "string option"
  af_size_bytes :: "int option"

record step_artifact =
  sa_slot :: string
  sa_collection :: bool
  sa_files :: "artifact_file list"

definition file_json :: "artifact_file \<Rightarrow> json" where
  "file_json f = JObj [(''name'', JStr (af_name f)), (''path'', JStr (af_path f)),
     (''transfer_id'', opt_str (af_transfer_id f)), (''digest'', opt_str (af_digest f)),
     (''size_bytes'', (case af_size_bytes f of None \<Rightarrow> JUndef | Some n \<Rightarrow> JNum n))]"

fun as_arr :: "json \<Rightarrow> json list" where
  "as_arr (JArr xs) = xs"
| "as_arr _ = []"

definition artifact_json :: "json list \<Rightarrow> step_artifact \<Rightarrow> json" where
  "artifact_json before a = JObj [(''slot'', JStr (sa_slot a)),
     (''cardinality'', JStr (if sa_collection a then ''collection'' else ''singleton'')),
     (''files'', JArr (before @ map file_json (sa_files a)))]"

definition add_artifact :: "step_artifact \<Rightarrow> jobj \<Rightarrow> jobj" where
  "add_artifact a bag =
     (let existing = prop_of bag (sa_slot a) in
      js_set (sa_slot a)
        (artifact_json (if truthy existing then as_arr (opt_member existing ''files'') else []) a) bag)"

definition mergeArtifactsIntoExecContext :: "jobj \<Rightarrow> string \<Rightarrow> step_artifact list \<Rightarrow> jobj" where
  "mergeArtifactsIntoExecContext ctx step_id arts =
     section_put ''artifacts'' step_id
       (JObj (fold add_artifact arts
         (props_of (coalesce (section_get ''artifacts'' ctx step_id) (JObj []))))) ctx"

section \<open>What the updates do\<close>

lemma merged_output:
  "section_get ''steps'' (mergeStepOutputIntoExecContext ctx s status out at) s' =
     (if s' = s then JObj (spread (props_of (section_get ''steps'' ctx s))
          [(''status'', JStr (output_status_str status)),
           (''output'', JObj (spread (prior_output (section_get ''steps'' ctx s)) (opt_default [] out))),
           (''completed_at'', JNum (int at))])
      else section_get ''steps'' ctx s')"
  by (simp add: mergeStepOutputIntoExecContext_def Let_def ctx_section.get_put)

lemma section_put_frame: "k \<noteq> name \<Longrightarrow> prop_of (section_put name s v ctx) k = prop_of ctx k"
  by (simp add: section_put_def)

lemma section_get_other: "k \<noteq> name \<Longrightarrow> section_get k (section_put name s v ctx) s' = section_get k ctx s'"
  by (simp add: section_get_def section_of_def section_put_frame)

lemma last_chars_length: "length (last_chars n s) \<le> n"
  by (simp add: last_chars_def)

lemma last_chars_append: "length t \<le> n \<Longrightarrow> \<exists>u. last_chars n (s @ t) = u @ t"
  by (rule exI [of _ "drop (length s + length t - n) s"]) (simp add: last_chars_def)

lemma stream_bounded: "length (appendStreamText cur chunk) \<le> MAX_STREAM_CHARS + length truncation_mark"
  using last_chars_length by (auto simp: appendStreamText_def Let_def)

lemma stream_keeps_chunk:
  assumes "length chunk \<le> MAX_STREAM_CHARS"
  shows "\<exists>u. appendStreamText cur chunk = u @ chunk"
proof -
  obtain u where "last_chars MAX_STREAM_CHARS (opt_default [] cur @ chunk) = u @ chunk"
    using last_chars_append [OF assms] by blast
  then have "truncation_mark @ last_chars MAX_STREAM_CHARS (opt_default [] cur @ chunk) = (truncation_mark @ u) @ chunk"
    by simp
  then show ?thesis unfolding appendStreamText_def Let_def by (cases "length (opt_default [] cur @ chunk) \<le> MAX_STREAM_CHARS") auto
qed

text \<open>The studio's table of runs after the context was written.\<close>

lemma persist_runs:
  "getRun (persistRunExecContext run_id ctx st) i =
     (if bareRunId i = bareRunId (bare_with ''run_'' run_id)
      then map_option (\<lambda>r. r\<lparr> rr_exec_context := ctx \<rparr>) (getRun st i) else getRun st i)"
  by (auto simp: persistRunExecContext_def getRun_def updateRunFlowBinding_def updateRunExecContext_def
      map_at_def opt_default_def truthy_str_def Let_def split: option.splits)

end
