(* ===== verification/FlowStart.thy ===== *)
theory FlowStart
  imports ExecContext RunService
begin

text \<open>
  Starting a flow, from \<open>hub-core/src/flow-engine/\<close>: the start conditions (\<open>start.ts\<close>), the next step to
  dispatch (\<open>advance.ts\<close>), the resolvers pinned on a run (\<open>step-view-ref.ts\<close>, \<open>index/parse-handlers.ts\<close>)
  and the start itself (\<open>run-service.ts\<close>), which runs inside the space guard and so is one step.
  Content digests, the JSON-schema validator, the promotion of artifact files and the meeting
  service are parameters.
\<close>

record flow_auth =
  au_actor_id :: string
  au_token_id :: string
  au_capabilities :: "capability list"
  au_flow_acl :: "string list option"

record engine_deps = session_run_deps +
  en_ajv :: ajv_compile
  en_handler_digest :: "handler_spec \<Rightarrow> string"
  en_request_digest :: "string \<Rightarrow> string \<Rightarrow> string"
  en_promote :: "string \<Rightarrow> string \<Rightarrow> string \<Rightarrow> artifact_out list \<Rightarrow> (string, artifact_slot) jsmap
    \<Rightarrow> string + step_artifact list"
  en_convene :: "meeting_call \<Rightarrow> string option"
  en_flow_auth :: "run_row \<Rightarrow> flow_auth"

definition service_deps :: "engine_deps \<Rightarrow> session_run_deps" where
  "service_deps d = session_run_deps.truncate d"

section \<open>Start conditions\<close>

definition canReadFlow :: "capability list \<Rightarrow> bool" where
  "canReadFlow caps = hasCapability caps [''flow:read'', ''flow:run'']"

definition canExecuteFlow :: "capability list \<Rightarrow> string list option \<Rightarrow> string \<Rightarrow> bool" where
  "canExecuteFlow caps acl flow_id \<longleftrightarrow>
     canStartFlow caps \<and> (opt_default [] acl = [] \<or> flow_id \<in> set (opt_default [] acl))"

definition isManualStartAllowed :: "flow_index_entry \<Rightarrow> bool" where
  "isManualStartAllowed e \<longleftrightarrow> (case fe_triggers e of None \<Rightarrow> False | Some t \<Rightarrow> sc_manual t = Some True)"

definition isFlowCallStartAllowed :: "flow_index_entry \<Rightarrow> bool" where
  "isFlowCallStartAllowed e \<longleftrightarrow> (case fe_triggers e of None \<Rightarrow> False | Some t \<Rightarrow> sc_flow_call t = Some True)"

definition event_matches :: "string \<Rightarrow> string option \<Rightarrow> start_event \<Rightarrow> bool" where
  "event_matches type source spec \<longleftrightarrow>
     se_type spec = type \<and> \<not> (truthy_str (se_source spec) \<and> truthy_str source \<and> se_source spec \<noteq> source)"

definition matchesFlowStartEvent :: "flow_index_entry \<Rightarrow> string \<Rightarrow> string option \<Rightarrow> bool" where
  "matchesFlowStartEvent e type source \<longleftrightarrow>
     list_ex (event_matches type source)
       (case fe_triggers e of None \<Rightarrow> [] | Some t \<Rightarrow> opt_default [] (sc_events t))"

definition buildRunKey :: "flow_index_entry \<Rightarrow> json \<Rightarrow> string option \<Rightarrow> string option" where
  "buildRunKey e inp header =
     (if (case fe_triggers e of None \<Rightarrow> None | Some t \<Rightarrow> sc_idempotency t) \<noteq> Some ''run_key'' then None
      else if truthy_str header then header
      else Some (''run_key:'' @ fe_flow_id e @ '':'' @ (if inp = JUndef then ''undefined'' else stringify inp)))"

section \<open>The next step to dispatch\<close>

definition buildStepDispatch :: "flow_ir \<Rightarrow> nat \<Rightarrow> jobj \<Rightarrow> string \<Rightarrow> step_dispatch option" where
  "buildStepDispatch ir i ctx origin =
     (let plan = planLinearSteps ir in
      if length plan \<le> i then None
      else case (ir_kind (plan ! i), ir_invoke (plan ! i)) of
        (KInvoke, Some iv) \<Rightarrow> Some \<lparr> dp_step_id = ir_id (plan ! i), dp_space_id = resolveStepSpace (iv_space iv) origin,
          dp_action_name = iv_action iv, dp_params = resolveStepParams (iv_params iv) ctx None \<rparr>
      | _ \<Rightarrow> None)"

definition nextDispatchAfterComplete :: "step_memo list \<Rightarrow> flow_ir \<Rightarrow> jobj \<Rightarrow> string \<Rightarrow> step_dispatch option" where
  "nextDispatchAfterComplete memos ir ctx origin =
     (let i = activeStepIndex memos ir; plan = planLinearSteps ir in
      if length plan \<le> i \<or> ir_kind (plan ! i) \<noteq> KInvoke then None
      else case memo_for memos (ir_id (plan ! i)) of
        Some m \<Rightarrow> if me_status m \<noteq> SPending then None else buildStepDispatch ir i ctx origin
      | None \<Rightarrow> buildStepDispatch ir i ctx origin)"

datatype start_mode = StartManual | StartEvent | StartSchedule | StartFlowCall

record prepare_input =
  pi_exec_context :: jobj
  pi_origin_space_id :: string
  pi_capabilities :: "capability list"
  pi_flow_acl :: "string list option"
  pi_mode :: start_mode

definition event_type_of :: "jobj \<Rightarrow> string" where
  "event_type_of ctx = js_string (coalesce (prop_of ctx ''_event_type'') (JStr ''''))"

definition event_source_of :: "jobj \<Rightarrow> string option" where
  "event_source_of ctx =
     (if truthy (prop_of ctx ''_event_source'') then Some (js_string (prop_of ctx ''_event_source'')) else None)"

definition prepareFlowStart ::
    "flow_index_entry \<Rightarrow> prepare_input \<Rightarrow> (string \<times> string) + (string \<times> step_dispatch list)" where
  "prepareFlowStart e inp =
     (case fe_ir e of
        None \<Rightarrow> Inl (''FLOW_IR_MISSING'', ''Flow has no compiled IR '' @ em_dash @ '' re-run space apply'')
      | Some ir \<Rightarrow>
          if pi_mode inp = StartEvent \<and> \<not> matchesFlowStartEvent e (event_type_of (pi_exec_context inp))
               (event_source_of (pi_exec_context inp))
          then Inl (''EVENT_MISMATCH'', ''Event does not match flow start conditions'')
          else if pi_mode inp = StartManual \<and> \<not> isManualStartAllowed e
          then Inl (''MANUAL_START_DISABLED'', ''Flow does not allow manual start'')
          else if \<not> canExecuteFlow (pi_capabilities inp) (pi_flow_acl inp) (fe_flow_id e)
          then Inl (''SCOPE_ENFORCEMENT_FAILURE'', ''Grant lacks flow:run for this flow'')
          else Inr (fe_digest e,
            (case firstDispatchableStep ir of None \<Rightarrow> []
             | Some _ \<Rightarrow> (case buildStepDispatch ir 0 (pi_exec_context inp) (pi_origin_space_id inp) of
                 None \<Rightarrow> [] | Some s \<Rightarrow> [s]))))"

section \<open>Handlers of steps\<close>

text \<open>The binding \<open>step.opened::alias\<close> (\<open>True\<close>) or \<open>step.resolved::alias\<close>; a line break ends the match.\<close>

definition parseHandlerStepBinding :: "handler_spec \<Rightarrow> (bool \<times> string) option" where
  "parseHandlerStepBinding hs =
     (case hs_on hs of
        OnEvent _ _ _ \<Rightarrow> None
      | OnStep s \<Rightarrow>
          (case (lit ''step.opened::'' s, lit ''step.resolved::'' s) of
             (Some alias, _) \<Rightarrow> if alias \<noteq> [] \<and> list_all (\<lambda>c. c \<noteq> CHR 0x0A \<and> c \<noteq> CHR 0x0D) alias
                then Some (True, alias) else None
           | (None, Some alias) \<Rightarrow> if alias \<noteq> [] \<and> list_all (\<lambda>c. c \<noteq> CHR 0x0A \<and> c \<noteq> CHR 0x0D) alias
                then Some (False, alias) else None
           | _ \<Rightarrow> None))"

definition opened_handler :: "string \<Rightarrow> handler_spec list \<Rightarrow> handler_spec option" where
  "opened_handler alias hs = find (\<lambda>h. parseHandlerStepBinding h = Some (True, alias)) hs"

fun handler_type_str :: "handler_type \<Rightarrow> string" where
  "handler_type_str ShellSpawn = ''shell_spawn''"
| "handler_type_str McpSession = ''mcp_session''"
| "handler_type_str QueuePoll = ''queue_poll''"
| "handler_type_str RemoteHub = ''remote_hub''"
| "handler_type_str ViewResolver = ''view_resolver''"

definition resolver_json :: "engine_deps \<Rightarrow> handler_spec option \<Rightarrow> json" where
  "resolver_json d h =
     (case h of None \<Rightarrow> JNull | Some s \<Rightarrow> JObj
        ([(''handler_id'', JStr (hs_id s)), (''type'', JStr (handler_type_str (hs_type s)))]
         @ (if hs_type s = ViewResolver then [(''view_id'', opt_str (hs_view s))] else [])
         @ [(''config_digest'', JStr (en_handler_digest d s))]))"

definition buildSafeResolverMap ::
    "engine_deps \<Rightarrow> step_catalog option \<Rightarrow> string \<Rightarrow> handler_spec list \<Rightarrow> jobj" where
  "buildSafeResolverMap d catalog flow_name hs =
     (case catalog of None \<Rightarrow> [] | Some ct \<Rightarrow>
        if flow_name = [] then []
        else fold (\<lambda>e. js_set (ce_step_id e)
               (resolver_json d (opened_handler (flow_name @ ''.'' @ ce_step_id e) hs))) (ct_entries ct) [])"

section \<open>The snapshot pinned on a run\<close>

fun step_kind_str :: "step_kind \<Rightarrow> string" where
  "step_kind_str KInvoke = ''invoke''"
| "step_kind_str KGate = ''gate''"
| "step_kind_str KParallel = ''parallel''"
| "step_kind_str KStartFlow = ''start_flow''"
| "step_kind_str KStepContract = ''step_contract''"

definition ir_gate_json :: "ir_gate \<Rightarrow> json" where
  "ir_gate_json g = JObj (opt_field ''form'' JStr (ig_form g) @ opt_field ''assignees'' strs_json (ig_assignees g))"

definition ir_lane_json :: "ir_lane \<Rightarrow> json" where
  "ir_lane_json l = JObj ([(''id'', JStr (il_id l)), (''kind'', JStr (step_kind_str (il_kind l)))]
     @ opt_field ''invoke'' invoke_json (il_invoke l) @ opt_field ''gate'' ir_gate_json (il_gate l))"

definition ir_step_json :: "step_ir \<Rightarrow> json" where
  "ir_step_json s = JObj ([(''id'', JStr (ir_id s)), (''kind'', JStr (step_kind_str (ir_kind s)))]
     @ opt_field ''invoke'' invoke_json (ir_invoke s) @ opt_field ''gate'' ir_gate_json (ir_gate s)
     @ opt_field ''parallel'' (\<lambda>p. JObj [(''matrix'', JStr (ip_matrix p)), (''lane'', JArr (map ir_lane_json (ip_lane p)))])
         (ir_parallel s)
     @ opt_field ''start_flow'' start_flow_json (ir_start_flow s)
     @ opt_field ''step_contract'' (\<lambda>c. JObj [(''qualified_id'', JStr (ic_qualified_id c)),
         (''parent_id'', (case ic_parent_id c of None \<Rightarrow> JNull | Some p \<Rightarrow> JStr p))]) (ir_step_contract s))"

definition flow_ir_json :: "flow_ir \<Rightarrow> json" where
  "flow_ir_json ir = JObj [(''flow_id'', JStr (fi_flow_id ir)), (''name'', JStr (fi_name ir)),
     (''triggers'', triggers_json (fi_triggers ir)), (''steps'', JArr (map ir_step_json (fi_steps ir))),
     (''digest'', JStr (fi_digest ir))]"

fun engine_str :: "route_engine \<Rightarrow> string" where
  "engine_str Open = ''open''"
| "engine_str Advance = ''advance''"
| "engine_str FailRun = ''fail_run''"
| "engine_str Resume = ''resume''"

definition catalog_branch_json :: "catalog_branch \<Rightarrow> json" where
  "catalog_branch_json b = JObj
     (opt_field ''schema_ref'' JStr (cb_schema_ref b) @ opt_field ''schema'' JObj (cb_schema b)
      @ [(''payload_required'', strs_json (cb_payload_required b)),
         (''artifact_required'', strs_json (cb_artifact_required b)),
         (''artifact_slots'', JObj (map (\<lambda>(k, sl). (k, slot_json sl)) (cb_artifact_slots b))),
         (''routes'', JArr (map (\<lambda>r. JObj ((''engine'', JStr (engine_str (rt_engine r)))
            # opt_field ''step_id'' JStr (rt_step_id r))) (cb_routes b)))])"

definition catalog_json :: "step_catalog \<Rightarrow> json" where
  "catalog_json c = JObj [(''flow_id'', JStr (ct_flow_id c)),
     (''entries'', JArr (map (\<lambda>e. JObj
        ([(''step_id'', JStr (ce_step_id e)),
          (''parent_id'', (case ce_parent_id e of None \<Rightarrow> JNull | Some p \<Rightarrow> JStr p))]
         @ opt_field ''description'' JStr (ce_description e)
         @ [(''branches'', JObj (map (\<lambda>(k, b). (k, catalog_branch_json b)) (ce_branches e)))]
         @ opt_field ''meeting'' JObj (ce_meeting e))) (ct_entries c))),
     (''step_ids'', strs_json (ct_step_ids c)), (''graph_digest'', JStr (ct_graph_digest c)),
     (''digest'', JStr (ct_digest c))]"

definition flow_snapshot :: "engine_deps \<Rightarrow> flow_index_entry \<Rightarrow> handler_spec list \<Rightarrow> json" where
  "flow_snapshot d e hs = JObj [(''version'', JNum 1), (''origin_space_id'', JStr (fe_origin_space_id e)),
     (''flow_id'', JStr (fe_flow_id e)), (''flow_digest'', JStr (fe_digest e)), (''flow_name'', JStr (fe_name e)),
     (''ir'', (case fe_ir e of None \<Rightarrow> JUndef | Some ir \<Rightarrow> flow_ir_json ir)),
     (''step_contract_catalog'', (case fe_catalog e of None \<Rightarrow> JUndef | Some c \<Rightarrow> catalog_json c)),
     (''resolvers'', JObj (buildSafeResolverMap d (fe_catalog e) (fe_name e) hs))]"

section \<open>Starting the run\<close>

record start_flow_input =
  sf_entry_flow_id :: string
  sf_entry_digest :: string
  sf_space_id :: string
  sf_actor_id :: string
  sf_token_id :: string
  sf_capabilities :: "capability list"
  sf_flow_acl :: "string list option"
  sf_flow_input :: "jobj option"
  sf_session_id :: "string option"
  sf_idempotency_header :: "string option"
  sf_mode :: start_mode
  sf_event_type :: "string option"
  sf_event_source :: "string option"
  sf_reference_run_ids :: "string list option"
  sf_exec_context :: "jobj option"

record flow_started =
  so_session :: session_dto
  so_run_id :: string
  so_flow_digest :: string
  so_dispatch :: "step_dispatch list"
  so_deduplicated :: bool

definition start_context :: "start_flow_input \<Rightarrow> jobj" where
  "start_context inp =
     (let ctx = spread (spread (spread [(''input'', JObj (opt_default [] (sf_flow_input inp)))]
            (if truthy_str (sf_event_type inp)
             then [(''_event_type'', opt_str (sf_event_type inp)), (''_event_source'', opt_str (sf_event_source inp))] else []))
            (opt_default [] (sf_exec_context inp)))
            [(''_flow_actor_id'', JStr (sf_actor_id inp)), (''_flow_token_id'', JStr (sf_token_id inp))] in
      if truthy_str (sf_idempotency_header inp) then js_set ''idempotency_key'' (opt_str (sf_idempotency_header inp)) ctx
      else ctx)"

definition dedupResult :: "session_row \<Rightarrow> run_row \<Rightarrow> string \<Rightarrow> flow_started" where
  "dedupResult s run digest = \<lparr> so_session = toSessionDto s, so_run_id = ''run_'' @ rr_run_id run,
     so_flow_digest = opt_default digest (rr_flow_digest run), so_dispatch = [], so_deduplicated = True \<rparr>"

text \<open>The earlier run with this key, if there is one whose session is still known.\<close>

definition earlier_run :: "run_row option \<Rightarrow> string \<Rightarrow> studio \<Rightarrow> flow_started option" where
  "earlier_run found digest st =
     (case found of None \<Rightarrow> None | Some run \<Rightarrow>
        map_option (\<lambda>s. dedupResult s run digest) (getSession st (rr_session_id run)))"

definition started_session :: "start_flow_input \<Rightarrow> string \<Rightarrow> string \<Rightarrow> studio \<Rightarrow> session_dto" where
  "started_session inp session_id name st =
     (case getSession st (bare_with ''ses_'' session_id) of
        Some s \<Rightarrow> toSessionDto s
      | None \<Rightarrow> \<lparr> sv_session_id = session_id, sv_title = name, sv_subject = None, sv_status = SsActive,
          sv_created_by = ByActor (sf_actor_id inp), sv_spaces_touched = [sf_space_id inp] \<rparr>)"

definition start_session :: "engine_deps \<Rightarrow> start_flow_input \<Rightarrow> flow_index_entry \<Rightarrow> string hub_op" where
  "start_session d inp e =
     (if truthy_str (sf_session_id inp) then State_Monad.return (the (sf_session_id inp))
      else do {
        s \<leftarrow> createSession (service_deps d) \<lparr> cs_title = fe_name e, cs_subject = Some (fe_flow_id e),
          cs_actor_id = sf_actor_id inp, cs_token_id = sf_token_id inp, cs_space_id = Some (sf_space_id inp),
          cs_created_by = None \<rparr>;
        State_Monad.return (sv_session_id s)
      })"

text \<open>Everything after admission: the session, the run and the answer.\<close>

definition start_admitted ::
    "engine_deps \<Rightarrow> start_flow_input \<Rightarrow> flow_index_entry \<Rightarrow> jobj \<Rightarrow> string \<Rightarrow> step_dispatch list
     \<Rightarrow> flow_started reply hub_op" where
  "start_admitted d inp e ctx digest dispatch =
     do {
       session_id \<leftarrow> start_session d inp e;
       created \<leftarrow> createRun (service_deps d) \<lparr>
         ci_session_id = session_id, ci_space_id = Some (sf_space_id inp), ci_flow_id = Some (fe_flow_id e),
         ci_flow_digest = Some digest, ci_input_params = Some ctx,
         ci_reference_run_ids = sf_reference_run_ids inp, ci_actor_id = sf_actor_id inp,
         ci_token_id = sf_token_id inp, ci_capabilities = sf_capabilities inp, ci_contract_ref_id = None,
         ci_metadata = None, ci_from_step_id = None \<rparr>;
       session \<leftarrow> studio_ask (started_session inp session_id (fe_name e));
       State_Monad.return (case created of
           Reply (run, _) \<Rightarrow> Reply \<lparr> so_session = session, so_run_id = rv_run_id run, so_flow_digest = digest,
             so_dispatch = dispatch, so_deduplicated = False \<rparr>
         | Refused c m \<Rightarrow> Refused c m | AtCapacity a \<Rightarrow> AtCapacity a | Threw \<Rightarrow> Threw)
     }"

definition with_run_key :: "string option \<Rightarrow> jobj \<Rightarrow> jobj" where
  "with_run_key key ctx = (if truthy_str key then js_set ''_run_key'' (opt_str key) ctx else ctx)"

definition startFlowRun :: "engine_deps \<Rightarrow> start_flow_input \<Rightarrow> flow_started reply hub_op" where
  "startFlowRun d inp =
     do {
       st \<leftarrow> studio_ask (\<lambda>st. st);
       let header = sf_idempotency_header inp;
       case (if truthy_str header
             then earlier_run (findRunByIdempotencyKey st (the header)) (sf_entry_digest inp) st else None) of
         Some r \<Rightarrow> State_Monad.return (Reply r)
       | None \<Rightarrow>
       (case getFlowIndexEntry st (sf_entry_flow_id inp) (Some (bareSpaceId (sf_space_id inp))) of
         None \<Rightarrow> State_Monad.return (Refused ''FLOW_NOT_FOUND'' ''Flow not indexed in target space'')
       | Some e \<Rightarrow>
         (let key = buildRunKey e (prop_of (start_context inp) ''input'') header;
              ctx = with_run_key key (start_context inp) in
          case prepareFlowStart e \<lparr> pi_exec_context = ctx, pi_origin_space_id = sf_space_id inp,
                 pi_capabilities = sf_capabilities inp, pi_flow_acl = sf_flow_acl inp, pi_mode = sf_mode inp \<rparr> of
            Inl (c, m) \<Rightarrow> State_Monad.return (Refused c m)
          | Inr (digest, dispatch) \<Rightarrow>
            (case (if truthy_str key then earlier_run (findRunByFlowKey st (fe_flow_id e) (the key)) (fe_digest e) st
                   else None) of
               Some r \<Rightarrow> State_Monad.return (Reply r)
             | None \<Rightarrow>
               (case admitFlowRun st (sf_space_id inp) (fe_flow_id e) of
                  Some err \<Rightarrow> State_Monad.return (AtCapacity err)
                | None \<Rightarrow>
                  start_admitted d inp e
                    (js_set ''_flow_snapshot''
                      (flow_snapshot d e (handlers_of (listIndexedHooks st (sf_space_id inp)))) ctx)
                    digest dispatch))))
     }"

end
