(* ===== verification/StepOpen.thy ===== *)
theory StepOpen
  imports FlowStart FlowGraph
begin

text \<open>
  Opening steps, from \<open>hub-core/src/flow-engine/\<close>: \<open>step-open.ts\<close>, \<open>open-child-step.ts\<close> and the queries of
  \<open>step-catalog.ts\<close> they use. A step is open while its memo is \<open>working\<close>; a parent that opened a child
  is \<open>yielded\<close>. The parent lock makes the activation of a child one step. The files written for the
  resolver of a step (its workdir and contract slice) are not modelled; the dispatch of its handler,
  the cancelled executors, the revoked credentials and the convened meetings are logged.
\<close>

text \<open>What an operation that may throw, or recur without end, comes to.\<close>

datatype 'a outcome = Done 'a | Raised string | OutOfFuel

definition after :: "('s, 'a outcome) state \<Rightarrow> ('a \<Rightarrow> ('s, 'b outcome) state) \<Rightarrow> ('s, 'b outcome) state" where
  "after m f = do {
     x \<leftarrow> m;
     case x of Done v \<Rightarrow> f v | Raised e \<Rightarrow> State_Monad.return (Raised e) | OutOfFuel \<Rightarrow> State_Monad.return OutOfFuel
   }"

text \<open>An operation refused with a code, a message and an HTTP status, with the errors of a contract.\<close>

record refusal =
  re_code :: string
  re_message :: string
  re_http :: nat
  re_errors :: "contract_error list"

definition refuse :: "string \<Rightarrow> string \<Rightarrow> nat \<Rightarrow> ('s, (refusal + 'a) outcome) state" where
  "refuse code message http =
     State_Monad.return (Done (Inl \<lparr> re_code = code, re_message = message, re_http = http, re_errors = [] \<rparr>))"

text \<open>The run, session and space an operation is about, and who asks for it.\<close>

record caller =
  cl_run_id :: string
  cl_session_id :: "string option"
  cl_space_id :: string
  cl_actor_id :: string
  cl_token_id :: string

definition effect :: "hub_effect \<Rightarrow> unit hub_op" where
  "effect e = act (\<lambda>h. h\<lparr> hb_effects := hb_effects h @ [e] \<rparr>)"

definition step_event :: "caller \<Rightarrow> string \<Rightarrow> string \<Rightarrow> jobj \<Rightarrow> journal_call" where
  "step_event cl type step_id data = \<lparr>
     jc_type = type, jc_space_id = cl_space_id cl, jc_session_id = cl_session_id cl,
     jc_run_id = Some (cl_run_id cl), jc_actor_id = cl_actor_id cl, jc_token_id = cl_token_id cl,
     jc_data = js_set ''step_id'' (JStr step_id) data \<rparr>"

fun step_status_str :: "step_status \<Rightarrow> string" where
  "step_status_str SPending = ''pending''"
| "step_status_str SWorking = ''working''"
| "step_status_str SYielded = ''yielded''"
| "step_status_str SCompleted = ''completed''"
| "step_status_str SFailed = ''failed''"
| "step_status_str SSkipped = ''skipped''"

fun lifecycle_str :: "run_lifecycle \<Rightarrow> string" where
  "lifecycle_str RWorking = ''working''"
| "lifecycle_str RInputRequired = ''input-required''"
| "lifecycle_str RCompleted = ''completed''"
| "lifecycle_str RFailed = ''failed''"
| "lifecycle_str RCancelled = ''cancelled''"

datatype open_reason = Opened | Resumed

fun reason_str :: "open_reason \<Rightarrow> string" where
  "reason_str Opened = ''opened''"
| "reason_str Resumed = ''resumed''"

definition step_memo_row :: "string \<Rightarrow> string \<Rightarrow> step_status \<Rightarrow> step_memo" where
  "step_memo_row run_id step_id status = \<lparr> me_run_id = run_id, me_step_id = step_id, me_status = status,
     me_idempotency_key = None, me_result_hash = None, me_started_at = None, me_completed_at = None,
     me_error_code = None, me_executor_type = None \<rparr>"

section \<open>Dispatching the resolver of a step\<close>

definition is_local :: "space_binding \<Rightarrow> bool" where
  "is_local b = (case b of LocalBinding _ _ _ \<Rightarrow> True | RemoteHubBinding _ _ _ \<Rightarrow> False)"

definition is_primary :: "space_binding \<Rightarrow> bool" where
  "is_primary b = (case b of LocalBinding _ _ p \<Rightarrow> p | RemoteHubBinding _ _ p \<Rightarrow> p)"

definition binding_path :: "space_binding \<Rightarrow> string" where
  "binding_path b = (case b of LocalBinding _ path _ \<Rightarrow> path | RemoteHubBinding _ _ _ \<Rightarrow> [])"

definition resolveSpaceRoot :: "space_binding list \<Rightarrow> string option" where
  "resolveSpaceRoot bs =
     (let local_bs = filter is_local bs in
      case find is_primary local_bs of
        Some b \<Rightarrow> Some (binding_path b)
      | None \<Rightarrow> (case local_bs of [] \<Rightarrow> None | b # _ \<Rightarrow> Some (binding_path b)))"

definition flow_input_of :: "run_row option \<Rightarrow> jobj" where
  "flow_input_of run =
     (case run of None \<Rightarrow> []
      | Some r \<Rightarrow> (case prop_of (rr_exec_context r) ''input'' of JObj ob \<Rightarrow> ob | _ \<Rightarrow> []))"

definition session_or_empty :: "caller \<Rightarrow> string" where
  "session_or_empty cl = opt_default [] (cl_session_id cl)"

definition dispatchStepResolverAssignment :: "caller \<Rightarrow> string option \<Rightarrow> string \<Rightarrow> open_reason \<Rightarrow> unit hub_op" where
  "dispatchStepResolverAssignment cl flow_name step_id reason =
     (if \<not> truthy_str flow_name then skip
      else do {
        rows \<leftarrow> studio_ask (\<lambda>st. listIndexedHooks st (bareSpaceId (cl_space_id cl)));
        case opened_handler (the flow_name @ ''.'' @ step_id) (handlers_of rows) of
          None \<Rightarrow> skip
        | Some hs \<Rightarrow>
            if hs_type hs = ViewResolver then skip
            else do {
              run \<leftarrow> studio_ask (\<lambda>st. getRun st (bare_with ''run_'' (cl_run_id cl)));
              let inp = flow_input_of run;
              effect (StepsDispatched \<lparr>
                dc_dispatch = [\<lparr> dp_step_id = step_id, dp_space_id = cl_space_id cl, dp_action_name = hs_id hs,
                  dp_params = Some (spread inp
                    [(''input'', JObj inp), (''assignment_reason'', JStr (reason_str reason))]) \<rparr>],
                dc_session_id = session_or_empty cl, dc_run_id = cl_run_id cl, dc_actor_id = cl_actor_id cl,
                dc_token_id = cl_token_id cl \<rparr>)
            }
      })"

section \<open>Opening a step\<close>

text \<open>\<open>(v ?? 0) + 1\<close>: anything but a number is concatenated as text.\<close>

definition add_one :: "json \<Rightarrow> json" where
  "add_one v =
     (case coalesce v (JNum 0) of
        JNum n \<Rightarrow> JNum (n + 1)
      | JBool b \<Rightarrow> JNum (if b then 2 else 1)
      | w \<Rightarrow> JStr (js_string w @ ''1''))"

definition context_of :: "run_row option \<Rightarrow> jobj" where
  "context_of run = (case run of None \<Rightarrow> [] | Some r \<Rightarrow> rr_exec_context r)"

definition next_iterations :: "jobj \<Rightarrow> step_memo option \<Rightarrow> string \<Rightarrow> jobj" where
  "next_iterations ctx memo step_id =
     (let its = section_of ''_step_iterations'' ctx in
      if (case memo of None \<Rightarrow> True | Some m \<Rightarrow> me_status m \<noteq> SWorking)
      then js_set step_id (add_one (prop_of its step_id)) its else its)"

definition opened_context :: "jobj \<Rightarrow> jobj \<Rightarrow> jobj \<Rightarrow> string \<Rightarrow> open_reason \<Rightarrow> jobj" where
  "opened_context base ctx its step_id reason =
     js_set ''_step_assignment_reasons''
       (JObj (js_set step_id (JStr (reason_str reason)) (section_of ''_step_assignment_reasons'' ctx)))
       (js_set ''_step_iterations'' (JObj its) base)"

text \<open>The bookkeeping of a newly opened step; the iterations it counted.\<close>

definition persist_opening :: "caller \<Rightarrow> string \<Rightarrow> jobj \<Rightarrow> open_reason \<Rightarrow> nat \<Rightarrow> jobj hub_op" where
  "persist_opening cl step_id ctx reason ts =
     do {
       run \<leftarrow> studio_ask (\<lambda>st. getRun st (bare_with ''run_'' (cl_run_id cl)));
       memos \<leftarrow> studio_ask (\<lambda>st. listRunStepMemos st (cl_run_id cl));
       let its = next_iterations (context_of run) (memo_for memos step_id) step_id;
       let base = (case run of None \<Rightarrow> ctx | Some r \<Rightarrow> rr_exec_context r);
       _ \<leftarrow> studio_do (persistRunExecContext (cl_run_id cl)
         (opened_context base (context_of run) its step_id reason));
       _ \<leftarrow> studio_do (upsertRunStepMemo
         ((step_memo_row (cl_run_id cl) step_id SWorking)\<lparr> me_started_at := Some ts \<rparr>));
       State_Monad.return its
     }"

definition stored_iterations :: "caller \<Rightarrow> jobj hub_op" where
  "stored_iterations cl = studio_ask (\<lambda>st. section_of ''_step_iterations''
     (context_of (getRun st (bare_with ''run_'' (cl_run_id cl)))))"

definition convene_for_step ::
    "engine_deps \<Rightarrow> caller \<Rightarrow> catalog_entry \<Rightarrow> string \<Rightarrow> jobj \<Rightarrow> jobj \<Rightarrow> unit outcome hub_op" where
  "convene_for_step d cl entry step_id facet ctx =
     do {
       let call = \<lparr> mc_facet = facet, mc_exec_context = ctx, mc_session_id = session_or_empty cl,
         mc_run_id = cl_run_id cl, mc_step_id = step_id,
         mc_title = (if truthy_str (ce_description entry) then the (ce_description entry) else step_id),
         mc_actor_id = cl_actor_id cl, mc_token_id = cl_token_id cl, mc_space_id = cl_space_id cl \<rparr>;
       _ \<leftarrow> effect (MeetingConvened call);
       State_Monad.return (case en_convene d call of None \<Rightarrow> Done () | Some e \<Rightarrow> Raised e)
     }"

definition openStepContract ::
    "engine_deps \<Rightarrow> caller \<Rightarrow> string \<Rightarrow> catalog_entry \<Rightarrow> jobj \<Rightarrow> open_reason \<Rightarrow> bool \<Rightarrow> unit outcome hub_op" where
  "openStepContract d cl step_id entry ctx reason state_persisted =
     do {
       ts \<leftarrow> nowIso;
       let run_bare = bare_with ''run_'' (cl_run_id cl);
       its \<leftarrow> (if \<not> state_persisted then persist_opening cl step_id ctx reason ts else stored_iterations cl);
       _ \<leftarrow> append_journal (step_event cl ''mrmr.step.opened'' step_id
         [(''reason'', JStr (reason_str reason)), (''iteration'', coalesce (prop_of its step_id) (JNum 1))]);
       _ \<leftarrow> studio_do (updateRunLifecycle run_bare RWorking (Some ts));
       run \<leftarrow> studio_ask (\<lambda>st. getRun st run_bare);
       entry_of_flow \<leftarrow> studio_ask (\<lambda>st. case run of
           Some r \<Rightarrow> if truthy_str (rr_flow_id r) then getFlowIndexEntry st (the (rr_flow_id r)) (rr_space_id r) else None
         | None \<Rightarrow> None);
       _ \<leftarrow> (case entry_of_flow of
           Some e \<Rightarrow> if fe_catalog e \<noteq> None
             then dispatchStepResolverAssignment cl (Some (fe_name e)) step_id reason else skip
         | None \<Rightarrow> skip);
       (case ce_meeting entry of
          Some facet \<Rightarrow> if state_persisted then State_Monad.return (Done ())
            else convene_for_step d cl entry step_id facet (case run of None \<Rightarrow> ctx | Some r \<Rightarrow> rr_exec_context r)
        | None \<Rightarrow> State_Monad.return (Done ()))
     }"

section \<open>Opening a child\<close>

record child_opened =
  co_child_step_id :: string
  co_iteration :: json
  co_deduplicated :: bool

definition request_record :: "string \<Rightarrow> string \<Rightarrow> json \<Rightarrow> json" where
  "request_record hash child iteration =
     JObj [(''hash'', JStr hash), (''child_step_id'', JStr child), (''iteration'', iteration)]"

text \<open>The answer to a key used before: the recorded activation, or a mismatch.\<close>

definition prior_answer :: "json \<Rightarrow> string \<Rightarrow> refusal + child_opened" where
  "prior_answer prior hash =
     (if opt_member prior ''hash'' \<noteq> JStr hash
      then Inl \<lparr> re_code = ''IDEMPOTENCY_MISMATCH'',
        re_message = ''idempotency_key was already used with different child activation arguments'',
        re_http = 409, re_errors = [] \<rparr>
      else Inr \<lparr> co_child_step_id = js_string (opt_member prior ''child_step_id''),
        co_iteration = opt_member prior ''iteration'', co_deduplicated = True \<rparr>)"

definition activated_context :: "jobj \<Rightarrow> string \<Rightarrow> string \<Rightarrow> string \<Rightarrow> jobj" where
  "activated_context ctx key hash child =
     (let iteration = add_one (section_get ''_step_iterations'' ctx child) in
      section_put ''_step_assignment_reasons'' child (JStr ''opened'')
        (section_put ''_step_iterations'' child iteration
          (section_put ''_nested_open_requests'' key (request_record hash child iteration) ctx)))"

text \<open>The transition and what follows it, for a parent that may open the child.\<close>

definition activate_child ::
    "engine_deps \<Rightarrow> caller \<Rightarrow> run_row \<Rightarrow> step_memo \<Rightarrow> catalog_entry list \<Rightarrow> catalog_entry \<Rightarrow> string \<Rightarrow> string
     \<Rightarrow> (refusal + child_opened) outcome hub_op" where
  "activate_child d cl run parent_memo declared child key hash =
     do {
       let run_bare = bare_with ''run_'' (cl_run_id cl);
       let parent = me_step_id parent_memo;
       let iteration = add_one (section_get ''_step_iterations'' (rr_exec_context run) (ce_step_id child));
       ts \<leftarrow> nowIso;
       moved \<leftarrow> State (\<lambda>h. let (ok, st) = transitionNestedChild (cl_run_id cl)
             (activated_context (rr_exec_context run) key hash (ce_step_id child))
             (parent_memo\<lparr> me_run_id := cl_run_id cl, me_status := SYielded \<rparr>)
             ((step_memo_row (cl_run_id cl) (ce_step_id child) SWorking)\<lparr> me_started_at := Some ts \<rparr>)
             (map ce_step_id declared) (hb_studio h)
           in (ok, h\<lparr> hb_studio := st \<rparr>));
       if \<not> moved
       then refuse ''ACTIVATION_CONFLICT'' ''Parent assignment changed while activating its child'' 409
       else do {
         _ \<leftarrow> effect (StepExecutorCancelled (cl_run_id cl) parent);
         _ \<leftarrow> effect (StepCredentialsRevoked (cl_run_id cl) parent);
         _ \<leftarrow> append_journal (step_event cl ''mrmr.step.yielded'' parent
           [(''child_step_id'', JStr (ce_step_id child)), (''iteration'', iteration), (''idempotency_key'', JStr key)]);
         fresh \<leftarrow> studio_ask (\<lambda>st. getRun st run_bare);
         after (openStepContract d cl (ce_step_id child) child
             (case fresh of None \<Rightarrow> rr_exec_context run | Some r \<Rightarrow> rr_exec_context r) Opened True)
           (\<lambda>_. State_Monad.return (Done (Inr \<lparr> co_child_step_id = ce_step_id child, co_iteration = iteration,
             co_deduplicated = False \<rparr>)))
       }
     }"

definition openChildStep ::
    "engine_deps \<Rightarrow> caller \<Rightarrow> string \<Rightarrow> string \<Rightarrow> string \<Rightarrow> (refusal + child_opened) outcome hub_op" where
  "openChildStep d cl parent_id child_id key =
     do {
       let run_bare = bare_with ''run_'' (cl_run_id cl);
       let hash = en_request_digest d parent_id child_id;
       st \<leftarrow> studio_ask (\<lambda>st. st);
       case getRun st run_bare of
         None \<Rightarrow> refuse ''RUN_NOT_FOUND'' ''Run not found'' 404
       | Some run \<Rightarrow>
         if \<not> truthy_str (rr_flow_id run) then refuse ''RUN_NOT_FOUND'' ''Run not found'' 404
         else if truthy (section_get ''_nested_open_requests'' (rr_exec_context run) key)
         then State_Monad.return
           (Done (prior_answer (section_get ''_nested_open_requests'' (rr_exec_context run) key) hash))
         else if isRunTerminal (rr_lifecycle run)
         then refuse ''RUN_TERMINAL'' (''Run is '' @ lifecycle_str (rr_lifecycle run) @ ''; child activation rejected'') 409
         else (case (case getFlowIndexEntry st (the (rr_flow_id run)) (rr_space_id run) of
                       None \<Rightarrow> None | Some e \<Rightarrow> fe_catalog e) of
           None \<Rightarrow> refuse ''STEP_CONTRACTS_REQUIRED'' ''Run flow does not use step contracts'' 409
         | Some catalog \<Rightarrow>
             if catalogEntryForStep (Some catalog) parent_id = None
             then refuse ''PARENT_STEP_NOT_FOUND'' ''Parent step not found'' 404
             else (case find (\<lambda>e. ce_step_id e = child_id) (nestedCatalogChildren catalog parent_id) of
               None \<Rightarrow> refuse ''CHILD_NOT_DECLARED''
                 (quoted child_id @ '' is not a direct declared child of '' @ quoted parent_id) 400
             | Some child \<Rightarrow>
                 (let memos = listRunStepMemos st (cl_run_id cl);
                      declared = nestedCatalogChildren catalog parent_id in
                  case memo_for memos parent_id of
                    None \<Rightarrow> refuse ''PARENT_NOT_ACTIVE''
                      (''Parent '' @ quoted parent_id @ '' is '' @ quoted ''missing'' @ '', expected working'') 409
                  | Some pm \<Rightarrow>
                      if me_status pm \<noteq> SWorking
                      then refuse ''PARENT_NOT_ACTIVE'' (''Parent '' @ quoted parent_id @ '' is ''
                        @ quoted (step_status_str (me_status pm)) @ '', expected working'') 409
                      else (case find (\<lambda>e. list_ex (\<lambda>m. me_step_id m = ce_step_id e \<and> me_status m = SWorking) memos)
                                   declared of
                          Some active \<Rightarrow> refuse ''CHILD_ALREADY_ACTIVE''
                            (''Parent '' @ quoted parent_id @ '' already has active child '' @ quoted (ce_step_id active)) 409
                        | None \<Rightarrow> activate_child d cl run pm declared child key hash))))
     }"

end
