(* ===== verification/StartFlowSteps.thy ===== *)
theory StartFlowSteps
  imports StepOpen
begin

text \<open>
  Flows that call flows, from \<open>hub-core/src/flow-engine/start-flow.ts\<close>: a \<open>start_flow\<close> step starts a child
  run, and the end of a child settles the step of its parent. Both recur, down the calls and up the
  parents; the recursive call is an argument of the body and the recursion runs on fuel, with
  \<open>OutOfFuel\<close> where it does not suffice.
\<close>

definition FLOW_CALL_MAX_DEPTH :: int where "FLOW_CALL_MAX_DEPTH = 8"

definition flowCallDepth :: "jobj \<Rightarrow> int" where
  "flowCallDepth ctx = (case prop_of ctx ''_flow_call_depth'' of JNum n \<Rightarrow> n | _ \<Rightarrow> 0)"

definition canInvokeFlowCall :: "capability list \<Rightarrow> string list option \<Rightarrow> string \<Rightarrow> bool" where
  "canInvokeFlowCall caps acl target = canExecuteFlow caps acl target"

definition bare_run_or_session :: "string \<Rightarrow> string" where
  "bare_run_or_session i = (if starts_with i ''run_'' then drop 4 i else bare_with ''ses_'' i)"

definition findStartFlowStep :: "flow_ir \<Rightarrow> string \<Rightarrow> start_flow_step option" where
  "findStartFlowStep ir step_id =
     (case find (\<lambda>s. ir_id s = step_id \<and> ir_kind s = KStartFlow) (fi_steps ir) of
        None \<Rightarrow> None | Some s \<Rightarrow> ir_start_flow s)"

definition fail_run :: "engine_deps \<Rightarrow> string \<Rightarrow> string \<Rightarrow> string \<Rightarrow> string \<Rightarrow> bool outcome hub_op" where
  "fail_run d run_id actor token reason =
     do {
       r \<leftarrow> failRunWithNotification (service_deps d) \<lparr> fn_run_id = run_id, fn_actor_id = actor, fn_token_id = token,
         fn_reason = Some reason, fn_notify = None \<rparr>;
       State_Monad.return (case r of Threw \<Rightarrow> Raised ''scopes is not iterable'' | Reply _ \<Rightarrow> Done True | _ \<Rightarrow> Done False)
     }"

definition plain_event :: "string \<Rightarrow> string \<Rightarrow> string \<Rightarrow> string \<Rightarrow> string \<Rightarrow> string \<Rightarrow> jobj \<Rightarrow> journal_call" where
  "plain_event type space session run actor token data = \<lparr>
     jc_type = type, jc_space_id = space, jc_session_id = Some session, jc_run_id = Some run,
     jc_actor_id = actor, jc_token_id = token, jc_data = data \<rparr>"

section \<open>The parent of a finished child\<close>

definition ir_step_done :: "step_memo list \<Rightarrow> step_ir \<Rightarrow> bool" where
  "ir_step_done memos s =
     (case ir_kind s of
        KParallel \<Rightarrow> (case memo_for memos (ir_id s) of None \<Rightarrow> False | Some m \<Rightarrow> me_status m \<in> {SCompleted, SFailed})
      | KStepContract \<Rightarrow> True
      | _ \<Rightarrow> (case memo_for memos (ir_id s) of None \<Rightarrow> False | Some m \<Rightarrow> me_status m = SCompleted))"

definition advanceParentIfComplete ::
    "string \<Rightarrow> run_row \<Rightarrow> flow_ir \<Rightarrow> string \<Rightarrow> string \<Rightarrow> string \<Rightarrow> unit hub_op" where
  "advanceParentIfComplete parent_bare parent ir space actor token =
     do {
       memos \<leftarrow> studio_ask (\<lambda>st. listRunStepMemos st (''run_'' @ parent_bare));
       if \<not> list_all (ir_step_done memos) (fi_steps ir) then skip
       else do {
         ts \<leftarrow> nowIso;
         _ \<leftarrow> studio_do (updateRunLifecycle parent_bare RCompleted (Some ts));
         _ \<leftarrow> append_journal (plain_event ''mrmr.run.completed'' space (''ses_'' @ rr_session_id parent)
           (''run_'' @ parent_bare) actor token []);
         _ \<leftarrow> refreshSessionStatus (rr_session_id parent);
         skip
       }
     }"

definition settled_memo :: "string \<Rightarrow> string \<Rightarrow> step_status \<Rightarrow> nat \<Rightarrow> string option \<Rightarrow> step_memo" where
  "settled_memo run_id step_id status ts err =
     (step_memo_row run_id step_id status)\<lparr> me_completed_at := Some ts, me_error_code := err \<rparr>"

text \<open>
  The next dispatch of a parent whose step completed, or its own completion. \<open>live\<close> is whether the
  caller passed a \<open>dispatchSteps\<close> that does anything: the one of \<open>completeRunIfFinished\<close> does not.
\<close>

definition continue_parent ::
    "bool \<Rightarrow> string \<Rightarrow> run_row \<Rightarrow> flow_ir \<Rightarrow> string \<Rightarrow> string \<Rightarrow> string \<Rightarrow> unit hub_op" where
  "continue_parent live parent_bare parent ir space actor token =
     do {
       memos \<leftarrow> studio_ask (\<lambda>st. listRunStepMemos st (''run_'' @ parent_bare));
       case nextDispatchAfterComplete memos ir (rr_exec_context parent) space of
         Some s \<Rightarrow> if live then effect (StepsDispatched \<lparr> dc_dispatch = [s],
             dc_session_id = ''ses_'' @ rr_session_id parent, dc_run_id = ''run_'' @ parent_bare,
             dc_actor_id = actor, dc_token_id = token \<rparr>) else skip
       | None \<Rightarrow> advanceParentIfComplete parent_bare parent ir space actor token
     }"

definition child_completed_event ::
    "string \<Rightarrow> string \<Rightarrow> run_row \<Rightarrow> run_row \<Rightarrow> run_lifecycle \<Rightarrow> string \<Rightarrow> step_status \<Rightarrow> string \<Rightarrow> string \<Rightarrow> journal_call" where
  "child_completed_event space parent_bare parent child l step status actor token =
     plain_event ''mrmr.flow.child_completed'' space (''ses_'' @ rr_session_id parent) (''run_'' @ parent_bare) actor token
       [(''step_id'', JStr step), (''child_run_id'', JStr (''run_'' @ rr_run_id child)),
        (''child_lifecycle'', JStr (lifecycle_str l)), (''parent_step_id'', JStr step),
        (''step_status'', JStr (step_status_str status))]"

text \<open>
  The step of the parent is settled and the parent goes on or fails; a failed parent that is a child
  itself is handed on to \<open>recur\<close>. \<open>l\<close> is the lifecycle of the child as the caller states it.
\<close>

definition settle_parent ::
    "bool \<Rightarrow> (run_row \<Rightarrow> run_lifecycle \<Rightarrow> unit outcome hub_op) \<Rightarrow> engine_deps \<Rightarrow> string \<Rightarrow> string \<Rightarrow> run_row \<Rightarrow> run_lifecycle
     \<Rightarrow> string \<Rightarrow> string \<Rightarrow> run_row \<Rightarrow> flow_ir \<Rightarrow> start_flow_step \<Rightarrow> unit outcome hub_op" where
  "settle_parent live recur d actor token child l parent_bare step parent ir sf =
     do {
       let childFailed = (l = RFailed \<or> l = RCancelled);
       let failed = (childFailed \<and> sf_continue_on_error sf \<noteq> Some True);
       let status = (if failed then SFailed else SCompleted);
       ts \<leftarrow> nowIso;
       _ \<leftarrow> studio_do (upsertRunStepMemo (settled_memo (''run_'' @ parent_bare) step status ts
         (if failed then Some ''CHILD_RUN_FAILED'' else None)));
       let space = run_space_id parent;
       _ \<leftarrow> (case space of None \<Rightarrow> skip | Some sp \<Rightarrow>
         append_journal (child_completed_event sp parent_bare parent child l step status actor token));
       if \<not> failed then do {
         _ \<leftarrow> (case space of None \<Rightarrow> skip | Some sp \<Rightarrow> continue_parent live parent_bare parent ir sp actor token);
         State_Monad.return (Done ())
       }
       else after (fail_run d (''run_'' @ parent_bare) actor token ''child_flow_failed'') (\<lambda>_. do {
         again \<leftarrow> studio_ask (\<lambda>st. getRun st parent_bare);
         case again of
           None \<Rightarrow> State_Monad.return (Done ())
         | Some p \<Rightarrow> if truthy (prop_of (rr_exec_context p) ''_parent_run_id'') then recur p RFailed
             else State_Monad.return (Done ())
       })
     }"

definition parent_body ::
    "bool \<Rightarrow> (run_row \<Rightarrow> run_lifecycle \<Rightarrow> unit outcome hub_op) \<Rightarrow> engine_deps \<Rightarrow> string \<Rightarrow> string \<Rightarrow> run_row \<Rightarrow> run_lifecycle
     \<Rightarrow> unit outcome hub_op" where
  "parent_body live recur d actor token child l =
     (case (prop_of (rr_exec_context child) ''_parent_run_id'', prop_of (rr_exec_context child) ''_parent_step_id'') of
        (JStr parent_id, JStr step) \<Rightarrow>
          if \<not> isRunTerminal l then State_Monad.return (Done ())
          else do {
            let parent_bare = bare_run_or_session parent_id;
            st \<leftarrow> studio_ask (\<lambda>st. st);
            case getRun st parent_bare of
              None \<Rightarrow> State_Monad.return (Done ())
            | Some parent \<Rightarrow>
                if \<not> truthy_str (rr_flow_id parent) \<or> \<not> truthy_str (rr_flow_digest parent)
                then State_Monad.return (Done ())
                else (case (case getFlowIndexEntry st (the (rr_flow_id parent)) (rr_space_id parent) of
                         None \<Rightarrow> None | Some e \<Rightarrow> fe_ir e) of
                    None \<Rightarrow> State_Monad.return (Done ())
                  | Some ir \<Rightarrow>
                      (case (findStartFlowStep ir step, memo_for (listRunStepMemos st (''run_'' @ parent_bare)) step) of
                         (Some sf, Some m) \<Rightarrow>
                           if memo_terminal m then State_Monad.return (Done ())
                           else settle_parent live recur d actor token child l parent_bare step parent ir sf
                       | _ \<Rightarrow> State_Monad.return (Done ())))
          }
      | _ \<Rightarrow> State_Monad.return (Done ()))"

primrec complete_parents :: "nat \<Rightarrow> bool \<Rightarrow> engine_deps \<Rightarrow> string \<Rightarrow> string \<Rightarrow> run_row \<Rightarrow> run_lifecycle \<Rightarrow> unit outcome hub_op" where
  "complete_parents 0 = (\<lambda>live d actor token child l. State_Monad.return OutOfFuel)"
| "complete_parents (Suc n) = (\<lambda>live d actor token. parent_body live (complete_parents n live d actor token) d actor token)"

text \<open>Every level settles a memo that was open, so one more than the memos there are is enough.\<close>

definition maybeCompleteFlowCallParent ::
    "bool \<Rightarrow> engine_deps \<Rightarrow> string \<Rightarrow> string \<Rightarrow> run_row \<Rightarrow> run_lifecycle \<Rightarrow> unit outcome hub_op" where
  "maybeCompleteFlowCallParent live d actor token child l =
     do {
       n \<leftarrow> studio_ask (\<lambda>st. length (sd_memos st));
       complete_parents (Suc n) live d actor token child l
     }"

section \<open>Starting the child\<close>

record flow_step_input =
  xs_run_bare :: string
  xs_step_id :: string
  xs_ir :: flow_ir
  xs_space_id :: string
  xs_session_id :: string
  xs_exec_context :: jobj
  xs_auth :: flow_auth

type_synonym flow_step_result = "(string \<times> string) + (string \<times> bool)"

definition child_context :: "flow_step_input \<Rightarrow> jobj \<Rightarrow> jobj" where
  "child_context inp flow_input =
     [(''input'', JObj flow_input), (''_flow_call_depth'', JNum (flowCallDepth (xs_exec_context inp) + 1)),
      (''_flow_call'', JBool True), (''_parent_run_id'', JStr (''run_'' @ xs_run_bare inp)),
      (''_parent_step_id'', JStr (xs_step_id inp))]"

definition call_key :: "flow_step_input \<Rightarrow> string" where
  "call_key inp = xs_run_bare inp @ '':'' @ xs_step_id inp @ '':start_flow''"

definition child_start :: "flow_step_input \<Rightarrow> flow_index_entry \<Rightarrow> jobj \<Rightarrow> start_flow_input" where
  "child_start inp e flow_input = \<lparr>
     sf_entry_flow_id = fe_flow_id e, sf_entry_digest = fe_digest e, sf_space_id = xs_space_id inp,
     sf_actor_id = au_actor_id (xs_auth inp), sf_token_id = au_token_id (xs_auth inp),
     sf_capabilities = au_capabilities (xs_auth inp), sf_flow_acl = au_flow_acl (xs_auth inp),
     sf_flow_input = Some flow_input, sf_session_id = Some (xs_session_id inp),
     sf_idempotency_header = Some (call_key inp), sf_mode = StartFlowCall, sf_event_type = None,
     sf_event_source = None, sf_reference_run_ids = Some [''run_'' @ xs_run_bare inp],
     sf_exec_context = Some (child_context inp flow_input) \<rparr>"

text \<open>A child whose first step is itself a call: the call is made, and a refusal fails the child.\<close>

definition maybeDispatchInitialStartFlow ::
    "(flow_step_input \<Rightarrow> flow_step_result outcome hub_op) \<Rightarrow> engine_deps \<Rightarrow> string \<Rightarrow> flow_index_entry
     \<Rightarrow> flow_step_input \<Rightarrow> unit outcome hub_op" where
  "maybeDispatchInitialStartFlow recur d child_run_id e inp =
     do {
       let child_bare = bare_run_or_session child_run_id;
       found \<leftarrow> studio_ask (\<lambda>st. getRun st child_bare);
       case (fe_ir e, found) of
         (Some ir, Some child) \<Rightarrow>
           (let i = activeStepIndex [] ir in
            if length (fi_steps ir) \<le> i \<or> ir_kind (fi_steps ir ! i) \<noteq> KStartFlow then State_Monad.return (Done ())
            else (let step = ir_id (fi_steps ir ! i) in
              after (recur (inp\<lparr> xs_run_bare := child_bare, xs_step_id := step, xs_ir := ir,
                        xs_exec_context := rr_exec_context child \<rparr>)) (\<lambda>r. case r of
                  Inr _ \<Rightarrow> State_Monad.return (Done ())
                | Inl (code, message) \<Rightarrow> do {
                    ts \<leftarrow> nowIso;
                    _ \<leftarrow> studio_do (upsertRunStepMemo (settled_memo child_run_id step SFailed ts (Some code)));
                    after (fail_run d child_run_id (au_actor_id (xs_auth inp)) (au_token_id (xs_auth inp)) code)
                      (\<lambda>failed. do {
                        row \<leftarrow> studio_ask (\<lambda>st. getRun st child_bare);
                        case row of
                          Some c \<Rightarrow> if failed
                            then maybeCompleteFlowCallParent True d (au_actor_id (xs_auth inp)) (au_token_id (xs_auth inp)) c RFailed
                            else State_Monad.return (Done ())
                        | None \<Rightarrow> State_Monad.return (Done ())
                      })
                  })))
       | _ \<Rightarrow> State_Monad.return (Done ())
     }"

definition started_child_event :: "flow_step_input \<Rightarrow> string \<Rightarrow> string \<Rightarrow> journal_call" where
  "started_child_event inp child_run_id target =
     plain_event ''mrmr.flow.child_started'' (xs_space_id inp) (xs_session_id inp) (''run_'' @ xs_run_bare inp)
       (au_actor_id (xs_auth inp)) (au_token_id (xs_auth inp))
       [(''step_id'', JStr (xs_step_id inp)), (''child_run_id'', JStr child_run_id),
        (''target_flow_id'', JStr target), (''parent_step_id'', JStr (xs_step_id inp))]"

text \<open>After the child was started: its first step is dispatched, and a step that does not wait completes.\<close>

definition follow_child ::
    "(flow_step_input \<Rightarrow> flow_step_result outcome hub_op) \<Rightarrow> engine_deps \<Rightarrow> flow_step_input \<Rightarrow> flow_index_entry
     \<Rightarrow> bool \<Rightarrow> nat \<Rightarrow> flow_started \<Rightarrow> flow_step_result outcome hub_op" where
  "follow_child recur d inp e wait ts started =
     do {
       _ \<leftarrow> (if xs_space_id inp \<noteq> [] then append_journal (started_child_event inp (so_run_id started) (fe_flow_id e))
             else skip);
       after (if so_deduplicated started then State_Monad.return (Done ())
              else if so_dispatch started \<noteq> [] then do {
                _ \<leftarrow> effect (StepsDispatched \<lparr> dc_dispatch = so_dispatch started, dc_session_id = xs_session_id inp,
                  dc_run_id = so_run_id started, dc_actor_id = au_actor_id (xs_auth inp),
                  dc_token_id = au_token_id (xs_auth inp) \<rparr>);
                State_Monad.return (Done ())
              }
              else maybeDispatchInitialStartFlow recur d (so_run_id started) e inp)
         (\<lambda>_. do {
           _ \<leftarrow> (if wait then skip
                 else studio_do (upsertRunStepMemo (settled_memo (''run_'' @ xs_run_bare inp) (xs_step_id inp) SCompleted ts None)));
           State_Monad.return (Done (Inr (so_run_id started, wait)))
         })
     }"

definition start_error :: "flow_started reply \<Rightarrow> (string \<times> string) option" where
  "start_error r = (case r of
       Refused c m \<Rightarrow> Some (c, m) | AtCapacity e \<Rightarrow> Some (''FLOW_CONCURRENCY_LIMIT'', ax_message e) | _ \<Rightarrow> None)"

definition begin_call ::
    "(flow_step_input \<Rightarrow> flow_step_result outcome hub_op) \<Rightarrow> engine_deps \<Rightarrow> flow_step_input \<Rightarrow> flow_index_entry
     \<Rightarrow> start_flow_step \<Rightarrow> flow_step_result outcome hub_op" where
  "begin_call recur d inp e sf =
     do {
       ts \<leftarrow> nowIso;
       let run_id = ''run_'' @ xs_run_bare inp;
       let flow_input = opt_default [] (resolveStepParams (sf_input sf) (xs_exec_context inp) None);
       _ \<leftarrow> studio_do (upsertRunStepMemo ((step_memo_row run_id (xs_step_id inp) SWorking)
         \<lparr> me_started_at := Some ts, me_idempotency_key := Some (call_key inp) \<rparr>));
       r \<leftarrow> startFlowRun d (child_start inp e flow_input);
       case start_error r of
         Some (code, message) \<Rightarrow> do {
           _ \<leftarrow> studio_do (upsertRunStepMemo (settled_memo run_id (xs_step_id inp) SFailed ts (Some code)));
           State_Monad.return (Done (Inl (code, message)))
         }
       | None \<Rightarrow> (case r of
             Reply started \<Rightarrow> follow_child recur d inp e (sf_wait sf \<noteq> Some False) ts started
           | _ \<Rightarrow> State_Monad.return (Raised ''start failed''))
     }"

definition start_flow_body ::
    "(flow_step_input \<Rightarrow> flow_step_result outcome hub_op) \<Rightarrow> engine_deps \<Rightarrow> flow_step_input
     \<Rightarrow> flow_step_result outcome hub_op" where
  "start_flow_body recur d inp =
     (case findStartFlowStep (xs_ir inp) (xs_step_id inp) of
        None \<Rightarrow> State_Monad.return (Done (Inl (''STEP_NOT_FOUND'', ''start_flow step not found in IR'')))
      | Some sf \<Rightarrow>
          if flowCallDepth (xs_exec_context inp) \<ge> FLOW_CALL_MAX_DEPTH
          then State_Monad.return (Done (Inl (''FLOW_CALL_DEPTH_EXCEEDED'',
            ''Flow-call depth limit ('' @ int_str FLOW_CALL_MAX_DEPTH @ '') exceeded'')))
          else do {
            st \<leftarrow> studio_ask (\<lambda>st. st);
            case getFlowIndexEntry st (sf_flow_id sf) (Some (stripPrefix (xs_space_id inp))) of
              None \<Rightarrow> State_Monad.return (Done (Inl (''FLOW_NOT_FOUND'', ''Target flow '' @ quoted (sf_flow_id sf) @ '' not indexed'')))
            | Some e \<Rightarrow>
                if \<not> canInvokeFlowCall (au_capabilities (xs_auth inp)) (au_flow_acl (xs_auth inp)) (sf_flow_id sf)
                then State_Monad.return (Done (Inl (''SCOPE_ENFORCEMENT_FAILURE'',
                  ''Grant lacks flow:run for '' @ quoted (sf_flow_id sf))))
                else (case findRunByIdempotencyKey st (call_key inp) of
                    Some existing \<Rightarrow> State_Monad.return (Done (Inr (''run_'' @ rr_run_id existing,
                      sf_wait sf \<noteq> Some False \<and> \<not> isRunTerminal (rr_lifecycle existing))))
                  | None \<Rightarrow> begin_call recur d inp e sf)
          })"

primrec executeStartFlowStep :: "nat \<Rightarrow> engine_deps \<Rightarrow> flow_step_input \<Rightarrow> flow_step_result outcome hub_op" where
  "executeStartFlowStep 0 = (\<lambda>d inp. State_Monad.return OutOfFuel)"
| "executeStartFlowStep (Suc n) = (\<lambda>d. start_flow_body (executeStartFlowStep n d) d)"

text \<open>Every call is one deeper than the run that makes it, so this much is enough.\<close>

definition flow_call_fuel :: "jobj \<Rightarrow> nat" where
  "flow_call_fuel ctx = Suc (nat (FLOW_CALL_MAX_DEPTH - flowCallDepth ctx))"

definition startFlowStep :: "engine_deps \<Rightarrow> flow_step_input \<Rightarrow> flow_step_result outcome hub_op" where
  "startFlowStep d inp = executeStartFlowStep (flow_call_fuel (xs_exec_context inp)) d inp"

end
