(* ===== verification/StepResolve.thy ===== *)
theory StepResolve
  imports StartFlowSteps BranchContract
begin

text \<open>
  Resolving steps, from \<open>hub-core/src/flow-engine/step-resolve.ts\<close>: the checks of a resolution, what it
  records, and the route it takes: a yielded ancestor resumes, a step opens (after a reset when the
  route goes back), a child flow starts, the run fails or completes. Each operation is one step. The
  promotion of artifact files is a parameter, the contract slice written for a resumed step is not
  modelled.
\<close>

record resolve_body =
  rb_branch :: string
  rb_payload :: "jobj option"
  rb_artifacts_out :: "artifact_out list option"
  rb_idempotency_key :: "string option"

section \<open>Routes\<close>

definition isFailRoute :: "catalog_route list \<Rightarrow> bool" where
  "isFailRoute rs = list_ex (\<lambda>r. rt_engine r = FailRun) rs"

definition openTargetFromRoutes :: "catalog_route list \<Rightarrow> string option" where
  "openTargetFromRoutes rs =
     (case find (\<lambda>r. rt_engine r = Open \<and> truthy_str (rt_step_id r)) rs of None \<Rightarrow> None | Some r \<Rightarrow> rt_step_id r)"

definition isRunCompleteRoute :: "catalog_route list \<Rightarrow> bool" where
  "isRunCompleteRoute rs \<longleftrightarrow> list_ex (\<lambda>r. rt_engine r = Advance) rs \<and> \<not> list_ex (\<lambda>r. rt_engine r = Open) rs"

definition resumeTargetFromRoutes :: "catalog_route list \<Rightarrow> string option" where
  "resumeTargetFromRoutes rs = (case find (\<lambda>r. rt_engine r = Resume) rs of None \<Rightarrow> None | Some r \<Rightarrow> rt_step_id r)"

text \<open>The walk up the parents; \<open>None\<close> is a catalog whose parents go in a circle.\<close>

fun catalog_ancestor :: "nat \<Rightarrow> step_catalog \<Rightarrow> string option \<Rightarrow> string \<Rightarrow> bool option" where
  "catalog_ancestor 0 c parent target = None"
| "catalog_ancestor (Suc n) c parent target =
     (if \<not> truthy_str parent then Some False
      else if parent = Some target then Some True
      else catalog_ancestor n c
        (case catalogEntryForStep (Some c) (the parent) of None \<Rightarrow> None | Some e \<Rightarrow> ce_parent_id e) target)"

definition isCatalogAncestor :: "step_catalog \<Rightarrow> catalog_entry \<Rightarrow> string \<Rightarrow> bool option" where
  "isCatalogAncestor c child target = catalog_ancestor (Suc (Suc (length (ct_entries c)))) c (ce_parent_id child) target"

definition top_level_ids :: "step_catalog \<Rightarrow> string list" where
  "top_level_ids c = map ce_step_id (topLevelCatalogSteps c)"

definition stepsToResetForBackwardLoop :: "string list \<Rightarrow> string \<Rightarrow> string \<Rightarrow> string list" where
  "stepsToResetForBackwardLoop ids from_id to_id =
     (let f = order_index ids from_id; t = order_index ids to_id in
      if f < 0 \<or> t < 0 \<or> f \<le> t then [] else drop (nat t) ids)"

text \<open>
  \<open>entry.branches[branch]\<close>: a declared branch, or the member of the prototype with that name, which
  has neither routes nor slots (\<open>Some None\<close>).
\<close>

definition branch_named :: "catalog_entry \<Rightarrow> string \<Rightarrow> catalog_branch option option" where
  "branch_named entry b =
     (case js_get (ce_branches entry) b of
        Some cb \<Rightarrow> Some (Some cb) | None \<Rightarrow> if b \<in> set OBJECT_PROTOTYPE then Some None else None)"

definition file_of :: "artifact_out \<Rightarrow> file_metadata" where
  "file_of ao = \<lparr> fl_name = opt_default (ao_path ao) (ao_name ao), fl_media_type = opt_default [] (ao_media_type ao),
     fl_size_bytes = opt_default 0 (ao_size_bytes ao) \<rparr>"

definition files_by_slot :: "(string, artifact_slot) jsmap \<Rightarrow> artifact_out list \<Rightarrow> (string, file_input) jsmap" where
  "files_by_slot slots outs =
     map (\<lambda>(slot, _). (slot, ManyFiles (map file_of (filter (\<lambda>ao. ao_slot ao = slot) outs)))) slots"

definition contract_of :: "catalog_branch \<Rightarrow> branch_contract" where
  "contract_of b = \<lparr> bc_schema = cb_schema b, bc_payload_required = Some (cb_payload_required b),
     bc_artifact_required = Some (cb_artifact_required b), bc_artifact_slots = Some (cb_artifact_slots b) \<rparr>"

section \<open>Completing the run\<close>

definition top_level_done :: "step_catalog \<Rightarrow> step_memo list \<Rightarrow> bool" where
  "top_level_done c memos =
     list_all (\<lambda>e. case memo_for memos (ce_step_id e) of None \<Rightarrow> False | Some m \<Rightarrow> memo_terminal m) (topLevelCatalogSteps c)"

definition completeRunIfFinished :: "engine_deps \<Rightarrow> caller \<Rightarrow> step_catalog \<Rightarrow> unit outcome hub_op" where
  "completeRunIfFinished d cl catalog =
     do {
       let run_bare = bare_with ''run_'' (cl_run_id cl);
       memos \<leftarrow> studio_ask (\<lambda>st. listRunStepMemos st (cl_run_id cl));
       if \<not> top_level_done catalog memos then State_Monad.return (Done ())
       else do {
         let anyFailed = list_ex (\<lambda>m. me_status m = SFailed) memos;
         ts \<leftarrow> nowIso;
         _ \<leftarrow> terminateRunExecutors (cl_run_id cl) (if anyFailed then ''run failed'' else ''run completed'');
         _ \<leftarrow> studio_do (updateRunLifecycle run_bare (if anyFailed then RFailed else RCompleted) (Some ts));
         _ \<leftarrow> (if \<not> anyFailed \<and> truthy_str (cl_session_id cl)
               then append_journal (plain_event ''mrmr.run.completed'' (cl_space_id cl) (the (cl_session_id cl))
                 (cl_run_id cl) (cl_actor_id cl) (cl_token_id cl) [])
               else skip);
         found \<leftarrow> studio_ask (\<lambda>st. getRun st run_bare);
         case found of
           None \<Rightarrow> State_Monad.return (Done ())
         | Some run \<Rightarrow> do {
             _ \<leftarrow> refreshSessionStatus (rr_session_id run);
             maybeCompleteFlowCallParent False d (cl_actor_id cl) (cl_token_id cl) run (rr_lifecycle run)
           }
       }
     }"

section \<open>Taking a route\<close>

record returned_child =
  rc_step_id :: string
  rc_branch :: string
  rc_iteration :: int
  rc_payload :: jobj
  rc_artifacts :: "json list"

definition returned_json :: "returned_child \<Rightarrow> json" where
  "returned_json r = JObj [(''step_id'', JStr (rc_step_id r)), (''branch'', JStr (rc_branch r)),
     (''iteration'', JNum (rc_iteration r)), (''payload'', JObj (rc_payload r)), (''artifacts_out'', JArr (rc_artifacts r))]"

definition resumed_context :: "jobj \<Rightarrow> string \<Rightarrow> returned_child \<Rightarrow> jobj" where
  "resumed_context ctx target rc =
     section_put ''_step_assignment_reasons'' target (JStr ''resumed'')
       (section_put ''_returned_children'' target (returned_json rc) ctx)"

definition resume_ancestor ::
    "engine_deps \<Rightarrow> caller \<Rightarrow> step_catalog \<Rightarrow> jobj \<Rightarrow> string \<Rightarrow> returned_child \<Rightarrow> unit outcome hub_op" where
  "resume_ancestor d cl catalog ctx target rc =
     do {
       memos \<leftarrow> studio_ask (\<lambda>st. listRunStepMemos st (cl_run_id cl));
       case (catalogEntryForStep (Some catalog) target, memo_for memos target) of
         (Some _, Some m) \<Rightarrow>
           if me_status m \<noteq> SYielded then State_Monad.return (Done ())
           else do {
             _ \<leftarrow> studio_do (persistRunExecContext (cl_run_id cl) (resumed_context ctx target rc));
             _ \<leftarrow> studio_do (upsertRunStepMemo (m\<lparr> me_run_id := cl_run_id cl, me_step_id := target, me_status := SWorking \<rparr>));
             _ \<leftarrow> append_journal (step_event cl ''mrmr.step.resumed'' target
               [(''reason'', JStr ''resumed''), (''returned_child'', returned_json rc)]);
             name \<leftarrow> studio_ask (\<lambda>st. case getRun st (bare_with ''run_'' (cl_run_id cl)) of
                 None \<Rightarrow> None
               | Some r \<Rightarrow> if truthy_str (rr_flow_id r)
                   then map_option fe_name (getFlowIndexEntry st (the (rr_flow_id r)) (rr_space_id r)) else None);
             _ \<leftarrow> dispatchStepResolverAssignment cl name target Resumed;
             State_Monad.return (Done ())
           }
       | _ \<Rightarrow> State_Monad.return (Done ())
     }"

text \<open>A target outside the catalog is opened when it is a flow call of the compiled flow.\<close>

definition openIrStepAfterResolve :: "engine_deps \<Rightarrow> caller \<Rightarrow> string \<Rightarrow> jobj \<Rightarrow> unit outcome hub_op" where
  "openIrStepAfterResolve d cl step_id ctx =
     do {
       let run_bare = bare_with ''run_'' (cl_run_id cl);
       st \<leftarrow> studio_ask (\<lambda>st. st);
       case getRun st run_bare of
         None \<Rightarrow> State_Monad.return (Done ())
       | Some run \<Rightarrow>
           if \<not> truthy_str (rr_flow_id run) then State_Monad.return (Done ())
           else (case (case getFlowIndexEntry st (the (rr_flow_id run)) (rr_space_id run) of
                    None \<Rightarrow> None | Some e \<Rightarrow> fe_ir e) of
               None \<Rightarrow> State_Monad.return (Done ())
             | Some ir \<Rightarrow>
                 (case find (\<lambda>s. ir_id s = step_id) (fi_steps ir) of
                    None \<Rightarrow> State_Monad.return (Done ())
                  | Some s \<Rightarrow>
                      if ir_kind s \<noteq> KStartFlow then State_Monad.return (Done ())
                      else after (startFlowStep d \<lparr> xs_run_bare = run_bare, xs_step_id = step_id, xs_ir = ir,
                          xs_space_id = cl_space_id cl,
                          xs_session_id = opt_default (''ses_'' @ rr_session_id run) (cl_session_id cl),
                          xs_exec_context = ctx, xs_auth = en_flow_auth d run \<rparr>)
                        (\<lambda>_. State_Monad.return (Done ()))))
     }"

definition reset_steps :: "string \<Rightarrow> string list \<Rightarrow> unit hub_op" where
  "reset_steps run_id ids = for_each ids (\<lambda>i. studio_do (upsertRunStepMemo (step_memo_row run_id i SPending)))"

definition open_next :: "engine_deps \<Rightarrow> caller \<Rightarrow> step_catalog \<Rightarrow> jobj \<Rightarrow> string \<Rightarrow> string \<Rightarrow> unit outcome hub_op" where
  "open_next d cl catalog ctx resolved target =
     do {
       _ \<leftarrow> reset_steps (cl_run_id cl) (stepsToResetForBackwardLoop (top_level_ids catalog) resolved target);
       case catalogEntryForStep (Some catalog) target of
         Some e \<Rightarrow> openStepContract d (cl\<lparr> cl_session_id := Some (session_or_empty cl) \<rparr>) target e ctx Opened False
       | None \<Rightarrow> openIrStepAfterResolve d cl target ctx
     }"

definition applyResolvedRoutes ::
    "engine_deps \<Rightarrow> caller \<Rightarrow> step_catalog \<Rightarrow> catalog_route list \<Rightarrow> jobj \<Rightarrow> string \<Rightarrow> returned_child \<Rightarrow> unit outcome hub_op" where
  "applyResolvedRoutes d cl catalog routes ctx resolved rc =
     (if truthy_str (resumeTargetFromRoutes routes)
      then resume_ancestor d cl catalog ctx (the (resumeTargetFromRoutes routes)) rc
      else case openTargetFromRoutes routes of
        Some target \<Rightarrow> open_next d cl catalog ctx resolved target
      | None \<Rightarrow> if isRunCompleteRoute routes then completeRunIfFinished d cl catalog else State_Monad.return (Done ()))"

section \<open>Resolving a step\<close>

text \<open>\<open>Number(v ?? 1)\<close>, kept when it is a positive integer. The engine writes numbers there.\<close>

definition iteration_of :: "jobj \<Rightarrow> string \<Rightarrow> int" where
  "iteration_of ctx step_id =
     (case opt_member (coalesce (prop_of ctx ''_step_iterations'') (JObj [])) step_id of
        JNum n \<Rightarrow> if 0 < n then n else 1 | _ \<Rightarrow> 1)"

fun is_object :: "json \<Rightarrow> bool" where
  "is_object (JObj _) = True"
| "is_object (JArr _) = True"
| "is_object _ = False"

definition child_artifacts :: "jobj \<Rightarrow> string \<Rightarrow> json list" where
  "child_artifacts ctx step_id =
     (let v = opt_member (coalesce (prop_of ctx ''artifacts'') (JObj [])) step_id in
      if is_object v then filter is_object (js_values (props_of v)) else [])"

definition returned_child_of :: "jobj \<Rightarrow> string \<Rightarrow> resolve_body \<Rightarrow> returned_child" where
  "returned_child_of ctx step_id body = \<lparr> rc_step_id = step_id, rc_branch = rb_branch body,
     rc_iteration = iteration_of ctx step_id, rc_payload = opt_default [] (rb_payload body),
     rc_artifacts = child_artifacts ctx step_id \<rparr>"

definition step_output :: "caller \<Rightarrow> resolve_body \<Rightarrow> nat \<Rightarrow> jobj" where
  "step_output cl body ts = spread (opt_default [] (rb_payload body))
     [(''branch'', JStr (rb_branch body)), (''resolved_at'', JNum (int ts)), (''resolved_by'', JStr (cl_actor_id cl))]"

text \<open>The context after the resolution, from the promoted artifacts.\<close>

definition resolved_context ::
    "caller \<Rightarrow> string \<Rightarrow> resolve_body \<Rightarrow> bool \<Rightarrow> nat \<Rightarrow> step_artifact list option \<Rightarrow> jobj \<Rightarrow> jobj" where
  "resolved_context cl step_id body failed ts promoted ctx =
     (let c1 = mergeStepOutputIntoExecContext ctx step_id (if failed then OutFailed else OutCompleted)
                 (Some (step_output cl body ts)) ts;
          c2 = (case promoted of None \<Rightarrow> c1 | Some arts \<Rightarrow> mergeArtifactsIntoExecContext c1 step_id arts) in
      if failed then c2 else mergeCheckpointOutputIntoInput c2 (Some (opt_default [] (rb_payload body))))"

definition artifacts_json :: "artifact_out list option \<Rightarrow> json" where
  "artifacts_json outs =
     (case outs of None \<Rightarrow> JUndef | Some xs \<Rightarrow> JArr (map (\<lambda>ao. JObj
        ([(''slot'', JStr (ao_slot ao)), (''path'', JStr (ao_path ao))] @ opt_field ''name'' JStr (ao_name ao)
         @ opt_field ''media_type'' JStr (ao_media_type ao) @ opt_field ''size_bytes'' JNum (ao_size_bytes ao))) xs))"

text \<open>Everything from the first write on.\<close>

definition commit_resolution ::
    "engine_deps \<Rightarrow> caller \<Rightarrow> run_row \<Rightarrow> step_catalog \<Rightarrow> catalog_entry \<Rightarrow> string \<Rightarrow> resolve_body
     \<Rightarrow> catalog_route list \<Rightarrow> nat \<Rightarrow> jobj \<Rightarrow> (refusal + step_status) outcome hub_op" where
  "commit_resolution d cl run catalog entry step_id body routes ts ctx =
     do {
       let failed = isFailRoute routes;
       let status = (if failed then SFailed else SCompleted);
       _ \<leftarrow> studio_do (upsertRunStepMemo ((step_memo_row (cl_run_id cl) step_id status)
         \<lparr> me_completed_at := Some ts, me_idempotency_key := rb_idempotency_key body \<rparr>));
       _ \<leftarrow> effect (StepExecutorCancelled (cl_run_id cl) step_id);
       _ \<leftarrow> effect (StepCredentialsRevoked (cl_run_id cl) step_id);
       _ \<leftarrow> studio_do (persistRunExecContext (cl_run_id cl) ctx);
       let cl' = cl\<lparr> cl_session_id := (case cl_session_id cl of Some s \<Rightarrow> Some s
         | None \<Rightarrow> if rr_session_id run \<noteq> [] then Some (''ses_'' @ rr_session_id run) else None) \<rparr>;
       _ \<leftarrow> append_journal (step_event cl' ''mrmr.step.resolved'' step_id
         [(''branch'', JStr (rb_branch body)), (''payload'', JObj (opt_default [] (rb_payload body))),
          (''artifacts_out'', artifacts_json (rb_artifacts_out body))]);
       if failed then do {
         _ \<leftarrow> (if truthy_str (ce_parent_id entry)
               then studio_do (upsertRunStepMemo (settled_memo (cl_run_id cl) (the (ce_parent_id entry)) SFailed ts None))
               else skip);
         after (fail_run d (cl_run_id cl) (cl_actor_id cl) (cl_token_id cl) (rb_branch body))
           (\<lambda>_. State_Monad.return (Done (Inr SFailed)))
       }
       else after (applyResolvedRoutes d cl' catalog routes ctx step_id (returned_child_of ctx step_id body))
         (\<lambda>_. State_Monad.return (Done (Inr SCompleted)))
     }"

definition resume_problem ::
    "step_catalog \<Rightarrow> catalog_entry \<Rightarrow> step_memo list \<Rightarrow> string \<Rightarrow> string \<Rightarrow> refusal option option" where
  "resume_problem catalog entry memos step_id target =
     (case isCatalogAncestor catalog entry target of
        None \<Rightarrow> None
      | Some False \<Rightarrow> Some (Some \<lparr> re_code = ''RESUME_TARGET_NOT_ANCESTOR'',
          re_message = ''Resume target '' @ quoted target @ '' is not an ancestor of '' @ quoted step_id,
          re_http = 409, re_errors = [] \<rparr>)
      | Some True \<Rightarrow> Some
          (if (case memo_for memos target of None \<Rightarrow> True | Some m \<Rightarrow> me_status m \<noteq> SYielded)
           then Some \<lparr> re_code = ''RESUME_TARGET_NOT_OPEN'',
             re_message = ''Resume target '' @ quoted target @ '' is not an open yielded ancestor'',
             re_http = 409, re_errors = [] \<rparr>
           else None))"

text \<open>The artifacts of a valid resolution are promoted, and what is left are the writes.\<close>

definition promote_and_commit ::
    "engine_deps \<Rightarrow> caller \<Rightarrow> run_row \<Rightarrow> step_catalog \<Rightarrow> catalog_entry \<Rightarrow> catalog_branch \<Rightarrow> string \<Rightarrow> resolve_body
     \<Rightarrow> (refusal + step_status) outcome hub_op" where
  "promote_and_commit d cl run catalog entry branch step_id body =
     do {
       ts \<leftarrow> nowIso;
       let routes = cb_routes branch;
       let commit = (\<lambda>promoted. commit_resolution d cl run catalog entry step_id body routes ts
         (resolved_context cl step_id body (isFailRoute routes) ts promoted (rr_exec_context run)));
       if opt_default [] (rb_artifacts_out body) = [] then commit None
       else do {
         root \<leftarrow> studio_ask (\<lambda>st. resolveSpaceRoot (getSpaceBindings st (bareSpaceId (cl_space_id cl))));
         if \<not> truthy_str root
         then refuse ''SPACE_ROOT_MISSING'' ''artifacts_out requires a linked space root path'' 422
         else (case en_promote d (the root) (cl_run_id cl) step_id (the (rb_artifacts_out body)) (cb_artifact_slots branch) of
             Inl message \<Rightarrow> refuse ''ARTIFACT_PROMOTION_FAILED'' message 400
           | Inr arts \<Rightarrow> commit (Some arts))
       }
     }"

definition resolve_active ::
    "engine_deps \<Rightarrow> caller \<Rightarrow> run_row \<Rightarrow> step_catalog \<Rightarrow> catalog_entry \<Rightarrow> catalog_branch option \<Rightarrow> step_memo list
     \<Rightarrow> string \<Rightarrow> resolve_body \<Rightarrow> (refusal + step_status) outcome hub_op" where
  "resolve_active d cl run catalog entry named memos step_id body =
     (case validateArtifactsOut (rb_artifacts_out body) (map_option cb_artifact_slots named) of
        Some message \<Rightarrow> refuse ''INVALID_ARTIFACTS'' message 400
      | None \<Rightarrow>
        (case named of
           None \<Rightarrow> State_Monad.return (Raised ''Cannot convert undefined or null to object'')
         | Some branch \<Rightarrow>
           (case validateBranchContract (en_ajv d) (contract_of branch)
                   \<lparr> bi_payload = Some (opt_default [] (rb_payload body)),
                     bi_files = Some (files_by_slot (cb_artifact_slots branch) (opt_default [] (rb_artifacts_out body))) \<rparr> of
              Some errors \<Rightarrow> State_Monad.return (Done (Inl \<lparr> re_code = ''CONTRACT_VALIDATION_FAILED'',
                re_message = ''Branch resolve contract validation failed'', re_http = 400, re_errors = errors \<rparr>))
            | None \<Rightarrow>
              (case (if truthy_str (resumeTargetFromRoutes (cb_routes branch))
                     then resume_problem catalog entry memos step_id (the (resumeTargetFromRoutes (cb_routes branch)))
                     else Some None) of
                 None \<Rightarrow> State_Monad.return OutOfFuel
               | Some (Some problem) \<Rightarrow> State_Monad.return (Done (Inl problem))
               | Some None \<Rightarrow> promote_and_commit d cl run catalog entry branch step_id body))))"

text \<open>The answer of a step that was settled under the same idempotency key.\<close>

definition same_key :: "resolve_body \<Rightarrow> step_memo \<Rightarrow> bool" where
  "same_key body m \<longleftrightarrow> truthy_str (rb_idempotency_key body) \<and> me_idempotency_key m = rb_idempotency_key body"

definition resolve_step_memo ::
    "engine_deps \<Rightarrow> caller \<Rightarrow> run_row \<Rightarrow> step_catalog \<Rightarrow> string \<Rightarrow> resolve_body \<Rightarrow> step_memo list
     \<Rightarrow> (refusal + step_status) outcome hub_op" where
  "resolve_step_memo d cl run catalog step_id body memos =
     (case catalogEntryForStep (Some catalog) step_id of
        None \<Rightarrow> refuse ''STEP_NOT_FOUND'' ''Step not in flow catalog'' 404
      | Some entry \<Rightarrow>
        (case branch_named entry (rb_branch body) of
           None \<Rightarrow> refuse ''BRANCH_NOT_FOUND''
             (''Unknown branch '' @ quoted (rb_branch body) @ '' for step '' @ quoted step_id) 400
         | Some named \<Rightarrow>
           (case memo_for memos step_id of
              None \<Rightarrow> refuse ''STEP_NOT_FOUND'' ''Step memo not found'' 404
            | Some m \<Rightarrow>
                if memo_terminal m then
                  (if same_key body m then State_Monad.return (Done (Inr (me_status m)))
                   else refuse ''STEP_TERMINAL''
                     (''Step '' @ quoted step_id @ '' is already '' @ step_status_str (me_status m)) 409)
                else if me_status m \<noteq> SWorking
                then refuse ''STEP_NOT_ACTIVE'' (''Step '' @ quoted step_id @ '' is ''
                  @ quoted (step_status_str (me_status m)) @ '', expected working'') 409
                else resolve_active d cl run catalog entry named memos step_id body)))"

definition resolveFlowStep :: "engine_deps \<Rightarrow> caller \<Rightarrow> string \<Rightarrow> resolve_body \<Rightarrow> (refusal + step_status) outcome hub_op" where
  "resolveFlowStep d cl step_id body =
     do {
       st \<leftarrow> studio_ask (\<lambda>st. st);
       let memos = listRunStepMemos st (cl_run_id cl);
       case getRun st (bare_with ''run_'' (cl_run_id cl)) of
         None \<Rightarrow> refuse ''RUN_NOT_FOUND'' ''Run not found'' 404
       | Some run \<Rightarrow>
         if \<not> truthy_str (rr_flow_id run) then refuse ''RUN_NOT_FOUND'' ''Run not found'' 404
         else if isRunTerminal (rr_lifecycle run) then
           (case find (\<lambda>m. me_step_id m = step_id \<and> same_key body m \<and> memo_terminal m) memos of
              Some m \<Rightarrow> State_Monad.return (Done (Inr (me_status m)))
            | None \<Rightarrow> refuse ''RUN_TERMINAL''
                (''Run is '' @ lifecycle_str (rr_lifecycle run) @ ''; late resolve rejected'') 409)
         else (case (case getFlowIndexEntry st (the (rr_flow_id run)) (rr_space_id run) of
                       None \<Rightarrow> None | Some e \<Rightarrow> fe_catalog e) of
           None \<Rightarrow> refuse ''STEP_CONTRACTS_REQUIRED'' ''Run flow does not use step contracts'' 409
         | Some catalog \<Rightarrow> resolve_step_memo d cl run catalog step_id body memos)
     }"

section \<open>Around the resolution\<close>

text \<open>A shell step whose handler completes on its own; nested children are an error of the configuration.\<close>

definition maybeAutoResolveExecutorStepAfterAction ::
    "engine_deps \<Rightarrow> caller \<Rightarrow> step_catalog \<Rightarrow> bool \<Rightarrow> string \<Rightarrow> jobj \<Rightarrow> bool outcome hub_op" where
  "maybeAutoResolveExecutorStepAfterAction d cl catalog auto step_id res =
     (if \<not> auto then State_Monad.return (Done False)
      else case catalogEntryForStep (Some catalog) step_id of
        None \<Rightarrow> State_Monad.return (Done False)
      | Some entry \<Rightarrow>
          if \<not> js_has (ce_branches entry) ''completed'' then State_Monad.return (Done False)
          else if parentHasNestedChildren catalog step_id then State_Monad.return (Raised ''HANDLER_COMPLETE_AUTO_NESTED'')
          else after (resolveFlowStep d cl step_id \<lparr> rb_branch = ''completed'', rb_payload = Some res,
              rb_artifacts_out = None, rb_idempotency_key = None \<rparr>)
            (\<lambda>r. State_Monad.return (Done (case r of Inl _ \<Rightarrow> False | Inr _ \<Rightarrow> True))))"

definition maybeAdvanceStepContractFlow :: "engine_deps \<Rightarrow> string \<Rightarrow> string \<Rightarrow> string \<Rightarrow> string \<Rightarrow> unit outcome hub_op" where
  "maybeAdvanceStepContractFlow d run_id step_id actor token =
     do {
       st \<leftarrow> studio_ask (\<lambda>st. st);
       case getRun st (bare_with ''run_'' run_id) of
         None \<Rightarrow> State_Monad.return (Done ())
       | Some run \<Rightarrow>
         if \<not> truthy_str (rr_flow_id run) \<or> isRunTerminal (rr_lifecycle run) then State_Monad.return (Done ())
         else (case (case getFlowIndexEntry st (the (rr_flow_id run)) (rr_space_id run) of
                       None \<Rightarrow> None | Some e \<Rightarrow> fe_catalog e) of
           None \<Rightarrow> State_Monad.return (Done ())
         | Some catalog \<Rightarrow>
           (case memo_for (listRunStepMemos st run_id) step_id of
              None \<Rightarrow> State_Monad.return (Done ())
            | Some m \<Rightarrow>
                if me_status m \<noteq> SFailed then State_Monad.return (Done ())
                else (case (case catalogEntryForStep (Some catalog) step_id of
                         None \<Rightarrow> None | Some e \<Rightarrow> js_get (ce_branches e) ''failed'') of
                    None \<Rightarrow> State_Monad.return (Done ())
                  | Some b \<Rightarrow>
                      if \<not> isFailRoute (cb_routes b) then State_Monad.return (Done ())
                      else after (fail_run d run_id actor token (opt_default (''step_failed:'' @ step_id) (me_error_code m)))
                        (\<lambda>_. State_Monad.return (Done ())))))
     }"

definition bootstrapStepContractFlow :: "engine_deps \<Rightarrow> caller \<Rightarrow> bool outcome hub_op" where
  "bootstrapStepContractFlow d cl =
     do {
       st \<leftarrow> studio_ask (\<lambda>st. st);
       case getRun st (bare_with ''run_'' (cl_run_id cl)) of
         None \<Rightarrow> State_Monad.return (Done False)
       | Some run \<Rightarrow>
         if \<not> truthy_str (rr_flow_id run) then State_Monad.return (Done False)
         else (case (case getFlowIndexEntry st (the (rr_flow_id run)) (rr_space_id run) of
                       None \<Rightarrow> None | Some e \<Rightarrow> fe_catalog e) of
           None \<Rightarrow> State_Monad.return (Done False)
         | Some catalog \<Rightarrow>
           (case topLevelCatalogSteps catalog of
              [] \<Rightarrow> State_Monad.return (Done False)
            | first # _ \<Rightarrow>
                if list_ex (\<lambda>m. me_step_id m \<in> set (top_level_ids catalog) \<and> me_status m \<noteq> SPending)
                     (listRunStepMemos st (cl_run_id cl))
                then State_Monad.return (Done False)
                else after (openStepContract d cl (ce_step_id first) first (rr_exec_context run) Opened False)
                  (\<lambda>_. State_Monad.return (Done True))))
     }"

definition stepContractAdvanceComplete :: "step_memo list \<Rightarrow> step_catalog \<Rightarrow> bool" where
  "stepContractAdvanceComplete memos catalog =
     list_all (\<lambda>e. case memo_for memos (ce_step_id e) of None \<Rightarrow> False | Some m \<Rightarrow> me_status m = SCompleted)
       (topLevelCatalogSteps catalog)"

definition planLinearStepContractSteps :: "flow_ir \<Rightarrow> string list" where
  "planLinearStepContractSteps ir = map ir_id (filter (\<lambda>s. ir_kind s = KStepContract) (planLinearSteps ir))"

end
