(* ===== verification/StepProofs.thy ===== *)
theory StepProofs
  imports StepResolve RunProofs
begin

text \<open>
  What the step engine does to the hub. Refused operations change nothing; the step memos change only
  where an operation says so; and a run has at most one open step.
\<close>

named_theorems quiet_intros \<open>operations that change nothing when they refuse\<close>
named_theorems same_intros \<open>operations that leave a part of the studio as it is\<close>

lemma after_result:
  "result (after m f) h = (case result m h of Done v \<Rightarrow> result (f v) (final m h) | Raised e \<Rightarrow> Raised e | OutOfFuel \<Rightarrow> OutOfFuel)"
  by (simp add: after_def result_bind split: outcome.splits) (simp add: result_def)

lemma after_final:
  "final (after m f) h = (case result m h of Done v \<Rightarrow> final (f v) (final m h) | _ \<Rightarrow> final m h)"
  by (simp add: after_def final_bind split: outcome.splits)

lemma result_return [simp]: "result (State_Monad.return x) h = x"
  by (simp add: result_def)

lemma result_skip [simp]: "result skip h = ()"
  by (simp add: result_def)

lemma effect_simps [simp]:
  "hb_studio (final (effect e) h) = hb_studio h" "hb_next_id (final (effect e) h) = hb_next_id h"
  "hb_now (final (effect e) h) = hb_now h"
  by (simp_all add: effect_def)

lemma refuse_simps [simp]:
  "final (refuse c m n) h = h"
  "result (refuse c m n) h = Done (Inl \<lparr> re_code = c, re_message = m, re_http = n, re_errors = [] \<rparr>)"
  by (simp_all add: refuse_def)

section \<open>Refusals\<close>

definition quiet :: "(refusal + 'a) outcome hub_op \<Rightarrow> bool" where
  "quiet m \<longleftrightarrow> (\<forall>h r. result m h = Done (Inl r) \<longrightarrow> final m h = h)"

definition accepts :: "(refusal + 'a) outcome hub_op \<Rightarrow> bool" where
  "accepts m \<longleftrightarrow> (\<forall>h r. result m h \<noteq> Done (Inl r))"

lemma quiet_basic [quiet_intros]:
  "quiet (refuse c msg n)" "quiet (State_Monad.return x)"
  by (auto simp: quiet_def)

lemma quiet_accepts: "accepts m \<Longrightarrow> quiet m"
  by (auto simp: quiet_def accepts_def)

lemma quiet_if [quiet_intros]: "quiet a \<Longrightarrow> quiet b \<Longrightarrow> quiet (if c then a else b)"
  by simp

lemma quiet_option [quiet_intros]: "quiet a \<Longrightarrow> (\<And>x. quiet (f x)) \<Longrightarrow> quiet (case z of None \<Rightarrow> a | Some x \<Rightarrow> f x)"
  by (cases z) auto

lemma quiet_sum [quiet_intros]: "(\<And>x. quiet (f x)) \<Longrightarrow> (\<And>x. quiet (g x)) \<Longrightarrow> quiet (case z of Inl x \<Rightarrow> f x | Inr x \<Rightarrow> g x)"
  by (cases z) auto

lemma quiet_ask [quiet_intros]:
  "(\<And>x. quiet (f x)) \<Longrightarrow> quiet (State_Monad.bind (studio_ask g) f)"
  "(\<And>x. quiet (f' x)) \<Longrightarrow> quiet (State_Monad.bind nowIso f')"
  by (simp_all add: quiet_def final_bind result_bind)

lemma accepts_bind: "(\<And>x. accepts (f x)) \<Longrightarrow> accepts (State_Monad.bind m f)"
  by (simp add: accepts_def result_bind)

lemma accepts_after: "accepts (after m (\<lambda>x. State_Monad.return (Done (Inr (f x)))))"
  by (auto simp: accepts_def after_result split: outcome.splits)

lemma commit_accepts: "accepts (commit_resolution d cl run c e s b rs ts ctx)"
  unfolding commit_resolution_def Let_def
  by (intro accepts_bind) (auto intro: accepts_bind accepts_after)

lemma resolve_quiet: "quiet (resolveFlowStep d cl s b)"
  unfolding resolveFlowStep_def resolve_step_memo_def resolve_active_def promote_and_commit_def Let_def
  by (intro quiet_intros commit_accepts [THEN quiet_accepts])

section \<open>What stays the same\<close>

definition same :: "(studio \<Rightarrow> 'b) \<Rightarrow> 'a hub_op \<Rightarrow> bool" where
  "same F m \<longleftrightarrow> (\<forall>h. F (hb_studio (final m h)) = F (hb_studio h))"

lemma sameD: "same F m \<Longrightarrow> F (hb_studio (final m h)) = F (hb_studio h)"
  by (simp add: same_def)

lemma same_basic [same_intros]:
  "same F (State_Monad.return x)" "same F skip" "same F (studio_ask g)" "same F nowIso" "same F (ulid r)"
  "same F (append_journal c)" "same F (terminateRunExecutors i w)" "same F (effect e)" "same F (refuse c' m' n)"
  by (simp_all add: same_def)

lemma same_bind [same_intros]: "same F m \<Longrightarrow> (\<And>x. same F (f x)) \<Longrightarrow> same F (State_Monad.bind m f)"
  by (simp add: same_def final_bind)

lemma same_after [same_intros]: "same F m \<Longrightarrow> (\<And>x. same F (f x)) \<Longrightarrow> same F (after m f)"
  by (simp add: same_def after_final split: outcome.splits)

lemma same_if [same_intros]: "same F a \<Longrightarrow> same F b \<Longrightarrow> same F (if c then a else b)"
  by simp

lemma same_option [same_intros]: "same F a \<Longrightarrow> (\<And>x. same F (f x)) \<Longrightarrow> same F (case z of None \<Rightarrow> a | Some x \<Rightarrow> f x)"
  by (cases z) auto

lemma same_sum [same_intros]: "(\<And>x. same F (f x)) \<Longrightarrow> (\<And>x. same F (g x)) \<Longrightarrow> same F (case z of Inl x \<Rightarrow> f x | Inr x \<Rightarrow> g x)"
  by (cases z) auto

lemma same_pair [same_intros]: "(\<And>a b. same F (f a b)) \<Longrightarrow> same F (case p of (a, b) \<Rightarrow> f a b)"
  by (cases p) auto

lemma same_let [same_intros]: "same F (f x) \<Longrightarrow> same F (let y = x in f y)"
  by simp

lemma same_for_each [same_intros]: "(\<And>x. same F (f x)) \<Longrightarrow> same F (for_each xs f)"
  by (induction xs) (auto intro: same_intros)

lemma same_studio_do [same_intros]: "(\<And>st. F (g st) = F st) \<Longrightarrow> same F (studio_do g)"
  by (simp add: same_def)

text \<open>The parts the session, run and notification updates do not touch.\<close>

lemma untouched_memos [simp]:
  "sd_memos (updateSessionStatus i s st) = sd_memos st" "sd_memos (insertNotification n st) = sd_memos st"
  "sd_memos (insertSession row st) = sd_memos st" "sd_memos (updateSessionSpacesTouched i ss st) = sd_memos st"
  "sd_memos (updateRunLifecycle i l e st) = sd_memos st" "sd_memos (insertRun r st) = sd_memos st"
  "sd_memos (updateRunExecContext i ctx st) = sd_memos st" "sd_memos (updateRunFlowBinding i f g c st) = sd_memos st"
  "sd_memos (persistRunExecContext i ctx st) = sd_memos st"
  by (simp_all add: updateSessionStatus_def insertNotification_def insertSession_def updateSessionSpacesTouched_def
      updateRunLifecycle_def insertRun_def updateRunExecContext_def updateRunFlowBinding_def persistRunExecContext_def
      Let_def split: option.splits)

lemma service_memos [same_intros]:
  "same sd_memos (refreshSessionStatus i)" "same sd_memos (notify_all_failed deps inp run sp ts)"
  "same sd_memos (failRunWithNotification deps fi)" "same sd_memos (createSession deps cs)"
  "same sd_memos (createRun deps ci)" "same sd_memos (cancelRun cr)"
  unfolding refreshSessionStatus_def notify_all_failed_def notify_failed_def failRunWithNotification_def createSession_def
    createRun_def insert_run_steps_def cancelRun_def Let_def
  by (intro same_intros untouched_memos)+

lemma engine_memos [same_intros]:
  "same sd_memos (fail_run d i a t w)" "same sd_memos (start_session d si e)" "same sd_memos (startFlowRun d si)"
  "same sd_memos (dispatchStepResolverAssignment cl n s r)" "same sd_memos (stored_iterations cl)"
  "same sd_memos (convene_for_step d cl ce s f ctx)" "same sd_memos (advanceParentIfComplete pb p ir sp a t)"
  "same sd_memos (continue_parent live pb p ir sp a t)"
  unfolding fail_run_def start_session_def startFlowRun_def start_admitted_def dispatchStepResolverAssignment_def
    stored_iterations_def convene_for_step_def advanceParentIfComplete_def continue_parent_def Let_def
  by (intro same_intros untouched_memos)+

section \<open>Activating a child\<close>

definition activation ::
    "caller \<Rightarrow> run_row \<Rightarrow> step_memo \<Rightarrow> catalog_entry list \<Rightarrow> catalog_entry \<Rightarrow> string \<Rightarrow> string \<Rightarrow> hub \<Rightarrow> bool \<times> studio" where
  "activation cl run pm ds c k hash h = transitionNestedChild (cl_run_id cl)
     (activated_context (rr_exec_context run) k hash (ce_step_id c))
     (pm\<lparr> me_run_id := cl_run_id cl, me_status := SYielded \<rparr>)
     ((step_memo_row (cl_run_id cl) (ce_step_id c) SWorking)\<lparr> me_started_at := Some (hb_now h) \<rparr>)
     (map ce_step_id ds) (hb_studio h)"

definition fresh_answer :: "run_row \<Rightarrow> catalog_entry \<Rightarrow> child_opened" where
  "fresh_answer run c = \<lparr> co_child_step_id = ce_step_id c,
     co_iteration = add_one (section_get ''_step_iterations'' (rr_exec_context run) (ce_step_id c)), co_deduplicated = False \<rparr>"

lemma activate_moved:
  assumes "activation cl run pm ds c k hash h = (True, st)"
  obtains h1 ctx where "hb_studio h1 = st"
    and "final (activate_child d cl run pm ds c k hash) h = final (openStepContract d cl (ce_step_id c) c ctx Opened True) h1"
    and "result (activate_child d cl run pm ds c k hash) h =
      (case result (openStepContract d cl (ce_step_id c) c ctx Opened True) h1 of
         Done _ \<Rightarrow> Done (Inr (fresh_answer run c)) | Raised e \<Rightarrow> Raised e | OutOfFuel \<Rightarrow> OutOfFuel)"
proof -
  let ?bare = "bare_with ''run_'' (cl_run_id cl)" and ?p = "me_step_id pm"
  let ?j = "append_journal (step_event cl ''mrmr.step.yielded'' ?p
    [(''child_step_id'', JStr (ce_step_id c)),
     (''iteration'', add_one (section_get ''_step_iterations'' (rr_exec_context run) (ce_step_id c))),
     (''idempotency_key'', JStr k)])"
  let ?h1 = "final ?j (final (effect (StepCredentialsRevoked (cl_run_id cl) ?p))
    (final (effect (StepExecutorCancelled (cl_run_id cl) ?p)) (h\<lparr> hb_studio := st \<rparr>)))"
  let ?ctx = "case getRun st ?bare of None \<Rightarrow> rr_exec_context run | Some r \<Rightarrow> rr_exec_context r"
  have st: "hb_studio ?h1 = st" by simp
  show thesis
    by (rule that [OF st, of ?ctx])
       (use assms in \<open>auto simp: activation_def activate_child_def result_bind final_bind Let_def after_result after_final
          fresh_answer_def result_def [of "State _"] final_def [of "State _"] split: outcome.splits\<close>)
qed

lemma activate_refused:
  assumes "activation cl run pm ds c k hash h = (False, st)"
  shows "result (activate_child d cl run pm ds c k hash) h = Done (Inl \<lparr> re_code = ''ACTIVATION_CONFLICT'',
    re_message = ''Parent assignment changed while activating its child'', re_http = 409, re_errors = [] \<rparr>)"
    "final (activate_child d cl run pm ds c k hash) h = h"
proof -
  have "st = hb_studio h" using assms by (auto simp: activation_def transitionNestedChild_def split: option.splits if_splits)
  then show "final (activate_child d cl run pm ds c k hash) h = h"
    using assms by (simp add: activation_def activate_child_def final_bind Let_def
        result_def [of "State _"] final_def [of "State _"])
  show "result (activate_child d cl run pm ds c k hash) h = Done (Inl \<lparr> re_code = ''ACTIVATION_CONFLICT'',
      re_message = ''Parent assignment changed while activating its child'', re_http = 409, re_errors = [] \<rparr>)"
    using assms by (simp add: activation_def activate_child_def result_bind Let_def
        result_def [of "State _"] final_def [of "State _"])
qed

lemma activate_quiet: "quiet (activate_child d cl run pm ds c k hash)"
  unfolding quiet_def
proof (intro allI impI)
  fix h r
  assume r: "result (activate_child d cl run pm ds c k hash) h = Done (Inl r)"
  obtain ok st where moved: "activation cl run pm ds c k hash h = (ok, st)" by fastforce
  show "final (activate_child d cl run pm ds c k hash) h = h"
  proof (cases ok)
    case True
    then show ?thesis
      using moved r by (auto elim!: activate_moved [where d = d] split: outcome.splits)
  next
    case False
    then show ?thesis using moved by (auto intro: activate_refused(2))
  qed
qed

lemma open_child_quiet: "quiet (openChildStep d cl p c k)"
  unfolding openChildStep_def Let_def by (intro quiet_intros activate_quiet)

section \<open>What is left when an operation does not answer at once\<close>

text \<open>Either the hub stays and the answer is an \<open>A\<close>, or the outcome is a \<open>Q\<close>; the rules collect the conditions.\<close>

definition comes_to :: "hub \<Rightarrow> ('a \<Rightarrow> bool) \<Rightarrow> ('a \<times> hub \<Rightarrow> bool) \<Rightarrow> 'a hub_op \<Rightarrow> bool" where
  "comes_to h A Q m \<longleftrightarrow> (\<exists>x. run_state m h = (x, h) \<and> A x) \<or> Q (run_state m h)"

named_theorems comes_intros \<open>one rule per construct\<close>

lemma comes_refuse [comes_intros]:
  "A (Done (Inl \<lparr> re_code = c, re_message = msg, re_http = n, re_errors = [] \<rparr>)) \<Longrightarrow> comes_to h A Q (refuse c msg n)"
  by (simp add: comes_to_def run_state_eq)

lemma comes_return [comes_intros]: "A x \<Longrightarrow> comes_to h A Q (State_Monad.return x)"
  by (simp add: comes_to_def run_state_eq)

lemma comes_if [comes_intros]:
  "(c \<Longrightarrow> comes_to h A Q a) \<Longrightarrow> (\<not> c \<Longrightarrow> comes_to h A Q b) \<Longrightarrow> comes_to h A Q (if c then a else b)"
  by simp

lemma comes_option [comes_intros]:
  "(z = None \<Longrightarrow> comes_to h A Q a) \<Longrightarrow> (\<And>x. z = Some x \<Longrightarrow> comes_to h A Q (f x))
     \<Longrightarrow> comes_to h A Q (case z of None \<Rightarrow> a | Some x \<Rightarrow> f x)"
  by (cases z) auto

lemma comes_sum [comes_intros]:
  "(\<And>x. z = Inl x \<Longrightarrow> comes_to h A Q (f x)) \<Longrightarrow> (\<And>x. z = Inr x \<Longrightarrow> comes_to h A Q (g x))
     \<Longrightarrow> comes_to h A Q (case z of Inl x \<Rightarrow> f x | Inr x \<Rightarrow> g x)"
  by (cases z) auto

lemma comes_ask [comes_intros]:
  "comes_to h A Q (f (g (hb_studio h))) \<Longrightarrow> comes_to h A Q (State_Monad.bind (studio_ask g) f)"
  "comes_to h A Q (f' (hb_now h)) \<Longrightarrow> comes_to h A Q (State_Monad.bind nowIso f')"
  by (simp_all add: comes_to_def run_state_eq result_bind final_bind)

lemma entry_of_catalog: "(case z of None \<Rightarrow> None | Some e \<Rightarrow> f e) = Some c \<Longrightarrow> \<exists>e. z = Some e \<and> f e = Some c"
  by (auto split: option.splits)

text \<open>What \<open>openChildStep\<close> knows when it activates.\<close>

definition may_activate :: "caller \<Rightarrow> string \<Rightarrow> hub \<Rightarrow> run_row \<Rightarrow> flow_index_entry \<Rightarrow> step_catalog \<Rightarrow> step_memo \<Rightarrow> catalog_entry \<Rightarrow> bool" where
  "may_activate cl p h run e catalog pm ch \<longleftrightarrow>
     getRun (hb_studio h) (bare_with ''run_'' (cl_run_id cl)) = Some run \<and> truthy_str (rr_flow_id run)
     \<and> getFlowIndexEntry (hb_studio h) (the (rr_flow_id run)) (rr_space_id run) = Some e \<and> fe_catalog e = Some catalog
     \<and> \<not> isRunTerminal (rr_lifecycle run) \<and> ch \<in> set (nestedCatalogChildren catalog p)
     \<and> memo_for (listRunStepMemos (hb_studio h) (cl_run_id cl)) p = Some pm \<and> me_status pm = SWorking"

definition answered_before :: "engine_deps \<Rightarrow> caller \<Rightarrow> string \<Rightarrow> string \<Rightarrow> string \<Rightarrow> hub \<Rightarrow> refusal + child_opened \<Rightarrow> bool" where
  "answered_before d cl p c k h x \<longleftrightarrow>
     (\<exists>run. getRun (hb_studio h) (bare_with ''run_'' (cl_run_id cl)) = Some run \<and> truthy_str (rr_flow_id run)
       \<and> truthy (section_get ''_nested_open_requests'' (rr_exec_context run) k)
       \<and> x = prior_answer (section_get ''_nested_open_requests'' (rr_exec_context run) k) (en_request_digest d p c))"

lemma open_child_cases:
  obtains (refused) r where "run_state (openChildStep d cl p c k) h = (Done (Inl r), h)"
  | (before) x where "run_state (openChildStep d cl p c k) h = (Done x, h)" "answered_before d cl p c k h x"
  | (activates) run e catalog pm ch where "may_activate cl p h run e catalog pm ch" "ce_step_id ch = c"
      "run_state (openChildStep d cl p c k) h =
        run_state (activate_child d cl run pm (nestedCatalogChildren catalog p) ch k (en_request_digest d p c)) h"
proof -
  let ?A = "\<lambda>x. (\<exists>r. x = Done (Inl r)) \<or> (\<exists>y. x = Done y \<and> answered_before d cl p c k h y)"
  let ?Q = "\<lambda>r. \<exists>run e catalog pm ch. may_activate cl p h run e catalog pm ch \<and> ce_step_id ch = c
      \<and> r = run_state (activate_child d cl run pm (nestedCatalogChildren catalog p) ch k (en_request_digest d p c)) h"
  have "comes_to h ?A ?Q (openChildStep d cl p c k)"
    unfolding openChildStep_def Let_def
  proof ((intro comes_intros; (simp; fail)?), goal_cases)
    case (1 run)
    then show ?case by (auto simp: answered_before_def)
  next
    case (2 run catalog child pm)
    obtain e where "getFlowIndexEntry (hb_studio h) (the (rr_flow_id run)) (rr_space_id run) = Some e"
        "fe_catalog e = Some catalog" using entry_of_catalog [OF 2(5)] by blast
    moreover have "ce_step_id child = c" "child \<in> set (nestedCatalogChildren catalog p)"
      using 2(7) by (auto simp: find_Some_iff)
    ultimately have "may_activate cl p h run e catalog pm child" using 2 by (simp add: may_activate_def)
    then show ?case unfolding comes_to_def using \<open>ce_step_id child = c\<close> by blast
  qed
  then show thesis using that unfolding comes_to_def by blast
qed

section \<open>Asking twice\<close>

lemma dispatch_same [same_intros]: "same F (dispatchStepResolverAssignment cl n s r)"
  unfolding dispatchStepResolverAssignment_def Let_def by (intro same_intros)

lemma convene_same [same_intros]: "same F (convene_for_step d cl ce s f ctx)"
  unfolding convene_for_step_def Let_def by (intro same_intros)

lemma open_persisted_same:
  assumes "\<And>i l e st. F (updateRunLifecycle i l e st) = F st"
  shows "same F (openStepContract d cl s c ctx r True)"
  unfolding openStepContract_def stored_iterations_def Let_def if_not_P not_True_eq_False if_False if_True
  by (intro same_intros assms)

definition run_memory :: "string \<Rightarrow> studio \<Rightarrow> (jobj \<times> string option) option" where
  "run_memory i st = map_option (\<lambda>r. (rr_exec_context r, rr_flow_id r)) (getRun st i)"

lemma lifecycle_memory: "run_memory i (updateRunLifecycle j l e st) = run_memory i st"
  by (auto simp: run_memory_def getRun_def updateRunLifecycle_def map_at_def split: option.splits)

lemma activated_request:
  "section_get ''_nested_open_requests'' (activated_context ctx k hash child) k =
     request_record hash child (add_one (section_get ''_step_iterations'' ctx child))"
  by (simp add: activated_context_def Let_def section_get_other ctx_section.get_put)

lemma activate_recorded:
  assumes run: "getRun (hb_studio h) bare = Some run" "bare = bare_with ''run_'' (cl_run_id cl)" "bareRunId bare = bare"
    and ok: "result (activate_child d cl run pm ds c k hash) h = Done (Inr co)"
  shows "co = fresh_answer run c"
    "run_memory bare (hb_studio (final (activate_child d cl run pm ds c k hash) h)) =
       Some (activated_context (rr_exec_context run) k hash (ce_step_id c), rr_flow_id run)"
proof -
  obtain moved st where t: "activation cl run pm ds c k hash h = (moved, st)" by fastforce
  have "moved"
  proof (rule ccontr)
    assume "\<not> moved"
    then show False using t ok activate_refused(1) [of cl run pm ds c k hash h st d] by simp
  qed
  then have t: "activation cl run pm ds c k hash h = (True, st)" using t by simp
  obtain h1 ctx where h1: "hb_studio h1 = st"
    and fin: "final (activate_child d cl run pm ds c k hash) h = final (openStepContract d cl (ce_step_id c) c ctx Opened True) h1"
    and res: "result (activate_child d cl run pm ds c k hash) h =
      (case result (openStepContract d cl (ce_step_id c) c ctx Opened True) h1 of
         Done _ \<Rightarrow> Done (Inr (fresh_answer run c)) | Raised e \<Rightarrow> Raised e | OutOfFuel \<Rightarrow> OutOfFuel)"
    using activate_moved [OF t] by blast
  show "co = fresh_answer run c" using ok res by (auto split: outcome.splits)
  have "run_memory bare st = Some (activated_context (rr_exec_context run) k hash (ce_step_id c), rr_flow_id run)"
    using t run by (auto simp: activation_def transitionNestedChild_def run_memory_def getRun_def split: option.splits if_splits)
  then show "run_memory bare (hb_studio (final (activate_child d cl run pm ds c k hash) h)) =
       Some (activated_context (rr_exec_context run) k hash (ce_step_id c), rr_flow_id run)"
    unfolding fin using sameD [OF open_persisted_same, of "run_memory bare"] lifecycle_memory h1 by metis
qed

text \<open>An answer of the memory of a run is all a repeated request reads.\<close>

lemma open_child_recorded:
  assumes "run_memory (bare_with ''run_'' (cl_run_id cl)) (hb_studio h) = Some (ctx, fl)" and "truthy_str fl"
    and "truthy (section_get ''_nested_open_requests'' ctx k)"
  shows "run_state (openChildStep d cl p c k) h =
    (Done (prior_answer (section_get ''_nested_open_requests'' ctx k) (en_request_digest d p c)), h)"
  using assms unfolding run_memory_def
  by (auto simp: openChildStep_def run_state_eq result_bind final_bind Let_def)

lemma open_child_twice:
  assumes plain: "bareRunId (bare_with ''run_'' (cl_run_id cl)) = bare_with ''run_'' (cl_run_id cl)"
    and answered: "result (openChildStep d cl p c k) h = Done (Inr co)"
  shows "run_state (openChildStep d cl p c k) (final (openChildStep d cl p c k) h) =
    (Done (Inr (co\<lparr> co_deduplicated := True \<rparr>)), final (openChildStep d cl p c k) h)"
proof -
  let ?bare = "bare_with ''run_'' (cl_run_id cl)" and ?hash = "en_request_digest d p c"
  show ?thesis
  proof (cases rule: open_child_cases [of d cl p c k h])
    case (refused r)
    then show ?thesis using answered by (simp add: run_state_eq)
  next
    case (before x)
    then have "Inr co = x" using answered by (simp add: run_state_eq)
    then show ?thesis using before by (auto simp: answered_before_def prior_answer_def run_state_eq split: if_splits)
  next
    case (activates run e catalog pm ch)
    let ?act = "activate_child d cl run pm (nestedCatalogChildren catalog p) ch k ?hash"
    let ?ctx = "activated_context (rr_exec_context run) k ?hash c"
    have run: "getRun (hb_studio h) ?bare = Some run" "truthy_str (rr_flow_id run)"
      using activates(1) by (simp_all add: may_activate_def)
    have same: "result (openChildStep d cl p c k) h = result ?act h" "final (openChildStep d cl p c k) h = final ?act h"
      using activates(3) by (simp_all add: run_state_eq)
    have rec: "co = fresh_answer run ch" "run_memory ?bare (hb_studio (final ?act h)) = Some (?ctx, rr_flow_id run)"
      using activate_recorded [OF run(1) refl plain] answered same activates(2) by simp_all
    have "truthy (section_get ''_nested_open_requests'' ?ctx k)"
      by (simp add: activated_request request_record_def)
    from open_child_recorded [OF rec(2) run(2) this] show ?thesis
      by (simp add: same activated_request prior_answer_def request_record_def opt_member_def rec(1) fresh_answer_def activates(2)
          flip: prop_of_def)
  qed
qed

end
