(* ===== verification/OpenSteps.thy ===== *)
theory OpenSteps
  imports StepProofs HubSteps
begin

text \<open>
  The open steps of a run. The operations of the step engine are steps of one hub, and along them a run
  has at most one working step: opening a child takes the place of its parent, a resolution ends the
  step before it opens or resumes another, and settling a parent flow opens nothing. The premises say
  what callers provide: run ids are \<open>run_\<close> and the 26 characters of a ULID, and the routes of a catalog
  open steps of that catalog.
\<close>

named_theorems adds_intros \<open>operations that open no step outside a given set\<close>

section \<open>Well-formed stores\<close>

definition run_ref :: "string \<Rightarrow> bool" where
  "run_ref i \<longleftrightarrow> length i = 30 \<and> starts_with i ''run_''"

definition memo_table_ok :: "(string, step_memo) jsmap \<Rightarrow> bool" where
  "memo_table_ok M \<longleftrightarrow> js_ok M \<and>
     (\<forall>k m. js_get M k = Some m \<longrightarrow> k = memo_key (me_run_id m) (me_step_id m) \<and> run_ref (me_run_id m))"

definition parent_ok :: "jobj \<Rightarrow> bool" where
  "parent_ok ctx \<longleftrightarrow> (case prop_of ctx ''_parent_run_id'' of JStr p \<Rightarrow> run_ref p | _ \<Rightarrow> True)"

definition opens_inside :: "step_catalog \<Rightarrow> bool" where
  "opens_inside c \<longleftrightarrow> list_all (\<lambda>e. list_all (\<lambda>b.
     (case openTargetFromRoutes (cb_routes b) of None \<Rightarrow> True | Some t \<Rightarrow> catalogEntryForStep (Some c) t \<noteq> None))
       (js_values (ce_branches e))) (ct_entries c)"

definition closed_entry :: "flow_index_entry \<Rightarrow> bool" where
  "closed_entry e \<longleftrightarrow> (case fe_catalog e of None \<Rightarrow> True | Some c \<Rightarrow> opens_inside c)"

definition closed_index :: "studio \<Rightarrow> bool" where
  "closed_index st \<longleftrightarrow> list_all closed_entry (js_values (sd_flow_index st))"

text \<open>A nested step has a longer id than its parent, as the qualified ids of the compiler do.\<close>

definition rooted :: "step_catalog \<Rightarrow> bool" where
  "rooted c \<longleftrightarrow> list_all (\<lambda>e. case ce_parent_id e of None \<Rightarrow> True | Some p \<Rightarrow> length p < length (ce_step_id e)) (ct_entries c)"

definition rooted_entry :: "flow_index_entry \<Rightarrow> bool" where
  "rooted_entry e \<longleftrightarrow> (case fe_catalog e of None \<Rightarrow> True | Some c \<Rightarrow> rooted c)"

definition engine_ok :: "studio \<Rightarrow> bool" where
  "engine_ok st \<longleftrightarrow> memo_table_ok (sd_memos st)
     \<and> (\<forall>i r. js_get (sd_runs st) i = Some r \<longrightarrow> parent_ok (rr_exec_context r))
     \<and> list_all rooted_entry (js_values (sd_flow_index st))"

text \<open>All of it that the invariant reads.\<close>

definition view :: "studio \<Rightarrow> (string, step_memo) jsmap \<times> (string \<Rightarrow> jobj option) \<times> (string, flow_index_entry) jsmap" where
  "view st = (sd_memos st, \<lambda>i. map_option rr_exec_context (js_get (sd_runs st) i), sd_flow_index st)"

lemma view_memos: "view a = view b \<Longrightarrow> sd_memos a = sd_memos b"
  by (simp add: view_def)

lemma view_ok:
  assumes "view a = view b" and "engine_ok a"
  shows "engine_ok b"
proof -
  have ctx: "map_option rr_exec_context (js_get (sd_runs a) i) = map_option rr_exec_context (js_get (sd_runs b) i)" for i
    using assms(1) by (auto simp: view_def dest: fun_cong)
  have "parent_ok (rr_exec_context r)" if r: "js_get (sd_runs b) i = Some r" for i r
  proof -
    obtain r' where "js_get (sd_runs a) i = Some r'" "rr_exec_context r' = rr_exec_context r"
      using ctx [of i] r by auto
    then show ?thesis using assms(2) unfolding engine_ok_def by metis
  qed
  then show ?thesis using assms by (simp add: engine_ok_def view_def)
qed

lemma view_updates [simp]:
  "view (updateSessionStatus i s st) = view st" "view (insertNotification n st) = view st"
  "view (insertSession row st) = view st" "view (updateSessionSpacesTouched i ss st) = view st"
  "view (updateRunLifecycle i l e st) = view st"
  by (auto simp: view_def updateSessionStatus_def insertNotification_def insertSession_def updateSessionSpacesTouched_def
      updateRunLifecycle_def map_at_def split: option.splits)

lemma service_view [same_intros]:
  "same view (refreshSessionStatus i)" "same view (notify_all_failed deps inp run sp ts)"
  "same view (failRunWithNotification deps fi)" "same view (createSession deps cs)" "same view (cancelRun cr)"
  unfolding refreshSessionStatus_def notify_all_failed_def notify_failed_def failRunWithNotification_def createSession_def
    cancelRun_def Let_def
  by (intro same_intros view_updates)+

lemma engine_view [same_intros]:
  "same view (fail_run d i a t w)" "same view (start_session d si e)"
  "same view (advanceParentIfComplete pb p ir sp a t)" "same view (continue_parent live pb p ir sp a t)"
  unfolding fail_run_def start_session_def advanceParentIfComplete_def continue_parent_def Let_def
  by (intro same_intros view_updates)+

section \<open>Run ids and memo keys\<close>

lemma run_refE:
  assumes "run_ref i" obtains b where "i = ''run_'' @ b" and "length b = 26"
proof (rule that)
  show "i = ''run_'' @ drop 4 i"
    using assms starts_with_split [of i "''run_''"] by (simp add: run_ref_def eval_nat_numeral del: append_Cons append.simps)
  show "length (drop 4 i) = 26" using assms by (simp add: run_ref_def)
qed

lemma bare_prefixed [simp]: "bare_with ''run_'' (CHR ''r'' # CHR ''u'' # CHR ''n'' # CHR ''_'' # b) = b"
  by (simp add: bare_with_def starts_with_def)

lemma memo_key_inject: "run_ref r \<Longrightarrow> run_ref r' \<Longrightarrow> memo_key r s = memo_key r' s' \<longleftrightarrow> r = r' \<and> s = s'"
  by (elim run_refE) (simp add: memo_key_def)

lemma prefixed_ref [simp]: "length b = 26 \<Longrightarrow> run_ref (CHR ''r'' # CHR ''u'' # CHR ''n'' # CHR ''_'' # b)"
  by (simp add: run_ref_def starts_with_def)

lemma listed_memo:
  assumes "memo_table_ok M" and "run_ref r" and "sd_memos st = M"
  shows "memo \<in> set (listRunStepMemos st r) \<longleftrightarrow> me_run_id memo = r \<and> js_get M (memo_key r (me_step_id memo)) = Some memo"
proof -
  obtain b where b: "r = ''run_'' @ b" "length b = 26" using assms(2) by (rule run_refE)
  have own: "me_run_id x = r" if x: "x \<in> set (js_values M)" and e: "ends_with (me_run_id x) b" for x
  proof -
    obtain k where "js_get M k = Some x" using x assms(1) js_values_iff [of M x] unfolding memo_table_ok_def by blast
    then have "run_ref (me_run_id x)" using assms(1) unfolding memo_table_ok_def by blast
    then obtain c where c: "me_run_id x = ''run_'' @ c" "length c = 26" by (rule run_refE)
    have "take 26 (rev (me_run_id x)) = rev b" using e b(2) unfolding ends_with_def starts_with_def by simp
    then have "rev c = rev b" using c by (simp only: c(1) rev_append take_append length_rev) simp
    then show ?thesis using b c by simp
  qed
  have at: "x \<in> set (js_values M) \<longleftrightarrow> js_get M (memo_key (me_run_id x) (me_step_id x)) = Some x" for x
    using assms(1) js_values_iff [of M x] unfolding memo_table_ok_def by metis
  have "bare_with ''run_'' r = b" using b(1) by simp
  then have "memo \<in> set (listRunStepMemos st r) \<longleftrightarrow>
      memo \<in> set (js_values M) \<and> (me_run_id memo = r \<or> ends_with (me_run_id memo) b)"
    using assms(3) b(1) by (simp only: listRunStepMemos_def Let_def set_filter mem_Collect_eq)
  then show ?thesis using own [of memo] at [of memo] by metis
qed

lemma listed_step:
  assumes "memo_table_ok (sd_memos st)" and "run_ref r" and "memo_for (listRunStepMemos st r) s = Some memo"
  shows "me_run_id memo = r" "me_step_id memo = s" "js_get (sd_memos st) (memo_key r s) = Some memo"
proof -
  have "memo \<in> set (listRunStepMemos st r)" "me_step_id memo = s"
    using assms(3) by (auto simp: memo_for_def find_Some_iff)
  then show "me_run_id memo = r" "me_step_id memo = s" "js_get (sd_memos st) (memo_key r s) = Some memo"
    using listed_memo [OF assms(1,2) refl] by auto
qed

section \<open>Operations and the steps they open\<close>

definition open_steps :: "string \<Rightarrow> studio \<Rightarrow> string set" where
  "open_steps r st = {s. memo_working st r s}"

definition adds :: "string \<Rightarrow> string set \<Rightarrow> 'a hub_op \<Rightarrow> bool" where
  "adds r X m \<longleftrightarrow> (\<forall>h. engine_ok (hb_studio h) \<longrightarrow> engine_ok (hb_studio (final m h))
     \<and> sd_flow_index (hb_studio (final m h)) = sd_flow_index (hb_studio h)
     \<and> open_steps r (hb_studio (final m h)) \<subseteq> open_steps r (hb_studio h) \<union> X)"

lemma open_steps_view: "sd_memos a = sd_memos b \<Longrightarrow> open_steps r a = open_steps r b"
  by (simp add: open_steps_def memo_working_def)

lemma adds_same:
  assumes "same view m"
  shows "adds r X m"
  unfolding adds_def
proof (intro allI impI)
  fix h :: hub
  assume ok: "engine_ok (hb_studio h)"
  have v: "view (hb_studio h) = view (hb_studio (final m h))" using assms by (simp add: same_def)
  then show "engine_ok (hb_studio (final m h)) \<and> sd_flow_index (hb_studio (final m h)) = sd_flow_index (hb_studio h)
      \<and> open_steps r (hb_studio (final m h)) \<subseteq> open_steps r (hb_studio h) \<union> X"
    using view_ok [OF v ok] open_steps_view [OF view_memos [OF v]] by (simp add: view_def)
qed

text \<open>What follows may use the answer, and that the store it came from was well formed.\<close>

lemma adds_then:
  assumes "adds r X m" and "engine_ok (hb_studio h)" and "adds r X m'"
  shows "engine_ok (hb_studio (final m' (final m h)))
    \<and> sd_flow_index (hb_studio (final m' (final m h))) = sd_flow_index (hb_studio h)
    \<and> open_steps r (hb_studio (final m' (final m h))) \<subseteq> open_steps r (hb_studio h) \<union> X"
proof -
  have one: "engine_ok (hb_studio (final m h)) \<and> sd_flow_index (hb_studio (final m h)) = sd_flow_index (hb_studio h)
      \<and> open_steps r (hb_studio (final m h)) \<subseteq> open_steps r (hb_studio h) \<union> X"
    using assms(1,2) by (simp add: adds_def)
  then show ?thesis using assms(3) [unfolded adds_def, rule_format, of "final m h"] by auto
qed

lemma adds_bind [adds_intros]:
  assumes "adds r X m" and "\<And>h. engine_ok (hb_studio h) \<Longrightarrow> adds r X (f (result m h))"
  shows "adds r X (State_Monad.bind m f)"
  using adds_then [OF assms(1) _ assms(2)] unfolding adds_def final_bind by simp

lemma adds_after [adds_intros]:
  assumes "adds r X m" and "\<And>x. adds r X (f x)"
  shows "adds r X (after m f)"
  unfolding adds_def [of r X "after m f"]
proof (intro allI impI)
  fix h :: hub
  assume ok: "engine_ok (hb_studio h)"
  show "engine_ok (hb_studio (final (after m f) h)) \<and> sd_flow_index (hb_studio (final (after m f) h)) = sd_flow_index (hb_studio h)
    \<and> open_steps r (hb_studio (final (after m f) h)) \<subseteq> open_steps r (hb_studio h) \<union> X"
    using adds_then [OF assms(1) ok assms(2)] assms(1) ok
    by (cases "result m h") (simp_all add: after_final adds_def)
qed

lemma adds_if [adds_intros]: "(c \<Longrightarrow> adds r X a) \<Longrightarrow> (\<not> c \<Longrightarrow> adds r X b) \<Longrightarrow> adds r X (if c then a else b)"
  by simp

lemma adds_option [adds_intros]:
  "(z = None \<Longrightarrow> adds r X a) \<Longrightarrow> (\<And>x. z = Some x \<Longrightarrow> adds r X (f x)) \<Longrightarrow> adds r X (case z of None \<Rightarrow> a | Some x \<Rightarrow> f x)"
  by (cases z) auto

lemma adds_let [adds_intros]: "adds r X (f x) \<Longrightarrow> adds r X (let y = x in f y)"
  by simp

lemma adds_for_each [adds_intros]: "(\<And>x. adds r X (f x)) \<Longrightarrow> adds r X (for_each xs f)"
  by (induction xs) (auto intro: adds_intros adds_same same_intros)

lemma adds_mono: "adds r X m \<Longrightarrow> X \<subseteq> Y \<Longrightarrow> adds r Y m"
  unfolding adds_def by blast

lemma adds_memo [adds_intros]:
  assumes "run_ref (me_run_id memo)" and "run_ref r"
    and "me_status memo = SWorking \<Longrightarrow> me_run_id memo = r \<Longrightarrow> me_step_id memo \<in> X"
  shows "adds r X (studio_do (upsertRunStepMemo memo))"
  unfolding adds_def
proof (intro allI impI)
  fix h :: hub
  assume "engine_ok (hb_studio h)"
  then show "engine_ok (hb_studio (final (studio_do (upsertRunStepMemo memo)) h))
    \<and> sd_flow_index (hb_studio (final (studio_do (upsertRunStepMemo memo)) h)) = sd_flow_index (hb_studio h)
    \<and> open_steps r (hb_studio (final (studio_do (upsertRunStepMemo memo)) h)) \<subseteq> open_steps r (hb_studio h) \<union> X"
    using assms memo_key_inject [OF assms(2,1)]
    by (auto simp: engine_ok_def memo_table_ok_def upsertRunStepMemo_def open_steps_def memo_working_def split: option.splits if_splits)
qed

lemma adds_persist [adds_intros]:
  assumes "parent_ok ctx"
  shows "adds r X (studio_do (persistRunExecContext i ctx))"
  unfolding adds_def
proof (intro allI impI)
  fix h :: hub
  let ?st = "hb_studio h" and ?st' = "persistRunExecContext i ctx (hb_studio h)"
  assume ok: "engine_ok ?st"
  have "sd_memos ?st' = sd_memos ?st" "sd_flow_index ?st' = sd_flow_index ?st"
    by (simp_all add: persistRunExecContext_def updateRunFlowBinding_def updateRunExecContext_def Let_def split: option.splits)
  moreover have "parent_ok (rr_exec_context run)" if "js_get (sd_runs ?st') j = Some run" for j run
    using that ok assms
    by (auto simp: persistRunExecContext_def updateRunFlowBinding_def updateRunExecContext_def map_at_def engine_ok_def
        Let_def getRun_def opt_default_def split: option.splits if_splits)
  ultimately show "engine_ok (hb_studio (final (studio_do (persistRunExecContext i ctx)) h))
    \<and> sd_flow_index (hb_studio (final (studio_do (persistRunExecContext i ctx)) h)) = sd_flow_index ?st
    \<and> open_steps r (hb_studio (final (studio_do (persistRunExecContext i ctx)) h)) \<subseteq> open_steps r ?st \<union> X"
    using ok by (simp add: engine_ok_def open_steps_def memo_working_def)
qed

lemma ok_run_parent: "engine_ok st \<Longrightarrow> getRun st i = Some run \<Longrightarrow> parent_ok (rr_exec_context run)"
  by (simp add: engine_ok_def getRun_def)

section \<open>Contexts keep their parent\<close>

lemma parent_ok_set [simp]: "k \<noteq> ''_parent_run_id'' \<Longrightarrow> parent_ok (js_set k v ctx) = parent_ok ctx"
  by (simp add: parent_ok_def)

lemma parent_ok_put [simp]: "k \<noteq> ''_parent_run_id'' \<Longrightarrow> parent_ok (section_put k s v ctx) = parent_ok ctx"
  by (simp add: section_put_def)

lemma parent_ok_contexts [simp]:
  "parent_ok (opened_context base ctx its s reason) = parent_ok base"
  "parent_ok (activated_context ctx key hash child) = parent_ok ctx"
  "parent_ok (resumed_context ctx target rc) = parent_ok ctx"
  "parent_ok (mergeStepOutputIntoExecContext ctx s status output at) = parent_ok ctx"
  "parent_ok (mergeArtifactsIntoExecContext ctx s arts) = parent_ok ctx"
  "parent_ok (mergeCheckpointOutputIntoInput ctx out) = parent_ok ctx"
  by (simp_all add: opened_context_def activated_context_def resumed_context_def mergeStepOutputIntoExecContext_def
      mergeArtifactsIntoExecContext_def mergeCheckpointOutputIntoInput_def Let_def split: option.splits)

lemma parent_ok_resolved [simp]: "parent_ok (resolved_context cl s b failed ts arts ctx) = parent_ok ctx"
  by (simp add: resolved_context_def Let_def split: option.splits)

section \<open>The operations of the engine\<close>

lemma memo_fields [simp]:
  "me_run_id (settled_memo r s status ts err) = r" "me_step_id (settled_memo r s status ts err) = s"
  "me_status (settled_memo r s status ts err) = status" "me_run_id (step_memo_row r s status) = r"
  "me_step_id (step_memo_row r s status) = s" "me_status (step_memo_row r s status) = status"
  by (simp_all add: settled_memo_def step_memo_row_def)

lemma adds_quiet [adds_intros]:
  "adds r X (State_Monad.return x)" "adds r X skip" "adds r X (studio_ask g)" "adds r X nowIso"
  "adds r X (append_journal c)" "adds r X (terminateRunExecutors i w)" "adds r X (effect e)" "adds r X (refuse c' m' n)"
  "adds r X (refreshSessionStatus i)" "adds r X (fail_run d i a t w)" "adds r X (cancelRun cr)"
  "adds r X (continue_parent live pb p ir sp a t)" "adds r X (dispatchStepResolverAssignment cl fn s reason)"
  "adds r X (convene_for_step d cl ce s facet ctx)"
  by (intro adds_same same_intros)+

lemma adds_lifecycle [adds_intros]: "adds r X (studio_do (updateRunLifecycle i l e))"
  by (intro adds_same same_intros) simp

lemma adds_settle [adds_intros]:
  assumes "run_ref r" and "length pb = 26" and rec: "\<And>p l. parent_ok (rr_exec_context p) \<Longrightarrow> adds r X (recur p l)"
  shows "adds r X (settle_parent live recur d a t child l pb s parent ir sf)"
  unfolding settle_parent_def Let_def
  by (intro adds_intros rec) (use assms(1,2) ok_run_parent in \<open>auto split: if_splits\<close>)

lemma adds_parents [adds_intros]:
  assumes "run_ref r"
  shows "parent_ok (rr_exec_context child) \<Longrightarrow> adds r X (complete_parents n live d a t child l)"
proof (induction n arbitrary: child l)
  case 0
  show ?case by (auto intro: adds_intros)
next
  case (Suc n)
  show ?case
  proof (cases "prop_of (rr_exec_context child) ''_parent_run_id''")
    case (JStr p)
    then have "run_ref p" using Suc.prems by (simp add: parent_ok_def)
    then obtain b where b: "p = ''run_'' @ b" "length b = 26" by (rule run_refE)
    have bare: "bare_run_or_session p = b" using b by (simp add: bare_run_or_session_def starts_with_def)
    show ?thesis
    proof (cases "prop_of (rr_exec_context child) ''_parent_step_id''")
      case step: (JStr s)
      show ?thesis
        unfolding complete_parents.simps parent_body_def JStr step bare Let_def prod.case json.case
        by (intro adds_intros) (use assms b(2) in \<open>auto split: option.splits intro: Suc.IH adds_quiet(1)\<close>)
    qed (auto simp: parent_body_def JStr intro: adds_quiet(1))
  qed (auto simp: parent_body_def intro: adds_quiet(1) split: prod.splits)
qed

lemma adds_complete_parent [adds_intros]:
  "run_ref r \<Longrightarrow> parent_ok (rr_exec_context child) \<Longrightarrow> adds r X (maybeCompleteFlowCallParent live d a t child l)"
  unfolding maybeCompleteFlowCallParent_def by (intro adds_intros)

section \<open>Opening and routing\<close>

lemma parent_ok_context: "engine_ok st \<Longrightarrow> parent_ok (context_of (getRun st i))"
  by (auto simp: context_of_def ok_run_parent parent_ok_def split: option.splits dest: ok_run_parent)

lemma adds_opening [adds_intros]:
  assumes "run_ref r" and "run_ref (cl_run_id cl)" and "cl_run_id cl = r \<Longrightarrow> s \<in> X" and "parent_ok ctx"
  shows "adds r X (persist_opening cl s ctx reason ts)"
  unfolding persist_opening_def Let_def
  by (intro adds_intros) (use assms in \<open>auto split: option.splits intro: ok_run_parent\<close>)

lemma adds_open [adds_intros]:
  assumes "run_ref r" and "run_ref (cl_run_id cl)" and "cl_run_id cl = r \<Longrightarrow> s \<in> X" and "parent_ok ctx"
  shows "adds r X (openStepContract d cl s e ctx reason persisted)"
  unfolding openStepContract_def Let_def stored_iterations_def
  by (intro adds_intros) (use assms in \<open>auto\<close>)

lemma adds_reset [adds_intros]:
  "run_ref r \<Longrightarrow> run_ref i \<Longrightarrow> adds r X (reset_steps i ids)"
  unfolding reset_steps_def by (intro adds_intros) auto

lemma adds_resume [adds_intros]:
  assumes "run_ref r" and "run_ref (cl_run_id cl)" and "cl_run_id cl = r \<Longrightarrow> target \<in> X" and "parent_ok ctx"
  shows "adds r X (resume_ancestor d cl catalog ctx target rc)"
  unfolding resume_ancestor_def prod.case
  by (intro adds_intros) (use assms in \<open>auto\<close>)

lemma adds_complete_run [adds_intros]:
  assumes "run_ref r"
  shows "adds r X (completeRunIfFinished d cl catalog)"
  unfolding completeRunIfFinished_def Let_def
  by (intro adds_intros) (use assms in \<open>auto intro: ok_run_parent\<close>)

text \<open>The step a route opens or resumes, if it does either.\<close>

definition next_step_of :: "catalog_route list \<Rightarrow> string option" where
  "next_step_of routes =
     (if truthy_str (resumeTargetFromRoutes routes) then resumeTargetFromRoutes routes else openTargetFromRoutes routes)"

lemma adds_routes:
  assumes "run_ref r" and "run_ref (cl_run_id cl)" and "cl_run_id cl = r \<Longrightarrow> set_option (next_step_of routes) \<subseteq> X"
    and "parent_ok ctx"
    and "\<And>t. openTargetFromRoutes routes = Some t \<Longrightarrow> catalogEntryForStep (Some catalog) t \<noteq> None"
  shows "adds r X (applyResolvedRoutes d cl catalog routes ctx s rc)"
  unfolding applyResolvedRoutes_def open_next_def
  by (intro adds_intros) (use assms in \<open>auto simp: next_step_of_def truthy_str_def split: option.splits if_splits\<close>)

section \<open>Resolutions and child openings\<close>

text \<open>A memo that ends takes its step out of the open ones, whatever follows adds to the rest.\<close>

lemma ended_then:
  assumes "engine_ok (hb_studio h)" and "run_ref r" and "run_ref (me_run_id memo)" and "me_status memo \<noteq> SWorking"
    and rest: "adds r X (f ())"
  shows "engine_ok (hb_studio (final (State_Monad.bind (studio_do (upsertRunStepMemo memo)) f) h))
      \<and> sd_flow_index (hb_studio (final (State_Monad.bind (studio_do (upsertRunStepMemo memo)) f) h)) = sd_flow_index (hb_studio h)"
    "open_steps r (hb_studio (final (State_Monad.bind (studio_do (upsertRunStepMemo memo)) f) h))
       \<subseteq> (open_steps r (hb_studio h) - (if me_run_id memo = r then {me_step_id memo} else {})) \<union> X"
proof -
  let ?h = "final (studio_do (upsertRunStepMemo memo)) h"
  have ok: "engine_ok (hb_studio ?h) \<and> sd_flow_index (hb_studio ?h) = sd_flow_index (hb_studio h)"
    using adds_memo [of memo r "{}"] assms(1-4) unfolding adds_def by blast
  have "open_steps r (hb_studio ?h)
      \<subseteq> open_steps r (hb_studio h) - (if me_run_id memo = r then {me_step_id memo} else {})"
    using memo_key_inject [OF assms(2,3)] assms(4)
    by (auto simp: upsertRunStepMemo_def open_steps_def memo_working_def split: option.splits if_splits)
  moreover have "engine_ok (hb_studio (final (f ()) ?h)) \<and> sd_flow_index (hb_studio (final (f ()) ?h)) = sd_flow_index (hb_studio h)"
      "open_steps r (hb_studio (final (f ()) ?h)) \<subseteq> open_steps r (hb_studio ?h) \<union> X"
    using rest [unfolded adds_def, rule_format, of ?h] ok by simp_all
  moreover have "final (State_Monad.bind (studio_do (upsertRunStepMemo memo)) f) h = final (f ()) ?h"
    by (simp add: final_bind)
  ultimately show "open_steps r (hb_studio (final (State_Monad.bind (studio_do (upsertRunStepMemo memo)) f) h))
       \<subseteq> (open_steps r (hb_studio h) - (if me_run_id memo = r then {me_step_id memo} else {})) \<union> X"
    "engine_ok (hb_studio (final (State_Monad.bind (studio_do (upsertRunStepMemo memo)) f) h))
      \<and> sd_flow_index (hb_studio (final (State_Monad.bind (studio_do (upsertRunStepMemo memo)) f) h)) = sd_flow_index (hb_studio h)"
    by (simp_all only:) blast
qed

definition own :: "string \<Rightarrow> caller \<Rightarrow> 'a set \<Rightarrow> 'a set" where
  "own r cl X = (if cl_run_id cl = r then X else {})"

lemma commit_opens:
  assumes "engine_ok (hb_studio h)" and "run_ref r" and "run_ref (cl_run_id cl)" and "parent_ok ctx"
    and "\<And>t. openTargetFromRoutes routes = Some t \<Longrightarrow> catalogEntryForStep (Some catalog) t \<noteq> None"
  shows "engine_ok (hb_studio (final (commit_resolution d cl run catalog e s body routes ts ctx) h))
      \<and> sd_flow_index (hb_studio (final (commit_resolution d cl run catalog e s body routes ts ctx) h)) = sd_flow_index (hb_studio h)"
    "open_steps r (hb_studio (final (commit_resolution d cl run catalog e s body routes ts ctx) h))
       \<subseteq> (open_steps r (hb_studio h) - own r cl {s}) \<union> own r cl (set_option (next_step_of routes))"
proof -
  let ?memo = "(step_memo_row (cl_run_id cl) s (if isFailRoute routes then SFailed else SCompleted))
    \<lparr> me_completed_at := Some ts, me_idempotency_key := rb_idempotency_key body \<rparr>"
  let ?X = "own r cl (set_option (next_step_of routes))"
  have "\<exists>f. commit_resolution d cl run catalog e s body routes ts ctx
      = State_Monad.bind (studio_do (upsertRunStepMemo ?memo)) f \<and> adds r ?X (f ())"
    unfolding commit_resolution_def Let_def
    by (rule exI, rule conjI, rule refl, intro adds_intros adds_routes)
      (use assms in \<open>auto simp: own_def\<close>)
  then obtain f where f: "commit_resolution d cl run catalog e s body routes ts ctx
      = State_Monad.bind (studio_do (upsertRunStepMemo ?memo)) f" and rest: "adds r ?X (f ())"
    by blast
  have m: "me_run_id ?memo = cl_run_id cl" "me_step_id ?memo = s" "me_status ?memo \<noteq> SWorking"
    by (simp_all add: step_memo_row_def)
  show "engine_ok (hb_studio (final (commit_resolution d cl run catalog e s body routes ts ctx) h))
      \<and> sd_flow_index (hb_studio (final (commit_resolution d cl run catalog e s body routes ts ctx) h)) = sd_flow_index (hb_studio h)"
    "open_steps r (hb_studio (final (commit_resolution d cl run catalog e s body routes ts ctx) h))
       \<subseteq> (open_steps r (hb_studio h) - own r cl {s}) \<union> own r cl (set_option (next_step_of routes))"
    using ended_then [of h r ?memo "own r cl (set_option (next_step_of routes))" f] rest assms(1,2,3) m
    unfolding f own_def by (simp_all only: m if_True)
qed

text \<open>A resolution answers at once, or commits the branch of a step that is open.\<close>

definition may_resolve :: "caller \<Rightarrow> string \<Rightarrow> hub \<Rightarrow> step_catalog \<Rightarrow> catalog_branch \<Rightarrow> jobj \<Rightarrow> bool" where
  "may_resolve cl s h catalog branch ctx \<longleftrightarrow>
     (\<exists>e\<in>set (js_values (sd_flow_index (hb_studio h))). fe_catalog e = Some catalog)
     \<and> (\<exists>ce b. ce \<in> set (ct_entries catalog) \<and> js_get (ce_branches ce) b = Some branch)
     \<and> (\<exists>run. getRun (hb_studio h) (bare_with ''run_'' (cl_run_id cl)) = Some run \<and> \<not> isRunTerminal (rr_lifecycle run)
          \<and> (parent_ok ctx \<longleftrightarrow> parent_ok (rr_exec_context run)))
     \<and> (\<exists>pm. memo_for (listRunStepMemos (hb_studio h) (cl_run_id cl)) s = Some pm \<and> me_status pm = SWorking)"

lemma index_value: "getFlowIndexEntry st f o' = Some e \<Longrightarrow> e \<in> set (js_values (sd_flow_index st))"
  by (auto simp: getFlowIndexEntry_def find_Some_iff intro: js_get_in_values split: if_splits)

lemma branch_value: "branch_named e b = Some (Some branch) \<Longrightarrow> js_get (ce_branches e) b = Some branch"
  by (auto simp: branch_named_def split: option.splits if_splits)

lemma catalog_member: "catalogEntryForStep (Some c) s = Some e \<Longrightarrow> e \<in> set (ct_entries c)"
  by (auto simp: catalogEntryForStep_def find_Some_iff)

lemma resolve_cases:
  obtains (answers) x where "run_state (resolveFlowStep d cl s body) h = (x, h)"
  | (commits) run catalog e branch ts ctx where "may_resolve cl s h catalog branch ctx"
      "run_state (resolveFlowStep d cl s body) h =
        run_state (commit_resolution d cl run catalog e s body (cb_routes branch) ts ctx) h"
proof -
  let ?Q = "\<lambda>r. \<exists>run catalog e branch ts ctx. may_resolve cl s h catalog branch ctx
      \<and> r = run_state (commit_resolution d cl run catalog e s body (cb_routes branch) ts ctx) h"
  have key: "comes_to h (\<lambda>_. True) ?Q (commit_resolution d cl run catalog entry s body (cb_routes branch) ts
      (resolved_context cl s body f ts promoted (rr_exec_context run)))"
    if "getRun (hb_studio h) (bare_with ''run_'' (cl_run_id cl)) = Some run" "\<not> isRunTerminal (rr_lifecycle run)"
      "(case getFlowIndexEntry (hb_studio h) (the (rr_flow_id run)) (rr_space_id run) of None \<Rightarrow> None
        | Some e \<Rightarrow> fe_catalog e) = Some catalog"
      "catalogEntryForStep (Some catalog) s = Some entry" "branch_named entry (rb_branch body) = Some named"
      "memo_for (listRunStepMemos (hb_studio h) (cl_run_id cl)) s = Some pm" "\<not> me_status pm \<noteq> SWorking"
      "named = Some branch"
    for run catalog entry named branch pm f ts promoted
  proof -
    have "\<exists>e\<in>set (js_values (sd_flow_index (hb_studio h))). fe_catalog e = Some catalog"
      using entry_of_catalog [OF that(3)] index_value by blast
    moreover have "entry \<in> set (ct_entries catalog) \<and> js_get (ce_branches entry) (rb_branch body) = Some branch"
      using catalog_member [OF that(4)] branch_value that(5,8) by blast
    ultimately have "may_resolve cl s h catalog branch (resolved_context cl s body f ts promoted (rr_exec_context run))"
      unfolding may_resolve_def using that(1,2,6,7) parent_ok_resolved by blast
    then show ?thesis unfolding comes_to_def by blast
  qed
  have "comes_to h (\<lambda>_. True) ?Q (resolveFlowStep d cl s body)"
    unfolding resolveFlowStep_def resolve_step_memo_def resolve_active_def promote_and_commit_def Let_def
    by (intro comes_intros; (rule TrueI)?; (rule key; assumption))
  then show thesis using that unfolding comes_to_def by blast
qed

lemma in_index_closed:
  assumes "closed_index st" and "e \<in> set (js_values (sd_flow_index st))" and "fe_catalog e = Some c"
    and "ce \<in> set (ct_entries c)" and "js_get (ce_branches ce) b = Some branch"
    and "openTargetFromRoutes (cb_routes branch) = Some t"
  shows "catalogEntryForStep (Some c) t \<noteq> None"
proof -
  have "opens_inside c" using assms(1-3) by (force simp: closed_index_def closed_entry_def list_all_iff)
  moreover have "branch \<in> set (js_values (ce_branches ce))" using assms(5) by (rule js_get_in_values)
  ultimately show ?thesis using assms(4,6) by (force simp: opens_inside_def list_all_iff)
qed

text \<open>A step takes the place of another: either nothing opens, or one step closes and at most one opens.\<close>

definition takes_over :: "string set \<Rightarrow> string set \<Rightarrow> bool" where
  "takes_over A B \<longleftrightarrow> B \<subseteq> A \<or> (\<exists>s\<in>A. \<exists>t. B \<subseteq> insert t (A - {s}))"

definition sound :: "string \<Rightarrow> hub \<Rightarrow> hub \<Rightarrow> bool" where
  "sound r h h' \<longleftrightarrow> engine_ok (hb_studio h') \<and> sd_flow_index (hb_studio h') = sd_flow_index (hb_studio h)
     \<and> takes_over (open_steps r (hb_studio h)) (open_steps r (hb_studio h'))"

lemma open_listed:
  assumes "engine_ok st" and "run_ref r" and "memo_for (listRunStepMemos st r) s = Some pm" and "me_status pm = SWorking"
  shows "s \<in> open_steps r st"
  using listed_step(3) [of st r s pm] assms by (simp add: engine_ok_def open_steps_def memo_working_def)

lemma resolve_sound:
  assumes ok: "engine_ok (hb_studio h)" and inside: "closed_index (hb_studio h)" and r: "run_ref r" "run_ref (cl_run_id cl)"
  shows "sound r h (final (resolveFlowStep d cl s body) h)"
proof (cases rule: resolve_cases [of d cl s body h])
  case (answers x)
  then show ?thesis using ok by (simp add: run_state_eq sound_def takes_over_def)
next
  case (commits run catalog e branch ts ctx)
  let ?h' = "final (resolveFlowStep d cl s body) h" and ?st = "hb_studio h"
  from commits(1) obtain run' where run': "getRun ?st (bare_with ''run_'' (cl_run_id cl)) = Some run'"
    "parent_ok ctx \<longleftrightarrow> parent_ok (rr_exec_context run')" unfolding may_resolve_def by blast
  then have ctx: "parent_ok ctx" using ok_run_parent [OF ok run'(1)] by simp
  have closed: "openTargetFromRoutes (cb_routes branch) = Some t \<Longrightarrow> catalogEntryForStep (Some catalog) t \<noteq> None" for t
    using commits(1) in_index_closed [OF inside] unfolding may_resolve_def by blast
  have fin: "?h' = final (commit_resolution d cl run catalog e s body (cb_routes branch) ts ctx) h"
    using commits(2) by (simp add: run_state_eq)
  note c = commit_opens [OF ok r ctx, where catalog = catalog and routes = "cb_routes branch" and d = d and run = run and e = e and s = s and body = body and ts = ts, OF closed, folded fin]
  have s: "cl_run_id cl = r \<Longrightarrow> s \<in> open_steps r ?st"
    using commits(1) open_listed [OF ok r(1)] unfolding may_resolve_def by blast
  have "takes_over (open_steps r ?st) (open_steps r (hb_studio ?h'))"
  proof (cases "cl_run_id cl = r")
    case True
    then have "open_steps r (hb_studio ?h')
        \<subseteq> (open_steps r ?st - {s}) \<union> set_option (next_step_of (cb_routes branch))"
      using c(2) by (simp add: own_def)
    then show ?thesis
      using s [OF True] unfolding takes_over_def by (cases "next_step_of (cb_routes branch)") (simp, blast, simp, blast)
  next
    case False
    then show ?thesis using c(2) by (simp add: own_def takes_over_def)
  qed
  then show ?thesis using c(1) by (simp add: sound_def)
qed

lemma transition_opens:
  assumes ok: "engine_ok st" and r: "run_ref r" "run_ref (cl_run_id cl)"
    and moved: "activation cl run pm ds c k hash h = (True, st')" and st: "hb_studio h = st" and ctx: "parent_ok (rr_exec_context run)"
  shows "engine_ok st' \<and> sd_flow_index st' = sd_flow_index st" "open_steps r st' \<subseteq> (open_steps r st - own r cl {me_step_id pm}) \<union> own r cl {ce_step_id c}"
proof -
  let ?pm = "pm\<lparr> me_run_id := cl_run_id cl, me_status := SYielded \<rparr>"
  let ?cm = "(step_memo_row (cl_run_id cl) (ce_step_id c) SWorking)\<lparr> me_started_at := Some (hb_now h) \<rparr>"
  obtain row where row: "js_get (sd_runs st) (bare_with ''run_'' (cl_run_id cl)) = Some row"
    and st': "st' = st\<lparr> sd_runs := js_set (bare_with ''run_'' (cl_run_id cl))
        (row\<lparr> rr_exec_context := activated_context (rr_exec_context run) k hash (ce_step_id c) \<rparr>) (sd_runs st),
      sd_memos := js_set (memo_key (cl_run_id cl) (ce_step_id c)) ?cm
        (js_set (memo_key (cl_run_id cl) (me_step_id pm)) ?pm (sd_memos st)) \<rparr>"
    using moved st by (auto simp: activation_def transitionNestedChild_def step_memo_row_def split: option.splits if_splits)
  show "engine_ok st' \<and> sd_flow_index st' = sd_flow_index st"
    using ok r(2) ctx unfolding st' by (auto simp: engine_ok_def memo_table_ok_def step_memo_row_def split: if_splits)
  show "open_steps r st' \<subseteq> (open_steps r st - own r cl {me_step_id pm}) \<union> own r cl {ce_step_id c}"
    using memo_key_inject [OF r(1,2)] unfolding st'
    by (auto simp: open_steps_def memo_working_def own_def step_memo_row_def split: if_splits)
qed

lemma child_sound:
  assumes ok: "engine_ok (hb_studio h)" and r: "run_ref r" "run_ref (cl_run_id cl)"
  shows "sound r h (final (openChildStep d cl p c k) h)"
proof (cases rule: open_child_cases [of d cl p c k h])
  case (activates run e catalog pm ch)
  let ?ds = "nestedCatalogChildren catalog p" and ?hash = "en_request_digest d p c"
  let ?h' = "final (openChildStep d cl p c k) h" and ?st = "hb_studio h"
  have fin: "?h' = final (activate_child d cl run pm ?ds ch k ?hash) h" using activates(3) by (simp add: run_state_eq)
  have ctx: "parent_ok (rr_exec_context run)" using activates(1) ok_run_parent [OF ok] unfolding may_activate_def by blast
  have pm: "memo_for (listRunStepMemos ?st (cl_run_id cl)) p = Some pm" "me_status pm = SWorking"
    using activates(1) by (simp_all add: may_activate_def)
  have p: "me_step_id pm = p" using listed_step(2) [OF _ r(2) pm(1)] ok by (simp add: engine_ok_def)
  obtain moved st' where t: "activation cl run pm ?ds ch k ?hash h = (moved, st')" by fastforce
  show ?thesis
  proof (cases moved)
    case False
    then show ?thesis using t activate_refused(2) ok by (simp add: fin sound_def takes_over_def)
  next
    case True
    then have t: "activation cl run pm ?ds ch k ?hash h = (True, st')" using t by simp
    note tr = transition_opens [OF ok r t refl ctx]
    obtain h1 ctx' where h1: "hb_studio h1 = st'"
      "final (activate_child d cl run pm ?ds ch k ?hash) h = final (openStepContract d cl (ce_step_id ch) ch ctx' Opened True) h1"
      using activate_moved [OF t] by blast
    have "same view (openStepContract d cl (ce_step_id ch) ch ctx' Opened True)"
      by (rule open_persisted_same) simp
    then have v: "view (hb_studio ?h') = view st'" using h1 by (simp add: fin same_def)
    have "open_steps r (hb_studio ?h') = open_steps r st'" using open_steps_view [OF view_memos [OF v]] .
    moreover have "cl_run_id cl = r \<Longrightarrow> p \<in> open_steps r ?st" using open_listed [OF ok r(1)] pm by blast
    ultimately have "takes_over (open_steps r ?st) (open_steps r (hb_studio ?h'))"
      using tr(2) p by (auto simp: takes_over_def own_def split: if_splits)
    then show ?thesis using view_ok [OF v [symmetric]] tr(1) v by (simp add: sound_def view_def)
  qed
qed (use ok in \<open>auto simp: run_state_eq sound_def takes_over_def\<close>)

section \<open>Steps of the engine\<close>

lemma create_memos_index: "same (\<lambda>st. (sd_memos st, sd_flow_index st)) (createRun deps inp)"
  unfolding createRun_def insert_run_steps_def Let_def
  by (intro same_intros) (simp_all add: insertRun_def updateSessionSpacesTouched_def)

lemma adds_create [adds_intros]:
  assumes "parent_ok (opt_default [] (ci_input_params inp))"
  shows "adds r X (createRun deps inp)"
  unfolding adds_def
proof (intro allI impI)
  fix h :: hub
  let ?st = "hb_studio h" and ?st' = "hb_studio (final (createRun deps inp) h)"
  assume ok: "engine_ok ?st"
  have same: "sd_memos ?st' = sd_memos ?st" "sd_flow_index ?st' = sd_flow_index ?st"
    using create_memos_index by (simp_all add: same_def)
  have "parent_ok (rr_exec_context row)" if "js_get (sd_runs ?st') i = Some row" for i row
    using that ok assms create_run_effect [of deps inp h]
    by (auto simp: created_def engine_ok_def new_run_row_def split: if_splits)
  then show "engine_ok ?st' \<and> sd_flow_index ?st' = sd_flow_index ?st \<and> open_steps r ?st' \<subseteq> open_steps r ?st \<union> X"
    using ok same open_steps_view [of ?st' ?st] by (auto simp: engine_ok_def)
qed

lemma adds_admitted:
  assumes "parent_ok ctx"
  shows "adds r X (start_admitted d inp e ctx digest dispatch)"
proof -
  have "adds r X (start_session d inp e)" by (intro adds_same same_intros)
  then show ?thesis
    unfolding start_admitted_def Let_def by (intro adds_intros) (use assms in \<open>simp_all add: opt_default_def\<close>)
qed

lemma adds_start [adds_intros]:
  assumes "parent_ok (start_context inp)"
  shows "adds r X (startFlowRun d inp)"
proof -
  have "parent_ok (with_run_key key (start_context inp))" for key
    using assms by (simp add: with_run_key_def)
  then show ?thesis
    unfolding startFlowRun_def Let_def
    by (intro adds_intros) (auto split: option.splits sum.splits intro!: adds_intros adds_admitted)
qed

definition nothing_open :: "studio \<Rightarrow> string \<Rightarrow> bool" where
  "nothing_open st r \<longleftrightarrow> list_all (\<lambda>x. me_status x \<noteq> SWorking) (listRunStepMemos st r)"

lemma nothing_open:
  assumes "engine_ok st" and "run_ref r" and "nothing_open st r"
  shows "open_steps r st = {}"
proof -
  have "s \<notin> open_steps r st" for s
  proof
    assume "s \<in> open_steps r st"
    then obtain x where x: "js_get (sd_memos st) (memo_key r s) = Some x" "me_status x = SWorking"
      by (auto simp: open_steps_def memo_working_def split: option.splits)
    then have "me_run_id x = r" "me_step_id x = s"
      using assms(1,2) memo_key_inject unfolding engine_ok_def memo_table_ok_def by metis+
    then have "x \<in> set (listRunStepMemos st r)"
      using x listed_memo [of "sd_memos st" r st x] assms(1,2) by (simp add: engine_ok_def)
    then show False using x(2) assms(3) by (auto simp: nothing_open_def list_all_iff)
  qed
  then show ?thesis by blast
qed

lemma comes_list [comes_intros]:
  "(xs = [] \<Longrightarrow> comes_to h A Q a) \<Longrightarrow> (\<And>y ys. xs = y # ys \<Longrightarrow> comes_to h A Q (f y ys))
     \<Longrightarrow> comes_to h A Q (case xs of [] \<Rightarrow> a | y # ys \<Rightarrow> f y ys)"
  by (cases xs) auto

lemma bootstrap_opens:
  assumes ok: "engine_ok (hb_studio h)" and r: "run_ref (cl_run_id cl)"
  obtains s where "\<And>r. run_ref r \<Longrightarrow> engine_ok (hb_studio (final (bootstrapStepContractFlow d cl) h))
    \<and> sd_flow_index (hb_studio (final (bootstrapStepContractFlow d cl) h)) = sd_flow_index (hb_studio h)
    \<and> open_steps r (hb_studio (final (bootstrapStepContractFlow d cl) h)) \<subseteq> open_steps r (hb_studio h) \<union> own r cl {s}"
proof -
  let ?Q = "\<lambda>x. \<exists>s. \<forall>r. run_ref r \<longrightarrow> engine_ok (hb_studio (snd x))
      \<and> sd_flow_index (hb_studio (snd x)) = sd_flow_index (hb_studio h)
      \<and> open_steps r (hb_studio (snd x)) \<subseteq> open_steps r (hb_studio h) \<union> own r cl {s}"
  have key: "comes_to h A ?Q (after (openStepContract d cl (ce_step_id e) e (rr_exec_context run) Opened False) f)"
    if run: "getRun (hb_studio h) i = Some run" and f: "f = (\<lambda>_. State_Monad.return (Done True))" for A e run i f
  proof -
    have "adds r (own r cl {ce_step_id e}) (after (openStepContract d cl (ce_step_id e) e (rr_exec_context run) Opened False) f)"
      if "run_ref r" for r
      unfolding f by (intro adds_intros) (use that assms run ok_run_parent in \<open>auto simp: own_def\<close>)
    then show ?thesis using ok unfolding comes_to_def run_state_eq snd_conv adds_def by blast
  qed
  have "comes_to h (\<lambda>_. True) ?Q (bootstrapStepContractFlow d cl)"
    unfolding bootstrapStepContractFlow_def Let_def
    by (intro comes_intros; (rule TrueI)?; (rule key, assumption, rule refl))
  then show thesis using that ok unfolding comes_to_def run_state_eq by auto
qed

text \<open>
  The operations, with what their callers provide: a started flow call names its parent, the first step
  of a run is opened when none is open, and a child that ended is a run of the hub.
\<close>

inductive engine_step :: "engine_deps \<Rightarrow> hub \<Rightarrow> hub \<Rightarrow> bool" for d where
  start: "parent_ok (start_context inp) \<Longrightarrow> engine_step d h (final (startFlowRun d inp) h)"
| bootstrap: "run_ref (cl_run_id cl) \<Longrightarrow> nothing_open (hb_studio h) (cl_run_id cl) \<Longrightarrow>
    engine_step d h (final (bootstrapStepContractFlow d cl) h)"
| open_child: "run_ref (cl_run_id cl) \<Longrightarrow> engine_step d h (final (openChildStep d cl p c k) h)"
| resolve: "run_ref (cl_run_id cl) \<Longrightarrow> engine_step d h (final (resolveFlowStep d cl s body) h)"
| auto_resolve: "run_ref (cl_run_id cl) \<Longrightarrow>
    engine_step d h (final (maybeAutoResolveExecutorStepAfterAction d cl catalog auto_on s res) h)"
| advance: "engine_step d h (final (maybeAdvanceStepContractFlow d i s a t) h)"
| child_ended: "getRun (hb_studio h) i = Some child \<Longrightarrow>
    engine_step d h (final (maybeCompleteFlowCallParent live d a t child l) h)"
| fail: "engine_step d h (final (fail_run d i a t why) h)"
| cancel: "engine_step d h (final (cancelRun cr) h)"
| tick: "engine_step d h (h\<lparr> hb_now := now \<rparr>)"

definition one_open :: "studio \<Rightarrow> bool" where
  "one_open st \<longleftrightarrow> engine_ok st \<and> closed_index st \<and> (\<forall>r. run_ref r \<longrightarrow> (\<exists>s. open_steps r st \<subseteq> {s}))"

lemma sound_one:
  assumes "\<And>r. run_ref r \<Longrightarrow> sound r h h'" and "one_open (hb_studio h)"
  shows "one_open (hb_studio h')"
proof -
  have "\<exists>t. open_steps r (hb_studio h') \<subseteq> {t}" if r: "run_ref r" for r
  proof -
    obtain s where "open_steps r (hb_studio h) \<subseteq> {s}" using assms(2) r by (auto simp: one_open_def)
    then show ?thesis using assms(1) [OF r] unfolding sound_def takes_over_def by blast
  qed
  moreover have "sound (''run_'' @ replicate 26 CHR ''0'') h h'" by (rule assms(1)) simp
  ultimately show ?thesis using assms(2) unfolding one_open_def sound_def closed_index_def by simp
qed

lemma adds_one:
  assumes "\<And>r. run_ref r \<Longrightarrow> adds r {} m" and "one_open (hb_studio h)"
  shows "one_open (hb_studio (final m h))"
  by (rule sound_one [OF _ assms(2)])
    (use assms in \<open>auto simp: adds_def one_open_def sound_def takes_over_def\<close>)

lemma auto_resolve_final:
  "final (maybeAutoResolveExecutorStepAfterAction d cl catalog auto_on s res) h = h
   \<or> (\<exists>body. final (maybeAutoResolveExecutorStepAfterAction d cl catalog auto_on s res) h = final (resolveFlowStep d cl s body) h)"
  by (auto simp: maybeAutoResolveExecutorStepAfterAction_def after_final split: option.splits outcome.splits)

lemma advance_adds: "adds r X (maybeAdvanceStepContractFlow d i s a t)"
  unfolding maybeAdvanceStepContractFlow_def Let_def by (intro adds_intros)

lemma engine_step_one: "engine_step d h h' \<Longrightarrow> one_open (hb_studio h) \<Longrightarrow> one_open (hb_studio h')"
proof (induction rule: engine_step.induct)
  case (start inp h)
  then show ?case by (intro adds_one adds_start)
next
  case (bootstrap cl h)
  then have ok: "engine_ok (hb_studio h)" by (simp add: one_open_def)
  obtain s where s: "\<And>r. run_ref r \<Longrightarrow> engine_ok (hb_studio (final (bootstrapStepContractFlow d cl) h))
      \<and> sd_flow_index (hb_studio (final (bootstrapStepContractFlow d cl) h)) = sd_flow_index (hb_studio h)
      \<and> open_steps r (hb_studio (final (bootstrapStepContractFlow d cl) h)) \<subseteq> open_steps r (hb_studio h) \<union> own r cl {s}"
    using bootstrap_opens [OF ok bootstrap(1)] by blast
  have "\<exists>t. open_steps r (hb_studio (final (bootstrapStepContractFlow d cl) h)) \<subseteq> {t}" if "run_ref r" for r
    using s [OF that] nothing_open [OF ok bootstrap(1,2)] bootstrap(3) that
    by (cases "cl_run_id cl = r") (auto simp: own_def one_open_def, blast)
  then show ?case using s [OF bootstrap(1)] bootstrap(3) by (simp add: one_open_def closed_index_def)
next
  case (open_child cl h p c k)
  then show ?case by (intro sound_one [OF child_sound]) (simp_all add: one_open_def)
next
  case (resolve cl h s body)
  then show ?case by (intro sound_one [OF resolve_sound]) (simp_all add: one_open_def)
next
  case (auto_resolve cl h catalog auto_on s res)
  have "one_open (hb_studio (final (resolveFlowStep d cl s body) h))" for body
    using auto_resolve by (intro sound_one [OF resolve_sound]) (simp_all add: one_open_def)
  then show ?case using auto_resolve_final [of d cl catalog auto_on s res h] auto_resolve(2) by metis
next
  case (advance h i s a t)
  then show ?case by (intro adds_one advance_adds)
next
  case (child_ended h i child live a t l)
  then show ?case by (intro adds_one adds_complete_parent) (auto simp: one_open_def intro: ok_run_parent)
next
  case (fail h i a t why)
  then show ?case by (intro adds_one adds_quiet)
next
  case (cancel h cr)
  then show ?case by (intro adds_one adds_quiet)
next
  case (tick h now)
  then show ?case by simp
qed

lemma reachable_one:
  assumes "(engine_step d)\<^sup>*\<^sup>* h0 h" and "one_open (hb_studio h0)"
  shows "one_open (hb_studio h)"
  using assms by (induction rule: rtranclp_induct) (auto intro: engine_step_one)

text \<open>Read off the listed memos of the run.\<close>

lemma one_listed:
  assumes "one_open st" and "run_ref r"
  shows "length (filter (\<lambda>x. me_status x = SWorking) (listRunStepMemos st r)) \<le> 1"
proof -
  let ?xs = "filter (\<lambda>x. me_status x = SWorking) (listRunStepMemos st r)" and ?M = "sd_memos st"
  have ok: "memo_table_ok ?M" using assms(1) by (simp add: one_open_def engine_ok_def)
  obtain s where s: "open_steps r st \<subseteq> {s}" using assms by (auto simp: one_open_def)
  have same: "js_get ?M (memo_key r s) = Some x" if "x \<in> set ?xs" for x
  proof -
    have x: "js_get ?M (memo_key r (me_step_id x)) = Some x" "me_status x = SWorking"
      using that listed_memo [OF ok assms(2) refl] by auto
    then have "me_step_id x \<in> open_steps r st" by (simp add: open_steps_def memo_working_def)
    then show ?thesis using x s by auto
  qed
  have "distinct (js_values ?M)"
  proof -
    have "map (\<lambda>x. memo_key (me_run_id x) (me_step_id x)) (js_values ?M) = map fst ?M"
      using ok unfolding memo_table_ok_def js_values_def by (fastforce dest: js_ok_get)
    then have "distinct (map (\<lambda>x. memo_key (me_run_id x) (me_step_id x)) (js_values ?M))"
      using ok by (simp add: memo_table_ok_def js_ok_def)
    then show ?thesis by (simp add: distinct_map)
  qed
  then have d: "distinct ?xs" by (simp add: listRunStepMemos_def Let_def)
  have "set ?xs \<subseteq> {the (js_get ?M (memo_key r s))}" using same by fastforce
  then show ?thesis using d by (metis card_mono distinct_card finite.emptyI finite_insert is_singletonI is_singleton_altdef)
qed

end
