(* ===== verification/FlowCallProofs.thy ===== *)
theory FlowCallProofs
  imports OpenSteps
begin

text \<open>
  Flow calls return. The end of a child settles one open memo of its parent at every level, so the chain
  of parents is at most as long as there are open memos, whatever the parent ids in the contexts say.
  A call is one deeper than the run that makes it, so calls nest at most as deep as the limit.
\<close>

section \<open>The parents of a finished child\<close>

definition unsettled :: "(string, step_memo) jsmap \<Rightarrow> string set" where
  "unsettled M = {k. \<exists>x. js_get M k = Some x \<and> \<not> memo_terminal x}"

lemma unsettled_keys: "unsettled M \<subseteq> set (js_keys M)"
proof
  fix k
  assume "k \<in> unsettled M"
  then obtain x where "js_get M k = Some x" by (auto simp: unsettled_def)
  then have "(k, x) \<in> set M" unfolding js_get_def by (rule map_of_SomeD)
  then show "k \<in> set (js_keys M)" by (force simp: js_keys_def)
qed

lemma unsettled_finite [simp]: "finite (unsettled M)"
  using unsettled_keys finite_subset by blast

lemma unsettled_bound: "card (unsettled M) \<le> length M"
proof -
  have "card (unsettled M) \<le> card (set (js_keys M))" by (rule card_mono [OF _ unsettled_keys]) simp
  also have "\<dots> \<le> length (js_keys M)" by (rule card_length)
  finally show ?thesis by (simp add: js_keys_def)
qed

lemma settled_terminal [simp]: "memo_terminal (settled_memo r s (if failed then SFailed else SCompleted) ts err)"
  by (simp add: memo_terminal_def)

lemma settle_fewer:
  assumes "js_get (sd_memos st) (memo_key (me_run_id memo) (me_step_id memo)) = Some x" and "\<not> memo_terminal x"
    and "memo_terminal memo"
  shows "card (unsettled (sd_memos (upsertRunStepMemo memo st))) < card (unsettled (sd_memos st))"
proof (rule psubset_card_mono)
  show "unsettled (sd_memos (upsertRunStepMemo memo st)) \<subset> unsettled (sd_memos st)"
    using assms by (auto simp: unsettled_def upsertRunStepMemo_def split: if_splits)
qed simp

lemma fail_run_returns [simp]: "result (fail_run d i a t why) h \<noteq> OutOfFuel"
  by (simp add: fail_run_def result_bind split: reply.splits)

definition returns :: "nat \<Rightarrow> 'a outcome hub_op \<Rightarrow> bool" where
  "returns n m \<longleftrightarrow> (\<forall>h. engine_ok (hb_studio h) \<longrightarrow> card (unsettled (sd_memos (hb_studio h))) < n \<longrightarrow> result m h \<noteq> OutOfFuel)"

lemma kept:
  assumes "same view m" and "engine_ok (hb_studio h)"
  shows "engine_ok (hb_studio (final m h))" "sd_memos (hb_studio (final m h)) = sd_memos (hb_studio h)"
proof -
  have v: "view (hb_studio h) = view (hb_studio (final m h))" using assms(1) by (simp add: same_def)
  show "engine_ok (hb_studio (final m h))" by (rule view_ok [OF v assms(2)])
  show "sd_memos (hb_studio (final m h)) = sd_memos (hb_studio h)" using view_memos [OF v] by simp
qed

named_theorems returns_intros \<open>operations that return\<close>

lemma returns_bind [returns_intros]:
  "same view m \<Longrightarrow> (\<And>h. engine_ok (hb_studio h) \<Longrightarrow> returns n (f (result m h))) \<Longrightarrow> returns n (State_Monad.bind m f)"
  unfolding returns_def result_bind using kept by fastforce

lemma returns_done [returns_intros]: "returns n (State_Monad.return (Done x))"
  by (simp add: returns_def)

lemma returns_after_fail [returns_intros]:
  assumes "\<And>x. returns n (f x)"
  shows "returns n (after (fail_run d i a t why) f)"
proof -
  have "same view (fail_run d i a t why)" by (intro same_intros)
  then show ?thesis
    using assms kept [of "fail_run d i a t why"] unfolding returns_def after_result by (auto split: outcome.splits)
qed

lemma returns_if [returns_intros]: "(c \<Longrightarrow> returns n a) \<Longrightarrow> (\<not> c \<Longrightarrow> returns n b) \<Longrightarrow> returns n (if c then a else b)"
  by simp

lemma returns_option [returns_intros]:
  "(z = None \<Longrightarrow> returns n a) \<Longrightarrow> (\<And>x. z = Some x \<Longrightarrow> returns n (f x)) \<Longrightarrow> returns n (case z of None \<Rightarrow> a | Some x \<Rightarrow> f x)"
  by (cases z) auto

lemma settle_returns:
  assumes rec: "\<And>p l. parent_ok (rr_exec_context p) \<Longrightarrow> returns n (recur p l)"
    and memo: "js_get (sd_memos (hb_studio h)) (memo_key (''run_'' @ pb) s) = Some x" "\<not> memo_terminal x"
    and ok: "engine_ok (hb_studio h)" "length pb = 26" and few: "card (unsettled (sd_memos (hb_studio h))) < Suc n"
  shows "result (settle_parent live recur d a t child l pb s parent ir sf) h \<noteq> OutOfFuel"
proof -
  let ?failed = "(l = RFailed \<or> l = RCancelled) \<and> sf_continue_on_error sf \<noteq> Some True"
  let ?memo = "settled_memo (''run_'' @ pb) s (if ?failed then SFailed else SCompleted) (hb_now h)
    (if ?failed then Some ''CHILD_RUN_FAILED'' else None)"
  let ?h = "final (studio_do (upsertRunStepMemo ?memo)) h"
  have "engine_ok (hb_studio ?h)"
    using adds_memo [of ?memo "''run_'' @ pb" "{}"] ok unfolding adds_def by (auto split: if_splits)
  moreover have "card (unsettled (sd_memos (hb_studio ?h))) < n"
    using settle_fewer [of "hb_studio h" ?memo x] memo few by simp
  moreover have "\<exists>f. settle_parent live recur d a t child l pb s parent ir sf
      = State_Monad.bind nowIso (\<lambda>ts. State_Monad.bind (studio_do (upsertRunStepMemo
          (settled_memo (''run_'' @ pb) s (if ?failed then SFailed else SCompleted) ts
            (if ?failed then Some ''CHILD_RUN_FAILED'' else None)))) (f ts)) \<and> returns n (f (hb_now h) ())"
    unfolding settle_parent_def Let_def
    by (rule exI, rule conjI, rule refl, intro returns_intros same_intros rec)
      (auto intro: ok_run_parent)
  ultimately show ?thesis unfolding returns_def by (auto simp: result_bind)
qed

lemma parents_return:
  "parent_ok (rr_exec_context child) \<Longrightarrow> returns n (complete_parents n live d a t child l)"
proof (induction n arbitrary: child l)
  case 0
  show ?case by (simp add: returns_def)
next
  case (Suc n)
  show ?case
  proof (cases "prop_of (rr_exec_context child) ''_parent_run_id''")
    case (JStr p)
    then have "run_ref p" using Suc.prems by (simp add: parent_ok_def)
    then obtain b where b: "p = ''run_'' @ b" "length b = 26" by (rule run_refE)
    have bare: "bare_run_or_session p = b" using b by (simp add: bare_run_or_session_def starts_with_def)
    show ?thesis
    proof (cases "prop_of (rr_exec_context child) ''_parent_step_id''")
      case step: (JStr s)
      have settled: "result (settle_parent live (complete_parents n live d a t) d a t child l b s parent ir sf) h \<noteq> OutOfFuel"
        if "memo_for (listRunStepMemos (hb_studio h) (''run_'' @ b)) s = Some x" "\<not> memo_terminal x"
          "engine_ok (hb_studio h)" "card (unsettled (sd_memos (hb_studio h))) < Suc n" for parent ir sf x h
      proof -
        have "run_ref (''run_'' @ b)" using b(2) by simp
        then have at: "js_get (sd_memos (hb_studio h)) (memo_key (''run_'' @ b) s) = Some x"
          using listed_step(3) that(1,3) unfolding engine_ok_def by blast
        show ?thesis by (rule settle_returns [OF Suc.IH at that(2,3) b(2) that(4)])
      qed
      show ?thesis
        unfolding returns_def complete_parents.simps parent_body_def JStr step bare Let_def prod.case json.case
        using settled by (auto simp: result_bind split: option.splits)
    qed (auto simp: parent_body_def JStr returns_def)
  qed (auto simp: parent_body_def returns_def split: prod.splits)
qed

text \<open>The fuel the model gives the chain is enough.\<close>

lemma parents_terminate:
  assumes "engine_ok (hb_studio h)" and "parent_ok (rr_exec_context child)"
  shows "result (maybeCompleteFlowCallParent live d a t child l) h \<noteq> OutOfFuel"
  using parents_return [OF assms(2), of "Suc (length (sd_memos (hb_studio h)))" live d a t l] assms(1)
    unsettled_bound [of "sd_memos (hb_studio h)"]
  by (simp add: maybeCompleteFlowCallParent_def result_bind returns_def)

section \<open>Calls\<close>

lemma create_run_reply:
  assumes "result (createRun deps inp) h = Reply (run, i)"
  shows "rv_run_id run = ''run_'' @ new_run_id deps inp h"
    "\<exists>inst ts. js_get (sd_runs (hb_studio (final (createRun deps inp) h))) (new_run_id deps inp h) =
       Some (new_run_row inp (new_run_id deps inp h) inst ts)"
proof -
  obtain session where s: "getSession (hb_studio h) (stripPrefix (ci_session_id inp)) = Some session"
    using assms by (cases "getSession (hb_studio h) (stripPrefix (ci_session_id inp))")
      (auto simp: createRun_def result_bind)
  have may: "\<not> (truthy_str (ci_flow_id inp) \<and> \<not> canStartFlow (ci_capabilities inp))"
    using assms s by (auto simp: createRun_def result_bind split: if_splits)
  obtain inst where inst: "instance_for deps inp (rd_ulid deps (hb_next_id h)) = Some inst"
    using assms s may by (cases "instance_for deps inp (rd_ulid deps (hb_next_id h))")
      (auto simp: createRun_def result_bind final_bind)
  show "rv_run_id run = ''run_'' @ new_run_id deps inp h"
    "\<exists>inst ts. js_get (sd_runs (hb_studio (final (createRun deps inp) h))) (new_run_id deps inp h) =
       Some (new_run_row inp (new_run_id deps inp h) inst ts)"
    using assms s may inst
    by (auto simp: createRun_def result_bind final_bind Let_def new_run_id_def toRunDto_def prefixed_def)
qed

text \<open>Ids as the generator makes them.\<close>

definition ulids_ok :: "engine_deps \<Rightarrow> bool" where
  "ulids_ok d \<longleftrightarrow> (\<forall>n. length (rd_ulid d n) = 26 \<and> bareRunId (rd_ulid d n) = rd_ulid d n)"

definition call_ok :: "flow_step_input \<Rightarrow> bool" where
  "call_ok inp \<longleftrightarrow> length (xs_run_bare inp) = 26"

lemma no_instance [simp]:
  "ci_contract_ref_id inp = None \<Longrightarrow> new_run_id deps inp h = rd_ulid deps (hb_next_id h)"
  by (simp add: new_run_id_def instance_for_def truthy_str_def opt_default_def)

text \<open>The child a call starts is one deeper.\<close>

lemma child_depth:
  "flowCallDepth (js_set ''_flow_snapshot'' v (with_run_key key (start_context (child_start inp e fi))))
     = flowCallDepth (xs_exec_context inp) + 1"
  by (simp add: flowCallDepth_def with_run_key_def start_context_def child_start_def child_context_def Let_def
      truthy_str_def opt_default_def)

lemma child_parent_ok: "call_ok inp \<Longrightarrow> parent_ok (start_context (child_start inp e fi))"
  by (simp add: call_ok_def parent_ok_def start_context_def child_start_def child_context_def Let_def truthy_str_def
      opt_default_def)

definition deeper :: "flow_step_input \<Rightarrow> string \<Rightarrow> studio \<Rightarrow> bool" where
  "deeper inp run_id st \<longleftrightarrow> length (bare_run_or_session run_id) = 26 \<and> run_ref run_id \<and>
     (\<forall>row. getRun st (bare_run_or_session run_id) = Some row \<longrightarrow>
        flowCallDepth (rr_exec_context row) = flowCallDepth (xs_exec_context inp) + 1)"

lemma start_session_fields:
  "truthy_str (sf_session_id si) \<Longrightarrow> final (start_session d si e) h = h \<and> result (start_session d si e) h = the (sf_session_id si)"
  by (simp add: start_session_def)

lemma created_child:
  assumes ids: "ulids_ok d" and ctx: "flowCallDepth ctx = flowCallDepth (xs_exec_context inp) + 1"
    and ci: "ci_contract_ref_id ci = None" "ci_input_params ci = Some ctx"
    and res: "result (createRun (service_deps d) ci) h = Reply (run, i)"
  shows "deeper inp (rv_run_id run) (hb_studio (final (createRun (service_deps d) ci) h))"
proof -
  let ?id = "rd_ulid d (hb_next_id h)"
  have id: "new_run_id (service_deps d) ci h = ?id" using ci(1) by (simp add: service_deps_def session_run_deps.truncate_def)
  obtain inst ts where "js_get (sd_runs (hb_studio (final (createRun (service_deps d) ci) h))) ?id =
      Some (new_run_row ci ?id inst ts)" and run: "rv_run_id run = ''run_'' @ ?id"
    using create_run_reply [OF res] by (auto simp: id)
  moreover have "bareRunId ?id = ?id" "length ?id = 26" using ids by (simp_all add: ulids_ok_def)
  moreover have "bare_run_or_session (rv_run_id run) = ?id"
    by (simp add: run bare_run_or_session_def starts_with_def)
  ultimately show ?thesis
    using ctx by (simp add: deeper_def getRun_def new_run_row_def ci(2) opt_default_def)
qed

lemma admitted_child:
  assumes ids: "ulids_ok d" and ctx: "flowCallDepth ctx = flowCallDepth (xs_exec_context inp) + 1"
    and res: "result (start_admitted d si e ctx digest dispatch) h = Reply so"
  shows "deeper inp (so_run_id so) (hb_studio (final (start_admitted d si e ctx digest dispatch) h))"
  using res created_child [OF ids ctx]
  by (auto simp: start_admitted_def result_bind final_bind split: reply.splits prod.splits)

lemma started_child:
  assumes ids: "ulids_ok d" and res: "result (startFlowRun d (child_start inp e fi)) h = Reply so" and new: "\<not> so_deduplicated so"
  shows "deeper inp (so_run_id so) (hb_studio (final (startFlowRun d (child_start inp e fi)) h))"
proof -
  have dup: "earlier_run z g st = Some so \<Longrightarrow> False" for z g st
    using new by (auto simp: earlier_run_def dedupResult_def split: option.splits)
  show ?thesis
    using res admitted_child [OF ids child_depth]
    by (auto simp: startFlowRun_def result_bind final_bind Let_def dest: dup split: option.splits sum.splits prod.splits if_splits)
qed

section \<open>Calls return\<close>

named_theorems fine_intros \<open>operations that keep the store well formed and do not run out of fuel\<close>

definition some_run :: string where "some_run = ''run_'' @ replicate 26 CHR ''0''"

lemma some_run [simp]: "run_ref some_run"
  by (simp add: some_run_def)

definition fine :: "'a outcome hub_op \<Rightarrow> bool" where
  "fine m \<longleftrightarrow> (\<forall>h. engine_ok (hb_studio h) \<longrightarrow> engine_ok (hb_studio (final m h)) \<and> result m h \<noteq> OutOfFuel)"

lemma fineD: "fine m \<Longrightarrow> engine_ok (hb_studio h) \<Longrightarrow> engine_ok (hb_studio (final m h)) \<and> result m h \<noteq> OutOfFuel"
  by (simp add: fine_def)

lemma fine_bind [fine_intros]:
  "adds some_run UNIV m \<Longrightarrow> (\<And>h. engine_ok (hb_studio h) \<Longrightarrow> fine (f (result m h))) \<Longrightarrow> fine (State_Monad.bind m f)"
  unfolding fine_def adds_def result_bind final_bind by blast

lemma fine_after [fine_intros]: "fine m \<Longrightarrow> (\<And>x. fine (f x)) \<Longrightarrow> fine (after m f)"
  unfolding fine_def after_result after_final by (auto split: outcome.splits)

lemma fine_basic [fine_intros]:
  "fine (State_Monad.return (Done x))" "fine (State_Monad.return (Raised e))" "fine (fail_run d i a t why)"
  using adds_quiet(10) [of some_run UNIV d i a t why] by (simp_all add: fine_def adds_def)

lemma fine_if [fine_intros]: "(c \<Longrightarrow> fine a) \<Longrightarrow> (\<not> c \<Longrightarrow> fine b) \<Longrightarrow> fine (if c then a else b)"
  by simp

lemma fine_option [fine_intros]:
  "(z = None \<Longrightarrow> fine a) \<Longrightarrow> (\<And>x. z = Some x \<Longrightarrow> fine (f x)) \<Longrightarrow> fine (case z of None \<Rightarrow> a | Some x \<Rightarrow> f x)"
  by (cases z) auto

lemma fine_parents [fine_intros]:
  "parent_ok (rr_exec_context child) \<Longrightarrow> fine (maybeCompleteFlowCallParent live d a t child l)"
  using adds_complete_parent [of some_run child UNIV live d a t l] parents_terminate by (auto simp: fine_def adds_def)

definition fuel_for :: "flow_step_input \<Rightarrow> nat" where
  "fuel_for inp = nat (FLOW_CALL_MAX_DEPTH - flowCallDepth (xs_exec_context inp))"

definition recurs_fine :: "nat \<Rightarrow> (flow_step_input \<Rightarrow> 'a outcome hub_op) \<Rightarrow> bool" where
  "recurs_fine n recur \<longleftrightarrow> (\<forall>inp. call_ok inp \<longrightarrow> fuel_for inp < n \<longrightarrow> fine (recur inp))"

lemma dispatch_fine:
  assumes rec: "recurs_fine n recur"
    and deep: "deeper inp crid (hb_studio h)" and ok: "engine_ok (hb_studio h)"
    and fuel: "fuel_for inp < Suc n" "flowCallDepth (xs_exec_context inp) < FLOW_CALL_MAX_DEPTH"
  shows "engine_ok (hb_studio (final (maybeDispatchInitialStartFlow recur d crid e inp) h))
    \<and> result (maybeDispatchInitialStartFlow recur d crid e inp) h \<noteq> OutOfFuel"
proof (cases "getRun (hb_studio h) (bare_run_or_session crid)")
  case None
  then show ?thesis using ok
    by (cases "fe_ir e") (simp_all add: maybeDispatchInitialStartFlow_def result_bind final_bind Let_def)
next
  case (Some child)
  show ?thesis
  proof (cases "fe_ir e")
    case None
    then show ?thesis using ok by (simp add: maybeDispatchInitialStartFlow_def result_bind final_bind Let_def)
  next
    case ir: (Some ir)
    let ?inp = "\<lambda>step. inp\<lparr> xs_run_bare := bare_run_or_session crid, xs_step_id := step, xs_ir := ir,
      xs_exec_context := rr_exec_context child \<rparr>"
    have call: "fine (recur (?inp step))" for step
      using rec deep Some fuel by (auto simp: recurs_fine_def call_ok_def deeper_def fuel_for_def)
    have failed: "fine (State_Monad.bind nowIso (\<lambda>ts. State_Monad.bind (studio_do (upsertRunStepMemo
        (settled_memo crid step SFailed ts (Some code)))) (\<lambda>_. after (fail_run d crid x y code) (\<lambda>failed.
          State_Monad.bind (studio_ask (\<lambda>st. getRun st (bare_run_or_session crid))) (\<lambda>row. case row of
            None \<Rightarrow> State_Monad.return (Done ())
          | Some c \<Rightarrow> if failed then maybeCompleteFlowCallParent True d x y c RFailed
              else State_Monad.return (Done ()))))))" for step code x y
      by (intro fine_intros adds_intros) (use deep in \<open>auto simp: deeper_def intro: ok_run_parent\<close>)
    have "fine (after (recur (?inp step)) (\<lambda>r. case r of
        Inl (code, message) \<Rightarrow> State_Monad.bind nowIso (\<lambda>ts. State_Monad.bind (studio_do (upsertRunStepMemo
          (settled_memo crid step SFailed ts (Some code)))) (\<lambda>_. after (fail_run d crid (au_actor_id (xs_auth inp)) (au_token_id (xs_auth inp)) code)
            (\<lambda>failed. State_Monad.bind (studio_ask (\<lambda>st. getRun st (bare_run_or_session crid))) (\<lambda>row. case row of
              None \<Rightarrow> State_Monad.return (Done ())
            | Some c \<Rightarrow> if failed then maybeCompleteFlowCallParent True d (au_actor_id (xs_auth inp)) (au_token_id (xs_auth inp)) c RFailed
                else State_Monad.return (Done ()))))) | Inr x \<Rightarrow> State_Monad.return (Done ())))" for step
      by (intro fine_after call) (use failed in \<open>auto split: sum.splits intro: fine_intros\<close>)
    note all = fineD [OF this ok]
    show ?thesis
      using Some ir ok all
      by (simp add: maybeDispatchInitialStartFlow_def result_bind final_bind Let_def)
  qed
qed

lemma fine_at:
  assumes "engine_ok (hb_studio (final m h)) \<and> result m h \<noteq> OutOfFuel" and "\<And>x. fine (f x)"
  shows "engine_ok (hb_studio (final (after m f) h)) \<and> result (after m f) h \<noteq> OutOfFuel"
  using assms fineD by (auto simp: after_result after_final split: outcome.splits)

lemma follow_fine:
  assumes rec: "recurs_fine n recur"
    and new: "\<not> so_deduplicated so \<Longrightarrow> deeper inp (so_run_id so) (hb_studio h)" and ok: "engine_ok (hb_studio h)"
    and fuel: "fuel_for inp < Suc n" "flowCallDepth (xs_exec_context inp) < FLOW_CALL_MAX_DEPTH" and call: "call_ok inp"
  shows "engine_ok (hb_studio (final (follow_child recur d inp e wait ts so) h))
    \<and> result (follow_child recur d inp e wait ts so) h \<noteq> OutOfFuel"
proof -
  let ?log = "if xs_space_id inp \<noteq> [] then append_journal (started_child_event inp (so_run_id so) (fe_flow_id e)) else skip"
  define h1 where "h1 = final ?log h"
  have h: "hb_studio h1 = hb_studio h" by (simp add: h1_def)
  let ?go = "if so_deduplicated so then State_Monad.return (Done ())
     else if so_dispatch so \<noteq> [] then State_Monad.bind (effect (StepsDispatched \<lparr> dc_dispatch = so_dispatch so,
         dc_session_id = xs_session_id inp, dc_run_id = so_run_id so, dc_actor_id = au_actor_id (xs_auth inp),
         dc_token_id = au_token_id (xs_auth inp) \<rparr>)) (\<lambda>_. State_Monad.return (Done ()))
     else maybeDispatchInitialStartFlow recur d (so_run_id so) e inp"
  have "engine_ok (hb_studio (final ?go h1)) \<and> result ?go h1 \<noteq> OutOfFuel"
    using dispatch_fine [where h = h1 and crid = "so_run_id so" and inp = inp and n = n and d = d and e = e, OF rec] new ok fuel h
    by (simp add: result_bind final_bind)
  moreover have "fine (State_Monad.bind (if wait then skip else studio_do (upsertRunStepMemo
      (settled_memo (''run_'' @ xs_run_bare inp) (xs_step_id inp) SCompleted ts None)))
      (\<lambda>_. State_Monad.return (Done (Inr (so_run_id so, wait)))))" for x :: unit
    by (intro fine_intros adds_intros) (use call in \<open>auto simp: call_ok_def\<close>)
  ultimately show ?thesis unfolding follow_child_def final_bind result_bind h1_def by (intro fine_at)
qed

lemma begin_fine:
  assumes rec: "recurs_fine n recur" and ids: "ulids_ok d"
    and fuel: "fuel_for inp < Suc n" "flowCallDepth (xs_exec_context inp) < FLOW_CALL_MAX_DEPTH" and call: "call_ok inp"
  shows "fine (begin_call recur d inp e sf)"
  unfolding fine_def
proof (intro allI impI)
  fix h :: hub
  assume ok: "engine_ok (hb_studio h)"
  let ?fi = "opt_default [] (resolveStepParams (sf_input sf) (xs_exec_context inp) None)"
  let ?memo = "(step_memo_row (''run_'' @ xs_run_bare inp) (xs_step_id inp) SWorking)
    \<lparr> me_started_at := Some (hb_now h), me_idempotency_key := Some (call_key inp) \<rparr>"
  let ?h1 = "final (studio_do (upsertRunStepMemo ?memo)) h"
  let ?start = "startFlowRun d (child_start inp e ?fi)"
  have wf: "run_ref (me_run_id ?memo)" using call by (simp add: call_ok_def step_memo_row_def)
  have ok1: "engine_ok (hb_studio ?h1)"
    using adds_memo [OF wf some_run, of UNIV] ok unfolding adds_def by blast
  have ok2: "engine_ok (hb_studio (final ?start ?h1))"
    using adds_start [OF child_parent_ok [OF call], of some_run UNIV d e ?fi] ok1 unfolding adds_def by blast
  have failed: "fine (State_Monad.bind (studio_do (upsertRunStepMemo
      (settled_memo (''run_'' @ xs_run_bare inp) (xs_step_id inp) SFailed (hb_now h) (Some code))))
      (\<lambda>_. State_Monad.return (Done (Inl (code, message)))))" for code message
    by (intro fine_intros adds_intros) (use call in \<open>auto simp: call_ok_def\<close>)
  define h2 r where "h2 = final ?start ?h1" and "r = result ?start ?h1"
  define go where "go = (case start_error r of
         Some (code, message) \<Rightarrow> State_Monad.bind (studio_do (upsertRunStepMemo
           (settled_memo (''run_'' @ xs_run_bare inp) (xs_step_id inp) SFailed (hb_now h) (Some code))))
           (\<lambda>_. State_Monad.return (Done (Inl (code, message))))
       | None \<Rightarrow> (case r of
             Reply started \<Rightarrow> follow_child recur d inp e (sf_wait sf \<noteq> Some False) (hb_now h) started
           | _ \<Rightarrow> State_Monad.return (Raised ''start failed'')))"
  have same: "final (begin_call recur d inp e sf) h = final go h2" "result (begin_call recur d inp e sf) h = result go h2"
    unfolding begin_call_def Let_def go_def h2_def r_def by (simp_all only: result_bind final_bind run_ops(3,4))
  have "engine_ok (hb_studio (final go h2)) \<and> result go h2 \<noteq> OutOfFuel"
  proof (cases r)
    case (Reply so)
    have "engine_ok (hb_studio (final (follow_child recur d inp e (sf_wait sf \<noteq> Some False) (hb_now h) so) h2))
        \<and> result (follow_child recur d inp e (sf_wait sf \<noteq> Some False) (hb_now h) so) h2 \<noteq> OutOfFuel"
      unfolding h2_def
      by (rule follow_fine [OF rec _ ok2 fuel call]) (rule started_child [OF ids Reply [unfolded r_def]])
    then show ?thesis by (simp add: go_def Reply start_error_def)
  next
    case (Refused code message)
    then show ?thesis using fineD [OF failed ok2] by (simp add: go_def start_error_def h2_def)
  next
    case (AtCapacity x)
    then show ?thesis using fineD [OF failed ok2] by (simp add: go_def start_error_def h2_def)
  qed (use ok2 in \<open>simp_all add: go_def start_error_def h2_def\<close>)
  then show "engine_ok (hb_studio (final (begin_call recur d inp e sf) h)) \<and> result (begin_call recur d inp e sf) h \<noteq> OutOfFuel"
    by (simp only: same simp_thms)
qed

lemma calls_fine:
  assumes ids: "ulids_ok d"
  shows "call_ok inp \<Longrightarrow> fuel_for inp < n \<Longrightarrow> fine (executeStartFlowStep n d inp)"
proof (induction n arbitrary: inp)
  case 0
  then show ?case by simp
next
  case (Suc n)
  show ?case
    unfolding executeStartFlowStep.simps start_flow_body_def Let_def
    by (intro fine_intros adds_intros begin_fine [OF _ ids]) (use Suc in \<open>auto simp: recurs_fine_def\<close>)
qed

lemma startFlowStep_fine: "ulids_ok d \<Longrightarrow> call_ok inp \<Longrightarrow> fine (startFlowStep d inp)"
  unfolding startFlowStep_def by (rule calls_fine) (simp_all add: flow_call_fuel_def fuel_for_def)

section \<open>Resolutions return\<close>

text \<open>The walk up the parents meets ever shorter ids.\<close>

definition within :: "step_catalog \<Rightarrow> string option \<Rightarrow> string set" where
  "within c parent = {i \<in> set (map ce_step_id (ct_entries c)). \<exists>p. parent = Some p \<and> length i \<le> length p}"

lemma within_shrinks:
  assumes "rooted c" and "catalogEntryForStep (Some c) p = Some e"
  shows "card (within c (ce_parent_id e)) < card (within c (Some p))"
proof (rule psubset_card_mono)
  have e: "e \<in> set (ct_entries c)" "ce_step_id e = p"
    using assms(2) by (auto simp: catalogEntryForStep_def find_Some_iff)
  have shorter: "length q < length p" if "ce_parent_id e = Some q" for q
    using assms(1) e that by (auto simp: rooted_def list_all_iff split: option.splits)
  have "p \<in> within c (Some p)" "p \<notin> within c (ce_parent_id e)"
    using e shorter by (force simp: within_def)+
  moreover have "within c (ce_parent_id e) \<subseteq> within c (Some p)"
    using shorter by (fastforce simp: within_def)
  ultimately show "within c (ce_parent_id e) \<subset> within c (Some p)" by blast
  show "finite (within c (Some p))" by (simp add: within_def)
qed

lemma ancestor_returns:
  assumes "rooted c" and "card (within c parent) < n"
  shows "\<exists>b. catalog_ancestor (Suc n) c parent target = Some b"
  using assms(2)
proof (induction n arbitrary: parent)
  case 0
  then show ?case by simp
next
  case (Suc n)
  show ?case
  proof (cases "truthy_str parent \<and> parent \<noteq> Some target")
    case False
    then show ?thesis by (subst catalog_ancestor.simps(2)) auto
  next
    case True
    let ?up = "case catalogEntryForStep (Some c) (the parent) of None \<Rightarrow> None | Some e \<Rightarrow> ce_parent_id e"
    have "\<exists>b. catalog_ancestor (Suc n) c ?up target = Some b"
    proof (cases "catalogEntryForStep (Some c) (the parent)")
      case None
      then show ?thesis by (simp add: truthy_str_def ex_bool_eq)
    next
      case (Some e)
      obtain p where "parent = Some p" using True by (auto simp: truthy_str_def split: option.splits)
      then show ?thesis using Suc.IH [of "ce_parent_id e"] Some within_shrinks [OF assms(1), of p e] Suc.prems by simp
    qed
    then show ?thesis using True by (subst catalog_ancestor.simps(2)) simp
  qed
qed

lemma is_ancestor_returns:
  assumes "rooted c"
  shows "isCatalogAncestor c e target \<noteq> None"
proof -
  have "card (within c (ce_parent_id e)) \<le> card (set (map ce_step_id (ct_entries c)))"
    by (rule card_mono) (auto simp: within_def)
  moreover have "card (set (map ce_step_id (ct_entries c))) \<le> length (ct_entries c)"
    using card_length [of "map ce_step_id (ct_entries c)"] by simp
  ultimately obtain b where "isCatalogAncestor c e target = Some b"
    using ancestor_returns [OF assms, of "ce_parent_id e" "Suc (length (ct_entries c))" target]
    unfolding isCatalogAncestor_def by auto
  then show ?thesis by simp
qed

lemma fine_more [fine_intros]:
  "fine (refuse c msg n)" "fine (convene_for_step d cl e s facet ctx)"
proof -
  show "fine (refuse c msg n)" by (simp add: fine_def refuse_def)
  have "same view (convene_for_step d cl e s facet ctx)" by (intro same_intros)
  then show "fine (convene_for_step d cl e s facet ctx)"
    using kept(1) by (auto simp: fine_def convene_for_step_def result_bind final_bind Let_def split: option.splits)
qed

lemma fine_open [fine_intros]:
  assumes "run_ref (cl_run_id cl)" and "parent_ok ctx"
  shows "fine (openStepContract d cl s e ctx reason persisted)"
  unfolding openStepContract_def Let_def stored_iterations_def
  by (intro fine_intros adds_intros) (use assms in \<open>auto\<close>)

lemma fine_resume [fine_intros]:
  assumes "run_ref (cl_run_id cl)" and "parent_ok ctx"
  shows "fine (resume_ancestor d cl catalog ctx target rc)"
  unfolding resume_ancestor_def prod.case
  by (intro fine_intros adds_intros) (use assms in \<open>auto\<close>)

lemma fine_complete_run [fine_intros]: "fine (completeRunIfFinished d cl catalog)"
  unfolding completeRunIfFinished_def Let_def
  by (intro fine_intros adds_intros) (auto intro: ok_run_parent)

lemma fine_ir [fine_intros]:
  assumes "ulids_ok d" and "run_ref (cl_run_id cl)"
  shows "fine (openIrStepAfterResolve d cl s ctx)"
  unfolding openIrStepAfterResolve_def Let_def
  by (intro fine_intros adds_intros startFlowStep_fine) (use assms in \<open>auto simp: call_ok_def elim!: run_refE\<close>)

lemma fine_routes [fine_intros]:
  assumes "ulids_ok d" and "run_ref (cl_run_id cl)" and "parent_ok ctx"
  shows "fine (applyResolvedRoutes d cl catalog routes ctx s rc)"
  unfolding applyResolvedRoutes_def open_next_def
  by (intro fine_intros adds_intros) (use assms in \<open>auto\<close>)

lemma fine_commit [fine_intros]:
  assumes "ulids_ok d" and "run_ref (cl_run_id cl)" and "parent_ok ctx"
  shows "fine (commit_resolution d cl run catalog e s body routes ts ctx)"
  unfolding commit_resolution_def Let_def
  by (intro fine_intros adds_intros) (use assms in \<open>auto simp: step_memo_row_def\<close>)

lemma fine_sum [fine_intros]:
  "(\<And>x. z = Inl x \<Longrightarrow> fine (f x)) \<Longrightarrow> (\<And>x. z = Inr x \<Longrightarrow> fine (g x)) \<Longrightarrow> fine (case z of Inl x \<Rightarrow> f x | Inr x \<Rightarrow> g x)"
  by (cases z) auto

lemma resume_returns: "rooted c \<Longrightarrow> resume_problem c e memos s target \<noteq> None"
  using is_ancestor_returns [of c e target] by (auto simp: resume_problem_def split: bool.splits)

lemma resolve_fine:
  assumes "ulids_ok d" and "run_ref (cl_run_id cl)"
  shows "fine (resolveFlowStep d cl s body)"
proof -
  have rooted: "rooted c" if "engine_ok (hb_studio h)"
    "(case getFlowIndexEntry (hb_studio h) f sp of None \<Rightarrow> None | Some e \<Rightarrow> fe_catalog e) = Some c" for h :: hub and f sp c
    using that index_value by (fastforce simp: engine_ok_def rooted_entry_def list_all_iff split: option.splits)
  have never: "fine m" if "engine_ok (hb_studio h)"
    "(case getFlowIndexEntry (hb_studio h) f sp of None \<Rightarrow> None | Some e \<Rightarrow> fe_catalog e) = Some c"
    "resume_problem c e memos s t = None" for h :: hub and f sp c e memos s t and m :: "'a outcome hub_op"
    using rooted [OF that(1,2)] that(3) resume_returns by blast
  show ?thesis
    unfolding resolveFlowStep_def resolve_step_memo_def resolve_active_def promote_and_commit_def Let_def
    by (intro fine_intros adds_intros)
      (use assms ok_run_parent in \<open>auto split: if_splits intro: never\<close>)
qed

end
