(* ===== verification/Credentials.thy ===== *)
theory Credentials
  imports RunService
begin

text \<open>
  The registry of ephemeral resolve credentials, \<open>hub-core/src/invoke/run-resolve-credential-registry.ts\<close>.
  Two maps, by run and step and by run, hold mutable sets of token ids; the handle a registration
  returns keeps references to the two sets it used, which may have left the maps since. So the sets
  live in a store and the maps and handles hold addresses. \<open>cg_revoked\<close> logs the tokens given to the
  installed revoker.
\<close>

record credentials =
  cg_store :: "(nat, string list) jsmap"
  cg_byRunStep :: "(string, nat) jsmap"
  cg_byRun :: "(string, nat) jsmap"
  cg_next :: nat
  cg_revoker :: bool
  cg_revoked :: "string list"

definition init_credentials :: credentials where
  "init_credentials = \<lparr> cg_store = [], cg_byRunStep = [], cg_byRun = [], cg_next = 0, cg_revoker = False,
     cg_revoked = [] \<rparr>"

definition bareToken :: "string \<Rightarrow> string" where "bareToken i = bare_with ''tok_'' i"

definition stepKey :: "string \<Rightarrow> string \<Rightarrow> string" where
  "stepKey run_id step_id = prefixedRun run_id @ '':'' @ step_id"

definition set_at :: "credentials \<Rightarrow> nat \<Rightarrow> string list" where
  "set_at c a = opt_default [] (js_get (cg_store c) a)"

definition put_set :: "nat \<Rightarrow> string list \<Rightarrow> credentials \<Rightarrow> credentials" where
  "put_set a xs c = c\<lparr> cg_store := js_set a xs (cg_store c) \<rparr>"

definition setResolveCredentialRevoker :: "bool \<Rightarrow> credentials \<Rightarrow> credentials" where
  "setResolveCredentialRevoker installed c = c\<lparr> cg_revoker := installed \<rparr>"

text \<open>\<open>if (!set) { set = new Set(); map.set(key, set); }\<close>: the address and the state.\<close>

definition step_set :: "string \<Rightarrow> credentials \<Rightarrow> nat \<times> credentials" where
  "step_set sk c =
     (case js_get (cg_byRunStep c) sk of
        Some a \<Rightarrow> (a, c)
      | None \<Rightarrow> (cg_next c, c\<lparr> cg_store := js_set (cg_next c) [] (cg_store c),
          cg_byRunStep := js_set sk (cg_next c) (cg_byRunStep c), cg_next := Suc (cg_next c) \<rparr>))"

definition run_set :: "string \<Rightarrow> credentials \<Rightarrow> nat \<times> credentials" where
  "run_set run c =
     (case js_get (cg_byRun c) run of
        Some a \<Rightarrow> (a, c)
      | None \<Rightarrow> (cg_next c, c\<lparr> cg_store := js_set (cg_next c) [] (cg_store c),
          cg_byRun := js_set run (cg_next c) (cg_byRun c), cg_next := Suc (cg_next c) \<rparr>))"

definition add_to :: "nat \<Rightarrow> string \<Rightarrow> credentials \<Rightarrow> credentials" where
  "add_to a tok c = put_set a (if tok \<in> set (set_at c a) then set_at c a else set_at c a @ [tok]) c"

definition remove_from :: "nat \<Rightarrow> string \<Rightarrow> credentials \<Rightarrow> credentials" where
  "remove_from a tok c = put_set a (removeAll tok (set_at c a)) c"

record credential_handle =
  ch_step_key :: string
  ch_run :: string
  ch_step_set :: nat
  ch_run_set :: nat
  ch_token :: string

definition registerResolveCredential ::
    "string \<Rightarrow> string \<Rightarrow> string \<Rightarrow> credentials \<Rightarrow> credential_handle \<times> credentials" where
  "registerResolveCredential run_id step_id token_id c =
     (let bare = bareToken token_id; run = prefixedRun run_id; sk = stepKey run_id step_id;
          (sa, c1) = step_set sk c; c2 = add_to sa bare c1; (ra, c3) = run_set run c2 in
      (\<lparr> ch_step_key = sk, ch_run = run, ch_step_set = sa, ch_run_set = ra, ch_token = bare \<rparr>,
       add_to ra bare c3))"

definition unregister :: "credential_handle \<Rightarrow> credentials \<Rightarrow> credentials" where
  "unregister h c =
     (let c1 = remove_from (ch_step_set h) (ch_token h) c;
          c2 = (if set_at c1 (ch_step_set h) = [] then c1\<lparr> cg_byRunStep := js_delete (ch_step_key h) (cg_byRunStep c1) \<rparr>
                else c1);
          c3 = remove_from (ch_run_set h) (ch_token h) c2 in
      if set_at c3 (ch_run_set h) = [] then c3\<lparr> cg_byRun := js_delete (ch_run h) (cg_byRun c3) \<rparr> else c3)"

definition revokeIds :: "string list \<Rightarrow> credentials \<Rightarrow> credentials" where
  "revokeIds ids c = (if cg_revoker c then c\<lparr> cg_revoked := cg_revoked c @ ids \<rparr> else c)"

text \<open>The \<open>for\<close> loop deletes from the run's set, if there still is one.\<close>

definition drop_from_run :: "string \<Rightarrow> string list \<Rightarrow> credentials \<Rightarrow> credentials" where
  "drop_from_run run ids c =
     (case js_get (cg_byRun c) run of
        None \<Rightarrow> c
      | Some a \<Rightarrow>
          (let c1 = fold (remove_from a) ids c in
           if set_at c1 a = [] then c1\<lparr> cg_byRun := js_delete run (cg_byRun c1) \<rparr> else c1))"

definition revokeStepResolveCredentials :: "string \<Rightarrow> string \<Rightarrow> credentials \<Rightarrow> nat \<times> credentials" where
  "revokeStepResolveCredentials run_id step_id c =
     (case js_get (cg_byRunStep c) (stepKey run_id step_id) of
        None \<Rightarrow> (0, c)
      | Some a \<Rightarrow>
          (let ids = set_at c a;
               c1 = c\<lparr> cg_byRunStep := js_delete (stepKey run_id step_id) (cg_byRunStep c) \<rparr> in
           (length ids, revokeIds ids (drop_from_run (prefixedRun run_id) ids c1))))"

definition revokeRunResolveCredentials :: "string \<Rightarrow> credentials \<Rightarrow> nat \<times> credentials" where
  "revokeRunResolveCredentials run_id c =
     (let run = prefixedRun run_id in
      case js_get (cg_byRun c) run of
        None \<Rightarrow> (0, c)
      | Some a \<Rightarrow>
          (length (set_at c a),
           revokeIds (set_at c a)
             (c\<lparr> cg_byRun := js_delete run (cg_byRun c),
                 cg_byRunStep := filter (\<lambda>(k, _). \<not> starts_with k (run @ '':'')) (cg_byRunStep c) \<rparr>)))"

definition revokeAllResolveCredentials :: "credentials \<Rightarrow> nat \<times> credentials" where
  "revokeAllResolveCredentials c =
     (let ids = remdups (concat (map (\<lambda>(_, a). set_at c a) (cg_byRunStep c))) in
      (length ids, revokeIds ids (c\<lparr> cg_byRunStep := [], cg_byRun := [] \<rparr>)))"

definition clearResolveCredentialRegistry :: "credentials \<Rightarrow> credentials" where
  "clearResolveCredentialRegistry c = c\<lparr> cg_byRunStep := [], cg_byRun := [], cg_revoker := False \<rparr>"

definition listRegisteredResolveCredentials :: "credentials \<Rightarrow> (string \<times> string \<times> string list) list" where
  "listRegisteredResolveCredentials c =
     map (\<lambda>(sk, a). (takeWhile (\<lambda>ch. ch \<noteq> CHR '':'') sk, drop 1 (dropWhile (\<lambda>ch. ch \<noteq> CHR '':'') sk), set_at c a))
       (cg_byRunStep c)"

section \<open>Nothing registered is lost\<close>

text \<open>
  The operations the hub performs on the registry. \<open>ok\<close> keeps the sets of different runs and steps
  apart; \<open>covered\<close> says that a token of a run is in the run's set or was revoked.
\<close>

datatype credential_op =
    Register string string string
  | RevokeStep string string
  | RevokeRun string

fun credential_step :: "credential_op \<Rightarrow> credentials \<Rightarrow> credentials" where
  "credential_step (Register run step tok) c = snd (registerResolveCredential run step tok c)"
| "credential_step (RevokeStep run step) c = snd (revokeStepResolveCredentials run step c)"
| "credential_step (RevokeRun run) c = snd (revokeRunResolveCredentials run c)"

definition addresses :: "credentials \<Rightarrow> (string + string) \<Rightarrow> nat option" where
  "addresses c k = (case k of Inl sk \<Rightarrow> js_get (cg_byRunStep c) sk | Inr run \<Rightarrow> js_get (cg_byRun c) run)"

definition registry_apart :: "credentials \<Rightarrow> bool" where
  "registry_apart c \<longleftrightarrow> cg_revoker c
     \<and> (\<forall>k a. addresses c k = Some a \<longrightarrow> a < cg_next c)
     \<and> (\<forall>k k' a. addresses c k = Some a \<and> addresses c k' = Some a \<longrightarrow> k = k')"

definition covered :: "credentials \<Rightarrow> string \<Rightarrow> string \<Rightarrow> bool" where
  "covered c run tok \<longleftrightarrow> tok \<in> set (cg_revoked c)
     \<or> (\<exists>a. js_get (cg_byRun c) run = Some a \<and> tok \<in> set (set_at c a))"

lemma set_at_put [simp]: "set_at (put_set a xs c) b = (if b = a then xs else set_at c b)"
  by (simp add: set_at_def put_set_def opt_default_def)

lemma put_set_fields [simp]:
  "cg_byRunStep (put_set a xs c) = cg_byRunStep c" "cg_byRun (put_set a xs c) = cg_byRun c"
  "cg_next (put_set a xs c) = cg_next c" "cg_revoker (put_set a xs c) = cg_revoker c"
  "cg_revoked (put_set a xs c) = cg_revoked c"
  by (simp_all add: put_set_def)

lemma set_at_fields [simp]:
  "set_at (c\<lparr> cg_byRun := m \<rparr>) a = set_at c a" "set_at (c\<lparr> cg_byRunStep := m \<rparr>) a = set_at c a"
  "set_at (c\<lparr> cg_revoked := r \<rparr>) a = set_at c a"
  by (simp_all add: set_at_def)

lemma add_fields [simp]:
  "cg_byRunStep (add_to a t c) = cg_byRunStep c" "cg_byRun (add_to a t c) = cg_byRun c"
  "cg_next (add_to a t c) = cg_next c" "cg_revoker (add_to a t c) = cg_revoker c"
  "cg_revoked (add_to a t c) = cg_revoked c"
  "set (set_at (add_to a t c) b) = (if b = a then insert t (set (set_at c b)) else set (set_at c b))"
  by (auto simp: add_to_def)

lemma remove_fields [simp]:
  "cg_byRunStep (fold (remove_from a) ids c) = cg_byRunStep c" "cg_byRun (fold (remove_from a) ids c) = cg_byRun c"
  "cg_next (fold (remove_from a) ids c) = cg_next c" "cg_revoker (fold (remove_from a) ids c) = cg_revoker c"
  "cg_revoked (fold (remove_from a) ids c) = cg_revoked c"
  "set (set_at (fold (remove_from a) ids c) b) =
     (if b = a then set (set_at c b) - set ids else set (set_at c b))"
  by (induction ids arbitrary: c) (auto simp: remove_from_def)

lemma apart_sub:
  assumes "registry_apart c" and "cg_next c' = cg_next c" and "cg_revoker c' = cg_revoker c"
    and "\<And>k a. addresses c' k = Some a \<Longrightarrow> addresses c k = Some a"
  shows "registry_apart c'"
  using assms unfolding registry_apart_def by metis

text \<open>A new set has a new address.\<close>

lemma new_set_apart:
  assumes "registry_apart c" and "cg_revoker c' = cg_revoker c"
    and "(addresses c k = Some a \<and> cg_next c' = cg_next c \<and> addresses c' = addresses c)
      \<or> (a = cg_next c \<and> cg_next c' = Suc (cg_next c) \<and> addresses c' = (addresses c)(k := Some a))"
  shows "registry_apart c'"
  using assms(3)
proof
  assume "addresses c k = Some a \<and> cg_next c' = cg_next c \<and> addresses c' = addresses c"
  then show ?thesis using assms(1,2) by (simp add: registry_apart_def)
next
  assume new: "a = cg_next c \<and> cg_next c' = Suc (cg_next c) \<and> addresses c' = (addresses c)(k := Some a)"
  have old: "addresses c k = Some x \<Longrightarrow> x < cg_next c" for k x
    using assms(1) by (simp add: registry_apart_def)
  have "addresses c' j = Some x \<Longrightarrow> x < cg_next c'" for j x
    using new old [of j x] by (auto split: if_splits)
  moreover have "addresses c' j = Some x \<Longrightarrow> addresses c' i = Some x \<Longrightarrow> i = j" for i j x
    using new old [of j x] old [of i x] assms(1) by (auto simp: registry_apart_def split: if_splits)
  ultimately show ?thesis using assms(1,2) by (simp add: registry_apart_def)
qed

lemma addresses_eqI:
  "(\<And>sk. f (Inl sk) = js_get (cg_byRunStep c) sk) \<Longrightarrow> (\<And>run. f (Inr run) = js_get (cg_byRun c) run) \<Longrightarrow> addresses c = f"
  by (rule ext) (simp add: addresses_def split: sum.splits)

lemma step_set_facts:
  assumes "registry_apart c" and "step_set sk c = (a, c')"
  shows "registry_apart c'" "js_get (cg_byRunStep c') sk = Some a" "cg_byRun c' = cg_byRun c"
    "cg_revoked c' = cg_revoked c" "a < cg_next c'"
    "js_get (cg_byRun c) run = Some b \<Longrightarrow> set_at c' b = set_at c b"
proof -
  have below: "addresses c k = Some x \<Longrightarrow> x < cg_next c" for k x
    using assms(1) by (simp add: registry_apart_def)
  have runs: "js_get (cg_byRun c) r = Some x \<Longrightarrow> x < cg_next c" for r x
    using below [of "Inr r" x] by (simp add: addresses_def)
  show "registry_apart c'"
    by (rule new_set_apart [OF assms(1), of c' "Inl sk" a])
       (use assms(2) in \<open>auto simp: step_set_def addresses_def intro!: addresses_eqI split: option.splits\<close>)
  show "js_get (cg_byRunStep c') sk = Some a" "cg_byRun c' = cg_byRun c" "cg_revoked c' = cg_revoked c"
    using assms(2) by (auto simp: step_set_def split: option.splits)
  show "a < cg_next c'"
    using assms(2) below [of "Inl sk"] by (auto simp: step_set_def addresses_def split: option.splits)
  show "set_at c' b = set_at c b" if "js_get (cg_byRun c) run = Some b"
    using assms(2) runs [OF that] by (auto simp: step_set_def set_at_def split: option.splits)
qed

lemma run_set_facts:
  assumes "registry_apart c" and "run_set run c = (a, c')"
  shows "registry_apart c'" "js_get (cg_byRun c') run = Some a" "cg_revoked c' = cg_revoked c"
    "js_get (cg_byRun c) r = Some b \<Longrightarrow> js_get (cg_byRun c') r = Some b \<and> set_at c' b = set_at c b"
proof -
  have below: "addresses c k = Some x \<Longrightarrow> x < cg_next c" for k x
    using assms(1) by (simp add: registry_apart_def)
  show "registry_apart c'"
    by (rule new_set_apart [OF assms(1), of c' "Inr run" a])
       (use assms(2) in \<open>auto simp: run_set_def addresses_def intro!: addresses_eqI split: option.splits\<close>)
  show "js_get (cg_byRun c') run = Some a" "cg_revoked c' = cg_revoked c"
    using assms(2) by (auto simp: run_set_def split: option.splits)
  show "js_get (cg_byRun c') r = Some b \<and> set_at c' b = set_at c b" if "js_get (cg_byRun c) r = Some b"
    using assms(2) that below [of "Inr r"] by (auto simp: run_set_def set_at_def addresses_def split: option.splits)
qed

lemma register_covers:
  assumes "registry_apart c" and "registerResolveCredential run step tok c = (h, c')"
  shows "registry_apart c'" "covered c' (prefixedRun run) (bareToken tok)"
    "covered c r t \<Longrightarrow> covered c' r t"
proof -
  obtain sa c1 where s: "step_set (stepKey run step) c = (sa, c1)" by fastforce
  let ?c2 = "add_to sa (bareToken tok) c1"
  obtain ra c3 where r: "run_set (prefixedRun run) ?c2 = (ra, c3)" by fastforce
  have c': "c' = add_to ra (bareToken tok) c3"
    using assms(2) s r by (auto simp: registerResolveCredential_def Let_def)
  note f1 = step_set_facts [OF assms(1) s]
  have ap2: "registry_apart ?c2" by (rule apart_sub [OF f1(1)]) (auto simp: addresses_def split: sum.splits)
  note f2 = run_set_facts [OF ap2 r]
  show "registry_apart c'" unfolding c' by (rule apart_sub [OF f2(1)]) (auto simp: addresses_def split: sum.splits)
  show "covered c' (prefixedRun run) (bareToken tok)" using f2(2) by (simp add: covered_def c')
  show "covered c' r t" if "covered c r t"
    using that unfolding covered_def
  proof (elim disjE exE conjE)
    assume "t \<in> set (cg_revoked c)"
    then show "t \<in> set (cg_revoked c') \<or> (\<exists>a. js_get (cg_byRun c') r = Some a \<and> t \<in> set (set_at c' a))"
      using f1(4) f2(3) by (simp add: c')
  next
    fix a
    assume a: "js_get (cg_byRun c) r = Some a" "t \<in> set (set_at c a)"
    have "js_get (cg_byRun ?c2) r = Some a" using f1(3) a by simp
    moreover have "t \<in> set (set_at ?c2 a)" using f1(6) [OF a(1)] a(2) by auto
    ultimately have "js_get (cg_byRun c3) r = Some a \<and> t \<in> set (set_at c3 a)" using f2(4) by force
    then show "t \<in> set (cg_revoked c') \<or> (\<exists>a. js_get (cg_byRun c') r = Some a \<and> t \<in> set (set_at c' a))"
      by (auto simp: c')
  qed
qed

lemma revoke_fields [simp]:
  "addresses (revokeIds ids c) = addresses c" "cg_next (revokeIds ids c) = cg_next c"
  "cg_revoker (revokeIds ids c) = cg_revoker c" "cg_byRun (revokeIds ids c) = cg_byRun c"
  "cg_byRunStep (revokeIds ids c) = cg_byRunStep c"
  "set_at (revokeIds ids c) a = set_at c a"
  "cg_revoker c \<Longrightarrow> cg_revoked (revokeIds ids c) = cg_revoked c @ ids"
  by (auto simp: revokeIds_def addresses_def fun_eq_iff split: sum.splits)

lemma revoke_step_covers:
  fixes run step
  assumes "registry_apart c"
  defines "c' \<equiv> snd (revokeStepResolveCredentials run step c)"
  shows "registry_apart c'" "covered c r t \<Longrightarrow> covered c' r t"
proof -
  have on: "cg_revoker c" using assms(1) by (simp add: registry_apart_def)
  show "registry_apart c'"
    by (rule apart_sub [OF assms(1)])
       (auto simp: c'_def revokeStepResolveCredentials_def drop_from_run_def addresses_def Let_def
          split: option.splits sum.splits if_splits)
  show "covered c' r t" if "covered c r t"
    using that on unfolding covered_def c'_def revokeStepResolveCredentials_def drop_from_run_def
    by (auto simp: Let_def dest!: arg_cong [where f = set and x = "set_at _ _"] split: option.splits)
qed

lemma revoke_run_covers:
  fixes run
  assumes "registry_apart c"
  defines "c' \<equiv> snd (revokeRunResolveCredentials run c)"
  shows "registry_apart c'" "covered c r t \<Longrightarrow> covered c' r t"
    "covered c (prefixedRun run) t \<Longrightarrow> t \<in> set (cg_revoked c')"
proof -
  have on: "cg_revoker c" using assms(1) by (simp add: registry_apart_def)
  have sub: "js_get (filter (\<lambda>(k, _). P k) m) k = Some v \<Longrightarrow> js_get m k = Some v"
    for P k v and m :: "(string, nat) jsmap"
  proof -
    have "js_get (filter (\<lambda>(k, _). P k) m) k = (if P k then js_get m k else None)"
      by (induction m) (auto simp: js_get_def)
    then show "js_get (filter (\<lambda>(k, _). P k) m) k = Some v \<Longrightarrow> js_get m k = Some v" by (simp split: if_splits)
  qed
  show "registry_apart c'"
    by (rule apart_sub [OF assms(1)])
       (auto simp: c'_def revokeRunResolveCredentials_def addresses_def Let_def
          dest: sub split: option.splits sum.splits if_splits)
  show "covered c' r t" if "covered c r t"
    using that on unfolding covered_def c'_def revokeRunResolveCredentials_def
    by (auto simp: Let_def split: option.splits)
  show "t \<in> set (cg_revoked c')" if "covered c (prefixedRun run) t"
    using that on unfolding covered_def c'_def revokeRunResolveCredentials_def
    by (auto simp: Let_def split: option.splits)
qed

definition registry_grows :: "credentials \<Rightarrow> credentials \<Rightarrow> bool" where
  "registry_grows c c' \<longleftrightarrow> (\<forall>run tok. covered c run tok \<longrightarrow> covered c' run tok)"

interpretation credential_run: monotone_system credential_step registry_apart registry_grows
proof
  fix c :: credentials and x
  assume ok: "registry_apart c"
  show "registry_apart (credential_step x c)"
    using ok register_covers(1) revoke_step_covers(1) revoke_run_covers(1)
    by (cases x) (simp_all, metis prod.collapse)
  show "registry_grows c (credential_step x c)"
    unfolding registry_grows_def
    using ok register_covers(3) revoke_step_covers(2) revoke_run_covers(2)
    by (cases x) (simp_all, metis prod.collapse)
qed (auto simp: registry_grows_def)

lemma registered_covered:
  assumes "registry_apart c" and "Register run step tok \<in> set ops"
  shows "covered (fold credential_step ops c) (prefixedRun run) (bareToken tok)"
proof -
  obtain before after where ops: "ops = before @ Register run step tok # after"
    using assms(2) by (meson split_list)
  let ?b = "fold credential_step before c"
  let ?r = "credential_step (Register run step tok) ?b"
  have apart: "registry_apart ?b" by (rule credential_run.run_inv [OF assms(1)])
  have "covered ?r (prefixedRun run) (bareToken tok)"
    using register_covers(2) [OF apart] by (simp, metis prod.collapse)
  moreover have "registry_grows ?r (fold credential_step after ?r)"
    by (rule credential_run.run_grows [OF credential_run.step_inv [OF apart]])
  ultimately show ?thesis by (simp add: ops registry_grows_def)
qed

lemma registered_revoked: "cg_revoked (snd (registerResolveCredential run step tok c)) = cg_revoked c"
  by (auto simp: registerResolveCredential_def step_set_def run_set_def Let_def split: option.splits prod.splits)

lemma revoked_grow:
  assumes "registry_apart c" and "t \<in> set (cg_revoked c)"
  shows "t \<in> set (cg_revoked (credential_step x c))"
  using assms
  by (cases x) (auto simp: registered_revoked registry_apart_def revokeStepResolveCredentials_def
      revokeRunResolveCredentials_def drop_from_run_def Let_def split: option.splits)

lemma revoked_stay:
  "registry_apart c \<Longrightarrow> t \<in> set (cg_revoked c) \<Longrightarrow> t \<in> set (cg_revoked (fold credential_step ops c))"
proof (induction ops arbitrary: c)
  case (Cons x ops)
  then show ?case using revoked_grow credential_run.step_inv by simp
qed simp

end
