(* ===== verification/EngineSamples.thy ===== *)
theory EngineSamples
  imports StepResolve Credentials
begin

text \<open>
  Concrete flows for the properties of the step engine: a flow of two steps with a loop, a parent with
  a nested step, and a flow that calls another one and then has a step of its own.
\<close>

definition sample_engine :: engine_deps where
  "sample_engine = \<lparr> rd_ulid = (\<lambda>n. ''0123456789012345678901234'' @ [digit_char (n mod 10)]),
     rd_instance_create = (\<lambda>_ _ _ _. None), en_ajv = (\<lambda>_. Inr (\<lambda>_. None)),
     en_handler_digest = (\<lambda>_. ''sha256:''), en_request_digest = (\<lambda>p c. p @ ''>'' @ c),
     en_promote = (\<lambda>_ _ _ _ _. Inr []), en_convene = (\<lambda>_. None),
     en_flow_auth = (\<lambda>_. \<lparr> au_actor_id = ''alice'', au_token_id = ''t'', au_capabilities = [''flow:run''],
       au_flow_acl = None \<rparr>) \<rparr>"

definition plain_branch :: "catalog_route \<Rightarrow> catalog_branch" where
  "plain_branch r = \<lparr> cb_schema_ref = None, cb_schema = None, cb_payload_required = [], cb_artifact_required = [],
     cb_artifact_slots = [], cb_routes = [r] \<rparr>"

definition finish_route :: catalog_route where
  "finish_route = \<lparr> rt_engine = Advance, rt_step_id = None \<rparr>"

definition sample_step :: "string \<Rightarrow> string option \<Rightarrow> (string \<times> catalog_route) list \<Rightarrow> catalog_entry" where
  "sample_step i parent routes = \<lparr> ce_step_id = i, ce_parent_id = parent, ce_description = None,
     ce_branches = map (\<lambda>(b, r). (b, plain_branch r)) routes, ce_meeting = None \<rparr>"

definition sample_catalog :: "catalog_entry list \<Rightarrow> step_catalog" where
  "sample_catalog es = \<lparr> ct_flow_id = ''flw_x'', ct_entries = es, ct_step_ids = map ce_step_id es,
     ct_graph_digest = ''g'', ct_digest = ''d'' \<rparr>"

definition contract_step :: "string \<Rightarrow> string option \<Rightarrow> step_ir" where
  "contract_step i parent = (ir_step i KStepContract)
     \<lparr> ir_step_contract := Some \<lparr> ic_qualified_id = i, ic_parent_id = parent \<rparr> \<rparr>"

definition sample_ir :: "string \<Rightarrow> step_ir list \<Rightarrow> flow_ir" where
  "sample_ir flow_id steps = \<lparr> fi_flow_id = flow_id, fi_name = flow_id,
     fi_triggers = \<lparr> sc_manual = Some True, sc_flow_call = None, sc_events = None, sc_schedule = None, sc_idempotency = None \<rparr>,
     fi_steps = steps, fi_digest = ''i'' \<rparr>"

definition sample_flow_entry :: "string \<Rightarrow> step_ir list \<Rightarrow> catalog_entry list \<Rightarrow> flow_index_entry" where
  "sample_flow_entry flow_id steps es = \<lparr> fe_flow_id = flow_id, fe_origin_space_id = ''spc_a'', fe_name = flow_id,
     fe_digest = ''d'', fe_triggers = Some (fi_triggers (sample_ir flow_id steps)), fe_ir = Some (sample_ir flow_id steps),
     fe_catalog = (if es = [] then None else Some (sample_catalog es)) \<rparr>"

text \<open>\<open>a\<close> goes on to \<open>b\<close>, back to itself or ends the run; \<open>b\<close> goes back to \<open>a\<close> or ends the run.\<close>

definition loop_steps :: "catalog_entry list" where
  "loop_steps =
     [sample_step ''a'' None [(''ok'', route_to Open ''b''), (''again'', route_to Open ''a''), (''done'', finish_route)],
      sample_step ''b'' None [(''back'', route_to Open ''a''), (''done'', finish_route)]]"

definition nested_steps :: "catalog_entry list" where
  "nested_steps =
     [sample_step ''p'' None [(''done'', finish_route)],
      sample_step ''p.c'' (Some ''p'') [(''ret'', route_to Resume ''p''), (''done'', finish_route)]]"

definition calling_ir :: "step_ir list" where
  "calling_ir =
     [(ir_step ''call'' KStartFlow)\<lparr> ir_start_flow := Some \<lparr> sf_flow_id = ''child'', sf_input = None, sf_wait = Some True,
        sf_continue_on_error = Some False \<rparr> \<rparr>,
      contract_step ''publish'' None]"

definition calling_steps :: "catalog_entry list" where
  "calling_steps = [sample_step ''publish'' None [(''done'', finish_route)]]"

definition sample_session_row :: session_row where
  "sample_session_row = \<lparr> ss_session_id = ''s'', ss_title = ''t'', ss_subject = None, ss_status = SsActive,
     ss_created_by = ByActor ''alice'', ss_spaces_touched = [''a''], ss_actor_id = ''alice'',
     ss_cancel_requested_at = None \<rparr>"

definition engine_hub :: hub where
  "engine_hub = \<lparr> hb_studio = \<lparr> sd_spaces = [], sd_grants = [], sd_bindings = [], sd_hooks = [], sd_personas = [], sd_run_policies = [],
       sd_flow_index = [(''a:loop'', sample_flow_entry ''loop'' [contract_step ''a'' None, contract_step ''b'' None] loop_steps),
         (''a:nested'', sample_flow_entry ''nested'' [contract_step ''p'' None, contract_step ''p.c'' (Some ''p'')] nested_steps),
         (''a:calling'', sample_flow_entry ''calling'' calling_ir calling_steps),
         (''a:child'', sample_flow_entry ''child'' [contract_step ''p'' None] [sample_step ''p'' None [(''done'', finish_route)]])],
       sd_sessions = [(''s'', sample_session_row)], sd_runs = [], sd_memos = [], sd_gates = [], sd_notifications = [] \<rparr>,
     hb_journal = [], hb_terminated = [], hb_effects = [], hb_now = 7, hb_next_id = 0 \<rparr>"

definition sample_start_input :: "string \<Rightarrow> start_flow_input" where
  "sample_start_input flow_id = \<lparr> sf_entry_flow_id = flow_id, sf_entry_digest = ''d'', sf_space_id = ''spc_a'',
     sf_actor_id = ''alice'', sf_token_id = ''t'', sf_capabilities = [''flow:run''], sf_flow_acl = None,
     sf_flow_input = None, sf_session_id = Some ''ses_s'', sf_idempotency_header = None, sf_mode = StartManual,
     sf_event_type = None, sf_event_source = None, sf_reference_run_ids = None, sf_exec_context = None \<rparr>"

definition run0 :: string where "run0 = ''01234567890123456789012340''"
definition run1 :: string where "run1 = ''01234567890123456789012341''"

definition sample_caller :: "string \<Rightarrow> caller" where
  "sample_caller bare = \<lparr> cl_run_id = ''run_'' @ bare, cl_session_id = Some ''ses_s'', cl_space_id = ''spc_a'',
     cl_actor_id = ''alice'', cl_token_id = ''t'' \<rparr>"

definition body_of :: "string \<Rightarrow> string option \<Rightarrow> resolve_body" where
  "body_of branch key = \<lparr> rb_branch = branch, rb_payload = None, rb_artifacts_out = None, rb_idempotency_key = key \<rparr>"

definition started :: "string \<Rightarrow> hub" where
  "started flow_id =
     final (bootstrapStepContractFlow sample_engine (sample_caller run0))
       (final (startFlowRun sample_engine (sample_start_input flow_id)) engine_hub)"

definition resolve0 :: "string \<Rightarrow> string \<Rightarrow> string option \<Rightarrow> hub \<Rightarrow> hub" where
  "resolve0 step branch key = final (resolveFlowStep sample_engine (sample_caller run0) step (body_of branch key))"

definition answer0 :: "string \<Rightarrow> string \<Rightarrow> string option \<Rightarrow> hub \<Rightarrow> (refusal + step_status) outcome" where
  "answer0 step branch key = result (resolveFlowStep sample_engine (sample_caller run0) step (body_of branch key))"

definition status_of :: "hub \<Rightarrow> string \<Rightarrow> string \<Rightarrow> step_status option" where
  "status_of h bare step = map_option me_status (memo_for (listRunStepMemos (hb_studio h) (''run_'' @ bare)) step)"

definition lifecycle_of :: "hub \<Rightarrow> string \<Rightarrow> run_lifecycle option" where
  "lifecycle_of h bare = map_option rr_lifecycle (getRun (hb_studio h) bare)"

end
