(* ===== verification/EngineProperties.thy ===== *)
theory EngineProperties
  imports FlowCallProofs EngineSamples
begin

text \<open>
  The properties of the step engine, each with a concrete instance: flows of the samples, started and
  driven by the operations of the engine.
\<close>

section \<open>Flow starts are admitted\<close>

lemma start_session_ends: "ends (start_session d inp e)"
  unfolding start_session_def createSession_def Let_def by (intro ends_intros)

lemma next_ids [simp]:
  "hb_next_id (final (append_journal c) h) = hb_next_id h" "hb_next_id (final (ulid deps) h) = Suc (hb_next_id h)"
  by (simp_all add: append_journal_def ulid_def final_def)

lemma start_session_state:
  "sd_runs (hb_studio (final (start_session d inp e) h)) = sd_runs (hb_studio h)"
  "sd_run_policies (hb_studio (final (start_session d inp e) h)) = sd_run_policies (hb_studio h)"
  "hb_next_id h \<le> hb_next_id (final (start_session d inp e) h)"
  by (auto simp: start_session_def createSession_def final_bind Let_def insertSession_def)

lemma admitted_refines:
  assumes space: "space_arg_ok (Some (sf_space_id inp))"
    and admitted: "admitFlowRun (hb_studio h) (sf_space_id inp) (fe_flow_id e) = None"
    and fresh: "\<And>n. hb_next_id h \<le> n \<Longrightarrow> fresh_run h (rd_ulid d n)"
  shows "refines h (final (start_admitted d inp e ctx digest dispatch) h)"
proof -
  let ?h = "final (start_session d inp e) h"
  let ?ci = "\<lparr> ci_session_id = result (start_session d inp e) h, ci_space_id = Some (sf_space_id inp),
    ci_flow_id = Some (fe_flow_id e), ci_flow_digest = Some digest, ci_input_params = Some ctx,
    ci_reference_run_ids = sf_reference_run_ids inp, ci_actor_id = sf_actor_id inp,
    ci_token_id = sf_token_id inp, ci_capabilities = sf_capabilities inp, ci_contract_ref_id = None,
    ci_metadata = None, ci_from_step_id = None \<rparr>"
  obtain b where b: "sf_space_id inp = ''spc_'' @ b" "plain_space b" using space by (rule space_argE)
  note same = start_session_state [where d = d and inp = inp and e = e and h = h]
  have id: "new_run_id (service_deps d) ?ci ?h = rd_ulid d (hb_next_id ?h)"
    by (simp add: service_deps_def session_run_deps.truncate_def)
  have "fresh_run ?h (new_run_id (service_deps d) ?ci ?h)"
    using fresh [OF same(3)] by (simp add: fresh_run_def id same(1))
  moreover have "has_room (capacity_of ?h) (new_run_row ?ci (new_run_id (service_deps d) ?ci ?h) inst ts)" for inst ts
    using admitted_room [OF b(2) _ admitted [unfolded b(1)]] b
    by (simp add: has_room_def capacity_of_def same truthy_str_def)
  moreover have "space_arg_ok (ci_space_id ?ci)" using space by simp
  ultimately have "refines ?h (final (createRun (service_deps d) ?ci) ?h)"
    using created_refines [OF create_run_effect] by blast
  moreover have "refines h ?h" by (rule moves_refine [OF start_session_ends])
  ultimately show ?thesis unfolding start_admitted_def final_bind Let_def by simp
qed

lemma start_refines:
  assumes "space_arg_ok (Some (sf_space_id inp))"
    and "\<And>n. hb_next_id h \<le> n \<Longrightarrow> fresh_run h (rd_ulid d n)"
  shows "refines h (final (startFlowRun d inp) h)"
  using admitted_refines [OF assms(1) _ assms(2)]
  by (auto simp: startFlowRun_def final_bind Let_def split: option.splits sum.splits prod.splits)

section \<open>Running flows\<close>

text \<open>A run of a flow with the given memos.\<close>

definition row0 :: "string \<Rightarrow> run_row" where
  "row0 flow = \<lparr> rr_run_id = run0, rr_session_id = ''s'', rr_space_id = Some ''a'', rr_flow_id = Some flow,
     rr_flow_digest = Some ''d'', rr_lifecycle = RWorking, rr_exec_context = [(''input'', JObj [])],
     rr_reference_run_ids = [], rr_instance_id = None, rr_started_at = 0, rr_ended_at = None \<rparr>"

definition running :: "string \<Rightarrow> (string \<times> step_status) list \<Rightarrow> hub" where
  "running flow memos = engine_hub\<lparr> hb_studio := (hb_studio engine_hub)
     \<lparr> sd_runs := [(run0, row0 flow)],
       sd_memos := map (\<lambda>(s, status). (memo_key (''run_'' @ run0) s, step_memo_row (''run_'' @ run0) s status)) memos \<rparr> \<rparr>"

abbreviation caller0 :: caller where "caller0 \<equiv> sample_caller run0"

lemma sample_ulids [simp]: "ulids_ok sample_engine"
  by (simp add: ulids_ok_def sample_engine_def bareRunId_def bare_with_def starts_with_def)

lemma sample_runs [simp]: "run_ref (cl_run_id caller0)" "length run0 = 26"
  by (simp_all add: sample_caller_def run0_def)

lemma sample_closed: "closed_index (hb_studio engine_hub)" "list_all rooted_entry (js_values (sd_flow_index (hb_studio engine_hub)))"
  by code_simp+

lemma running_ok [simp]:
  "engine_ok (hb_studio (running flow []))" "closed_index (hb_studio (running flow []))" "sd_memos (hb_studio (running flow [])) = []"
  using sample_closed
  by (auto simp: running_def engine_ok_def memo_table_ok_def closed_index_def row0_def parent_ok_def js_get_def split: if_splits)

lemma bare0 [simp]: "bare_with ''run_'' (cl_run_id caller0) = run0" "cl_run_id caller0 = ''run_'' @ run0"
  by (simp_all add: sample_caller_def)

lemma run_at0 [simp]: "getRun (hb_studio (running flow memos)) run0 = Some (row0 flow)"
  by (simp add: running_def getRun_def js_get_def run0_def bareRunId_def bare_with_def starts_with_def)

lemma memos_at0 [simp]:
  "listRunStepMemos (hb_studio (running flow memos)) (CHR ''r'' # CHR ''u'' # CHR ''n'' # CHR ''_'' # run0)
     = map (\<lambda>(s, status). step_memo_row (''run_'' @ run0) s status) memos"
  by (induction memos) (auto simp: running_def listRunStepMemos_def Let_def js_values_def step_memo_row_def)

lemma row0_fields [simp]:
  "rr_flow_id (row0 flow) = Some flow" "rr_space_id (row0 flow) = Some ''a''" "rr_lifecycle (row0 flow) = RWorking"
  "rr_exec_context (row0 flow) = [(''input'', JObj [])]" "rr_session_id (row0 flow) = ''s''"
  by (simp_all add: row0_def)

lemma flow_at0 [simp]: "getFlowIndexEntry (hb_studio (running flow memos)) f o' = getFlowIndexEntry (hb_studio engine_hub) f o'"
  by (simp add: running_def getFlowIndexEntry_def)









text \<open>
  C15. Opening a child once is enough: when the request is repeated with the same key, the answer is the
  same child and the same iteration, marked as deduplicated, and the hub does not change. The run id is
  assumed to be one.
\<close>

theorem child_opens_once:
  assumes "bareRunId (bare_with ''run_'' (cl_run_id cl)) = bare_with ''run_'' (cl_run_id cl)"
    and "result (openChildStep d cl parent child key) h = Done (Inr co)"
    and "h' = final (openChildStep d cl parent child key) h"
  shows "result (openChildStep d cl parent child key) h' = Done (Inr (co\<lparr> co_deduplicated := True \<rparr>))
    \<and> final (openChildStep d cl parent child key) h' = h'"
  using open_child_twice [OF assms(1,2)] unfolding assms(3) by (simp add: run_state_eq)

lemma nested_answer:
  "result (openChildStep sample_engine caller0 ''p'' ''p.c'' ''k1'') (running ''nested'' [(''p'', SWorking)]) =
     Done (Inr \<lparr> co_child_step_id = ''p.c'', co_iteration = JNum 1, co_deduplicated = False \<rparr>)"
  by code_simp

theorem child_opens_once_witness:
  "let h' = final (openChildStep sample_engine caller0 ''p'' ''p.c'' ''k1'') (running ''nested'' [(''p'', SWorking)]) in
   result (openChildStep sample_engine caller0 ''p'' ''p.c'' ''k1'') h' =
     Done (Inr \<lparr> co_child_step_id = ''p.c'', co_iteration = JNum 1, co_deduplicated = True \<rparr>)"
proof -
  have "bareRunId run0 = run0" by (simp add: run0_def bareRunId_def bare_with_def starts_with_def)
  then show ?thesis
    using child_opens_once [OF _ nested_answer refl] unfolding Let_def by simp
qed



text \<open>
  C16. Resolutions and flow calls return: with ids as the generator makes them and nested ids longer than
  their parents', neither a resolution nor a call runs out of the fuel of the model, and the chain of
  parents a finished child settles ends, whatever its contexts name as parents.
\<close>

theorem flow_calls_return:
  assumes "ulids_ok d" and "engine_ok (hb_studio h)" and "run_ref (cl_run_id cl)" and "length (xs_run_bare inp) = 26"
    and "getRun (hb_studio h) i = Some child"
  shows "result (resolveFlowStep d cl s body) h \<noteq> OutOfFuel \<and> result (startFlowStep d inp) h \<noteq> OutOfFuel
    \<and> result (maybeCompleteFlowCallParent live d a t child l) h \<noteq> OutOfFuel"
  using resolve_fine [OF assms(1,3)] startFlowStep_fine [OF assms(1), of inp] parents_terminate [OF assms(2)]
    ok_run_parent [OF assms(2,5)] assms(2,4)
  by (simp add: fine_def call_ok_def)

definition sample_call :: flow_step_input where
  "sample_call = \<lparr> xs_run_bare = run0, xs_step_id = ''call'', xs_ir = sample_ir ''calling'' calling_ir,
     xs_space_id = ''spc_a'', xs_session_id = ''ses_s'', xs_exec_context = [(''input'', JObj [])],
     xs_auth = en_flow_auth sample_engine (row0 ''calling'') \<rparr>"

theorem flow_calls_return_witness:
  "result (startFlowStep sample_engine sample_call) (running ''calling'' []) \<noteq> OutOfFuel"
  using flow_calls_return [of sample_engine "running ''calling'' []" caller0 sample_call run0]
  by (simp add: sample_call_def)

text \<open>
  Starting a flow refines the capacity-limited table: a start that is admitted adds one working run
  within the limit of its flow, and a refused or repeated start changes neither runs nor limits.
\<close>

theorem flow_starts_refine_capacity:
  assumes "space_arg_ok (Some (sf_space_id inp))"
    and "\<And>n. hb_next_id h \<le> n \<Longrightarrow> fresh_run h (rd_ulid d n)"
  shows "capacity_step\<^sup>*\<^sup>* (capacity_of h) (capacity_of (final (startFlowRun d inp) h))"
  using assms by (rule start_refines)

theorem flow_starts_witness:
  "capacity_step\<^sup>*\<^sup>* (capacity_of engine_hub)
     (capacity_of (final (startFlowRun sample_engine (sample_start_input ''loop'')) engine_hub))"
proof (rule flow_starts_refine_capacity)
  show "space_arg_ok (Some (sf_space_id (sample_start_input ''loop'')))" by code_simp
  show "fresh_run engine_hub (rd_ulid sample_engine n)" if "hb_next_id engine_hub \<le> n" for n
    by (simp add: fresh_run_def engine_hub_def sample_engine_def bareRunId_def bare_with_def starts_with_def)
qed

section \<open>Credentials and streams\<close>

text \<open>
  Every credential registered for a run has been given to the revoker once the run's credentials are
  revoked, whatever registrations and revocations of steps and runs come before, between and after.
\<close>

theorem run_credentials_revoked:
  assumes "registry_apart c" and "Register run step tok \<in> set ops" and "prefixedRun run' = prefixedRun run"
  shows "bareToken tok \<in> set (cg_revoked (fold credential_step (ops @ RevokeRun run' # later) c))"
proof -
  let ?c = "fold credential_step ops c"
  have ok: "registry_apart ?c" by (rule credential_run.run_inv [OF assms(1)])
  have "bareToken tok \<in> set (cg_revoked (credential_step (RevokeRun run') ?c))"
    using revoke_run_covers(3) [OF ok] registered_covered [OF assms(1,2)] assms(3) by simp
  then show ?thesis using revoked_stay [OF credential_run.step_inv [OF ok, of "RevokeRun run'"]] by simp
qed

theorem run_credentials_revoked_witness:
  "''x'' \<in> set (cg_revoked (fold credential_step [Register ''run_r'' ''a'' ''tok_x'', RevokeRun ''r'']
     (setResolveCredentialRevoker True init_credentials)))"
proof -
  have "registry_apart (setResolveCredentialRevoker True init_credentials)"
    by (auto simp: registry_apart_def setResolveCredentialRevoker_def init_credentials_def addresses_def split: sum.splits)
  then show ?thesis
    using run_credentials_revoked [of _ "''run_r''" "''a''" "''tok_x''" "[Register ''run_r'' ''a'' ''tok_x'']" "''r''" "[]"]
    by (simp add: prefixedRun_def with_prefix_def starts_with_def bareToken_def bare_with_def)
qed

text \<open>The stream of a step as the context keeps it.\<close>

definition kept_stream :: "jobj \<Rightarrow> string \<Rightarrow> string \<Rightarrow> string option" where
  "kept_stream ctx step stream = str_option (opt_member (opt_member (section_get ''steps'' ctx step) ''output'') stream)"

lemma kept_append:
  "stream \<noteq> ''streaming'' \<Longrightarrow>
     \<exists>current. kept_stream (append_stream step stream chunk ctx) step stream = Some (appendStreamText current chunk)"
  by (auto simp: kept_stream_def append_stream_def Let_def ctx_section.get_put opt_member_def prop_of_def [symmetric])

text \<open>
  C17. The output of a shell step is kept in the context of its run up to a bound: after a chunk is
  appended, the kept stream has at most the maximal length and the truncation mark, ends with the chunk
  (unless the chunk alone is longer), and no other run changes.
\<close>

theorem stream_stays_bounded:
  assumes "getRun st (bare_with ''run_'' run) = Some row" and "chunk \<noteq> []" and "stream \<noteq> ''streaming''"
    and "st' = appendShellStreamToRun run step stream chunk st"
  shows "\<exists>row' text. getRun st' (bare_with ''run_'' run) = Some row'
     \<and> kept_stream (rr_exec_context row') step stream = Some text
     \<and> length text \<le> MAX_STREAM_CHARS + length truncation_mark
     \<and> (length chunk \<le> MAX_STREAM_CHARS \<longrightarrow> (\<exists>before. text = before @ chunk))
     \<and> (\<forall>i. bareRunId i \<noteq> bareRunId (bare_with ''run_'' run) \<longrightarrow> getRun st' i = getRun st i)"
proof -
  let ?ctx = "append_stream step stream chunk (rr_exec_context row)"
  have st': "st' = persistRunExecContext run ?ctx st"
    using assms by (simp add: appendShellStreamToRun_def merge_into_run_def)
  obtain current where cur: "kept_stream ?ctx step stream = Some (appendStreamText current chunk)"
    using kept_append [OF assms(3)] by blast
  show ?thesis
    by (rule exI [of _ "row\<lparr> rr_exec_context := ?ctx \<rparr>"], rule exI [of _ "appendStreamText current chunk"])
      (use assms(1) cur stream_bounded stream_keeps_chunk in \<open>simp add: st' persist_runs\<close>)
qed

theorem stream_stays_bounded_witness:
  "\<exists>row text. getRun (appendShellStreamToRun (''run_'' @ run0) ''a'' ''stdout'' ''hello'' (hb_studio (running ''loop'' []))) run0 = Some row
     \<and> kept_stream (rr_exec_context row) ''a'' ''stdout'' = Some text \<and> length text \<le> MAX_STREAM_CHARS + length truncation_mark"
proof -
  let ?st = "hb_studio (running ''loop'' [])"
  have run: "getRun ?st (bare_with ''run_'' (''run_'' @ run0)) = Some (row0 ''loop'')" by simp
  have chunk: "''hello'' \<noteq> []" "''stdout'' \<noteq> ''streaming''" by simp_all
  have bare: "bare_with ''run_'' (''run_'' @ run0) = run0" by simp
  note stream_stays_bounded [OF run chunk refl, of "''a''", unfolded bare]
  then show ?thesis by (elim exE conjE) (intro exI conjI)
qed

end
