(* ===== verification/PollQueue.thy ===== *)
theory PollQueue
  imports RunService
begin

text \<open>
  The queue from which executors outside the hub take their tasks, from \<open>hub-core/src/executors/\<close>:
  the store of offers with its long polls (\<open>queue-store.ts\<close>), the offer of a task (\<open>queue-offer.ts\<close>)
  and its completion (\<open>queue-complete.ts\<close>). A poll that finds nothing waits: its promise is a number,
  the answers of promises are logged, and a timer or an arriving task wakes it. Times are milliseconds.
\<close>

section \<open>Offers\<close>

record task_offer =
  to_task_id :: string
  to_run_id :: string
  to_step_id :: string
  to_action_name :: string
  to_space_id :: string
  to_params :: jobj
  to_artifacts_in :: "string list option"
  to_deadline_at :: int

datatype task_status = TkOffered | TkCompleted | TkFailed

record queued_task =
  qt_task_id :: string
  qt_executor_id :: string
  qt_offer :: task_offer
  qt_status :: task_status
  qt_actor_id :: string
  qt_token_id :: string
  qt_action_name :: string
  qt_session_id :: "string option"
  qt_idempotency_key :: "string option"
  qt_completed_result :: "jobj option"
  qt_error_code :: "string option"
  qt_detail :: "string option"

text \<open>What an invocation asks for, as far as an offer reads it.\<close>

record invoke_request =
  iq_step_id :: "string option"
  iq_run_id :: "string option"
  iq_space_id :: string
  iq_session_id :: "string option"
  iq_params :: "jobj option"
  iq_artifacts_in :: "string list option"

record enqueue_input =
  eq_task_id :: string
  eq_executor_id :: string
  eq_invoke :: invoke_request
  eq_action_name :: string
  eq_actor_id :: string
  eq_token_id :: string
  eq_timeout_ms :: "int option"

definition DEFAULT_ACTION_TIMEOUT_MS :: int where "DEFAULT_ACTION_TIMEOUT_MS = 30 * 60 * 1000"

definition buildTaskOffer :: "int \<Rightarrow> enqueue_input \<Rightarrow> task_offer" where
  "buildTaskOffer now inp = (let iv = eq_invoke inp in \<lparr>
     to_task_id = eq_task_id inp, to_run_id = opt_default ''run_unknown'' (iq_run_id iv),
     to_step_id = opt_default (''action:'' @ eq_action_name inp) (iq_step_id iv),
     to_action_name = eq_action_name inp, to_space_id = iq_space_id iv,
     to_params = opt_default [] (iq_params iv), to_artifacts_in = iq_artifacts_in iv,
     to_deadline_at = now + opt_default DEFAULT_ACTION_TIMEOUT_MS (eq_timeout_ms inp) \<rparr>)"

definition offered_task :: "int \<Rightarrow> enqueue_input \<Rightarrow> queued_task" where
  "offered_task now inp = \<lparr> qt_task_id = eq_task_id inp, qt_executor_id = eq_executor_id inp,
     qt_offer = buildTaskOffer now inp, qt_status = TkOffered, qt_actor_id = eq_actor_id inp,
     qt_token_id = eq_token_id inp, qt_action_name = eq_action_name inp,
     qt_session_id = iq_session_id (eq_invoke inp), qt_idempotency_key = None, qt_completed_result = None,
     qt_error_code = None, qt_detail = None \<rparr>"

section \<open>The store\<close>

text \<open>A waiting poll: its promise and the time after which it answers with nothing.\<close>

record poll_wait =
  pw_promise :: nat
  pw_deadline :: int

record poll_store =
  ps_last_poll :: "(string, int) jsmap"
  ps_tasks :: "(string, queued_task) jsmap"
  ps_pending :: "(string, string list) jsmap"
  ps_waiters :: "(string, poll_wait list) jsmap"
  ps_next_promise :: nat
  ps_answers :: "(nat \<times> task_offer list) list"
  ps_now :: int

definition init_polls :: "int \<Rightarrow> poll_store" where
  "init_polls now = \<lparr> ps_last_poll = [], ps_tasks = [], ps_pending = [], ps_waiters = [], ps_next_promise = 0,
     ps_answers = [], ps_now = now \<rparr>"

definition DEFAULT_WORKER_TTL_MS :: int where "DEFAULT_WORKER_TTL_MS = 5 * 60 * 1000"

definition pending_of :: "poll_store \<Rightarrow> string \<Rightarrow> string list" where
  "pending_of s e = opt_default [] (js_get (ps_pending s) e)"

definition waiters_of :: "poll_store \<Rightarrow> string \<Rightarrow> poll_wait list" where
  "waiters_of s e = opt_default [] (js_get (ps_waiters s) e)"

definition recordPoll :: "string \<Rightarrow> int option \<Rightarrow> poll_store \<Rightarrow> poll_store" where
  "recordPoll e at s = s\<lparr> ps_last_poll := js_set e (opt_default (ps_now s) at) (ps_last_poll s) \<rparr>"

definition lastPollAt :: "poll_store \<Rightarrow> string \<Rightarrow> int option" where
  "lastPollAt s e = js_get (ps_last_poll s) e"

definition isReachable :: "poll_store \<Rightarrow> string \<Rightarrow> int option \<Rightarrow> bool" where
  "isReachable s e ttl =
     (case js_get (ps_last_poll s) e of
        None \<Rightarrow> False | Some ts \<Rightarrow> ps_now s - ts \<le> opt_default DEFAULT_WORKER_TTL_MS ttl)"

definition is_offered :: "poll_store \<Rightarrow> string \<Rightarrow> bool" where
  "is_offered s i \<longleftrightarrow> (case js_get (ps_tasks s) i of None \<Rightarrow> False | Some r \<Rightarrow> qt_status r = TkOffered)"

text \<open>The offers of an executor's queue; what is not offered any more stays in the queue, as in the code.\<close>

definition drain :: "string \<Rightarrow> poll_store \<Rightarrow> task_offer list \<times> poll_store" where
  "drain e s = (let queue = pending_of s e in
     (map (\<lambda>i. qt_offer (the (js_get (ps_tasks s) i))) (filter (is_offered s) queue),
      s\<lparr> ps_pending := js_set e (filter (\<lambda>i. \<not> is_offered s i) queue) (ps_pending s) \<rparr>))"

definition finish_poll :: "string \<Rightarrow> nat \<Rightarrow> task_offer list \<Rightarrow> poll_store \<Rightarrow> poll_store" where
  "finish_poll e p offers s = s\<lparr>
     ps_waiters := js_set e (filter (\<lambda>w. pw_promise w \<noteq> p) (waiters_of s e)) (ps_waiters s),
     ps_answers := ps_answers s @ [(p, offers)] \<rparr>"

definition wake :: "string \<Rightarrow> nat \<Rightarrow> poll_store \<Rightarrow> poll_store" where
  "wake e p s =
     (case find (\<lambda>w. pw_promise w = p) (waiters_of s e) of
        None \<Rightarrow> s
      | Some w \<Rightarrow>
          (let (offers, s') = drain e s in
           if offers \<noteq> [] then finish_poll e p offers s'
           else if pw_deadline w \<le> ps_now s then finish_poll e p [] s' else s'))"

definition notify :: "string \<Rightarrow> poll_store \<Rightarrow> poll_store" where
  "notify e s = fold (wake e) (map pw_promise (waiters_of s e)) s"

definition enqueue :: "queued_task \<Rightarrow> poll_store \<Rightarrow> poll_store" where
  "enqueue r s = (let e = qt_executor_id r in
     notify e (s\<lparr> ps_tasks := js_set (qt_task_id r) r (ps_tasks s),
       ps_pending := js_set e (pending_of s e @ [qt_task_id r]) (ps_pending s) \<rparr>))"

definition enqueueTaskOffer :: "enqueue_input \<Rightarrow> poll_store \<Rightarrow> poll_store" where
  "enqueueTaskOffer inp s = enqueue (offered_task (ps_now s) inp) s"

definition DEFAULT_POLL_TIMEOUT_MS :: int where "DEFAULT_POLL_TIMEOUT_MS = 30000"

definition poll :: "string \<Rightarrow> int option \<Rightarrow> poll_store \<Rightarrow> nat \<times> poll_store" where
  "poll e timeout s =
     (let p = ps_next_promise s;
          (offers, s1) = drain e ((recordPoll e None s)\<lparr> ps_next_promise := Suc p \<rparr>) in
      (p, if offers \<noteq> [] then s1\<lparr> ps_answers := ps_answers s1 @ [(p, offers)] \<rparr>
          else s1\<lparr> ps_waiters := js_set e (waiters_of s1 e @ [\<lparr> pw_promise = p,
            pw_deadline = ps_now s1 + opt_default DEFAULT_POLL_TIMEOUT_MS timeout \<rparr>]) (ps_waiters s1) \<rparr>))"

definition markCompleted :: "string \<Rightarrow> jobj option \<Rightarrow> poll_store \<Rightarrow> poll_store" where
  "markCompleted i res s =
     (case js_get (ps_tasks s) i of
        None \<Rightarrow> s
      | Some r \<Rightarrow> if qt_status r = TkCompleted then s
          else s\<lparr> ps_tasks := js_set i (r\<lparr> qt_status := TkCompleted, qt_completed_result := res \<rparr>) (ps_tasks s) \<rparr>)"

definition markFailed :: "string \<Rightarrow> string option \<Rightarrow> string option \<Rightarrow> poll_store \<Rightarrow> poll_store" where
  "markFailed i code detail s =
     (case js_get (ps_tasks s) i of
        None \<Rightarrow> s
      | Some r \<Rightarrow> if qt_status r = TkFailed then s
          else s\<lparr> ps_tasks := js_set i (r\<lparr> qt_status := TkFailed, qt_error_code := code, qt_detail := detail \<rparr>)
                 (ps_tasks s) \<rparr>)"

definition listOfferedForRun :: "poll_store \<Rightarrow> string \<Rightarrow> queued_task list" where
  "listOfferedForRun s run_id =
     filter (\<lambda>r. qt_status r = TkOffered \<and> to_run_id (qt_offer r) = prefixedRun run_id) (js_values (ps_tasks s))"

definition cancelOfferedForRun :: "string \<Rightarrow> string option \<Rightarrow> string option \<Rightarrow> poll_store \<Rightarrow> poll_store" where
  "cancelOfferedForRun run_id code detail s =
     fold (\<lambda>r. markFailed (qt_task_id r) (Some (opt_default ''RUN_FAILED'' code)) (Some (opt_default ''Run failed'' detail)))
       (listOfferedForRun s run_id) s"

definition extend_deadline :: "int \<Rightarrow> queued_task \<Rightarrow> queued_task" where
  "extend_deadline ms r = r\<lparr> qt_offer := (qt_offer r)\<lparr> to_deadline_at := to_deadline_at (qt_offer r) + ms \<rparr> \<rparr>"

definition extendOfferedDeadlinesForRun :: "string \<Rightarrow> int \<Rightarrow> poll_store \<Rightarrow> nat \<times> poll_store" where
  "extendOfferedDeadlinesForRun run_id ms s =
     (if ms \<le> 0 then (0, s)
      else (let rows = listOfferedForRun s run_id in
        (length rows, s\<lparr> ps_tasks :=
           fold (\<lambda>r. js_set (qt_task_id r) (extend_deadline ms r)) rows (ps_tasks s) \<rparr>)))"

definition listExecutorIds :: "poll_store \<Rightarrow> string list" where
  "listExecutorIds s = rev (remdups (rev (js_keys (ps_last_poll s) @ js_keys (ps_pending s))))"

definition pendingCount :: "poll_store \<Rightarrow> string \<Rightarrow> nat" where
  "pendingCount s e = length (filter (is_offered s) (pending_of s e))"

section \<open>Completion by the executor\<close>

record poll_auth =
  pa_space_id :: string
  pa_harness_id :: "string option"
  pa_capabilities :: "capability list"

definition canPollExecutor :: "poll_auth \<Rightarrow> string \<Rightarrow> bool" where
  "canPollExecutor auth e \<longleftrightarrow>
     pa_space_id auth = ''bootstrap'' \<or>
     hasCapability (pa_capabilities auth) [''executor:poll''] \<and>
     (hasCapability (pa_capabilities auth) [''hub:admin''] \<or>
      \<not> truthy_str (pa_harness_id auth) \<or> pa_harness_id auth = Some e)"

text \<open>
  The journal entry of an invocation and how it ended. \<open>fits\<close> is the check of the inline payload
  against the size of the serialised entry.
\<close>

record invoke_outcome =
  io_completed :: bool
  io_run_id :: string
  io_step_id :: string
  io_result :: "jobj option"
  io_error_code :: "string option"
  io_detail :: "string option"

definition action_event :: "string \<Rightarrow> queued_task \<Rightarrow> jobj \<Rightarrow> journal_call" where
  "action_event type r data = (let o' = qt_offer r in \<lparr>
     jc_type = type, jc_space_id = to_space_id o', jc_session_id = qt_session_id r,
     jc_run_id = Some (to_run_id o'), jc_actor_id = qt_actor_id r, jc_token_id = qt_token_id r,
     jc_data = spread [(''action_name'', JStr (qt_action_name r)), (''step_id'', JStr (to_step_id o'))] data \<rparr>)"

definition inline_detail :: string where
  "inline_detail = ''Action result exceeds 65536 bytes; register output via PUT /v1/artifacts''"

definition completeAsyncInvoke :: "(journal_call \<Rightarrow> bool) \<Rightarrow> queued_task \<Rightarrow> jobj option \<Rightarrow> invoke_outcome \<times> journal_call" where
  "completeAsyncInvoke fits r res =
     (let done_call = action_event ''mrmr.action.completed'' r [(''result'', opt_obj res)] in
      if fits done_call
      then (\<lparr> io_completed = True, io_run_id = to_run_id (qt_offer r), io_step_id = to_step_id (qt_offer r),
              io_result = res, io_error_code = None, io_detail = None \<rparr>, done_call)
      else (\<lparr> io_completed = False, io_run_id = to_run_id (qt_offer r), io_step_id = to_step_id (qt_offer r),
              io_result = None, io_error_code = Some ''INLINE_PAYLOAD_EXCEEDED'', io_detail = Some inline_detail \<rparr>,
            action_event ''mrmr.action.failed'' r
              [(''error_code'', JStr ''INLINE_PAYLOAD_EXCEEDED''), (''detail'', JStr inline_detail)]))"

text \<open>
  The answers carry the code and the status; the message is determined by the code, and the record an
  answer also holds is the one the store has then.
\<close>

datatype 'a task_answer = TaskOk 'a | TaskRefused string nat

definition completeQueuedTask ::
    "(journal_call \<Rightarrow> bool) \<Rightarrow> string \<Rightarrow> jobj option \<Rightarrow> poll_store \<Rightarrow> invoke_outcome task_answer \<times> journal_call list \<times> poll_store" where
  "completeQueuedTask fits i res s =
     (case js_get (ps_tasks s) i of
        None \<Rightarrow> (TaskRefused ''TASK_NOT_FOUND'' 404, [], s)
      | Some r \<Rightarrow>
          (case qt_status r of
             TkCompleted \<Rightarrow> (TaskOk \<lparr> io_completed = True, io_run_id = to_run_id (qt_offer r),
               io_step_id = to_step_id (qt_offer r), io_result = qt_completed_result r, io_error_code = None,
               io_detail = None \<rparr>, [], s)
           | TkFailed \<Rightarrow> (TaskRefused ''TASK_ALREADY_FAILED'' 409, [], s)
           | TkOffered \<Rightarrow>
               (let (outcome, call) = completeAsyncInvoke fits r res in (TaskOk outcome, [call], markCompleted i res s))))"

definition failQueuedTask ::
    "string \<Rightarrow> string option \<Rightarrow> string option \<Rightarrow> poll_store \<Rightarrow> unit task_answer \<times> journal_call list \<times> poll_store" where
  "failQueuedTask i code detail s =
     (case js_get (ps_tasks s) i of
        None \<Rightarrow> (TaskRefused ''TASK_NOT_FOUND'' 404, [], s)
      | Some r \<Rightarrow>
          (case qt_status r of
             TkFailed \<Rightarrow> (TaskOk (), [], s)
           | TkCompleted \<Rightarrow> (TaskRefused ''TASK_ALREADY_COMPLETED'' 409, [], s)
           | TkOffered \<Rightarrow> (TaskOk (), [action_event ''mrmr.action.failed'' r
               [(''error_code'', JStr (opt_default ''WORKER_FAILED'' code)), (''detail'', opt_str detail)]],
               markFailed i code detail s)))"

end
