(* ===== verification/PollProofs.thy ===== *)
theory PollProofs
  imports PollQueue
begin

text \<open>
  What the executor queue guarantees however enqueued tasks, polls, timers, completions, failures and
  cancellations interleave: a task is handed out at most once and never lost, a promise is settled
  once, no poll sleeps while a task of its executor waits, and a settled task keeps its outcome.
\<close>

section \<open>Views of the store\<close>

definition handed_out :: "poll_store \<Rightarrow> string list" where
  "handed_out s = concat (map (\<lambda>(p, offers). map to_task_id offers) (ps_answers s))"

text \<open>Every task knows its id, waits in the queue of its executor or was handed out, and not both.\<close>

definition queue_ok :: "poll_store \<Rightarrow> bool" where
  "queue_ok s \<longleftrightarrow>
     js_ok (ps_tasks s) \<and> distinct (handed_out s) \<and> (\<forall>i \<in> set (handed_out s). js_has (ps_tasks s) i) \<and>
     (\<forall>i r. js_get (ps_tasks s) i = Some r \<longrightarrow> qt_task_id r = i \<and> to_task_id (qt_offer r) = i \<and>
        (i \<in> set (pending_of s (qt_executor_id r)) \<or> i \<in> set (handed_out s))) \<and>
     (\<forall>e. distinct (pending_of s e) \<and> (\<forall>i \<in> set (pending_of s e).
        i \<notin> set (handed_out s) \<and> (\<exists>r. js_get (ps_tasks s) i = Some r \<and> qt_executor_id r = e)))"

definition promises_ok :: "poll_store \<Rightarrow> bool" where
  "promises_ok s \<longleftrightarrow>
     distinct (map fst (ps_answers s)) \<and> (\<forall>p \<in> fst ` set (ps_answers s). p < ps_next_promise s) \<and>
     (\<forall>e. distinct (map pw_promise (waiters_of s e)) \<and> (\<forall>p \<in> pw_promise ` set (waiters_of s e).
        p < ps_next_promise s \<and> p \<notin> fst ` set (ps_answers s) \<and>
        (\<forall>e'. p \<in> pw_promise ` set (waiters_of s e') \<longrightarrow> e' = e)))"

text \<open>A poll sleeps only while its executor's queue holds nothing to offer.\<close>

definition sleep_ok :: "poll_store \<Rightarrow> bool" where
  "sleep_ok s \<longleftrightarrow> (\<forall>e. waiters_of s e \<noteq> [] \<longrightarrow> filter (is_offered s) (pending_of s e) = [])"

lemma pending_simps [simp]:
  "pending_of (s\<lparr> ps_tasks := t \<rparr>) e = pending_of s e" "pending_of (s\<lparr> ps_waiters := w \<rparr>) e = pending_of s e"
  "pending_of (s\<lparr> ps_answers := a \<rparr>) e = pending_of s e" "pending_of (s\<lparr> ps_next_promise := n \<rparr>) e = pending_of s e"
  "pending_of (s\<lparr> ps_last_poll := l \<rparr>) e = pending_of s e" "pending_of (s\<lparr> ps_now := k \<rparr>) e = pending_of s e"
  "pending_of (s\<lparr> ps_pending := js_set e' q (ps_pending s') \<rparr>) e = (if e = e' then q else pending_of s' e)"
  by (simp_all add: pending_of_def opt_default_def)

lemma waiters_simps [simp]:
  "waiters_of (s\<lparr> ps_tasks := t \<rparr>) e = waiters_of s e" "waiters_of (s\<lparr> ps_pending := w \<rparr>) e = waiters_of s e"
  "waiters_of (s\<lparr> ps_answers := a \<rparr>) e = waiters_of s e" "waiters_of (s\<lparr> ps_next_promise := n \<rparr>) e = waiters_of s e"
  "waiters_of (s\<lparr> ps_last_poll := l \<rparr>) e = waiters_of s e" "waiters_of (s\<lparr> ps_now := k \<rparr>) e = waiters_of s e"
  "waiters_of (s\<lparr> ps_waiters := js_set e' q (ps_waiters s') \<rparr>) e = (if e = e' then q else waiters_of s' e)"
  by (simp_all add: waiters_of_def opt_default_def)

lemma offered_simps [simp]:
  "is_offered (s\<lparr> ps_waiters := w \<rparr>) = is_offered s" "is_offered (s\<lparr> ps_pending := q \<rparr>) = is_offered s"
  "is_offered (s\<lparr> ps_answers := a \<rparr>) = is_offered s" "is_offered (s\<lparr> ps_next_promise := n \<rparr>) = is_offered s"
  "is_offered (s\<lparr> ps_last_poll := l \<rparr>) = is_offered s" "is_offered (s\<lparr> ps_now := k \<rparr>) = is_offered s"
  by (simp_all add: is_offered_def fun_eq_iff)

lemma handed_simps [simp]:
  "handed_out (s\<lparr> ps_tasks := t \<rparr>) = handed_out s" "handed_out (s\<lparr> ps_pending := q \<rparr>) = handed_out s"
  "handed_out (s\<lparr> ps_waiters := w \<rparr>) = handed_out s" "handed_out (s\<lparr> ps_next_promise := n \<rparr>) = handed_out s"
  "handed_out (s\<lparr> ps_last_poll := l \<rparr>) = handed_out s" "handed_out (s\<lparr> ps_now := k \<rparr>) = handed_out s"
  "handed_out (s\<lparr> ps_answers := ps_answers s' @ [(p, offers)] \<rparr>) = handed_out s' @ map to_task_id offers"
  by (simp_all add: handed_out_def)

lemma offered_task_row: "is_offered s i \<longleftrightarrow> (\<exists>r. js_get (ps_tasks s) i = Some r \<and> qt_status r = TkOffered)"
  by (auto simp: is_offered_def split: option.splits)

section \<open>Draining a queue\<close>

text \<open>Handing the drained offers to a promise; what \<open>poll\<close> and \<open>wake\<close> do when there are any.\<close>

definition handed :: "string \<Rightarrow> nat \<Rightarrow> poll_store \<Rightarrow> poll_store" where
  "handed e p s = (let (offers, s') = drain e s in s'\<lparr> ps_answers := ps_answers s' @ [(p, offers)] \<rparr>)"

lemma drained_ids:
  assumes "queue_ok s"
  shows "map to_task_id (fst (drain e s)) = filter (is_offered s) (pending_of s e)"
proof -
  have "to_task_id (qt_offer (the (js_get (ps_tasks s) i))) = i" if "is_offered s i" for i
    using assms that by (auto simp: queue_ok_def offered_task_row)
  then show ?thesis by (simp add: drain_def Let_def) (metis (mono_tags, lifting) comp_apply map_idI mem_Collect_eq set_filter)
qed

lemma drain_state: "snd (drain e s) = s\<lparr> ps_pending := js_set e (filter (\<lambda>i. \<not> is_offered s i) (pending_of s e)) (ps_pending s) \<rparr>"
  by (simp add: drain_def Let_def)

lemma drain_fst_empty: "fst (drain e s) = [] \<longleftrightarrow> filter (is_offered s) (pending_of s e) = []"
  by (simp add: drain_def Let_def)

lemma filter_not_all: "filter P xs = [] \<Longrightarrow> filter (\<lambda>x. \<not> P x) xs = xs"
  by (induction xs) (auto split: if_splits)

text \<open>A drain that finds nothing leaves all views of the store as they were.\<close>

lemma drain_nothing:
  assumes "fst (drain e s) = []"
  shows "pending_of (snd (drain e s)) = pending_of s"
  using assms by (auto simp: drain_fst_empty drain_state filter_not_all fun_eq_iff)

lemma drain_fields [simp]:
  "ps_tasks (snd (drain e s)) = ps_tasks s" "ps_answers (snd (drain e s)) = ps_answers s"
  "ps_next_promise (snd (drain e s)) = ps_next_promise s" "waiters_of (snd (drain e s)) = waiters_of s"
  "ps_now (snd (drain e s)) = ps_now s" "is_offered (snd (drain e s)) = is_offered s"
  "handed_out (snd (drain e s)) = handed_out s"
  by (simp_all add: drain_state fun_eq_iff)

lemma queue_ok_cong:
  assumes "ps_tasks s' = ps_tasks s" "handed_out s' = handed_out s" "pending_of s' = pending_of s"
  shows "queue_ok s' = queue_ok s"
  using assms by (simp add: queue_ok_def)

lemma promises_ok_cong:
  assumes "ps_answers s' = ps_answers s" "ps_next_promise s' = ps_next_promise s" "waiters_of s' = waiters_of s"
  shows "promises_ok s' = promises_ok s"
  using assms by (simp add: promises_ok_def)

lemma sleep_ok_cong:
  assumes "ps_tasks s' = ps_tasks s" "pending_of s' = pending_of s" "waiters_of s' = waiters_of s"
  shows "sleep_ok s' = sleep_ok s"
proof -
  have "is_offered s' = is_offered s" using assms(1) by (simp add: is_offered_def fun_eq_iff)
  then show ?thesis using assms by (simp add: sleep_ok_def)
qed

lemma handed_views:
  "ps_tasks (handed e p s) = ps_tasks s" "waiters_of (handed e p s) = waiters_of s"
  "ps_answers (handed e p s) = ps_answers s @ [(p, fst (drain e s))]"
  "ps_next_promise (handed e p s) = ps_next_promise s"
  "pending_of (handed e p s) e' =
     (if e' = e then filter (\<lambda>i. \<not> is_offered s i) (pending_of s e) else pending_of s e')"
  by (simp_all add: handed_def case_prod_beta fun_eq_iff drain_state)

lemma handed_offered: "is_offered (handed e p s) = is_offered s"
  by (simp add: is_offered_def fun_eq_iff handed_views)

lemma handed_ids:
  "queue_ok s \<Longrightarrow> handed_out (handed e p s) = handed_out s @ filter (is_offered s) (pending_of s e)"
  by (simp add: handed_def case_prod_beta drained_ids flip: drain_fields(7))

lemma queue_ok_handed:
  assumes ok: "queue_ok s"
  shows "queue_ok (handed e p s)"
proof -
  have row: "qt_task_id r = i \<and> to_task_id (qt_offer r) = i \<and>
      (i \<in> set (pending_of s (qt_executor_id r)) \<or> i \<in> set (handed_out s))" if "js_get (ps_tasks s) i = Some r" for i r
    using ok that by (simp add: queue_ok_def)
  have pend: "distinct (pending_of s e')" "i \<in> set (pending_of s e') \<Longrightarrow> i \<notin> set (handed_out s) \<and>
      (\<exists>r. js_get (ps_tasks s) i = Some r \<and> qt_executor_id r = e')" for i e'
    using ok by (simp_all add: queue_ok_def)
  have old: "js_ok (ps_tasks s)" "distinct (handed_out s)" "\<forall>i \<in> set (handed_out s). js_has (ps_tasks s) i"
    using ok by (simp_all add: queue_ok_def)
  have once: "e' = e''" if "i \<in> set (pending_of s e')" "i \<in> set (pending_of s e'')" for i e' e''
    using pend(2) [OF that(1)] pend(2) [OF that(2)] by auto
  show ?thesis
    unfolding queue_ok_def handed_views handed_ids [OF ok]
  proof (intro conjI allI impI ballI)
    show "distinct (handed_out s @ filter (is_offered s) (pending_of s e))" using old pend by auto
    show "js_has (ps_tasks s) i" if "i \<in> set (handed_out s @ filter (is_offered s) (pending_of s e))" for i
      using that old pend(2) [of i e] by (auto simp: js_has_def)
    fix e'
    show "distinct (if e' = e then filter (\<lambda>i. \<not> is_offered s i) (pending_of s e) else pending_of s e')"
      using pend by simp
    fix i assume i: "i \<in> set (if e' = e then filter (\<lambda>i. \<not> is_offered s i) (pending_of s e) else pending_of s e')"
    then show "i \<notin> set (handed_out s @ filter (is_offered s) (pending_of s e))"
      using pend(2) once by (fastforce split: if_splits)
    show "\<exists>r. js_get (ps_tasks s) i = Some r \<and> qt_executor_id r = e'"
      using i pend(2) by (auto split: if_splits)
  qed (use old row in auto)
qed

lemma promises_ok_answer:
  assumes ok: "promises_ok s" and p: "p \<notin> fst ` set (ps_answers s)" "p < ps_next_promise s"
    and views: "ps_answers s' = ps_answers s @ [(p, offers)]" "ps_next_promise s' = ps_next_promise s"
      "\<And>e. waiters_of s' e = filter (\<lambda>w. pw_promise w \<noteq> p) (waiters_of s e)"
  shows "promises_ok s'"
proof -
  have set': "pw_promise ` set (waiters_of s' e) = pw_promise ` set (waiters_of s e) - {p}" for e
    by (auto simp: views)
  have "distinct (map pw_promise (waiters_of s e))" for e using ok by (simp add: promises_ok_def)
  then have d: "distinct (map pw_promise (waiters_of s' e))" for e by (simp add: views distinct_map_filter)
  have w: "q < ps_next_promise s \<and> q \<notin> fst ` set (ps_answers s) \<and>
      (\<forall>e'. q \<in> pw_promise ` set (waiters_of s e') \<longrightarrow> e' = e)" if "q \<in> pw_promise ` set (waiters_of s e)" for q e
    using ok that unfolding promises_ok_def by blast
  have a: "distinct (map fst (ps_answers s))" "\<forall>q \<in> fst ` set (ps_answers s). q < ps_next_promise s"
    using ok by (simp_all add: promises_ok_def)
  have answers: "fst ` set (ps_answers s') = insert p (fst ` set (ps_answers s))" by (simp add: views(1))
  have "distinct (map fst (ps_answers s'))" using a(1) p(1) by (simp add: views(1))
  then show ?thesis
    unfolding promises_ok_def set' answers views(2)
    by (intro conjI allI ballI impI) (use a(2) p(2) d w in blast)+
qed

text \<open>A new poll goes to sleep with a promise nobody has.\<close>

lemma promises_ok_add:
  assumes ok: "promises_ok s" and p: "p \<notin> fst ` set (ps_answers s)" "p < ps_next_promise s"
      "\<And>e. p \<notin> pw_promise ` set (waiters_of s e)"
    and views: "ps_answers s' = ps_answers s" "ps_next_promise s' = ps_next_promise s" "pw_promise w = p"
      "\<And>e'. waiters_of s' e' = (if e' = e then waiters_of s e @ [w] else waiters_of s e')"
  shows "promises_ok s'"
proof -
  have sets: "pw_promise ` set (waiters_of s' e') = (if e' = e then {p} else {}) \<union> pw_promise ` set (waiters_of s e')" for e'
    by (auto simp: views)
  have d: "distinct (map pw_promise (waiters_of s' e'))" for e'
    using ok p(3) by (auto simp: views promises_ok_def)
  have old: "q < ps_next_promise s \<and> q \<notin> fst ` set (ps_answers s) \<and>
      (\<forall>e'. q \<in> pw_promise ` set (waiters_of s e') \<longrightarrow> e' = e1)" if "q \<in> pw_promise ` set (waiters_of s e1)" for q e1
    using ok that unfolding promises_ok_def by blast
  have answers: "distinct (map fst (ps_answers s))" "\<forall>q \<in> fst ` set (ps_answers s). q < ps_next_promise s"
    using ok unfolding promises_ok_def by blast+
  show ?thesis
    unfolding promises_ok_def sets views(1,2)
    by (intro conjI allI ballI impI) (use answers d old p in \<open>(simp split: if_splits; blast)\<close>)+
qed

section \<open>The moves\<close>

text \<open>A wake of a waiting poll: it goes on sleeping, or it is answered and leaves the waiters.\<close>

lemma wake_cases:
  obtains (asleep) "find (\<lambda>w. pw_promise w = p) (waiters_of s e) = None" "wake e p s = s"
  | (answered) "p \<in> pw_promise ` set (waiters_of s e)"
      "wake e p s = finish_poll e p (fst (drain e s)) (snd (drain e s))"
  | (waits) "fst (drain e s) = []" "wake e p s = snd (drain e s)"
proof (cases "find (\<lambda>w. pw_promise w = p) (waiters_of s e)")
  case None
  then show ?thesis using asleep by (simp add: wake_def)
next
  case (Some w)
  then have "w \<in> set (waiters_of s e)" "pw_promise w = p" by (auto simp: find_Some_iff)
  then have p: "p \<in> pw_promise ` set (waiters_of s e)" by auto
  show ?thesis
  proof (cases "fst (drain e s) \<noteq> [] \<or> pw_deadline w \<le> ps_now s")
    case True
    then show ?thesis using Some answered [OF p] by (simp add: wake_def case_prod_beta)
  next
    case False
    then show ?thesis using Some waits by (simp add: wake_def case_prod_beta)
  qed
qed

lemma finish_views:
  "ps_tasks (finish_poll e p offers s) = ps_tasks s" "pending_of (finish_poll e p offers s) = pending_of s"
  "ps_answers (finish_poll e p offers s) = ps_answers s @ [(p, offers)]"
  "ps_next_promise (finish_poll e p offers s) = ps_next_promise s"
  "handed_out (finish_poll e p offers s) = handed_out s @ map to_task_id offers"
  "is_offered (finish_poll e p offers s) = is_offered s" "ps_now (finish_poll e p offers s) = ps_now s"
  "waiters_of (finish_poll e p offers s) e' =
     (if e' = e then filter (\<lambda>w. pw_promise w \<noteq> p) (waiters_of s e) else waiters_of s e')"
  by (simp_all add: finish_poll_def fun_eq_iff)

lemma queue_ok_finish: "queue_ok s \<Longrightarrow> queue_ok (finish_poll e p (fst (drain e s)) (snd (drain e s)))"
  using queue_ok_handed [of s e p] queue_ok_cong [of "finish_poll e p (fst (drain e s)) (snd (drain e s))" "handed e p s"]
  by (simp add: finish_views handed_def case_prod_beta fun_eq_iff)

lemma queue_ok_wake: "queue_ok s \<Longrightarrow> queue_ok (wake e p s)"
  by (cases rule: wake_cases [of p s e]) (auto simp: queue_ok_finish drain_nothing intro: queue_ok_cong [THEN iffD2])

lemma only_here:
  assumes "promises_ok s" "p \<in> pw_promise ` set (waiters_of s e)" "e' \<noteq> e"
  shows "filter (\<lambda>w. pw_promise w \<noteq> p) (waiters_of s e') = waiters_of s e'"
  using assms unfolding promises_ok_def by (intro filter_True) (metis imageI)

lemma promises_ok_wake: "promises_ok s \<Longrightarrow> promises_ok (wake e p s)"
proof (cases rule: wake_cases [of p s e])
  case answered
  assume ok: "promises_ok s"
  show ?thesis
    unfolding answered(2)
  proof (rule promises_ok_answer [OF ok, of p _ "fst (drain e s)"])
    show "p \<notin> fst ` set (ps_answers s)" "p < ps_next_promise s"
      using ok answered(1) unfolding promises_ok_def by blast+
  qed (use only_here [OF ok answered(1)] in \<open>auto simp: finish_views\<close>)
qed (auto intro: promises_ok_cong [THEN iffD2])

lemma wake_awake:
  "waiters_of (wake e p s) e' = waiters_of s e' \<or>
     e' = e \<and> waiters_of (wake e p s) e' = filter (\<lambda>w. pw_promise w \<noteq> p) (waiters_of s e')"
  by (cases rule: wake_cases [of p s e]) (auto simp: finish_views)

lemma wake_pending:
  "pending_of (wake e p s) e' = pending_of s e' \<or>
     e' = e \<and> pending_of (wake e p s) e' = filter (\<lambda>i. \<not> is_offered s i) (pending_of s e')"
  by (cases rule: wake_cases [of p s e]) (auto simp: finish_views drain_state)

lemma wake_tasks [simp]:
  "ps_tasks (wake e p s) = ps_tasks s" "is_offered (wake e p s) = is_offered s" "ps_now (wake e p s) = ps_now s"
  by (cases rule: wake_cases [of p s e], auto simp: finish_views)+

lemma sleep_ok_wake: "sleep_ok s \<Longrightarrow> sleep_ok (wake e p s)"
  unfolding sleep_ok_def wake_tasks
  using wake_awake [of e p s] wake_pending [of e p s] by (metis filter.simps(1) filter_id_conv filter_empty_conv)

text \<open>Waking a poll of a queue that has something to offer empties the queue.\<close>

lemma wake_takes:
  assumes "p \<in> pw_promise ` set (waiters_of s e)"
  shows "filter (is_offered s) (pending_of (wake e p s) e) = []"
proof (cases rule: wake_cases [of p s e])
  case asleep
  then show ?thesis using assms by (auto simp: find_None_iff)
next
  case answered
  then show ?thesis by (simp add: finish_views drain_state)
next
  case waits
  then show ?thesis by (simp add: drain_nothing drain_fst_empty)
qed

lemma fold_wake_tasks: "is_offered (fold (wake e) ps s) = is_offered s" "ps_tasks (fold (wake e) ps s) = ps_tasks s"
  by (induction ps arbitrary: s) simp_all

lemma fold_wake_keeps:
  assumes "filter (is_offered s) (pending_of s e) = []"
  shows "filter (is_offered s) (pending_of (fold (wake e) ps s) e) = []"
  using assms
proof (induction ps arbitrary: s)
  case (Cons p ps)
  have "filter (is_offered s) (pending_of (wake e p s) e) = []"
    using wake_pending [of e p s e] Cons.prems by auto
  then show ?case using Cons.IH [of "wake e p s"] by simp
qed simp

lemma notify_awake: "waiters_of s e \<noteq> [] \<Longrightarrow> filter (is_offered s) (pending_of (notify e s) e) = []"
  using wake_takes [of "pw_promise (hd (waiters_of s e))" s e] fold_wake_keeps [of "wake e (pw_promise (hd (waiters_of s e))) s" e]
  by (cases "waiters_of s e") (auto simp: notify_def)

lemma fold_wake_others:
  assumes "e' \<noteq> e"
  shows "waiters_of (fold (wake e) ps s) e' = waiters_of s e'" "pending_of (fold (wake e) ps s) e' = pending_of s e'"
  using assms wake_awake wake_pending by (induction ps arbitrary: s) fastforce+

lemma fold_wake_waiters: "set (waiters_of (fold (wake e) ps s) e') \<subseteq> set (waiters_of s e')"
proof (induction ps arbitrary: s)
  case (Cons p ps)
  show ?case using Cons.IH [of "wake e p s"] wake_awake [of e p s e'] by auto
qed simp

section \<open>New records of a task\<close>

lemma get_tasks_set [simp]:
  "js_get (ps_tasks (s\<lparr> ps_tasks := js_set i r (ps_tasks s') \<rparr>)) j = (if j = i then Some r else js_get (ps_tasks s') j)"
  by simp

lemma retask_queue:
  assumes "queue_ok s" "js_get (ps_tasks s) i = Some r" "qt_task_id r' = i" "to_task_id (qt_offer r') = i"
    "qt_executor_id r' = qt_executor_id r"
  shows "queue_ok (s\<lparr> ps_tasks := js_set i r' (ps_tasks s) \<rparr>)"
proof -
  have row: "js_get (ps_tasks s) j = Some t \<Longrightarrow> qt_task_id t = j \<and> to_task_id (qt_offer t) = j \<and>
      (j \<in> set (pending_of s (qt_executor_id t)) \<or> j \<in> set (handed_out s))" for j t
    using assms(1) by (simp add: queue_ok_def)
  have pend: "distinct (pending_of s e)" "j \<in> set (pending_of s e) \<Longrightarrow> j \<notin> set (handed_out s) \<and>
      (\<exists>t. js_get (ps_tasks s) j = Some t \<and> qt_executor_id t = e)" for j e
    using assms(1) by (simp_all add: queue_ok_def)
  show ?thesis
    unfolding queue_ok_def pending_simps handed_simps get_tasks_set
    by (intro conjI allI impI ballI)
      (use assms row pend in \<open>fastforce simp: queue_ok_def split: if_splits\<close>)+
qed

lemma retask_sleep:
  assumes "sleep_ok s" "js_get (ps_tasks s) i = Some r" "qt_status r' = TkOffered \<longrightarrow> qt_status r = TkOffered"
  shows "sleep_ok (s\<lparr> ps_tasks := js_set i r' (ps_tasks s) \<rparr>)"
proof -
  have "is_offered (s\<lparr> ps_tasks := js_set i r' (ps_tasks s) \<rparr>) j \<Longrightarrow> is_offered s j" for j
    using assms(2,3) by (auto simp: offered_task_row split: if_splits)
  then show ?thesis using assms(1) unfolding sleep_ok_def by (auto simp: filter_empty_conv)
qed

lemma promises_tasks [simp]: "promises_ok (s\<lparr> ps_tasks := t \<rparr>) = promises_ok s"
  by (rule promises_ok_cong) (simp_all add: fun_eq_iff)

definition poll_ok :: "poll_store \<Rightarrow> bool" where
  "poll_ok s \<longleftrightarrow> queue_ok s \<and> promises_ok s \<and> sleep_ok s"

lemma ok_row: "poll_ok s \<Longrightarrow> js_get (ps_tasks s) i = Some r \<Longrightarrow> qt_task_id r = i \<and> to_task_id (qt_offer r) = i"
  by (simp add: poll_ok_def queue_ok_def)

lemma ok_retask:
  assumes "poll_ok s" "js_get (ps_tasks s) i = Some r" "qt_task_id r' = i" "to_task_id (qt_offer r') = i"
    "qt_executor_id r' = qt_executor_id r" "qt_status r' = TkOffered \<longrightarrow> qt_status r = TkOffered"
  shows "poll_ok (s\<lparr> ps_tasks := js_set i r' (ps_tasks s) \<rparr>)"
  using assms retask_queue retask_sleep unfolding poll_ok_def by simp

lemma ok_markCompleted: "poll_ok s \<Longrightarrow> poll_ok (markCompleted i res s)"
  using ok_row [of s i] by (auto simp: markCompleted_def intro!: ok_retask split: option.splits)

lemma ok_markFailed: "poll_ok s \<Longrightarrow> poll_ok (markFailed i code detail s)"
  using ok_row [of s i] by (auto simp: markFailed_def intro!: ok_retask split: option.splits)

lemma ok_cancel: "poll_ok s \<Longrightarrow> poll_ok (cancelOfferedForRun run code detail s)"
  unfolding cancelOfferedForRun_def
  by (rule fold_invariant [where P = poll_ok and Q = "\<lambda>_. True"]) (simp_all add: ok_markFailed)

text \<open>Rows of offered tasks, and stores in which they are still offered.\<close>

definition still_offered :: "queued_task list \<Rightarrow> poll_store \<Rightarrow> bool" where
  "still_offered rs s \<longleftrightarrow> (\<forall>r \<in> set rs. qt_status r = TkOffered \<and> to_task_id (qt_offer r) = qt_task_id r \<and>
     (\<exists>r0. js_get (ps_tasks s) (qt_task_id r) = Some r0 \<and> qt_executor_id r0 = qt_executor_id r \<and> qt_status r0 = TkOffered))"

lemma offered_rows:
  assumes "poll_ok s"
  shows "still_offered (listOfferedForRun s run) s"
proof -
  have "js_get (ps_tasks s) (qt_task_id r) = Some r \<and> to_task_id (qt_offer r) = qt_task_id r"
    if "r \<in> set (js_values (ps_tasks s))" for r
    using that assms ok_row [OF assms] js_values_iff [of "ps_tasks s" r] by (auto simp: poll_ok_def queue_ok_def)
  then show ?thesis by (auto simp: still_offered_def listOfferedForRun_def)
qed

lemma extend_fields [simp]:
  "qt_task_id (extend_deadline ms r) = qt_task_id r" "qt_status (extend_deadline ms r) = qt_status r"
  "qt_executor_id (extend_deadline ms r) = qt_executor_id r"
  "to_task_id (qt_offer (extend_deadline ms r)) = to_task_id (qt_offer r)"
  by (simp_all add: extend_deadline_def)

lemma extend_fold:
  assumes "poll_ok s" "still_offered rs s"
  shows "poll_ok (s\<lparr> ps_tasks := fold (\<lambda>r. js_set (qt_task_id r) (extend_deadline ms r)) rs (ps_tasks s) \<rparr>) \<and>
    (\<forall>i r. js_get (ps_tasks s) i = Some r \<and> qt_status r \<noteq> TkOffered \<longrightarrow>
       js_get (fold (\<lambda>r. js_set (qt_task_id r) (extend_deadline ms r)) rs (ps_tasks s)) i = Some r)"
  using assms
proof (induction rs arbitrary: s)
  case (Cons r rs)
  let ?s = "s\<lparr> ps_tasks := js_set (qt_task_id r) (extend_deadline ms r) (ps_tasks s) \<rparr>"
  obtain r0 where r0: "js_get (ps_tasks s) (qt_task_id r) = Some r0" "qt_executor_id r0 = qt_executor_id r"
      "qt_status r0 = TkOffered" "qt_status r = TkOffered" "to_task_id (qt_offer r) = qt_task_id r"
    using Cons.prems(2) by (auto simp: still_offered_def)
  have "poll_ok ?s" by (rule ok_retask [OF Cons.prems(1) r0(1)]) (simp_all add: r0)
  moreover have "still_offered rs ?s" using Cons.prems(2) r0 by (auto simp: still_offered_def)
  ultimately have IH: "poll_ok (?s\<lparr> ps_tasks := fold (\<lambda>r. js_set (qt_task_id r) (extend_deadline ms r)) rs (ps_tasks ?s) \<rparr>)"
      "\<forall>i t. js_get (ps_tasks ?s) i = Some t \<and> qt_status t \<noteq> TkOffered \<longrightarrow>
         js_get (fold (\<lambda>r. js_set (qt_task_id r) (extend_deadline ms r)) rs (ps_tasks ?s)) i = Some t"
    using Cons.IH [of ?s] by blast+
  have "js_get (ps_tasks s) i = Some t \<and> qt_status t \<noteq> TkOffered \<Longrightarrow> js_get (ps_tasks ?s) i = Some t" for i t
    using r0 by auto
  then show ?case using IH by (simp del: js_get_set get_tasks_set)
qed simp

lemma ok_extend: "poll_ok s \<Longrightarrow> poll_ok (snd (extendOfferedDeadlinesForRun run ms s))"
  using extend_fold [OF _ offered_rows] by (simp add: extendOfferedDeadlinesForRun_def Let_def)

section \<open>Polls and arrivals\<close>

lemma ok_wake: "poll_ok s \<Longrightarrow> poll_ok (wake e p s)"
  by (simp add: poll_ok_def queue_ok_wake promises_ok_wake sleep_ok_wake)

lemma ok_poll:
  assumes "poll_ok s"
  shows "poll_ok (snd (poll e timeout s))"
proof -
  let ?p = "ps_next_promise s"
  let ?s0 = "(recordPoll e None s)\<lparr> ps_next_promise := Suc ?p \<rparr>"
  have q: "queue_ok ?s0" and sl: "sleep_ok ?s0"
    using assms queue_ok_cong [of ?s0 s] sleep_ok_cong [of ?s0 s]
    by (simp_all add: poll_ok_def recordPoll_def fun_eq_iff)
  have below: "\<forall>p \<in> fst ` set (ps_answers s). p < ?p" "p \<in> pw_promise ` set (waiters_of s e') \<Longrightarrow> p < ?p" for p e'
    using assms unfolding poll_ok_def promises_ok_def by blast+
  have pr: "promises_ok ?s0"
    using assms unfolding poll_ok_def promises_ok_def recordPoll_def by (auto simp: less_Suc_eq)
  have views: "ps_answers ?s0 = ps_answers s" "waiters_of ?s0 = waiters_of s" "ps_next_promise ?s0 = Suc ?p"
    by (simp_all add: recordPoll_def fun_eq_iff)
  have fresh: "?p \<notin> fst ` set (ps_answers ?s0)" "\<And>e'. ?p \<notin> pw_promise ` set (waiters_of ?s0 e')"
    unfolding views using below by blast+
  show ?thesis
  proof (cases "fst (drain e ?s0) = []")
    case False
    then have eq: "snd (poll e timeout s) = handed e ?p ?s0" by (simp add: poll_def Let_def handed_def case_prod_beta)
    have "filter (\<lambda>w. pw_promise w \<noteq> ?p) (waiters_of ?s0 e') = waiters_of ?s0 e'" for e'
      using fresh(2) [of e'] by (intro filter_True) (metis imageI)
    then have "promises_ok (handed e ?p ?s0)"
      using promises_ok_answer [OF pr fresh(1), of "handed e ?p ?s0"] by (simp add: handed_views views)
    moreover have "sleep_ok (handed e ?p ?s0)"
      using sl handed_offered [of e ?p ?s0] unfolding sleep_ok_def handed_views by (auto simp: handed_offered)
    ultimately show ?thesis using queue_ok_handed [OF q] by (simp add: poll_ok_def eq)
  next
    case True
    let ?s1 = "snd (drain e ?s0)"
    let ?w = "\<lparr> pw_promise = ?p, pw_deadline = ps_now ?s1 + opt_default DEFAULT_POLL_TIMEOUT_MS timeout \<rparr>"
    let ?s2 = "?s1\<lparr> ps_waiters := js_set e (waiters_of ?s1 e @ [?w]) (ps_waiters ?s1) \<rparr>"
    have eq: "snd (poll e timeout s) = ?s2" using True by (simp add: poll_def Let_def case_prod_beta)
    have "queue_ok ?s2" using q drain_nothing [OF True] queue_ok_cong [of ?s2 ?s0] by (simp add: fun_eq_iff)
    moreover have "sleep_ok ?s2"
      using sl drain_nothing [OF True] True unfolding sleep_ok_def by (auto simp: drain_fst_empty)
    moreover have "promises_ok ?s2"
      by (rule promises_ok_add [OF pr, where p = ?p and e = e and w = ?w]) (use fresh in simp_all)
    ultimately show ?thesis by (simp add: poll_ok_def eq)
  qed
qed

lemma ok_enqueue:
  assumes "poll_ok s" "js_get (ps_tasks s) (eq_task_id inp) = None"
  shows "poll_ok (enqueueTaskOffer inp s)"
proof -
  let ?r = "offered_task (ps_now s) inp"
  let ?e = "eq_executor_id inp" and ?i = "eq_task_id inp"
  let ?s = "s\<lparr> ps_tasks := js_set ?i ?r (ps_tasks s), ps_pending := js_set ?e (pending_of s ?e @ [?i]) (ps_pending s) \<rparr>"
  have r: "qt_task_id ?r = ?i" "qt_executor_id ?r = ?e" "to_task_id (qt_offer ?r) = ?i" "qt_status ?r = TkOffered"
    by (simp_all add: offered_task_def buildTaskOffer_def Let_def)
  have eq: "enqueueTaskOffer inp s = fold (wake ?e) (map pw_promise (waiters_of ?s ?e)) ?s"
    by (simp add: enqueueTaskOffer_def enqueue_def notify_def Let_def r)
  have ok: "queue_ok s" "promises_ok s" "sleep_ok s" using assms(1) by (simp_all add: poll_ok_def)
  have new: "?i \<notin> set (handed_out s)" "?i \<notin> set (pending_of s e)" for e
    using ok(1) assms(2) unfolding queue_ok_def js_has_def by (metis option.distinct(1))+
  have "queue_ok ?s"
    unfolding queue_ok_def
  proof (intro conjI allI ballI impI)
    fix e i assume i: "i \<in> set (pending_of ?s e)"
    then show "i \<notin> set (handed_out ?s)" "\<exists>r. js_get (ps_tasks ?s) i = Some r \<and> qt_executor_id r = e"
      using ok(1) new assms(2) r unfolding queue_ok_def by (auto split: if_splits) 
  next
    fix i r assume row: "js_get (ps_tasks ?s) i = Some r"
    have old: "qt_task_id r = i \<and> to_task_id (qt_offer r) = i \<and>
        (i \<in> set (pending_of s (qt_executor_id r)) \<or> i \<in> set (handed_out s))" if "js_get (ps_tasks s) i = Some r"
      using ok(1) that by (simp add: queue_ok_def)
    show "qt_task_id r = i" "to_task_id (qt_offer r) = i"
      "i \<in> set (pending_of ?s (qt_executor_id r)) \<or> i \<in> set (handed_out ?s)"
      using row old r by (auto split: if_splits)
  qed (use ok(1) new assms(2) in \<open>auto simp: queue_ok_def\<close>)
  moreover have "promises_ok ?s" using ok(2) by (simp add: promises_ok_def)
  ultimately have "queue_ok (enqueueTaskOffer inp s) \<and> promises_ok (enqueueTaskOffer inp s)"
    unfolding eq
    by (intro fold_invariant [where P = "\<lambda>s. queue_ok s \<and> promises_ok s" and Q = "\<lambda>_. True"])
      (simp_all add: queue_ok_wake promises_ok_wake)
  moreover have "sleep_ok (enqueueTaskOffer inp s)"
    unfolding sleep_ok_def
  proof (intro allI impI)
    fix e assume sleeping: "waiters_of (enqueueTaskOffer inp s) e \<noteq> []"
    show "filter (is_offered (enqueueTaskOffer inp s)) (pending_of (enqueueTaskOffer inp s) e) = []"
    proof (cases "e = ?e")
      case True
      then have "waiters_of ?s ?e \<noteq> []"
        using sleeping fold_wake_waiters [of ?e "map pw_promise (waiters_of ?s ?e)" ?s e] unfolding eq by auto
      then show ?thesis using notify_awake [of ?s ?e] True unfolding eq notify_def fold_wake_tasks by simp
    next
      case False
      have "is_offered ?s i = is_offered s i" if "i \<in> set (pending_of s e)" for i
        using that new by (auto simp: is_offered_def)
      then show ?thesis
        using False sleeping ok(3) unfolding eq fold_wake_tasks
        by (auto simp: fold_wake_others sleep_ok_def filter_empty_conv)
    qed
  qed
  ultimately show ?thesis by (simp add: poll_ok_def)
qed

section \<open>All interleavings\<close>

text \<open>
  The moves of the queue, its executors and its timers. The ids of tasks are fresh.
\<close>

inductive poll_move :: "(journal_call \<Rightarrow> bool) \<Rightarrow> poll_store \<Rightarrow> poll_store \<Rightarrow> bool" for fits where
  arrives: "js_get (ps_tasks s) (eq_task_id inp) = None \<Longrightarrow> poll_move fits s (enqueueTaskOffer inp s)"
| polls: "poll_move fits s (snd (poll e timeout s))"
| wakes: "poll_move fits s (wake e p s)"
| completes: "poll_move fits s (snd (snd (completeQueuedTask fits i res s)))"
| fails: "poll_move fits s (snd (snd (failQueuedTask i code detail s)))"
| cancels: "poll_move fits s (cancelOfferedForRun run code detail s)"
| extends: "poll_move fits s (snd (extendOfferedDeadlinesForRun run ms s))"
| passes: "0 \<le> n \<Longrightarrow> poll_move fits s (s\<lparr> ps_now := ps_now s + n \<rparr>)"

lemma complete_state:
  "snd (snd (completeQueuedTask fits i res s)) = s \<or>
   (\<exists>r. js_get (ps_tasks s) i = Some r \<and> qt_status r = TkOffered \<and>
      snd (snd (completeQueuedTask fits i res s)) = markCompleted i res s)"
  by (auto simp: completeQueuedTask_def case_prod_beta split: option.splits task_status.splits)

lemma fail_state:
  "snd (snd (failQueuedTask i code detail s)) = s \<or>
   (\<exists>r. js_get (ps_tasks s) i = Some r \<and> qt_status r = TkOffered \<and>
      snd (snd (failQueuedTask i code detail s)) = markFailed i code detail s)"
  by (auto simp: failQueuedTask_def split: option.splits task_status.splits)

lemma move_ok: "poll_move fits s s' \<Longrightarrow> poll_ok s \<Longrightarrow> poll_ok s'"
proof (induction rule: poll_move.induct)
  case (completes s i res)
  then show ?case using complete_state [of fits i res s] ok_markCompleted by auto
next
  case (fails s i code detail)
  then show ?case using fail_state [of i code detail s] ok_markFailed by auto
next
  case (passes n s)
  have "queue_ok (s\<lparr> ps_now := ps_now s + n \<rparr>) = queue_ok s"
    by (rule queue_ok_cong) (simp_all add: fun_eq_iff)
  moreover have "promises_ok (s\<lparr> ps_now := ps_now s + n \<rparr>) = promises_ok s"
    by (rule promises_ok_cong) (simp_all add: fun_eq_iff)
  moreover have "sleep_ok (s\<lparr> ps_now := ps_now s + n \<rparr>) = sleep_ok s"
    by (rule sleep_ok_cong) (simp_all add: fun_eq_iff)
  ultimately show ?case using passes by (simp add: poll_ok_def)
qed (simp_all add: ok_enqueue ok_poll ok_wake ok_cancel ok_extend)

lemma init_ok: "poll_ok (init_polls t)"
  by (simp add: poll_ok_def queue_ok_def promises_ok_def sleep_ok_def init_polls_def pending_of_def waiters_of_def
      handed_out_def opt_default_def)

lemma moves_ok: "(poll_move fits)\<^sup>*\<^sup>* s s' \<Longrightarrow> poll_ok s \<Longrightarrow> poll_ok s'"
  by (induction rule: rtranclp_induct) (simp_all add: move_ok)

section \<open>Settled tasks\<close>

definition settled :: "poll_store \<Rightarrow> string \<Rightarrow> queued_task \<Rightarrow> bool" where
  "settled s i r \<longleftrightarrow> js_get (ps_tasks s) i = Some r \<and> qt_status r \<noteq> TkOffered"

lemma mark_other:
  "j \<noteq> i \<Longrightarrow> js_get (ps_tasks (markCompleted i res s)) j = js_get (ps_tasks s) j"
  "j \<noteq> i \<Longrightarrow> js_get (ps_tasks (markFailed i code detail s)) j = js_get (ps_tasks s) j"
  by (simp_all add: markCompleted_def markFailed_def split: option.splits)

lemma cancel_settled:
  assumes "settled s i r" "\<forall>t \<in> set rs. qt_task_id t \<noteq> i"
  shows "js_get (ps_tasks (fold (\<lambda>t. markFailed (qt_task_id t) c d) rs s)) i = Some r"
  using assms by (induction rs arbitrary: s) (auto simp: settled_def mark_other)

lemma enqueue_tasks: "ps_tasks (enqueueTaskOffer inp s) = js_set (eq_task_id inp) (offered_task (ps_now s) inp) (ps_tasks s)"
  by (simp add: enqueueTaskOffer_def enqueue_def notify_def Let_def fold_wake_tasks offered_task_def)

lemma poll_tasks: "ps_tasks (snd (poll e timeout s)) = ps_tasks s"
  by (simp add: poll_def Let_def case_prod_beta recordPoll_def)

lemma move_settled: "poll_move fits s s' \<Longrightarrow> poll_ok s \<Longrightarrow> settled s i r \<Longrightarrow> settled s' i r"
proof (induction rule: poll_move.induct)
  case (arrives s inp)
  then show ?case by (auto simp: settled_def enqueue_tasks)
next
  case (completes s j res)
  then show ?case
    using complete_state [of fits j res s] by (cases "i = j") (auto simp: settled_def mark_other)
next
  case (fails s j code detail)
  then show ?case
    using fail_state [of j code detail s] by (cases "i = j") (auto simp: settled_def mark_other)
next
  case (cancels s run code detail)
  have "qt_task_id t \<noteq> i" if "t \<in> set (listOfferedForRun s run)" for t
    using that offered_rows [OF cancels(1), of run] cancels(2) by (auto simp: settled_def still_offered_def)
  then have "\<forall>t \<in> set (listOfferedForRun s run). qt_task_id t \<noteq> i" by blast
  from cancel_settled [OF cancels(2) this] cancels(2) show ?case by (simp add: cancelOfferedForRun_def settled_def)
next
  case (extends s run ms)
  then show ?case
    using extend_fold [OF extends(1) offered_rows [OF extends(1), of run], of ms]
    by (auto simp: settled_def extendOfferedDeadlinesForRun_def Let_def)
qed (simp_all add: settled_def poll_tasks)

lemma moves_settled: "(poll_move fits)\<^sup>*\<^sup>* s s' \<Longrightarrow> poll_ok s \<Longrightarrow> settled s i r \<Longrightarrow> settled s' i r"
  by (induction rule: rtranclp_induct) (use move_settled moves_ok in blast)+

end
