(* ===== verification/TimeoutScheduler.thy ===== *)
theory TimeoutScheduler
  imports RunService FlowGraph
begin

text \<open>
  The time limit of executors, from \<open>hub-core/src/executors/\<close>: the table of running executors with the
  pauses human steps grant them (\<open>timeout-scheduler.ts\<close>) and the sweep that fails the runs of expired
  ones (\<open>timeout-sweep.ts\<close>). The loops mutate the entries of a \<open>Map\<close> in place; here they rebuild it.
\<close>

section \<open>The table\<close>

record timeout_entry =
  te_run_id :: string
  te_step_id :: string
  te_action_name :: "string option"
  te_timeout_ms :: int
  te_started_at :: int
  te_paused_ms :: int
  te_pause_started_at :: "int option"

type_synonym timeouts = "(string, timeout_entry) jsmap"

record timeout_expired =
  tx_run_id :: string
  tx_step_id :: string
  tx_action_name :: "string option"
  tx_timeout_ms :: int
  tx_elapsed_ms :: int

definition runKey :: "string \<Rightarrow> string \<Rightarrow> string" where
  "runKey run_id step_id = prefixedRun run_id @ '':'' @ step_id"

definition run_prefix :: "string \<Rightarrow> string" where
  "run_prefix run_id = prefixedRun run_id @ '':''"

definition humanStepPausesExecutorTimeout :: "step_catalog option \<Rightarrow> string \<Rightarrow> string \<Rightarrow> bool" where
  "humanStepPausesExecutorTimeout catalog executor_step human_step \<longleftrightarrow>
     executor_step \<noteq> human_step \<and>
     (starts_with human_step (executor_step @ ''.'') \<or>
      (case catalogEntryForStep catalog human_step of None \<Rightarrow> False | Some e \<Rightarrow> ce_parent_id e = Some executor_step))"

definition runHasOpenStepForExecutor :: "step_catalog option \<Rightarrow> step_memo list \<Rightarrow> string \<Rightarrow> bool" where
  "runHasOpenStepForExecutor catalog memos executor_step =
     list_ex (\<lambda>m. me_status m = SWorking \<and> humanStepPausesExecutorTimeout catalog executor_step (me_step_id m)) memos"

definition start :: "string \<Rightarrow> string \<Rightarrow> int \<Rightarrow> string option \<Rightarrow> int \<Rightarrow> timeouts \<Rightarrow> timeouts" where
  "start run_id step_id timeout action now m =
     (if timeout \<le> 0 then m
      else js_set (runKey run_id step_id) \<lparr> te_run_id = prefixedRun run_id, te_step_id = step_id,
        te_action_name = action, te_timeout_ms = timeout, te_started_at = now, te_paused_ms = 0,
        te_pause_started_at = None \<rparr> m)"

definition stop :: "string \<Rightarrow> string \<Rightarrow> timeouts \<Rightarrow> timeouts" where
  "stop run_id step_id m = js_delete (runKey run_id step_id) m"

definition stopRun :: "string \<Rightarrow> timeouts \<Rightarrow> timeouts" where
  "stopRun run_id m = filter (\<lambda>(k, _). \<not> starts_with k (run_prefix run_id)) m"

definition get_timeout :: "timeouts \<Rightarrow> string \<Rightarrow> string \<Rightarrow> timeout_entry option" where
  "get_timeout m run_id step_id = js_get m (runKey run_id step_id)"

text \<open>One entry under a sync: the milliseconds it was paused, when a pause ends, and the entry.\<close>

definition sync_entry :: "int \<Rightarrow> bool \<Rightarrow> timeout_entry \<Rightarrow> int \<times> timeout_entry" where
  "sync_entry now pause e =
     (case te_pause_started_at e of
        None \<Rightarrow> if pause then (0, e\<lparr> te_pause_started_at := Some now \<rparr>) else (0, e)
      | Some p \<Rightarrow> if pause then (0, e)
          else (now - p, e\<lparr> te_paused_ms := te_paused_ms e + (now - p), te_pause_started_at := None \<rparr>))"

definition sync_row :: "string \<Rightarrow> step_catalog option \<Rightarrow> step_memo list \<Rightarrow> int \<Rightarrow> string \<times> timeout_entry \<Rightarrow> int \<times> timeout_entry" where
  "sync_row run_id catalog memos now row = (case row of (k, e) \<Rightarrow>
     if \<not> starts_with k (run_prefix run_id) then (0, e)
     else sync_entry now (runHasOpenStepForExecutor catalog memos (te_step_id e)) e)"

definition syncHumanWaitPause ::
    "string \<Rightarrow> step_catalog option \<Rightarrow> step_memo list \<Rightarrow> int \<Rightarrow> timeouts \<Rightarrow> int \<times> timeouts" where
  "syncHumanWaitPause run_id catalog memos now m =
     (sum_list (map (fst \<circ> sync_row run_id catalog memos now) m),
      map (\<lambda>row. (fst row, snd (sync_row run_id catalog memos now row))) m)"

text \<open>A pause that began at time 0 counts as none: the code tests the time itself.\<close>

definition effectiveElapsedMs :: "timeout_entry \<Rightarrow> int \<Rightarrow> int" where
  "effectiveElapsedMs e now =
     (let pause = (case te_pause_started_at e of None \<Rightarrow> 0 | Some p \<Rightarrow> if p = 0 then 0 else now - p) in
      now - te_started_at e - te_paused_ms e - pause)"

definition expired_of :: "int \<Rightarrow> timeout_entry \<Rightarrow> timeout_expired option" where
  "expired_of now e =
     (if te_timeout_ms e \<le> effectiveElapsedMs e now
      then Some \<lparr> tx_run_id = te_run_id e, tx_step_id = te_step_id e, tx_action_name = te_action_name e,
        tx_timeout_ms = te_timeout_ms e, tx_elapsed_ms = effectiveElapsedMs e now \<rparr>
      else None)"

definition collectExpired :: "int \<Rightarrow> timeouts \<Rightarrow> timeout_expired list" where
  "collectExpired now m = List.map_filter (expired_of now) (js_values m)"

text \<open>\<open>Math.round\<close> of the seconds.\<close>

definition formatActionTimedOutSummary :: "string \<Rightarrow> string option \<Rightarrow> int \<Rightarrow> bool \<Rightarrow> string" where
  "formatActionTimedOutSummary step_id action timeout human_wait_excluded =
     (let base = ''Agent action '' @ quoted (opt_default step_id action) @ '' exceeded ''
            @ int_str ((timeout + 500) div 1000) @ ''s executor limit on step '' @ quoted step_id @ ''.'' in
      if human_wait_excluded then base @ '' Human review wait time is excluded from this limit.'' else base)"

section \<open>The sweep\<close>

record sweep_input =
  wi_actor_id :: "string option"
  wi_token_id :: "string option"

definition timed_out_event :: "string \<Rightarrow> string \<Rightarrow> timeout_expired \<Rightarrow> run_row \<Rightarrow> string \<Rightarrow> journal_call" where
  "timed_out_event actor token x run summary = \<lparr>
     jc_type = ''mrmr.action.timed_out'', jc_space_id = addSpaceId (opt_default [] (rr_space_id run)),
     jc_session_id = (if rr_session_id run \<noteq> [] then Some (''ses_'' @ rr_session_id run) else None),
     jc_run_id = Some (prefixedRun (tx_run_id x)), jc_actor_id = actor, jc_token_id = token,
     jc_data = [(''step_id'', JStr (tx_step_id x)), (''action_name'', opt_str (tx_action_name x)),
       (''error_code'', JStr ''ACTION_TIMED_OUT''), (''detail'', JStr summary)] \<rparr>"

text \<open>One expired executor; \<open>False\<close> if failing its run threw, which ends the sweep.\<close>

definition sweep_one :: "session_run_deps \<Rightarrow> string \<Rightarrow> string \<Rightarrow> timeout_expired \<Rightarrow> bool hub_op" where
  "sweep_one d actor token x =
     do {
       found \<leftarrow> studio_ask (\<lambda>st. getRun st (bare_with ''run_'' (tx_run_id x)));
       memos \<leftarrow> studio_ask (\<lambda>st. listRunStepMemos st (prefixedRun (tx_run_id x)));
       case found of
         None \<Rightarrow> State_Monad.return True
       | Some run \<Rightarrow>
           if \<not> truthy_str (rr_space_id run) \<or>
              (case memo_for memos (tx_step_id x) of None \<Rightarrow> False | Some m \<Rightarrow> memo_terminal m)
           then State_Monad.return True
           else do {
             let summary = formatActionTimedOutSummary (tx_step_id x) (tx_action_name x) (tx_timeout_ms x) True;
             _ \<leftarrow> append_journal (timed_out_event actor token x run summary);
             r \<leftarrow> failRunWithNotification d \<lparr> fn_run_id = tx_run_id x, fn_actor_id = actor, fn_token_id = token,
               fn_reason = Some (''ACTION_TIMED_OUT:'' @ summary), fn_notify = None \<rparr>;
             State_Monad.return (case r of Threw \<Rightarrow> False | _ \<Rightarrow> True)
           }
     }"

text \<open>Failing a run also stops the timers of the run: those are the terminations the hub logged.\<close>

definition stop_terminated :: "hub \<Rightarrow> hub \<Rightarrow> timeouts \<Rightarrow> timeouts" where
  "stop_terminated h h' m = fold (\<lambda>(run, _). stopRun run) (drop (length (hb_terminated h)) (hb_terminated h')) m"

fun sweep_each :: "session_run_deps \<Rightarrow> string \<Rightarrow> string \<Rightarrow> timeout_expired list \<Rightarrow> timeouts \<times> hub \<Rightarrow> bool \<times> timeouts \<times> hub" where
  "sweep_each d actor token [] (m, h) = (True, m, h)"
| "sweep_each d actor token (x # xs) (m, h) =
     (let m' = stop (tx_run_id x) (tx_step_id x) m; h' = final (sweep_one d actor token x) h in
      if result (sweep_one d actor token x) h
      then sweep_each d actor token xs (stop_terminated h h' m', h')
      else (False, stop_terminated h h' m', h'))"

definition sweepExecutorTimeouts :: "session_run_deps \<Rightarrow> int \<Rightarrow> sweep_input \<Rightarrow> timeouts \<times> hub \<Rightarrow> nat option \<times> timeouts \<times> hub" where
  "sweepExecutorTimeouts d now inp s =
     (let expired = collectExpired now (fst s) in
      if expired = [] then (Some 0, s)
      else (case sweep_each d (opt_default ''system_flow'' (wi_actor_id inp)) (opt_default ''system'' (wi_token_id inp)) expired s of
          (ok, s') \<Rightarrow> (if ok then Some (length expired) else None, s')))"

section \<open>The clock of an executor\<close>

text \<open>
  The reference: an executor works from \<open>t\<close> on, unless it is paused; each sync says whether a human
  step is open from its time on. The time that counts is the sum of the spans in which it is not.
\<close>

fun working_time :: "int \<Rightarrow> bool \<Rightarrow> (int \<times> bool) list \<Rightarrow> int \<Rightarrow> int" where
  "working_time t paused [] now = (if paused then 0 else now - t)"
| "working_time t paused ((u, p) # rest) now = (if paused then 0 else u - t) + working_time u p rest now"

definition synced :: "(int \<times> bool) list \<Rightarrow> timeout_entry \<Rightarrow> timeout_entry" where
  "synced hist e = fold (\<lambda>(u, p) x. snd (sync_entry u p x)) hist e"

lemma sync_entry_elapsed:
  assumes "u \<noteq> 0" "te_pause_started_at e \<noteq> Some 0"
  shows "effectiveElapsedMs (snd (sync_entry u p e)) now =
      effectiveElapsedMs e u + (if p then 0 else now - u) \<and>
    (te_pause_started_at (snd (sync_entry u p e)) \<noteq> None \<longleftrightarrow> p) \<and>
    te_pause_started_at (snd (sync_entry u p e)) \<noteq> Some 0"
  using assms by (auto simp: sync_entry_def effectiveElapsedMs_def Let_def split: option.splits)

lemma elapsed_shift:
  "te_pause_started_at e \<noteq> Some 0 \<Longrightarrow> effectiveElapsedMs e now =
     effectiveElapsedMs e t + (if te_pause_started_at e \<noteq> None then 0 else now - t)"
  by (auto simp: effectiveElapsedMs_def Let_def split: option.splits)

lemma synced_elapsed:
  assumes "\<forall>(u, p) \<in> set hist. u \<noteq> 0" "te_pause_started_at e \<noteq> Some 0"
  shows "effectiveElapsedMs (synced hist e) now =
    effectiveElapsedMs e t + working_time t (te_pause_started_at e \<noteq> None) hist now"
  using assms
proof (induction hist arbitrary: e t)
  case Nil
  then show ?case using elapsed_shift [of e now t] by (simp add: synced_def)
next
  case (Cons up hist)
  obtain u p where up: "up = (u, p)" by (cases up)
  let ?e = "snd (sync_entry u p e)"
  have step: "effectiveElapsedMs ?e u = effectiveElapsedMs e u" "te_pause_started_at ?e \<noteq> None \<longleftrightarrow> p"
      "te_pause_started_at ?e \<noteq> Some 0"
    using sync_entry_elapsed [of u e p u] Cons.prems up by auto
  have "effectiveElapsedMs (synced hist ?e) now = effectiveElapsedMs ?e u + working_time u p hist now"
    using Cons.IH [of ?e u] Cons.prems(1) step by simp
  then show ?case
    using elapsed_shift [OF Cons.prems(2), of u t] step(1) by (simp add: synced_def up)
qed

end
