(* ===== verification/RunExecutors.thy ===== *)
theory RunExecutors
  imports PollProofs TimeoutScheduler Credentials
begin

text \<open>
  Everything that runs for a run, from \<open>hub-core/src/invoke/run-executor-cancel.ts\<close>: the registry of the
  executors that can be cancelled, and the end of a run, which cancels them, stops their timers,
  revokes their credentials and withdraws their offers. The sets of handles are objects, since the
  function a registration returns keeps the set it was given; ending a process is outside the model.
\<close>

section \<open>The registry of handles\<close>

record executor_handles =
  eh_store :: "(nat, nat list) jsmap"
  eh_byKey :: "(string, nat) jsmap"
  eh_next :: nat
  eh_cancelled :: "nat list"
  eh_pending :: "nat list"

definition init_handles :: executor_handles where
  "init_handles = \<lparr> eh_store = [], eh_byKey = [], eh_next = 0, eh_cancelled = [], eh_pending = [] \<rparr>"

definition handles_at :: "executor_handles \<Rightarrow> nat \<Rightarrow> nat list" where
  "handles_at c a = opt_default [] (js_get (eh_store c) a)"

definition put_handles :: "nat \<Rightarrow> nat list \<Rightarrow> executor_handles \<Rightarrow> executor_handles" where
  "put_handles a hs c = c\<lparr> eh_store := js_set a hs (eh_store c) \<rparr>"

record handle_registration =
  hr_key :: string
  hr_set :: nat
  hr_handle :: nat

definition registerRunExecutorCancel ::
    "string option \<Rightarrow> nat \<Rightarrow> executor_handles \<Rightarrow> handle_registration option \<times> executor_handles" where
  "registerRunExecutorCancel key handle c =
     (if \<not> truthy_str key then (None, c)
      else (let (a, c1) = (case js_get (eh_byKey c) (the key) of
                Some a \<Rightarrow> (a, c)
              | None \<Rightarrow> (eh_next c, c\<lparr> eh_store := js_set (eh_next c) [] (eh_store c),
                  eh_byKey := js_set (the key) (eh_next c) (eh_byKey c), eh_next := Suc (eh_next c) \<rparr>)) in
        (Some \<lparr> hr_key = the key, hr_set = a, hr_handle = handle \<rparr>,
         put_handles a (if handle \<in> set (handles_at c1 a) then handles_at c1 a else handles_at c1 a @ [handle]) c1)))"

definition unregister_handle :: "handle_registration option \<Rightarrow> executor_handles \<Rightarrow> executor_handles" where
  "unregister_handle r c =
     (case r of None \<Rightarrow> c | Some g \<Rightarrow>
        (let c1 = put_handles (hr_set g) (removeAll (hr_handle g) (handles_at c (hr_set g))) c in
         if handles_at c1 (hr_set g) = [] then c1\<lparr> eh_byKey := js_delete (hr_key g) (eh_byKey c1) \<rparr> else c1))"

definition registerShellProcessCancel ::
    "string option \<Rightarrow> string \<Rightarrow> nat \<Rightarrow> executor_handles \<Rightarrow> handle_registration option \<times> executor_handles" where
  "registerShellProcessCancel run_id step_id handle c =
     (if \<not> truthy_str run_id then (None, c)
      else registerRunExecutorCancel (Some (runKey (the run_id) step_id)) handle c)"

definition cancel_key :: "string \<Rightarrow> nat \<times> executor_handles \<Rightarrow> nat \<times> executor_handles" where
  "cancel_key key s = (case s of (n, c) \<Rightarrow>
     (case js_get (eh_byKey c) key of
        None \<Rightarrow> (n, c)
      | Some a \<Rightarrow>
          (let hs = handles_at c a in
           if hs = [] then (n, c)
           else (n + length hs, c\<lparr> eh_cancelled := eh_cancelled c @ hs, eh_pending := eh_pending c @ hs,
             eh_byKey := js_delete key (eh_byKey c) \<rparr>))))"

definition cancelHandlesForKeys :: "string list \<Rightarrow> executor_handles \<Rightarrow> nat \<times> executor_handles" where
  "cancelHandlesForKeys keys c = fold cancel_key keys (0, c)"

definition cancelStepExecutor :: "string \<Rightarrow> string \<Rightarrow> executor_handles \<Rightarrow> nat \<times> executor_handles" where
  "cancelStepExecutor run_id step_id = cancelHandlesForKeys [runKey run_id step_id]"

definition cancelRunExecutors :: "string \<Rightarrow> executor_handles \<Rightarrow> nat \<times> executor_handles" where
  "cancelRunExecutors run_id c =
     cancelHandlesForKeys (filter (\<lambda>k. starts_with k (run_prefix run_id)) (js_keys (eh_byKey c))) c"

definition cancelAllShellExecutors :: "executor_handles \<Rightarrow> nat \<times> executor_handles" where
  "cancelAllShellExecutors c = cancelHandlesForKeys (js_keys (eh_byKey c)) c"

definition awaitAllShellExecutorsTerminated :: "executor_handles \<Rightarrow> nat list \<times> executor_handles" where
  "awaitAllShellExecutorsTerminated c = (eh_pending c, c\<lparr> eh_pending := [] \<rparr>)"

definition clearRunExecutorCancelRegistry :: "executor_handles \<Rightarrow> executor_handles" where
  "clearRunExecutorCancelRegistry c = c\<lparr> eh_byKey := [], eh_pending := [] \<rparr>"

section \<open>The end of a run\<close>

record run_resources =
  rx_handles :: executor_handles
  rx_timeouts :: timeouts
  rx_credentials :: credentials
  rx_polls :: poll_store

fun lower_char :: "char \<Rightarrow> char" where
  "lower_char c = (if 65 \<le> (of_char c :: nat) \<and> (of_char c :: nat) \<le> 90 then char_of ((of_char c :: nat) + 32) else c)"

definition poll_reason :: "string option \<Rightarrow> string" where
  "poll_reason reason =
     (if (case reason of None \<Rightarrow> False | Some s \<Rightarrow> str_includes (map lower_char s) ''cancel'')
      then ''RUN_CANCELLED'' else ''RUN_TERMINATED'')"

definition terminate_run :: "string \<Rightarrow> string option \<Rightarrow> run_resources \<Rightarrow> nat \<times> run_resources" where
  "terminate_run run_id reason s =
     (let (killed, hs) = cancelRunExecutors run_id (rx_handles s) in
      (killed, s\<lparr> rx_handles := hs, rx_timeouts := stopRun run_id (rx_timeouts s),
        rx_credentials := snd (revokeRunResolveCredentials run_id (rx_credentials s)),
        rx_polls := cancelOfferedForRun run_id (Some (poll_reason reason))
          (Some (opt_default ''Run terminated'' reason)) (rx_polls s) \<rparr>))"

section \<open>What is left of a run\<close>

lemma stopRun_none: "(k, e) \<in> set (stopRun run m) \<Longrightarrow> \<not> starts_with k (run_prefix run)"
  by (auto simp: stopRun_def)

lemma cancel_key_gone:
  "js_get (eh_byKey c) k = Some a \<Longrightarrow> handles_at c a \<noteq> [] \<Longrightarrow>
     js_get (eh_byKey (snd (cancel_key k (n, c)))) k = None \<and> set (handles_at c a) \<subseteq> set (eh_cancelled (snd (cancel_key k (n, c))))"
  by (simp add: cancel_key_def Let_def)

text \<open>A key stays, with its set, or is gone with all its handles cancelled.\<close>

definition key_left :: "executor_handles \<Rightarrow> string \<Rightarrow> executor_handles \<Rightarrow> bool" where
  "key_left c k c' \<longleftrightarrow> eh_store c' = eh_store c \<and> set (eh_cancelled c) \<subseteq> set (eh_cancelled c') \<and>
     (js_get (eh_byKey c') k = js_get (eh_byKey c) k \<or>
      js_get (eh_byKey c') k = None \<and>
        (\<forall>a. js_get (eh_byKey c) k = Some a \<longrightarrow> set (handles_at c a) \<subseteq> set (eh_cancelled c')))"

lemma key_left_refl: "key_left c k c"
  by (simp add: key_left_def)

lemma key_left_trans: "key_left c k c' \<Longrightarrow> key_left c' k c'' \<Longrightarrow> key_left c k c''"
  unfolding key_left_def handles_at_def by fastforce

lemma cancel_key_left: "key_left c k (snd (cancel_key k' (n, c)))"
  by (auto simp: key_left_def cancel_key_def Let_def split: option.splits)

lemma cancel_fold_left: "key_left c k (snd (fold cancel_key ks (n, c)))"
proof (induction ks arbitrary: n c)
  case (Cons k' ks)
  obtain n' c' where eq: "cancel_key k' (n, c) = (n', c')" by fastforce
  then have "key_left c k c'" using cancel_key_left [of c k k' n] by simp
  then show ?case using key_left_trans Cons.IH [of c' n'] by (simp add: eq)
qed (simp add: key_left_refl)

lemma cancel_fold_all:
  assumes "k \<in> set ks" "js_get (eh_byKey c) k = Some a" "handles_at c a \<noteq> []"
  shows "js_get (eh_byKey (snd (fold cancel_key ks (n, c)))) k = None \<and>
    set (handles_at c a) \<subseteq> set (eh_cancelled (snd (fold cancel_key ks (n, c))))"
  using assms
proof (induction ks arbitrary: n c)
  case (Cons k' ks)
  obtain n' c' where eq: "cancel_key k' (n, c) = (n', c')" by fastforce
  have first: "key_left c k c'" using cancel_key_left [of c k k' n] eq by simp
  have rest: "key_left c' k (snd (fold cancel_key ks (n', c')))" by (rule cancel_fold_left)
  show ?case
  proof (cases "js_get (eh_byKey c') k = Some a")
    case True
    then have "k \<noteq> k'" using cancel_key_gone [of c k a n] Cons.prems eq by auto
    then show ?thesis
      using Cons.IH [of c' n'] Cons.prems True first by (simp add: eq key_left_def handles_at_def)
  next
    case False
    then have "js_get (eh_byKey c') k = None" "set (handles_at c a) \<subseteq> set (eh_cancelled c')"
      using first Cons.prems(2) by (auto simp: key_left_def)
    then show ?thesis using rest by (auto simp: eq key_left_def)
  qed
qed simp

lemma cancelled_all:
  assumes "js_get (eh_byKey c) k = Some a" "starts_with k (run_prefix run)" "handles_at c a \<noteq> []"
  shows "js_get (eh_byKey (snd (cancelRunExecutors run c))) k = None \<and>
    set (handles_at c a) \<subseteq> set (eh_cancelled (snd (cancelRunExecutors run c)))"
proof -
  have "k \<in> set (js_keys (eh_byKey c))" using assms(1) by (force simp: js_get_def js_keys_def dest: map_of_SomeD)
  then show ?thesis unfolding cancelRunExecutors_def cancelHandlesForKeys_def
    by (intro cancel_fold_all) (use assms in auto)
qed

lemma mark_fields:
  "is_offered (markFailed i code detail s) j \<longleftrightarrow> is_offered s j \<and> j \<noteq> i"
  "js_get (ps_tasks (markFailed i code detail s)) j = Some r \<Longrightarrow> \<exists>r0. js_get (ps_tasks s) j = Some r0 \<and>
     qt_offer r0 = qt_offer r \<and> qt_executor_id r0 = qt_executor_id r"
  by (auto simp: markFailed_def is_offered_def split: option.splits if_splits)

lemma cancel_marks:
  "is_offered (fold (\<lambda>t. markFailed (qt_task_id t) c d) rs s) j \<longleftrightarrow> is_offered s j \<and> j \<notin> qt_task_id ` set rs"
  by (induction rs arbitrary: s) (auto simp: mark_fields)

lemma cancel_offers:
  "js_get (ps_tasks (fold (\<lambda>t. markFailed (qt_task_id t) c d) rs s)) j = Some r \<Longrightarrow> \<exists>r0. js_get (ps_tasks s) j = Some r0 \<and>
     qt_offer r0 = qt_offer r"
  proof (induction rs arbitrary: s)
  case (Cons t rs)
  then show ?case using mark_fields(2) [of "qt_task_id t" c d s j] by fastforce
qed simp

text \<open>No task of the run is offered any more.\<close>

lemma cancelled_offers:
  assumes "poll_ok s"
  shows "listOfferedForRun (cancelOfferedForRun run code detail s) run = []"
proof (rule ccontr)
  let ?s = "cancelOfferedForRun run code detail s"
  have ok: "poll_ok ?s" by (rule ok_cancel [OF assms])
  assume "listOfferedForRun ?s run \<noteq> []"
  then obtain r where r: "r \<in> set (listOfferedForRun ?s run)" by (cases "listOfferedForRun ?s run") auto
  have row: "js_get (ps_tasks ?s) (qt_task_id r) = Some r" "is_offered ?s (qt_task_id r)"
    using r ok ok_row [OF ok] js_values_iff [of "ps_tasks ?s" r]
    by (auto simp: listOfferedForRun_def poll_ok_def queue_ok_def offered_task_row)
  then obtain r0 where r0: "js_get (ps_tasks s) (qt_task_id r) = Some r0" "qt_offer r0 = qt_offer r"
    using cancel_offers unfolding cancelOfferedForRun_def by blast
  have "is_offered s (qt_task_id r)" and gone: "qt_task_id r \<notin> qt_task_id ` set (listOfferedForRun s run)"
    using row(2) unfolding cancelOfferedForRun_def cancel_marks by simp_all
  then have "r0 \<in> set (listOfferedForRun s run)"
    using r0 r js_get_in_values [OF r0(1)] by (auto simp: listOfferedForRun_def offered_task_row)
  then have "qt_task_id r0 \<in> qt_task_id ` set (listOfferedForRun s run)" by (rule imageI)
  then show False using gone ok_row [OF assms r0(1)] by simp
qed

end
