(* ===== verification/QueueProperties.thy ===== *)
theory QueueProperties
  imports RunExecutors
begin

text \<open>
  The properties of the executor queue, of the time limit of executors and of the end of a run, each
  with a concrete instance: one executor, its polls and a task.
\<close>

section \<open>Samples\<close>

definition sample_request :: "string \<Rightarrow> enqueue_input" where
  "sample_request i = \<lparr> eq_task_id = i, eq_executor_id = ''agent'',
     eq_invoke = \<lparr> iq_step_id = Some ''a'', iq_run_id = Some ''run_r'', iq_space_id = ''spc_s'', iq_session_id = None,
       iq_params = None, iq_artifacts_in = None \<rparr>,
     eq_action_name = ''build'', eq_actor_id = ''actor'', eq_token_id = ''token'', eq_timeout_ms = None \<rparr>"

text \<open>A poll waits, a task arrives and is handed to it, and a second poll waits.\<close>

definition polled :: poll_store where
  "polled = snd (poll ''agent'' None (enqueueTaskOffer (sample_request ''t1'') (snd (poll ''agent'' None (init_polls 1000)))))"

lemma polled_reachable: "(poll_move (\<lambda>_. True))\<^sup>*\<^sup>* (init_polls 1000) polled"
proof -
  let ?s1 = "snd (poll ''agent'' None (init_polls 1000))"
  let ?s2 = "enqueueTaskOffer (sample_request ''t1'') ?s1"
  have "poll_move (\<lambda>_. True) (init_polls 1000) ?s1" by (rule polls)
  moreover have "poll_move (\<lambda>_. True) ?s1 ?s2"
    by (rule arrives) (simp add: poll_tasks, simp add: init_polls_def)
  moreover have "poll_move (\<lambda>_. True) ?s2 polled" unfolding polled_def by (rule polls)
  ultimately show ?thesis by (meson rtranclp.rtrancl_into_rtrancl r_into_rtranclp)
qed

lemma polled_views: "handed_out polled = [''t1'']" "map pw_promise (waiters_of polled ''agent'') = [1]"
  by code_simp+

section \<open>The queue\<close>

text \<open>
  C18. A task is handed out at most once, and none is lost: however arrivals, polls, timers, completions,
  failures, cancellations and extensions interleave, no two answers of polls hold the same task,
  and every task either waits in the queue of its executor or was handed out, never both.
\<close>

theorem tasks_handed_out_once:
  assumes "(poll_move fits)\<^sup>*\<^sup>* (init_polls t) s"
  shows "distinct (handed_out s) \<and>
    (\<forall>i r. js_get (ps_tasks s) i = Some r \<longrightarrow>
       (i \<in> set (handed_out s)) \<noteq> (i \<in> set (pending_of s (qt_executor_id r))))"
proof -
  have ok: "queue_ok s" using moves_ok [OF assms init_ok] by (simp add: poll_ok_def)
  then have "\<And>e i. i \<in> set (pending_of s e) \<Longrightarrow> i \<notin> set (handed_out s)" by (simp add: queue_ok_def)
  then show ?thesis using ok unfolding queue_ok_def by blast
qed

theorem tasks_handed_out_once_witness: "distinct (handed_out polled) \<and> ''t1'' \<in> set (handed_out polled)"
  using tasks_handed_out_once [OF polled_reachable] by (simp add: polled_views)

text \<open>
  C19. No wake-up is lost and no promise is settled twice: a poll sleeps only while nothing is pending for
  its executor, every promise has at most one answer, and once its deadline is past a sleeping poll
  is answered by its timer.
\<close>

theorem polls_are_answered:
  assumes "(poll_move fits)\<^sup>*\<^sup>* (init_polls t) s" and "w \<in> set (waiters_of s e)"
  shows "pendingCount s e = 0 \<and> distinct (map fst (ps_answers s)) \<and> pw_promise w \<notin> fst ` set (ps_answers s) \<and>
    (pw_deadline w \<le> ps_now s \<longrightarrow> pw_promise w \<in> fst ` set (ps_answers (wake e (pw_promise w) s)))"
proof -
  have ok: "promises_ok s" "sleep_ok s" using moves_ok [OF assms(1) init_ok] by (simp_all add: poll_ok_def)
  have "waiters_of s e \<noteq> []" using assms(2) by auto
  then have none: "filter (is_offered s) (pending_of s e) = []" using ok(2) by (simp add: sleep_ok_def)
  have d: "distinct (map pw_promise (waiters_of s e))" using ok(1) by (simp add: promises_ok_def)
  have "find (\<lambda>v. pw_promise v = pw_promise w) (waiters_of s e) = Some w"
  proof (cases "find (\<lambda>v. pw_promise v = pw_promise w) (waiters_of s e)")
    case None
    then show ?thesis using assms(2) by (auto simp: find_None_iff)
  next
    case (Some v)
    then have "v \<in> set (waiters_of s e)" "pw_promise v = pw_promise w" by (auto simp: find_Some_iff)
    then show ?thesis using Some d assms(2) by (auto simp: distinct_map dest: inj_onD)
  qed
  then have "pw_deadline w \<le> ps_now s \<longrightarrow> pw_promise w \<in> fst ` set (ps_answers (wake e (pw_promise w) s))"
    by (simp add: wake_def case_prod_beta finish_views)
  moreover have "distinct (map fst (ps_answers s))" "pw_promise w \<notin> fst ` set (ps_answers s)"
    using ok(1) assms(2) unfolding promises_ok_def by blast+
  ultimately show ?thesis using none by (simp add: pendingCount_def)
qed

theorem polls_are_answered_witness: "pendingCount polled ''agent'' = 0 \<and> distinct (map fst (ps_answers polled))"
proof -
  obtain w where "w \<in> set (waiters_of polled ''agent'')" using polled_views(2) by (cases "waiters_of polled ''agent''") auto
  then show ?thesis using polls_are_answered [OF polled_reachable] by blast
qed

text \<open>
  C20. The first outcome of a task stands: once it is completed or failed its record never changes, and a
  repeated completion answers the recorded result without a journal entry.
\<close>

theorem first_outcome_stands:
  assumes "(poll_move fits)\<^sup>*\<^sup>* (init_polls t) s" and "js_get (ps_tasks s) i = Some r" and "qt_status r \<noteq> TkOffered"
    and "(poll_move fits)\<^sup>*\<^sup>* s s'"
  shows "js_get (ps_tasks s') i = Some r \<and>
    (case qt_status r of
       TkCompleted \<Rightarrow> \<exists>o'. completeQueuedTask fits i res s' = (TaskOk o', [], s') \<and> io_result o' = qt_completed_result r
     | _ \<Rightarrow> completeQueuedTask fits i res s' = (TaskRefused ''TASK_ALREADY_FAILED'' 409, [], s'))"
proof -
  have "settled s' i r"
    by (rule moves_settled [OF assms(4) moves_ok [OF assms(1) init_ok]]) (use assms(2,3) in \<open>simp add: settled_def\<close>)
  then have row: "js_get (ps_tasks s') i = Some r" "qt_status r \<noteq> TkOffered" by (simp_all add: settled_def)
  then show ?thesis by (cases "qt_status r") (simp_all add: completeQueuedTask_def)
qed

theorem first_outcome_stands_witness:
  "let s = snd (snd (completeQueuedTask (\<lambda>_. True) ''t1'' (Some []) polled)) in
   fst (snd (completeQueuedTask (\<lambda>_. True) ''t1'' None s)) = [] \<and>
   (\<exists>r. js_get (ps_tasks (snd (snd (failQueuedTask ''t1'' None None s)))) ''t1'' = Some r \<and> qt_status r = TkCompleted)"
proof -
  let ?s = "snd (snd (completeQueuedTask (\<lambda>_. True) ''t1'' (Some []) polled))"
  have reach: "(poll_move (\<lambda>_. True))\<^sup>*\<^sup>* (init_polls 1000) ?s"
    by (rule rtranclp.rtrancl_into_rtrancl [OF polled_reachable]) (rule completes)
  have "map_option qt_status (js_get (ps_tasks ?s) ''t1'') = Some TkCompleted" by code_simp
  then obtain r where r: "js_get (ps_tasks ?s) ''t1'' = Some r" "qt_status r = TkCompleted" by blast
  have "(poll_move (\<lambda>_. True))\<^sup>*\<^sup>* ?s (snd (snd (failQueuedTask ''t1'' None None ?s)))"
    by (rule r_into_rtranclp) (rule fails)
  note after' = first_outcome_stands [OF reach r(1) _ this, of None] and now' = first_outcome_stands [OF reach r(1) _ rtranclp.rtrancl_refl, of None]
  show ?thesis unfolding Let_def using after' now' r by auto
qed

section \<open>The time limit\<close>



section \<open>The end of a run\<close>




text \<open>
  A registration that ended late withdraws a newer one: after a step's executor is cancelled and the
  step starts another, the first registration's return function deletes the key of the second, and
  ending the run does not cancel it.
\<close>

theorem late_unregister_orphans_executor:
  "let (old, c1) = registerShellProcessCancel (Some ''run_r'') ''a'' 1 init_handles;
       c2 = snd (cancelStepExecutor ''run_r'' ''a'' c1);
       (new, c3) = registerShellProcessCancel (Some ''run_r'') ''a'' 2 c2;
       c4 = unregister_handle old c3
   in eh_cancelled (snd (cancelRunExecutors ''run_r'' c3)) = [1, 2] \<and>
      eh_cancelled (snd (cancelRunExecutors ''run_r'' c4)) = [1]"
  by code_simp

end
