(* ===== verification/LiveSeats.thy ===== *)
theory LiveSeats
  imports RunService FlowTypes
begin

text \<open>
  \<open>hub-daemon/src/live-assignments.ts\<close>: the seats of meetings a process holds now, the messages that
  wait for a seat to be reachable, and what is left of a seat that was given up. A seat is reached
  over the terminal of its process when it has one and the message has a prompt, else over the
  control bus of the principal it is bound to. \<open>notifyLiveSeat\<close> of \<open>meeting-notifier.ts\<close> publishes to that
  principal; what terminals and the bus are sent is the log \<open>lv_log\<close>.
\<close>

record live_principal =
  lp_space_id :: string
  lp_token_id :: string
  lp_client_id :: string

text \<open>A process: its number, whether it has a \<open>write\<close>, and what its terminal shows.\<close>

record seat_controller =
  sk_id :: nat
  sk_writes :: bool
  sk_snapshot :: string

record live_seat =
  se_session_id :: string
  se_participant_id :: string
  se_run_id :: string
  se_handler_id :: string
  se_last_seq :: "nat option"
  se_principal :: "live_principal option"
  se_space_id :: "string option"
  se_started_at :: nat
  se_notified :: "string list"
  se_controller :: "seat_controller option"

record pending_notify =
  pd_session_id :: string
  pd_participant_id :: string
  pd_message_id :: string
  pd_since_seq :: nat
  pd_handler_id :: string
  pd_prompt :: "string option"

record seat_archive =
  sa_session_id :: string
  sa_participant_id :: string
  sa_run_id :: string
  sa_handler_id :: string
  sa_snapshot :: string
  sa_archived_at :: nat

text \<open>Text written to a terminal, a message published to a principal, a process closed.\<close>

datatype seat_effect =
    TerminalWritten string nat string string
  | PrincipalNotified string live_principal pending_notify
  | ProcessClosed nat string

record live_state =
  lv_seats :: "(string, live_seat) jsmap"
  lv_pending :: "(string, pending_notify list) jsmap"
  lv_archives :: "(string, seat_archive) jsmap"
  lv_log :: "seat_effect list"
  lv_now :: nat

definition init_live :: "nat \<Rightarrow> live_state" where
  "init_live t = \<lparr> lv_seats = [], lv_pending = [], lv_archives = [], lv_log = [], lv_now = t \<rparr>"

definition live_key :: "string \<Rightarrow> string \<Rightarrow> string" where
  "live_key session_id participant_id = prefixedSession session_id @ '':'' @ participant_id"

definition sameSpace :: "string option \<Rightarrow> string option \<Rightarrow> bool" where
  "sameSpace l r \<longleftrightarrow> truthy_str l \<and> truthy_str r \<and> bareSpaceId (the l) = bareSpaceId (the r)"

definition live_log :: "seat_effect \<Rightarrow> live_state \<Rightarrow> live_state" where
  "live_log e s = s\<lparr> lv_log := lv_log s @ [e] \<rparr>"

section \<open>Reading\<close>

definition getSeat :: "live_state \<Rightarrow> string \<Rightarrow> string \<Rightarrow> live_seat option" where
  "getSeat s ses p = js_get (lv_seats s) (live_key ses p)"

definition list_seats :: "live_state \<Rightarrow> string \<Rightarrow> live_seat list" where
  "list_seats s ses = filter (\<lambda>seat. se_session_id seat = prefixedSession ses) (js_values (lv_seats s))"

definition listArchives :: "live_state \<Rightarrow> string \<Rightarrow> seat_archive list" where
  "listArchives s ses = filter (\<lambda>a. sa_session_id a = prefixedSession ses) (js_values (lv_archives s))"

definition shown_by :: "live_seat \<Rightarrow> string" where
  "shown_by seat = (case se_controller seat of None \<Rightarrow> [] | Some c \<Rightarrow> sk_snapshot c)"

definition snapshotPty :: "live_state \<Rightarrow> string \<Rightarrow> string \<Rightarrow> string \<times> bool" where
  "snapshotPty s ses p =
     (case getSeat s ses p of
        Some seat \<Rightarrow> (shown_by seat, True)
      | None \<Rightarrow> ((case js_get (lv_archives s) (live_key ses p) of None \<Rightarrow> [] | Some a \<Rightarrow> sa_snapshot a), False))"

definition findLive :: "live_state \<Rightarrow> string \<Rightarrow> string option \<Rightarrow> live_seat option" where
  "findLive s ses participant = (if \<not> truthy_str participant then None else getSeat s ses (the participant))"

section \<open>Delivering\<close>

definition put_seat :: "live_seat \<Rightarrow> live_state \<Rightarrow> live_state" where
  "put_seat seat s = s\<lparr> lv_seats := js_set (live_key (se_session_id seat) (se_participant_id seat)) seat (lv_seats s) \<rparr>"

definition notified :: "pending_notify \<Rightarrow> live_seat \<Rightarrow> live_seat" where
  "notified n seat = seat\<lparr> se_last_seq := Some (pd_since_seq n), se_notified := set_add (pd_message_id n) (se_notified seat) \<rparr>"

definition deliverToPty :: "live_seat \<Rightarrow> pending_notify \<Rightarrow> (live_seat \<times> seat_effect) option" where
  "deliverToPty seat n =
     (case (se_controller seat, map_option trim (pd_prompt n)) of
        (Some c, Some text) \<Rightarrow>
          if sk_writes c \<and> text \<noteq> []
          then Some (notified n seat,
            TerminalWritten (live_key (se_session_id seat) (se_participant_id seat)) (sk_id c) (pd_message_id n) text)
          else None
      | _ \<Rightarrow> None)"

definition deliver :: "live_principal \<Rightarrow> live_seat \<Rightarrow> pending_notify \<Rightarrow> live_seat \<times> seat_effect" where
  "deliver p seat n =
     (notified n seat, PrincipalNotified (live_key (se_session_id seat) (se_participant_id seat)) p n)"

text \<open>One message to a seat: delivered, or it cannot be reached yet.\<close>

definition try_deliver :: "live_seat \<Rightarrow> pending_notify \<Rightarrow> (live_seat \<times> seat_effect) option" where
  "try_deliver seat n =
     (case deliverToPty seat n of
        Some r \<Rightarrow> Some r
      | None \<Rightarrow> map_option (\<lambda>p. deliver p seat n) (se_principal seat))"

fun flush_rows :: "live_seat \<Rightarrow> pending_notify list \<Rightarrow> live_seat \<times> seat_effect list \<times> pending_notify list" where
  "flush_rows seat [] = (seat, [], [])"
| "flush_rows seat (n # ns) =
     (if pd_message_id n \<in> set (se_notified seat) then flush_rows seat ns
      else case try_deliver seat n of
        Some (seat', e) \<Rightarrow> (case flush_rows seat' ns of (x, es, l) \<Rightarrow> (x, e # es, l))
      | None \<Rightarrow> (case flush_rows seat ns of (x, es, l) \<Rightarrow> (x, es, n # l)))"

definition flushPending :: "live_seat \<Rightarrow> live_state \<Rightarrow> live_state" where
  "flushPending seat s =
     (let key = live_key (se_session_id seat) (se_participant_id seat) in
      case flush_rows seat (opt_default [] (js_get (lv_pending s) key)) of
        (seat', es, leftover) \<Rightarrow>
          (put_seat seat' s)\<lparr> lv_log := lv_log s @ es,
            lv_pending := (if leftover = [] then js_delete key (lv_pending s)
              else js_set key leftover (js_delete key (lv_pending s))) \<rparr>)"

text \<open>A message waits behind what waits already, unless it is among it.\<close>

definition queue_up :: "string \<Rightarrow> pending_notify \<Rightarrow> live_state \<Rightarrow> live_state" where
  "queue_up key n s =
     (let queued = opt_default [] (js_get (lv_pending s) key) in
      if \<exists>m \<in> set queued. pd_message_id m = pd_message_id n then s
      else s\<lparr> lv_pending := js_set key (queued @ [n]) (lv_pending s) \<rparr>)"

definition notify_seat :: "pending_notify \<Rightarrow> live_state \<Rightarrow> live_state" where
  "notify_seat inp s =
     (let n = inp\<lparr> pd_session_id := prefixedSession (pd_session_id inp) \<rparr>;
          key = live_key (pd_session_id n) (pd_participant_id n) in
      case js_get (lv_seats s) key of
        None \<Rightarrow> queue_up key n s
      | Some seat \<Rightarrow>
          if pd_message_id n \<in> set (se_notified seat) then s
          else case try_deliver seat n of
            Some (seat', e) \<Rightarrow> live_log e (put_seat seat' s)
          | None \<Rightarrow> queue_up key n s)"

section \<open>The life of a seat\<close>

record start_live =
  sl_session_id :: string
  sl_participant_id :: string
  sl_handler_id :: string
  sl_run_id :: string
  sl_principal :: "live_principal option"
  sl_space_id :: "string option"

definition start_seat :: "start_live \<Rightarrow> live_state \<Rightarrow> live_state" where
  "start_seat inp s =
     (let ses = prefixedSession (sl_session_id inp);
          existing = getSeat s ses (sl_participant_id inp) in
      put_seat \<lparr> se_session_id = ses, se_participant_id = sl_participant_id inp, se_run_id = sl_run_id inp,
        se_handler_id = sl_handler_id inp, se_last_seq = (case existing of None \<Rightarrow> None | Some e \<Rightarrow> se_last_seq e),
        se_principal = or_try (sl_principal inp) (case existing of None \<Rightarrow> None | Some e \<Rightarrow> se_principal e),
        se_space_id = or_try (sl_space_id inp) (or_try (case existing of None \<Rightarrow> None | Some e \<Rightarrow> se_space_id e)
          (map_option lp_space_id (sl_principal inp))),
        se_started_at = (case existing of None \<Rightarrow> lv_now s | Some e \<Rightarrow> se_started_at e),
        se_notified = (case existing of None \<Rightarrow> [] | Some e \<Rightarrow> se_notified e),
        se_controller = (case existing of None \<Rightarrow> None | Some e \<Rightarrow> se_controller e) \<rparr> s)"

definition attachController :: "string \<Rightarrow> string \<Rightarrow> seat_controller \<Rightarrow> live_state \<Rightarrow> live_state" where
  "attachController ses p c s =
     (case getSeat s ses p of
        None \<Rightarrow> live_log (ProcessClosed (sk_id c) ''assignment_not_live'') s
      | Some seat \<Rightarrow> flushPending (seat\<lparr> se_controller := Some c \<rparr>) s)"

definition bindPrincipal :: "string \<Rightarrow> string \<Rightarrow> live_principal \<Rightarrow> live_state \<Rightarrow> live_state" where
  "bindPrincipal ses p pr s =
     (case getSeat s ses p of
        None \<Rightarrow> s
      | Some seat \<Rightarrow>
          if \<not> sameSpace (se_space_id seat) (Some (lp_space_id pr)) then s
          else flushPending (seat\<lparr> se_principal := Some pr, se_space_id := Some (lp_space_id pr) \<rparr>) s)"

definition archive_of :: "live_state \<Rightarrow> live_seat \<Rightarrow> seat_archive" where
  "archive_of s seat = \<lparr> sa_session_id = se_session_id seat, sa_participant_id = se_participant_id seat,
     sa_run_id = se_run_id seat, sa_handler_id = se_handler_id seat, sa_snapshot = shown_by seat, sa_archived_at = lv_now s \<rparr>"

definition closing :: "live_seat option \<Rightarrow> seat_effect list" where
  "closing seat = (case seat of None \<Rightarrow> [] | Some e \<Rightarrow>
     (case se_controller e of None \<Rightarrow> [] | Some c \<Rightarrow> [ProcessClosed (sk_id c) ''meeting_closed'']))"

text \<open>One seat is given up: archived, its process closed, nothing waits for it any more.\<close>

definition give_up :: "string \<Rightarrow> live_state \<Rightarrow> live_state" where
  "give_up key s =
     (let seat = js_get (lv_seats s) key in
      s\<lparr> lv_archives := (case seat of None \<Rightarrow> lv_archives s | Some e \<Rightarrow> js_set key (archive_of s e) (lv_archives s)),
         lv_seats := js_delete key (lv_seats s), lv_pending := js_delete key (lv_pending s),
         lv_log := lv_log s @ closing seat \<rparr>)"

definition revoke_live :: "string \<Rightarrow> string option \<Rightarrow> live_state \<Rightarrow> live_state" where
  "revoke_live ses participant s =
     (if truthy_str participant then give_up (live_key ses (the participant)) s
      else fold give_up (filter (\<lambda>k. starts_with k (prefixedSession ses @ '':'')) (js_keys (lv_seats s))) s)"

section \<open>What viewers see\<close>

record seat_activity =
  sy_participant_id :: string
  sy_space_id :: string
  sy_persona :: "string option"
  sy_handler_id :: "string option"
  sy_run_id :: "string option"
  sy_live :: bool
  sy_lifecycle :: "run_lifecycle option"

definition runParticipantId :: "jobj \<Rightarrow> string option" where
  "runParticipantId ctx =
     (case js_path (JObj ctx) [''event'', ''data'', ''participant_id''] of
        JStr i \<Rightarrow> if trim i = [] then None else Some (trim i)
      | _ \<Rightarrow> None)"

definition seat_activity_of ::
    "live_seat list \<Rightarrow> seat_archive list \<Rightarrow> run_row list \<Rightarrow> string \<times> string \<times> string option \<Rightarrow> seat_activity" where
  "seat_activity_of live archives runs seat = (case seat of (p, space, persona) \<Rightarrow>
     let l = find (\<lambda>r. se_participant_id r = p) live;
         a = find (\<lambda>r. sa_participant_id r = p) archives;
         run = find (\<lambda>r. runParticipantId (rr_exec_context r) = Some p) runs in
     \<lparr> sy_participant_id = p, sy_space_id = space, sy_persona = persona,
       sy_handler_id = or_try (map_option se_handler_id l) (map_option sa_handler_id a),
       sy_run_id = or_try (map_option se_run_id l) (or_try (map_option sa_run_id a)
         (map_option (\<lambda>r. prefixedRun (rr_run_id r)) run)),
       sy_live = (l \<noteq> None), sy_lifecycle = map_option rr_lifecycle run \<rparr>)"

definition listMeetingSeatActivity ::
    "studio \<Rightarrow> live_state \<Rightarrow> string \<Rightarrow> (string \<times> string \<times> string option) list \<Rightarrow> seat_activity list" where
  "listMeetingSeatActivity st s ses roster =
     map (seat_activity_of (list_seats s ses) (listArchives s ses) (listRunsBySession st (bareSessionId ses))) roster"

end
