(* ===== verification/Meeting.thy ===== *)
theory Meeting
  imports LiveSeats Templates StepOpen
begin

text \<open>
  Meetings of \<open>packages/hub-core/src/meetings\<close>: the rows \<open>hub-persistence\<close> keeps of them, the journal
  index with its numbering per session, the envelope of a journal entry (\<open>journal/append.ts\<close>), and
  what is read of a meeting: rosters, lists and transcripts (\<open>roster.ts\<close>, \<open>list.ts\<close>, \<open>transcript.ts\<close>).
\<close>

section \<open>Rows\<close>

record meeting_seat =
  mr_participant_id :: string
  mr_space_id :: string
  mr_persona :: "string option"

datatype meeting_chair = HumanChair | SeatChair string

datatype meeting_status = MOpen | MClosed

record meeting_row =
  mt_session_id :: string
  mt_status :: meeting_status
  mt_title :: "string option"
  mt_goal :: "string option"
  mt_chair :: meeting_chair
  mt_roster :: "meeting_seat list"
  mt_convene_entry_id :: string
  mt_convene_seq :: nat
  mt_close_entry_id :: "string option"
  mt_close_seq :: "nat option"
  mt_close_failed :: "bool option"
  mt_bound_run_id :: "string option"
  mt_bound_step_id :: "string option"
  mt_updated_at :: nat

text \<open>A row of the journal index; the payload is the JSON text of the envelope, parsed.\<close>

record journal_row =
  ji_entry_id :: string
  ji_seq :: nat
  ji_space_id :: string
  ji_type :: string
  ji_subject :: "string option"
  ji_session_id :: "string option"
  ji_run_id :: "string option"
  ji_actor_id :: string
  ji_time :: nat
  ji_payload :: jobj
  ji_meeting_seq :: "nat option"

text \<open>
  An action the hub asks the daemon to run for a handler, and the answer: an HTTP status with the one
  principal connected for the space, or an exception.
\<close>

record action_call =
  ac_space_id :: string
  ac_action_name :: string
  ac_session_id :: string
  ac_run_id :: string
  ac_step_id :: string
  ac_params :: "jobj option"
  ac_actor_id :: string
  ac_token_id :: string
  ac_idempotency_key :: string

datatype action_answer = Answered nat "live_principal option" | ActionThrew string

text \<open>
  The hub with what meetings add to it. The index holds the rows of the entries modelled here; the
  entries of other operations are in \<open>hb_journal\<close>, have no meeting number and are in no answer of
  \<open>queryMeetingJournal\<close>.
\<close>

record room =
  rm_hub :: hub
  rm_index :: "journal_row list"
  rm_meetings :: "(string, meeting_row) jsmap"
  rm_meeting_seq :: "(string, nat) jsmap"
  rm_readers :: "(string, string list) jsmap"
  rm_live :: live_state
  rm_actions :: "action_call list"

type_synonym 'a room_op = "(room, 'a) state"

definition on_hub :: "'a hub_op \<Rightarrow> 'a room_op" where
  "on_hub m = State (\<lambda>s. case run_state m (rm_hub s) of (x, h) \<Rightarrow> (x, s\<lparr> rm_hub := h \<rparr>))"

definition on_live :: "(live_state \<Rightarrow> live_state) \<Rightarrow> unit room_op" where
  "on_live f = act (\<lambda>s. s\<lparr> rm_live := f (rm_live s) \<rparr>)"

definition ask_studio :: "(studio \<Rightarrow> 'a) \<Rightarrow> 'a room_op" where
  "ask_studio f = ask (\<lambda>s. f (hb_studio (rm_hub s)))"

section \<open>The operations of the persistence port\<close>

definition insertJournalIndex :: "journal_row \<Rightarrow> room \<Rightarrow> room" where
  "insertJournalIndex row s = s\<lparr> rm_index := rm_index s @ [row] \<rparr>"

text \<open>The first row with the id.\<close>

fun set_seq :: "string \<Rightarrow> nat \<Rightarrow> journal_row list \<Rightarrow> journal_row list" where
  "set_seq i n [] = []"
| "set_seq i n (r # rs) = (if ji_entry_id r = i then r\<lparr> ji_meeting_seq := Some n \<rparr> # rs else r # set_seq i n rs)"

definition setJournalIndexMeetingSeq :: "string \<Rightarrow> nat \<Rightarrow> room \<Rightarrow> room" where
  "setJournalIndexMeetingSeq i n s = s\<lparr> rm_index := set_seq i n (rm_index s) \<rparr>"

definition getMeetingBySession :: "room \<Rightarrow> string \<Rightarrow> meeting_row option" where
  "getMeetingBySession s i = js_get (rm_meetings s) (bareSessionId i)"

definition listMeetings :: "room \<Rightarrow> meeting_row list" where
  "listMeetings s = sort_key (\<lambda>m. - int (mt_updated_at m)) (js_values (rm_meetings s))"

definition listOpenMeetings :: "room \<Rightarrow> meeting_row list" where
  "listOpenMeetings s = filter (\<lambda>m. mt_status m = MOpen) (listMeetings s)"

definition upsertMeetingSnapshot :: "meeting_row \<Rightarrow> room \<Rightarrow> bool \<times> room" where
  "upsertMeetingSnapshot row s =
     (let bare = bareSessionId (mt_session_id row) in
      if (case js_get (rm_meetings s) bare of
            None \<Rightarrow> False
          | Some old \<Rightarrow> mt_status old = MOpen \<and> mt_status row = MOpen \<and> mt_convene_entry_id old \<noteq> mt_convene_entry_id row)
      then (False, s)
      else (True, s\<lparr> rm_meetings := js_set bare (row\<lparr> mt_session_id := bare \<rparr>) (rm_meetings s) \<rparr>))"

definition allocateMeetingSeq :: "string \<Rightarrow> nat room_op" where
  "allocateMeetingSeq i = State (\<lambda>s.
     let bare = bareSessionId i; n = Suc (opt_default 0 (js_get (rm_meeting_seq s) bare)) in
     (n, s\<lparr> rm_meeting_seq := js_set bare n (rm_meeting_seq s) \<rparr>))"

definition queryMeetingJournal :: "room \<Rightarrow> string \<Rightarrow> string list \<Rightarrow> journal_row list" where
  "queryMeetingJournal s i types =
     sort_key (\<lambda>r. opt_default 0 (ji_meeting_seq r))
       (filter (\<lambda>r. ji_session_id r = Some (bareSessionId i) \<and> ji_meeting_seq r \<noteq> None
                  \<and> (types = [] \<or> ji_type r \<in> set types)) (rm_index s))"

definition updateArtifactAuthorizedReaders :: "string \<Rightarrow> string list \<Rightarrow> room \<Rightarrow> room" where
  "updateArtifactAuthorizedReaders i readers s =
     s\<lparr> rm_readers := map_at i (\<lambda>old. set_of (old @ readers)) (rm_readers s) \<rparr>"

section \<open>Journal entries\<close>

text \<open>\<open>JSON.parse(JSON.stringify(v))\<close>: undefined members are dropped, and null in arrays.\<close>

fun wire :: "json \<Rightarrow> json" where
  "wire JUndef = JNull"
| "wire (JArr xs) = JArr (map wire xs)"
| "wire (JObj ob) = JObj (map (\<lambda>kv. (fst kv, wire (snd kv))) (filter (\<lambda>kv. snd kv \<noteq> JUndef) ob))"
| "wire v = v"

definition wire_obj :: "jobj \<Rightarrow> jobj" where
  "wire_obj ob = as_obj (wire (JObj ob))"

definition deriveJournalSubject :: "string option \<Rightarrow> string option \<Rightarrow> string option" where
  "deriveJournalSubject session run =
     (if truthy_str session \<and> truthy_str run then Some (''sessions/'' @ the session @ ''/runs/'' @ the run)
      else if truthy_str session then Some (''sessions/'' @ the session) else None)"

text \<open>The ISO text of a time: the milliseconds, in the 24 characters the text has.\<close>

definition iso :: "nat \<Rightarrow> json" where
  "iso t = JStr (pad_start 24 (CHR ''0'') (nat_str t))"

definition buildSpaceJournalEnvelope :: "journal_call \<Rightarrow> string \<Rightarrow> nat \<Rightarrow> jobj" where
  "buildSpaceJournalEnvelope c event_id ts =
     (let space = addSpaceId (stripPrefix (jc_space_id c));
          subject = deriveJournalSubject (jc_session_id c) (jc_run_id c) in
      spread (jc_data c)
        ([(''specversion'', JStr ''1.0''), (''id'', JStr event_id), (''source'', JStr (''/spaces/'' @ space)),
          (''type'', JStr (jc_type c)), (''time'', iso ts), (''datacontenttype'', JStr ''application/json''),
          (''space_id'', JStr space), (''session_id'', opt_str (jc_session_id c)),
          (''run_id'', opt_str (jc_run_id c)), (''actor_id'', JStr (jc_actor_id c))]
         @ (case subject of None \<Rightarrow> [] | Some x \<Rightarrow> [(''subject'', JStr x)])))"

definition INLINE_PAYLOAD_MAX_BYTES :: nat where "INLINE_PAYLOAD_MAX_BYTES = 65536"

definition inline_fits :: "jobj \<Rightarrow> bool" where
  "inline_fits payload \<longleftrightarrow> length (stringify (JObj payload)) \<le> INLINE_PAYLOAD_MAX_BYTES"

lemma inline_fits_code [code]: "inline_fits payload \<longleftrightarrow> int (length (stringify (JObj payload))) \<le> 65536"
  unfolding inline_fits_def INLINE_PAYLOAD_MAX_BYTES_def by simp

definition inline_exceeded :: "jobj \<Rightarrow> string" where
  "inline_exceeded payload = ''Inline payload exceeds 65536 bytes ('' @ nat_str (length (stringify (JObj payload)))
     @ '' bytes); use PUT /v1/artifacts''"

text \<open>
  \<open>appendSpaceJournal\<close> of the hub handler: the sequence number is the kernel's, one more than the
  number of entries before.
\<close>

definition append_entry :: "journal_call \<Rightarrow> string \<Rightarrow> nat outcome room_op" where
  "append_entry c event_id =
     do {
       ts \<leftarrow> ask (\<lambda>s. hb_now (rm_hub s));
       let payload = buildSpaceJournalEnvelope c event_id ts;
       if \<not> inline_fits payload then State_Monad.return (Raised (inline_exceeded payload))
       else do {
         seq \<leftarrow> ask (\<lambda>s. Suc (length (hb_journal (rm_hub s))));
         _ \<leftarrow> on_hub (append_journal c);
         _ \<leftarrow> act (insertJournalIndex \<lparr> ji_entry_id = event_id, ji_seq = seq, ji_space_id = stripPrefix (jc_space_id c),
           ji_type = jc_type c,
           ji_subject = (case prop_of payload ''subject'' of JStr x \<Rightarrow> Some x
             | _ \<Rightarrow> deriveJournalSubject (jc_session_id c) (jc_run_id c)),
           ji_session_id = (if truthy_str (jc_session_id c) then map_option stripPrefix (jc_session_id c) else None),
           ji_run_id = (if truthy_str (jc_run_id c) then map_option stripPrefix (jc_run_id c) else None),
           ji_actor_id = jc_actor_id c, ji_time = ts, ji_payload = wire_obj payload, ji_meeting_seq = None \<rparr>);
         State_Monad.return (Done seq)
       }
     }"

definition append_space_journal :: "session_run_deps \<Rightarrow> journal_call \<Rightarrow> nat outcome room_op" where
  "append_space_journal d c = do { u \<leftarrow> on_hub (ulid d); append_entry c (''evt_'' @ u) }"

record meeting_entry =
  en_seq :: nat
  en_entry_id :: string
  en_meeting_seq :: nat

definition meeting_event :: "string \<Rightarrow> string \<Rightarrow> string \<Rightarrow> string \<Rightarrow> string \<Rightarrow> jobj \<Rightarrow> journal_call" where
  "meeting_event type space_id session_id actor_id token_id data = \<lparr>
     jc_type = type, jc_space_id = space_id, jc_session_id = Some session_id, jc_run_id = None,
     jc_actor_id = actor_id, jc_token_id = token_id, jc_data = data \<rparr>"

definition appendMeetingEvent :: "session_run_deps \<Rightarrow> journal_call \<Rightarrow> string option \<Rightarrow> meeting_entry outcome room_op" where
  "appendMeetingEvent d c event_id =
     do {
       n \<leftarrow> allocateMeetingSeq (opt_default [] (jc_session_id c));
       i \<leftarrow> (case event_id of
               Some i \<Rightarrow> State_Monad.return i
             | None \<Rightarrow> do { u \<leftarrow> on_hub (ulid d); State_Monad.return (''evt_'' @ u) });
       after (append_entry c i) (\<lambda>seq. do {
         _ \<leftarrow> act (setJournalIndexMeetingSeq i n);
         State_Monad.return (Done \<lparr> en_seq = seq, en_entry_id = i, en_meeting_seq = n \<rparr>)
       })
     }"

end
