(* ===== verification/Transcript.thy ===== *)
theory Transcript
  imports Meeting
begin

text \<open>
  What is read of meetings: \<open>errors.ts\<close> and \<open>roster.ts\<close>, the list of meetings (\<open>list.ts\<close>), the spaces that may
  be invited (\<open>invitable.ts\<close>) and the transcript that is folded from the journal (\<open>transcript.ts\<close>).
\<close>

section \<open>Denials\<close>

definition meetingDenial :: "string \<Rightarrow> string \<Rightarrow> nat \<Rightarrow> refusal" where
  "meetingDenial code message http = \<lparr> re_code = code, re_message = message, re_http = http, re_errors = [] \<rparr>"

definition personaNotFound :: "string \<Rightarrow> string \<Rightarrow> refusal" where
  "personaNotFound persona space_id =
     meetingDenial ''PERSONA_NOT_FOUND'' (''Persona '' @ quoted persona @ '' is not indexed on '' @ space_id) 400"

definition meetingAlreadyOpen :: refusal where
  "meetingAlreadyOpen = meetingDenial ''MEETING_ALREADY_OPEN'' ''A meeting is already open on this session'' 409"

definition meetingClosed :: refusal where
  "meetingClosed = meetingDenial ''MEETING_CLOSED'' ''Meeting is closed'' 400"

definition meetingChairRequired :: refusal where
  "meetingChairRequired = meetingDenial ''MEETING_CHAIR_REQUIRED'' ''Only the chair may close this meeting'' 403"

definition notMeetingMember :: "string \<Rightarrow> refusal" where
  "notMeetingMember message = meetingDenial ''NOT_MEETING_MEMBER'' message 403"

definition participantAmbiguous :: refusal where
  "participantAmbiguous = meetingDenial ''PARTICIPANT_AMBIGUOUS''
     ''as_participant_id is required when the emitter space has more than one seat'' 400"

definition toAmbiguous :: refusal where
  "toAmbiguous = meetingDenial ''TO_AMBIGUOUS'' ''to must be either { participant_ids } or { all: true }'' 400"

definition toEmpty :: refusal where
  "toEmpty = meetingDenial ''TO_EMPTY'' ''Resolved delivery list is empty after dropping the speaker'' 400"

definition replyUnknown :: "string \<Rightarrow> refusal" where
  "replyUnknown i = meetingDenial ''REPLY_UNKNOWN'' (''in_reply_to '' @ quoted i @ '' is not a said in this session'') 400"

definition sessionNotFound :: refusal where
  "sessionNotFound = meetingDenial ''SESSION_NOT_FOUND'' ''Session not found'' 400"

definition duplicateRosterSeat :: "string \<Rightarrow> string option \<Rightarrow> refusal" where
  "duplicateRosterSeat space_id persona = meetingDenial ''CONTRACT_VALIDATION_DENIED''
     (if truthy_str persona then ''Duplicate roster seat '' @ space_id @ '':'' @ the persona
      else ''Duplicate default-seat invite for '' @ space_id) 400"

section \<open>Rosters\<close>

text \<open>A seat as a caller asks for it: a space and a persona.\<close>

type_synonym seat_ask = "string \<times> string option"

datatype chair_ask = AskHuman | AskSeat seat_ask

definition seatKey :: "string \<Rightarrow> string option \<Rightarrow> string" where
  "seatKey space_id persona = stripPrefix space_id @ ''::'' @ opt_default [] persona"

definition prefixedSpace :: "string \<Rightarrow> string" where
  "prefixedSpace space_id = addSpaceId (stripPrefix space_id)"

fun reject_duplicates :: "string list \<Rightarrow> seat_ask list \<Rightarrow> refusal option" where
  "reject_duplicates seen [] = None"
| "reject_duplicates seen ((sp, persona) # seats) =
     (if seatKey sp persona \<in> set seen then Some (duplicateRosterSeat (prefixedSpace sp) persona)
      else reject_duplicates (seatKey sp persona # seen) seats)"

definition rejectDuplicateSeats :: "seat_ask list \<Rightarrow> refusal option" where
  "rejectDuplicateSeats seats = reject_duplicates [] seats"

fun mintRoster :: "session_run_deps \<Rightarrow> seat_ask list \<Rightarrow> meeting_seat list hub_op" where
  "mintRoster d [] = State_Monad.return []"
| "mintRoster d ((sp, persona) # seats) =
     do {
       u \<leftarrow> ulid d;
       rest \<leftarrow> mintRoster d seats;
       State_Monad.return (\<lparr> mr_participant_id = ''ptc_'' @ u, mr_space_id = prefixedSpace sp, mr_persona = persona \<rparr> # rest)
     }"

definition resolveChair :: "meeting_seat list \<Rightarrow> chair_ask \<Rightarrow> refusal + meeting_chair" where
  "resolveChair roster chair =
     (case chair of
        AskHuman \<Rightarrow> Inr HumanChair
      | AskSeat (sp, persona) \<Rightarrow>
          (case find (\<lambda>s. stripPrefix (mr_space_id s) = stripPrefix sp
                      \<and> opt_default [] (mr_persona s) = opt_default [] persona) roster of
             None \<Rightarrow> Inl (meetingDenial ''CONTRACT_VALIDATION_DENIED''
               ''Chair must be a roster seat or { human: true }'' 400)
           | Some s \<Rightarrow> Inr (SeatChair (mr_participant_id s))))"

definition findSeat :: "meeting_seat list \<Rightarrow> string \<Rightarrow> meeting_seat option" where
  "findSeat roster i = find (\<lambda>s. mr_participant_id s = i) roster"

definition seatsForSpace :: "meeting_seat list \<Rightarrow> string \<Rightarrow> meeting_seat list" where
  "seatsForSpace roster space_id = filter (\<lambda>s. stripPrefix (mr_space_id s) = stripPrefix space_id) roster"

definition rosterSpaceIds :: "meeting_seat list \<Rightarrow> string list" where
  "rosterSpaceIds roster = set_of (map (\<lambda>s. prefixedSpace (mr_space_id s)) roster)"

section \<open>Lists\<close>

record meeting_list_row =
  ml_session_id :: string
  ml_title :: string
  ml_goal :: "string option"
  ml_status :: meeting_status
  ml_roster_count :: nat
  ml_roster :: "(string \<times> string option) list"

definition toMeetingListRow :: "meeting_row \<Rightarrow> meeting_list_row" where
  "toMeetingListRow m = \<lparr>
     ml_session_id = prefixedSession (mt_session_id m),
     ml_title = (let title = trim (opt_default [] (mt_title m)) in if title \<noteq> [] then title else ''Untitled meeting''),
     ml_goal = mt_goal m, ml_status = mt_status m, ml_roster_count = length (mt_roster m),
     ml_roster = map (\<lambda>s. (mr_space_id s, if truthy_str (mr_persona s) then mr_persona s else None)) (mt_roster m) \<rparr>"

definition sortMeetingList :: "meeting_list_row list \<Rightarrow> meeting_list_row list" where
  "sortMeetingList rows = sort_key (\<lambda>r. if ml_status r = MOpen then (0::nat) else 1) rows"

definition meetingRosterTouchesSpace :: "meeting_row \<Rightarrow> string \<Rightarrow> bool" where
  "meetingRosterTouchesSpace m space_id \<longleftrightarrow>
     (\<exists>s \<in> set (mt_roster m). stripPrefix (mr_space_id s) = stripPrefix space_id)"

section \<open>Reading journal rows\<close>

fun asRecord :: "json \<Rightarrow> jobj option" where
  "asRecord (JObj ob) = Some ob"
| "asRecord _ = None"

text \<open>\<open>typeof v === "string"\<close>, and elements that are strings.\<close>

fun text_of :: "json \<Rightarrow> string option" where
  "text_of (JStr s) = Some s"
| "text_of _ = None"

fun texts_of :: "json \<Rightarrow> string list" where
  "texts_of (JArr xs) = List.map_filter text_of xs"
| "texts_of _ = []"

definition meetingJournalData :: "journal_row \<Rightarrow> jobj" where
  "meetingJournalData row =
     (let payload = ji_payload row in
      case asRecord (prop_of payload ''data'') of
        None \<Rightarrow> payload
      | Some nested \<Rightarrow>
          if list_ex (\<lambda>k. \<not> nullish (prop_of nested k)) [''message_id'', ''roster'', ''to'', ''participant_id'', ''chair'']
          then spread payload nested else payload)"

definition asSeat :: "json \<Rightarrow> meeting_seat option" where
  "asSeat v =
     (case asRecord v of None \<Rightarrow> None | Some r \<Rightarrow>
       (case (text_of (prop_of r ''participant_id''), text_of (prop_of r ''space_id'')) of
          (Some p, Some sp) \<Rightarrow> Some \<lparr> mr_participant_id = p, mr_space_id = prefixedSpace sp,
             mr_persona = text_of (prop_of r ''persona'') \<rparr>
        | _ \<Rightarrow> None))"

fun rosterFromUnknown :: "json \<Rightarrow> meeting_seat list" where
  "rosterFromUnknown (JArr xs) = List.map_filter asSeat xs"
| "rosterFromUnknown _ = []"

definition chairFromUnknown :: "json \<Rightarrow> meeting_chair option" where
  "chairFromUnknown v =
     (case asRecord v of None \<Rightarrow> None | Some r \<Rightarrow>
        if prop_of r ''human'' = JBool True then Some HumanChair
        else map_option SeatChair (text_of (prop_of r ''participant_id'')))"

definition toRosterDto :: "meeting_seat list \<Rightarrow> meeting_seat list" where
  "toRosterDto roster = map (\<lambda>s. s\<lparr> mr_space_id := prefixedSpace (mr_space_id s),
     mr_persona := (if truthy_str (mr_persona s) then mr_persona s else None) \<rparr>) roster"

definition projectTo :: "json \<Rightarrow> string \<Rightarrow> meeting_seat list \<Rightarrow> bool \<times> string list" where
  "projectTo authored speaker roster =
     (let r = opt_default [] (asRecord authored) in
      if prop_of r ''all'' = JBool True
      then (True, map mr_participant_id (filter (\<lambda>s. mr_participant_id s \<noteq> speaker) roster))
      else (False, filter (\<lambda>i. i \<noteq> speaker) (texts_of (prop_of r ''participant_ids''))))"

definition meetingSpeakerLabel :: "bool \<Rightarrow> string option \<Rightarrow> string option \<Rightarrow> string option \<Rightarrow> string" where
  "meetingSpeakerLabel human persona space participant_id =
     (if human then ''human chair''
      else let p = map_option trim persona; s = map_option trim space in
        if truthy_str p \<and> truthy_str s then the p @ ''@'' @ the s
        else if truthy_str p then the p
        else if truthy_str participant_id then the participant_id
        else ''seat'')"

text \<open>Who said a message, with the label viewers show.\<close>

datatype sender = HumanSender string | SeatSender meeting_seat string

definition seat_sender :: "meeting_seat \<Rightarrow> sender" where
  "seat_sender s = SeatSender s
     (meetingSpeakerLabel False (mr_persona s) (Some (mr_space_id s)) (Some (mr_participant_id s)))"

definition sender_id :: "sender \<Rightarrow> string option" where
  "sender_id f = (case f of HumanSender _ \<Rightarrow> None | SeatSender s _ \<Rightarrow> Some (mr_participant_id s))"

definition fromSeat :: "jobj \<Rightarrow> meeting_seat list \<Rightarrow> sender" where
  "fromSeat data roster =
     (let stamped = opt_default [] (asRecord (prop_of data ''from'')) in
      if prop_of stamped ''human'' = JBool True then HumanSender (meetingSpeakerLabel True None None None)
      else case (text_of (prop_of stamped ''participant_id''), text_of (prop_of stamped ''space_id'')) of
        (Some p, Some sp) \<Rightarrow> seat_sender \<lparr> mr_participant_id = p, mr_space_id = prefixedSpace sp,
          mr_persona = text_of (prop_of stamped ''persona'') \<rparr>
      | _ \<Rightarrow>
        (let speaker = text_of (prop_of data ''as_participant_id'');
             seat = (if truthy_str speaker then findSeat roster (the speaker) else None) in
         seat_sender \<lparr> mr_participant_id = opt_default [] speaker,
           mr_space_id = (case seat of None \<Rightarrow> [] | Some s \<Rightarrow> prefixedSpace (mr_space_id s)),
           mr_persona = (case seat of None \<Rightarrow> None | Some s \<Rightarrow> if truthy_str (mr_persona s) then mr_persona s else None) \<rparr>))"

section \<open>The transcript\<close>

record receipt =
  gr_participant_id :: string
  gr_delivered :: bool
  gr_recorded_at :: nat
  gr_latency_ms :: nat
  gr_reason :: "string option"

record message =
  mg_message_id :: string
  mg_seq :: nat
  mg_created_at :: nat
  mg_from :: sender
  mg_to :: "bool \<times> string list"
  mg_in_reply_to :: "string option"
  mg_text :: "string option"
  mg_artifacts :: "string list option"
  mg_receipts :: "receipt list"
  mg_addressed_to_you :: "bool option"

record transcript =
  tt_session_id :: string
  tt_status :: meeting_status
  tt_roster :: "meeting_seat list"
  tt_chair :: meeting_chair
  tt_you :: "(meeting_seat \<times> string) option"
  tt_goal :: "string option"
  tt_since_seq :: nat
  tt_up_to_seq :: nat
  tt_messages :: "message list"

definition MEETING_TYPES :: "string list" where
  "MEETING_TYPES = [''mrmr.meeting.convened'', ''mrmr.meeting.said'', ''mrmr.meeting.delivered'',
     ''mrmr.meeting.delivery_failed'', ''mrmr.meeting.closed'', ''mrmr.meeting.resumed'']"

definition is_admin :: "string \<Rightarrow> capability list \<Rightarrow> bool" where
  "is_admin token caps \<longleftrightarrow> token = ''bootstrap'' \<or> hasCapability caps [''hub:admin'']"

definition resolveTranscriptReader ::
    "meeting_seat list \<Rightarrow> string option \<Rightarrow> string option \<Rightarrow> capability list \<Rightarrow> (meeting_seat \<times> string) option" where
  "resolveTranscriptReader roster participant token caps =
     (let p = trim (opt_default [] participant); t = trim (opt_default [] token) in
      if p = [] then None
      else case findSeat roster p of
        None \<Rightarrow> None
      | Some seat \<Rightarrow>
          if t \<noteq> [] \<and> \<not> is_admin t caps \<and> stripPrefix (mr_space_id seat) \<noteq> stripPrefix t then None
          else Some (seat, meetingSpeakerLabel False (mr_persona seat) (Some (mr_space_id seat))
            (Some (mr_participant_id seat))))"

definition addressedToReader :: "message \<Rightarrow> string \<Rightarrow> bool" where
  "addressedToReader m reader \<longleftrightarrow> sender_id (mg_from m) \<noteq> Some reader \<and> reader \<in> set (snd (mg_to m))"

definition canReadMeetingTranscript :: "string \<Rightarrow> capability list \<Rightarrow> string list \<Rightarrow> bool" where
  "canReadMeetingTranscript token caps roster_spaces \<longleftrightarrow>
     is_admin token caps
     \<or> stripPrefix token \<in> set (map stripPrefix roster_spaces)
     \<or> (hasCapability caps [''journal:read''] \<and> stripPrefix token \<in> set (map stripPrefix roster_spaces))"

text \<open>What the journal alone says of a meeting: roster, chair, status and goal.\<close>

record meeting_view =
  vw_roster :: "meeting_seat list"
  vw_chair :: "meeting_chair option"
  vw_status :: meeting_status
  vw_goal :: "string option"

definition view_row :: "journal_row \<Rightarrow> meeting_view \<Rightarrow> meeting_view" where
  "view_row row v =
     (let data = meetingJournalData row in
      if ji_type row = ''mrmr.meeting.convened''
      then v\<lparr> vw_roster := rosterFromUnknown (prop_of data ''roster''),
        vw_chair := or_try (chairFromUnknown (prop_of data ''chair'')) (vw_chair v),
        vw_goal := (let g = trim (opt_default [] (text_of (prop_of data ''goal''))) in
          if g \<noteq> [] then Some g else vw_goal v),
        vw_status := MOpen \<rparr>
      else if ji_type row = ''mrmr.meeting.closed'' then v\<lparr> vw_status := MClosed \<rparr>
      else if ji_type row = ''mrmr.meeting.resumed'' then v\<lparr> vw_status := MOpen \<rparr>
      else v)"

definition journal_view :: "journal_row list \<Rightarrow> meeting_view" where
  "journal_view rows = fold view_row rows \<lparr> vw_roster = [], vw_chair = None, vw_status = MOpen, vw_goal = None \<rparr>"

definition snapshot_view :: "meeting_row \<Rightarrow> meeting_view" where
  "snapshot_view m = \<lparr> vw_roster = mt_roster m, vw_chair = Some (mt_chair m), vw_status = mt_status m,
     vw_goal = (let g = trim (opt_default [] (mt_goal m)) in if g \<noteq> [] then Some g else None) \<rparr>"

definition said_message :: "meeting_seat list \<Rightarrow> journal_row \<Rightarrow> jobj \<Rightarrow> string \<Rightarrow> message" where
  "said_message roster row data message_id =
     (let from' = fromSeat data roster;
          artifacts = (case prop_of data ''artifacts'' of JArr xs \<Rightarrow> Some (texts_of (JArr xs)) | _ \<Rightarrow> None) in
      \<lparr> mg_message_id = message_id, mg_seq = opt_default 0 (ji_meeting_seq row), mg_created_at = ji_time row,
        mg_from = from', mg_to = projectTo (prop_of data ''to'') (opt_default [] (sender_id from')) roster,
        mg_in_reply_to = text_of (prop_of data ''in_reply_to''), mg_text = text_of (prop_of data ''text''),
        mg_artifacts = (if artifacts = Some [] then None else artifacts), mg_receipts = [], mg_addressed_to_you = None \<rparr>)"

definition receipt_of :: "journal_row \<Rightarrow> jobj \<Rightarrow> message \<Rightarrow> receipt" where
  "receipt_of row data m = \<lparr>
     gr_participant_id = opt_default [] (text_of (prop_of data ''participant_id'')),
     gr_delivered = (ji_type row = ''mrmr.meeting.delivered''), gr_recorded_at = ji_time row,
     gr_latency_ms = ji_time row - mg_created_at m,
     gr_reason = (if ji_type row = ''mrmr.meeting.delivery_failed'' then text_of (prop_of data ''reason'') else None) \<rparr>"

definition message_row :: "meeting_seat list \<Rightarrow> journal_row \<Rightarrow> (string, message) jsmap \<Rightarrow> (string, message) jsmap" where
  "message_row roster row ms =
     (let data = meetingJournalData row; i = opt_default [] (text_of (prop_of data ''message_id'')) in
      if ji_type row = ''mrmr.meeting.said''
      then (if i = [] then ms else js_set i (said_message roster row data i) ms)
      else if ji_type row = ''mrmr.meeting.delivered'' \<or> ji_type row = ''mrmr.meeting.delivery_failed''
      then (if opt_default [] (text_of (prop_of data ''participant_id'')) = [] then ms
            else map_at i (\<lambda>m. m\<lparr> mg_receipts := mg_receipts m @ [receipt_of row data m] \<rparr>) ms)
      else ms)"

record transcript_input =
  ti_session_id :: string
  ti_since_seq :: "int option"
  ti_reader :: "string option"
  ti_token_space_id :: "string option"
  ti_capabilities :: "capability list"

definition meeting_rows :: "room \<Rightarrow> string \<Rightarrow> journal_row list" where
  "meeting_rows s i = queryMeetingJournal s i MEETING_TYPES"

definition transcript_messages :: "room \<Rightarrow> string \<Rightarrow> meeting_seat list \<Rightarrow> (string, message) jsmap" where
  "transcript_messages s i roster = fold (message_row roster) (meeting_rows s i) []"

definition buildMeetingTranscript :: "room \<Rightarrow> transcript_input \<Rightarrow> transcript option" where
  "buildMeetingTranscript s inp =
     (let since = (case ti_since_seq inp of None \<Rightarrow> 0 | Some n \<Rightarrow> nat n);
          rows = meeting_rows s (ti_session_id inp);
          snapshot = getMeetingBySession s (ti_session_id inp);
          v = (case snapshot of Some m \<Rightarrow> snapshot_view m | None \<Rightarrow> journal_view rows) in
      if snapshot = None \<and> vw_roster v = [] \<and> \<not> list_ex (\<lambda>r. ji_type r = ''mrmr.meeting.convened'') rows then None
      else
        let roster = toRosterDto (vw_roster v);
            you = resolveTranscriptReader roster (ti_reader inp) (ti_token_space_id inp) (ti_capabilities inp) in
        Some \<lparr> tt_session_id = prefixedSession (ti_session_id inp), tt_status = vw_status v, tt_roster = roster,
          tt_chair = opt_default HumanChair (vw_chair v), tt_you = you, tt_goal = vw_goal v, tt_since_seq = since,
          tt_up_to_seq = fold (\<lambda>r. max (opt_default 0 (ji_meeting_seq r))) rows 0,
          tt_messages = map (\<lambda>m. case you of None \<Rightarrow> m
              | Some (seat, _) \<Rightarrow> m\<lparr> mg_addressed_to_you := Some (addressedToReader m (mr_participant_id seat)) \<rparr>)
            (sort_key mg_seq (filter (\<lambda>m. since < mg_seq m)
              (js_values (transcript_messages s (ti_session_id inp) (vw_roster v))))) \<rparr>)"

end
