(* ===== verification/WakeData.thy ===== *)
theory WakeData
  imports Transcript
begin

text \<open>
  \<open>meetings/assignment-prompt.ts\<close>: what a process is told when a meeting wakes it, and from which point
  of the transcript it reads.
\<close>

datatype wake_trigger = WConvened | WSaid | WResumed

record wake_data =
  wk_session_id :: string
  wk_participant_id :: string
  wk_message_id :: "string option"
  wk_trigger :: wake_trigger
  wk_since_seq :: nat
  wk_goal :: "string option"
  wk_subject :: "string option"

text \<open>An event as handlers are matched with it (\<open>HookSourceEvent\<close> of \<open>hooks/matcher.ts\<close>).\<close>

record hook_event =
  he_event_id :: string
  he_event_type :: string
  he_space_id :: string
  he_source :: "string option"
  he_payload :: jobj
  he_session_id :: "string option"
  he_participant :: "string option"
  he_participant_id :: "string option"

section \<open>The protocol envelope\<close>

definition GOAL_AUTHORITY :: string where
  "GOAL_AUTHORITY =
     ''The verbatim `goal` in this block and `murrmure_meeting_transcript.goal` are ''
     @ ''authoritative. Chair said may clarify or override the goal. If the goal names this seat ''
     @ ''and requests work, do it this turn without waiting for a chair repeat.''"

definition convened_rule :: string where
  "convened_rule =
     ''Operating rule: You were invited. This process is your seat. ''
     @ GOAL_AUTHORITY
     @ '' Pull murrmure_meeting_transcript with session_id, since_seq 0, and this ''
     @ ''participant_id. Read `you` and the goal. If another roster seat is present, make one ''
     @ ''concise initial contribution that addresses the meeting goal using murrmure_emit_event ''
     @ ''type mrmr.meeting.said; a text answer in this process is not a room reply, and the turn ''
     @ ''is incomplete until the event succeeds. If you are the room''
     @ [CHR 0x27]
     @ ''s only roster seat, stay silent unless the goal explicitly names this seat ''
     @ em_dash
     @ '' then do that work this turn and journal the result (to.all is journal-only when a ''
     @ ''human chair is present). Do not start work, write files, or attach artifacts on convene ''
     @ ''unless the goal explicitly names this seat to do that work. Another seat''
     @ [CHR 0x27]
     @ ''s presence is not a work order. Later said resumes this same conversation ''
     @ em_dash
     @ '' do not treat it as a new invite. Do not call murrmure_resolve_step for this room.''"

definition resumed_rule :: string where
  "resumed_rule =
     ''Operating rule: This room resumed. This process is your seat again ''
     @ em_dash
     @ '' same session_id and participant_id. ''
     @ GOAL_AUTHORITY
     @ '' Pull murrmure_meeting_transcript with session_id, since_seq, and this participant_id. ''
     @ ''Read `you` and messages with addressed_to_you. Continue only if the chair or the ''
     @ ''meeting goal still asks this seat for something. Do not re-introduce. Do not invent ''
     @ ''work from peer intros or side talk. If the chair or goal asked this seat to do work, do ''
     @ ''that work this turn. Use murrmure_emit_event type mrmr.meeting.said when you speak; a ''
     @ ''text answer in this process is not a room reply. Do not call murrmure_resolve_step for ''
     @ ''this room.''"

definition said_rule :: string where
  "said_rule =
     ''Operating rule: One or more said events arrived in a room you already joined. ''
     @ GOAL_AUTHORITY
     @ '' Pull prior turns once with murrmure_meeting_transcript using session_id, since_seq, ''
     @ ''and this participant_id. Read `you` and every message with addressed_to_you. Speak or ''
     @ ''edit only if the chair or the meeting goal asked this seat something (a question, a ''
     @ ''named task, or an explicit work request). Another seat''
     @ [CHR 0x27]
     @ ''s intro, role dump, or peer design talk is not a ticket. Do not invent work. Do not ''
     @ ''attach artifacts unless the chair or the goal asked for them. If the chair or goal did ''
     @ ''ask this seat for work, do that work this turn ''
     @ em_dash
     @ '' do not answer with only working / in progress / starting now. When you stay silent, do ''
     @ ''not emit. When you speak, use murrmure_emit_event type mrmr.meeting.said, target the ''
     @ ''asker with to.participant_ids, set in_reply_to when appropriate, and never ''
     @ ''re-introduce, acknowledge, paraphrase, or repeat material already in the transcript. Do ''
     @ ''not call murrmure_resolve_step for this room.''"

fun operating_rule :: "wake_trigger \<Rightarrow> string" where
  "operating_rule WConvened = convened_rule"
| "operating_rule WResumed = resumed_rule"
| "operating_rule WSaid = said_rule"

fun trigger_str :: "wake_trigger \<Rightarrow> string" where
  "trigger_str WConvened = ''convened''"
| "trigger_str WSaid = ''said''"
| "trigger_str WResumed = ''resumed''"

text \<open>A trimmed text, unless nothing is left of it.\<close>

definition trimmed :: "string \<Rightarrow> string option" where
  "trimmed s = (if trim s = [] then None else Some (trim s))"

fun squeeze :: "string \<Rightarrow> string" where
  "squeeze [] = []"
| "squeeze [c] = [if is_space c then CHR '' '' else c]"
| "squeeze (c # d # s) = (if is_space c then (if is_space d then squeeze (d # s) else CHR '' '' # squeeze (d # s))
     else c # squeeze (d # s))"

definition compactGoalLine :: "string \<Rightarrow> string" where
  "compactGoalLine s = trim (squeeze s)"

definition newline :: string where "newline = [CHR 0x0A]"

definition renderMurrmureMeetingProtocolEnvelope :: "wake_data \<Rightarrow> string" where
  "renderMurrmureMeetingProtocolEnvelope w = join_with newline
     ([''Protocol: murrmure.meeting/v1'', [], ''session_id: '' @ prefixedSession (wk_session_id w),
       ''participant_id: '' @ wk_participant_id w, ''trigger: '' @ trigger_str (wk_trigger w),
       ''since_seq: '' @ nat_str (wk_since_seq w)]
      @ (case wk_goal w of Some g \<Rightarrow> if trim g \<noteq> [] then [''goal: '' @ compactGoalLine g] else [] | None \<Rightarrow> [])
      @ (case wk_subject w of Some g \<Rightarrow> if trim g \<noteq> [] then [''subject: '' @ compactGoalLine g] else [] | None \<Rightarrow> [])
      @ (if truthy_str (wk_message_id w) then [''message_id: '' @ the (wk_message_id w)] else [])
      @ [[], operating_rule (wk_trigger w)])"

section \<open>Wake data\<close>

definition normalizeMeetingWakeTrigger :: "json \<Rightarrow> json \<Rightarrow> wake_trigger" where
  "normalizeMeetingWakeTrigger trigger message_id =
     (if trigger = JStr ''convened'' then WConvened else if trigger = JStr ''said'' then WSaid
      else if trigger = JStr ''resumed'' then WResumed
      else if truthy_str (text_of message_id) then WSaid else WConvened)"

definition isMeetingSaidHandler :: "handler_on \<Rightarrow> bool" where
  "isMeetingSaidHandler h = (case h of OnStep _ \<Rightarrow> False
     | OnEvent type _ _ \<Rightarrow> type = ''mrmr.meeting.said'' \<or> type = ''mrmr.meeting.convened'')"

definition isMeetingWakeParams :: "jobj option \<Rightarrow> bool" where
  "isMeetingWakeParams params = (case params of None \<Rightarrow> False | Some ob \<Rightarrow>
     text_of (prop_of ob ''session_id'') \<noteq> None \<and> text_of (prop_of ob ''participant_id'') \<noteq> None
     \<and> (case prop_of ob ''since_seq'' of JNum _ \<Rightarrow> True | _ \<Rightarrow> False))"

definition lastDeliveryMeetingSeq :: "room \<Rightarrow> string \<Rightarrow> string \<Rightarrow> nat" where
  "lastDeliveryMeetingSeq s ses p =
     fold (\<lambda>r m. if prop_of (meetingJournalData r) ''participant_id'' = JStr p
                  then max m (opt_default 0 (ji_meeting_seq r)) else m)
       (queryMeetingJournal s ses [''mrmr.meeting.delivered'']) 0"

fun first_text :: "string \<Rightarrow> journal_row list \<Rightarrow> string option" where
  "first_text field [] = None"
| "first_text field (r # rs) =
     (case trimmed (opt_default [] (text_of (prop_of (meetingJournalData r) field))) of
        Some t \<Rightarrow> Some t | None \<Rightarrow> first_text field rs)"

definition resolveMeetingField :: "room \<Rightarrow> string \<Rightarrow> bool \<Rightarrow> string option" where
  "resolveMeetingField s ses title =
     (case (case getMeetingBySession s ses of None \<Rightarrow> None
            | Some m \<Rightarrow> trimmed (opt_default [] (if title then mt_title m else mt_goal m))) of
        Some t \<Rightarrow> Some t
      | None \<Rightarrow> first_text (if title then ''title'' else ''goal'')
          (queryMeetingJournal s ses [''mrmr.meeting.convened'']))"

definition meetingWakeGoalFields :: "string option \<Rightarrow> string option \<Rightarrow> string option \<times> string option" where
  "meetingWakeGoalFields goal subject = (trimmed (opt_default [] goal), trimmed (opt_default [] subject))"

definition buildMeetingWakeData :: "room \<Rightarrow> hook_event \<Rightarrow> wake_data option" where
  "buildMeetingWakeData s ev =
     (let ses = trim (opt_default [] (he_session_id ev)); p = trim (opt_default [] (he_participant_id ev));
          prefixed = prefixedSession ses;
          (goal, subject) = meetingWakeGoalFields (resolveMeetingField s prefixed False) (resolveMeetingField s prefixed True);
          wake = \<lparr> wk_session_id = prefixed, wk_participant_id = p, wk_message_id = None, wk_trigger = WConvened,
            wk_since_seq = 0, wk_goal = goal, wk_subject = subject \<rparr> in
      if ses = [] \<or> p = [] then None
      else if he_event_type ev = ''mrmr.meeting.convened'' then Some wake
      else if he_event_type ev = ''mrmr.meeting.resumed''
      then Some (wake\<lparr> wk_trigger := WResumed, wk_since_seq := lastDeliveryMeetingSeq s prefixed p \<rparr>)
      else if he_event_type ev \<noteq> ''mrmr.meeting.said'' then None
      else let i = text_of (prop_of (he_payload ev) ''message_id'') in
        if truthy_str i
        then Some (wake\<lparr> wk_trigger := WSaid, wk_message_id := i, wk_since_seq := lastDeliveryMeetingSeq s ses p \<rparr>)
        else None)"

definition payloadAddressedToYou :: "jobj \<Rightarrow> string \<Rightarrow> bool option" where
  "payloadAddressedToYou payload p =
     (case asRecord (prop_of payload ''to'') of
        None \<Rightarrow> None
      | Some to' \<Rightarrow>
          if prop_of to' ''all'' = JBool True then Some True
          else (case prop_of to' ''participant_ids'' of JArr xs \<Rightarrow> Some (JStr p \<in> set xs) | _ \<Rightarrow> None))"

text \<open>The \<open>from\<close> of a message is the hub's: its fields are texts.\<close>

definition formatLiveSaidPrompt :: "wake_data \<Rightarrow> jobj \<Rightarrow> string" where
  "formatLiveSaidPrompt w payload =
     (let said = trim (opt_default [] (text_of (prop_of payload ''text'')));
          f = opt_default [] (asRecord (prop_of payload ''from'')) in
      join_with newline
        ([''New message in this meeting.'', []]
         @ (if said = [] then [] else
             [''from: '' @ meetingSpeakerLabel (prop_of f ''human'' = JBool True) (text_of (prop_of f ''persona''))
                (text_of (prop_of f ''space_id'')) (text_of (prop_of f ''participant_id'')),
              ''text: '' @ said]
             @ (case payloadAddressedToYou payload (wk_participant_id w) of None \<Rightarrow> []
                | Some b \<Rightarrow> [''addressed_to_you: '' @ (if b then ''true'' else ''false'')])
             @ [[]])
         @ [renderMurrmureMeetingProtocolEnvelope (w\<lparr> wk_trigger := WSaid \<rparr>)]))"

definition wake_json :: "wake_data \<Rightarrow> jobj" where
  "wake_json w =
     [(''session_id'', JStr (wk_session_id w)), (''participant_id'', JStr (wk_participant_id w))]
     @ (case wk_message_id w of None \<Rightarrow> [] | Some i \<Rightarrow> [(''message_id'', JStr i)])
     @ [(''trigger'', JStr (trigger_str (wk_trigger w))), (''since_seq'', JNum (int (wk_since_seq w)))]
     @ (case wk_goal w of None \<Rightarrow> [] | Some g \<Rightarrow> [(''goal'', JStr g)])
     @ (case wk_subject w of None \<Rightarrow> [] | Some g \<Rightarrow> [(''subject'', JStr g)])"

definition meetingWakeExecContext :: "wake_data \<Rightarrow> jobj" where
  "meetingWakeExecContext w =
     [(''event'', JObj [(''type'', JStr (''mrmr.meeting.'' @ trigger_str (wk_trigger w))), (''data'', JObj (wake_json w))])]"

end
