(* ===== verification/EventHooks.thy ===== *)
theory EventHooks
  imports WakeData StartFlowSteps
begin

text \<open>
  Events and what they set off: \<open>hooks/matcher.ts\<close>, the matching of \<open>index/parse-handlers.ts\<close> and the
  deliveries of \<open>hooks/dispatch.ts\<close>. A delivery creates a run whose idempotency key is the digest of
  source, event and handler, so the event is not delivered to the handler again; a seat that is
  live is notified instead.
\<close>

text \<open>
  What the hub relies on beside the engine: the digest of the keys, and the daemon's answer to an
  action it is asked to run, which may depend on the state of the hub then.
\<close>

record event_deps = engine_deps +
  ed_digest :: "string \<Rightarrow> string"
  ed_invoke :: "action_call \<Rightarrow> hub \<Rightarrow> action_answer"

definition engine_of :: "event_deps \<Rightarrow> engine_deps" where
  "engine_of d = engine_deps.truncate d"

definition run_deps_of :: "event_deps \<Rightarrow> session_run_deps" where
  "run_deps_of d = session_run_deps.truncate d"

section \<open>Matching\<close>

definition resolveHookParticipant :: "string option \<Rightarrow> jobj \<Rightarrow> string option" where
  "resolveHookParticipant participant payload =
     (let a = text_of (prop_of payload ''as_participant_id''); b = text_of (prop_of payload ''participant'') in
      if truthy_str participant then participant
      else if truthy_str a then a
      else if truthy_str b then b else None)"

definition computeHookDedupKey :: "event_deps \<Rightarrow> string \<Rightarrow> string \<Rightarrow> string \<Rightarrow> string" where
  "computeHookDedupKey d source event_id hook_id = ed_digest d (source @ ''|'' @ event_id @ ''|'' @ hook_id)"

definition hookSourceMatches :: "string list option \<Rightarrow> string \<Rightarrow> bool" where
  "hookSourceMatches sources event_source \<longleftrightarrow> sources = None \<or> sources = Some [] \<or> event_source \<in> set (the sources)"

definition event_source_of_event :: "hook_event \<Rightarrow> string" where
  "event_source_of_event ev = opt_default (''/spaces/'' @ he_space_id ev) (he_source ev)"

definition matchHook :: "hook_spec \<Rightarrow> hook_event \<Rightarrow> bool" where
  "matchHook hk ev \<longleftrightarrow>
     hk_type hk = he_event_type ev \<and> hookSourceMatches (hk_sources hk) (event_source_of_event ev)"

definition hookStepId :: "string \<Rightarrow> string" where
  "hookStepId hook_id = ''hook:'' @ hook_id"

definition handlerMatchesMeetingSeat :: "string \<Rightarrow> string \<Rightarrow> bool" where
  "handlerMatchesMeetingSeat handler_type event_type \<longleftrightarrow>
     handler_type = event_type
     \<or> (event_type = ''mrmr.meeting.convened'' \<or> event_type = ''mrmr.meeting.resumed'') \<and> handler_type = ''mrmr.meeting.said''"

definition wakes_seats :: "string \<Rightarrow> bool" where
  "wakes_seats event_type \<longleftrightarrow>
     event_type = ''mrmr.meeting.said'' \<or> event_type = ''mrmr.meeting.convened'' \<or> event_type = ''mrmr.meeting.resumed''"

definition matches_event :: "string \<Rightarrow> string \<Rightarrow> string option \<Rightarrow> handler_spec \<Rightarrow> bool" where
  "matches_event event_type source participant h =
     (case hs_on h of
        OnStep _ \<Rightarrow> False
      | OnEvent type sources p \<Rightarrow>
          handlerMatchesMeetingSeat type event_type
          \<and> (case sources of None \<Rightarrow> True | Some allowed \<Rightarrow> source \<in> set allowed)
          \<and> (wakes_seats event_type \<and> truthy_str p \<longrightarrow> p = participant))"

definition matchEventHandlers :: "handler_spec list \<Rightarrow> string \<Rightarrow> string \<Rightarrow> string option \<Rightarrow> handler_spec list" where
  "matchEventHandlers hs event_type source participant = filter (matches_event event_type source participant) hs"

section \<open>Where an event goes\<close>

datatype hook_result = Delivered string string | Deduped string | HookFailed string

datatype delivery_target = CreateSession | AttachTo string | NotifyLive string string | TargetDenied string string

definition eventExecContext :: "hook_event \<Rightarrow> jobj" where
  "eventExecContext ev = [(''event'', JObj [(''id'', JStr (he_event_id ev)), (''type'', JStr (he_event_type ev)),
     (''source'', JStr (event_source_of_event ev)), (''data'', JObj (he_payload ev))])]"

definition liveSeatParticipantId :: "hook_event \<Rightarrow> string" where
  "liveSeatParticipantId ev =
     (let i = trim (opt_default [] (he_participant_id ev)) in
      if i \<noteq> [] then i else opt_default [] (resolveHookParticipant (he_participant ev) (he_payload ev)))"

definition is_meeting_type :: "string \<Rightarrow> bool" where
  "is_meeting_type type \<longleftrightarrow> starts_with type ''mrmr.meeting.''"

definition resolveEventDeliveryTarget :: "room \<Rightarrow> hook_event \<Rightarrow> delivery_target" where
  "resolveEventDeliveryTarget s ev =
     (let meeting = is_meeting_type (he_event_type ev); ses = opt_default [] (he_session_id ev) in
      if trim ses = [] then
        (if meeting then TargetDenied ''MEETING_SESSION_REQUIRED'' ''Meeting events require a top-level session_id''
         else CreateSession)
      else case getSession (hb_studio (rm_hub s)) ses of
        None \<Rightarrow> TargetDenied ''SESSION_NOT_FOUND''
          (if meeting then ''Meeting session_id does not match an existing session'' else ''Session not found'')
      | Some session \<Rightarrow>
          (let existing = prefixedSession (ss_session_id session) in
           case findLive (rm_live s) existing (Some (liveSeatParticipantId ev)) of
             Some seat \<Rightarrow> NotifyLive existing (se_run_id seat)
           | None \<Rightarrow> AttachTo existing))"

text \<open>A delivery: where the handler or hook is, the event, and on whose authority.\<close>

record delivery =
  dv_space_id :: string
  dv_event :: hook_event
  dv_actor_id :: string
  dv_token_id :: string
  dv_capabilities :: "capability list"

definition hook_space :: "delivery \<Rightarrow> string" where
  "hook_space dv = addSpaceId (stripPrefix (dv_space_id dv))"

definition delivery_key :: "event_deps \<Rightarrow> delivery \<Rightarrow> string \<Rightarrow> string" where
  "delivery_key d dv hook_id =
     computeHookDedupKey d (event_source_of_event (dv_event dv)) (he_event_id (dv_event dv)) hook_id"

definition resolveHookParams :: "jobj option \<Rightarrow> jobj \<Rightarrow> jobj option" where
  "resolveHookParams params ctx =
     map_option (map (\<lambda>(k, v). (k, case v of JStr t \<Rightarrow> JStr (resolveTemplateString t ctx None) | _ \<Rightarrow> v))) params"

definition hook_run_input :: "delivery \<Rightarrow> string \<Rightarrow> jobj \<Rightarrow> string \<Rightarrow> create_run_input" where
  "hook_run_input dv session_id ctx key = \<lparr>
     ci_session_id = session_id, ci_space_id = Some (hook_space dv), ci_flow_id = None, ci_flow_digest = None,
     ci_input_params = Some (js_set ''idempotency_key'' (JStr key) ctx), ci_reference_run_ids = None,
     ci_actor_id = dv_actor_id dv, ci_token_id = dv_token_id dv, ci_capabilities = dv_capabilities dv,
     ci_contract_ref_id = None, ci_metadata = None, ci_from_step_id = None \<rparr>"

text \<open>The run of a delivery: its id, or the message of the refusal.\<close>

definition create_hook_run :: "event_deps \<Rightarrow> delivery \<Rightarrow> string \<Rightarrow> jobj \<Rightarrow> string \<Rightarrow> (string + string) room_op" where
  "create_hook_run d dv session_id ctx key =
     do {
       r \<leftarrow> on_hub (admitAndCreateRun (run_deps_of d) (hook_run_input dv session_id ctx key));
       State_Monad.return (case r of Reply (run, _) \<Rightarrow> Inr (rv_run_id run) | Refused c m \<Rightarrow> Inl m
         | AtCapacity e \<Rightarrow> Inl (ax_message e) | Threw \<Rightarrow> Inl ''create_run_failed'')
     }"

definition hook_session :: "delivery \<Rightarrow> string \<Rightarrow> string \<Rightarrow> string \<Rightarrow> create_session_input" where
  "hook_session dv hook_id title subject = \<lparr>
     cs_title = title, cs_subject = Some subject, cs_actor_id = dv_actor_id dv, cs_token_id = dv_token_id dv,
     cs_space_id = Some (hook_space dv), cs_created_by = Some (ByHook hook_id) \<rparr>"

definition create_hook_session :: "event_deps \<Rightarrow> delivery \<Rightarrow> string \<Rightarrow> string \<Rightarrow> string \<Rightarrow> string room_op" where
  "create_hook_session d dv hook_id title subject =
     do {
       ses \<leftarrow> on_hub (createSession (run_deps_of d) (hook_session dv hook_id title subject));
       State_Monad.return (sv_session_id ses)
     }"

text \<open>Asking the daemon to run an action.\<close>

definition invoke_action :: "event_deps \<Rightarrow> action_call \<Rightarrow> action_answer room_op" where
  "invoke_action d call =
     do {
       answer \<leftarrow> ask (\<lambda>s. ed_invoke d call (rm_hub s));
       _ \<leftarrow> act (\<lambda>s. s\<lparr> rm_actions := rm_actions s @ [call] \<rparr>);
       State_Monad.return answer
     }"

definition hook_call ::
    "delivery \<Rightarrow> string \<Rightarrow> string \<Rightarrow> string \<Rightarrow> string \<Rightarrow> string \<Rightarrow> jobj option \<Rightarrow> string \<Rightarrow> action_call" where
  "hook_call dv hook_id space action_name session_id run_id params key = \<lparr>
     ac_space_id = space, ac_action_name = action_name, ac_session_id = session_id, ac_run_id = run_id,
     ac_step_id = hookStepId hook_id, ac_params = params, ac_actor_id = dv_actor_id dv, ac_token_id = dv_token_id dv,
     ac_idempotency_key = run_id @ '':'' @ hookStepId hook_id @ '':'' @ key \<rparr>"

definition delivered_event :: "delivery \<Rightarrow> string \<Rightarrow> string \<Rightarrow> string \<Rightarrow> string \<Rightarrow> journal_call" where
  "delivered_event dv hook_id session_id run_id key = \<lparr>
     jc_type = ''mrmr.hook.delivered'', jc_space_id = hook_space dv, jc_session_id = Some session_id,
     jc_run_id = Some run_id, jc_actor_id = dv_actor_id dv, jc_token_id = dv_token_id dv,
     jc_data = [(''hook_id'', JStr hook_id), (''event_id'', JStr (he_event_id (dv_event dv))),
       (''event_type'', JStr (he_event_type (dv_event dv))), (''dedup_key'', JStr key)] \<rparr>"

section \<open>Hooks\<close>

text \<open>The session and the run a hook has so far; an action adds to them or ends the delivery.\<close>

type_synonym hook_progress = "string option \<times> string option"

definition hook_invoke ::
    "event_deps \<Rightarrow> delivery \<Rightarrow> string \<Rightarrow> string \<Rightarrow> jobj \<Rightarrow> string \<Rightarrow> string option \<Rightarrow> string \<Rightarrow> jobj option \<Rightarrow> string option
     \<Rightarrow> (hook_result + hook_progress) room_op" where
  "hook_invoke d dv hook_id key ctx ses run action_name params space =
     do {
       r \<leftarrow> (case run of Some i \<Rightarrow> State_Monad.return (Inr i) | None \<Rightarrow> create_hook_run d dv ses ctx key);
       case r of
         Inl message \<Rightarrow> State_Monad.return (Inl (HookFailed message))
       | Inr run_id \<Rightarrow> do {
           answer \<leftarrow> invoke_action d (hook_call dv hook_id
             (if truthy_str space then addSpaceId (stripPrefix (resolveTemplateString (the space) ctx None))
              else hook_space dv) action_name ses run_id (resolveHookParams params ctx) key);
           State_Monad.return (case answer of
               Answered http _ \<Rightarrow> if 400 \<le> http then Inl (HookFailed ''invoke_failed'') else Inr (Some ses, Some run_id)
             | ActionThrew message \<Rightarrow> Inl (HookFailed message))
         }
     }"

definition hook_flow_input :: "delivery \<Rightarrow> flow_index_entry \<Rightarrow> string \<Rightarrow> string \<Rightarrow> jobj \<Rightarrow> start_flow_input" where
  "hook_flow_input dv e ses key inp = \<lparr>
     sf_entry_flow_id = fe_flow_id e, sf_entry_digest = fe_digest e, sf_space_id = hook_space dv,
     sf_actor_id = dv_actor_id dv, sf_token_id = dv_token_id dv, sf_capabilities = dv_capabilities dv,
     sf_flow_acl = None, sf_flow_input = Some inp, sf_session_id = Some ses, sf_idempotency_header = Some key,
     sf_mode = StartEvent, sf_event_type = Some (he_event_type (dv_event dv)),
     sf_event_source = Some (event_source_of_event (dv_event dv)), sf_reference_run_ids = None, sf_exec_context = None \<rparr>"

definition start_denied_event :: "delivery \<Rightarrow> flow_index_entry \<Rightarrow> admission_error \<Rightarrow> journal_call" where
  "start_denied_event dv e err = \<lparr>
     jc_type = ''mrmr.flow.start_denied'', jc_space_id = hook_space dv, jc_session_id = None, jc_run_id = None,
     jc_actor_id = dv_actor_id dv, jc_token_id = dv_token_id dv,
     jc_data = [(''flow_id'', JStr (fe_flow_id e)), (''flow_name'', JStr (fe_name e)), (''mode'', JStr ''event''),
       (''event_type'', JStr (he_event_type (dv_event dv))),
       (''event_source'', JStr (event_source_of_event (dv_event dv))),
       (''max_concurrent_runs'', JNum (int (ax_max_concurrent_runs err))),
       (''active_run_ids'', strs_json (ax_active_run_ids err))] \<rparr>"

definition hook_start_flow ::
    "event_deps \<Rightarrow> delivery \<Rightarrow> string \<Rightarrow> jobj \<Rightarrow> string \<Rightarrow> string \<Rightarrow> jobj option \<Rightarrow> (hook_result + hook_progress) room_op" where
  "hook_start_flow d dv key ctx ses flow_id inp =
     do {
       entry \<leftarrow> ask_studio (\<lambda>st. getFlowIndexEntry st flow_id (Some (stripPrefix (hook_space dv))));
       case entry of
         None \<Rightarrow> State_Monad.return (Inl (HookFailed ''flow_not_found''))
       | Some e \<Rightarrow> do {
           r \<leftarrow> on_hub (startFlowRun (engine_of d)
             (hook_flow_input dv e ses key (opt_default [] (resolveStepParams inp ctx None))));
           case r of
             Reply x \<Rightarrow> State_Monad.return (Inr (Some (sv_session_id (so_session x)), Some (so_run_id x)))
           | Refused c m \<Rightarrow> State_Monad.return (Inl (HookFailed m))
           | AtCapacity err \<Rightarrow> do {
               _ \<leftarrow> append_space_journal (run_deps_of d) (start_denied_event dv e err);
               State_Monad.return (Inl (HookFailed (ax_message err)))
             }
           | Threw \<Rightarrow> State_Monad.return (Inl (HookFailed ''hook_delivery_failed''))
         }
     }"

fun hook_action_step ::
    "event_deps \<Rightarrow> delivery \<Rightarrow> string \<Rightarrow> string \<Rightarrow> jobj \<Rightarrow> hook_action \<Rightarrow> hook_progress \<Rightarrow> (hook_result + hook_progress) room_op" where
  "hook_action_step d dv hook_id key ctx (EnsureSession title subject) (ses, run) =
     do {
       i \<leftarrow> create_hook_session d dv hook_id (resolveTemplateString title ctx None)
         (if truthy_str subject then resolveTemplateString (the subject) ctx None else hook_id);
       State_Monad.return (Inr (Some i, run))
     }"
| "hook_action_step d dv hook_id key ctx action (ses, run) =
     do {
       i \<leftarrow> (case ses of Some i \<Rightarrow> State_Monad.return i
              | None \<Rightarrow> create_hook_session d dv hook_id (''Hook '' @ hook_id) hook_id);
       case action of
         InvokeAction name params space \<Rightarrow> hook_invoke d dv hook_id key ctx i run name params space
       | StartFlow flow_id inp \<Rightarrow> hook_start_flow d dv key ctx i flow_id inp
       | EnsureSession _ _ \<Rightarrow> State_Monad.return (Inr (Some i, run))
     }"

fun hook_actions ::
    "event_deps \<Rightarrow> delivery \<Rightarrow> string \<Rightarrow> string \<Rightarrow> jobj \<Rightarrow> hook_action list \<Rightarrow> hook_progress \<Rightarrow> (hook_result + hook_progress) room_op" where
  "hook_actions d dv hook_id key ctx [] p = State_Monad.return (Inr p)"
| "hook_actions d dv hook_id key ctx (a # as) p =
     do {
       r \<leftarrow> hook_action_step d dv hook_id key ctx a p;
       case r of Inl x \<Rightarrow> State_Monad.return (Inl x) | Inr q \<Rightarrow> hook_actions d dv hook_id key ctx as q
     }"

definition finish_hook :: "event_deps \<Rightarrow> delivery \<Rightarrow> string \<Rightarrow> string \<Rightarrow> string \<Rightarrow> string \<Rightarrow> hook_result room_op" where
  "finish_hook d dv hook_id key ses run_id =
     do {
       r \<leftarrow> append_space_journal (run_deps_of d) (delivered_event dv hook_id ses run_id key);
       State_Monad.return (case r of Done _ \<Rightarrow> Delivered ses run_id | Raised e \<Rightarrow> HookFailed e
         | OutOfFuel \<Rightarrow> HookFailed ''hook_delivery_failed'')
     }"

text \<open>A hook without actions has no session: reading its id throws.\<close>

definition no_session :: string where
  "no_session = ''Cannot read properties of undefined (reading '' @ quoted ''indexOf'' @ '')''"

definition dispatchHook :: "event_deps \<Rightarrow> delivery \<Rightarrow> string \<Rightarrow> hook_spec \<Rightarrow> hook_result room_op" where
  "dispatchHook d dv hook_id spec =
     do {
       let key = delivery_key d dv hook_id;
       let ctx = eventExecContext (dv_event dv);
       existing \<leftarrow> ask_studio (\<lambda>st. findRunByIdempotencyKey st key);
       case existing of
         Some r \<Rightarrow> State_Monad.return (Deduped (''run_'' @ rr_run_id r))
       | None \<Rightarrow> do {
           r \<leftarrow> hook_actions d dv hook_id key ctx (hk_do spec) (None, None);
           case r of
             Inl x \<Rightarrow> State_Monad.return x
           | Inr (None, _) \<Rightarrow> State_Monad.return (HookFailed no_session)
           | Inr (Some ses, Some run_id) \<Rightarrow> finish_hook d dv hook_id key ses run_id
           | Inr (Some ses, None) \<Rightarrow> do {
               created \<leftarrow> create_hook_run d dv ses ctx key;
               case created of
                 Inl message \<Rightarrow> State_Monad.return (HookFailed message)
               | Inr run_id \<Rightarrow> finish_hook d dv hook_id key ses run_id
             }
         }
     }"

section \<open>Handlers\<close>

definition announce ::
    "event_deps \<Rightarrow> delivery \<Rightarrow> handler_spec \<Rightarrow> string \<Rightarrow> string \<Rightarrow> string \<Rightarrow> hook_result outcome room_op" where
  "announce d dv h key ses run_id =
     after (append_space_journal (run_deps_of d) (delivered_event dv (hs_id h) ses run_id key))
       (\<lambda>_. State_Monad.return (Done (Delivered ses run_id)))"

definition deliverLiveNotify :: "event_deps \<Rightarrow> delivery \<Rightarrow> handler_spec \<Rightarrow> string \<Rightarrow> string \<Rightarrow> string \<Rightarrow> hook_result outcome room_op" where
  "deliverLiveNotify d dv h key ses run_id =
     do {
       wake \<leftarrow> ask (\<lambda>s. buildMeetingWakeData s (dv_event dv));
       let payload = he_payload (dv_event dv);
       _ \<leftarrow> on_live (notify_seat \<lparr>
         pd_session_id = ses, pd_participant_id = liveSeatParticipantId (dv_event dv),
         pd_message_id = opt_default (opt_default [] (text_of (prop_of payload ''message_id'')))
           (case wake of None \<Rightarrow> None | Some w \<Rightarrow> wk_message_id w),
         pd_since_seq = (case wake of None \<Rightarrow> 0 | Some w \<Rightarrow> wk_since_seq w), pd_handler_id = hs_id h,
         pd_prompt = map_option (\<lambda>w. formatLiveSaidPrompt w payload) wake \<rparr>);
       announce d dv h key ses run_id
     }"

definition start_of ::
    "delivery \<Rightarrow> handler_spec \<Rightarrow> string \<Rightarrow> string \<Rightarrow> live_principal option \<Rightarrow> start_live" where
  "start_of dv h ses run_id pr = \<lparr> sl_session_id = ses, sl_participant_id = liveSeatParticipantId (dv_event dv),
     sl_handler_id = hs_id h, sl_run_id = run_id, sl_principal = pr, sl_space_id = Some (hook_space dv) \<rparr>"

text \<open>
  The run is created and the action invoked. When the event attaches to a meeting the seat becomes
  live: before the action for a shell, whose process may speak at once, and after it otherwise.
\<close>

definition start_assignment ::
    "event_deps \<Rightarrow> delivery \<Rightarrow> handler_spec \<Rightarrow> string \<Rightarrow> bool \<Rightarrow> string \<Rightarrow> string \<Rightarrow> jobj option \<Rightarrow> hook_result outcome room_op" where
  "start_assignment d dv h key attach ses run_id params =
     do {
       let seat = attach \<and> wakes_seats (he_event_type (dv_event dv));
       let shell = seat \<and> hs_type h = ShellSpawn;
       _ \<leftarrow> (if shell then on_live (start_seat (start_of dv h ses run_id None)) else skip);
       answer \<leftarrow> invoke_action d (hook_call dv (hs_id h) (hook_space dv) (hs_id h) ses run_id params key);
       let drop_seat = (if shell then on_live (revoke_live ses (Some (liveSeatParticipantId (dv_event dv)))) else skip);
       case answer of
         ActionThrew e \<Rightarrow> do { _ \<leftarrow> drop_seat; State_Monad.return (Raised e) }
       | Answered http pr \<Rightarrow>
           if 400 \<le> http then do { _ \<leftarrow> drop_seat; State_Monad.return (Done (HookFailed ''invoke_failed'')) }
           else do {
             _ \<leftarrow> (if seat \<and> \<not> shell then on_live (start_seat (start_of dv h ses run_id pr)) else skip);
             announce d dv h key ses run_id
           }
     }"

definition deliverToAssignment ::
    "event_deps \<Rightarrow> delivery \<Rightarrow> handler_spec \<Rightarrow> string \<Rightarrow> string option \<Rightarrow> hook_result outcome room_op" where
  "deliverToAssignment d dv h key attach =
     do {
       wake \<leftarrow> ask (\<lambda>s. buildMeetingWakeData s (dv_event dv));
       let ctx = (case wake of Some w \<Rightarrow> meetingWakeExecContext w | None \<Rightarrow> eventExecContext (dv_event dv));
       ses \<leftarrow> (case attach of Some i \<Rightarrow> State_Monad.return i
                | None \<Rightarrow> create_hook_session d dv (hs_id h) (''Handler '' @ hs_id h) (hs_id h));
       created \<leftarrow> create_hook_run d dv ses ctx key;
       case created of
         Inl message \<Rightarrow> State_Monad.return (Done (HookFailed message))
       | Inr run_id \<Rightarrow>
           (let resolved = resolveHookParams (if hs_type h = ViewResolver then None else hs_params h) ctx in
            start_assignment d dv h key (attach \<noteq> None) ses run_id
              (case wake of None \<Rightarrow> resolved | Some w \<Rightarrow> Some (spread (opt_default [] resolved) (wake_json w))))
     }"

definition dispatchMatchedEventHandler :: "event_deps \<Rightarrow> delivery \<Rightarrow> handler_spec \<Rightarrow> hook_result outcome room_op" where
  "dispatchMatchedEventHandler d dv h =
     do {
       let key = delivery_key d dv (hs_id h);
       existing \<leftarrow> ask_studio (\<lambda>st. findRunByIdempotencyKey st key);
       case existing of
         Some r \<Rightarrow> State_Monad.return (Done (Deduped (''run_'' @ rr_run_id r)))
       | None \<Rightarrow> do {
           target \<leftarrow> ask (\<lambda>s. resolveEventDeliveryTarget s (dv_event dv));
           case target of
             TargetDenied c m \<Rightarrow> State_Monad.return (Done (HookFailed m))
           | NotifyLive ses run_id \<Rightarrow> deliverLiveNotify d dv h key ses run_id
           | AttachTo ses \<Rightarrow> deliverToAssignment d dv h key (Some ses)
           | CreateSession \<Rightarrow> deliverToAssignment d dv h key None
         }
     }"

section \<open>Every space\<close>

text \<open>One hook row of a space: the results it adds.\<close>

definition dispatch_row :: "event_deps \<Rightarrow> delivery \<Rightarrow> hook_row \<Rightarrow> hook_result list outcome room_op" where
  "dispatch_row d dv row =
     (let ev = dv_event dv in
      case row of
        HandlerRow h \<Rightarrow>
          if matches_event (he_event_type ev) (event_source_of_event ev)
               (resolveHookParticipant (he_participant ev) (he_payload ev)) h
          then after (dispatchMatchedEventHandler d dv h) (\<lambda>r. State_Monad.return (Done [r]))
          else State_Monad.return (Done [])
      | HookRow name spec \<Rightarrow>
          if matchHook spec ev then do { r \<leftarrow> dispatchHook d dv name spec; State_Monad.return (Done [r]) }
          else State_Monad.return (Done [])
      | OtherRow \<Rightarrow> State_Monad.return (Done []))"

fun gather :: "'a list \<Rightarrow> ('a \<Rightarrow> 'b list outcome room_op) \<Rightarrow> 'b list outcome room_op" where
  "gather [] f = State_Monad.return (Done [])"
| "gather (x # xs) f = after (f x) (\<lambda>r. after (gather xs f) (\<lambda>rs. State_Monad.return (Done (r @ rs))))"

definition dispatch_space :: "event_deps \<Rightarrow> delivery \<Rightarrow> string \<Rightarrow> hook_result list outcome room_op" where
  "dispatch_space d dv space_id =
     do {
       rows \<leftarrow> ask_studio (\<lambda>st. listIndexedHooks st space_id);
       gather rows (dispatch_row d (dv\<lparr> dv_space_id := space_id \<rparr>))
     }"

definition dispatchHooksForEvent :: "event_deps \<Rightarrow> delivery \<Rightarrow> hook_result list outcome room_op" where
  "dispatchHooksForEvent d dv =
     do { spaces \<leftarrow> ask_studio listSpaces; gather spaces (dispatch_space d dv) }"

end
