(* ===== verification/MeetingOps.thy ===== *)
theory MeetingOps
  imports EventHooks StepResolve
begin

text \<open>
  What happens in a meeting: it is convened, resumed and closed (\<open>convene.ts\<close>, \<open>resume.ts\<close>, \<open>close.ts\<close>,
  \<open>resolve-bound-step.ts\<close>), seats speak (\<open>said.ts\<close>) and are woken (\<open>dispatch.ts\<close>, \<open>receipts.ts\<close>), and any
  space emits events (\<open>events/emit.ts\<close>).
\<close>

section \<open>Receipts\<close>

definition seat_json :: "meeting_seat \<Rightarrow> json" where
  "seat_json s = JObj [(''participant_id'', JStr (mr_participant_id s)), (''space_id'', JStr (mr_space_id s)),
     (''persona'', opt_str (mr_persona s))]"

definition chair_json :: "meeting_chair \<Rightarrow> json" where
  "chair_json c = (case c of HumanChair \<Rightarrow> JObj [(''human'', JBool True)]
     | SeatChair p \<Rightarrow> JObj [(''participant_id'', JStr p)])"

text \<open>The session, the message and who acts, as every receipt names them.\<close>

record receipt_context =
  ro_session_id :: string
  ro_message_id :: string
  ro_actor_id :: string
  ro_token_id :: string

definition appendMeetingDelivered :: "session_run_deps \<Rightarrow> receipt_context \<Rightarrow> meeting_seat \<Rightarrow> meeting_entry outcome room_op" where
  "appendMeetingDelivered d r seat = appendMeetingEvent d
     (meeting_event ''mrmr.meeting.delivered'' (prefixedSpace (mr_space_id seat)) (ro_session_id r) (ro_actor_id r)
       (ro_token_id r) [(''message_id'', JStr (ro_message_id r)), (''participant_id'', JStr (mr_participant_id seat))]) None"

definition appendMeetingDeliveryFailed ::
    "session_run_deps \<Rightarrow> receipt_context \<Rightarrow> meeting_seat \<Rightarrow> string \<Rightarrow> meeting_entry outcome room_op" where
  "appendMeetingDeliveryFailed d r seat reason = appendMeetingEvent d
     (meeting_event ''mrmr.meeting.delivery_failed'' (prefixedSpace (mr_space_id seat)) (ro_session_id r) (ro_actor_id r)
       (ro_token_id r) [(''message_id'', JStr (ro_message_id r)), (''participant_id'', JStr (mr_participant_id seat)),
         (''reason'', JStr reason)]) None"

section \<open>Speaking\<close>

datatype speaker = HumanSpeaker | SeatSpeaker meeting_seat

datatype said_to = ToAll | ToList "string list"

record said_input =
  si_space_id :: string
  si_session_id :: string
  si_payload :: jobj
  si_actor_id :: "string option"
  si_human_chair :: bool
  si_bootstrap :: bool
  si_operator :: bool

record prepared_said =
  pr_payload :: jobj
  pr_speaker :: speaker
  pr_targets :: "meeting_seat list"
  pr_message_id :: string
  pr_meeting :: meeting_row

definition speaker_id :: "speaker \<Rightarrow> string option" where
  "speaker_id sp = (case sp of HumanSpeaker \<Rightarrow> None | SeatSpeaker s \<Rightarrow> Some (mr_participant_id s))"

definition parseTo :: "json \<Rightarrow> refusal + said_to" where
  "parseTo raw =
     (case asRecord raw of
        None \<Rightarrow> Inl toAmbiguous
      | Some r \<Rightarrow>
          let all = (prop_of r ''all'' = JBool True);
              listed = (case prop_of r ''participant_ids'' of JArr _ \<Rightarrow> True | _ \<Rightarrow> False) in
          if all = listed then Inl toAmbiguous
          else if all then Inr ToAll
          else Inr (ToList (set_of (texts_of (prop_of r ''participant_ids'')))))"

definition resolveSpeaker :: "meeting_row \<Rightarrow> string \<Rightarrow> json \<Rightarrow> refusal + speaker" where
  "resolveSpeaker m space_id as_participant =
     (let asked = text_of as_participant; seats = seatsForSpace (mt_roster m) space_id in
      if truthy_str asked then
        (case findSeat (mt_roster m) (the asked) of
           None \<Rightarrow> Inl (notMeetingMember ''as_participant_id is not a roster seat in the emitter space'')
         | Some seat \<Rightarrow>
             if stripPrefix (mr_space_id seat) \<noteq> stripPrefix space_id
             then Inl (notMeetingMember ''as_participant_id is not a roster seat in the emitter space'')
             else Inr (SeatSpeaker seat))
      else case seats of
        [seat] \<Rightarrow> Inr (SeatSpeaker seat)
      | [] \<Rightarrow> Inl (notMeetingMember ''Emitter space has no seat in this meeting'')
      | _ \<Rightarrow> Inl participantAmbiguous)"

definition emptyTargetsOrDenial :: "meeting_row \<Rightarrow> refusal + meeting_seat list" where
  "emptyTargetsOrDenial m = (if mt_chair m = HumanChair then Inr [] else Inl toEmpty)"

fun listed_targets :: "meeting_seat list \<Rightarrow> string option \<Rightarrow> string list \<Rightarrow> refusal + meeting_seat list" where
  "listed_targets roster speaker [] = Inr []"
| "listed_targets roster speaker (i # is) =
     (if speaker = Some i then listed_targets roster speaker is
      else case findSeat roster i of
        None \<Rightarrow> Inl (notMeetingMember (''Target '' @ i @ '' is not on the roster''))
      | Some seat \<Rightarrow> map_sum id (\<lambda>rest. seat # rest) (listed_targets roster speaker is))"

definition resolveTargets :: "meeting_row \<Rightarrow> speaker \<Rightarrow> said_to \<Rightarrow> refusal + meeting_seat list" where
  "resolveTargets m sp to' =
     (case (case to' of
              ToAll \<Rightarrow> Inr (filter (\<lambda>s. Some (mr_participant_id s) \<noteq> speaker_id sp) (mt_roster m))
            | ToList ids \<Rightarrow> listed_targets (mt_roster m) (speaker_id sp) ids) of
        Inr [] \<Rightarrow> emptyTargetsOrDenial m
      | r \<Rightarrow> r)"

definition replyExists :: "room \<Rightarrow> string \<Rightarrow> string \<Rightarrow> bool" where
  "replyExists s ses i \<longleftrightarrow>
     list_ex (\<lambda>r. prop_of (ji_payload r) ''message_id'' = JStr i
                \<or> prop_of (as_obj (prop_of (ji_payload r) ''data'')) ''message_id'' = JStr i)
       (queryMeetingJournal s ses [''mrmr.meeting.said''])"

definition artifact_readers :: "room \<Rightarrow> meeting_row \<Rightarrow> string list" where
  "artifact_readers s m = rosterSpaceIds (mt_roster m)
     @ (case getSession (hb_studio (rm_hub s)) (mt_session_id m) of
          None \<Rightarrow> [] | Some ses \<Rightarrow> if ss_actor_id ses \<noteq> [] then [''actor:'' @ ss_actor_id ses] else [])"

definition expandArtifactReaders :: "meeting_row \<Rightarrow> json \<Rightarrow> unit room_op" where
  "expandArtifactReaders m artifacts =
     act (\<lambda>s. fold (\<lambda>i. updateArtifactAuthorizedReaders i (artifact_readers s m)) (texts_of artifacts) s)"

definition find_speaker :: "room \<Rightarrow> meeting_row \<Rightarrow> said_input \<Rightarrow> refusal + speaker" where
  "find_speaker s m inp =
     (if \<not> si_human_chair inp then resolveSpeaker m (si_space_id inp) (prop_of (si_payload inp) ''as_participant_id'')
      else if si_operator inp \<or> si_bootstrap inp then Inr HumanSpeaker
      else if mt_chair m \<noteq> HumanChair \<or> \<not> truthy_str (si_actor_id inp)
           \<or> map_option ss_actor_id (getSession (hb_studio (rm_hub s)) (si_session_id inp)) \<noteq> si_actor_id inp
      then Inl meetingChairRequired
      else Inr HumanSpeaker)"

definition from_json :: "speaker \<Rightarrow> json" where
  "from_json sp = (case sp of HumanSpeaker \<Rightarrow> JObj [(''human'', JBool True)]
     | SeatSpeaker s \<Rightarrow> JObj ([(''participant_id'', JStr (mr_participant_id s)), (''space_id'', JStr (prefixedSpace (mr_space_id s)))]
         @ (if truthy_str (mr_persona s) then [(''persona'', opt_str (mr_persona s))] else [])))"

definition said_payload :: "jobj \<Rightarrow> speaker \<Rightarrow> string \<Rightarrow> jobj" where
  "said_payload payload sp message_id =
     spread (js_delete ''as_participant_id'' payload)
       ((case sp of HumanSpeaker \<Rightarrow> [] | SeatSpeaker s \<Rightarrow> [(''as_participant_id'', JStr (mr_participant_id s))])
        @ [(''message_id'', JStr message_id), (''from'', from_json sp)])"

definition has_content :: "jobj \<Rightarrow> bool" where
  "has_content payload \<longleftrightarrow> truthy_str (text_of (prop_of payload ''text''))
     \<or> (case prop_of payload ''artifacts'' of JArr xs \<Rightarrow> xs \<noteq> [] | _ \<Rightarrow> False)"

text \<open>The checks of a message, in their order: who speaks and to whom, or the denial.\<close>

definition check_said :: "room \<Rightarrow> meeting_row \<Rightarrow> said_input \<Rightarrow> refusal + speaker \<times> meeting_seat list" where
  "check_said s m inp =
     (if mt_status m = MClosed then Inl meetingClosed
      else case parseTo (prop_of (si_payload inp) ''to'') of Inl e \<Rightarrow> Inl e | Inr to' \<Rightarrow>
        (case find_speaker s m inp of Inl e \<Rightarrow> Inl e | Inr sp \<Rightarrow>
          (case resolveTargets m sp to' of Inl e \<Rightarrow> Inl e | Inr targets \<Rightarrow>
            (let reply = text_of (prop_of (si_payload inp) ''in_reply_to'') in
             if truthy_str reply \<and> \<not> replyExists s (si_session_id inp) (the reply) then Inl (replyUnknown (the reply))
             else if \<not> has_content (si_payload inp)
             then Inl (meetingDenial ''CONTRACT_VALIDATION_DENIED'' ''said requires text or artifacts'' 400)
             else Inr (sp, targets)))))"

text \<open>\<open>None\<close> is a session without a meeting: the payload is journaled as it is.\<close>

definition prepareMeetingSaid :: "session_run_deps \<Rightarrow> said_input \<Rightarrow> (refusal + prepared_said option) room_op" where
  "prepareMeetingSaid d inp =
     do {
       s \<leftarrow> ask (\<lambda>s. s);
       case getMeetingBySession s (si_session_id inp) of
         None \<Rightarrow> State_Monad.return (Inr None)
       | Some m \<Rightarrow>
           (case check_said s m inp of
              Inl e \<Rightarrow> State_Monad.return (Inl e)
            | Inr (sp, targets) \<Rightarrow> do {
                _ \<leftarrow> expandArtifactReaders m (prop_of (si_payload inp) ''artifacts'');
                u \<leftarrow> on_hub (ulid d);
                State_Monad.return (Inr (Some \<lparr> pr_payload = said_payload (si_payload inp) sp (''msg_'' @ u),
                  pr_speaker = sp, pr_targets = targets, pr_message_id = ''msg_'' @ u, pr_meeting = m \<rparr>))
              })
     }"

section \<open>Waking the seats\<close>

record on_authority =
  oa_actor_id :: string
  oa_token_id :: string
  oa_capabilities :: "capability list"

definition seat_delivery :: "on_authority \<Rightarrow> hook_event \<Rightarrow> meeting_seat \<Rightarrow> delivery" where
  "seat_delivery a ev seat = \<lparr>
     dv_space_id = mr_space_id seat,
     dv_event = ev\<lparr> he_participant := mr_persona seat, he_participant_id := Some (mr_participant_id seat),
       he_space_id := mr_space_id seat \<rparr>,
     dv_actor_id = oa_actor_id a, dv_token_id = oa_token_id a, dv_capabilities = oa_capabilities a \<rparr>"

definition seat_handlers :: "studio \<Rightarrow> string \<Rightarrow> string \<Rightarrow> meeting_seat \<Rightarrow> handler_spec list" where
  "seat_handlers st type source seat =
     matchEventHandlers (handlers_of (listIndexedHooks st (stripPrefix (mr_space_id seat)))) type source (mr_persona seat)"

text \<open>The handlers of a seat, one after the other: whether one took the message, and the last failure.\<close>

fun wake_handlers :: "event_deps \<Rightarrow> delivery \<Rightarrow> handler_spec list \<Rightarrow> bool \<times> string \<Rightarrow> (bool \<times> string) outcome room_op" where
  "wake_handlers d dv [] acc = State_Monad.return (Done acc)"
| "wake_handlers d dv (h # hs) acc =
     after (dispatchMatchedEventHandler d dv h) (\<lambda>r. wake_handlers d dv hs
       (case r of HookFailed m \<Rightarrow> (fst acc, if m = ''invoke_failed'' then ''EXECUTOR_UNAVAILABLE'' else m)
        | _ \<Rightarrow> (True, snd acc)))"

definition dispatch_said_target ::
    "event_deps \<Rightarrow> on_authority \<Rightarrow> hook_event \<Rightarrow> receipt_context \<Rightarrow> meeting_seat \<Rightarrow> meeting_entry outcome room_op" where
  "dispatch_said_target d a ev r seat =
     do {
       matched \<leftarrow> ask_studio (\<lambda>st. seat_handlers st ''mrmr.meeting.said'' (event_source_of_event ev) seat);
       if matched = [] then appendMeetingDeliveryFailed (run_deps_of d) r seat ''NO_HANDLER''
       else after (wake_handlers d (seat_delivery a ev seat) matched (False, ''EXECUTOR_UNAVAILABLE''))
         (\<lambda>(delivered, reason).
            if delivered then appendMeetingDelivered (run_deps_of d) r seat
            else appendMeetingDeliveryFailed (run_deps_of d) r seat reason)
     }"

fun each_target :: "('a \<Rightarrow> 'b outcome room_op) \<Rightarrow> 'a list \<Rightarrow> unit outcome room_op" where
  "each_target f [] = State_Monad.return (Done ())"
| "each_target f (x # xs) = after (f x) (\<lambda>_. each_target f xs)"

definition dispatchMeetingSaidTargets :: "event_deps \<Rightarrow> on_authority \<Rightarrow> hook_event \<Rightarrow> prepared_said \<Rightarrow> unit outcome room_op" where
  "dispatchMeetingSaidTargets d a ev p =
     each_target (dispatch_said_target d a ev \<lparr>
       ro_session_id = opt_default (mt_session_id (pr_meeting p)) (he_session_id ev), ro_message_id = pr_message_id p,
       ro_actor_id = oa_actor_id a, ro_token_id = oa_token_id a \<rparr>) (pr_targets p)"

record convened_event =
  cn_session_id :: string
  cn_event_id :: string
  cn_event_type :: string
  cn_space_id :: string
  cn_title :: string
  cn_goal :: "string option"

definition convene_event :: "convened_event \<Rightarrow> hook_event" where
  "convene_event e = \<lparr> he_event_id = cn_event_id e, he_event_type = cn_event_type e, he_space_id = cn_space_id e,
     he_source = Some (''/spaces/'' @ cn_space_id e), he_payload = [(''title'', JStr (cn_title e)), (''goal'', opt_str (cn_goal e))],
     he_session_id = Some (prefixedSession (cn_session_id e)), he_participant = None, he_participant_id = None \<rparr>"

definition dispatch_convene_target :: "event_deps \<Rightarrow> on_authority \<Rightarrow> hook_event \<Rightarrow> meeting_seat \<Rightarrow> unit outcome room_op" where
  "dispatch_convene_target d a ev seat =
     do {
       matched \<leftarrow> ask_studio (\<lambda>st. seat_handlers st (he_event_type ev) (event_source_of_event ev) seat);
       each_target (dispatchMatchedEventHandler d (seat_delivery a ev seat)) matched
     }"

definition dispatchMeetingConveneTargets ::
    "event_deps \<Rightarrow> on_authority \<Rightarrow> convened_event \<Rightarrow> meeting_seat list \<Rightarrow> unit outcome room_op" where
  "dispatchMeetingConveneTargets d a e roster = each_target (dispatch_convene_target d a (convene_event e)) roster"

end
