(* ===== verification/MeetingRooms.thy ===== *)
theory MeetingRooms
  imports MeetingOps
begin

text \<open>
  The life of a meeting (\<open>convene.ts\<close>, \<open>resume.ts\<close>, \<open>close.ts\<close>, \<open>resolve-bound-step.ts\<close>), the events a space
  emits (\<open>events/emit.ts\<close>) and the meeting a step of a flow opens (\<open>conveneMeetingForOpenStep\<close>).
\<close>

section \<open>Closing\<close>

text \<open>What a caller claims when it closes or resumes a meeting.\<close>

record chair_claim =
  cc_human :: bool
  cc_bootstrap :: bool
  cc_operator :: bool
  cc_convenor :: bool
  cc_actor_id :: string
  cc_session_actor_id :: "string option"
  cc_as_participant_id :: "string option"
  cc_emitter_space_id :: "string option"

definition seat_chair_refuses :: "meeting_row \<Rightarrow> string \<Rightarrow> chair_claim \<Rightarrow> bool" where
  "seat_chair_refuses m chair c \<longleftrightarrow>
     chair = [] \<or> cc_human c
     \<or> (case findSeat (mt_roster m) chair of
          None \<Rightarrow> True
        | Some seat \<Rightarrow>
            truthy_str (cc_as_participant_id c) \<and> cc_as_participant_id c \<noteq> Some chair
            \<or> truthy_str (cc_emitter_space_id c) \<and> stripPrefix (mr_space_id seat) \<noteq> stripPrefix (the (cc_emitter_space_id c))
            \<or> \<not> truthy_str (cc_as_participant_id c) \<and> \<not> truthy_str (cc_emitter_space_id c) \<and> \<not> cc_bootstrap c)"

definition assertChairMayClose :: "meeting_row \<Rightarrow> chair_claim \<Rightarrow> refusal option" where
  "assertChairMayClose m c =
     (if cc_bootstrap c \<or> cc_operator c \<or> cc_convenor c then None
      else case mt_chair m of
        HumanChair \<Rightarrow>
          if cc_human c \<and> truthy_str (cc_session_actor_id c) \<and> cc_session_actor_id c = Some (cc_actor_id c)
          then None else Some meetingChairRequired
      | SeatChair chair \<Rightarrow> if seat_chair_refuses m chair c then Some meetingChairRequired else None)"

definition isMeetingConvenorSpace :: "room \<Rightarrow> string \<Rightarrow> string \<Rightarrow> bool" where
  "isMeetingConvenorSpace s ses token \<longleftrightarrow>
     token \<noteq> [] \<and> token \<noteq> ''bootstrap''
     \<and> (case queryMeetingJournal s ses [''mrmr.meeting.convened''] of
          [] \<Rightarrow> False | r # _ \<Rightarrow> stripPrefix (ji_space_id r) = stripPrefix token)"

definition closed_row :: "meeting_row \<Rightarrow> meeting_entry \<Rightarrow> bool \<Rightarrow> nat \<Rightarrow> meeting_row" where
  "closed_row m e failed ts = m\<lparr> mt_status := MClosed, mt_close_entry_id := Some (en_entry_id e),
     mt_close_seq := Some (en_meeting_seq e), mt_close_failed := Some failed, mt_updated_at := ts \<rparr>"

definition persistClosedSnapshot :: "meeting_row \<Rightarrow> meeting_entry \<Rightarrow> bool \<Rightarrow> unit room_op" where
  "persistClosedSnapshot m e failed =
     do {
       ts \<leftarrow> on_hub nowIso;
       act (\<lambda>s. snd (upsertMeetingSnapshot (closed_row m e failed ts) s))
     }"

text \<open>The step of a flow the meeting was opened for is resolved when the meeting closes.\<close>

definition maybeResolveBoundMeetingStep ::
    "event_deps \<Rightarrow> meeting_row \<Rightarrow> bool \<Rightarrow> string \<Rightarrow> string \<Rightarrow> string \<Rightarrow> string \<Rightarrow> unit outcome room_op" where
  "maybeResolveBoundMeetingStep d m failed actor_id token_id space_id session_id =
     (if \<not> truthy_str (mt_bound_run_id m) \<or> \<not> truthy_str (mt_bound_step_id m) then State_Monad.return (Done ())
      else after (on_hub (resolveFlowStep (engine_of d)
             \<lparr> cl_run_id = the (mt_bound_run_id m), cl_session_id = Some session_id,
               cl_space_id = addSpaceId (stripPrefix space_id), cl_actor_id = actor_id, cl_token_id = token_id \<rparr>
             (the (mt_bound_step_id m))
             \<lparr> rb_branch = (if failed then ''failed'' else ''completed''), rb_payload = Some [], rb_artifacts_out = None,
               rb_idempotency_key = None \<rparr>))
        (\<lambda>_. State_Monad.return (Done ())))"

definition prepareMeetingClosed :: "room \<Rightarrow> string \<Rightarrow> string \<Rightarrow> string \<Rightarrow> jobj \<Rightarrow> refusal + meeting_row" where
  "prepareMeetingClosed s session_id actor_id space_id payload =
     (case getMeetingBySession s session_id of
        None \<Rightarrow> Inl meetingClosed
      | Some m \<Rightarrow>
          if mt_status m = MClosed then Inl meetingClosed
          else case assertChairMayClose m \<lparr> cc_human = False, cc_bootstrap = False, cc_operator = False, cc_convenor = False,
                 cc_actor_id = actor_id, cc_session_actor_id = None,
                 cc_as_participant_id = text_of (prop_of payload ''as_participant_id''),
                 cc_emitter_space_id = Some space_id \<rparr> of
            Some e \<Rightarrow> Inl e | None \<Rightarrow> Inr m)"

record close_input =
  cx_session_id :: string
  cx_actor_id :: string
  cx_token_id :: string
  cx_reason :: "string option"
  cx_outcome :: "string option"
  cx_artifacts :: "string list option"
  cx_failed :: bool
  cx_convenor_space_id :: "string option"
  cx_human :: bool
  cx_bootstrap :: bool
  cx_operator :: bool
  cx_convenor :: bool
  cx_as_participant_id :: "string option"
  cx_emitter_space_id :: "string option"

record close_result =
  cz_session_id :: string
  cz_failed :: bool
  cz_close_seq :: nat

definition close_claim :: "close_input \<Rightarrow> session_row option \<Rightarrow> chair_claim" where
  "close_claim inp session = \<lparr> cc_human = cx_human inp, cc_bootstrap = cx_bootstrap inp, cc_operator = cx_operator inp,
     cc_convenor = cx_convenor inp, cc_actor_id = cx_actor_id inp, cc_session_actor_id = map_option ss_actor_id session,
     cc_as_participant_id = cx_as_participant_id inp, cc_emitter_space_id = cx_emitter_space_id inp \<rparr>"

definition acting_space :: "string option \<Rightarrow> string option \<Rightarrow> meeting_row \<Rightarrow> string" where
  "acting_space convenor emitter m = prefixedSpace (opt_default ''hub''
     (or_try convenor (or_try emitter (case mt_roster m of [] \<Rightarrow> None | s # _ \<Rightarrow> Some (mr_space_id s)))))"

definition closed_data :: "close_input \<Rightarrow> jobj" where
  "closed_data inp = [(''reason'', opt_str (cx_reason inp)), (''outcome'', opt_str (cx_outcome inp)),
     (''artifacts'', (case cx_artifacts inp of None \<Rightarrow> JUndef | Some xs \<Rightarrow> strs_json xs))]
     @ (if cx_failed inp then [(''failed'', JBool True)] else [])"

text \<open>The meeting a caller may close or resume, or the denial.\<close>

definition check_close :: "room \<Rightarrow> close_input \<Rightarrow> refusal + meeting_row" where
  "check_close s inp =
     (case getMeetingBySession s (cx_session_id inp) of
        None \<Rightarrow> Inl meetingClosed
      | Some m \<Rightarrow>
          if mt_status m = MClosed then Inl meetingClosed
          else let session = getSession (hb_studio (rm_hub s)) (cx_session_id inp) in
            if session = None \<and> \<not> cx_bootstrap inp then Inl sessionNotFound
            else case assertChairMayClose m (close_claim inp session) of Some e \<Rightarrow> Inl e | None \<Rightarrow> Inr m)"

definition closeMeeting :: "event_deps \<Rightarrow> close_input \<Rightarrow> (refusal + close_result) outcome room_op" where
  "closeMeeting d inp =
     do {
       s \<leftarrow> ask (\<lambda>s. s);
       case check_close s inp of
         Inl e \<Rightarrow> State_Monad.return (Done (Inl e))
       | Inr m \<Rightarrow>
           (let space = acting_space (cx_convenor_space_id inp) (cx_emitter_space_id inp) m;
                ses = prefixedSession (cx_session_id inp) in
            after (appendMeetingEvent (run_deps_of d) (meeting_event ''mrmr.meeting.closed'' space (cx_session_id inp)
                    (cx_actor_id inp) (cx_token_id inp) (closed_data inp)) None)
              (\<lambda>e. do {
                 _ \<leftarrow> persistClosedSnapshot m e (cx_failed inp);
                 _ \<leftarrow> on_live (revoke_live ses None);
                 after (maybeResolveBoundMeetingStep d m (cx_failed inp) (cx_actor_id inp) (cx_token_id inp) space ses)
                   (\<lambda>_. State_Monad.return (Done (Inr \<lparr> cz_session_id = ses, cz_failed = cx_failed inp,
                      cz_close_seq = en_meeting_seq e \<rparr>)))
               }))
     }"

section \<open>Resuming\<close>

record resume_input =
  rx_session_id :: string
  rx_actor_id :: string
  rx_token_id :: string
  rx_convenor_space_id :: "string option"
  rx_human :: bool
  rx_bootstrap :: bool
  rx_operator :: bool
  rx_convenor :: bool
  rx_as_participant_id :: "string option"
  rx_emitter_space_id :: "string option"
  rx_capabilities :: "capability list"

record resume_result =
  rz_session_id :: string
  rz_resume_seq :: nat
  rz_roster :: "meeting_seat list"

definition resume_claim :: "resume_input \<Rightarrow> session_row option \<Rightarrow> chair_claim" where
  "resume_claim inp session = \<lparr> cc_human = rx_human inp, cc_bootstrap = rx_bootstrap inp, cc_operator = rx_operator inp,
     cc_convenor = rx_convenor inp, cc_actor_id = rx_actor_id inp, cc_session_actor_id = map_option ss_actor_id session,
     cc_as_participant_id = rx_as_participant_id inp, cc_emitter_space_id = rx_emitter_space_id inp \<rparr>"

definition check_resume :: "room \<Rightarrow> resume_input \<Rightarrow> refusal + meeting_row" where
  "check_resume s inp =
     (case getMeetingBySession s (rx_session_id inp) of
        None \<Rightarrow> Inl meetingClosed
      | Some m \<Rightarrow>
          if mt_status m = MOpen then Inl meetingAlreadyOpen
          else let session = getSession (hb_studio (rm_hub s)) (rx_session_id inp) in
            if session = None \<and> \<not> rx_bootstrap inp then Inl sessionNotFound
            else case assertChairMayClose m (resume_claim inp session) of Some e \<Rightarrow> Inl e | None \<Rightarrow> Inr m)"

definition roster_json :: "meeting_seat list \<Rightarrow> json" where
  "roster_json roster = JArr (map seat_json roster)"

text \<open>A snapshot is written, or the meeting turned out to be open under another convening.\<close>

definition writeMeetingSnapshot :: "meeting_row \<Rightarrow> bool room_op" where
  "writeMeetingSnapshot row = State (upsertMeetingSnapshot row)"

definition resumeMeeting :: "event_deps \<Rightarrow> resume_input \<Rightarrow> (refusal + resume_result) outcome room_op" where
  "resumeMeeting d inp =
     do {
       s \<leftarrow> ask (\<lambda>s. s);
       case check_resume s inp of
         Inl e \<Rightarrow> State_Monad.return (Done (Inl e))
       | Inr m \<Rightarrow>
           (let space = acting_space (rx_convenor_space_id inp) (rx_emitter_space_id inp) m;
                ses = prefixedSession (rx_session_id inp) in
            after (appendMeetingEvent (run_deps_of d) (meeting_event ''mrmr.meeting.resumed'' space (rx_session_id inp)
                    (rx_actor_id inp) (rx_token_id inp)
                    [(''roster'', roster_json (mt_roster m)), (''chair'', chair_json (mt_chair m))]) None)
              (\<lambda>e. do {
                 ts \<leftarrow> on_hub nowIso;
                 ok \<leftarrow> writeMeetingSnapshot (m\<lparr> mt_status := MOpen, mt_updated_at := ts \<rparr>);
                 if \<not> ok then State_Monad.return (Done (Inl meetingAlreadyOpen))
                 else after (dispatchMeetingConveneTargets d
                     \<lparr> oa_actor_id = rx_actor_id inp, oa_token_id = rx_token_id inp, oa_capabilities = rx_capabilities inp \<rparr>
                     \<lparr> cn_session_id = ses, cn_event_id = en_entry_id e, cn_event_type = ''mrmr.meeting.resumed'',
                       cn_space_id = space, cn_title = opt_default ''Meeting'' (mt_title m), cn_goal = mt_goal m \<rparr>
                     (mt_roster m))
                   (\<lambda>_. State_Monad.return (Done (Inr \<lparr> rz_session_id = ses, rz_resume_seq = en_meeting_seq e,
                      rz_roster = mt_roster m \<rparr>)))
               }))
     }"

section \<open>Convening\<close>

record convene_input =
  cv_title :: "string option"
  cv_goal :: "string option"
  cv_session_id :: "string option"
  cv_participants :: "seat_ask list"
  cv_chair :: chair_ask
  cv_actor_id :: string
  cv_token_id :: string
  cv_convenor_space_id :: "string option"
  cv_bound_run_id :: "string option"
  cv_bound_step_id :: "string option"
  cv_capabilities :: "capability list option"
  cv_human :: bool
  cv_bootstrap :: bool
  cv_operator :: bool
  cv_convenor :: bool

record convene_result =
  cr_session_id :: string
  cr_title :: string
  cr_goal :: "string option"
  cr_chair :: meeting_chair
  cr_roster :: "meeting_seat list"
  cr_convene_seq :: nat
  cr_resume_seq :: "nat option"

definition is_persona_id :: "string \<Rightarrow> bool" where
  "is_persona_id s \<longleftrightarrow> s \<noteq> [] \<and> is_lower (hd s) \<and> length s \<le> 64
     \<and> list_all (\<lambda>c. is_lower c \<or> is_digit c \<or> c = CHR ''_'' \<or> c = CHR ''-'') s"

definition seat_ask_ok :: "seat_ask \<Rightarrow> bool" where
  "seat_ask_ok a \<longleftrightarrow> fst a \<noteq> [] \<and> (case snd a of None \<Rightarrow> True | Some p \<Rightarrow> is_persona_id p)"

text \<open>\<open>ConveneRuntimeSchema\<close> on a body whose fields have their types.\<close>

definition convene_schema_ok :: "convene_input \<Rightarrow> bool" where
  "convene_schema_ok inp \<longleftrightarrow>
     cv_session_id inp \<noteq> Some [] \<and> cv_participants inp \<noteq> [] \<and> list_all seat_ask_ok (cv_participants inp)
     \<and> (case cv_chair inp of AskHuman \<Rightarrow> True | AskSeat a \<Rightarrow> seat_ask_ok a)"

definition convene_title :: "convene_input \<Rightarrow> string" where
  "convene_title inp = opt_default ''Meeting'' (trimmed (opt_default [] (cv_title inp)))"

definition resolveInvitee :: "studio \<Rightarrow> seat_ask \<Rightarrow> refusal option" where
  "resolveInvitee st a = (case a of (space_id, persona) \<Rightarrow>
     let bare = stripPrefix space_id in
     if or_try (getSpace st bare) (or_try (getSpace st space_id) (getSpace st (prefixedSpace bare))) = None
     then Some (meetingDenial ''PERSONA_NOT_FOUND'' (''Unknown space '' @ space_id) 400)
     else if \<not> truthy_str persona then None
     else if list_ex (\<lambda>p. pn_id p = the persona) (listIndexedPersonas st bare) then None
     else Some (personaNotFound (the persona) (prefixedSpace bare)))"

fun first_denial :: "('a \<Rightarrow> 'b option) \<Rightarrow> 'a list \<Rightarrow> 'b option" where
  "first_denial f [] = None"
| "first_denial f (x # xs) = (case f x of Some e \<Rightarrow> Some e | None \<Rightarrow> first_denial f xs)"

definition mergeSpacesTouched :: "string list \<Rightarrow> meeting_seat list \<Rightarrow> string list" where
  "mergeSpacesTouched existing roster =
     set_of (map stripPrefix (existing @ map (\<lambda>s. stripPrefix (mr_space_id s)) roster))"

text \<open>The session of the meeting: the one that was named, or a new one.\<close>

definition meeting_session :: "event_deps \<Rightarrow> convene_input \<Rightarrow> string room_op" where
  "meeting_session d inp =
     (case cv_session_id inp of
        Some i \<Rightarrow> State_Monad.return i
      | None \<Rightarrow> do {
          ses \<leftarrow> on_hub (createSession (run_deps_of d) \<lparr>
            cs_title = convene_title inp, cs_subject = Some (convene_title inp), cs_actor_id = cv_actor_id inp,
            cs_token_id = cv_token_id inp,
            cs_space_id = or_try (cv_convenor_space_id inp)
              (case cv_participants inp of [] \<Rightarrow> None | a # _ \<Rightarrow> Some (fst a)),
            cs_created_by = None \<rparr>);
          State_Monad.return (sv_session_id ses)
        })"

definition convenor_space :: "convene_input \<Rightarrow> string" where
  "convenor_space inp = prefixedSpace (opt_default (fst (hd (cv_participants inp))) (cv_convenor_space_id inp))"

definition convened_row ::
    "convene_input \<Rightarrow> string \<Rightarrow> meeting_seat list \<Rightarrow> meeting_chair \<Rightarrow> meeting_entry \<Rightarrow> nat \<Rightarrow> meeting_row" where
  "convened_row inp ses roster chair e ts = \<lparr>
     mt_session_id = ses, mt_status = MOpen, mt_title = Some (convene_title inp), mt_goal = cv_goal inp,
     mt_chair = chair, mt_roster = roster, mt_convene_entry_id = en_entry_id e, mt_convene_seq = en_meeting_seq e,
     mt_close_entry_id = None, mt_close_seq = None, mt_close_failed = None, mt_bound_run_id = cv_bound_run_id inp,
     mt_bound_step_id = cv_bound_step_id inp, mt_updated_at = ts \<rparr>"

definition open_room ::
    "event_deps \<Rightarrow> convene_input \<Rightarrow> string \<Rightarrow> meeting_seat list \<Rightarrow> meeting_chair \<Rightarrow> (refusal + convene_result) outcome room_op" where
  "open_room d inp ses roster chair =
     after (appendMeetingEvent (run_deps_of d) (meeting_event ''mrmr.meeting.convened'' (convenor_space inp) ses
             (cv_actor_id inp) (cv_token_id inp)
             [(''title'', JStr (convene_title inp)), (''goal'', opt_str (cv_goal inp)),
              (''roster'', roster_json roster), (''chair'', chair_json chair)]) None)
       (\<lambda>e. do {
          session \<leftarrow> ask_studio (\<lambda>st. getSession st ses);
          _ \<leftarrow> on_hub (studio_do (updateSessionSpacesTouched ses
            (mergeSpacesTouched (case session of None \<Rightarrow> [] | Some r \<Rightarrow> ss_spaces_touched r) roster)));
          ts \<leftarrow> on_hub nowIso;
          ok \<leftarrow> writeMeetingSnapshot (convened_row inp ses roster chair e ts);
          if \<not> ok then State_Monad.return (Done (Inl meetingAlreadyOpen))
          else after (dispatchMeetingConveneTargets d
              \<lparr> oa_actor_id = cv_actor_id inp, oa_token_id = cv_token_id inp,
                oa_capabilities = opt_default [] (cv_capabilities inp) \<rparr>
              \<lparr> cn_session_id = ses, cn_event_id = en_entry_id e, cn_event_type = ''mrmr.meeting.convened'',
                cn_space_id = convenor_space inp, cn_title = convene_title inp, cn_goal = cv_goal inp \<rparr> roster)
            (\<lambda>_. State_Monad.return (Done (Inr \<lparr> cr_session_id = prefixedSession ses, cr_title = convene_title inp,
               cr_goal = cv_goal inp, cr_chair = chair, cr_roster = roster, cr_convene_seq = en_meeting_seq e,
               cr_resume_seq = None \<rparr>)))
        })"

definition new_room :: "event_deps \<Rightarrow> convene_input \<Rightarrow> (refusal + convene_result) outcome room_op" where
  "new_room d inp =
     do {
       st \<leftarrow> ask_studio (\<lambda>st. st);
       case rejectDuplicateSeats (cv_participants inp) of
         Some e \<Rightarrow> State_Monad.return (Done (Inl e))
       | None \<Rightarrow>
         (case first_denial (resolveInvitee st) (cv_participants inp) of
            Some e \<Rightarrow> State_Monad.return (Done (Inl e))
          | None \<Rightarrow> do {
              roster \<leftarrow> on_hub (mintRoster (run_deps_of d) (cv_participants inp));
              case resolveChair roster (cv_chair inp) of
                Inl e \<Rightarrow> State_Monad.return (Done (Inl e))
              | Inr chair \<Rightarrow> do { ses \<leftarrow> meeting_session d inp; open_room d inp ses roster chair }
            })
     }"

definition resume_of :: "convene_input \<Rightarrow> string \<Rightarrow> resume_input" where
  "resume_of inp ses = \<lparr> rx_session_id = ses, rx_actor_id = cv_actor_id inp, rx_token_id = cv_token_id inp,
     rx_convenor_space_id = cv_convenor_space_id inp, rx_human = cv_human inp, rx_bootstrap = cv_bootstrap inp,
     rx_operator = cv_operator inp, rx_convenor = cv_convenor inp, rx_as_participant_id = None,
     rx_emitter_space_id = None, rx_capabilities = opt_default [] (cv_capabilities inp) \<rparr>"

text \<open>\<open>issue\<close> is the message of the schema's first complaint.\<close>

definition conveneMeeting ::
    "event_deps \<Rightarrow> (convene_input \<Rightarrow> string) \<Rightarrow> convene_input \<Rightarrow> (refusal + convene_result) outcome room_op" where
  "conveneMeeting d issue inp =
     (if \<not> convene_schema_ok inp
      then State_Monad.return (Done (Inl (meetingDenial ''CONTRACT_VALIDATION_DENIED'' (issue inp) 400)))
      else case cv_session_id inp of
        None \<Rightarrow> new_room d inp
      | Some ses \<Rightarrow> do {
          s \<leftarrow> ask (\<lambda>s. s);
          if getSession (hb_studio (rm_hub s)) ses = None then State_Monad.return (Done (Inl sessionNotFound))
          else case getMeetingBySession s ses of
            None \<Rightarrow> new_room d inp
          | Some m \<Rightarrow>
              if mt_status m = MOpen then State_Monad.return (Done (Inl meetingAlreadyOpen))
              else after (resumeMeeting d (resume_of inp ses)) (\<lambda>r. State_Monad.return (Done (case r of
                  Inl e \<Rightarrow> Inl e
                | Inr z \<Rightarrow> Inr \<lparr> cr_session_id = rz_session_id z, cr_title = opt_default (convene_title inp) (mt_title m),
                    cr_goal = mt_goal m, cr_chair = mt_chair m, cr_roster = rz_roster z,
                    cr_convene_seq = mt_convene_seq m, cr_resume_seq = Some (rz_resume_seq z) \<rparr>)))
        })"

end
