(* ===== verification/EmitEvents.thy ===== *)
theory EmitEvents
  imports MeetingRooms
begin

text \<open>
  The events a space emits (\<open>events/emit.ts\<close>), the meeting a step of a flow opens
  (\<open>conveneMeetingForOpenStep\<close> of \<open>step-open.ts\<close>), and the HTTP routes of meetings
  (\<open>hub-daemon/src/routes/meetings/index.ts\<close>) after the token of a request is known.
\<close>

section \<open>Emitting\<close>

definition HUB_ONLY_EMIT_DENYLIST :: "string list" where
  "HUB_ONLY_EMIT_DENYLIST = [''mrmr.meeting.convened'', ''mrmr.meeting.delivered'', ''mrmr.meeting.delivery_failed'',
     ''mrmr.meeting.resumed'', ''mrmr.memory.bank_granted'', ''mrmr.memory.bank_revoked'', ''mrmr.memory.bank_accessed'']"

record emit_input =
  ei_space_id :: string
  ei_event_type :: string
  ei_event_id :: "string option"
  ei_payload :: "jobj option"
  ei_session_id :: "string option"
  ei_actor_id :: string
  ei_token_id :: string
  ei_capabilities :: "capability list option"
  ei_human_chair :: bool
  ei_bootstrap :: bool
  ei_operator :: bool

record emitted =
  eo_event_id :: string
  eo_type :: string
  eo_seq :: nat
  eo_hook_results :: "hook_result list"

definition hubStampFrom :: "string \<Rightarrow> string \<Rightarrow> jobj \<Rightarrow> jobj" where
  "hubStampFrom space_id actor_id payload =
     js_delete ''from'' payload @ [(''from'', JObj [(''space_id'', JStr (addSpaceId (stripPrefix space_id))),
       (''actor_id'', JStr actor_id)])]"

definition emit_session :: "emit_input \<Rightarrow> string option" where
  "emit_session inp = (if trim (opt_default [] (ei_session_id inp)) = [] then None else ei_session_id inp)"

definition emit_space :: "emit_input \<Rightarrow> string" where
  "emit_space inp = addSpaceId (stripPrefix (ei_space_id inp))"

text \<open>What is refused before anything is read.\<close>

definition emit_denial :: "emit_input \<Rightarrow> refusal option" where
  "emit_denial inp =
     (if ei_event_type inp \<in> set HUB_ONLY_EMIT_DENYLIST
      then Some (meetingDenial ''HUB_ONLY_EVENT'' (ei_event_type inp @ '' is hub-authored and cannot be emitted'') 403)
      else if is_meeting_type (ei_event_type inp) \<and> emit_session inp = None
      then Some (meetingDenial ''MEETING_SESSION_REQUIRED'' ''Meeting events require a top-level session_id'' 400)
      else if (case ei_capabilities inp of None \<Rightarrow> False | Some caps \<Rightarrow> \<not> hasCapability caps [''event:emit''])
      then Some (meetingDenial ''SCOPE_ENFORCEMENT_FAILURE'' ''Missing required capability: event:emit'' 403)
      else None)"

text \<open>What the event is besides an entry of the journal: a message, the end of a meeting, or neither.\<close>

datatype emit_plan = PlainEvent | SaidEvent prepared_said | ClosedEvent meeting_row

definition said_input_of :: "emit_input \<Rightarrow> string \<Rightarrow> jobj \<Rightarrow> said_input" where
  "said_input_of inp ses payload = \<lparr> si_space_id = emit_space inp, si_session_id = ses, si_payload = payload,
     si_actor_id = Some (ei_actor_id inp), si_human_chair = ei_human_chair inp, si_bootstrap = ei_bootstrap inp,
     si_operator = ei_operator inp \<rparr>"

definition plan_emit :: "event_deps \<Rightarrow> emit_input \<Rightarrow> jobj \<Rightarrow> (refusal + emit_plan \<times> jobj) room_op" where
  "plan_emit d inp payload =
     (case emit_session inp of
        None \<Rightarrow> State_Monad.return (Inr (PlainEvent, payload))
      | Some ses \<Rightarrow>
          if ei_event_type inp = ''mrmr.meeting.said'' then do {
            r \<leftarrow> prepareMeetingSaid (run_deps_of d) (said_input_of inp ses payload);
            State_Monad.return (case r of Inl e \<Rightarrow> Inl e | Inr None \<Rightarrow> Inr (PlainEvent, payload)
              | Inr (Some p) \<Rightarrow> Inr (SaidEvent p, pr_payload p))
          }
          else if ei_event_type inp = ''mrmr.meeting.closed'' then do {
            s \<leftarrow> ask (\<lambda>s. s);
            State_Monad.return (case prepareMeetingClosed s ses (ei_actor_id inp) (emit_space inp) payload of
                Inl e \<Rightarrow> Inl e | Inr m \<Rightarrow> Inr (ClosedEvent m, payload))
          }
          else State_Monad.return (Inr (PlainEvent, payload)))"

definition journal_emit :: "event_deps \<Rightarrow> emit_input \<Rightarrow> string \<Rightarrow> jobj \<Rightarrow> meeting_entry outcome room_op" where
  "journal_emit d inp event_id payload =
     (let call = \<lparr> jc_type = ei_event_type inp, jc_space_id = emit_space inp, jc_session_id = emit_session inp,
            jc_run_id = None, jc_actor_id = ei_actor_id inp, jc_token_id = ei_token_id inp, jc_data = payload \<rparr> in
      if is_meeting_type (ei_event_type inp) \<and> emit_session inp \<noteq> None
      then appendMeetingEvent (run_deps_of d) call (Some event_id)
      else after (append_entry call event_id)
        (\<lambda>seq. State_Monad.return (Done \<lparr> en_seq = seq, en_entry_id = event_id, en_meeting_seq = 0 \<rparr>)))"

definition emit_participant :: "emit_plan \<Rightarrow> jobj \<Rightarrow> string option" where
  "emit_participant plan payload =
     (case plan of
        SaidEvent p \<Rightarrow> (case pr_speaker p of HumanSpeaker \<Rightarrow> None | SeatSpeaker s \<Rightarrow> mr_persona s)
      | _ \<Rightarrow> resolveHookParticipant None payload)"

definition emit_hook_event :: "emit_input \<Rightarrow> emit_plan \<Rightarrow> string \<Rightarrow> jobj \<Rightarrow> hook_event" where
  "emit_hook_event inp plan event_id payload = \<lparr>
     he_event_id = event_id, he_event_type = ei_event_type inp, he_space_id = emit_space inp,
     he_source = Some (opt_default (''/spaces/'' @ emit_space inp) (text_of (prop_of payload ''source''))),
     he_payload = payload, he_session_id = emit_session inp, he_participant = emit_participant plan payload,
     he_participant_id = None \<rparr>"

definition emit_authority :: "emit_input \<Rightarrow> on_authority" where
  "emit_authority inp = \<lparr> oa_actor_id = ei_actor_id inp, oa_token_id = ei_token_id inp,
     oa_capabilities = opt_default [''flow:run'', ''hub:admin''] (ei_capabilities inp) \<rparr>"

definition deliver_emit ::
    "event_deps \<Rightarrow> emit_input \<Rightarrow> emit_plan \<Rightarrow> meeting_entry \<Rightarrow> jobj \<Rightarrow> hook_result list outcome room_op" where
  "deliver_emit d inp plan e payload =
     (let ev = emit_hook_event inp plan (en_entry_id e) payload in
      case plan of
        SaidEvent p \<Rightarrow> after (dispatchMeetingSaidTargets d (emit_authority inp) ev p) (\<lambda>_. State_Monad.return (Done []))
      | ClosedEvent m \<Rightarrow>
          (let failed = (prop_of payload ''failed'' = JBool True); ses = opt_default [] (emit_session inp) in
           do {
             _ \<leftarrow> persistClosedSnapshot m e failed;
             _ \<leftarrow> on_live (revoke_live (prefixedSession ses) None);
             after (maybeResolveBoundMeetingStep d m failed (ei_actor_id inp) (ei_token_id inp) (emit_space inp) ses)
               (\<lambda>_. State_Monad.return (Done []))
           })
      | PlainEvent \<Rightarrow> dispatchHooksForEvent d \<lparr>
          dv_space_id = [], dv_event = ev, dv_actor_id = oa_actor_id (emit_authority inp),
          dv_token_id = oa_token_id (emit_authority inp), dv_capabilities = oa_capabilities (emit_authority inp) \<rparr>)"

text \<open>What is journaled stays; a delivery that throws leaves no results.\<close>

definition emitAndDeliver :: "event_deps \<Rightarrow> emit_input \<Rightarrow> (refusal + emitted) room_op" where
  "emitAndDeliver d inp =
     (case emit_denial inp of
        Some e \<Rightarrow> State_Monad.return (Inl e)
      | None \<Rightarrow> do {
          event_id \<leftarrow> (case ei_event_id inp of
              Some i \<Rightarrow> State_Monad.return i
            | None \<Rightarrow> do { u \<leftarrow> on_hub (ulid (run_deps_of d)); State_Monad.return (''evt_'' @ u) });
          planned \<leftarrow> plan_emit d inp (hubStampFrom (emit_space inp) (ei_actor_id inp) (opt_default [] (ei_payload inp)));
          case planned of
            Inl e \<Rightarrow> State_Monad.return (Inl e)
          | Inr (plan, payload) \<Rightarrow> do {
              journaled \<leftarrow> journal_emit d inp event_id payload;
              case journaled of
                Done e \<Rightarrow> do {
                  r \<leftarrow> deliver_emit d inp plan e payload;
                  State_Monad.return (Inr \<lparr> eo_event_id = event_id, eo_type = ei_event_type inp, eo_seq = en_seq e,
                    eo_hook_results = (case r of Done rs \<Rightarrow> rs | _ \<Rightarrow> []) \<rparr>)
                }
              | Raised message \<Rightarrow> State_Monad.return (Inl (meetingDenial ''INLINE_PAYLOAD_EXCEEDED'' message 400))
              | OutOfFuel \<Rightarrow> State_Monad.return (Inl (meetingDenial ''INLINE_PAYLOAD_EXCEEDED'' [] 400))
            }
        })"

section \<open>Meetings of steps\<close>

definition resolveMeetingSeat :: "jobj \<Rightarrow> jobj \<Rightarrow> seat_ask" where
  "resolveMeetingSeat ctx seat =
     (let persona = text_of (prop_of seat ''persona'');
          p = (if truthy_str persona then Some (resolveTemplateString (the persona) ctx None) else None) in
      (resolveTemplateString (as_str (prop_of seat ''space'')) ctx None, if truthy_str p then p else None))"

definition meeting_call_input :: "meeting_call \<Rightarrow> convene_input" where
  "meeting_call_input c =
     (let facet = mc_facet c; ctx = mc_exec_context c; chair = as_obj (prop_of facet ''chair'');
          goal = text_of (prop_of facet ''goal'') in
      \<lparr> cv_title = Some (mc_title c),
        cv_goal = (if truthy_str goal then Some (resolveTemplateString (the goal) ctx None) else None),
        cv_session_id = Some (mc_session_id c),
        cv_participants = map (\<lambda>s. resolveMeetingSeat ctx (as_obj s))
          (case prop_of facet ''participants'' of JArr xs \<Rightarrow> xs | _ \<Rightarrow> []),
        cv_chair = (if js_has chair ''space'' then AskSeat (resolveMeetingSeat ctx chair) else AskHuman),
        cv_actor_id = mc_actor_id c, cv_token_id = mc_token_id c, cv_convenor_space_id = Some (mc_space_id c),
        cv_bound_run_id = Some (mc_run_id c), cv_bound_step_id = Some (mc_step_id c), cv_capabilities = None,
        cv_human = False, cv_bootstrap = False, cv_operator = False, cv_convenor = True \<rparr>)"

definition conveneMeetingForOpenStep :: "event_deps \<Rightarrow> (convene_input \<Rightarrow> string) \<Rightarrow> meeting_call \<Rightarrow> unit outcome room_op" where
  "conveneMeetingForOpenStep d issue c =
     after (conveneMeeting d issue (meeting_call_input c)) (\<lambda>r. State_Monad.return (case r of
       Inl e \<Rightarrow> Raised (re_code e @ '': '' @ re_message e) | Inr _ \<Rightarrow> Done ()))"

section \<open>Routes\<close>

text \<open>The token of a request with the capabilities it has in effect.\<close>

record token_context =
  tc_actor_id :: string
  tc_token_id :: string
  tc_space_id :: string
  tc_harness_id :: "string option"
  tc_capabilities :: "capability list"

definition isHarnessAgentToken :: "token_context \<Rightarrow> bool" where
  "isHarnessAgentToken t \<longleftrightarrow>
     tc_harness_id t \<noteq> Some ''human_only'' \<and> (truthy_str (tc_harness_id t) \<or> str_includes (tc_actor_id t) ''agent'')"

definition token_admin :: "token_context \<Rightarrow> bool" where
  "token_admin t \<longleftrightarrow> is_admin (tc_space_id t) (tc_capabilities t)"

definition meetingOperatorFor :: "room \<Rightarrow> token_context \<Rightarrow> string \<Rightarrow> bool" where
  "meetingOperatorFor s t ses \<longleftrightarrow>
     token_admin t
     \<or> (\<not> isHarnessAgentToken t
        \<and> (case getMeetingBySession s ses of None \<Rightarrow> False
           | Some m \<Rightarrow> canReadMeetingTranscript (tc_space_id t) (tc_capabilities t) (map mr_space_id (mt_roster m))))"

definition token_space :: "token_context \<Rightarrow> string option" where
  "token_space t = (if tc_space_id t = ''bootstrap'' then None else Some (tc_space_id t))"

definition route_close :: "event_deps \<Rightarrow> token_context \<Rightarrow> string \<Rightarrow> jobj \<Rightarrow> (refusal + close_result) outcome room_op" where
  "route_close d t ses body =
     do {
       s \<leftarrow> ask (\<lambda>s. s);
       closeMeeting d \<lparr> cx_session_id = ses, cx_actor_id = tc_actor_id t, cx_token_id = tc_token_id t,
         cx_reason = text_of (prop_of body ''reason''), cx_outcome = text_of (prop_of body ''outcome''),
         cx_artifacts = (case prop_of body ''artifacts'' of JArr xs \<Rightarrow> Some (texts_of (JArr xs)) | _ \<Rightarrow> None),
         cx_failed = (prop_of body ''failed'' = JBool True), cx_convenor_space_id = token_space t, cx_human = True,
         cx_bootstrap = token_admin t, cx_operator = meetingOperatorFor s t ses,
         cx_convenor = isMeetingConvenorSpace s ses (tc_space_id t), cx_as_participant_id = None,
         cx_emitter_space_id = None \<rparr>
     }"

definition route_resume :: "event_deps \<Rightarrow> token_context \<Rightarrow> string \<Rightarrow> (refusal + resume_result) outcome room_op" where
  "route_resume d t ses =
     do {
       s \<leftarrow> ask (\<lambda>s. s);
       resumeMeeting d \<lparr> rx_session_id = ses, rx_actor_id = tc_actor_id t, rx_token_id = tc_token_id t,
         rx_convenor_space_id = token_space t, rx_human = True, rx_bootstrap = token_admin t,
         rx_operator = meetingOperatorFor s t ses, rx_convenor = isMeetingConvenorSpace s ses (tc_space_id t),
         rx_as_participant_id = None, rx_emitter_space_id = None, rx_capabilities = tc_capabilities t \<rparr>
     }"

definition require :: "token_context \<Rightarrow> string \<Rightarrow> refusal option" where
  "require t cap = (if hasCapability (tc_capabilities t) [cap] then None
     else Some (meetingDenial ''SCOPE_ENFORCEMENT_FAILURE'' (''Missing required capability: '' @ cap) 403))"

definition route_say :: "event_deps \<Rightarrow> string \<Rightarrow> token_context \<Rightarrow> string \<Rightarrow> jobj \<Rightarrow> (refusal + emitted) room_op" where
  "route_say d default_space t ses body =
     (case require t ''space:read'' of
        Some e \<Rightarrow> State_Monad.return (Inl e)
      | None \<Rightarrow> do {
          s \<leftarrow> ask (\<lambda>s. s);
          emitAndDeliver d \<lparr> ei_space_id = opt_default default_space (token_space t),
            ei_event_type = ''mrmr.meeting.said'', ei_event_id = None, ei_payload = Some body, ei_session_id = Some ses,
            ei_actor_id = tc_actor_id t, ei_token_id = tc_token_id t, ei_capabilities = None, ei_human_chair = True,
            ei_bootstrap = token_admin t, ei_operator = meetingOperatorFor s t ses \<rparr>
        })"

definition route_transcript :: "room \<Rightarrow> token_context \<Rightarrow> transcript_input \<Rightarrow> refusal + transcript" where
  "route_transcript s t inp =
     (case buildMeetingTranscript s (inp\<lparr> ti_token_space_id := Some (tc_space_id t), ti_capabilities := tc_capabilities t \<rparr>) of
        None \<Rightarrow> Inl (meetingDenial ''MEETING_NOT_FOUND'' ''No meeting on this session'' 404)
      | Some tr \<Rightarrow>
          if canReadMeetingTranscript (tc_space_id t) (tc_capabilities t) (map mr_space_id (tt_roster tr)) then Inr tr
          else Inl (meetingDenial ''SCOPE_ENFORCEMENT_FAILURE''
            ''Transcript requires a roster space or journal:read on a roster space'' 403))"

definition route_list :: "room \<Rightarrow> token_context \<Rightarrow> refusal + meeting_list_row list" where
  "route_list s t =
     (case require t ''space:read'' of
        Some e \<Rightarrow> Inl e
      | None \<Rightarrow> Inr (sortMeetingList (map toMeetingListRow
          (if token_admin t then listMeetings s
           else filter (\<lambda>m. meetingRosterTouchesSpace m (tc_space_id t)) (listMeetings s)))))"

end
