(* ===== verification/LiveProofs.thy ===== *)
theory LiveProofs
  imports LiveSeats
begin

text \<open>
  The live seats under any sequence of operations: what is sent to a seat, once, and what waits for it.
\<close>

datatype live_op =
    StartSeat start_live
  | Attach string string seat_controller
  | Bind string string live_principal
  | Notify pending_notify
  | Revoke string "string option"
  | Tick nat

fun live_step :: "live_op \<Rightarrow> live_state \<Rightarrow> live_state" where
  "live_step (StartSeat i) s = start_seat i s"
| "live_step (Attach ses p c) s = attachController ses p c s"
| "live_step (Bind ses p pr) s = bindPrincipal ses p pr s"
| "live_step (Notify n) s = notify_seat n s"
| "live_step (Revoke ses p) s = revoke_live ses p s"
| "live_step (Tick t) s = s\<lparr> lv_now := lv_now s + t \<rparr>"

text \<open>The messages the log says were sent to a seat, and what the seat has noted and what waits for it.\<close>

fun sent_to :: "string \<Rightarrow> seat_effect \<Rightarrow> string list" where
  "sent_to key (TerminalWritten k i m t) = (if k = key then [m] else [])"
| "sent_to key (PrincipalNotified k p n) = (if k = key then [pd_message_id n] else [])"
| "sent_to key (ProcessClosed i r) = []"

definition sent :: "string \<Rightarrow> seat_effect list \<Rightarrow> string list" where
  "sent key es = concat (map (sent_to key) es)"

definition noted :: "live_state \<Rightarrow> string \<Rightarrow> string set" where
  "noted s key = (case js_get (lv_seats s) key of None \<Rightarrow> {} | Some seat \<Rightarrow> set (se_notified seat))"

definition waiting :: "live_state \<Rightarrow> string \<Rightarrow> string set" where
  "waiting s key = pd_message_id ` set (opt_default [] (js_get (lv_pending s) key))"

definition seat_key :: "live_seat \<Rightarrow> string" where
  "seat_key seat = live_key (se_session_id seat) (se_participant_id seat)"

definition live_ok :: "live_state \<Rightarrow> bool" where
  "live_ok s \<longleftrightarrow> (\<forall>k seat. js_get (lv_seats s) k = Some seat \<longrightarrow> seat_key seat = k)"

lemma prefixed_twice [simp]: "prefixedSession (prefixedSession i) = prefixedSession i"
  by (simp add: prefixedSession_def with_prefix_def starts_with_def)

lemma live_key_prefixed [simp]: "live_key (prefixedSession ses) p = live_key ses p"
  by (simp add: live_key_def)

lemma sent_simps [simp]: "sent key [] = []" "sent key (e # es) = sent_to key e @ sent key es"
  "sent key (es @ fs) = sent key es @ sent key fs"
  by (simp_all add: sent_def)

section \<open>One delivery\<close>

lemma notified_fields [simp]:
  "seat_key (notified n seat) = seat_key seat" "set (se_notified (notified n seat)) = insert (pd_message_id n) (set (se_notified seat))"
  "se_controller (notified n seat) = se_controller seat" "se_principal (notified n seat) = se_principal seat"
  by (auto simp: notified_def seat_key_def set_add_def)

lemma try_deliver_Some:
  assumes "try_deliver seat n = Some (seat', e)"
  shows "seat' = notified n seat" "sent_to k e = (if k = seat_key seat then [pd_message_id n] else [])"
  using assms
  by (auto simp: try_deliver_def deliverToPty_def deliver_def seat_key_def split: option.splits if_splits)

lemma try_deliver_principal: "se_principal seat \<noteq> None \<Longrightarrow> try_deliver seat n \<noteq> None"
  by (auto simp: try_deliver_def split: option.splits)

text \<open>Flushing: what is sent was not noted, is noted after, and what was queued is noted or still waits.\<close>

lemma flush_rows_views:
  assumes "flush_rows seat ns = (x, es, l)"
  shows "seat_key x = seat_key seat \<and> se_principal x = se_principal seat \<and>
    set (se_notified x) = set (se_notified seat) \<union> set (sent (seat_key seat) es) \<and>
    distinct (sent (seat_key seat) es) \<and> set (sent (seat_key seat) es) \<inter> set (se_notified seat) = {} \<and>
    (\<forall>k. k \<noteq> seat_key seat \<longrightarrow> sent k es = []) \<and>
    pd_message_id ` set ns \<subseteq> set (se_notified x) \<union> pd_message_id ` set l \<and>
    (se_principal seat \<noteq> None \<longrightarrow> l = [])"
  using assms
proof (induction ns arbitrary: seat x es l)
  case (Cons n ns)
  show ?case
  proof (cases "pd_message_id n \<in> set (se_notified seat)")
    case True
    then show ?thesis using Cons.IH [of seat x es l] Cons.prems by auto
  next
    case False
    show ?thesis
    proof (cases "try_deliver seat n")
      case None
      then obtain l' where l: "flush_rows seat ns = (x, es, l')" "l = n # l'"
        using Cons.prems False by (auto split: prod.splits)
      show ?thesis using Cons.IH [OF l(1)] l(2) try_deliver_principal [of seat n] None by auto
    next
      case (Some r)
      obtain seat' e where r: "r = (seat', e)" by (cases r)
      obtain es' where f: "flush_rows seat' ns = (x, es', l)" "es = e # es'"
        using Cons.prems False Some r by (auto split: prod.splits)
      note t = try_deliver_Some [OF Some [unfolded r]]
      show ?thesis using Cons.IH [OF f(1)] f(2) t False by auto
    qed
  qed
qed simp

section \<open>The operations\<close>

definition at_key :: "string \<Rightarrow> live_op \<Rightarrow> bool" where
  "at_key key op = (case op of
     Revoke ses p \<Rightarrow> if truthy_str p then live_key ses (the p) = key else starts_with key (prefixedSession ses @ '':'')
   | _ \<Rightarrow> False)"

text \<open>
  One step from \<open>s\<close> to \<open>s'\<close>, as far as one seat is concerned: the log grows, what is sent to the
  seat was not noted and is noted after, nothing else is noted, and what waited is noted or waits.
\<close>

definition seat_step :: "string \<Rightarrow> live_state \<Rightarrow> live_state \<Rightarrow> bool" where
  "seat_step key s s' \<longleftrightarrow>
     (\<exists>es. lv_log s' = lv_log s @ es \<and> distinct (sent key es) \<and> set (sent key es) \<inter> noted s key = {} \<and>
        noted s' key = noted s key \<union> set (sent key es)) \<and>
     waiting s key \<subseteq> noted s' key \<union> waiting s' key"

lemma seat_step_same:
  "lv_log s' = lv_log s @ es \<Longrightarrow> sent key es = [] \<Longrightarrow> noted s' key = noted s key \<Longrightarrow> waiting s' key = waiting s key \<Longrightarrow>
    seat_step key s s'"
  unfolding seat_step_def by auto

lemma seat_step_refl [simp]: "seat_step key s s"
  by (rule seat_step_same [of _ _ "[]"]) simp_all

lemma put_seat_views [simp]:
  "js_get (lv_seats (put_seat seat s)) k = (if k = seat_key seat then Some seat else js_get (lv_seats s) k)"
  "lv_log (put_seat seat s) = lv_log s" "lv_pending (put_seat seat s) = lv_pending s"
  by (simp_all add: put_seat_def seat_key_def)

lemma live_ok_put: "live_ok s \<Longrightarrow> live_ok (put_seat seat s)"
  by (auto simp: live_ok_def)

text \<open>The seat \<open>seat'\<close> of the flush is the stored one with a process or a principal of its own.\<close>

lemma flush_step:
  assumes "js_get (lv_seats s) (seat_key seat) = Some old" "set (se_notified seat) = set (se_notified old)"
  shows "seat_step key s (flushPending seat s)" "live_ok s \<Longrightarrow> live_ok (flushPending seat s)"
    "se_principal seat \<noteq> None \<Longrightarrow> waiting (flushPending seat s) (seat_key seat) = {}"
proof -
  let ?ns = "opt_default [] (js_get (lv_pending s) (seat_key seat))"
  obtain x es l where f: "flush_rows seat ?ns = (x, es, l)" by (cases "flush_rows seat ?ns") auto
  note v = flush_rows_views [OF f]
  let ?t = "flushPending seat s"
  have log: "lv_log ?t = lv_log s @ es"
    and seats: "lv_seats ?t = lv_seats (put_seat x s)"
    and pend: "js_get (lv_pending ?t) k = (if k = seat_key seat then (if l = [] then None else Some l) else js_get (lv_pending s) k)" for k
    using f by (simp_all add: flushPending_def seat_key_def [symmetric] Let_def)
  show "seat_step key s ?t"
  proof (cases "key = seat_key seat")
    case True
    have "noted s key = set (se_notified seat)" "noted ?t key = set (se_notified x)"
      using True v assms seats by (simp_all add: noted_def)
    moreover have "waiting s key = pd_message_id ` set ?ns" "waiting ?t key = pd_message_id ` set l"
      using True pend by (simp_all add: waiting_def opt_default_def)
    ultimately show ?thesis using v log True unfolding seat_step_def by auto
  next
    case False
    then show ?thesis
      using v log seats pend by (intro seat_step_same [of _ _ es]) (simp_all add: noted_def waiting_def opt_default_def)
  qed
  show "live_ok s \<Longrightarrow> live_ok ?t" using seats v by (auto simp: live_ok_def)
  show "se_principal seat \<noteq> None \<Longrightarrow> waiting ?t (seat_key seat) = {}" using v pend by (simp add: waiting_def opt_default_def)
qed


lemma start_step: "seat_step key s (start_seat inp s)"
  by (rule seat_step_same [of _ _ "[]"])
     (auto simp: start_seat_def Let_def noted_def waiting_def seat_key_def getSeat_def split: option.splits)

lemma start_ok: "live_ok s \<Longrightarrow> live_ok (start_seat inp s)"
  unfolding start_seat_def Let_def by (rule live_ok_put)

lemma attach_step:
  assumes "live_ok s"
  shows "seat_step key s (attachController ses p c s)" "live_ok (attachController ses p c s)"
proof -
  have "seat_step key s (attachController ses p c s) \<and> live_ok (attachController ses p c s)"
  proof (cases "getSeat s ses p")
    case None
    then show ?thesis using assms
      by (auto simp: attachController_def live_log_def live_ok_def noted_def waiting_def
          intro!: seat_step_same [of _ _ "[ProcessClosed (sk_id c) ''assignment_not_live'']"])
  next
    case (Some seat)
    let ?seat = "seat\<lparr>se_controller := Some c\<rparr>"
    have "js_get (lv_seats s) (seat_key ?seat) = Some seat" "set (se_notified ?seat) = set (se_notified seat)"
      using Some assms by (simp_all add: getSeat_def live_ok_def seat_key_def)
    then show ?thesis using Some flush_step [of s ?seat seat] assms by (simp add: attachController_def)
  qed
  then show "seat_step key s (attachController ses p c s)" "live_ok (attachController ses p c s)" by blast+
qed

lemma bind_flushes:
  assumes "live_ok s" "getSeat s ses p = Some seat" "sameSpace (se_space_id seat) (Some (lp_space_id pr))"
  shows "seat_step key s (bindPrincipal ses p pr s)" "live_ok (bindPrincipal ses p pr s)"
    "waiting (bindPrincipal ses p pr s) (live_key ses p) = {}"
proof -
  let ?seat = "seat\<lparr>se_principal := Some pr, se_space_id := Some (lp_space_id pr)\<rparr>"
  have k: "seat_key ?seat = live_key ses p" "js_get (lv_seats s) (seat_key ?seat) = Some seat"
    "set (se_notified ?seat) = set (se_notified seat)"
    using assms(1,2) by (simp_all add: getSeat_def live_ok_def seat_key_def)
  show "seat_step key s (bindPrincipal ses p pr s)" "live_ok (bindPrincipal ses p pr s)"
    "waiting (bindPrincipal ses p pr s) (live_key ses p) = {}"
    using flush_step [OF k(2,3)] k(1) assms by (simp_all add: bindPrincipal_def)
qed

lemma bind_step:
  assumes "live_ok s"
  shows "seat_step key s (bindPrincipal ses p pr s)" "live_ok (bindPrincipal ses p pr s)"
proof -
  have "seat_step key s (bindPrincipal ses p pr s) \<and> live_ok (bindPrincipal ses p pr s)"
  proof (cases "\<exists>seat. getSeat s ses p = Some seat \<and> sameSpace (se_space_id seat) (Some (lp_space_id pr))")
    case True
    then show ?thesis using bind_flushes [OF assms] by blast
  next
    case False
    then have "bindPrincipal ses p pr s = s" by (auto simp: bindPrincipal_def split: option.splits)
    then show ?thesis using assms by simp
  qed
  then show "seat_step key s (bindPrincipal ses p pr s)" "live_ok (bindPrincipal ses p pr s)" by blast+
qed

lemma queue_up_views [simp]:
  "lv_log (queue_up k n s) = lv_log s" "lv_seats (queue_up k n s) = lv_seats s"
  "waiting (queue_up k n s) key = waiting s key \<union> (if key = k then {pd_message_id n} else {})"
  by (auto simp: queue_up_def Let_def waiting_def opt_default_def image_iff split: option.splits) metis

lemma queue_step:
  "live_ok s \<Longrightarrow> live_ok (queue_up k n s)"
  "seat_step key s (queue_up k n s)"
  by (auto simp: live_ok_def seat_step_def noted_def)

lemma queued_step:
  assumes "live_ok s"
  shows "seat_step key s (queue_up k n s) \<and> live_ok (queue_up k n s) \<and>
    pd_message_id n \<in> noted (queue_up k n s) k \<union> waiting (queue_up k n s) k"
  using queue_step assms by simp

lemma delivered_step:
  assumes "live_ok s" "js_get (lv_seats s) k = Some seat" "pd_message_id n \<notin> set (se_notified seat)"
    and "try_deliver seat n = Some (seat', e)" "t = live_log e (put_seat seat' s)"
  shows "seat_step key s t \<and> live_ok t \<and> pd_message_id n \<in> noted t k \<union> waiting t k"
proof -
  have k: "seat_key seat = k" using assms(1,2) by (simp add: live_ok_def)
  note t = try_deliver_Some [OF assms(4)]
  have log: "lv_log t = lv_log s @ [e]" and pend: "waiting t key = waiting s key"
    and seats: "\<And>i. js_get (lv_seats t) i = (if i = k then Some seat' else js_get (lv_seats s) i)"
    using t(1) k by (simp_all add: assms(5) live_log_def waiting_def)
  have noted: "noted t key = (if key = k then insert (pd_message_id n) (noted s key) else noted s key)"
    using t(1) assms(2) by (simp add: noted_def seats)
  have "sent key [e] = (if key = k then [pd_message_id n] else [])" using t(2) k by simp
  moreover have "key = k \<Longrightarrow> pd_message_id n \<notin> noted s key" using assms(2,3) by (simp add: noted_def)
  ultimately have "seat_step key s t" unfolding seat_step_def log pend noted by (intro conjI exI [of _ "[e]"]) auto
  moreover have "live_ok t" using assms(1) t(1) k by (simp add: live_ok_def seats)
  moreover have "pd_message_id n \<in> noted t k" using t(1) by (simp add: noted_def seats)
  ultimately show ?thesis by blast
qed

lemma notify_step:
  assumes "live_ok s" and k: "k = live_key (pd_session_id inp) (pd_participant_id inp)"
  shows "seat_step key s (notify_seat inp s) \<and> live_ok (notify_seat inp s) \<and>
    pd_message_id inp \<in> noted (notify_seat inp s) k \<union> waiting (notify_seat inp s) k"
proof -
  define n where "n = inp\<lparr> pd_session_id := prefixedSession (pd_session_id inp) \<rparr>"
  have id: "pd_message_id n = pd_message_id inp" and kn: "live_key (pd_session_id n) (pd_participant_id n) = k"
    by (simp_all add: n_def k)
  have eq: "notify_seat inp s =
     (case js_get (lv_seats s) k of
        None \<Rightarrow> queue_up k n s
      | Some seat \<Rightarrow> if pd_message_id n \<in> set (se_notified seat) then s
          else case try_deliver seat n of Some (seat', e) \<Rightarrow> live_log e (put_seat seat' s) | None \<Rightarrow> queue_up k n s)"
    unfolding notify_seat_def Let_def n_def [symmetric] kn by (rule refl)
  show ?thesis
  proof (cases "js_get (lv_seats s) k")
    case None
    then show ?thesis using queued_step [OF assms(1), of key k n] id eq by simp
  next
    case (Some seat)
    show ?thesis
    proof (cases "pd_message_id n \<in> set (se_notified seat)")
      case True
      then have "notify_seat inp s = s" "pd_message_id inp \<in> noted s k" using Some eq id by (simp_all add: noted_def)
      then show ?thesis using assms(1) by simp
    next
      case False
      show ?thesis
      proof (cases "try_deliver seat n")
        case None
        then show ?thesis using Some False queued_step [OF assms(1), of key k n] id eq by simp
      next
        case (Some r)
        then show ?thesis
          using delivered_step [OF assms(1) \<open>js_get (lv_seats s) k = Some seat\<close> False, of "fst r" "snd r" _ key]
            \<open>js_get (lv_seats s) k = Some seat\<close> False eq id by (simp add: case_prod_beta)
      qed
    qed
  qed
qed

lemma give_up_views:
  "js_get (lv_seats (give_up k s)) k' = (if k' = k then None else js_get (lv_seats s) k')"
  "js_get (lv_pending (give_up k s)) k' = (if k' = k then None else js_get (lv_pending s) k')"
  "\<exists>es. lv_log (give_up k s) = lv_log s @ es \<and> sent key es = []"
  by (auto simp: give_up_def Let_def closing_def split: option.splits)

lemma give_up_step:
  assumes "key \<noteq> k"
  shows "seat_step key s (give_up k s)"
proof -
  obtain es where "lv_log (give_up k s) = lv_log s @ es" "sent key es = []" using give_up_views(3) by blast
  then show ?thesis using assms by (intro seat_step_same [of _ _ es]) (simp_all add: noted_def waiting_def give_up_views)
qed

lemma give_up_ok: "live_ok s \<Longrightarrow> live_ok (give_up k s)"
  by (simp add: live_ok_def give_up_views)

lemma seat_step_trans:
  assumes "seat_step key s t" "seat_step key t u"
  shows "seat_step key s u"
proof -
  obtain es fs where log: "lv_log t = lv_log s @ es" "lv_log u = lv_log t @ fs"
    and d: "distinct (sent key es)" "distinct (sent key fs)" "set (sent key es) \<inter> noted s key = {}"
      "set (sent key fs) \<inter> noted t key = {}"
    and n: "noted t key = noted s key \<union> set (sent key es)" "noted u key = noted t key \<union> set (sent key fs)"
      "waiting s key \<subseteq> noted t key \<union> waiting t key" "waiting t key \<subseteq> noted u key \<union> waiting u key"
    using assms unfolding seat_step_def by blast
  then have "distinct (sent key (es @ fs))" "set (sent key (es @ fs)) \<inter> noted s key = {}"
    "noted u key = noted s key \<union> set (sent key (es @ fs))" "lv_log u = lv_log s @ (es @ fs)" by auto
  moreover have "waiting s key \<subseteq> noted u key \<union> waiting u key" using n by auto
  ultimately show ?thesis unfolding seat_step_def by blast
qed

lemma give_up_all: "key \<notin> set ks \<Longrightarrow> seat_step key s (fold give_up ks s)"
  by (induction ks arbitrary: s) (auto intro: seat_step_trans give_up_step)

lemma give_up_all_ok: "live_ok s \<Longrightarrow> live_ok (fold give_up ks s)"
  by (induction ks arbitrary: s) (auto intro: give_up_ok)

lemma live_step_ok: "live_ok s \<Longrightarrow> live_ok (live_step op s)"
  by (cases op) (auto simp: start_ok attach_step bind_step notify_step [OF _ refl] revoke_live_def give_up_ok give_up_all_ok,
      simp add: live_ok_def)

lemma live_step_seat: "live_ok s \<Longrightarrow> \<not> at_key key op \<Longrightarrow> seat_step key s (live_step op s)"
proof (cases op)
  case (Revoke ses p)
  assume "\<not> at_key key op"
  then show ?thesis unfolding Revoke live_step.simps revoke_live_def
    by (auto simp: at_key_def Revoke intro!: give_up_all give_up_step)
next
  case (Tick t)
  then show ?thesis by (auto intro!: seat_step_same [of _ _ "[]"] simp: noted_def waiting_def)
qed (auto simp: start_step attach_step bind_step notify_step [OF _ refl])

interpretation live: invariant_system live_step live_ok
  by unfold_locales (rule live_step_ok)

lemma live_run_seat:
  "live_ok s \<Longrightarrow> \<forall>op \<in> set ops. \<not> at_key key op \<Longrightarrow> seat_step key s (fold live_step ops s)"
proof (induction ops arbitrary: s)
  case (Cons op ops)
  then have "seat_step key s (live_step op s)" by (intro live_step_seat) simp_all
  moreover have "seat_step key (live_step op s) (fold live_step ops (live_step op s))"
    using Cons.prems by (intro Cons.IH live_step_ok) simp_all
  ultimately show ?case using seat_step_trans by simp
qed simp

end
