(* ===== verification/Outcomes.thy ===== *)
theory Outcomes
  imports StepOpen ParseManifest
begin

text \<open>
  Frames of operations that may throw: what an operation of several parts keeps, part by part.
\<close>

lemma run_after:
  "result (after m f) s = (case result m s of Done v \<Rightarrow> result (f v) (final m s) | Raised e \<Rightarrow> Raised e | OutOfFuel \<Rightarrow> OutOfFuel)"
  "final (after m f) s = (case result m s of Done v \<Rightarrow> final (f v) (final m s) | _ \<Rightarrow> final m s)"
  by (simp_all add: after_def result_def final_def split: prod.splits outcome.splits)

lemma result_simps [simp]:
  "result (State_Monad.return x) s = x" "result (ask f) s = f s" "result (act g) s = ()" "result skip s = ()"
  by (simp_all add: result_def)

lemma keeps_after [keeps_intros]: "keeps I m \<Longrightarrow> (\<And>v. keeps I (f v)) \<Longrightarrow> keeps I (after m f)"
  by (simp add: keeps_def run_after split: outcome.splits)

lemma keeps_outcome [keeps_intros]:
  "(\<And>v. keeps I (f v)) \<Longrightarrow> (\<And>e. keeps I (g e)) \<Longrightarrow> keeps I h \<Longrightarrow>
    keeps I (case x of Done v \<Rightarrow> f v | Raised e \<Rightarrow> g e | OutOfFuel \<Rightarrow> h)"
  by (simp split: outcome.splits)

lemma keeps_sum [keeps_intros]:
  "(\<And>v. keeps I (f v)) \<Longrightarrow> (\<And>e. keeps I (g e)) \<Longrightarrow> keeps I (case x of Inl v \<Rightarrow> f v | Inr e \<Rightarrow> g e)"
  by (simp split: sum.splits)

lemma keeps_prod [keeps_intros]: "(\<And>a b. keeps I (f a b)) \<Longrightarrow> keeps I (case x of (a, b) \<Rightarrow> f a b)"
  by (simp split: prod.splits)

lemma keeps_reply [keeps_intros]:
  "(\<And>x. keeps I (f x)) \<Longrightarrow> (\<And>c e. keeps I (g c e)) \<Longrightarrow> (\<And>e. keeps I (h e)) \<Longrightarrow> keeps I m \<Longrightarrow>
    keeps I (case x of Reply x \<Rightarrow> f x | Refused c e \<Rightarrow> g c e | AtCapacity e \<Rightarrow> h e | Threw \<Rightarrow> m)"
  by (cases x) simp_all

lemma keeps_parse [keeps_intros]:
  "(\<And>x. keeps I (f x)) \<Longrightarrow> (\<And>c e. keeps I (g c e)) \<Longrightarrow>
    keeps I (case x of ParseOk x \<Rightarrow> f x | ParseError c e \<Rightarrow> g c e)"
  by (cases x) simp_all

end
