(* ===== verification/MeetingProofs.thy ===== *)
theory MeetingProofs
  imports EmitEvents LiveProofs Outcomes
begin

text \<open>
  The journal of a meeting and its snapshot under every operation of a room: the snapshot is the fold of
  the journal, entries are numbered per session, and nothing else writes them.
\<close>

section \<open>Frames\<close>

lemma keeps_answer [keeps_intros]:
  "(\<And>http pr. keeps I (f http pr)) \<Longrightarrow> (\<And>e. keeps I (g e)) \<Longrightarrow>
    keeps I (case x of Answered http pr \<Rightarrow> f http pr | ActionThrew e \<Rightarrow> g e)"
  by (simp split: action_answer.splits)

lemma keeps_target [keeps_intros]:
  "keeps I m \<Longrightarrow> (\<And>ses. keeps I (a ses)) \<Longrightarrow> (\<And>ses r. keeps I (n ses r)) \<Longrightarrow> (\<And>c e. keeps I (h c e)) \<Longrightarrow>
    keeps I (case x of CreateSession \<Rightarrow> m | AttachTo ses \<Rightarrow> a ses | NotifyLive ses r \<Rightarrow> n ses r | TargetDenied c e \<Rightarrow> h c e)"
  by (cases x) simp_all

lemma keeps_hook_row [keeps_intros]:
  "(\<And>h. keeps I (f h)) \<Longrightarrow> (\<And>n h. keeps I (g n h)) \<Longrightarrow> keeps I m \<Longrightarrow>
    keeps I (case x of HandlerRow h \<Rightarrow> f h | HookRow n h \<Rightarrow> g n h | OtherRow \<Rightarrow> m)"
  by (cases x) simp_all

text \<open>What an operation leaves alone of a room: the journal index, the snapshots and the numbering.\<close>

definition rooms_of :: "room \<Rightarrow> journal_row list \<times> (string, meeting_row) jsmap \<times> (string, nat) jsmap" where
  "rooms_of s = (rm_index s, rm_meetings s, rm_meeting_seq s)"

definition about_rooms :: "(room \<Rightarrow> bool) \<Rightarrow> bool" where
  "about_rooms I \<longleftrightarrow> (\<forall>s t. rooms_of s = rooms_of t \<longrightarrow> I s = I t)"

lemma final_on_hub: "final (on_hub m) s = s\<lparr> rm_hub := final m (rm_hub s) \<rparr>"
  and result_on_hub: "result (on_hub m) s = result m (rm_hub s)"
  by (simp_all add: on_hub_def final_def result_def split: prod.splits)

lemma keeps_rooms: "about_rooms I \<Longrightarrow> (\<And>s. rooms_of (final m s) = rooms_of s) \<Longrightarrow> keeps I m"
  unfolding keeps_def about_rooms_def by metis

lemma keeps_on_hub [keeps_intros]: "about_rooms I \<Longrightarrow> keeps I (on_hub m)"
  by (erule keeps_rooms) (simp add: final_on_hub rooms_of_def)

lemma keeps_on_live [keeps_intros]: "about_rooms I \<Longrightarrow> keeps I (on_live f)"
  by (erule keeps_rooms) (simp add: on_live_def rooms_of_def)

lemma keeps_ask_studio [keeps_intros]: "keeps I (ask_studio f)"
  by (simp add: ask_studio_def keeps_intros)

lemma keeps_room_invoke [keeps_intros]: "about_rooms I \<Longrightarrow> keeps I (invoke_action d call)"
  by (erule keeps_rooms) (simp add: invoke_action_def rooms_of_def final_bind)

lemma keeps_readers [keeps_intros]: "about_rooms I \<Longrightarrow> keeps I (expandArtifactReaders m a)"
proof -
  have "rooms_of (fold (\<lambda>i. updateArtifactAuthorizedReaders i r) xs s) = rooms_of s" for r xs s
    by (induction xs arbitrary: s) (simp_all add: updateArtifactAuthorizedReaders_def rooms_of_def)
  then show "about_rooms I \<Longrightarrow> keeps I (expandArtifactReaders m a)"
    by (elim keeps_rooms) (simp add: expandArtifactReaders_def)
qed

section \<open>Entries of the journal\<close>

text \<open>Ids of sessions the hub makes: no underscore after the prefix.\<close>

definition plain :: "string \<Rightarrow> bool" where
  "plain b \<longleftrightarrow> b \<noteq> [] \<and> CHR ''_'' \<notin> set b"

definition sid_ok :: "string \<Rightarrow> bool" where
  "sid_ok ses \<longleftrightarrow> plain (bareSessionId ses)"

lemma sid_ok_not_Nil: "sid_ok ses \<Longrightarrow> ses \<noteq> []"
  by (auto simp: sid_ok_def plain_def bareSessionId_def bare_with_def starts_with_def)

lemma bare_plain: "CHR ''_'' \<notin> set b \<Longrightarrow> bareSessionId b = b"
  by (auto simp: bareSessionId_def bare_with_def starts_with_def) (metis in_set_takeD list.set_intros(1) list.set_intros(2))

lemma sid_strip: "sid_ok ses \<Longrightarrow> stripPrefix ses = bareSessionId ses"
proof (cases "starts_with ses ''ses_''")
  case True
  then obtain b where "ses = ''ses_'' @ b" unfolding starts_with_def by (metis append_take_drop_id)
  then show ?thesis by (simp add: stripPrefix_def bareSessionId_def bare_with_def starts_with_def)
next
  case False
  assume "sid_ok ses"
  then show ?thesis using False by (simp add: sid_ok_def plain_def stripPrefix_def bareSessionId_def bare_with_def)
qed

definition entry_row :: "journal_call \<Rightarrow> string \<Rightarrow> room \<Rightarrow> journal_row" where
  "entry_row c i s = (let payload = buildSpaceJournalEnvelope c i (hb_now (rm_hub s)) in
     \<lparr> ji_entry_id = i, ji_seq = Suc (length (hb_journal (rm_hub s))), ji_space_id = stripPrefix (jc_space_id c),
       ji_type = jc_type c,
       ji_subject = (case prop_of payload ''subject'' of JStr x \<Rightarrow> Some x
         | _ \<Rightarrow> deriveJournalSubject (jc_session_id c) (jc_run_id c)),
       ji_session_id = (if truthy_str (jc_session_id c) then map_option stripPrefix (jc_session_id c) else None),
       ji_run_id = (if truthy_str (jc_run_id c) then map_option stripPrefix (jc_run_id c) else None),
       ji_actor_id = jc_actor_id c, ji_time = hb_now (rm_hub s), ji_payload = wire_obj payload, ji_meeting_seq = None \<rparr>)"

definition fits_inline :: "journal_call \<Rightarrow> string \<Rightarrow> room \<Rightarrow> bool" where
  "fits_inline c i s \<longleftrightarrow> inline_fits (buildSpaceJournalEnvelope c i (hb_now (rm_hub s)))"

text \<open>The room after an entry, and an entry that is too large.\<close>

definition with_entry :: "journal_call \<Rightarrow> string \<Rightarrow> room \<Rightarrow> room" where
  "with_entry c i s = s\<lparr> rm_hub := (rm_hub s)\<lparr> hb_journal := hb_journal (rm_hub s) @ [c] \<rparr>,
     rm_index := rm_index s @ [entry_row c i s] \<rparr>"

lemma append_entry_run:
  "run_state (append_entry c i) s =
     (if fits_inline c i s then (Done (Suc (length (hb_journal (rm_hub s)))), with_entry c i s)
      else (Raised (inline_exceeded (buildSpaceJournalEnvelope c i (hb_now (rm_hub s)))), s))"
  by (simp add: append_entry_def fits_inline_def with_entry_def entry_row_def append_journal_def on_hub_def
      insertJournalIndex_def Let_def)

lemma append_entry_views:
  "result (append_entry c i) s = (if fits_inline c i s then Done (Suc (length (hb_journal (rm_hub s))))
     else Raised (inline_exceeded (buildSpaceJournalEnvelope c i (hb_now (rm_hub s)))))"
  "final (append_entry c i) s = (if fits_inline c i s then with_entry c i s else s)"
  by (simp_all add: result_def final_def append_entry_run)

text \<open>The same as a program: it waits for the room before it builds the envelope.\<close>

definition append_run :: "journal_call \<Rightarrow> string \<Rightarrow> room \<Rightarrow> nat outcome \<times> room" where
  "append_run c i s = (if fits_inline c i s then (Done (Suc (length (hb_journal (rm_hub s)))), with_entry c i s)
     else (Raised (inline_exceeded (buildSpaceJournalEnvelope c i (hb_now (rm_hub s)))), s))"

lemma append_run_code [code]:
  "append_run c i (room_ext h ix m ms r l a x) = (let s = room_ext h ix m ms r l a x in
     if fits_inline c i s then (Done (Suc (length (hb_journal (rm_hub s)))), with_entry c i s)
     else (Raised (inline_exceeded (buildSpaceJournalEnvelope c i (hb_now (rm_hub s)))), s))"
  by (simp add: append_run_def Let_def)

lemma append_entry_code [code]: "append_entry c i = State (append_run c i)"
  by (rule state.expand) (simp add: fun_eq_iff append_entry_run append_run_def)

section \<open>Rows of a session\<close>

text \<open>The entries that say who is in a meeting and whether it is open.\<close>

definition status_type :: "string \<Rightarrow> bool" where
  "status_type t \<longleftrightarrow> t = ''mrmr.meeting.convened'' \<or> t = ''mrmr.meeting.closed'' \<or> t = ''mrmr.meeting.resumed''"

definition row_of :: "string \<Rightarrow> journal_row \<Rightarrow> bool" where
  "row_of b r \<longleftrightarrow> ji_session_id r = Some b \<and> ji_meeting_seq r \<noteq> None \<and> status_type (ji_type r)"

definition rows_of :: "room \<Rightarrow> string \<Rightarrow> journal_row list" where
  "rows_of s b = sort_key (\<lambda>r. opt_default 0 (ji_meeting_seq r)) (filter (row_of b) (rm_index s))"

lemma status_meeting_rows: "filter (\<lambda>r. status_type (ji_type r)) (meeting_rows s i) = rows_of s (bareSessionId i)"
  unfolding meeting_rows_def queryMeetingJournal_def rows_of_def filter_sort filter_filter row_of_def
  by (rule arg_cong [of _ _ "sort_key _"], rule filter_cong [OF refl]) (auto simp: MEETING_TYPES_def status_type_def)

definition numbered :: "room \<Rightarrow> bool" where
  "numbered s \<longleftrightarrow> (\<forall>r \<in> set (rm_index s). \<forall>n b. ji_meeting_seq r = Some n \<and> row_of b r \<longrightarrow>
     n \<le> opt_default 0 (js_get (rm_meeting_seq s) b))"

text \<open>A row with the next number of its session is the last.\<close>

lemma insort_snoc: "f a \<le> f x \<Longrightarrow> insort_key f a (ys @ [x]) = insort_key f a ys @ [x]"
  by (induction ys) auto

lemma sort_key_snoc: "\<forall>y \<in> set xs. f y \<le> f x \<Longrightarrow> sort_key f (xs @ [x]) = sort_key f xs @ [x]"
  by (induction xs) (simp_all add: insort_snoc)

definition entry_ids :: "room \<Rightarrow> string list" where
  "entry_ids s = map ji_entry_id (rm_index s)"

lemma set_seq_ids [simp]: "map ji_entry_id (set_seq i n rs) = map ji_entry_id rs"
  by (induction rs) auto

lemma set_seq_last: "i \<notin> ji_entry_id ` set rs \<Longrightarrow> ji_entry_id r = i \<Longrightarrow>
    set_seq i n (rs @ [r]) = rs @ [r\<lparr> ji_meeting_seq := Some n \<rparr>]"
  by (induction rs) auto

text \<open>The room after \<open>allocateMeetingSeq\<close>, and after the numbered entry.\<close>

definition next_seq :: "string \<Rightarrow> room \<Rightarrow> nat" where
  "next_seq ses s = Suc (opt_default 0 (js_get (rm_meeting_seq s) (bareSessionId ses)))"

definition counted :: "string \<Rightarrow> room \<Rightarrow> room" where
  "counted ses s = s\<lparr> rm_meeting_seq := js_set (bareSessionId ses) (next_seq ses s) (rm_meeting_seq s) \<rparr>"

definition numbered_row :: "journal_call \<Rightarrow> string \<Rightarrow> string \<Rightarrow> room \<Rightarrow> journal_row" where
  "numbered_row c i ses s = (entry_row c i s)\<lparr> ji_meeting_seq := Some (next_seq ses s) \<rparr>"

text \<open>
  Every run of \<open>appendMeetingEvent\<close>: the number is allocated; then the entry is refused, or it is the
  last row, under an id that is either given or new.
\<close>

lemma appendMeetingEvent_cases:
  assumes "jc_session_id c = Some ses" "distinct (entry_ids (final (appendMeetingEvent d c eid) s))"
  obtains (refused) m s1 where "result (appendMeetingEvent d c eid) s = Raised m" "rm_index s1 = rm_index s"
      "rm_meetings s1 = rm_meetings s" "final (appendMeetingEvent d c eid) s = counted ses s1"
      "rm_meeting_seq s1 = rm_meeting_seq s"
  | (entered) i s1 where "result (appendMeetingEvent d c eid) s =
        Done \<lparr> en_seq = Suc (length (hb_journal (rm_hub s1))), en_entry_id = i, en_meeting_seq = next_seq ses s \<rparr>"
      "rm_hub (final (appendMeetingEvent d c eid) s) = (rm_hub s1)\<lparr> hb_journal := hb_journal (rm_hub s1) @ [c] \<rparr>"
      "rm_index (final (appendMeetingEvent d c eid) s) = rm_index s @ [numbered_row c i ses s1]"
      "rm_meetings (final (appendMeetingEvent d c eid) s) = rm_meetings s"
      "rm_meeting_seq (final (appendMeetingEvent d c eid) s) = js_set (bareSessionId ses) (next_seq ses s) (rm_meeting_seq s)"
      "next_seq ses s1 = next_seq ses s" "hb_studio (rm_hub s1) = hb_studio (rm_hub s)"
      "rm_live (final (appendMeetingEvent d c eid) s) = rm_live s"
      "hb_journal (rm_hub s1) = hb_journal (rm_hub s)" "hb_now (rm_hub s1) = hb_now (rm_hub s)"
proof -
  obtain i h where ih: "(case eid of Some i \<Rightarrow> (i, rm_hub s)
      | None \<Rightarrow> (''evt_'' @ rd_ulid d (hb_next_id (rm_hub s)), (rm_hub s)\<lparr> hb_next_id := Suc (hb_next_id (rm_hub s)) \<rparr>)) = (i, h)"
    by (metis surj_pair)
  define s0 where "s0 = (counted ses s)\<lparr> rm_hub := h \<rparr>"
  define s1 where "s1 = s\<lparr> rm_hub := h \<rparr>"
  have h: "hb_studio h = hb_studio (rm_hub s)" "hb_journal h = hb_journal (rm_hub s)" "hb_now h = hb_now (rm_hub s)"
    using ih by (auto split: option.splits)
  have run: "run_state (appendMeetingEvent d c eid) s =
     (case run_state (append_entry c i) s0 of
        (Done q, t) \<Rightarrow> (Done \<lparr> en_seq = q, en_entry_id = i, en_meeting_seq = next_seq ses s \<rparr>,
           setJournalIndexMeetingSeq i (next_seq ses s) t)
      | (Raised m, t) \<Rightarrow> (Raised m, t) | (OutOfFuel, t) \<Rightarrow> (OutOfFuel, t))"
    using ih assms(1)
    by (auto simp: appendMeetingEvent_def allocateMeetingSeq_def after_def s0_def counted_def next_seq_def Let_def
        ulid_def on_hub_def opt_default_def split: option.splits outcome.splits prod.splits)
  have row: "entry_row c i s0 = entry_row c i s1"
    by (simp add: entry_row_def s0_def s1_def)
  show thesis
  proof (cases "fits_inline c i s0")
    case False
    then show thesis using run by (intro refused [of _ s1]) (simp_all add: append_entry_run result_def final_def s0_def s1_def counted_def next_seq_def)
  next
    case True
    have e: "rm_index s0 = rm_index s" "rm_meetings s0 = rm_meetings s" "rm_hub s0 = h" "rm_live s0 = rm_live s"
      "rm_meeting_seq s0 = js_set (bareSessionId ses) (next_seq ses s) (rm_meeting_seq s)"
      by (simp_all add: s0_def counted_def)
    have fin: "final (appendMeetingEvent d c eid) s = setJournalIndexMeetingSeq i (next_seq ses s) (with_entry c i s0)"
      and res: "result (appendMeetingEvent d c eid) s =
        Done \<lparr> en_seq = Suc (length (hb_journal h)), en_entry_id = i, en_meeting_seq = next_seq ses s \<rparr>"
      using True run e by (simp_all add: append_entry_run final_def result_def)
    have ids: "ji_entry_id (entry_row c i s1) = i" by (simp add: entry_row_def Let_def)
    have "i \<notin> ji_entry_id ` set (rm_index s)"
      using assms(2) unfolding fin entry_ids_def
      by (simp add: setJournalIndexMeetingSeq_def with_entry_def e row ids)
    then have idx: "rm_index (final (appendMeetingEvent d c eid) s) = rm_index s @ [numbered_row c i ses s1]"
      unfolding fin
      using set_seq_last [where rs = "rm_index s" and n = "next_seq ses s", OF _ ids]
      by (simp add: setJournalIndexMeetingSeq_def with_entry_def e row numbered_row_def next_seq_def s1_def)
    show thesis
      by (rule entered [of s1 i])
         (use res fin idx e h in \<open>simp_all add: s1_def setJournalIndexMeetingSeq_def with_entry_def next_seq_def\<close>)
  qed
qed

section \<open>The snapshot is the fold of the journal\<close>

definition view_of :: "room \<Rightarrow> string \<Rightarrow> meeting_view" where
  "view_of s b = journal_view (rows_of s b)"

definition convened_in :: "room \<Rightarrow> string \<Rightarrow> bool" where
  "convened_in s b \<longleftrightarrow> list_ex (\<lambda>r. ji_type r = ''mrmr.meeting.convened'') (rows_of s b)"

definition agrees :: "room \<Rightarrow> string \<Rightarrow> bool" where
  "agrees s b \<longleftrightarrow>
     (case js_get (rm_meetings s) b of
        None \<Rightarrow> rows_of s b = []
      | Some m \<Rightarrow> mt_session_id m = b \<and> plain b \<and> convened_in s b \<and> view_of s b = snapshot_view m)"

definition room_ok :: "room \<Rightarrow> bool" where
  "room_ok s \<longleftrightarrow> numbered s \<and> (\<forall>b. agrees s b)"

text \<open>The invariant, as long as no two entries have the same id.\<close>

definition good :: "room \<Rightarrow> bool" where
  "good s \<longleftrightarrow> (distinct (entry_ids s) \<longrightarrow> room_ok s)"

lemma about_good [keeps_intros]: "about_rooms good"
  unfolding about_rooms_def
proof (intro allI impI)
  fix s t assume "rooms_of s = rooms_of t"
  then have e: "rm_index s = rm_index t" "rm_meetings s = rm_meetings t" "rm_meeting_seq s = rm_meeting_seq t"
    by (simp_all add: rooms_of_def)
  show "good s = good t"
    unfolding good_def room_ok_def agrees_def numbered_def entry_ids_def view_of_def convened_in_def rows_of_def e ..
qed

lemma journal_view_snoc [simp]: "journal_view (rs @ [r]) = view_row r (journal_view rs)"
  by (simp add: journal_view_def)

lemma view_row_other: "\<not> status_type (ji_type r) \<Longrightarrow> view_row r v = v"
  by (simp add: view_row_def status_type_def Let_def)

text \<open>Rows of the session after one more row.\<close>

lemma rows_of_snoc:
  assumes "rm_index t = rm_index s @ [r]" "numbered s"
    and "row_of b r \<Longrightarrow> opt_default 0 (js_get (rm_meeting_seq s) b) \<le> opt_default 0 (ji_meeting_seq r)"
  shows "rows_of t b = (if row_of b r then rows_of s b @ [r] else rows_of s b)"
proof -
  have "\<forall>y \<in> set (filter (row_of b) (rm_index s)). opt_default 0 (ji_meeting_seq y) \<le> opt_default 0 (ji_meeting_seq r)" if "row_of b r"
  proof
    fix y assume "y \<in> set (filter (row_of b) (rm_index s))"
    then have y: "y \<in> set (rm_index s)" "row_of b y" "ji_meeting_seq y \<noteq> None" by (auto simp: row_of_def)
    then have "opt_default 0 (ji_meeting_seq y) \<le> opt_default 0 (js_get (rm_meeting_seq s) b)"
      using assms(2) unfolding numbered_def by (auto simp: opt_default_def split: option.splits)
    then show "opt_default 0 (ji_meeting_seq y) \<le> opt_default 0 (ji_meeting_seq r)" using assms(3) that by linarith
  qed
  then show ?thesis using assms(1) by (simp add: rows_of_def sort_key_snoc)
qed

lemma agrees_same:
  assumes "rows_of t = rows_of s" "rm_meetings t = rm_meetings s"
  shows "agrees t = agrees s"
proof (rule ext)
  show "agrees t b = agrees s b" for b
    unfolding agrees_def view_of_def convened_in_def assms ..
qed

lemma keeps_append_entry [keeps_intros]: "keeps good (append_entry c i)"
proof (rule keepsI)
  fix s assume g: "good s"
  show "good (final (append_entry c i) s)"
  proof (cases "fits_inline c i s")
    case True
    let ?t = "with_entry c i s"
    have "room_ok ?t" if "distinct (entry_ids ?t)"
    proof -
      have ok: "room_ok s" using g that by (auto simp: good_def entry_ids_def with_entry_def)
      have r: "\<not> row_of b (entry_row c i s)" for b by (simp add: row_of_def entry_row_def Let_def)
      have "agrees ?t = agrees s"
        by (rule agrees_same) (rule ext, simp_all add: rows_of_def with_entry_def r)
      moreover have "numbered ?t"
        using ok r by (auto simp: room_ok_def numbered_def with_entry_def)
      ultimately show ?thesis using ok by (simp add: room_ok_def)
    qed
    then show ?thesis using True by (simp add: append_entry_views good_def)
  next
    case False
    then show ?thesis using g by (simp add: append_entry_views)
  qed
qed

lemma good_append_space [keeps_intros]: "keeps good (append_space_journal d c)"
  unfolding append_space_journal_def by (intro keeps_intros)

section \<open>Numbered entries\<close>

text \<open>Counting up keeps the numbers below the counters.\<close>

lemma numbered_more:
  assumes "numbered s" "\<forall>r b. r \<in> set (rm_index t) \<and> row_of b r \<longrightarrow> r \<in> set (rm_index s)"
    "rm_meeting_seq t = js_set (bareSessionId ses) (next_seq ses s) (rm_meeting_seq s)"
  shows "numbered t"
  unfolding numbered_def
proof (intro ballI allI impI)
  fix r n b assume "r \<in> set (rm_index t)" "ji_meeting_seq r = Some n \<and> row_of b r"
  then have "n \<le> opt_default 0 (js_get (rm_meeting_seq s) b)"
    using assms(1,2) by (auto simp: numbered_def)
  then show "n \<le> opt_default 0 (js_get (rm_meeting_seq t) b)"
    unfolding assms(3) by (auto simp: next_seq_def opt_default_def split: option.splits)
qed

lemma counted_ok: "room_ok s \<Longrightarrow> room_ok (counted ses s)"
proof -
  assume ok: "room_ok s"
  have "numbered (counted ses s)"
    by (rule numbered_more [of s]) (use ok in \<open>simp_all add: room_ok_def counted_def\<close>)
  moreover have "agrees (counted ses s) = agrees s"
    by (rule agrees_same) (rule ext, simp_all add: rows_of_def counted_def)
  ultimately show ?thesis using ok by (simp add: room_ok_def)
qed

lemma entry_ids_counted: "entry_ids (counted ses s) = entry_ids s"
  by (simp add: entry_ids_def counted_def)

lemma good_counted: "good s1 \<Longrightarrow> good (counted ses s1)"
  unfolding good_def entry_ids_counted using counted_ok [of s1 ses] by blast

lemma good_rooms: "rooms_of s = rooms_of t \<Longrightarrow> good s = good t"
  using about_good unfolding about_rooms_def by blast

lemma good_refused:
  assumes "good s" "jc_session_id c = Some ses" "\<And>e. result (appendMeetingEvent d c eid) s \<noteq> Done e"
  shows "good (final (appendMeetingEvent d c eid) s)"
proof (cases "distinct (entry_ids (final (appendMeetingEvent d c eid) s))")
  case True
  with assms(2) show ?thesis
  proof (cases rule: appendMeetingEvent_cases)
    case (refused m s1)
    have "rooms_of s1 = rooms_of s" using refused by (simp add: rooms_of_def)
    then show ?thesis unfolding refused(4) using good_counted good_rooms assms(1) by blast
  qed (use assms(3) in blast)
qed (simp add: good_def)

lemma numbered_row_type: "ji_type (numbered_row c i ses s) = jc_type c"
  by (simp add: numbered_row_def entry_row_def Let_def)

text \<open>An entry of another type than the three keeps the invariant, whatever session it names.\<close>

lemma keeps_appendMeetingEvent [keeps_intros]:
  assumes "jc_session_id c = Some ses" "\<not> status_type (jc_type c)"
  shows "keeps good (appendMeetingEvent d c eid)"
proof (rule keepsI)
  fix s assume g: "good s"
  let ?t = "final (appendMeetingEvent d c eid) s"
  have "room_ok ?t" if d: "distinct (entry_ids ?t)"
    using assms(1) d
  proof (cases rule: appendMeetingEvent_cases)
    case (refused m s1)
    have "rooms_of s1 = rooms_of s" using refused by (simp add: rooms_of_def)
    then have "good ?t" unfolding refused(4) using good_counted good_rooms g by blast
    then show ?thesis using d by (simp add: good_def)
  next
    case (entered i s1)
    have ok: "room_ok s" using g d entered(3) by (simp add: good_def entry_ids_def)
    have r: "\<not> row_of b (numbered_row c i ses s1)" for b
      using assms(2) by (simp add: row_of_def numbered_row_type)
    have "agrees ?t = agrees s"
      by (rule agrees_same) (rule ext, simp_all add: rows_of_def entered(3,4) r)
    moreover have "numbered ?t"
      by (rule numbered_more [of s]) (use ok entered(3,5) r in \<open>auto simp: room_ok_def\<close>)
    ultimately show ?thesis using ok by (simp add: room_ok_def)
  qed
  then show "good ?t" by (simp add: good_def)
qed

text \<open>
  An entry of the three types together with the snapshot that is written after it: the invariant holds
  again when the snapshot is what the entry makes of the rows before.
\<close>

lemma good_entered:
  assumes "good s" "jc_session_id c = Some ses" "room_ok s \<Longrightarrow> sid_ok ses" "status_type (jc_type c)"
    and res: "result (appendMeetingEvent d c eid) s = Done e"
    and t: "rm_index t = rm_index (final (appendMeetingEvent d c eid) s)"
      "rm_meeting_seq t = rm_meeting_seq (final (appendMeetingEvent d c eid) s)"
      "room_ok s \<Longrightarrow> rm_meetings t = js_set (bareSessionId ses) (m\<lparr> mt_session_id := bareSessionId ses \<rparr>) (rm_meetings s)"
    and view: "\<And>i s1. room_ok s \<Longrightarrow> view_row (numbered_row c i ses s1) (view_of s (bareSessionId ses)) = snapshot_view m"
    and conv: "jc_type c = ''mrmr.meeting.convened'' \<or> (room_ok s \<longrightarrow> convened_in s (bareSessionId ses))"
  shows "good t"
proof -
  let ?b = "bareSessionId ses"
  have "room_ok t" if "distinct (entry_ids t)"
  proof -
    have d: "distinct (entry_ids (final (appendMeetingEvent d c eid) s))" using that by (simp add: entry_ids_def t)
    from assms(2) d show ?thesis
    proof (cases rule: appendMeetingEvent_cases)
      case (refused m s1)
      then show ?thesis using res by simp
    next
      case (entered i s1)
      let ?r = "numbered_row c i ses s1"
      have ok: "room_ok s" using assms(1) d entered(3) by (simp add: good_def entry_ids_def)
      then have n: "numbered s" and sid: "sid_ok ses" using assms(3) by (simp_all add: room_ok_def)
      have r: "ji_session_id ?r = Some ?b" "ji_meeting_seq ?r = Some (next_seq ses s)"
        using assms(2) sid_ok_not_Nil [OF sid] sid_strip [OF sid] entered(6)
        by (simp_all add: numbered_row_def entry_row_def Let_def truthy_str_def)
      have row: "row_of b ?r \<longleftrightarrow> b = ?b" for b
        using r assms(4) by (auto simp: row_of_def numbered_row_type)
      have rows: "rows_of t b = (if b = ?b then rows_of s b @ [?r] else rows_of s b)" for b
        unfolding row [symmetric]
        by (rule rows_of_snoc [OF _ n]) (use r row t(1) entered(3) in \<open>simp_all add: next_seq_def opt_default_def split: option.splits\<close>)
      have "numbered t"
        unfolding numbered_def
      proof (intro ballI allI impI)
        fix x k b' assume x: "x \<in> set (rm_index t)" "ji_meeting_seq x = Some k \<and> row_of b' x"
        show "k \<le> opt_default 0 (js_get (rm_meeting_seq t) b')"
        proof (cases "x = ?r")
          case True
          then show ?thesis using x(2) r row t(2) entered(5) by (simp add: opt_default_def)
        next
          case False
          then have "k \<le> opt_default 0 (js_get (rm_meeting_seq s) b')"
            using x n t(1) entered(3) by (simp add: numbered_def)
          then show ?thesis unfolding t(2) entered(5) by (auto simp: next_seq_def opt_default_def split: option.splits)
        qed
      qed
      moreover have "agrees t b" for b
      proof (cases "b = ?b")
        case True
        have "view_of t ?b = snapshot_view m"
          using view [OF ok] by (simp add: view_of_def rows)
        moreover have "convened_in t ?b"
          using conv ok by (auto simp: convened_in_def rows numbered_row_type)
        ultimately show ?thesis
          using True sid by (simp add: agrees_def t(3) [OF ok] sid_ok_def snapshot_view_def)
      next
        case False
        have "agrees s b" using ok by (simp add: room_ok_def)
        then show ?thesis
          using False unfolding agrees_def view_of_def convened_in_def rows t(3) [OF ok] by simp
      qed
      ultimately show ?thesis by (simp add: room_ok_def)
    qed
  qed
  then show ?thesis by (simp add: good_def)
qed

section \<open>Handlers and hooks keep the rooms\<close>

text \<open>
  An invariant of rooms that only entries about meetings can break: what hooks and handlers do keeps it,
  since they journal only deliveries and refused starts.
\<close>

lemma hook_entries [keeps_intros]:
  "\<not> is_meeting_type (jc_type (delivered_event dv i ses r key))" "\<not> is_meeting_type (jc_type (start_denied_event dv e err))"
  by (simp_all add: delivered_event_def start_denied_event_def is_meeting_type_def starts_with_def)

lemma keeps_gather [keeps_intros]: "(\<And>x. keeps I (f x)) \<Longrightarrow> keeps I (gather xs f)"
  by (induction xs) (simp_all add: keeps_intros)

lemma keeps_each_target [keeps_intros]: "(\<And>x. keeps I (f x)) \<Longrightarrow> keeps I (each_target f xs)"
  by (induction xs) (simp_all add: keeps_intros)

locale room_frame =
  fixes I :: "room \<Rightarrow> bool"
  assumes rooms_only: "about_rooms I"
    and other_entries: "\<not> is_meeting_type (jc_type c) \<Longrightarrow> keeps I (append_entry c i)"
begin

lemmas frame_rules [keeps_intros] = rooms_only other_entries

lemma keeps_append_space [keeps_intros]: "\<not> is_meeting_type (jc_type c) \<Longrightarrow> keeps I (append_space_journal d c)"
  unfolding append_space_journal_def by (intro keeps_intros)

lemma keeps_delivery [keeps_intros]:
  "keeps I (announce d dv h key ses run_id)" "keeps I (finish_hook d dv i key ses run_id)"
  "keeps I (deliverLiveNotify d dv h key ses run_id)"
  unfolding announce_def finish_hook_def deliverLiveNotify_def Let_def by (intro keeps_intros)+

lemma keeps_create [keeps_intros]:
  "keeps I (create_hook_session d dv i title subject)" "keeps I (create_hook_run d dv ses ctx key)"
  unfolding create_hook_session_def create_hook_run_def Let_def by (intro keeps_intros)+

lemma keeps_hook_action_step [keeps_intros]: "keeps I (hook_action_step d dv i key ctx a p)"
proof (cases p)
  case (Pair ses run)
  show ?thesis
    unfolding Pair
    by (cases a; simp only: hook_action_step.simps hook_action.case hook_invoke_def hook_start_flow_def; (intro keeps_intros)?)
qed

lemma keeps_hook_actions [keeps_intros]: "keeps I (hook_actions d dv i key ctx as p)"
  by (induction as arbitrary: p) (simp_all, (intro keeps_intros | simp)+)

lemma keeps_dispatchHook [keeps_intros]: "keeps I (dispatchHook d dv i spec)"
  unfolding dispatchHook_def Let_def by (intro keeps_intros)

lemma keeps_assignment [keeps_intros]: "keeps I (deliverToAssignment d dv h key attach)"
  unfolding deliverToAssignment_def start_assignment_def Let_def by (intro keeps_intros)

lemma keeps_matched [keeps_intros]: "keeps I (dispatchMatchedEventHandler d dv h)"
  unfolding dispatchMatchedEventHandler_def Let_def by (intro keeps_intros)

lemma keeps_dispatchHooks [keeps_intros]: "keeps I (dispatchHooksForEvent d dv)"
  unfolding dispatchHooksForEvent_def dispatch_space_def dispatch_row_def Let_def by (intro keeps_intros)

lemma keeps_wake [keeps_intros]: "keeps I (wake_handlers d dv hs acc)"
  by (induction hs arbitrary: acc) (simp_all add: keeps_intros)

lemma keeps_convene_targets [keeps_intros]: "keeps I (dispatchMeetingConveneTargets d a e roster)"
  unfolding dispatchMeetingConveneTargets_def dispatch_convene_target_def by (intro keeps_intros)

lemma keeps_bound_step [keeps_intros]: "keeps I (maybeResolveBoundMeetingStep d m failed actor token space ses)"
  unfolding maybeResolveBoundMeetingStep_def by (intro keeps_intros)

end

interpretation good: room_frame good
  by unfold_locales (intro keeps_intros)+

lemma keeps_receipts [keeps_intros]:
  "keeps good (appendMeetingDelivered d r seat)" "keeps good (appendMeetingDeliveryFailed d r seat reason)"
  unfolding appendMeetingDelivered_def appendMeetingDeliveryFailed_def meeting_event_def
  by (rule keeps_appendMeetingEvent; simp add: status_type_def)+

lemma keeps_said_targets [keeps_intros]: "keeps good (dispatchMeetingSaidTargets d a ev p)"
  unfolding dispatchMeetingSaidTargets_def dispatch_said_target_def by (intro keeps_intros)

lemma keeps_prepareMeetingSaid [keeps_intros]: "keeps good (prepareMeetingSaid d inp)"
  unfolding prepareMeetingSaid_def by (intro keeps_intros)

section \<open>The life of a meeting\<close>

lemma appendMeetingEvent_meetings: "rm_meetings (final (appendMeetingEvent d c eid) s) = rm_meetings s"
proof -
  have "rm_meetings (snd (run_state (append_entry c i) s)) = rm_meetings s" for i s
    by (simp add: append_entry_run with_entry_def)
  then have "rm_meetings t = rm_meetings s" if "run_state (append_entry c i) s = (r, t)" for r t i s
    using that by (metis snd_conv)
  then show ?thesis
    by (cases eid; auto simp: appendMeetingEvent_def allocateMeetingSeq_def after_def final_def ulid_def on_hub_def
        setJournalIndexMeetingSeq_def Let_def split: prod.splits outcome.splits)
qed

lemma good_written:
  assumes "good s" "jc_session_id c = Some ses" "room_ok s \<Longrightarrow> sid_ok ses" "status_type (jc_type c)"
    and "result (appendMeetingEvent d c eid) s = Done e"
    and v: "rooms_of v = rooms_of (final (appendMeetingEvent d c eid) s)"
    and row: "room_ok s \<Longrightarrow> bareSessionId (mt_session_id row) = bareSessionId ses"
    and free: "mt_status row = MClosed \<or> (\<forall>m. js_get (rm_meetings s) (bareSessionId ses) = Some m \<longrightarrow> mt_status m = MClosed)"
    and view: "\<And>i s1. room_ok s \<Longrightarrow> view_row (numbered_row c i ses s1) (view_of s (bareSessionId ses)) = snapshot_view row"
    and conv: "jc_type c = ''mrmr.meeting.convened'' \<or> (room_ok s \<longrightarrow> convened_in s (bareSessionId ses))"
  shows "good (snd (upsertMeetingSnapshot row v))"
proof (rule good_entered [OF assms(1-5) _ _ _ view conv])
  have v': "rm_index v = rm_index (final (appendMeetingEvent d c eid) s)"
    "rm_meeting_seq v = rm_meeting_seq (final (appendMeetingEvent d c eid) s)" "rm_meetings v = rm_meetings s"
    using v by (simp_all add: rooms_of_def appendMeetingEvent_meetings)
  show "rm_index (snd (upsertMeetingSnapshot row v)) = rm_index (final (appendMeetingEvent d c eid) s)"
    "rm_meeting_seq (snd (upsertMeetingSnapshot row v)) = rm_meeting_seq (final (appendMeetingEvent d c eid) s)"
    by (simp_all add: upsertMeetingSnapshot_def Let_def v')
  show "rm_meetings (snd (upsertMeetingSnapshot row v))
      = js_set (bareSessionId ses) (row\<lparr> mt_session_id := bareSessionId ses \<rparr>) (rm_meetings s)" if "room_ok s"
    using free row [OF that] by (auto simp: upsertMeetingSnapshot_def Let_def v' split: option.splits)
qed

lemma good_after_entry:
  assumes "good s" "jc_session_id c = Some ses"
    "\<And>e. result (appendMeetingEvent d c eid) s = Done e \<Longrightarrow> good (final (f e) (final (appendMeetingEvent d c eid) s))"
  shows "good (final (after (appendMeetingEvent d c eid) f) s)"
  unfolding run_after
  by (cases "result (appendMeetingEvent d c eid) s")
     (use assms(3) good_refused [OF assms(1,2), of d eid] in auto)

lemma meeting_agrees:
  assumes "room_ok s" "getMeetingBySession s ses = Some m"
  shows "sid_ok ses" "mt_session_id m = bareSessionId ses" "bareSessionId (mt_session_id m) = bareSessionId ses"
    "view_of s (bareSessionId ses) = snapshot_view m" "convened_in s (bareSessionId ses)"
proof -
  have "agrees s (bareSessionId ses)" using assms(1) by (simp add: room_ok_def)
  then show "sid_ok ses" and m: "mt_session_id m = bareSessionId ses"
    and "view_of s (bareSessionId ses) = snapshot_view m" "convened_in s (bareSessionId ses)"
    using assms(2) by (simp_all add: agrees_def getMeetingBySession_def sid_ok_def)
  then show "bareSessionId (mt_session_id m) = bareSessionId ses"
    by (simp add: sid_ok_def plain_def bare_plain)
qed

lemma view_row_status:
  "ji_type r = ''mrmr.meeting.closed'' \<Longrightarrow> view_row r v = v\<lparr> vw_status := MClosed \<rparr>"
  "ji_type r = ''mrmr.meeting.resumed'' \<Longrightarrow> view_row r v = v\<lparr> vw_status := MOpen \<rparr>"
  by (simp_all add: view_row_def Let_def)

lemma good_closed:
  assumes "good s" "getMeetingBySession s ses = Some m" "jc_session_id c = Some ses" "jc_type c = ''mrmr.meeting.closed''"
    "result (appendMeetingEvent d c eid) s = Done e"
  shows "good (final (persistClosedSnapshot m e failed) (final (appendMeetingEvent d c eid) s))"
proof -
  note m = meeting_agrees [OF _ assms(2)]
  let ?t = "final (appendMeetingEvent d c eid) s"
  have "good (snd (upsertMeetingSnapshot (closed_row m e failed ts) v))" if "rooms_of v = rooms_of ?t" for ts v
    by (rule good_written [OF assms(1,3) m(1) _ assms(5) that])
       (use m assms(4) in \<open>simp_all add: status_type_def closed_row_def view_row_status numbered_row_type snapshot_view_def\<close>)
  then show ?thesis
    by (simp add: persistClosedSnapshot_def final_bind final_on_hub rooms_of_def)
qed

text \<open>Whatever follows the snapshot of a closed meeting, as long as it keeps the invariant.\<close>

lemma good_after_closed:
  assumes "good s" "getMeetingBySession s ses = Some m" "jc_session_id c = Some ses" "jc_type c = ''mrmr.meeting.closed''"
    and "\<And>e. keeps good (rest e)"
  shows "good (final (after (appendMeetingEvent d c eid) (\<lambda>e. State_Monad.bind (persistClosedSnapshot m e failed) (\<lambda>_. rest e))) s)"
proof (rule good_after_entry [OF assms(1,3)])
  fix e assume "result (appendMeetingEvent d c eid) s = Done e"
  from good_closed [OF assms(1-4) this]
  show "good (final (State_Monad.bind (persistClosedSnapshot m e failed) (\<lambda>_. rest e)) (final (appendMeetingEvent d c eid) s))"
    unfolding final_bind by (rule keepsD [OF assms(5)])
qed

lemma keeps_closeMeeting [keeps_intros]: "keeps good (closeMeeting d inp)"
proof (rule keepsI)
  fix s assume g: "good s"
  show "good (final (closeMeeting d inp) s)"
  proof (cases "check_close s inp")
    case (Inr m)
    then have m: "getMeetingBySession s (cx_session_id inp) = Some m"
      by (auto simp: check_close_def Let_def split: option.splits if_splits)
    show ?thesis
      unfolding closeMeeting_def final_bind [of "ask _"] result_simps final_ask Inr Let_def sum.case
      by (rule good_after_closed [OF g m]) (simp_all add: meeting_event_def keeps_intros)
  qed (simp add: closeMeeting_def final_bind g)
qed

section \<open>Resuming and convening\<close>

lemma final_write: "final (writeMeetingSnapshot row) s = snd (upsertMeetingSnapshot row s)"
  by (simp add: writeMeetingSnapshot_def final_def)

lemma keeps_resumeMeeting [keeps_intros]: "keeps good (resumeMeeting d inp)"
proof (rule keepsI)
  fix s assume g: "good s"
  show "good (final (resumeMeeting d inp) s)"
  proof (cases "check_resume s inp")
    case (Inr m)
    then have m: "getMeetingBySession s (rx_session_id inp) = Some m" "mt_status m = MClosed"
      by (auto simp: check_resume_def Let_def split: option.splits if_splits) (metis meeting_status.exhaust)+
    note a = meeting_agrees [OF _ m(1)]
    let ?c = "meeting_event ''mrmr.meeting.resumed'' (acting_space (rx_convenor_space_id inp) (rx_emitter_space_id inp) m)
      (rx_session_id inp) (rx_actor_id inp) (rx_token_id inp)
      [(''roster'', roster_json (mt_roster m)), (''chair'', chair_json (mt_chair m))]"
    have "good (snd (upsertMeetingSnapshot (m\<lparr> mt_status := MOpen, mt_updated_at := ts \<rparr>) v))"
      if "result (appendMeetingEvent (run_deps_of d) ?c None) s = Done e"
        "rooms_of v = rooms_of (final (appendMeetingEvent (run_deps_of d) ?c None) s)" for e ts v
      by (rule good_written [OF g _ a(1) _ that])
         (use m a in \<open>simp_all add: meeting_event_def status_type_def view_row_status numbered_row_type snapshot_view_def
           getMeetingBySession_def\<close>)
    note w = this
    show ?thesis
      unfolding resumeMeeting_def final_bind [of "ask _"] result_simps final_ask Inr Let_def sum.case
    proof (rule good_after_entry [OF g], simp add: meeting_event_def)
    qed (unfold final_bind, rule keepsD, intro keeps_intros, unfold final_write, rule w, assumption,
        simp add: final_on_hub rooms_of_def)
  qed (simp add: resumeMeeting_def final_bind g)
qed

text \<open>What the journal keeps of the fields of a convening.\<close>

lemma map_of_filter_values:
  "distinct (map fst ob) \<Longrightarrow> map_of (filter (\<lambda>kv. snd kv \<noteq> u) ob) k = (case map_of ob k of None \<Rightarrow> None | Some v \<Rightarrow> if v = u then None else Some v)"
  by (induction ob) (auto split: option.splits dest: map_of_SomeD simp: image_iff)

lemma wire_prop:
  assumes "js_ok ob"
  shows "prop_of (wire_obj ob) k = (if prop_of ob k = JUndef then JUndef else wire (prop_of ob k))"
proof -
  have "map_of (map (\<lambda>kv. (fst kv, wire (snd kv))) xs) k = map_option wire (map_of xs k)" for xs
    by (induction xs) auto
  then show ?thesis
    using map_of_filter_values [of ob JUndef k] assms
    by (simp add: wire_obj_def prop_of_def js_get_def js_ok_def split: option.splits)
qed

definition envelope_keys :: "string list" where
  "envelope_keys = [''specversion'', ''id'', ''source'', ''type'', ''time'', ''datacontenttype'', ''space_id'',
     ''session_id'', ''run_id'', ''actor_id'', ''subject'']"

lemma envelope_prop: "k \<notin> set envelope_keys \<Longrightarrow> prop_of (buildSpaceJournalEnvelope c i t) k = prop_of (jc_data c) k"
  by (simp add: buildSpaceJournalEnvelope_def Let_def prop_of_def js_get_spread envelope_keys_def split: option.splits)

lemma row_prop:
  assumes "js_ok (jc_data c)" "k \<notin> set envelope_keys"
  shows "prop_of (ji_payload (numbered_row c i ses s)) k =
    (if prop_of (jc_data c) k = JUndef then JUndef else wire (prop_of (jc_data c) k))"
proof -
  have "js_ok (buildSpaceJournalEnvelope c i t)" for t
    by (simp add: buildSpaceJournalEnvelope_def Let_def spread_ok assms(1))
  then show ?thesis
    by (simp add: numbered_row_def entry_row_def Let_def wire_prop envelope_prop assms(2))
qed

lemma seat_wire: "prefixedSpace (mr_space_id x) = mr_space_id x \<Longrightarrow> asSeat (wire (seat_json x)) = Some x"
  by (cases "mr_persona x") (simp_all add: seat_json_def asSeat_def js_simps opt_str_def)

lemma roster_wire:
  "\<forall>x \<in> set roster. prefixedSpace (mr_space_id x) = mr_space_id x \<Longrightarrow> rosterFromUnknown (wire (roster_json roster)) = roster"
  by (induction roster) (simp_all add: roster_json_def seat_wire List.map_filter_simps)

lemma chair_wire: "chairFromUnknown (wire (chair_json c)) = Some c"
  by (cases c) (simp_all add: chair_json_def chairFromUnknown_def js_simps)

lemma wire_not_undef: "wire v \<noteq> JUndef"
  by (cases v) simp_all

definition roster_plain :: "meeting_seat list \<Rightarrow> bool" where
  "roster_plain roster \<longleftrightarrow> (\<forall>x \<in> set roster. prefixedSpace (mr_space_id x) = mr_space_id x)"

lemma prefixedSpace_twice [simp]: "prefixedSpace (prefixedSpace sp) = prefixedSpace sp"
  by (simp add: prefixedSpace_def addSpaceId_def stripPrefix_def)

lemma mint_plain: "roster_plain (result (mintRoster d seats) h)"
proof (induction seats arbitrary: h)
  case (Cons a seats)
  then show ?case by (cases a) (simp add: result_bind roster_plain_def)
qed (simp add: roster_plain_def)

definition convened_data :: "convene_input \<Rightarrow> meeting_seat list \<Rightarrow> meeting_chair \<Rightarrow> jobj" where
  "convened_data inp roster chair = [(''title'', JStr (convene_title inp)), (''goal'', opt_str (cv_goal inp)),
     (''roster'', roster_json roster), (''chair'', chair_json chair)]"

lemma convened_view:
  assumes "jc_data c = convened_data inp roster chair" "jc_type c = ''mrmr.meeting.convened''" "roster_plain roster"
  shows "view_row (numbered_row c i ses s) (journal_view []) = snapshot_view (convened_row inp ses' roster chair e ts)"
proof -
  have ok: "js_ok (jc_data c)" by (simp add: assms(1) convened_data_def js_ok_def)
  note p = row_prop [OF ok, where i = i and ses = ses and s = s]
  have data: "meetingJournalData (numbered_row c i ses s) = ji_payload (numbered_row c i ses s)"
    by (simp add: meetingJournalData_def p envelope_keys_def assms(1) convened_data_def Let_def)
  have roster: "rosterFromUnknown (prop_of (ji_payload (numbered_row c i ses s)) ''roster'') = roster"
    using roster_wire [of roster] assms(3)
    by (simp add: p envelope_keys_def assms(1) convened_data_def roster_plain_def) (simp add: roster_json_def)
  have chair: "chairFromUnknown (prop_of (ji_payload (numbered_row c i ses s)) ''chair'') = Some chair"
    using chair_wire [of chair]
    by (simp add: p envelope_keys_def assms(1) convened_data_def) (cases chair; simp add: chair_json_def)
  have goal: "text_of (prop_of (ji_payload (numbered_row c i ses s)) ''goal'') = cv_goal inp"
    by (cases "cv_goal inp") (simp_all add: p envelope_keys_def assms(1) convened_data_def opt_str_def)
  show ?thesis
    by (simp add: view_row_def data roster chair goal numbered_row_type assms(2) snapshot_view_def convened_row_def
        journal_view_def or_try_def Let_def)
qed

lemma good_open_room:
  assumes "good s" "getMeetingBySession s ses = None" "sid_ok ses" "roster_plain roster"
  shows "good (final (open_room d inp ses roster chair) s)"
proof -
  let ?c = "meeting_event ''mrmr.meeting.convened'' (convenor_space inp) ses (cv_actor_id inp) (cv_token_id inp)
      (convened_data inp roster chair)"
  have w: "good (snd (upsertMeetingSnapshot (convened_row inp ses roster chair e ts) v))"
    if "result (appendMeetingEvent (run_deps_of d) ?c None) s = Done e"
      "rooms_of v = rooms_of (final (appendMeetingEvent (run_deps_of d) ?c None) s)" for e ts v
  proof (rule good_written [OF assms(1) _ assms(3) _ that])
    fix i s1 assume "room_ok s"
    then have "agrees s (bareSessionId ses)" by (simp add: room_ok_def)
    then have "view_of s (bareSessionId ses) = journal_view []"
      using assms(2) by (simp add: agrees_def getMeetingBySession_def view_of_def)
    then show "view_row (numbered_row ?c i ses s1) (view_of s (bareSessionId ses))
        = snapshot_view (convened_row inp ses roster chair e ts)"
      using convened_view [OF _ _ assms(4), of ?c] by (simp add: meeting_event_def)
  qed (use assms(2) in \<open>simp_all add: meeting_event_def status_type_def convened_row_def getMeetingBySession_def\<close>)
  show ?thesis
    unfolding open_room_def convened_data_def [symmetric]
  proof (rule good_after_entry [OF assms(1)], simp add: meeting_event_def)
  qed (unfold final_bind, rule keepsD, intro keeps_intros, unfold final_write, rule w, assumption,
      simp add: final_on_hub rooms_of_def ask_studio_def)
qed

text \<open>The ids the hub makes: plain, and not those of a meeting there is.\<close>

definition hub_ids :: "event_deps \<Rightarrow> room \<Rightarrow> bool" where
  "hub_ids d s \<longleftrightarrow>
     (\<forall>n. hb_next_id (rm_hub s) \<le> n \<longrightarrow>
        plain (rd_ulid (run_deps_of d) n) \<and> js_get (rm_meetings s) (rd_ulid (run_deps_of d) n) = None)
     \<and> list_all plain (map fst (sd_sessions (hb_studio (rm_hub s))))"

lemma known_session_ok: "hub_ids d s \<Longrightarrow> getSession (hb_studio (rm_hub s)) ses \<noteq> None \<Longrightarrow> sid_ok ses"
  by (auto simp: hub_ids_def getSession_def js_get_def sid_ok_def list_all_iff dest!: map_of_SomeD)

lemma mint_next: "hb_next_id h \<le> hb_next_id (final (mintRoster d seats) h)"
proof (induction seats arbitrary: h)
  case (Cons a seats)
  have "hb_next_id (final (ulid d) h) = Suc (hb_next_id h)" by (simp add: ulid_def final_def)
  then show ?case using Cons [of "final (ulid d) h"] by (cases a) (simp add: final_bind)
qed simp

lemma new_session:
  assumes "cv_session_id inp = None"
  shows "result (meeting_session d inp) s = ''ses_'' @ rd_ulid (run_deps_of d) (hb_next_id (rm_hub s))"
  by (simp add: meeting_session_def assms result_bind result_on_hub createSession_def Let_def toSessionDto_def
      prefixed_def) (simp add: ulid_def result_def)

lemma plain_session: "plain b \<Longrightarrow> bareSessionId (''ses_'' @ b) = b"
  by (simp add: bareSessionId_def bare_with_def starts_with_def)

lemma meeting_session_rooms: "rooms_of (final (meeting_session d inp) s) = rooms_of s"
  by (cases "cv_session_id inp") (simp_all add: meeting_session_def final_bind final_on_hub rooms_of_def)

lemma good_new_room:
  assumes g: "good s" and ids: "hub_ids d s"
    and none: "\<And>i. cv_session_id inp = Some i \<Longrightarrow> getSession (hb_studio (rm_hub s)) i \<noteq> None \<and> getMeetingBySession s i = None"
  shows "good (final (new_room d inp) s)"
proof -
  define t where "t = final (on_hub (mintRoster (run_deps_of d) (cv_participants inp))) s"
  define roster where "roster = result (on_hub (mintRoster (run_deps_of d) (cv_participants inp))) s"
  have t: "rooms_of t = rooms_of s" "hb_next_id (rm_hub s) \<le> hb_next_id (rm_hub t)"
    using mint_next by (simp_all add: t_def final_on_hub rooms_of_def)
  have roster: "roster_plain roster" by (simp add: roster_def result_on_hub mint_plain)
  have gt: "good t" using g good_rooms t(1) by blast
  let ?ses = "result (meeting_session d inp) t" and ?u = "final (meeting_session d inp) t"
  have gu: "good ?u" using gt good_rooms meeting_session_rooms by blast
  have same: "rm_meetings ?u = rm_meetings s" using meeting_session_rooms [of d inp t] t(1) by (simp add: rooms_of_def)
  have ses: "sid_ok ?ses \<and> getMeetingBySession ?u ?ses = None"
  proof (cases "cv_session_id inp")
    case None
    have "plain (rd_ulid (run_deps_of d) (hb_next_id (rm_hub t)))"
      "js_get (rm_meetings s) (rd_ulid (run_deps_of d) (hb_next_id (rm_hub t))) = None"
      using ids t(2) by (simp_all add: hub_ids_def)
    then show ?thesis
      using plain_session by (simp add: new_session [OF None] getMeetingBySession_def sid_ok_def same)
  next
    case (Some i)
    then show ?thesis
      using none [OF Some] known_session_ok [OF ids, of i] same
      by (simp add: meeting_session_def getMeetingBySession_def)
  qed
  then have "good (final (open_room d inp ?ses roster chair) ?u)" for chair
    using good_open_room [OF gu _ _ roster] by blast
  then show ?thesis
    using g gt unfolding new_room_def ask_studio_def final_bind result_simps final_ask
    by (simp add: final_bind t_def [symmetric] roster_def [symmetric] split: option.splits sum.splits)
qed

lemma good_conveneMeeting:
  assumes g: "good s" and ids: "hub_ids d s"
  shows "good (final (conveneMeeting d issue inp) s)"
proof (cases "convene_schema_ok inp")
  case True
  show ?thesis
  proof (cases "cv_session_id inp")
    case None
    then show ?thesis using good_new_room [OF g ids, of inp] True by (simp add: conveneMeeting_def)
  next
    case (Some ses)
    show ?thesis
    proof (cases "getSession (hb_studio (rm_hub s)) ses = None")
      case False
      then show ?thesis
      proof (cases "getMeetingBySession s ses")
        case None
        then show ?thesis
          using good_new_room [OF g ids, of inp] True False Some g by (simp add: conveneMeeting_def final_bind)
      next
        case (Some m)
        have "good (final (after (resumeMeeting d (resume_of inp ses)) (\<lambda>r. State_Monad.return (f r))) s)" for f :: "_ \<Rightarrow> (refusal + convene_result) outcome"
          by (rule keepsD [where I = good]) (intro keeps_intros, rule g)
        then show ?thesis
          unfolding conveneMeeting_def using True False Some \<open>cv_session_id inp = Some ses\<close> g
          by (simp add: final_bind)
      qed
    qed (simp add: conveneMeeting_def True Some final_bind g)
  qed
qed (simp add: conveneMeeting_def g)

section \<open>Emitting\<close>

lemma keeps_deliver_emit [keeps_intros]:
  "\<not> (\<exists>m. plan = ClosedEvent m) \<Longrightarrow> keeps good (deliver_emit d inp plan e payload)"
  by (cases plan) (simp_all add: deliver_emit_def Let_def keeps_intros)

lemma plan_emit_final:
  "(\<exists>m. fst (run_state (plan_emit d inp payload) s) = Inr (ClosedEvent m, p)) \<Longrightarrow>
    final (plan_emit d inp payload) s = s"
  by (auto simp: plan_emit_def final_def Let_def split: option.splits if_splits sum.splits prod.splits)

lemma plan_emit_closed:
  assumes "result (plan_emit d inp payload) s = Inr (ClosedEvent m, p)"
  obtains ses where "emit_session inp = Some ses" "ei_event_type inp = ''mrmr.meeting.closed''" "p = payload"
    "getMeetingBySession s ses = Some m" "final (plan_emit d inp payload) s = s"
  using assms
  by (auto simp: plan_emit_def result_bind final_bind prepareMeetingClosed_def split: option.splits if_splits sum.splits)

lemma keeps_plan_emit [keeps_intros]: "keeps good (plan_emit d inp payload)"
  unfolding plan_emit_def by (intro keeps_intros)

text \<open>Of the three types only \<open>closed\<close> can be emitted, and only with a meeting that is open.\<close>

lemma emit_plain_type:
  assumes "emit_denial inp = None" "result (plan_emit d inp payload) s = Inr (plan, p)" "\<not> (\<exists>m. plan = ClosedEvent m)"
  shows "\<not> status_type (ei_event_type inp)"
proof -
  have "ei_event_type inp = ''mrmr.meeting.closed'' \<Longrightarrow> emit_session inp \<noteq> None"
    using assms(1) by (auto simp: emit_denial_def is_meeting_type_def starts_with_def split: if_splits)
  then show ?thesis
    using assms by (auto simp: emit_denial_def status_type_def HUB_ONLY_EMIT_DENYLIST_def plan_emit_def result_bind
        split: if_splits option.splits sum.splits)
qed

lemma keeps_journal_emit:
  "\<not> status_type (ei_event_type inp) \<Longrightarrow> keeps good (journal_emit d inp event_id payload)"
  unfolding journal_emit_def Let_def
  by (cases "emit_session inp") (auto intro!: keeps_intros)

lemma journal_emit_closed:
  "emit_session inp = Some ses \<Longrightarrow> ei_event_type inp = ''mrmr.meeting.closed'' \<Longrightarrow>
    journal_emit d inp event_id payload = appendMeetingEvent (run_deps_of d) \<lparr>
      jc_type = ei_event_type inp, jc_space_id = emit_space inp, jc_session_id = Some ses,
      jc_run_id = None, jc_actor_id = ei_actor_id inp, jc_token_id = ei_token_id inp, jc_data = payload \<rparr> (Some event_id)"
  by (simp add: journal_emit_def is_meeting_type_def starts_with_def Let_def)

text \<open>The plan and what is journaled and delivered after it.\<close>

definition emit_planned :: "event_deps \<Rightarrow> emit_input \<Rightarrow> string \<Rightarrow> (refusal + emit_plan \<times> jobj) \<Rightarrow> (refusal + emitted) room_op" where
  "emit_planned d inp event_id = (\<lambda>planned. case planned of
     Inl e \<Rightarrow> State_Monad.return (Inl e)
   | Inr (plan, payload) \<Rightarrow> do {
       journaled \<leftarrow> journal_emit d inp event_id payload;
       case journaled of
         Done e \<Rightarrow> do {
           r \<leftarrow> deliver_emit d inp plan e payload;
           State_Monad.return (Inr \<lparr> eo_event_id = event_id, eo_type = ei_event_type inp, eo_seq = en_seq e,
             eo_hook_results = (case r of Done rs \<Rightarrow> rs | _ \<Rightarrow> []) \<rparr>)
         }
       | Raised message \<Rightarrow> State_Monad.return (Inl (meetingDenial ''INLINE_PAYLOAD_EXCEEDED'' message 400))
       | OutOfFuel \<Rightarrow> State_Monad.return (Inl (meetingDenial ''INLINE_PAYLOAD_EXCEEDED'' [] 400))
     })"

lemma good_planned:
  assumes "good s" "emit_denial inp = None"
  shows "good (final (State_Monad.bind (plan_emit d inp payload) (emit_planned d inp event_id)) s)"
proof -
  let ?t = "final (plan_emit d inp payload) s"
  have t: "good ?t" using assms(1) keeps_plan_emit by (rule keepsD [rotated])
  show ?thesis
  proof (cases "result (plan_emit d inp payload) s")
    case (Inr pp)
    obtain plan p where pp: "pp = (plan, p)" by (cases pp)
    show ?thesis
    proof (cases "\<exists>m. plan = ClosedEvent m")
      case False
      have "keeps good (emit_planned d inp event_id (Inr (plan, p)))"
        unfolding emit_planned_def sum.case prod.case
        by (intro keeps_intros keeps_journal_emit emit_plain_type [OF assms(2) Inr [unfolded pp]] False)
      then show ?thesis using t by (simp add: final_bind Inr pp keepsD)
    next
      case True
      then obtain m where m: "plan = ClosedEvent m" by blast
      obtain ses where ses: "emit_session inp = Some ses" "ei_event_type inp = ''mrmr.meeting.closed''" "p = payload"
          "getMeetingBySession s ses = Some m" "?t = s"
        using plan_emit_closed [OF Inr [unfolded pp m]] by metis
      define c where "c = \<lparr> jc_type = ei_event_type inp, jc_space_id = emit_space inp, jc_session_id = Some ses,
        jc_run_id = None, jc_actor_id = ei_actor_id inp, jc_token_id = ei_token_id inp, jc_data = p \<rparr>"
      have j: "journal_emit d inp event_id p = appendMeetingEvent (run_deps_of d) c (Some event_id)"
        unfolding c_def by (rule journal_emit_closed [OF ses(1,2)])
      have c: "jc_session_id c = Some ses" "jc_type c = ''mrmr.meeting.closed''" by (simp_all add: c_def ses(2))
      have rest: "keeps good (State_Monad.bind (on_live f) (\<lambda>_. after (maybeResolveBoundMeetingStep d m fl a tk sp i) g))"
        if "\<And>x. keeps good (g x)" for f fl a tk sp i and g :: "unit \<Rightarrow> hook_result list outcome room_op"
        using that by (intro keeps_intros)
      show ?thesis
      proof (cases "result (journal_emit d inp event_id p) s")
        case (Done e)
        have "good (final (deliver_emit d inp plan e p) (final (journal_emit d inp event_id p) s))"
          unfolding deliver_emit_def m Let_def emit_plan.case final_bind [of "persistClosedSnapshot _ _ _"]
          by (rule keepsD [OF rest good_closed [OF assms(1) ses(4) c, where eid = "Some event_id" and d = "run_deps_of d", folded j, OF Done]])
             (simp add: keeps_intros)
        then show ?thesis by (simp add: final_bind Inr pp emit_planned_def Done ses(5))
      next
        case (Raised x)
        have "good (final (journal_emit d inp event_id p) s)"
          using good_refused [OF assms(1) c(1), of "run_deps_of d" "Some event_id"] Raised j by simp
        then show ?thesis by (simp add: final_bind Inr pp emit_planned_def Raised ses(5))
      next
        case OutOfFuel
        have "good (final (journal_emit d inp event_id p) s)"
          using good_refused [OF assms(1) c(1), of "run_deps_of d" "Some event_id"] OutOfFuel j by simp
        then show ?thesis by (simp add: final_bind Inr pp emit_planned_def OutOfFuel ses(5))
      qed
    qed
  qed (use t in \<open>simp add: final_bind emit_planned_def\<close>)
qed

lemma keeps_emitAndDeliver [keeps_intros]: "keeps good (emitAndDeliver d inp)"
proof (rule keepsI)
  fix s assume g: "good s"
  show "good (final (emitAndDeliver d inp) s)"
  proof (cases "emit_denial inp")
    case None
    let ?pl = "hubStampFrom (emit_space inp) (ei_actor_id inp) (opt_default [] (ei_payload inp))"
    have run: "emitAndDeliver d inp = do {
        event_id \<leftarrow> (case ei_event_id inp of
            Some i \<Rightarrow> State_Monad.return i
          | None \<Rightarrow> do { u \<leftarrow> on_hub (ulid (run_deps_of d)); State_Monad.return (''evt_'' @ u) });
        State_Monad.bind (plan_emit d inp ?pl) (emit_planned d inp event_id) }"
      by (simp add: emitAndDeliver_def None emit_planned_def)
    have "keeps good (case ei_event_id inp of
            Some i \<Rightarrow> State_Monad.return i
          | None \<Rightarrow> do { u \<leftarrow> on_hub (ulid (run_deps_of d)); State_Monad.return (''evt_'' @ u) })"
      by (intro keeps_intros)
    note id = this
    show ?thesis
      unfolding run final_bind [where m = "case ei_event_id inp of None \<Rightarrow> _ | Some i \<Rightarrow> _ i"]
      by (rule good_planned [OF keepsD [OF id g] None])
  qed (simp add: emitAndDeliver_def g)
qed

lemma keeps_routes [keeps_intros]:
  "keeps good (route_close d t ses body)" "keeps good (route_resume d t ses)" "keeps good (route_say d sp t ses body)"
  unfolding route_close_def route_resume_def route_say_def by (intro keeps_intros)+

lemma good_for_step: "good s \<Longrightarrow> hub_ids d s \<Longrightarrow> good (final (conveneMeetingForOpenStep d issue c) s)"
  unfolding conveneMeetingForOpenStep_def run_after using good_conveneMeeting by (simp split: outcome.splits)

section \<open>Reachable rooms\<close>

inductive room_move :: "event_deps \<Rightarrow> room \<Rightarrow> room \<Rightarrow> bool" for d where
  convened: "hub_ids d s \<Longrightarrow> room_move d s (final (conveneMeeting d issue inp) s)"
| for_step: "hub_ids d s \<Longrightarrow> room_move d s (final (conveneMeetingForOpenStep d issue c) s)"
| resumed: "room_move d s (final (resumeMeeting d r) s)"
| closed: "room_move d s (final (closeMeeting d x) s)"
| emitted: "room_move d s (final (emitAndDeliver d e) s)"
| delivered: "room_move d s (final (dispatchHooksForEvent d dv) s)"
| journaled: "room_move d s (final (append_space_journal (run_deps_of d) call) s)"
| elsewhere: "room_move d s (final (on_hub (m :: unit hub_op)) s)"
| seats: "room_move d s (final (on_live f) s)"

definition empty_room :: "hub \<Rightarrow> live_state \<Rightarrow> room" where
  "empty_room h l = \<lparr> rm_hub = h, rm_index = [], rm_meetings = [], rm_meeting_seq = [], rm_readers = [], rm_live = l,
     rm_actions = [] \<rparr>"

definition room_reach :: "event_deps \<Rightarrow> room \<Rightarrow> bool" where
  "room_reach d s \<longleftrightarrow> (\<exists>h l. (room_move d)\<^sup>*\<^sup>* (empty_room h l) s)"

lemma good_empty: "good (empty_room h l)"
  by (simp add: good_def room_ok_def numbered_def agrees_def rows_of_def empty_room_def)

lemma good_move: "room_move d s t \<Longrightarrow> good s \<Longrightarrow> good t"
proof (induction rule: room_move.induct)
  case convened
  then show ?case by (simp add: good_conveneMeeting)
next
  case for_step
  then show ?case by (simp add: good_for_step)
next
  case (elsewhere s m)
  then show ?case using keepsD [OF keeps_on_hub [OF about_good], of s m] by simp
next
  case (seats s f)
  then show ?case using keepsD [OF keeps_on_live [OF about_good], of s f] by simp
qed (simp_all add: keepsD [OF keeps_resumeMeeting] keepsD [OF keeps_closeMeeting] keepsD [OF keeps_emitAndDeliver]
    keepsD [OF good.keeps_dispatchHooks] keepsD [OF good_append_space])

lemma reach_good: "room_reach d s \<Longrightarrow> good s"
proof -
  have "(room_move d)\<^sup>*\<^sup>* r s \<Longrightarrow> good r \<Longrightarrow> good s" for r s
    by (induction rule: rtranclp_induct) (auto intro: good_move)
  then show "room_reach d s \<Longrightarrow> good s" by (auto simp: room_reach_def intro: good_empty)
qed

end
