(* ===== verification/MeetingProperties.thy ===== *)
theory MeetingProperties
  imports MeetingProofs EngineSamples
begin

text \<open>
  What meetings, live seats and the delivery of events promise, each with concrete rooms where the
  hypotheses hold.
\<close>

section \<open>Rooms for the witnesses\<close>

text \<open>
  A meeting of two spaces on the session \<open>ses_s\<close> of alice; \<open>b\<close> has a handler for messages.
\<close>

definition sample_events :: event_deps where
  "sample_events = engine_deps.extend sample_engine (event_deps.fields (\<lambda>x. x) (\<lambda>_ _. Answered 200 None))"

definition b_handler :: handler_spec where
  "b_handler = \<lparr> hs_id = ''listen'', hs_on = OnEvent ''mrmr.meeting.said'' None None, hs_type = QueuePoll,
     hs_view = None, hs_params = None, hs_config = [] \<rparr>"

definition meeting_hub :: hub where
  "meeting_hub = engine_hub\<lparr> hb_studio := (hb_studio engine_hub)\<lparr>
     sd_spaces := [(''a'', \<lparr> sn_name = None, sn_slug = None, sn_active = True \<rparr>),
       (''b'', \<lparr> sn_name = None, sn_slug = None, sn_active = True \<rparr>)],
     sd_hooks := [(''b'', [HandlerRow b_handler])] \<rparr> \<rparr>"

definition no_room :: room where
  "no_room = empty_room (meeting_hub\<lparr> hb_studio := (hb_studio meeting_hub)\<lparr> sd_hooks := [], sd_flow_index := [] \<rparr> \<rparr>) (init_live 7)"

definition ask_meeting :: "chair_ask \<Rightarrow> convene_input" where
  "ask_meeting chair = \<lparr> cv_title = Some ''Review'', cv_goal = None, cv_session_id = Some ''ses_s'',
     cv_participants = [(''spc_a'', None), (''spc_b'', None)], cv_chair = chair,
     cv_actor_id = ''alice'', cv_token_id = ''t'', cv_convenor_space_id = Some ''spc_a'', cv_bound_run_id = None,
     cv_bound_step_id = None, cv_capabilities = None, cv_human = True, cv_bootstrap = False, cv_operator = False,
     cv_convenor = False \<rparr>"

definition met :: room where
  "met = final (conveneMeeting sample_events (\<lambda>_. []) (ask_meeting (AskSeat (''spc_a'', None)))) no_room"

definition say :: "string \<Rightarrow> string option \<Rightarrow> jobj \<Rightarrow> emit_input" where
  "say space_id event_id payload = \<lparr> ei_space_id = space_id, ei_event_type = ''mrmr.meeting.said'', ei_event_id = event_id,
     ei_payload = Some payload, ei_session_id = Some ''ses_s'', ei_actor_id = ''alice'', ei_token_id = ''t'',
     ei_capabilities = None, ei_human_chair = False, ei_bootstrap = False, ei_operator = False \<rparr>"

definition to_all :: jobj where
  "to_all = [(''to'', JObj [(''all'', JBool True)]), (''text'', JStr ''hi'')]"

section \<open>The journal alone\<close>

lemma journal_view_status: "journal_view rows = journal_view (filter (\<lambda>r. status_type (ji_type r)) rows)"
  by (induction rows rule: rev_induct) (simp_all add: view_row_other)

lemma journal_view_of: "journal_view (meeting_rows s i) = view_of s (bareSessionId i)"
  unfolding view_of_def status_meeting_rows [symmetric] by (rule journal_view_status)

lemma convened_rows:
  "convened_in s (bareSessionId i) \<Longrightarrow> list_ex (\<lambda>r. ji_type r = ''mrmr.meeting.convened'') (meeting_rows s i)"
  unfolding convened_in_def status_meeting_rows [symmetric] by (auto simp: list_ex_iff)

text \<open>
  C23. The snapshots of meetings are a cache: in every room that is reached by convening, resuming and
  closing meetings, by events and by anything the rest of the hub does, the transcript that is built
  with the snapshot is the one the journal alone gives, as long as no two entries carry the same id.
  The ids the hub makes for sessions are plain and new.
\<close>

theorem transcript_from_journal_alone:
  assumes "room_reach d s" "distinct (entry_ids s)"
  shows "buildMeetingTranscript (s\<lparr> rm_meetings := [] \<rparr>) inp = buildMeetingTranscript s inp"
proof -
  have ok: "room_ok s" using reach_good [OF assms(1)] assms(2) by (simp add: good_def)
  let ?t = "s\<lparr> rm_meetings := [] \<rparr>" and ?i = "ti_session_id inp"
  have rows: "meeting_rows ?t ?i = meeting_rows s ?i"
    by (simp add: meeting_rows_def queryMeetingJournal_def)
  then have msgs: "transcript_messages ?t ?i r = transcript_messages s ?i r" for r
    by (simp add: transcript_messages_def)
  have none: "getMeetingBySession ?t ?i = None" by (simp add: getMeetingBySession_def)
  show ?thesis
  proof (cases "getMeetingBySession s ?i")
    case None
    then show ?thesis by (simp only: buildMeetingTranscript_def rows msgs none Let_def)
  next
    case (Some m)
    note a = meeting_agrees [OF ok Some]
    show ?thesis
      using a(4) convened_rows [OF a(5)]
      by (simp add: buildMeetingTranscript_def rows msgs none Some journal_view_of Let_def cong: option.case_cong)
  qed
qed

lemma no_room_ids: "hub_ids sample_events no_room"
proof -
  have "rd_ulid (run_deps_of sample_events) n = ''0123456789012345678901234'' @ [digit_char (n mod 10)]" for n
    by (simp add: sample_events_def run_deps_of_def session_run_deps.defs engine_deps.defs event_deps.defs sample_engine_def)
  moreover have "digit_char k \<noteq> CHR ''_''" if "k < 10" for k
    using that by (simp add: digit_char_def less_Suc_eq numeral_eq_Suc) auto
  then have "CHR ''_'' \<noteq> digit_char (n mod 10)" for n by (metis mod_less_divisor zero_less_numeral)
  ultimately show ?thesis
    by (simp add: hub_ids_def plain_def no_room_def empty_room_def meeting_hub_def engine_hub_def)
qed

definition read_met :: transcript_input where
  "read_met = \<lparr> ti_session_id = ''ses_s'', ti_since_seq = None, ti_reader = None, ti_token_space_id = None,
     ti_capabilities = [] \<rparr>"


definition met_ok :: "room \<Rightarrow> bool" where
  "met_ok s \<longleftrightarrow> distinct (entry_ids s) \<and> rm_meetings s \<noteq> []
     \<and> map_option tt_status (buildMeetingTranscript s read_met) = Some MOpen"

lemma met_is_ok: "met_ok met"
  by code_simp

theorem transcript_from_journal_alone_witness:
  "buildMeetingTranscript (met\<lparr> rm_meetings := [] \<rparr>) read_met = buildMeetingTranscript met read_met
   \<and> map_option tt_status (buildMeetingTranscript met read_met) = Some MOpen \<and> rm_meetings met \<noteq> []"
proof
  have "room_reach sample_events met"
    unfolding room_reach_def met_def no_room_def
    using room_move.convened [OF no_room_ids, unfolded no_room_def] by blast
  moreover have "distinct (entry_ids met)" using met_is_ok by (simp add: met_ok_def)
  ultimately show "buildMeetingTranscript (met\<lparr> rm_meetings := [] \<rparr>) read_met = buildMeetingTranscript met read_met"
    by (rule transcript_from_journal_alone)
  show "map_option tt_status (buildMeetingTranscript met read_met) = Some MOpen \<and> rm_meetings met \<noteq> []"
    using met_is_ok by (simp add: met_ok_def)
qed

section \<open>Events that are refused\<close>

text \<open>What a refused event must leave alone: everything but the counters and the readers of artifacts.\<close>

definition quiet :: "room \<Rightarrow> journal_row list \<times> (string, meeting_row) jsmap \<times> live_state \<times> action_call list
    \<times> studio \<times> journal_call list" where
  "quiet s = (rm_index s, rm_meetings s, rm_live s, rm_actions s, hb_studio (rm_hub s), hb_journal (rm_hub s))"

lemma quiet_ulid: "quiet (final (on_hub (ulid d)) s) = quiet s"
  by (simp add: final_on_hub quiet_def) (simp add: ulid_def final_def)

lemma quiet_readers: "quiet (final (expandArtifactReaders m a) s) = quiet s"
proof -
  have "quiet (fold (\<lambda>i. updateArtifactAuthorizedReaders i r) xs s) = quiet s" for r xs s
    by (induction xs arbitrary: s) (simp_all add: updateArtifactAuthorizedReaders_def quiet_def)
  then show ?thesis by (simp add: expandArtifactReaders_def)
qed

lemma quiet_said: "quiet (final (prepareMeetingSaid d inp) s) = quiet s"
  by (simp add: prepareMeetingSaid_def final_bind quiet_ulid quiet_readers split: option.splits sum.splits prod.splits)

lemma quiet_plan: "quiet (final (plan_emit d inp payload) s) = quiet s"
  by (simp add: plan_emit_def final_bind quiet_said split: option.splits)

lemma quiet_append:
  assumes "\<forall>e. result (appendMeetingEvent d c (Some i)) s \<noteq> Done e"
  shows "quiet (final (appendMeetingEvent d c (Some i)) s) = quiet s"
proof -
  let ?n = "allocateMeetingSeq (opt_default [] (jc_session_id c))"
  have q: "quiet (final ?n s) = quiet s" by (simp add: allocateMeetingSeq_def final_def quiet_def Let_def)
  have run: "appendMeetingEvent d c (Some i) = State_Monad.bind ?n (\<lambda>n. after (append_entry c i) (\<lambda>seq. do {
      _ \<leftarrow> act (setJournalIndexMeetingSeq i n);
      State_Monad.return (Done \<lparr> en_seq = seq, en_entry_id = i, en_meeting_seq = n \<rparr>) }))"
    by (simp add: appendMeetingEvent_def)
  have "\<forall>k. result (append_entry c i) (final ?n s) \<noteq> Done k"
    using assms unfolding run by (auto simp: result_bind run_after)
  then have "\<not> fits_inline c i (final ?n s)" by (auto simp: append_entry_views)
  then show ?thesis unfolding run by (simp add: final_bind run_after append_entry_views q)
qed

lemma quiet_journal:
  assumes "\<forall>e. result (journal_emit d inp i payload) s \<noteq> Done e"
  shows "quiet (final (journal_emit d inp i payload) s) = quiet s"
  using assms by (auto simp: journal_emit_def Let_def run_after append_entry_views intro!: quiet_append split: if_splits)

text \<open>
  An event that is refused - a type only the hub may write, a missing session or capability, a
  message of somebody who is not in the meeting, a close by somebody who may not, an entry that is too
  large - leaves no trace: no entry of the journal, no snapshot, no seat, no action, no session or run.
\<close>

theorem refused_event_leaves_no_trace:
  assumes "result (emitAndDeliver d inp) s = Inl e"
  shows "quiet (final (emitAndDeliver d inp) s) = quiet s"
proof (cases "emit_denial inp")
  case None
  let ?id = "case ei_event_id inp of Some i \<Rightarrow> State_Monad.return i
    | None \<Rightarrow> do { u \<leftarrow> on_hub (ulid (run_deps_of d)); State_Monad.return (''evt_'' @ u) }"
  let ?pl = "hubStampFrom (emit_space inp) (ei_actor_id inp) (opt_default [] (ei_payload inp))"
  have run: "emitAndDeliver d inp = State_Monad.bind ?id (\<lambda>i. State_Monad.bind (plan_emit d inp ?pl) (emit_planned d inp i))"
    by (simp add: emitAndDeliver_def None emit_planned_def)
  define i where "i = result ?id s"
  define t where "t = final (plan_emit d inp ?pl) (final ?id s)"
  have t: "quiet t = quiet s"
    by (simp add: t_def quiet_plan final_bind quiet_ulid split: option.splits)
  have res: "result (emit_planned d inp i (result (plan_emit d inp ?pl) (final ?id s))) t = Inl e"
    using assms unfolding run result_bind i_def t_def .
  have fin: "final (emitAndDeliver d inp) s = final (emit_planned d inp i (result (plan_emit d inp ?pl) (final ?id s))) t"
    unfolding run final_bind i_def t_def ..
  show ?thesis
  proof (cases "result (plan_emit d inp ?pl) (final ?id s)")
    case (Inr pp)
    obtain plan p where pp: "pp = (plan, p)" by (cases pp)
    have "\<forall>n. result (journal_emit d inp i p) t \<noteq> Done n"
      using res by (auto simp: Inr pp emit_planned_def result_bind)
    then show ?thesis
      using quiet_journal [of d inp i p t] t unfolding fin
      by (cases "result (journal_emit d inp i p) t") (simp_all add: Inr pp emit_planned_def final_bind)
  qed (use t fin in \<open>simp add: emit_planned_def\<close>)
qed (simp add: emitAndDeliver_def)

definition seat_at :: "string \<Rightarrow> string \<Rightarrow> meeting_seat" where
  "seat_at i space_id = \<lparr> mr_participant_id = i, mr_space_id = space_id, mr_persona = None \<rparr>"

definition meeting_of :: "meeting_chair \<Rightarrow> meeting_row" where
  "meeting_of chair = \<lparr> mt_session_id = ''s'', mt_status = MOpen, mt_title = Some ''Review'', mt_goal = None, mt_chair = chair,
     mt_roster = [seat_at ''ptc_a'' ''spc_a'', seat_at ''ptc_b'' ''spc_b''], mt_convene_entry_id = ''evt_0'', mt_convene_seq = 1,
     mt_close_entry_id = None, mt_close_seq = None, mt_close_failed = None, mt_bound_run_id = None,
     mt_bound_step_id = None, mt_updated_at = 1 \<rparr>"

definition open_meeting :: room where
  "open_meeting = no_room\<lparr> rm_meetings := [(''s'', meeting_of (SeatChair ''ptc_a''))] \<rparr>"

theorem refused_event_leaves_no_trace_witness:
  "result (emitAndDeliver sample_events (say ''spc_c'' None to_all)) open_meeting
     = Inl (notMeetingMember ''Emitter space has no seat in this meeting'')
   \<and> quiet (final (emitAndDeliver sample_events (say ''spc_c'' None to_all)) open_meeting) = quiet open_meeting"
proof -
  have "result (emitAndDeliver sample_events (say ''spc_c'' None to_all)) open_meeting
     = Inl (notMeetingMember ''Emitter space has no seat in this meeting'')"
    by code_simp
  then show ?thesis using refused_event_leaves_no_trace by blast
qed

section \<open>Who closes, who speaks\<close>











section \<open>The sender of a message\<close>

text \<open>What viewers see of a speaker.\<close>

definition shown_sender :: "speaker \<Rightarrow> sender" where
  "shown_sender sp = (case sp of HumanSpeaker \<Rightarrow> HumanSender ''human chair''
     | SeatSpeaker s \<Rightarrow> seat_sender (s\<lparr> mr_space_id := prefixedSpace (mr_space_id s),
         mr_persona := (if truthy_str (mr_persona s) then mr_persona s else None) \<rparr>))"

lemma entry_prop:
  assumes "js_ok (jc_data c)" "k \<notin> set envelope_keys"
  shows "prop_of (ji_payload (entry_row c i s)) k = (if prop_of (jc_data c) k = JUndef then JUndef else wire (prop_of (jc_data c) k))"
  using row_prop [OF assms, of i "[]" s] by (simp add: numbered_row_def)

lemma fromSeat_stamped:
  assumes "prop_of data ''from'' = wire (from_json sp)"
  shows "fromSeat data roster = shown_sender sp"
proof (cases sp)
  case (SeatSpeaker seat)
  obtain i space_id persona where "seat = \<lparr> mr_participant_id = i, mr_space_id = space_id, mr_persona = persona \<rparr>"
    by (cases seat)
  note x = SeatSpeaker [unfolded this]
  show ?thesis
  proof (cases "truthy_str persona")
    case True
    then obtain q where "persona = Some q" by (cases persona) (auto simp: truthy_str_def)
    then show ?thesis
      using True by (simp add: assms x fromSeat_def from_json_def shown_sender_def js_simps opt_str_def Let_def opt_default_def)
  qed (simp add: assms x fromSeat_def from_json_def shown_sender_def js_simps Let_def opt_default_def)
qed (simp add: assms fromSeat_def from_json_def shown_sender_def js_simps meetingSpeakerLabel_def Let_def opt_default_def)

text \<open>
  C29. Who a message is from, as everybody reads it in the transcript, is the speaker the hub resolved when
  it admitted the message, under the message id it made - whatever the sender wrote into the fields
  \<open>from\<close> and \<open>message_id\<close> of its payload - as long as the payload has no nested object \<open>data\<close>.
\<close>

theorem sender_is_the_speaker:
  assumes "result (prepareMeetingSaid d inp) s = Inr (Some p)" "js_ok (si_payload inp)"
    and "asRecord (prop_of (si_payload inp) ''data'') = None" "jc_data c = pr_payload p"
  shows "fromSeat (meetingJournalData (entry_row c i t)) roster = shown_sender (pr_speaker p)
    \<and> prop_of (meetingJournalData (entry_row c i t)) ''message_id'' = JStr (pr_message_id p)"
proof
  have p: "pr_payload p = said_payload (si_payload inp) (pr_speaker p) (pr_message_id p)"
    using assms(1) by (auto simp: prepareMeetingSaid_def result_bind split: option.splits sum.splits)
  have ok: "js_ok (jc_data c)"
    by (simp add: assms(2,4) p said_payload_def spread_ok)
  have get: "prop_of (jc_data c) ''from'' = from_json (pr_speaker p)"
    "prop_of (jc_data c) ''message_id'' = JStr (pr_message_id p)"
    "prop_of (jc_data c) ''data'' = prop_of (si_payload inp) ''data''"
    by (simp_all add: assms(4) p said_payload_def prop_of_def js_get_spread split: speaker.splits)
  have "asRecord (wire v) = None" if "asRecord v = None" for v using that by (cases v) simp_all
  then have data: "meetingJournalData (entry_row c i t) = ji_payload (entry_row c i t)"
    using assms(3) by (simp add: meetingJournalData_def entry_prop [OF ok] envelope_keys_def get Let_def)
  have "from_json (pr_speaker p) \<noteq> JUndef" by (simp add: from_json_def split: speaker.splits)
  then show "fromSeat (meetingJournalData (entry_row c i t)) roster = shown_sender (pr_speaker p)"
    unfolding data by (intro fromSeat_stamped) (simp add: entry_prop [OF ok] envelope_keys_def get)
  show "prop_of (meetingJournalData (entry_row c i t)) ''message_id'' = JStr (pr_message_id p)"
    unfolding data by (simp add: entry_prop [OF ok] envelope_keys_def get)
qed

definition a_message :: said_input where
  "a_message = said_input_of (say ''spc_a'' None to_all) ''ses_s''
     (to_all @ [(''message_id'', JStr ''msg_old''), (''from'', JObj [(''human'', JBool True)])])"

definition as_entry :: "jobj \<Rightarrow> journal_call" where
  "as_entry payload = meeting_event ''mrmr.meeting.said'' ''spc_a'' ''ses_s'' ''alice'' ''t'' payload"

definition a_prepared :: "prepared_said option" where
  "a_prepared = (case result (prepareMeetingSaid (run_deps_of sample_events) a_message) open_meeting of Inr p \<Rightarrow> p | _ \<Rightarrow> None)"

theorem sender_is_the_speaker_witness:
  "\<exists>p. a_prepared = Some p \<and> speaker_id (pr_speaker p) = Some ''ptc_a''
     \<and> fromSeat (meetingJournalData (entry_row (as_entry (pr_payload p)) ''evt_1'' open_meeting)) [] = shown_sender (pr_speaker p)"
proof -
  have "case a_prepared of None \<Rightarrow> False | Some p \<Rightarrow> speaker_id (pr_speaker p) = Some ''ptc_a''" by code_simp
  then obtain p where p: "a_prepared = Some p" "speaker_id (pr_speaker p) = Some ''ptc_a''"
    by (auto split: option.splits)
  then have "result (prepareMeetingSaid (run_deps_of sample_events) a_message) open_meeting = Inr (Some p)"
    by (auto simp: a_prepared_def split: sum.splits)
  moreover have "js_ok (si_payload a_message)" "asRecord (prop_of (si_payload a_message) ''data'') = None"
    by code_simp+
  moreover have "jc_data (as_entry (pr_payload p)) = pr_payload p" by (simp add: as_entry_def meeting_event_def)
  ultimately show ?thesis using p sender_is_the_speaker by blast
qed

text \<open>
  With a nested \<open>data\<close> the stamp is lost: the space \<open>a\<close> speaks, and everybody reads that the human chair
  did, under a message id of the sender's choice.
\<close>

definition forged :: jobj where
  "forged = to_all @ [(''data'', JObj [(''message_id'', JStr ''msg_x''), (''from'', JObj [(''human'', JBool True)]),
     (''text'', JStr ''approved'')])]"

definition messages_of :: "room \<Rightarrow> string \<Rightarrow> (string \<times> sender \<times> string option) list" where
  "messages_of s ses = map (\<lambda>m. (mg_message_id m, mg_from m, mg_text m))
     (js_values (transcript_messages s ses (mt_roster (meeting_of HumanChair))))"

theorem sender_can_be_forged:
  "messages_of (final (emitAndDeliver sample_events (say ''spc_a'' None forged)) open_meeting) ''ses_s''
     = [(''msg_x'', HumanSender ''human chair'', Some ''approved'')]"
  by code_simp

text \<open>
  A session id with another prefix names no meeting but is journaled under the same session: a space
  without a seat speaks in the meeting.
\<close>

definition from_outside :: emit_input where
  "from_outside = (say ''spc_c'' None (to_all @ [(''message_id'', JStr ''msg_x'')]))\<lparr> ei_session_id := Some ''x_s'' \<rparr>"

theorem outsider_can_speak:
  "map fst (messages_of (final (emitAndDeliver sample_events from_outside) open_meeting) ''ses_s'') = [''msg_x'']"
  by code_simp

end
