(* ===== verification/SeatProperties.thy ===== *)
theory SeatProperties
  imports MeetingProperties
begin

text \<open>
  What delivery promises: one receipt for each target of a message, one run for each event and handler,
  and each message written to a live seat once.
\<close>

section \<open>Receipts\<close>

definition is_receipt :: "journal_row \<Rightarrow> bool" where
  "is_receipt r \<longleftrightarrow> ji_type r = ''mrmr.meeting.delivered'' \<or> ji_type r = ''mrmr.meeting.delivery_failed''"

definition receipt_key :: "journal_row \<Rightarrow> json \<times> json" where
  "receipt_key r = (prop_of (ji_payload r) ''message_id'', prop_of (ji_payload r) ''participant_id'')"

definition receipts :: "room \<Rightarrow> (json \<times> json) list" where
  "receipts s = map receipt_key (filter is_receipt (rm_index s))"

lemma receipts_set_seq: "map receipt_key (filter is_receipt (set_seq i n rs)) = map receipt_key (filter is_receipt rs)"
  by (induction rs) (auto simp: is_receipt_def receipt_key_def)

lemma receipts_about: "about_rooms (\<lambda>s. receipts s = R)"
  by (simp add: about_rooms_def rooms_of_def receipts_def)

lemma receipts_entry:
  "receipts (final (append_entry c i) s) = receipts s @
     (if fits_inline c i s \<and> is_receipt (entry_row c i s) then [receipt_key (entry_row c i s)] else [])"
  by (simp add: append_entry_views with_entry_def receipts_def)

lemma entry_row_type: "ji_type (entry_row c i s) = jc_type c"
  by (simp add: entry_row_def Let_def)

interpretation receipts: room_frame "\<lambda>s. receipts s = R" for R
proof
  show "about_rooms (\<lambda>s. receipts s = R)" by (rule receipts_about)
  show "keeps (\<lambda>s. receipts s = R) (append_entry c i)" if "\<not> is_meeting_type (jc_type c)" for c i
    using that
    by (intro keepsI) (auto simp: receipts_entry is_receipt_def entry_row_type is_meeting_type_def starts_with_def)
qed

lemma receipt_entered:
  assumes "result (appendMeetingEvent d c None) s = Done e" "js_ok (jc_data c)"
    and "jc_type c = ''mrmr.meeting.delivered'' \<or> jc_type c = ''mrmr.meeting.delivery_failed''"
    and "prop_of (jc_data c) ''message_id'' = JStr m" "prop_of (jc_data c) ''participant_id'' = JStr p"
  shows "receipts (final (appendMeetingEvent d c None) s) = receipts s @ [(JStr m, JStr p)]"
proof -
  let ?n = "opt_default [] (jc_session_id c)"
  let ?k = "result (allocateMeetingSeq ?n) s" and ?u = "final (allocateMeetingSeq ?n) s"
  define i where "i = ''evt_'' @ result (on_hub (ulid d)) ?u"
  define t where "t = final (on_hub (ulid d)) ?u"
  have t: "receipts t = receipts s"
    by (simp add: t_def final_on_hub receipts_def) (simp add: allocateMeetingSeq_def final_def Let_def)
  have run: "result (appendMeetingEvent d c None) s = result (after (append_entry c i) (\<lambda>seq. do {
         _ \<leftarrow> act (setJournalIndexMeetingSeq i ?k);
         State_Monad.return (Done \<lparr> en_seq = seq, en_entry_id = i, en_meeting_seq = ?k \<rparr>) })) t"
    "final (appendMeetingEvent d c None) s = final (after (append_entry c i) (\<lambda>seq. do {
         _ \<leftarrow> act (setJournalIndexMeetingSeq i ?k);
         State_Monad.return (Done \<lparr> en_seq = seq, en_entry_id = i, en_meeting_seq = ?k \<rparr>) })) t"
    by (simp_all add: appendMeetingEvent_def result_bind final_bind i_def t_def)
  have fits: "fits_inline c i t"
    using assms(1) unfolding run run_after by (auto simp: append_entry_views split: if_splits)
  have key: "receipt_key (entry_row c i t) = (JStr m, JStr p)"
    using assms(4,5) by (simp add: receipt_key_def entry_prop [OF assms(2)] envelope_keys_def)
  show ?thesis
    unfolding run run_after using fits assms(3) t key
    by (simp add: append_entry_views final_bind setJournalIndexMeetingSeq_def receipts_def receipts_set_seq with_entry_def
        is_receipt_def entry_row_type)
qed

lemma receipt_of_seat:
  "result (appendMeetingDelivered d r seat) s = Done e \<Longrightarrow>
    receipts (final (appendMeetingDelivered d r seat) s) = receipts s @ [(JStr (ro_message_id r), JStr (mr_participant_id seat))]"
  "result (appendMeetingDeliveryFailed d r seat reason) s = Done e \<Longrightarrow>
    receipts (final (appendMeetingDeliveryFailed d r seat reason) s)
      = receipts s @ [(JStr (ro_message_id r), JStr (mr_participant_id seat))]"
  unfolding appendMeetingDelivered_def appendMeetingDeliveryFailed_def
  by (rule receipt_entered; simp add: meeting_event_def js_ok_def)+

lemma woken_receipts: "receipts (final (wake_handlers d dv hs acc) s) = receipts s"
  using keepsD [OF receipts.keeps_wake, of s "receipts s" d dv hs acc] by simp

lemma target_receipt:
  assumes "result (dispatch_said_target d a ev r seat) s = Done e"
  shows "receipts (final (dispatch_said_target d a ev r seat) s)
    = receipts s @ [(JStr (ro_message_id r), JStr (mr_participant_id seat))]"
  using assms
  by (auto simp: dispatch_said_target_def ask_studio_def result_bind final_bind run_after woken_receipts receipt_of_seat
      split: if_splits outcome.splits prod.splits)

text \<open>
  C26. When the targets of a message have been dispatched, the journal holds exactly one receipt for each of
  them - delivered or failed - in the order of the targets, under the id of the message; whatever the
  handlers do in between adds no other receipt.
\<close>

theorem one_receipt_per_target:
  assumes "result (dispatchMeetingSaidTargets d a ev p) s = Done ()"
  shows "receipts (final (dispatchMeetingSaidTargets d a ev p) s)
    = receipts s @ map (\<lambda>seat. (JStr (pr_message_id p), JStr (mr_participant_id seat))) (pr_targets p)"
proof -
  define r where "r = \<lparr> ro_session_id = opt_default (mt_session_id (pr_meeting p)) (he_session_id ev),
    ro_message_id = pr_message_id p, ro_actor_id = oa_actor_id a, ro_token_id = oa_token_id a \<rparr>"
  have "result (each_target (dispatch_said_target d a ev r) seats) s = Done () \<Longrightarrow>
    receipts (final (each_target (dispatch_said_target d a ev r) seats) s)
      = receipts s @ map (\<lambda>seat. (JStr (ro_message_id r), JStr (mr_participant_id seat))) seats" for seats
  proof (induction seats arbitrary: s)
    case (Cons x xs)
    obtain e where e: "result (dispatch_said_target d a ev r x) s = Done e"
      using Cons.prems by (auto simp: run_after split: outcome.splits)
    then show ?case
      using Cons.IH [of "final (dispatch_said_target d a ev r x) s"] Cons.prems target_receipt [OF e]
      by (simp add: run_after)
  qed simp
  then show ?thesis using assms by (simp add: dispatchMeetingSaidTargets_def r_def)
qed

definition listening :: room where
  "listening = open_meeting\<lparr> rm_hub := (rm_hub open_meeting)\<lparr> hb_studio := (hb_studio (rm_hub open_meeting))\<lparr>
     sd_hooks := [(''b'', [HandlerRow b_handler])] \<rparr> \<rparr> \<rparr>"

definition said_event :: hook_event where
  "said_event = \<lparr> he_event_id = ''evt_1'', he_event_type = ''mrmr.meeting.said'', he_space_id = ''spc_a'', he_source = None,
     he_payload = to_all, he_session_id = Some ''ses_s'', he_participant = None, he_participant_id = None \<rparr>"

definition to_both :: prepared_said where
  "to_both = \<lparr> pr_payload = to_all, pr_speaker = HumanSpeaker, pr_targets = mt_roster (meeting_of HumanChair),
     pr_message_id = ''msg_1'', pr_meeting = meeting_of HumanChair \<rparr>"

definition by_alice :: on_authority where
  "by_alice = \<lparr> oa_actor_id = ''alice'', oa_token_id = ''t'', oa_capabilities = [''flow:run''] \<rparr>"

theorem one_receipt_per_target_witness:
  "receipts (final (dispatchMeetingSaidTargets sample_events by_alice said_event to_both) listening)
    = [(JStr ''msg_1'', JStr ''ptc_a''), (JStr ''msg_1'', JStr ''ptc_b'')]"
proof -
  have "result (dispatchMeetingSaidTargets sample_events by_alice said_event to_both) listening = Done ()"
    by code_simp
  then show ?thesis
    by (simp add: one_receipt_per_target)
       (simp add: receipts_def listening_def open_meeting_def no_room_def empty_room_def to_both_def meeting_of_def seat_at_def)
qed

section \<open>One run for an event and a handler\<close>


text \<open>What the rest of a delivery leaves alone: the studio.\<close>

definition studio_is :: "studio \<Rightarrow> room \<Rightarrow> bool" where
  "studio_is st s \<longleftrightarrow> hb_studio (rm_hub s) = st"

lemma keeps_studio_live [keeps_intros]: "keeps (studio_is st) (on_live f)"
  by (intro keepsI) (simp add: on_live_def studio_is_def)

lemma keeps_studio_invoke [keeps_intros]: "keeps (studio_is st) (invoke_action d call)"
  by (intro keepsI) (simp add: invoke_action_def final_bind studio_is_def)

lemma keeps_studio_announce [keeps_intros]: "keeps (studio_is st) (announce d dv h key ses run_id)"
proof (rule keepsI)
  fix s assume "studio_is st s"
  moreover have "hb_studio (rm_hub (final (append_entry c i) t)) = hb_studio (rm_hub t)" for c i t
    by (simp add: append_entry_views with_entry_def)
  moreover have "hb_studio (rm_hub (final (on_hub (ulid d')) t)) = hb_studio (rm_hub t)" for d' t
    by (simp add: final_on_hub) (simp add: ulid_def final_def)
  ultimately show "studio_is st (final (announce d dv h key ses run_id) s)"
    by (simp add: announce_def run_after append_space_journal_def final_bind studio_is_def split: outcome.splits)
qed







section \<open>Live seats\<close>









end
