(* ===== verification/Uploads.thy ===== *)
theory Uploads
  imports RunService BranchContract ExecContext
begin

text \<open>
  Uploads of artifacts (\<open>hub-daemon/src/upload-intent-service.ts\<close>, class \<open>UploadIntentService\<close>): a
  caller declares the files of a resolution as an intent, transfers them one by one, and the
  resolution takes them over. An intent lives in memory and on the disk of the hub, so that it is
  there after a restart, and expires when nothing happens to it for an hour. File contents are
  texts, and \<open>upload_deps\<close> holds what is outside: identifiers, the clock, SHA-256, and what the hub
  finds below the directory of the runs of a space whenever it looks.
\<close>

section \<open>Intents\<close>

record upload_file =
  uf_slot :: string
  uf_name :: string
  uf_media_type :: string
  uf_size_bytes :: nat

datatype intent_state = IntentOpen | IntentPrepared

record upload_intent =
  ui_intent_id :: string
  ui_run_id :: string
  ui_step_id :: string
  ui_branch :: string
  ui_space_id :: string
  ui_space_root :: string
  ui_actor_id :: string
  ui_token_id :: string
  ui_idempotency_key :: string
  ui_files :: "upload_file list"
  ui_uploaded :: "bool list"
  ui_received_bytes :: "nat list"
  ui_hashes :: "string option list"
  ui_created_at :: nat
  ui_updated_at :: nat
  ui_state :: intent_state

record issue_input =
  is_run_id :: string
  is_step_id :: string
  is_branch :: string
  is_space_id :: string
  is_space_root :: string
  is_actor_id :: string
  is_token_id :: string
  is_idempotency_key :: string
  is_files :: "upload_file list"

record upload_attempt =
  ua_run_id :: string
  ua_step_id :: string
  ua_branch :: string
  ua_slot :: string
  ua_filename :: string
  ua_declared_media_type :: string
  ua_received_bytes :: nat
  ua_hash :: "string option"
  ua_failure_code :: "string option"
  ua_failure_stage :: "string option"
  ua_actor_id :: string
  ua_timestamp :: nat

text \<open>\<open>UploadIntentError\<close>, and any other exception.\<close>

datatype upload_error = UploadError string string nat | UploadThrew string

fun error_code :: "upload_error \<Rightarrow> string" where
  "error_code (UploadError c m h) = c"
| "error_code (UploadThrew m) = ''UPLOAD_FAILED''"

section \<open>The service\<close>

text \<open>
  The maps of the service, and the disk: a directory for every intent, with its record (\<open>None\<close> when
  it cannot be read) and the files that were transferred; the working directories of steps, by
  space root, run and step; the log of attempts.
\<close>

type_synonym workdir = "string \<times> string \<times> string"

record uploads =
  up_records :: "(string, upload_intent) jsmap"
  up_idempotency :: "(string, string) jsmap"
  up_saved :: "(string, upload_intent option) jsmap"
  up_stored :: "(string \<times> nat, string) jsmap"
  up_work :: "(workdir \<times> string, string) jsmap"
  up_attempts :: "upload_attempt list"
  up_ulids :: nat
  up_readings :: nat

datatype fs_tree = FsFile nat | FsDir "(string \<times> fs_tree) list" | FsOther

record upload_deps =
  ud_ulid :: "nat \<Rightarrow> string"
  ud_now :: "nat \<Rightarrow> nat"
  ud_sha256 :: "string \<Rightarrow> string"
  ud_runs_dir :: "nat \<Rightarrow> string \<Rightarrow> (string \<times> fs_tree) list"

definition init_uploads :: uploads where
  "init_uploads = \<lparr> up_records = [], up_idempotency = [], up_saved = [], up_stored = [], up_work = [],
     up_attempts = [], up_ulids = 0, up_readings = 0 \<rparr>"

definition UPLOAD_IDLE_LEASE_MS :: nat where "UPLOAD_IDLE_LEASE_MS = 60 * 60 * 1000"
definition MAX_ARTIFACT_FILE_BYTES :: nat where "MAX_ARTIFACT_FILE_BYTES = 25 * 1024 * 1024"
definition MAX_STEP_RESOLUTION_BYTES :: nat where "MAX_STEP_RESOLUTION_BYTES = 50 * 1024 * 1024"
definition MAX_RUN_ARTIFACT_BYTES :: nat where "MAX_RUN_ARTIFACT_BYTES = 250 * 1024 * 1024"
definition MAX_SPACE_ARTIFACT_BYTES :: nat where "MAX_SPACE_ARTIFACT_BYTES = 2 * 1024 * 1024 * 1024"

text \<open>What a directory holds: its files, at any depth.\<close>

fun tree_bytes :: "fs_tree \<Rightarrow> nat" where
  "tree_bytes (FsFile n) = n"
| "tree_bytes (FsDir es) = sum_list (map (\<lambda>e. tree_bytes (snd e)) es)"
| "tree_bytes FsOther = 0"

definition directoryBytes :: "(string \<times> fs_tree) list \<Rightarrow> nat" where
  "directoryBytes es = sum_list (map (\<lambda>e. tree_bytes (snd e)) es)"

definition space_bytes :: "upload_deps \<Rightarrow> uploads \<Rightarrow> string \<Rightarrow> nat" where
  "space_bytes d s root = directoryBytes (ud_runs_dir d (up_readings s) root)"

definition run_bytes :: "upload_deps \<Rightarrow> uploads \<Rightarrow> string \<Rightarrow> string \<Rightarrow> nat" where
  "run_bytes d s root run_id =
     (case map_of (ud_runs_dir d (up_readings s) root) (prefixedRun run_id) of
        Some (FsDir es) \<Rightarrow> directoryBytes es | _ \<Rightarrow> 0)"

definition stepWorkdirPath :: "string \<Rightarrow> string \<Rightarrow> string \<Rightarrow> workdir" where
  "stepWorkdirPath root run_id step_id = (root, prefixedRun run_id, step_id)"

text \<open>The clock is read; the files of an intent; what its files and those of other intents reserve.\<close>

definition clock_now :: "upload_deps \<Rightarrow> uploads \<Rightarrow> nat" where
  "clock_now d s = ud_now d (up_readings s)"

definition tick :: "uploads \<Rightarrow> uploads" where
  "tick s = s\<lparr> up_readings := Suc (up_readings s) \<rparr>"

definition files_total :: "upload_file list \<Rightarrow> nat" where
  "files_total fs = sum_list (map uf_size_bytes fs)"

definition reserved :: "(upload_intent \<Rightarrow> bool) \<Rightarrow> uploads \<Rightarrow> nat" where
  "reserved P s = sum_list (map (\<lambda>r. files_total (ui_files r)) (filter P (js_values (up_records s))))"

definition binding_key :: "string \<Rightarrow> string \<Rightarrow> string \<Rightarrow> string \<Rightarrow> string" where
  "binding_key actor run_id step_id key = actor @ '':'' @ run_id @ '':'' @ step_id @ '':'' @ key"

definition intent_key :: "upload_intent \<Rightarrow> string" where
  "intent_key r = binding_key (ui_actor_id r) (ui_run_id r) (ui_step_id r) (ui_idempotency_key r)"

definition sameBinding :: "upload_intent \<Rightarrow> issue_input \<Rightarrow> bool" where
  "sameBinding r inp \<longleftrightarrow> ui_branch r = is_branch inp \<and> ui_space_id r = is_space_id inp \<and> ui_files r = is_files inp"

section \<open>Records on disk\<close>

definition persist :: "upload_intent \<Rightarrow> uploads \<Rightarrow> uploads" where
  "persist r s = s\<lparr> up_saved := js_set (ui_intent_id r) (Some r) (up_saved s) \<rparr>"

text \<open>A record is changed in place and then written.\<close>

definition update_record :: "upload_intent \<Rightarrow> uploads \<Rightarrow> uploads" where
  "update_record r s = persist r (s\<lparr> up_records := js_set (ui_intent_id r) r (up_records s) \<rparr>)"

definition remove_intent :: "string \<Rightarrow> uploads \<Rightarrow> uploads" where
  "remove_intent i s = s\<lparr>
     up_idempotency := (case js_get (up_records s) i of
        None \<Rightarrow> up_idempotency s | Some r \<Rightarrow> js_delete (intent_key r) (up_idempotency s)),
     up_records := js_delete i (up_records s),
     up_saved := js_delete i (up_saved s),
     up_stored := filter (\<lambda>((j, _), _). j \<noteq> i) (up_stored s) \<rparr>"

definition nth_or :: "'a \<Rightarrow> 'a list \<Rightarrow> nat \<Rightarrow> 'a" where
  "nth_or x xs n = (if n < length xs then xs ! n else x)"

definition diagnostic ::
    "upload_deps \<Rightarrow> upload_intent \<Rightarrow> nat \<Rightarrow> string option \<Rightarrow> string option \<Rightarrow> nat option \<Rightarrow> uploads \<Rightarrow> uploads" where
  "diagnostic d r index code stage received s =
     (if length (ui_files r) \<le> index then s
      else let f = ui_files r ! index; h = nth_or None (ui_hashes r) index in
        (tick s)\<lparr> up_attempts := up_attempts s @ [\<lparr>
           ua_run_id = ui_run_id r, ua_step_id = ui_step_id r, ua_branch = ui_branch r, ua_slot = uf_slot f,
           ua_filename = uf_name f, ua_declared_media_type = uf_media_type f,
           ua_received_bytes = opt_default (nth_or 0 (ui_received_bytes r) index) received,
           ua_hash = (if truthy_str h then h else None),
           ua_failure_code = (if truthy_str code then code else None),
           ua_failure_stage = (if truthy_str stage then stage else None),
           ua_actor_id = ui_actor_id r, ua_timestamp = clock_now d s \<rparr>] \<rparr>)"

section \<open>Ending an intent\<close>

definition staged_name :: "nat \<Rightarrow> string \<Rightarrow> string" where
  "staged_name index name = nat_str index @ ''-'' @ name"

definition staged_keys :: "upload_intent \<Rightarrow> (workdir \<times> string) list" where
  "staged_keys r = map (\<lambda>(i, f). (stepWorkdirPath (ui_space_root r) (ui_run_id r) (ui_step_id r), staged_name i (uf_name f)))
     (enumerate 0 (ui_files r))"

definition abandon :: "upload_deps \<Rightarrow> string \<Rightarrow> string \<Rightarrow> string \<Rightarrow> uploads \<Rightarrow> uploads" where
  "abandon d i code stage s =
     remove_intent i (case js_get (up_records s) i of
        None \<Rightarrow> s
      | Some r \<Rightarrow>
          (let noted = fold (\<lambda>n. diagnostic d r n (Some code) (Some stage) None) [0..<length (ui_files r)] s in
           if ui_state r = IntentPrepared
           then noted\<lparr> up_work := fold js_delete (staged_keys r) (up_work noted) \<rparr>
           else noted))"

definition consume :: "string \<Rightarrow> uploads \<Rightarrow> uploads" where
  "consume i s = remove_intent i s"

definition lease_over :: "nat \<Rightarrow> upload_intent \<Rightarrow> bool" where
  "lease_over now r \<longleftrightarrow> int now - int (ui_updated_at r) \<ge> int UPLOAD_IDLE_LEASE_MS"

definition sweepExpired :: "upload_deps \<Rightarrow> uploads \<Rightarrow> nat \<times> uploads" where
  "sweepExpired d s =
     (let expired = filter (lease_over (clock_now d s)) (js_values (up_records s)) in
      (length expired,
       fold (\<lambda>r. abandon d (ui_intent_id r) ''UPLOAD_INTENT_EXPIRED'' ''lease'') expired (tick s)))"

text \<open>\<open>requireOpen\<close>: the record, if it is the caller's, open and within its lease.\<close>

definition requireOpen ::
    "upload_deps \<Rightarrow> string \<Rightarrow> string \<Rightarrow> string \<Rightarrow> uploads \<Rightarrow> (upload_error + upload_intent) \<times> uploads" where
  "requireOpen d i actor token s =
     (case js_get (up_records s) i of
        None \<Rightarrow> (Inl (UploadError ''UPLOAD_INTENT_NOT_FOUND'' ''Upload intent not found or expired'' 410), s)
      | Some r \<Rightarrow>
          if ui_actor_id r \<noteq> actor \<or> ui_token_id r \<noteq> token
          then (Inl (UploadError ''UPLOAD_INTENT_FORBIDDEN'' ''Upload intent belongs to another actor'' 403), s)
          else if ui_state r \<noteq> IntentOpen
          then (Inl (UploadError ''UPLOAD_INTENT_CONSUMED'' ''Upload intent has already been prepared or consumed'' 409), s)
          else if lease_over (clock_now d s) r
          then (Inl (UploadError ''UPLOAD_INTENT_EXPIRED'' ''Upload intent lease expired'' 410),
                abandon d i ''UPLOAD_INTENT_EXPIRED'' ''lease'' (tick s))
          else (Inr r, tick s))"

section \<open>Issuing\<close>

definition quota_error :: "string \<Rightarrow> upload_error" where
  "quota_error m = UploadError ''ARTIFACT_QUOTA_EXCEEDED'' m 413"

definition quota_of :: "upload_deps \<Rightarrow> uploads \<Rightarrow> issue_input \<Rightarrow> upload_error option" where
  "quota_of d s inp =
     (let total = files_total (is_files inp) in
      if \<exists>f \<in> set (is_files inp). uf_size_bytes f > MAX_ARTIFACT_FILE_BYTES
      then Some (quota_error ''A file exceeds the 25 MiB ceiling'')
      else if total > MAX_STEP_RESOLUTION_BYTES
      then Some (quota_error ''Submission exceeds the 50 MiB step ceiling'')
      else if run_bytes d s (is_space_root inp) (is_run_id inp) + reserved (\<lambda>r. ui_run_id r = is_run_id inp) s + total
              > MAX_RUN_ARTIFACT_BYTES
      then Some (quota_error ''Run artifact quota exceeded'')
      else if space_bytes d s (is_space_root inp) + reserved (\<lambda>r. ui_space_id r = is_space_id inp) s + total
              > MAX_SPACE_ARTIFACT_BYTES
      then Some (quota_error ''Space artifact quota exceeded'')
      else None)"

definition new_intent :: "string \<Rightarrow> nat \<Rightarrow> issue_input \<Rightarrow> upload_intent" where
  "new_intent i ts inp = \<lparr> ui_intent_id = i, ui_run_id = is_run_id inp, ui_step_id = is_step_id inp,
     ui_branch = is_branch inp, ui_space_id = is_space_id inp, ui_space_root = is_space_root inp,
     ui_actor_id = is_actor_id inp, ui_token_id = is_token_id inp, ui_idempotency_key = is_idempotency_key inp,
     ui_files = is_files inp, ui_uploaded = map (\<lambda>_. False) (is_files inp),
     ui_received_bytes = map (\<lambda>_. 0) (is_files inp), ui_hashes = map (\<lambda>_. None) (is_files inp),
     ui_created_at = ts, ui_updated_at = ts, ui_state = IntentOpen \<rparr>"

definition issue :: "upload_deps \<Rightarrow> issue_input \<Rightarrow> uploads \<Rightarrow> (upload_error + upload_intent) \<times> uploads" where
  "issue d inp s =
     (let key = binding_key (is_actor_id inp) (is_run_id inp) (is_step_id inp) (is_idempotency_key inp) in
      case js_get (up_idempotency s) key of
        Some i \<Rightarrow>
          (case js_get (up_records s) i of
             Some r \<Rightarrow> if sameBinding r inp then (Inr r, s)
               else (Inl (UploadError ''UPLOAD_INTENT_REPLAY_MISMATCH''
                 ''Idempotency key is already bound to different upload metadata'' 409), s)
           | None \<Rightarrow> (Inl (UploadError ''UPLOAD_INTENT_REPLAY_MISMATCH''
                 ''Idempotency key is already bound to different upload metadata'' 409), s))
      | None \<Rightarrow>
          (case quota_of d s inp of
             Some e \<Rightarrow> (Inl e, s)
           | None \<Rightarrow>
               (let r = new_intent (''upi_'' @ ud_ulid d (up_ulids s)) (clock_now d s) inp in
                (Inr r, update_record r ((tick s)\<lparr> up_ulids := Suc (up_ulids s),
                   up_idempotency := js_set key (ui_intent_id r) (up_idempotency s) \<rparr>)))))"

section \<open>Transferring\<close>

record accept_input =
  ac_intent_id :: string
  ac_index :: nat
  ac_actor_id :: string
  ac_token_id :: string
  ac_bytes :: string

definition not_declared :: upload_error where
  "not_declared = UploadError ''UPLOAD_FILE_NOT_FOUND'' ''Upload file index is not declared'' 404"

definition accepted :: "upload_deps \<Rightarrow> accept_input \<Rightarrow> nat \<Rightarrow> upload_intent \<Rightarrow> upload_intent" where
  "accepted d inp ts r = r\<lparr> ui_uploaded := (ui_uploaded r)[ac_index inp := True],
     ui_received_bytes := (ui_received_bytes r)[ac_index inp := length (ac_bytes inp)],
     ui_hashes := (ui_hashes r)[ac_index inp := Some (ud_sha256 d (ac_bytes inp))], ui_updated_at := ts \<rparr>"

text \<open>
  The transfer itself: it waits for the disk, so it ends later than it was checked. The record it was
  checked with is the object in the map, or one that was removed from the map in between.
\<close>

definition write_accepted :: "upload_deps \<Rightarrow> accept_input \<Rightarrow> upload_intent \<Rightarrow> uploads \<Rightarrow> uploads" where
  "write_accepted d inp r s =
     (let i = ui_intent_id r; now = opt_default r (js_get (up_records s) i);
          r' = accepted d inp (clock_now d s) now;
          written = (tick s)\<lparr> up_stored := js_set (i, ac_index inp) (ac_bytes inp) (up_stored s) \<rparr> in
      diagnostic d r' (ac_index inp) None None None
        (if js_has (up_records s) i then update_record r' written else persist r' written))"

definition acceptFile :: "upload_deps \<Rightarrow> accept_input \<Rightarrow> uploads \<Rightarrow> (upload_error + nat) \<times> uploads" where
  "acceptFile d inp s =
     (case requireOpen d (ac_intent_id inp) (ac_actor_id inp) (ac_token_id inp) s of
        (Inl e, s1) \<Rightarrow> (Inl e, s1)
      | (Inr r, s1) \<Rightarrow>
          (let index = ac_index inp; bytes = ac_bytes inp in
           if length (ui_files r) \<le> index then (Inl not_declared, s1)
           else if nth_or False (ui_uploaded r) index
           then (if nth_or None (ui_hashes r) index = Some (ud_sha256 d bytes)
                   \<and> nth_or 0 (ui_received_bytes r) index = length bytes
                 then (Inr (length bytes), update_record (r\<lparr> ui_updated_at := clock_now d s1 \<rparr>) (tick s1))
                 else (Inl (UploadError ''UPLOAD_FILE_REPLAY_MISMATCH''
                   ''Uploaded bytes do not match the accepted file'' 409), s1))
           else if length bytes \<noteq> uf_size_bytes (ui_files r ! index)
           then (Inl (UploadError ''UPLOAD_SIZE_MISMATCH'' ''Received bytes do not match declared size'' 400),
                 diagnostic d r index (Some ''UPLOAD_SIZE_MISMATCH'') (Some ''transfer'') (Some (length bytes)) s1)
           else (Inr (length bytes), write_accepted d inp r s1)))"

definition authorizeFile ::
    "upload_deps \<Rightarrow> string \<Rightarrow> nat \<Rightarrow> string \<Rightarrow> string \<Rightarrow> uploads \<Rightarrow> (upload_error + upload_file) \<times> uploads" where
  "authorizeFile d i index actor token s =
     (case requireOpen d i actor token s of
        (Inl e, s1) \<Rightarrow> (Inl e, s1)
      | (Inr r, s1) \<Rightarrow>
          if length (ui_files r) \<le> index then (Inl not_declared, s1) else (Inr (ui_files r ! index), s1))"

definition getIntentScope :: "uploads \<Rightarrow> string \<Rightarrow> string \<Rightarrow> string \<Rightarrow> (string \<times> string \<times> string) option" where
  "getIntentScope s i actor token =
     (case js_get (up_records s) i of
        None \<Rightarrow> None
      | Some r \<Rightarrow> if ui_actor_id r \<noteq> actor \<or> ui_token_id r \<noteq> token then None
          else Some (ui_run_id r, ui_step_id r, ui_space_id r))"

definition recordTransferFailure ::
    "upload_deps \<Rightarrow> string \<Rightarrow> nat \<Rightarrow> string \<Rightarrow> string \<Rightarrow> string \<Rightarrow> uploads \<Rightarrow> (upload_error + unit) \<times> uploads" where
  "recordTransferFailure d i index actor token code s =
     (case requireOpen d i actor token s of
        (Inl e, s1) \<Rightarrow> (Inl e, s1)
      | (Inr r, s1) \<Rightarrow> (Inr (), diagnostic d r index (Some code) (Some ''transfer'') None s1))"

section \<open>Handing the files over\<close>

record upload_prepare =
  pp_intent_id :: string
  pp_run_id :: string
  pp_step_id :: string
  pp_branch :: string
  pp_actor_id :: string
  pp_token_id :: string
  pp_idempotency_key :: "string option"

text \<open>\<open>basename(normalize(name))\<close> of a relative path.\<close>

fun normal_parts :: "string list \<Rightarrow> string list \<Rightarrow> string list" where
  "normal_parts acc [] = acc"
| "normal_parts acc (p # ps) =
     (if p = [] \<or> p = ''.'' then normal_parts acc ps
      else if p = ''..'' then normal_parts (if acc = [] \<or> hd acc = ''..'' then ''..'' # acc else tl acc) ps
      else normal_parts (p # acc) ps)"

definition safe_name :: "string \<Rightarrow> string" where
  "safe_name name = (case normal_parts [] (split_on (CHR ''/'') name) of [] \<Rightarrow> ''.'' | p # _ \<Rightarrow> p)"

definition writeStepWorkdirFile ::
    "workdir \<Rightarrow> string \<Rightarrow> string \<Rightarrow> uploads \<Rightarrow> (upload_error + string) \<times> uploads" where
  "writeStepWorkdirFile dir name bytes s =
     (let safe = safe_name name in
      if safe = '''' \<or> safe = ''.'' \<or> safe = ''..'' then (Inl (UploadThrew ''Invalid artifact filename''), s)
      else (Inr safe, s\<lparr> up_work := js_set (dir, safe) bytes (up_work s) \<rparr>))"

fun stage_files ::
    "upload_intent \<Rightarrow> (nat \<times> upload_file) list \<Rightarrow> uploads \<Rightarrow> (upload_error + artifact_out list) \<times> uploads" where
  "stage_files r [] s = (Inr [], s)"
| "stage_files r ((i, f) # fs) s =
     (case js_get (up_stored s) (ui_intent_id r, i) of
        None \<Rightarrow> (Inl (UploadThrew ''ENOENT''), s)
      | Some bytes \<Rightarrow>
          (case writeStepWorkdirFile (stepWorkdirPath (ui_space_root r) (ui_run_id r) (ui_step_id r))
                  (staged_name i (uf_name f)) bytes s of
             (Inl e, s1) \<Rightarrow> (Inl e, s1)
           | (Inr path, s1) \<Rightarrow>
               (case stage_files r fs s1 of
                  (Inl e, s2) \<Rightarrow> (Inl e, s2)
                | (Inr outs, s2) \<Rightarrow> (Inr (\<lparr> ao_slot = uf_slot f, ao_path = path, ao_name = Some (uf_name f),
                     ao_media_type = Some (uf_media_type f), ao_size_bytes = Some (int (length bytes)) \<rparr> # outs), s2))))"

definition prepare_refusal :: "upload_deps \<Rightarrow> upload_prepare \<Rightarrow> upload_intent \<Rightarrow> uploads \<Rightarrow> upload_error option" where
  "prepare_refusal d inp r s =
     (if ui_run_id r \<noteq> pp_run_id inp \<or> ui_step_id r \<noteq> pp_step_id inp \<or> ui_branch r \<noteq> pp_branch inp
         \<or> Some (ui_idempotency_key r) \<noteq> pp_idempotency_key inp
      then Some (UploadError ''UPLOAD_INTENT_BINDING_MISMATCH'' ''Upload intent does not match this resolution'' 409)
      else if False \<in> set (ui_uploaded r)
      then Some (UploadError ''UPLOAD_INCOMPLETE'' ''All declared files must be uploaded before resolve'' 409)
      else if run_bytes d s (ui_space_root r) (ui_run_id r) + reserved (\<lambda>c. ui_run_id c = ui_run_id r) s
              > MAX_RUN_ARTIFACT_BYTES
      then Some (quota_error ''Run artifact quota exceeded'')
      else if space_bytes d s (ui_space_root r) + reserved (\<lambda>c. ui_space_id c = ui_space_id r) s
              > MAX_SPACE_ARTIFACT_BYTES
      then Some (quota_error ''Space artifact quota exceeded'')
      else None)"

definition prepareResolve ::
    "upload_deps \<Rightarrow> upload_prepare \<Rightarrow> uploads \<Rightarrow> (upload_error + artifact_out list) \<times> uploads" where
  "prepareResolve d inp s =
     (case requireOpen d (pp_intent_id inp) (pp_actor_id inp) (pp_token_id inp) s of
        (Inl e, s1) \<Rightarrow> (Inl e, s1)
      | (Inr r, s1) \<Rightarrow>
          (case prepare_refusal d inp r s1 of
             Some e \<Rightarrow> (Inl e, s1)
           | None \<Rightarrow>
               (case stage_files r (enumerate 0 (ui_files r)) s1 of
                  (Inl e, s2) \<Rightarrow> (Inl e, s2)
                | (Inr outs, s2) \<Rightarrow>
                    (Inr outs, update_record (r\<lparr> ui_state := IntentPrepared, ui_updated_at := clock_now d s2 \<rparr>) (tick s2)))))"

definition abandonAuthorized :: "upload_deps \<Rightarrow> string \<Rightarrow> string \<Rightarrow> string \<Rightarrow> uploads \<Rightarrow> (upload_error + unit) \<times> uploads" where
  "abandonAuthorized d i actor token s =
     (case js_get (up_records s) i of
        None \<Rightarrow> (Inl (UploadError ''UPLOAD_INTENT_NOT_FOUND'' ''Upload intent not found or expired'' 410), s)
      | Some r \<Rightarrow>
          if ui_actor_id r \<noteq> actor \<or> ui_token_id r \<noteq> token
          then (Inl (UploadError ''UPLOAD_INTENT_FORBIDDEN'' ''Upload intent belongs to another actor'' 403), s)
          else (Inr (), abandon d i ''UPLOAD_CANCELLED'' ''cancel'' s))"

section \<open>Restart\<close>

text \<open>The directories whose record can be read are loaded, the others removed.\<close>

definition load_entry :: "string \<times> upload_intent option \<Rightarrow> uploads \<Rightarrow> uploads" where
  "load_entry e s =
     (case e of
        (i, None) \<Rightarrow> s\<lparr> up_saved := js_delete i (up_saved s), up_stored := filter (\<lambda>((j, _), _). j \<noteq> i) (up_stored s) \<rparr>
      | (i, Some r) \<Rightarrow> s\<lparr> up_records := js_set (ui_intent_id r) r (up_records s),
          up_idempotency := js_set (intent_key r) (ui_intent_id r) (up_idempotency s) \<rparr>)"

definition loadRecords :: "uploads \<Rightarrow> uploads" where
  "loadRecords s = fold load_entry (filter (\<lambda>(i, _). starts_with i ''upi_'') (up_saved s)) s"

text \<open>A new process: the maps are empty, the disk is what the last one left.\<close>

definition restart :: "upload_deps \<Rightarrow> uploads \<Rightarrow> uploads" where
  "restart d s = snd (sweepExpired d (loadRecords (s\<lparr> up_records := [], up_idempotency := [] \<rparr>)))"

end
