(* ===== verification/UploadProofs.thy ===== *)
theory UploadProofs
  imports Uploads "HOL-Library.Multiset"
begin

text \<open>
  The invariant of the upload service: memory and disk hold the same intents, every key names the
  intent it was given to, the accepted files of an intent are on the disk as declared, and what
  intents reserve stays within the quotas. Every operation keeps it, and a restart finds it again.
\<close>

section \<open>Keyed sums\<close>

lemma js_get_in: "js_get m k = Some v \<Longrightarrow> (k, v) \<in> set m"
  unfolding js_get_def by (rule map_of_SomeD)

lemma map_update_same:
  "js_get m k = Some v \<Longrightarrow> g v' = g v \<Longrightarrow> map g (js_values (js_set k v' m)) = map g (js_values m)"
  unfolding js_get_def js_set_def js_values_def by (induction m) (auto split: if_splits)

lemma sum_delete_le:
  "sum_list (map f (filter P (js_values (js_delete k m)))) \<le> (sum_list (map f (filter P (js_values m))) :: nat)"
  unfolding js_delete_def js_values_def by (induction m) auto

lemma same_lookup_mset:
  assumes "js_ok m" and "js_ok m'" and "js_get m = js_get m'"
  shows "mset (js_values m) = mset (js_values m')"
proof -
  have in_iff: "x \<in> set n \<longleftrightarrow> js_get n (fst x) = Some (snd x)" if "js_ok n" for n :: "('a, 'b) jsmap" and x
    using that map_of_eq_Some_iff [of n "fst x" "snd x"] by (simp add: js_ok_def js_get_def)
  have "set m = set m'" using in_iff [OF assms(1)] in_iff [OF assms(2)] assms(3) by (intro set_eqI) simp
  moreover have "distinct m" "distinct m'" using assms(1,2) by (simp_all add: js_ok_def distinct_map)
  ultimately have "mset m = mset m'" using set_eq_iff_mset_eq_distinct by blast
  then show ?thesis unfolding js_values_def mset_map by (rule arg_cong)
qed

section \<open>The invariant\<close>

definition intent_fits :: "upload_deps \<Rightarrow> (string \<times> nat, string) jsmap \<Rightarrow> upload_intent \<Rightarrow> bool" where
  "intent_fits d stored r \<longleftrightarrow>
     length (ui_uploaded r) = length (ui_files r) \<and> length (ui_received_bytes r) = length (ui_files r)
     \<and> length (ui_hashes r) = length (ui_files r)
     \<and> (\<forall>n < length (ui_files r). ui_uploaded r ! n \<longrightarrow>
          (\<exists>bytes. js_get stored (ui_intent_id r, n) = Some bytes \<and> length bytes = uf_size_bytes (ui_files r ! n)
             \<and> ui_received_bytes r ! n = length bytes \<and> ui_hashes r ! n = Some (ud_sha256 d bytes)))"

definition on_disk :: "uploads \<Rightarrow> bool" where
  "on_disk s \<longleftrightarrow> js_ok (up_records s) \<and> js_ok (up_saved s)
     \<and> (\<forall>i. js_get (up_saved s) i = map_option Some (js_get (up_records s) i))"

definition indexed :: "uploads \<Rightarrow> bool" where
  "indexed s \<longleftrightarrow>
     (\<forall>i r. js_get (up_records s) i = Some r \<longrightarrow> ui_intent_id r = i \<and> js_get (up_idempotency s) (intent_key r) = Some i)
     \<and> (\<forall>k i. js_get (up_idempotency s) k = Some i \<longrightarrow> (\<exists>r. js_get (up_records s) i = Some r \<and> intent_key r = k))"

definition issued_before :: "upload_deps \<Rightarrow> uploads \<Rightarrow> bool" where
  "issued_before d s \<longleftrightarrow> (\<forall>i. js_has (up_records s) i \<longrightarrow> (\<exists>n < up_ulids s. i = ''upi_'' @ ud_ulid d n))"

definition files_kept :: "upload_deps \<Rightarrow> uploads \<Rightarrow> bool" where
  "files_kept d s \<longleftrightarrow> (\<forall>i r. js_get (up_records s) i = Some r \<longrightarrow> intent_fits d (up_stored s) r)"

definition within_quota :: "uploads \<Rightarrow> bool" where
  "within_quota s \<longleftrightarrow> (\<forall>x. reserved (\<lambda>r. ui_run_id r = x) s \<le> MAX_RUN_ARTIFACT_BYTES)
     \<and> (\<forall>x. reserved (\<lambda>r. ui_space_id r = x) s \<le> MAX_SPACE_ARTIFACT_BYTES)"

definition uploads_ok :: "upload_deps \<Rightarrow> uploads \<Rightarrow> bool" where
  "uploads_ok d s \<longleftrightarrow> on_disk s \<and> indexed s \<and> issued_before d s \<and> files_kept d s \<and> within_quota s"

lemmas uploads_ok_defs = uploads_ok_def on_disk_def indexed_def issued_before_def files_kept_def within_quota_def

lemma uploads_ok_init: "uploads_ok d init_uploads"
  by (simp add: uploads_ok_defs init_uploads_def js_has_def reserved_def js_values_def)

text \<open>The clock, the log of attempts and the working directories do not matter to it.\<close>

definition intents_of :: "uploads \<Rightarrow> (string, upload_intent) jsmap \<times> (string, string) jsmap \<times>
    (string, upload_intent option) jsmap \<times> (string \<times> nat, string) jsmap \<times> nat" where
  "intents_of s = (up_records s, up_idempotency s, up_saved s, up_stored s, up_ulids s)"

lemma ok_intents: "intents_of s = intents_of t \<Longrightarrow> uploads_ok d s = uploads_ok d t"
  by (simp add: uploads_ok_defs intents_of_def reserved_def)

lemma intents_tick [simp]: "intents_of (tick s) = intents_of s"
  by (simp add: intents_of_def tick_def)

lemma intents_work [simp]: "intents_of (s\<lparr> up_work := w \<rparr>) = intents_of s"
  by (simp add: intents_of_def)

lemma intents_diagnostic [simp]: "intents_of (diagnostic d r n c st b s) = intents_of s"
  by (simp add: intents_of_def diagnostic_def tick_def Let_def)

lemma intents_diagnostics [simp]: "intents_of (fold (\<lambda>n. diagnostic d r n c st b) ns s) = intents_of s"
  by (induction ns arbitrary: s) simp_all

lemma intents_write: "writeStepWorkdirFile dir name bytes s = (x, s') \<Longrightarrow> intents_of s' = intents_of s"
  by (auto simp: writeStepWorkdirFile_def Let_def split: if_splits)

lemma intents_stage: "stage_files r fs s = (x, s') \<Longrightarrow> intents_of s' = intents_of s"
proof (induction r fs s arbitrary: x s' rule: stage_files.induct)
  case (2 r i f fs s)
  then show ?case
    by (auto split: option.splits sum.splits prod.splits dest!: intents_write)
qed simp

lemma intents_eqD:
  "intents_of s = intents_of t \<Longrightarrow> up_records s = up_records t \<and> up_idempotency s = up_idempotency t
     \<and> up_saved s = up_saved t \<and> up_stored s = up_stored t \<and> up_ulids s = up_ulids t"
  by (simp add: intents_of_def)

section \<open>What the operations do to it\<close>

definition same_terms :: "upload_intent \<Rightarrow> upload_intent \<Rightarrow> bool" where
  "same_terms r r' \<longleftrightarrow> ui_intent_id r' = ui_intent_id r \<and> intent_key r' = intent_key r \<and> ui_files r' = ui_files r
     \<and> ui_run_id r' = ui_run_id r \<and> ui_space_id r' = ui_space_id r"

lemma reserved_update:
  assumes "js_get (up_records s) i = Some r" and "ui_files r' = ui_files r" and "P r' = P r"
  shows "reserved P (s\<lparr> up_records := js_set i r' (up_records s) \<rparr>) = reserved P s"
proof -
  have sum: "sum_list (map f (filter P xs)) = sum_list (map (\<lambda>r. if P r then f r else 0) xs)"
    for f :: "upload_intent \<Rightarrow> nat" and xs by (induction xs) auto
  show ?thesis unfolding reserved_def sum
    by (rule arg_cong [of _ _ sum_list], simp, rule map_update_same [OF assms(1)]) (simp add: assms)
qed

lemma reserved_remove: "reserved P (remove_intent i s) \<le> reserved P s"
  unfolding reserved_def remove_intent_def by (simp add: sum_delete_le)

lemma get_filter_key: "js_get (filter (\<lambda>((j, _), _). j \<noteq> i) m) (k, n) = (if k = i then None else js_get m (k, n))"
  unfolding js_get_def by (induction m) auto

lemma indexed_rec: "indexed s \<Longrightarrow> js_get (up_records s) i = Some r \<Longrightarrow>
    ui_intent_id r = i \<and> js_get (up_idempotency s) (intent_key r) = Some i"
  unfolding indexed_def by blast

lemma indexed_key: "indexed s \<Longrightarrow> js_get (up_idempotency s) k = Some i \<Longrightarrow>
    \<exists>r. js_get (up_records s) i = Some r \<and> intent_key r = k"
  unfolding indexed_def by blast

lemma indexedI:
  assumes "\<And>i r. js_get (up_records s) i = Some r \<Longrightarrow> ui_intent_id r = i \<and> js_get (up_idempotency s) (intent_key r) = Some i"
    and "\<And>k i. js_get (up_idempotency s) k = Some i \<Longrightarrow> \<exists>r. js_get (up_records s) i = Some r \<and> intent_key r = k"
  shows "indexed s"
  unfolding indexed_def using assms by blast

lemma indexed_remove:
  assumes "indexed s"
  shows "indexed (remove_intent i s)"
proof (cases "js_get (up_records s) i")
  case None
  have "j \<noteq> i" if "js_get (up_idempotency s) k = Some j" for k j
    using indexed_key [OF assms that] None by auto
  then show ?thesis using None indexed_rec [OF assms] indexed_key [OF assms]
    by (intro indexedI) (auto simp: remove_intent_def split: if_splits)
next
  case (Some r)
  have key: "js_get (up_idempotency s) (intent_key r) = Some i" using indexed_rec [OF assms Some] by simp
  have "intent_key q \<noteq> intent_key r" if "js_get (up_records s) j = Some q" "j \<noteq> i" for q j
    using indexed_rec [OF assms that(1)] key that(2) by auto
  moreover have "j \<noteq> i" if "js_get (up_idempotency s) k = Some j" "k \<noteq> intent_key r" for k j
    using indexed_key [OF assms that(1)] Some that(2) by auto
  ultimately show ?thesis using Some indexed_rec [OF assms] indexed_key [OF assms]
    by (intro indexedI) (auto simp: remove_intent_def split: if_splits)
qed

lemma ok_remove: "uploads_ok d s \<Longrightarrow> uploads_ok d (remove_intent i s)"
proof -
  assume ok: "uploads_ok d s"
  have "on_disk (remove_intent i s)" "issued_before d (remove_intent i s)"
    using ok by (simp_all add: uploads_ok_defs remove_intent_def js_has_def)
  moreover have "indexed (remove_intent i s)"
    by (rule indexed_remove) (use ok in \<open>simp add: uploads_ok_def\<close>)
  moreover have "files_kept d (remove_intent i s)"
    using ok unfolding uploads_ok_defs
    by (auto simp: remove_intent_def intent_fits_def get_filter_key split: if_splits)
  moreover have "within_quota (remove_intent i s)"
    using ok unfolding uploads_ok_def within_quota_def by (meson reserved_remove order_trans)
  ultimately show ?thesis unfolding uploads_ok_def by blast
qed

lemma ok_update:
  assumes "uploads_ok d s" and "js_get (up_records s) (ui_intent_id r) = Some r" and "same_terms r r'"
    and "intent_fits d (up_stored t) r'"
    and "t = s\<lparr> up_stored := stored, up_readings := n \<rparr>"
    and "\<And>i n. i \<noteq> ui_intent_id r \<Longrightarrow> js_get stored (i, n) = js_get (up_stored s) (i, n)"
  shows "uploads_ok d (update_record r' t)"
proof -
  let ?u = "update_record r' t"
  have rec: "up_records ?u = js_set (ui_intent_id r) r' (up_records s)" "up_stored ?u = stored"
    "up_idempotency ?u = up_idempotency s" "up_ulids ?u = up_ulids s"
    "up_saved ?u = js_set (ui_intent_id r) (Some r') (up_saved s)"
    using assms(3,5) by (simp_all add: update_record_def persist_def same_terms_def)
  have res: "reserved P ?u = reserved P s" if "P r' = P r" for P
  proof -
    have "reserved P ?u = reserved P (s\<lparr> up_records := js_set (ui_intent_id r) r' (up_records s) \<rparr>)"
      unfolding reserved_def rec by simp
    then show ?thesis
      using reserved_update [of s "ui_intent_id r" r r' P] assms(2,3) that by (simp add: same_terms_def)
  qed
  have "on_disk s" "issued_before d s" and ix: "indexed s" and kept: "files_kept d s" and quota: "within_quota s"
    using assms(1) by (simp_all add: uploads_ok_def)
  then have "on_disk ?u" "issued_before d ?u"
    using assms(2) by (simp_all add: on_disk_def issued_before_def rec js_has_def)
  moreover have "indexed ?u"
  proof -
    have same: "ui_intent_id r' = ui_intent_id r" "intent_key r' = intent_key r"
      using assms(3) by (simp_all add: same_terms_def)
    show ?thesis
    proof (rule indexedI)
      fix i q assume q: "js_get (up_records ?u) i = Some q"
      show "ui_intent_id q = i \<and> js_get (up_idempotency ?u) (intent_key q) = Some i"
      proof (cases "i = ui_intent_id r")
        case True
        then have q': "q = r'" using q by (simp add: rec)
        show ?thesis unfolding q' rec same True using indexed_rec [OF ix assms(2)] by simp
      next
        case False
        then have "js_get (up_records s) i = Some q" using q by (simp add: rec)
        from indexed_rec [OF ix this] show ?thesis by (simp add: rec)
      qed
    next
      fix k i assume "js_get (up_idempotency ?u) k = Some i"
      from indexed_key [OF ix this [unfolded rec]] obtain q where q: "js_get (up_records s) i = Some q" "intent_key q = k" by blast
      then show "\<exists>q. js_get (up_records ?u) i = Some q \<and> intent_key q = k"
        using assms(2) by (cases "i = ui_intent_id r") (simp_all add: rec same)
    qed
  qed
  moreover have "files_kept d ?u"
  proof -
    have "intent_fits d stored q" if "js_get (up_records s) i = Some q" "i \<noteq> ui_intent_id r" for i q
    proof -
      have "ui_intent_id q = i" "intent_fits d (up_stored s) q"
        using indexed_rec [OF ix that(1)] kept that(1) by (simp_all add: files_kept_def)
      then show ?thesis using that assms(6) by (simp add: intent_fits_def)
    qed
    moreover have "intent_fits d stored r'" using assms(4,5) by simp
    ultimately show ?thesis by (simp add: files_kept_def rec)
  qed
  moreover have "within_quota ?u"
    using quota assms(3) by (simp add: within_quota_def same_terms_def res)
  ultimately show ?thesis unfolding uploads_ok_def by blast
qed

lemma ok_abandon: "uploads_ok d s \<Longrightarrow> uploads_ok d (abandon d i c st s)"
proof -
  assume ok: "uploads_ok d s"
  define t where "t = (case js_get (up_records s) i of
        None \<Rightarrow> s
      | Some r \<Rightarrow>
          (let noted = fold (\<lambda>n. diagnostic d r n (Some c) (Some st) None) [0..<length (ui_files r)] s in
           if ui_state r = IntentPrepared
           then noted\<lparr> up_work := fold js_delete (staged_keys r) (up_work noted) \<rparr>
           else noted))"
  have "intents_of t = intents_of s" by (simp add: t_def Let_def split: option.splits)
  then have "uploads_ok d t" using ok ok_intents by blast
  then show ?thesis unfolding abandon_def t_def [symmetric] by (rule ok_remove)
qed

lemma ok_tick: "uploads_ok d (tick s) = uploads_ok d s"
  by (rule ok_intents) simp

lemma ok_require: "requireOpen d i a t s = (x, s') \<Longrightarrow> uploads_ok d s \<Longrightarrow> uploads_ok d s'"
  by (auto simp: requireOpen_def ok_tick ok_abandon split: option.splits if_splits)

lemma require_record:
  "requireOpen d i a t s = (Inr r, s') \<Longrightarrow>
     js_get (up_records s) i = Some r \<and> ui_actor_id r = a \<and> ui_token_id r = t \<and> ui_state r = IntentOpen \<and> s' = tick s"
  by (auto simp: requireOpen_def split: option.splits if_splits)

lemma ok_sweep: "uploads_ok d s \<Longrightarrow> uploads_ok d (snd (sweepExpired d s))"
proof -
  have "uploads_ok d (fold (\<lambda>r. abandon d (ui_intent_id r) c st) rs s)" if "uploads_ok d s" for rs :: "upload_intent list" and c st s
    using that by (induction rs arbitrary: s) (simp_all add: ok_abandon)
  moreover assume "uploads_ok d s"
  ultimately show ?thesis unfolding sweepExpired_def Let_def snd_conv by (simp only: ok_tick)
qed

text \<open>A record is touched: only its time, its state or one of its files change.\<close>

lemma ok_touch:
  assumes "uploads_ok d s" and "js_get (up_records s) (ui_intent_id r) = Some r"
  shows "uploads_ok d (update_record (r\<lparr> ui_state := st, ui_updated_at := ts \<rparr>) (tick s))"
proof -
  have "intent_fits d (up_stored s) r" using assms by (auto simp: uploads_ok_def files_kept_def)
  then show ?thesis
    by (intro ok_update [OF assms, where stored = "up_stored s" and n = "Suc (up_readings s)"])
      (simp_all add: same_terms_def intent_fits_def tick_def intent_key_def)
qed

lemma record_id: "uploads_ok d s \<Longrightarrow> js_get (up_records s) i = Some r \<Longrightarrow> ui_intent_id r = i"
  using indexed_rec unfolding uploads_ok_def by blast

lemma accepted_fits:
  assumes "intent_fits d stored r" and "ac_index inp < length (ui_files r)"
    and "length (ac_bytes inp) = uf_size_bytes (ui_files r ! ac_index inp)"
  shows "intent_fits d (js_set (ui_intent_id r, ac_index inp) (ac_bytes inp) stored) (accepted d inp ts r)"
  using assms unfolding intent_fits_def accepted_def by (auto simp: nth_list_update)

lemma ok_accept:
  assumes "uploads_ok d s" and "js_get (up_records s) (ui_intent_id r) = Some r"
    and "ac_index inp < length (ui_files r)" and "length (ac_bytes inp) = uf_size_bytes (ui_files r ! ac_index inp)"
  shows "uploads_ok d (write_accepted d inp r s)"
proof -
  let ?r = "accepted d inp (clock_now d s) r"
  let ?t = "(tick s)\<lparr> up_stored := js_set (ui_intent_id r, ac_index inp) (ac_bytes inp) (up_stored s) \<rparr>"
  have "intent_fits d (up_stored s) r" using assms by (auto simp: uploads_ok_def files_kept_def)
  from accepted_fits [OF this assms(3,4)] have "uploads_ok d (update_record ?r ?t)"
    by (intro ok_update [OF assms(1,2), where t = ?t and stored = "up_stored ?t" and n = "Suc (up_readings s)"])
      (simp_all add: same_terms_def accepted_def tick_def intent_key_def)
  then have "uploads_ok d (diagnostic d ?r n c st b (update_record ?r ?t))" for n c st b
    using ok_intents [OF intents_diagnostic] by blast
  then show ?thesis using assms(2) by (simp add: write_accepted_def js_has_def opt_default_def Let_def)
qed

lemma ok_acceptFile: "uploads_ok d s \<Longrightarrow> uploads_ok d (snd (acceptFile d inp s))"
proof -
  assume ok: "uploads_ok d s"
  obtain x s1 where req: "requireOpen d (ac_intent_id inp) (ac_actor_id inp) (ac_token_id inp) s = (x, s1)"
    by (cases "requireOpen d (ac_intent_id inp) (ac_actor_id inp) (ac_token_id inp) s")
  note ok1 = ok_require [OF req ok]
  show ?thesis
  proof (cases x)
    case (Inl e)
    then show ?thesis using ok1 by (simp add: acceptFile_def req)
  next
    case (Inr r)
    have r: "js_get (up_records s) (ac_intent_id inp) = Some r" "s1 = tick s"
      using require_record [OF req [unfolded Inr]] by simp_all
    have r1: "js_get (up_records s1) (ui_intent_id r) = Some r"
      using r record_id [OF ok r(1)] by (simp add: tick_def)
    have diag: "uploads_ok d (diagnostic d r n c st b s1)" for n c st b using ok1 ok_intents [OF intents_diagnostic] by blast
    have touch: "uploads_ok d (update_record (r\<lparr> ui_updated_at := ts \<rparr>) (tick s1))" for ts
      using ok_touch [OF ok1 r1, where st = "ui_state r" and ts = ts] by simp
    show ?thesis
      using ok1 diag touch ok_accept [OF ok1 r1, of inp] by (auto simp: acceptFile_def req Inr Let_def)
  qed
qed

lemma ok_prepareResolve: "uploads_ok d s \<Longrightarrow> uploads_ok d (snd (prepareResolve d inp s))"
proof -
  assume ok: "uploads_ok d s"
  obtain x s1 where req: "requireOpen d (pp_intent_id inp) (pp_actor_id inp) (pp_token_id inp) s = (x, s1)"
    by (cases "requireOpen d (pp_intent_id inp) (pp_actor_id inp) (pp_token_id inp) s")
  note ok1 = ok_require [OF req ok]
  show ?thesis
  proof (cases x)
    case (Inl e)
    then show ?thesis using ok1 by (simp add: prepareResolve_def req)
  next
    case (Inr r)
    have r: "js_get (up_records s) (pp_intent_id inp) = Some r" "s1 = tick s"
      using require_record [OF req [unfolded Inr]] by simp_all
    obtain y s2 where stage: "stage_files r (enumerate 0 (ui_files r)) s1 = (y, s2)"
      by (cases "stage_files r (enumerate 0 (ui_files r)) s1")
    note same = intents_stage [OF stage]
    have ok2: "uploads_ok d s2" using ok1 ok_intents [OF same] by blast
    have r2: "js_get (up_records s2) (ui_intent_id r) = Some r"
      using r record_id [OF ok r(1)] intents_eqD [OF same] by (simp add: tick_def)
    show ?thesis
      using ok1 ok2 ok_touch [OF ok2 r2, where st = IntentPrepared]
      by (simp add: prepareResolve_def req Inr stage split: option.splits sum.splits)
  qed
qed

section \<open>Issuing\<close>

lemma sum_append:
  "js_get (up_records s) i = None \<Longrightarrow>
     reserved P (s\<lparr> up_records := js_set i r (up_records s) \<rparr>) = reserved P s + (if P r then files_total (ui_files r) else 0)"
  by (simp add: reserved_def js_set_absent js_values_def)

lemma fresh_intent:
  assumes "inj (ud_ulid d)" and "issued_before d s"
  shows "js_get (up_records s) (''upi_'' @ ud_ulid d (up_ulids s)) = None"
proof (rule ccontr)
  assume "js_get (up_records s) (''upi_'' @ ud_ulid d (up_ulids s)) \<noteq> None"
  then obtain n where "n < up_ulids s" "''upi_'' @ ud_ulid d (up_ulids s) = ''upi_'' @ ud_ulid d n"
    using assms(2) unfolding issued_before_def js_has_def by blast
  then show False using assms(1) by (auto dest: injD)
qed

lemma ok_new:
  assumes inj: "inj (ud_ulid d)" and ok: "uploads_ok d s"
    and key: "key = binding_key (is_actor_id inp) (is_run_id inp) (is_step_id inp) (is_idempotency_key inp)"
      "js_get (up_idempotency s) key = None"
    and r: "r = new_intent (''upi_'' @ ud_ulid d (up_ulids s)) ts inp"
    and quota: "quota_of d s inp = None"
    and t: "t = update_record r ((tick s)\<lparr> up_ulids := Suc (up_ulids s),
                   up_idempotency := js_set key (ui_intent_id r) (up_idempotency s) \<rparr>)"
  shows "uploads_ok d t"
proof -
  define i where "i = ''upi_'' @ ud_ulid d (up_ulids s)"
  have disk: "on_disk s" and ix: "indexed s" and ids: "issued_before d s" and kept: "files_kept d s"
    and within: "within_quota s" using ok by (simp_all add: uploads_ok_def)
  have new: "js_get (up_records s) i = None" unfolding i_def by (rule fresh_intent [OF inj ids])
  have ri: "ui_intent_id r = i" "intent_key r = key" "ui_files r = is_files inp" "ui_run_id r = is_run_id inp"
    "ui_space_id r = is_space_id inp"
    by (simp_all add: r new_intent_def i_def intent_key_def key(1))
  have rec: "up_records t = js_set i r (up_records s)" "up_saved t = js_set i (Some r) (up_saved s)"
    "up_idempotency t = js_set key i (up_idempotency s)" "up_stored t = up_stored s" "up_ulids t = Suc (up_ulids s)"
    by (simp_all add: t update_record_def persist_def ri(1) tick_def)
  have "on_disk t" using disk by (simp add: on_disk_def rec)
  moreover have "issued_before d t"
    unfolding issued_before_def
  proof (intro allI impI)
    fix j assume "js_has (up_records t) j"
    then consider "j = i" | "js_has (up_records s) j" by (auto simp: rec)
    then show "\<exists>n < up_ulids t. j = ''upi_'' @ ud_ulid d n"
    proof cases
      case 1
      then show ?thesis by (intro exI [of _ "up_ulids s"]) (simp add: rec i_def)
    next
      case 2
      then obtain n where "n < up_ulids s" "j = ''upi_'' @ ud_ulid d n"
        using ids unfolding issued_before_def by blast
      then show ?thesis by (intro exI [of _ n]) (simp add: rec)
    qed
  qed
  moreover have "indexed t"
  proof (rule indexedI)
    fix j q assume q: "js_get (up_records t) j = Some q"
    show "ui_intent_id q = j \<and> js_get (up_idempotency t) (intent_key q) = Some j"
    proof (cases "j = i")
      case True
      then have "q = r" using q by (simp add: rec)
      then show ?thesis using ri True by (simp add: rec)
    next
      case False
      then have "js_get (up_records s) j = Some q" using q by (simp add: rec)
      from indexed_rec [OF ix this] show ?thesis using key(2) by (auto simp: rec)
    qed
  next
    fix k j assume k: "js_get (up_idempotency t) k = Some j"
    show "\<exists>q. js_get (up_records t) j = Some q \<and> intent_key q = k"
    proof (cases "k = key")
      case True
      then show ?thesis using k ri by (simp add: rec)
    next
      case False
      then have "js_get (up_idempotency s) k = Some j" using k by (simp add: rec)
      from indexed_key [OF ix this] new show ?thesis by (auto simp: rec)
    qed
  qed
  moreover have "files_kept d t"
    using kept by (auto simp: files_kept_def rec r new_intent_def intent_fits_def)
  moreover have "within_quota t"
  proof -
    have res: "reserved P t = reserved P s + (if P r then files_total (is_files inp) else 0)" for P
      using sum_append [OF new, of P r] unfolding reserved_def rec by (simp add: ri)
    have "reserved (\<lambda>c. ui_run_id c = is_run_id inp) s + files_total (is_files inp) \<le> MAX_RUN_ARTIFACT_BYTES"
      "reserved (\<lambda>c. ui_space_id c = is_space_id inp) s + files_total (is_files inp) \<le> MAX_SPACE_ARTIFACT_BYTES"
      using quota by (simp_all add: quota_of_def Let_def split: if_splits)
    then show ?thesis using within by (auto simp: within_quota_def res ri)
  qed
  ultimately show ?thesis unfolding uploads_ok_def by blast
qed

lemma load_some: "load_entry (i, Some r) s = s\<lparr> up_records := js_set (ui_intent_id r) r (up_records s),
    up_idempotency := js_set (intent_key r) (ui_intent_id r) (up_idempotency s) \<rparr>"
  by (simp add: load_entry_def)

lemma ok_issue:
  assumes "inj (ud_ulid d)" and "uploads_ok d s"
  shows "uploads_ok d (snd (issue d inp s))"
  using assms(2) ok_new [OF assms refl _ refl _ refl, of inp "clock_now d s"]
  by (simp add: issue_def Let_def split: option.splits)

section \<open>Restart\<close>

lemma load_all:
  assumes "distinct (map fst es)" and "\<And>i x. (i, x) \<in> set es \<Longrightarrow> \<exists>r. x = Some r \<and> ui_intent_id r = i"
    and "inj_on (\<lambda>(i, x). intent_key (the x)) (set es)"
  shows "fold load_entry es (s\<lparr> up_records := [], up_idempotency := [] \<rparr>) =
    s\<lparr> up_records := map (\<lambda>(i, x). (i, the x)) es, up_idempotency := map (\<lambda>(i, x). (intent_key (the x), i)) es \<rparr>"
  using assms
proof (induction es rule: rev_induct)
  case (snoc e es)
  have "(fst e, snd e) \<in> set (es @ [e])" by simp
  from snoc.prems(2) [OF this] obtain i r where e: "e = (i, Some r)" and i: "ui_intent_id r = i" by (cases e) auto
  have dist: "distinct (map fst es)" and new: "i \<notin> fst ` set es" using snoc.prems(1) e by simp_all
  have inj: "inj_on (\<lambda>(i, x). intent_key (the x)) (set es)"
    by (rule inj_on_subset [OF snoc.prems(3)]) auto
  have good: "\<exists>r. x = Some r \<and> ui_intent_id r = i" if "(i, x) \<in> set es" for i x
    using snoc.prems(2) [of i x] that by simp
  note IH = snoc.IH [OF dist good inj]
  have "js_get (map (\<lambda>(i, x). (i, the x)) es) i = None"
    using new by (force simp: js_get_def map_of_eq_None_iff)
  moreover have "js_get (map (\<lambda>(i, x). (intent_key (the x), i)) es) (intent_key r) = None"
  proof -
    have "intent_key (the (snd p)) \<noteq> intent_key r" if "p \<in> set es" for p
    proof
      assume "intent_key (the (snd p)) = intent_key r"
      then have "p = e" using inj_onD [OF snoc.prems(3), of p e] that e by (simp add: case_prod_unfold)
      then show False using that new e by force
    qed
    then have "intent_key r \<notin> fst ` set (map (\<lambda>(i, x). (intent_key (the x), i)) es)" by (force simp: case_prod_unfold)
    then show ?thesis unfolding js_get_def by (simp only: map_of_eq_None_iff not_False_eq_True)
  qed
  ultimately show ?case using e i by (simp add: IH load_some js_set_absent)
qed simp

lemma get_map_values: "js_get (map (\<lambda>(i, x). (i, f x)) m) k = map_option f (js_get m k)"
  unfolding js_get_def by (induction m) auto

lemma reserved_mset:
  "reserved P s = sum_mset (image_mset (\<lambda>r. files_total (ui_files r)) (filter_mset P (mset (js_values (up_records s)))))"
  by (simp add: reserved_def sum_mset_sum_list flip: mset_map mset_filter)

lemma saved_entry:
  assumes "on_disk s" and "(i, x) \<in> set (up_saved s)"
  obtains r where "x = Some r" and "js_get (up_records s) i = Some r"
proof -
  have "js_get (up_saved s) i = Some x"
    unfolding js_get_def by (rule map_of_is_SomeI) (use assms in \<open>simp_all add: on_disk_def js_ok_def\<close>)
  moreover have "js_get (up_saved s) i = map_option Some (js_get (up_records s) i)" using assms(1) by (simp add: on_disk_def)
  ultimately show ?thesis using that by (cases "js_get (up_records s) i") auto
qed

lemma saved_keys:
  assumes "on_disk s" and ix: "indexed s"
  shows "inj_on (\<lambda>(i, x). intent_key (the x)) (set (up_saved s))"
proof (rule inj_onI)
  fix p q assume pq: "p \<in> set (up_saved s)" "q \<in> set (up_saved s)"
    "(case p of (i, x) \<Rightarrow> intent_key (the x)) = (case q of (i, x) \<Rightarrow> intent_key (the x))"
  obtain i a j b where p: "p = (i, a)" and q: "q = (j, b)" by (cases p, cases q)
  obtain r where r: "a = Some r" "js_get (up_records s) i = Some r" using saved_entry [OF assms(1) pq(1) [unfolded p]] .
  obtain r' where r': "b = Some r'" "js_get (up_records s) j = Some r'" using saved_entry [OF assms(1) pq(2) [unfolded q]] .
  have "intent_key r = intent_key r'" using pq(3) by (simp add: p q r r')
  then have "i = j" using indexed_rec [OF ix r(2)] indexed_rec [OF ix r'(2)] by simp
  then show "p = q" using r r' by (simp add: p q)
qed

lemma load_eq:
  assumes disk: "on_disk s" and ix: "indexed s" and ids: "issued_before d s"
  shows "loadRecords (s\<lparr> up_records := [], up_idempotency := [] \<rparr>) =
    s\<lparr> up_records := map (\<lambda>(i, x). (i, the x)) (up_saved s),
       up_idempotency := map (\<lambda>(i, x). (intent_key (the x), i)) (up_saved s) \<rparr>"
proof -
  have prefix: "starts_with i ''upi_''" if e: "(i, x) \<in> set (up_saved s)" for i x
  proof -
    obtain r where "js_get (up_records s) i = Some r" using saved_entry [OF disk e] by blast
    then obtain n where "i = ''upi_'' @ ud_ulid d n" using ids unfolding issued_before_def js_has_def by blast
    then show ?thesis by (simp add: starts_with_def)
  qed
  have all: "filter (\<lambda>(i, _). starts_with i ''upi_'') (up_saved s) = up_saved s"
    by (rule filter_True) (use prefix in auto)
  have saved_same: "up_saved (s\<lparr> up_records := [], up_idempotency := [] \<rparr>) = up_saved s" by simp
  have good: "\<exists>r. x = Some r \<and> ui_intent_id r = i" if e: "(i, x) \<in> set (up_saved s)" for i x
  proof -
    obtain r where r: "x = Some r" "js_get (up_records s) i = Some r" using saved_entry [OF disk e] .
    then show ?thesis using indexed_rec [OF ix r(2)] by simp
  qed
  have "distinct (map fst (up_saved s))" using disk by (simp add: on_disk_def js_ok_def)
  then show ?thesis unfolding loadRecords_def saved_same all by (rule load_all [OF _ good saved_keys [OF disk ix]])
qed

lemma load_index:
  assumes disk: "on_disk s" and ix: "indexed s"
  shows "js_get (map (\<lambda>(i, x). (intent_key (the x), i)) (up_saved s)) k = Some i \<longleftrightarrow>
    (\<exists>r. js_get (up_records s) i = Some r \<and> intent_key r = k)"
proof -
  let ?m = "map (\<lambda>(i, x). (intent_key (the x), i)) (up_saved s)"
  have "distinct (up_saved s)" using disk by (simp add: on_disk_def js_ok_def distinct_map)
  then have "distinct (map fst ?m)"
    using saved_keys [OF disk ix] by (simp add: comp_def case_prod_unfold distinct_map)
  then have "js_get ?m k = Some i \<longleftrightarrow> (k, i) \<in> set ?m" by (simp add: js_get_def)
  also have "\<dots> \<longleftrightarrow> (\<exists>x. (i, x) \<in> set (up_saved s) \<and> intent_key (the x) = k)" by force
  also have "\<dots> \<longleftrightarrow> (\<exists>r. js_get (up_records s) i = Some r \<and> intent_key r = k)"
  proof
    assume "\<exists>r. js_get (up_records s) i = Some r \<and> intent_key r = k"
    then obtain r where r: "js_get (up_records s) i = Some r" "intent_key r = k" by blast
    then have "js_get (up_saved s) i = Some (Some r)" using disk by (simp add: on_disk_def)
    from js_get_in [OF this] r(2) show "\<exists>x. (i, x) \<in> set (up_saved s) \<and> intent_key (the x) = k"
      by (intro exI [of _ "Some r"]) simp
  next
    assume "\<exists>x. (i, x) \<in> set (up_saved s) \<and> intent_key (the x) = k"
    then obtain x where x: "(i, x) \<in> set (up_saved s)" "intent_key (the x) = k" by blast
    obtain r where "x = Some r" "js_get (up_records s) i = Some r" using saved_entry [OF disk x(1)] .
    then show "\<exists>r. js_get (up_records s) i = Some r \<and> intent_key r = k" using x(2) by simp
  qed
  finally show ?thesis .
qed

lemma load_restores:
  assumes ok: "uploads_ok d s" and t: "t = loadRecords (s\<lparr> up_records := [], up_idempotency := [] \<rparr>)"
  shows "js_get (up_records t) = js_get (up_records s)" and "uploads_ok d t"
    and "up_stored t = up_stored s" and "up_readings t = up_readings s" and "up_ulids t = up_ulids s"
proof -
  have disk: "on_disk s" and ix: "indexed s" and ids: "issued_before d s" and kept: "files_kept d s"
    and within: "within_quota s" using ok by (simp_all add: uploads_ok_def)
  note t [unfolded load_eq [OF disk ix ids]]
  then have rec: "up_records t = map (\<lambda>(i, x). (i, the x)) (up_saved s)"
      "up_idempotency t = map (\<lambda>(i, x). (intent_key (the x), i)) (up_saved s)"
      "up_saved t = up_saved s" "up_stored t = up_stored s" "up_readings t = up_readings s" "up_ulids t = up_ulids s"
    by simp_all
  show get: "js_get (up_records t) = js_get (up_records s)"
  proof (rule ext)
    fix i
    have "js_get (up_saved s) i = map_option Some (js_get (up_records s) i)" using disk by (simp add: on_disk_def)
    then show "js_get (up_records t) i = js_get (up_records s) i"
      unfolding rec(1) get_map_values by (cases "js_get (up_records s) i") simp_all
  qed
  show "up_stored t = up_stored s" "up_readings t = up_readings s" "up_ulids t = up_ulids s" by (rule rec)+
  have okt: "js_ok (up_records t)"
    using disk by (simp add: rec on_disk_def js_ok_def comp_def case_prod_unfold)
  then have "on_disk t" using disk by (simp add: on_disk_def get rec(3))
  moreover have "issued_before d t" "files_kept d t"
    using ids kept by (simp_all add: issued_before_def files_kept_def js_has_def get rec(4,6))
  moreover have "indexed t"
    unfolding indexed_def get rec(2) load_index [OF disk ix] using indexed_rec [OF ix] by blast
  moreover have "within_quota t"
  proof -
    have "mset (js_values (up_records t)) = mset (js_values (up_records s))"
      by (rule same_lookup_mset [OF okt _ get]) (use disk in \<open>simp add: on_disk_def\<close>)
    then have "reserved P t = reserved P s" for P
      unfolding reserved_mset by simp
    then show ?thesis using within by (simp add: within_quota_def)
  qed
  ultimately show "uploads_ok d t" unfolding uploads_ok_def by blast
qed

lemma ok_restart: "uploads_ok d s \<Longrightarrow> uploads_ok d (restart d s)"
  unfolding restart_def by (rule ok_sweep [OF load_restores(2) [OF _ refl]])

lemma records_diagnostics:
  "up_records (fold (\<lambda>n. diagnostic d r n c st b) ns s) = up_records s \<and> up_stored (fold (\<lambda>n. diagnostic d r n c st b) ns s) = up_stored s"
  using intents_eqD [OF intents_diagnostics] by blast

lemma abandon_records: "up_records (abandon d i c st s) = js_delete i (up_records s)"
  by (simp add: abandon_def remove_intent_def Let_def records_diagnostics split: option.splits)

lemma abandon_stored: "j \<noteq> i \<Longrightarrow> js_get (up_stored (abandon d i c st s)) (j, n) = js_get (up_stored s) (j, n)"
  by (simp add: abandon_def remove_intent_def Let_def records_diagnostics get_filter_key split: option.splits)

lemma sweep_effect:
  assumes "indexed s" and "js_ok (up_records s)" and t: "t = snd (sweepExpired d s)"
  shows "js_get (up_records t) i = (case js_get (up_records s) i of None \<Rightarrow> None
      | Some r \<Rightarrow> if lease_over (clock_now d s) r then None else Some r)"
    and "js_get (up_records t) i = Some r \<Longrightarrow> js_get (up_stored t) (i, n) = js_get (up_stored s) (i, n)"
proof -
  have fold: "js_get (up_records (fold (\<lambda>r. abandon d (ui_intent_id r) c st) rs u)) i =
        (if i \<in> ui_intent_id ` set rs then None else js_get (up_records u) i)
      \<and> (i \<notin> ui_intent_id ` set rs \<longrightarrow>
           js_get (up_stored (fold (\<lambda>r. abandon d (ui_intent_id r) c st) rs u)) (i, n) = js_get (up_stored u) (i, n))"
    for rs :: "upload_intent list" and c st u n
    by (induction rs arbitrary: u) (auto simp: abandon_records abandon_stored)
  define gone where "gone = filter (lease_over (clock_now d s)) (js_values (up_records s))"
  have ids: "i \<in> ui_intent_id ` set gone \<longleftrightarrow> (\<exists>r. js_get (up_records s) i = Some r \<and> lease_over (clock_now d s) r)"
    unfolding gone_def using indexed_rec [OF assms(1)]
    by (auto simp: js_values_iff [OF assms(2)] image_iff)
  have step: "js_get (up_records t) i = (if i \<in> ui_intent_id ` set gone then None else js_get (up_records s) i)"
    using fold [where rs = gone and u = "tick s"] by (simp add: t sweepExpired_def Let_def gone_def [symmetric] tick_def)
  then show "js_get (up_records t) i = (case js_get (up_records s) i of None \<Rightarrow> None
      | Some r \<Rightarrow> if lease_over (clock_now d s) r then None else Some r)"
    unfolding ids by (simp split: option.splits)
  show "js_get (up_stored t) (i, n) = js_get (up_stored s) (i, n)" if "js_get (up_records t) i = Some r"
    using fold [where rs = gone and u = "tick s" and n = n] step that
    by (simp add: t sweepExpired_def Let_def gone_def [symmetric] tick_def split: if_splits)
qed

end
