(* ===== verification/UploadRuns.thy ===== *)
theory UploadRuns
  imports UploadProofs
begin

text \<open>
  The upload service driven by its callers: a sequence of its operations, restarts of the hub among
  them. \<open>uploads_ok\<close> holds throughout, and what was accepted stands: an intent that is gone never
  comes back, and the bytes of an accepted file are never replaced.
\<close>

datatype upload_op =
    Issue issue_input
  | Accept accept_input
  | Authorize string nat string string
  | TransferFailed string nat string string string
  | Prepare upload_prepare
  | Consume string
  | AbandonOwn string string string
  | Abandon string string string
  | Sweep
  | Restart

fun upload_step :: "upload_deps \<Rightarrow> upload_op \<Rightarrow> uploads \<Rightarrow> uploads" where
  "upload_step d (Issue inp) s = snd (issue d inp s)"
| "upload_step d (Accept inp) s = snd (acceptFile d inp s)"
| "upload_step d (Authorize i n a t) s = snd (authorizeFile d i n a t s)"
| "upload_step d (TransferFailed i n a t c) s = snd (recordTransferFailure d i n a t c s)"
| "upload_step d (Prepare inp) s = snd (prepareResolve d inp s)"
| "upload_step d (Consume i) s = consume i s"
| "upload_step d (AbandonOwn i a t) s = snd (abandonAuthorized d i a t s)"
| "upload_step d (Abandon i c st) s = abandon d i c st s"
| "upload_step d Sweep s = snd (sweepExpired d s)"
| "upload_step d Restart s = restart d s"

section \<open>What stands\<close>

definition stands :: "string \<Rightarrow> uploads \<Rightarrow> uploads \<Rightarrow> bool" where
  "stands i s t \<longleftrightarrow> (\<forall>r'. js_get (up_records t) i = Some r' \<longrightarrow>
     (\<exists>r. js_get (up_records s) i = Some r \<and> ui_files r' = ui_files r
        \<and> (\<forall>n < length (ui_files r). ui_uploaded r ! n \<longrightarrow>
             ui_uploaded r' ! n \<and> js_get (up_stored t) (i, n) = js_get (up_stored s) (i, n))))"

definition uploads_grow :: "upload_deps \<Rightarrow> uploads \<Rightarrow> uploads \<Rightarrow> bool" where
  "uploads_grow d s t \<longleftrightarrow> up_ulids s \<le> up_ulids t \<and> (\<forall>n < up_ulids s. stands (''upi_'' @ ud_ulid d n) s t)"

lemma stands_refl: "stands i s s"
  by (simp add: stands_def)

lemma stands_trans: "stands i s t \<Longrightarrow> stands i t u \<Longrightarrow> stands i s u"
  unfolding stands_def by (metis (no_types, lifting))

lemma grow_refl: "uploads_grow d s s"
  by (simp add: uploads_grow_def stands_refl)

lemma grow_trans: "uploads_grow d s t \<Longrightarrow> uploads_grow d t u \<Longrightarrow> uploads_grow d s u"
  unfolding uploads_grow_def using stands_trans less_le_trans order_trans by meson

lemma grow_same: "intents_of t = intents_of s \<Longrightarrow> uploads_grow d s t"
  by (drule intents_eqD) (simp add: uploads_grow_def stands_def)

lemma grow_remove: "intents_of t = intents_of s \<Longrightarrow> uploads_grow d s (remove_intent i t)"
  by (drule intents_eqD) (auto simp: uploads_grow_def stands_def remove_intent_def get_filter_key split: if_splits)

lemma grow_abandon: "uploads_grow d s (abandon d i c st s)"
  unfolding abandon_def by (rule grow_remove) (simp add: Let_def split: option.splits)

lemma grow_require: "requireOpen d i a t s = (x, s') \<Longrightarrow> uploads_grow d s s'"
  using grow_trans [OF grow_same [of "tick s" s] grow_abandon [of d "tick s"]]
  by (auto simp: requireOpen_def grow_refl grow_same split: option.splits if_splits)

lemma grow_sweep: "uploads_grow d s (snd (sweepExpired d s))"
proof -
  have "uploads_grow d u (fold (\<lambda>r. abandon d (ui_intent_id r) c st) rs u)" for rs :: "upload_intent list" and c st u
    by (induction rs arbitrary: u) (auto intro: grow_refl grow_trans grow_abandon)
  then show ?thesis unfolding sweepExpired_def Let_def snd_conv
    using grow_trans grow_same [of "tick s" s] intents_tick by blast
qed

lemma grow_update:
  assumes "js_get (up_records s) i = Some r" and "ui_intent_id r' = i" and "ui_files r' = ui_files r"
    and "\<And>n. n < length (ui_files r) \<Longrightarrow> ui_uploaded r ! n \<Longrightarrow>
      ui_uploaded r' ! n \<and> js_get (up_stored t) (i, n) = js_get (up_stored s) (i, n)"
    and "\<And>j n. j \<noteq> i \<Longrightarrow> js_get (up_stored t) (j, n) = js_get (up_stored s) (j, n)"
    and "up_records t = up_records s" and "up_ulids t = up_ulids s"
  shows "uploads_grow d s (update_record r' t)"
  using assms by (auto simp: uploads_grow_def stands_def update_record_def persist_def)

lemma grow_touch:
  assumes "js_get (up_records s) i = Some r" and "ui_intent_id r = i"
  shows "uploads_grow d s (update_record (r\<lparr> ui_state := st, ui_updated_at := ts \<rparr>) (tick s))"
  by (rule grow_update [OF assms(1)]) (simp_all add: assms tick_def)

lemma grow_accept:
  assumes "js_get (up_records s) i = Some r" and "ui_intent_id r = i" and "\<not> ui_uploaded r ! ac_index inp"
    and "length (ui_uploaded r) = length (ui_files r)"
  shows "uploads_grow d s (write_accepted d inp r s)"
proof -
  let ?r = "accepted d inp (clock_now d s) r"
  let ?t = "(tick s)\<lparr> up_stored := js_set (i, ac_index inp) (ac_bytes inp) (up_stored s) \<rparr>"
  have "uploads_grow d s (update_record ?r ?t)"
    using assms(3,4) by (intro grow_update [OF assms(1)]) (auto simp: assms(2) accepted_def tick_def nth_list_update)
  then have "uploads_grow d s (diagnostic d ?r n c st b (update_record ?r ?t))" for n c st b
    using grow_trans grow_same intents_diagnostic by blast
  then show ?thesis using assms(1,2) by (simp add: write_accepted_def js_has_def opt_default_def Let_def)
qed

lemma grow_acceptFile:
  assumes ok: "uploads_ok d s"
  shows "uploads_grow d s (snd (acceptFile d inp s))"
proof -
  obtain x s1 where req: "requireOpen d (ac_intent_id inp) (ac_actor_id inp) (ac_token_id inp) s = (x, s1)"
    by (cases "requireOpen d (ac_intent_id inp) (ac_actor_id inp) (ac_token_id inp) s")
  note g1 = grow_require [OF req]
  show ?thesis
  proof (cases x)
    case (Inl e)
    then show ?thesis using g1 by (simp add: acceptFile_def req)
  next
    case (Inr r)
    have r: "js_get (up_records s) (ac_intent_id inp) = Some r" "s1 = tick s"
      using require_record [OF req [unfolded Inr]] by simp_all
    have r1: "js_get (up_records s1) (ac_intent_id inp) = Some r" "ui_intent_id r = ac_intent_id inp"
      using r record_id [OF ok r(1)] by (simp_all add: tick_def)
    have len: "length (ui_uploaded r) = length (ui_files r)"
      using ok r(1) by (auto simp: uploads_ok_def files_kept_def intent_fits_def)
    have diag: "uploads_grow d s (diagnostic d r n c st b s1)" for n c st b
      using grow_trans [OF g1] grow_same intents_diagnostic by blast
    have touch: "uploads_grow d s (update_record (r\<lparr> ui_updated_at := ts \<rparr>) (tick s1))" for ts
      using grow_trans [OF g1 grow_touch [OF r1, where st = "ui_state r" and ts = ts]] by simp
    have acc: "uploads_grow d s (write_accepted d inp r s1)" if "ac_index inp < length (ui_files r)" "\<not> nth_or False (ui_uploaded r) (ac_index inp)"
      using that len by (intro grow_trans [OF g1 grow_accept [OF r1]]) (simp_all add: nth_or_def)
    show ?thesis using g1 diag touch acc by (simp add: acceptFile_def req Inr Let_def)
  qed
qed

lemma grow_prepareResolve:
  assumes ok: "uploads_ok d s"
  shows "uploads_grow d s (snd (prepareResolve d inp s))"
proof -
  obtain x s1 where req: "requireOpen d (pp_intent_id inp) (pp_actor_id inp) (pp_token_id inp) s = (x, s1)"
    by (cases "requireOpen d (pp_intent_id inp) (pp_actor_id inp) (pp_token_id inp) s")
  note g1 = grow_require [OF req]
  show ?thesis
  proof (cases x)
    case (Inl e)
    then show ?thesis using g1 by (simp add: prepareResolve_def req)
  next
    case (Inr r)
    have r: "js_get (up_records s) (pp_intent_id inp) = Some r" "s1 = tick s"
      using require_record [OF req [unfolded Inr]] by simp_all
    obtain y s2 where stage: "stage_files r (enumerate 0 (ui_files r)) s1 = (y, s2)"
      by (cases "stage_files r (enumerate 0 (ui_files r)) s1")
    note same = intents_stage [OF stage]
    have g2: "uploads_grow d s s2" by (rule grow_trans [OF g1 grow_same [OF same]])
    have r2: "js_get (up_records s2) (pp_intent_id inp) = Some r" "ui_intent_id r = pp_intent_id inp"
      using r record_id [OF ok r(1)] intents_eqD [OF same] by (simp_all add: tick_def)
    show ?thesis
      using g1 g2 grow_trans [OF g2 grow_touch [OF r2, where st = IntentPrepared]]
      by (simp add: prepareResolve_def req Inr stage split: option.splits sum.splits)
  qed
qed

lemma grow_issue:
  assumes "inj (ud_ulid d)"
  shows "uploads_grow d s (snd (issue d inp s))"
proof -
  have "ud_ulid d n \<noteq> ud_ulid d (up_ulids s)" if "n < up_ulids s" for n using assms that by (auto dest: injD)
  then have "uploads_grow d s (update_record (new_intent (''upi_'' @ ud_ulid d (up_ulids s)) ts inp)
      ((tick s)\<lparr> up_ulids := Suc (up_ulids s), up_idempotency := m \<rparr>))" for ts m
    by (simp add: uploads_grow_def stands_def update_record_def persist_def new_intent_def tick_def)
  then show ?thesis by (simp add: issue_def Let_def grow_refl split: option.splits)
qed

lemma restart_effect:
  assumes "uploads_ok d s"
  shows "js_get (up_records (restart d s)) i = (case js_get (up_records s) i of None \<Rightarrow> None
      | Some r \<Rightarrow> if lease_over (clock_now d s) r then None else Some r)"
    and "js_get (up_records (restart d s)) i = Some r \<Longrightarrow>
      js_get (up_stored (restart d s)) (i, n) = js_get (up_stored s) (i, n)"
proof -
  let ?t = "loadRecords (s\<lparr> up_records := [], up_idempotency := [] \<rparr>)"
  note load = load_restores [OF assms refl]
  have ok: "indexed ?t" "js_ok (up_records ?t)" using load(2) by (simp_all add: uploads_ok_def on_disk_def)
  have now: "clock_now d ?t = clock_now d s" by (simp add: clock_now_def load(4))
  show "js_get (up_records (restart d s)) i = (case js_get (up_records s) i of None \<Rightarrow> None
      | Some r \<Rightarrow> if lease_over (clock_now d s) r then None else Some r)"
    unfolding restart_def using sweep_effect(1) [OF ok refl, where i = i and d = d] unfolding now load(1) .
  show "js_get (up_stored (restart d s)) (i, n) = js_get (up_stored s) (i, n)"
    if "js_get (up_records (restart d s)) i = Some r"
    using sweep_effect(2) [OF ok refl that [unfolded restart_def], where n = n] unfolding restart_def load(3) .
qed

lemma grow_restart:
  assumes "uploads_ok d s"
  shows "uploads_grow d s (restart d s)"
proof -
  let ?t = "loadRecords (s\<lparr> up_records := [], up_idempotency := [] \<rparr>)"
  note load = load_restores [OF assms refl]
  have "uploads_grow d s ?t" by (simp add: uploads_grow_def stands_def load)
  then show ?thesis unfolding restart_def using grow_trans grow_sweep by blast
qed

section \<open>Runs\<close>

definition service_inv :: "upload_deps \<Rightarrow> uploads \<Rightarrow> bool" where
  "service_inv d s \<longleftrightarrow> inj (ud_ulid d) \<and> uploads_ok d s"

lemma service_step:
  assumes "service_inv d s"
  shows "service_inv d (upload_step d op s)" and "uploads_grow d s (upload_step d op s)"
proof -
  have ok: "uploads_ok d s" and inj: "inj (ud_ulid d)" using assms by (simp_all add: service_inv_def)
  have diag: "uploads_ok d t \<Longrightarrow> uploads_ok d (diagnostic d r n c st b t)" for r n c st b t
    using ok_intents [OF intents_diagnostic] by blast
  have gdiag: "uploads_grow d s t \<Longrightarrow> uploads_grow d s (diagnostic d r n c st b t)" for r n c st b t
    using grow_trans grow_same intents_diagnostic by blast
  show "service_inv d (upload_step d op s)"
    using ok inj by (cases op) (auto simp: service_inv_def ok_issue ok_acceptFile ok_prepareResolve ok_remove consume_def
      ok_abandon ok_sweep ok_restart authorizeFile_def recordTransferFailure_def abandonAuthorized_def diag
      dest: ok_require split: prod.splits sum.splits option.splits)
  show "uploads_grow d s (upload_step d op s)"
    using ok inj by (cases op) (auto simp: grow_issue grow_acceptFile grow_prepareResolve grow_remove consume_def
      grow_abandon grow_sweep grow_restart authorizeFile_def recordTransferFailure_def abandonAuthorized_def gdiag grow_refl
      dest: grow_require split: prod.splits sum.splits option.splits)
qed

interpretation upload_run: monotone_system "upload_step d" "service_inv d" "uploads_grow d"
  by unfold_locales (rule service_step(1) grow_refl grow_trans service_step(2); assumption)+

lemma reachable_uploads:
  "inj (ud_ulid d) \<Longrightarrow> uploads_ok d (fold (upload_step d) ops init_uploads)"
  using upload_run.run_inv [of d init_uploads ops] by (simp add: service_inv_def uploads_ok_init)

end
