(* ===== verification/UploadRoutes.thy ===== *)
theory UploadRoutes
  imports UploadRuns StepResolve
begin

text \<open>
  The requests that reach the upload service (\<open>hub-daemon/src/routes/runs/step-work-upload.ts\<close>) and the
  resolution that takes the files over (\<open>routes/runs/resolve-step.ts\<close>), with the boundary of a token
  (\<open>routes/config/scopes.ts\<close>). A response is a code and a status, or a value. The effective
  capabilities of a token are an argument, as is what \<open>stat\<close> says of a file in a working directory.
\<close>

section \<open>Tokens\<close>

record bearer =
  tc_actor_id :: string
  tc_token_id :: string
  tc_space_id :: string
  tc_harness_id :: "string option"
  tc_scope_ref :: "string option"

type_synonym denial = "string \<times> nat"

definition requireCapability :: "capability list \<Rightarrow> capability list \<Rightarrow> denial option" where
  "requireCapability required effective =
     (if hasCapability effective required then None else Some (''SCOPE_ENFORCEMENT_FAILURE'', 403))"

definition space_mismatch :: "bearer \<Rightarrow> string option \<Rightarrow> bool" where
  "space_mismatch tk space \<longleftrightarrow> truthy_str space \<and> tc_space_id tk \<noteq> ''bootstrap''
     \<and> bareSpaceId (tc_space_id tk) \<noteq> bareSpaceId (the space)"

definition run_mismatch :: "bearer \<Rightarrow> string \<Rightarrow> bool" where
  "run_mismatch tk run_id \<longleftrightarrow> (case tc_harness_id tk of
       None \<Rightarrow> False
     | Some h \<Rightarrow> starts_with h ''run:'' \<and> drop 4 h \<noteq> run_id \<and> drop 4 h \<noteq> bare_with ''run_'' run_id)"

text \<open>\<open>{run_id}:{step_id}\<close>, with a handler or without.\<close>

definition step_mismatch :: "bearer \<Rightarrow> string \<Rightarrow> string \<Rightarrow> bool" where
  "step_mismatch tk run_id step_id \<longleftrightarrow> truthy_str (tc_scope_ref tk) \<and>
     (let segments = split_on (CHR '':'') (the (tc_scope_ref tk)) in
      \<not> (hd segments = run_id \<or> hd segments = bare_with ''run_'' run_id)
      \<or> (case tl segments of [] \<Rightarrow> True | s # _ \<Rightarrow> s \<noteq> step_id))"

definition requireAssignmentScope :: "bearer \<Rightarrow> string \<Rightarrow> string \<Rightarrow> string option \<Rightarrow> denial option" where
  "requireAssignmentScope tk run_id step_id space =
     (if space_mismatch tk space then Some (''SCOPE_ENFORCEMENT_FAILURE'', 403)
      else if run_mismatch tk run_id then Some (''TOKEN_RUN_SCOPE_MISMATCH'', 403)
      else if step_mismatch tk run_id step_id then Some (''TOKEN_STEP_SCOPE_MISMATCH'', 403)
      else None)"

section \<open>The body of an intent\<close>

record intent_body =
  ib_branch :: string
  ib_payload :: jobj
  ib_files :: "upload_file list"
  ib_idempotency_key :: string

definition MAX_SAFE_INTEGER :: int where "MAX_SAFE_INTEGER = 9007199254740991"

text \<open>A file name is its own base name, backslashes counting as slashes.\<close>

definition plain_name :: "string \<Rightarrow> bool" where
  "plain_name name \<longleftrightarrow> base_name name \<noteq> [] \<and> base_name name = name \<and> name \<noteq> ''.'' \<and> name \<noteq> ''..'' \<and> CHR 0x00 \<notin> set name"

fun parse_file :: "json \<Rightarrow> upload_file option" where
  "parse_file (JObj f) =
     (case (prop_of f ''slot'', prop_of f ''name'', prop_of f ''media_type'', prop_of f ''size_bytes'') of
        (JStr slot, JStr name, JStr media, JNum n) \<Rightarrow>
          if 0 \<le> n \<and> n \<le> MAX_SAFE_INTEGER \<and> plain_name name
          then Some \<lparr> uf_slot = slot, uf_name = name, uf_media_type = to_lower media, uf_size_bytes = nat n \<rparr>
          else None
      | _ \<Rightarrow> None)"
| "parse_file (JArr xs) = None"
| "parse_file _ = None"

fun parse_files :: "json list \<Rightarrow> upload_file list option" where
  "parse_files [] = Some []"
| "parse_files (x # xs) =
     (case parse_file x of None \<Rightarrow> None | Some f \<Rightarrow> map_option (\<lambda>fs. f # fs) (parse_files xs))"

definition parseIntentBody :: "json \<Rightarrow> intent_body option" where
  "parseIntentBody body =
     (case body of
        JObj r \<Rightarrow>
          (case (prop_of r ''branch'', prop_of r ''idempotency_key'', prop_of r ''files'') of
             (JStr branch, JStr key, JArr raw) \<Rightarrow>
               if branch = [] \<or> key = [] then None
               else (case parse_files raw of
                 None \<Rightarrow> None
               | Some files \<Rightarrow>
                   (case prop_of r ''payload'' of
                      JUndef \<Rightarrow> Some \<lparr> ib_branch = branch, ib_payload = [], ib_files = files, ib_idempotency_key = key \<rparr>
                    | JObj p \<Rightarrow> Some \<lparr> ib_branch = branch, ib_payload = p, ib_files = files, ib_idempotency_key = key \<rparr>
                    | _ \<Rightarrow> None))
           | _ \<Rightarrow> None)
      | _ \<Rightarrow> None)"

definition metadata_of :: "upload_file \<Rightarrow> file_metadata" where
  "metadata_of f = \<lparr> fl_name = uf_name f, fl_media_type = uf_media_type f, fl_size_bytes = int (uf_size_bytes f) \<rparr>"

definition filesBySlot :: "upload_file list \<Rightarrow> (string, file_input) jsmap" where
  "filesBySlot fs = fold (\<lambda>f m. js_set (uf_slot f)
     (ManyFiles (filesForSlot (Some m) (uf_slot f) @ [metadata_of f])) m) fs []"

section \<open>Issuing an intent\<close>

definition no_contract :: branch_contract where
  "no_contract = \<lparr> bc_schema = None, bc_payload_required = None, bc_artifact_required = None, bc_artifact_slots = None \<rparr>"

definition upload_answer :: "upload_error + 'a \<Rightarrow> denial + 'a" where
  "upload_answer r = (case r of Inr x \<Rightarrow> Inr x
     | Inl (UploadError c m http) \<Rightarrow> Inl (c, http) | Inl (UploadThrew m) \<Rightarrow> Inl (''UPLOAD_FAILED'', 400))"

text \<open>The checks before an intent is issued: the run, its space, the step and its branch.\<close>

definition intent_request ::
    "ajv_compile \<Rightarrow> studio \<Rightarrow> bearer \<Rightarrow> string \<Rightarrow> string \<Rightarrow> intent_body \<Rightarrow> denial + issue_input" where
  "intent_request ajv st tk run_id step_id body =
     (case getRun st (bare_with ''run_'' run_id) of
        None \<Rightarrow> Inl (''RUN_NOT_FOUND'', 404)
      | Some run \<Rightarrow>
          if \<not> truthy_str (rr_flow_id run) then Inl (''RUN_NOT_FOUND'', 404)
          else if rr_lifecycle run \<notin> {RWorking, RInputRequired} then Inl (''RUN_TERMINAL'', 409)
          else if \<not> truthy_str (rr_space_id run) then Inl (''SPACE_MISSING'', 422)
          else (case requireAssignmentScope tk run_id step_id (rr_space_id run) of
            Some e \<Rightarrow> Inl e
          | None \<Rightarrow>
            if (case find (\<lambda>m. me_step_id m = step_id) (listRunStepMemos st run_id) of
                  None \<Rightarrow> True | Some m \<Rightarrow> me_status m \<noteq> SWorking)
            then Inl (''STEP_NOT_ACTIVE'', 409)
            else (case (case catalogEntryForStep (case getFlowIndexEntry st (the (rr_flow_id run)) (rr_space_id run) of
                           None \<Rightarrow> None | Some e \<Rightarrow> fe_catalog e) step_id of
                         None \<Rightarrow> None | Some entry \<Rightarrow> branch_named entry (ib_branch body)) of
              None \<Rightarrow> Inl (''BRANCH_NOT_FOUND'', 400)
            | Some named \<Rightarrow>
                if validateBranchContract ajv (case named of None \<Rightarrow> no_contract | Some b \<Rightarrow> contract_of b)
                     \<lparr> bi_payload = Some (ib_payload body), bi_files = Some (filesBySlot (ib_files body)) \<rparr> \<noteq> None
                then Inl (''CONTRACT_VALIDATION_FAILED'', 400)
                else (case resolveSpaceRoot (getSpaceBindings st (the (rr_space_id run))) of
                  None \<Rightarrow> Inl (''SPACE_ROOT_MISSING'', 422)
                | Some root \<Rightarrow>
                    if root = [] then Inl (''SPACE_ROOT_MISSING'', 422)
                    else Inr \<lparr> is_run_id = run_id, is_step_id = step_id, is_branch = ib_branch body,
                      is_space_id = the (rr_space_id run), is_space_root = root, is_actor_id = tc_actor_id tk,
                      is_token_id = tc_token_id tk, is_idempotency_key = ib_idempotency_key body,
                      is_files = ib_files body \<rparr>))))"

definition route_issue ::
    "ajv_compile \<Rightarrow> upload_deps \<Rightarrow> studio \<Rightarrow> bearer \<Rightarrow> capability list \<Rightarrow> string \<Rightarrow> string \<Rightarrow> json \<Rightarrow> uploads
     \<Rightarrow> (denial + upload_intent) \<times> uploads" where
  "route_issue ajv d st tk caps run_id step_id raw s =
     (case requireCapability [''step:resolve''] caps of
        Some e \<Rightarrow> (Inl e, s)
      | None \<Rightarrow>
          (case parseIntentBody raw of
             None \<Rightarrow> (Inl (''INVALID_BODY'', 400), s)
           | Some body \<Rightarrow>
               (case intent_request ajv st tk run_id step_id body of
                  Inl e \<Rightarrow> (Inl e, s)
                | Inr inp \<Rightarrow> (case issue d inp s of (r, s') \<Rightarrow> (upload_answer r, s')))))"

text \<open>The intent of a request, within the boundary of its token.\<close>

definition intent_scope :: "uploads \<Rightarrow> bearer \<Rightarrow> capability list \<Rightarrow> string \<Rightarrow> denial option" where
  "intent_scope s tk caps i =
     (case requireCapability [''step:resolve''] caps of
        Some e \<Rightarrow> Some e
      | None \<Rightarrow>
          (case getIntentScope s i (tc_actor_id tk) (tc_token_id tk) of
             None \<Rightarrow> Some (''UPLOAD_INTENT_NOT_FOUND'', 410)
           | Some (run_id, step_id, space) \<Rightarrow> requireAssignmentScope tk run_id step_id (Some space)))"

text \<open>A body that is longer than declared is cut off while it is read.\<close>

definition route_transfer ::
    "upload_deps \<Rightarrow> bearer \<Rightarrow> capability list \<Rightarrow> string \<Rightarrow> nat \<Rightarrow> string \<Rightarrow> uploads \<Rightarrow> (denial + nat) \<times> uploads" where
  "route_transfer d tk caps i index bytes s =
     (case intent_scope s tk caps i of
        Some e \<Rightarrow> (Inl e, s)
      | None \<Rightarrow>
          (case authorizeFile d i index (tc_actor_id tk) (tc_token_id tk) s of
             (Inl e, s1) \<Rightarrow> (upload_answer (Inl e), s1)
           | (Inr f, s1) \<Rightarrow>
               if length bytes > uf_size_bytes f
               then (case recordTransferFailure d i index (tc_actor_id tk) (tc_token_id tk) ''UPLOAD_SIZE_MISMATCH'' s1 of
                   (Inl e, s2) \<Rightarrow> (upload_answer (Inl e), s2)
                 | (Inr _, s2) \<Rightarrow> (Inl (''UPLOAD_SIZE_MISMATCH'', 413), s2))
               else (case acceptFile d \<lparr> ac_intent_id = i, ac_index = index, ac_actor_id = tc_actor_id tk,
                       ac_token_id = tc_token_id tk, ac_bytes = bytes \<rparr> s1 of (r, s2) \<Rightarrow> (upload_answer r, s2))))"

definition route_withdraw ::
    "upload_deps \<Rightarrow> bearer \<Rightarrow> capability list \<Rightarrow> string \<Rightarrow> uploads \<Rightarrow> (denial + unit) \<times> uploads" where
  "route_withdraw d tk caps i s =
     (case intent_scope s tk caps i of
        Some e \<Rightarrow> (Inl e, s)
      | None \<Rightarrow> (case abandonAuthorized d i (tc_actor_id tk) (tc_token_id tk) s of (r, s') \<Rightarrow> (upload_answer r, s')))"

section \<open>Resolving with an intent\<close>

record resolve_request =
  rq_body :: resolve_body
  rq_upload_intent_id :: "string option"

definition extname :: "string \<Rightarrow> string" where
  "extname path =
     (let base = last (split_on (CHR ''/'') path); ext = rev (takeWhile (\<lambda>c. c \<noteq> CHR ''.'') (rev base)) in
      if CHR ''.'' \<in> set base \<and> length ext + 1 < length base then CHR ''.'' # ext else [])"

definition inferredMediaType :: "string \<Rightarrow> string" where
  "inferredMediaType path =
     (let ext = to_lower (extname path) in
      if ext = ''.md'' \<or> ext = ''.markdown'' then ''text/markdown''
      else if ext = ''.txt'' then ''text/plain''
      else if ext = ''.json'' then ''application/json''
      else ''application/octet-stream'')"

text \<open>
  What the resolver names in its own working directory: \<open>stat\<close> gives the size of a file, \<open>None\<close> for
  a path that escapes, is no file or is not there.
\<close>

fun local_artifacts :: "(string \<Rightarrow> nat option) \<Rightarrow> artifact_out list \<Rightarrow> artifact_out list option" where
  "local_artifacts stat [] = Some []"
| "local_artifacts stat (a # as) =
     (case stat (ao_path a) of
        None \<Rightarrow> None
      | Some n \<Rightarrow> map_option (\<lambda>outs. a\<lparr>
          ao_name := Some (opt_default (last (split_on (CHR ''/'') (ao_path a))) (ao_name a)),
          ao_media_type := Some (opt_default (inferredMediaType (ao_path a)) (ao_media_type a)),
          ao_size_bytes := Some (int n) \<rparr> # outs) (local_artifacts stat as))"

definition local_body ::
    "(workdir \<Rightarrow> string \<Rightarrow> nat option) \<Rightarrow> studio \<Rightarrow> run_row \<Rightarrow> string \<Rightarrow> string \<Rightarrow> resolve_request \<Rightarrow> denial + resolve_body" where
  "local_body stat st run run_id step_id q =
     (let outs = opt_default [] (rb_artifacts_out (rq_body q)) in
      if truthy_str (rq_upload_intent_id q) \<or> outs = [] \<or> \<not> truthy_str (rr_space_id run) then Inr (rq_body q)
      else case resolveSpaceRoot (getSpaceBindings st (the (rr_space_id run))) of
        None \<Rightarrow> Inl (''SPACE_ROOT_MISSING'', 422)
      | Some root \<Rightarrow>
          if root = [] then Inl (''SPACE_ROOT_MISSING'', 422)
          else (case local_artifacts (stat (stepWorkdirPath root run_id step_id)) outs of
              None \<Rightarrow> Inl (''CONTRACT_VALIDATION_FAILED'', 400)
            | Some outs' \<Rightarrow> Inr ((rq_body q)\<lparr> rb_artifacts_out := Some outs' \<rparr>)))"

text \<open>
  The files of the intent, if the request names one: the body to resolve with, the intent to settle
  afterwards, and an error to answer if the resolution is refused too. A missing intent, or one
  that was prepared before, may belong to a resolution that is being repeated.
\<close>

definition take_over ::
    "upload_deps \<Rightarrow> bearer \<Rightarrow> string \<Rightarrow> string \<Rightarrow> string option \<Rightarrow> resolve_body \<Rightarrow> uploads
     \<Rightarrow> (denial + resolve_body \<times> string option \<times> denial option) \<times> uploads" where
  "take_over d tk run_id step_id intent body s =
     (if \<not> truthy_str intent then (Inr (body, None, None), s)
      else case prepareResolve d \<lparr> pp_intent_id = the intent, pp_run_id = run_id, pp_step_id = step_id,
          pp_branch = rb_branch body, pp_actor_id = tc_actor_id tk, pp_token_id = tc_token_id tk,
          pp_idempotency_key = rb_idempotency_key body \<rparr> s of
        (Inr outs, s') \<Rightarrow> (Inr (body\<lparr> rb_artifacts_out := Some outs \<rparr>, intent, None), s')
      | (Inl (UploadThrew m), s') \<Rightarrow> (Inl (''UPLOAD_PREPARE_FAILED'', 400), s')
      | (Inl (UploadError c m http), s') \<Rightarrow>
          (if c = ''UPLOAD_INTENT_NOT_FOUND'' then (Inr (body, None, Some (c, http)), s')
           else if c = ''UPLOAD_INTENT_CONSUMED'' then (Inr (body, intent, Some (c, http)), s')
           else (Inl (c, http), s')))"

datatype resolve_answer = Resolved step_status | NotResolved denial | Crashed

definition settle_intent :: "upload_deps \<Rightarrow> string option \<Rightarrow> refusal + 'a \<Rightarrow> uploads \<Rightarrow> uploads" where
  "settle_intent d intent r s =
     (case intent of None \<Rightarrow> s
      | Some i \<Rightarrow> (case r of Inl e \<Rightarrow> abandon d i (re_code e) ''resolve'' s | Inr _ \<Rightarrow> consume i s))"

definition resolver_of :: "bearer \<Rightarrow> run_row \<Rightarrow> string \<Rightarrow> caller" where
  "resolver_of tk run run_id = \<lparr> cl_run_id = run_id, cl_session_id = Some (''ses_'' @ rr_session_id run),
     cl_space_id = (if truthy_str (rr_space_id run) then with_prefix ''spc_'' (the (rr_space_id run))
                    else with_prefix ''spc_'' (bareSpaceId (tc_space_id tk))),
     cl_actor_id = tc_actor_id tk, cl_token_id = tc_token_id tk \<rparr>"

definition route_resolve ::
    "engine_deps \<Rightarrow> upload_deps \<Rightarrow> (workdir \<Rightarrow> string \<Rightarrow> nat option) \<Rightarrow> bearer \<Rightarrow> capability list \<Rightarrow> string \<Rightarrow> string
     \<Rightarrow> resolve_request \<Rightarrow> hub \<times> uploads \<Rightarrow> resolve_answer \<times> hub \<times> uploads" where
  "route_resolve e d stat tk caps run_id step_id q hs =
     (case hs of (h, s) \<Rightarrow>
       (case requireCapability [''step:resolve''] caps of
          Some denied \<Rightarrow> (NotResolved denied, h, s)
        | None \<Rightarrow>
            (case getRun (hb_studio h) (bare_with ''run_'' run_id) of
               None \<Rightarrow> (NotResolved (''RUN_NOT_FOUND'', 404), h, s)
             | Some run \<Rightarrow>
                 (case requireAssignmentScope tk run_id step_id (rr_space_id run) of
                    Some denied \<Rightarrow> (NotResolved denied, h, s)
                  | None \<Rightarrow>
                      (case local_body stat (hb_studio h) run run_id step_id q of
                         Inl denied \<Rightarrow> (NotResolved denied, h, s)
                       | Inr body \<Rightarrow>
                           (case take_over d tk run_id step_id (rq_upload_intent_id q) body s of
                              (Inl denied, s1) \<Rightarrow> (NotResolved denied, h, s1)
                            | (Inr (body', intent, problem), s1) \<Rightarrow>
                                (let res = resolveFlowStep e (resolver_of tk run run_id) step_id body' in
                                 case result res h of
                                   Done r \<Rightarrow>
                                     ((case r of Inr status \<Rightarrow> Resolved status
                                       | Inl x \<Rightarrow> NotResolved (opt_default (re_code x, re_http x) problem)),
                                      final res h, settle_intent d intent r s1)
                                 | _ \<Rightarrow> (Crashed, final res h, s1))))))))"

end
