(* ===== verification/UploadProperties.thy ===== *)
theory UploadProperties
  imports UploadRoutes StepProofs EngineSamples
begin

text \<open>
  What the upload service promises over any sequence of its operations and restarts of the hub, and
  how it composes with the resolution of steps.
\<close>

section \<open>A sample\<close>

definition sample_uploads :: upload_deps where
  "sample_uploads = \<lparr> ud_ulid = nat_str, ud_now = (\<lambda>n. 1000 + n), ud_sha256 = (\<lambda>bytes. bytes), ud_runs_dir = (\<lambda>_ _. []) \<rparr>"

lemma upload_ulids: "inj (ud_ulid sample_uploads)"
  by (simp add: sample_uploads_def inj_def)

definition report_file :: upload_file where
  "report_file = \<lparr> uf_slot = ''report'', uf_name = ''a.txt'', uf_media_type = ''text/plain'', uf_size_bytes = 2 \<rparr>"

definition sample_issue :: issue_input where
  "sample_issue = \<lparr> is_run_id = ''run_1'', is_step_id = ''draft'', is_branch = ''ok'', is_space_id = ''s'',
     is_space_root = ''/s'', is_actor_id = ''ann'', is_token_id = ''t'', is_idempotency_key = ''k'', is_files = [report_file] \<rparr>"

definition sample_accept :: accept_input where
  "sample_accept = \<lparr> ac_intent_id = ''upi_0'', ac_index = 0, ac_actor_id = ''ann'', ac_token_id = ''t'', ac_bytes = ''hi'' \<rparr>"

definition sample_prepare :: upload_prepare where
  "sample_prepare = \<lparr> pp_intent_id = ''upi_0'', pp_run_id = ''run_1'', pp_step_id = ''draft'', pp_branch = ''ok'',
     pp_actor_id = ''ann'', pp_token_id = ''t'', pp_idempotency_key = Some ''k'' \<rparr>"

definition uploaded :: uploads where
  "uploaded = fold (upload_step sample_uploads) [Issue sample_issue, Accept sample_accept] init_uploads"

definition uploaded_intent :: upload_intent where
  "uploaded_intent = \<lparr> ui_intent_id = ''upi_0'', ui_run_id = ''run_1'', ui_step_id = ''draft'', ui_branch = ''ok'',
     ui_space_id = ''s'', ui_space_root = ''/s'', ui_actor_id = ''ann'', ui_token_id = ''t'', ui_idempotency_key = ''k'',
     ui_files = [report_file], ui_uploaded = [True], ui_received_bytes = [2], ui_hashes = [Some ''hi''],
     ui_created_at = 1000, ui_updated_at = 1002, ui_state = IntentOpen \<rparr>"

definition issued_intent :: upload_intent where
  "issued_intent = new_intent ''upi_0'' 1000 sample_issue"

lemma sample_quota: "quota_of sample_uploads init_uploads sample_issue = None"
  by (simp add: quota_of_def sample_issue_def report_file_def files_total_def sample_uploads_def init_uploads_def
      reserved_def js_values_def run_bytes_def space_bytes_def directoryBytes_def MAX_ARTIFACT_FILE_BYTES_def
      MAX_STEP_RESOLUTION_BYTES_def MAX_RUN_ARTIFACT_BYTES_def MAX_SPACE_ARTIFACT_BYTES_def)

lemma sample_id: "''upi_'' @ ud_ulid sample_uploads (up_ulids init_uploads) = ''upi_0''"
  by code_simp

lemma sample_key: "binding_key (is_actor_id sample_issue) (is_run_id sample_issue) (is_step_id sample_issue)
    (is_idempotency_key sample_issue) = ''ann:run_1:draft:k''"
  by code_simp

lemma sample_now: "clock_now sample_uploads s = 1000 + up_readings s"
  by (simp add: clock_now_def sample_uploads_def)

definition after_issue :: uploads where
  "after_issue = init_uploads\<lparr> up_records := [(''upi_0'', issued_intent)],
     up_idempotency := [(''ann:run_1:draft:k'', ''upi_0'')], up_saved := [(''upi_0'', Some issued_intent)],
     up_ulids := 1, up_readings := 1 \<rparr>"

lemma issued: "issue sample_uploads sample_issue init_uploads = (Inr issued_intent, after_issue)"
  unfolding issue_def Let_def sample_id sample_key sample_now sample_quota
  by (simp add: init_uploads_def issued_intent_def new_intent_def update_record_def persist_def tick_def js_set_absent
      after_issue_def)

lemma sample_lease: "\<not> lease_over n r" if "n \<le> ui_updated_at r + 10"
  using that by (simp add: lease_over_def UPLOAD_IDLE_LEASE_MS_def)

lemma required: "requireOpen sample_uploads ''upi_0'' ''ann'' ''t'' after_issue = (Inr issued_intent, tick after_issue)"
proof -
  have "js_get (up_records after_issue) ''upi_0'' = Some issued_intent" by (simp add: after_issue_def js_get_def)
  moreover have "ui_actor_id issued_intent = ''ann''" "ui_token_id issued_intent = ''t''" "ui_state issued_intent = IntentOpen"
    "ui_updated_at issued_intent = 1000" by (simp_all add: issued_intent_def new_intent_def sample_issue_def)
  moreover have "up_readings after_issue = 1" by (simp add: after_issue_def)
  ultimately show ?thesis unfolding requireOpen_def by (simp add: sample_lease sample_now)
qed

lemma uploaded_rows:
  "js_get (up_records uploaded) ''upi_0'' = Some uploaded_intent"
  "js_get (up_stored uploaded) (''upi_0'', 0) = Some ''hi''"
  "up_readings uploaded = 4"
  "js_values (up_records uploaded) = [uploaded_intent]"
proof -
  have in_map: "js_has (up_records (tick after_issue)) ''upi_0''" "js_get (up_records (tick after_issue)) ''upi_0'' = Some issued_intent"
    by (simp_all add: after_issue_def tick_def js_has_def js_get_def)
  have files: "ui_files issued_intent = [report_file]" "ui_uploaded issued_intent = [False]" "ui_intent_id issued_intent = ''upi_0''"
    by (simp_all add: issued_intent_def new_intent_def sample_issue_def)
  have now: "clock_now sample_uploads (tick after_issue) = 1002" by (simp add: sample_now after_issue_def tick_def)
  have acc: "accepted sample_uploads sample_accept (clock_now sample_uploads (tick after_issue)) issued_intent = uploaded_intent"
    unfolding now by (simp add: accepted_def issued_intent_def new_intent_def sample_accept_def sample_issue_def
        uploaded_intent_def sample_uploads_def)
  have "acceptFile sample_uploads sample_accept after_issue =
      (Inr 2, write_accepted sample_uploads sample_accept issued_intent (tick after_issue))"
    using required by (simp add: acceptFile_def sample_accept_def files nth_or_def report_file_def)
  then have up: "uploaded = write_accepted sample_uploads sample_accept issued_intent (tick after_issue)"
    by (simp add: uploaded_def issued)
  show "js_get (up_records uploaded) ''upi_0'' = Some uploaded_intent"
    "js_get (up_stored uploaded) (''upi_0'', 0) = Some ''hi''" "up_readings uploaded = 4"
    "js_values (up_records uploaded) = [uploaded_intent]"
    unfolding up write_accepted_def Let_def files in_map(2) opt_default_def option.case acc
    using in_map(1) by (simp_all add: update_record_def persist_def uploaded_intent_def sample_accept_def tick_def after_issue_def
        diagnostic_def Let_def js_values_def js_set_def js_get_def init_uploads_def)
qed

lemma uploaded_lease: "\<not> lease_over (clock_now sample_uploads uploaded) uploaded_intent"
  by (rule sample_lease) (simp add: sample_now uploaded_rows uploaded_intent_def)

section \<open>Quotas\<close>



text \<open>
  The quota of a run goes by the spelling of its id in the request: what is reserved for the run under
  its bare id does not count against a request that spells it with its prefix.
\<close>

theorem quota_by_spelling:
  assumes "is_run_id inp = ''run_'' @ bare" and "\<not> starts_with bare ''run_''"
    and "\<forall>r \<in> set (js_values (up_records s)). ui_run_id r = bare"
    and "quota_of d (s\<lparr> up_records := [] \<rparr>) inp = None"
    and "space_bytes d s (is_space_root inp) + reserved (\<lambda>r. ui_space_id r = is_space_id inp) s
      + files_total (is_files inp) \<le> MAX_SPACE_ARTIFACT_BYTES"
  shows "quota_of d s inp = None"
proof -
  have "bare \<noteq> ''run_'' @ bare" by (metis append_Cons list.distinct(1) same_append_eq self_append_conv2)
  then have none: "filter (\<lambda>r. ui_run_id r = ''run_'' @ bare) (js_values (up_records s)) = []"
    using assms(3) by (auto simp: filter_empty_conv)
  have zero: "reserved (\<lambda>r. ui_run_id r = is_run_id inp) s = 0" unfolding assms(1) reserved_def none by simp
  have "reserved P (s\<lparr> up_records := [] \<rparr>) = 0" for P by (simp add: reserved_def js_values_def)
  moreover have "run_bytes d (s\<lparr> up_records := [] \<rparr>) = run_bytes d s" by (simp add: run_bytes_def fun_eq_iff)
  ultimately show ?thesis using assms(4,5) unfolding quota_of_def Let_def zero
    by (simp split: if_splits)
qed

section \<open>Accepted files\<close>



text \<open>
  The guarantee is for transfers that end before the next begins. Two transfers of one file that
  overlap are both accepted and the later one replaces the bytes of the earlier; and a transfer that
  ends after its intent was dropped writes the record again, so that the intent is back after a
  restart.
\<close>

theorem overlapping_transfers:
  assumes "js_get (up_records s) i = Some r" and "ui_intent_id r = i"
    and "t = write_accepted d second r (write_accepted d first r s)"
    and "ac_index first = n" and "ac_index second = n" and "n < length (ui_hashes r)"
  shows "js_get (up_stored t) (i, n) = Some (ac_bytes second)
    \<and> (\<exists>r'. js_get (up_records t) i = Some r' \<and> ui_hashes r' ! n = Some (ud_sha256 d (ac_bytes second)))"
proof -
  let ?u = "write_accepted d first r s"
  have step: "\<exists>r'. js_get (up_records (write_accepted d inp r w)) i = Some r' \<and> ui_hashes r' = (ui_hashes q)[n := Some (ud_sha256 d (ac_bytes inp))]
      \<and> js_get (up_stored (write_accepted d inp r w)) (i, n) = Some (ac_bytes inp)"
    if "js_get (up_records w) i = Some q" "ui_intent_id q = i" "ac_index inp = n" for inp w q
    using that assms(2) intents_eqD [OF intents_diagnostic]
    by (simp add: write_accepted_def js_has_def opt_default_def Let_def update_record_def persist_def accepted_def tick_def)
  have kept: "\<exists>q. js_get (up_records ?u) i = Some q \<and> ui_intent_id q = i \<and> ui_hashes q = (ui_hashes r)[n := Some (ud_sha256 d (ac_bytes first))]"
    using assms(1,2,4) intents_eqD [OF intents_diagnostic]
    by (simp add: write_accepted_def js_has_def opt_default_def Let_def update_record_def persist_def accepted_def tick_def)
  then obtain q where q: "js_get (up_records ?u) i = Some q" "ui_intent_id q = i" "length (ui_hashes q) = length (ui_hashes r)" by auto
  from step [OF q(1,2) assms(5)] show ?thesis using assms(6) q(3) unfolding assms(3) by auto
qed

theorem late_transfer_brings_back:
  assumes "ui_intent_id r = i" and "t = write_accepted d inp r (abandon d i code stage s)"
  shows "js_get (up_records t) i = None \<and> (\<exists>r'. js_get (up_saved t) i = Some (Some r') \<and> ui_intent_id r' = i)"
  using assms(1) intents_eqD [OF intents_diagnostic] unfolding assms(2)
  by (simp add: write_accepted_def js_has_def opt_default_def Let_def abandon_records persist_def accepted_def tick_def)

section \<open>Restarts\<close>



section \<open>Handing over\<close>

lemma nat_str_dash: "CHR ''-'' \<notin> set (nat_str n)"
proof -
  have "list_all (\<lambda>n. digit_char n \<noteq> CHR ''-'') [0..<16]" by code_simp
  then have "CHR ''-'' \<notin> digit_char ` {..<16}" by (force simp: list_all_iff atLeast0LessThan)
  then show ?thesis using radix_str_digits [of 10 n] by (auto simp: nat_str_def)
qed

lemma staged_index: "staged_name i a = staged_name j b \<Longrightarrow> i = j"
proof -
  have "takeWhile (\<lambda>c. c \<noteq> CHR ''-'') (staged_name n x) = nat_str n" for n x
    using nat_str_dash [of n] by (simp add: staged_name_def) (subst takeWhile_append2, auto)
  then show "staged_name i a = staged_name j b \<Longrightarrow> i = j" by (metis nat_str_inject)
qed

lemma staged_safe: "plain_name name \<Longrightarrow> safe_name (staged_name i name) = staged_name i name"
proof -
  assume plain: "plain_name name"
  have "c \<notin> set q" if "q \<in> set (split_on c w)" for c q w
    using that by (induction w arbitrary: q) (auto split: list.splits if_splits)
  then have "CHR ''/'' \<notin> set (base_name name)" unfolding base_name_def using last_in_set split_on_nonempty by blast
  then have "CHR ''/'' \<notin> set name" using plain by (simp add: plain_name_def)
  then have "CHR ''/'' \<notin> set (staged_name i name)" using nat_str_plain(1) [of i] by (auto simp: staged_name_def)
  then have split: "split_on (CHR ''/'') (staged_name i name) = [staged_name i name]" by (rule split_on_plain)
  have "CHR ''-'' \<in> set (staged_name i name)" by (simp add: staged_name_def)
  then have "staged_name i name \<noteq> []" "staged_name i name \<noteq> ''.''" "staged_name i name \<noteq> ''..''" by auto
  then show ?thesis by (simp add: safe_name_def split)
qed

text \<open>What a file of an intent is handed over as.\<close>

definition handed_over :: "nat \<Rightarrow> upload_file \<Rightarrow> artifact_out" where
  "handed_over i f = \<lparr> ao_slot = uf_slot f, ao_path = staged_name i (uf_name f), ao_name = Some (uf_name f),
     ao_media_type = Some (uf_media_type f), ao_size_bytes = Some (int (uf_size_bytes f)) \<rparr>"

lemma write_plain:
  assumes "plain_name name"
  shows "writeStepWorkdirFile dir (staged_name i name) bytes s =
    (Inr (staged_name i name), s\<lparr> up_work := js_set (dir, staged_name i name) bytes (up_work s) \<rparr>)"
proof -
  have "CHR ''-'' \<in> set (staged_name i name)" by (simp add: staged_name_def)
  then have "staged_name i name \<noteq> []" "staged_name i name \<noteq> ''.''" "staged_name i name \<noteq> ''..''" by auto
  then show ?thesis by (simp add: writeStepWorkdirFile_def Let_def staged_safe [OF assms])
qed

lemma staged_files:
  assumes "stage_files r (enumerate k fs) s = (Inr outs, t)" and "\<forall>f \<in> set fs. plain_name (uf_name f)"
    and "\<forall>m < length fs. \<exists>bytes. js_get (up_stored s) (ui_intent_id r, k + m) = Some bytes
      \<and> length bytes = uf_size_bytes (fs ! m)"
    and "dir = stepWorkdirPath (ui_space_root r) (ui_run_id r) (ui_step_id r)"
  shows "outs = map (\<lambda>(i, f). handed_over i f) (enumerate k fs)
    \<and> (\<forall>m < length fs. js_get (up_work t) (dir, staged_name (k + m) (uf_name (fs ! m)))
         = js_get (up_stored s) (ui_intent_id r, k + m))
    \<and> (\<forall>i x. i < k \<longrightarrow> js_get (up_work t) (dir, staged_name i x) = js_get (up_work s) (dir, staged_name i x))"
  using assms
proof (induction fs arbitrary: k s outs)
  case (Cons f fs)
  from Cons.prems(3) obtain bytes where b: "js_get (up_stored s) (ui_intent_id r, k) = Some bytes"
    "length bytes = uf_size_bytes f" by (metis add_0_right length_greater_0_conv list.distinct(1) nth_Cons_0)
  let ?u = "s\<lparr> up_work := js_set (dir, staged_name k (uf_name f)) bytes (up_work s) \<rparr>"
  have plain: "plain_name (uf_name f)" using Cons.prems(2) by simp
  obtain rest where rest: "stage_files r (enumerate (Suc k) fs) ?u = (Inr rest, t)" "outs = handed_over k f # rest"
    using Cons.prems(1) b write_plain [OF plain] Cons.prems(4)
    by (auto simp: handed_over_def split: prod.splits sum.splits)
  have stored: "\<forall>m < length fs. \<exists>bytes. js_get (up_stored ?u) (ui_intent_id r, Suc k + m) = Some bytes
      \<and> length bytes = uf_size_bytes (fs ! m)"
  proof (intro allI impI)
    fix m assume "m < length fs"
    then show "\<exists>bytes. js_get (up_stored ?u) (ui_intent_id r, Suc k + m) = Some bytes \<and> length bytes = uf_size_bytes (fs ! m)"
      using Cons.prems(3) [rule_format, of "Suc m"] by simp
  qed
  have IH: "rest = map (\<lambda>(i, f). handed_over i f) (enumerate (Suc k) fs)
    \<and> (\<forall>m < length fs. js_get (up_work t) (dir, staged_name (Suc k + m) (uf_name (fs ! m)))
         = js_get (up_stored ?u) (ui_intent_id r, Suc k + m))
    \<and> (\<forall>i x. i < Suc k \<longrightarrow> js_get (up_work t) (dir, staged_name i x) = js_get (up_work ?u) (dir, staged_name i x))"
    by (rule Cons.IH [OF rest(1) _ stored Cons.prems(4)]) (use Cons.prems(2) in simp)
  have first: "js_get (up_work t) (dir, staged_name k (uf_name f)) = js_get (up_stored s) (ui_intent_id r, k)"
    using IH b(1) by simp
  show ?case
  proof (intro conjI allI impI)
    show "outs = map (\<lambda>(i, f). handed_over i f) (enumerate k (f # fs))" using IH rest(2) by simp
    show "js_get (up_work t) (dir, staged_name (k + m) (uf_name ((f # fs) ! m))) = js_get (up_stored s) (ui_intent_id r, k + m)"
      if "m < length (f # fs)" for m
      using that first IH by (cases m) simp_all
    show "js_get (up_work t) (dir, staged_name i x) = js_get (up_work s) (dir, staged_name i x)" if "i < k" for i x
      using IH that staged_index [of i x k "uf_name f"] by auto
  qed
qed simp

text \<open>
  C33. A resolution is handed exactly what was declared and uploaded: when an intent is taken over, the
  caller is the one who issued it, the artifacts are its files in their order with their declared slot,
  name, media type and size, and under the name of each the working directory of the step holds the
  bytes whose digest was kept when they were accepted. Names are plain, as the route checks.
\<close>

theorem handed_over_as_declared:
  assumes "inj (ud_ulid d)" and "s = fold (upload_step d) ops init_uploads"
    and "prepareResolve d inp s = (Inr outs, t)"
    and "js_get (up_records s) (pp_intent_id inp) = Some r" and "\<forall>f \<in> set (ui_files r). plain_name (uf_name f)"
  shows "ui_actor_id r = pp_actor_id inp \<and> ui_token_id r = pp_token_id inp \<and> ui_step_id r = pp_step_id inp
    \<and> ui_branch r = pp_branch inp \<and> outs = map (\<lambda>(i, f). handed_over i f) (enumerate 0 (ui_files r))
    \<and> (\<forall>n < length (ui_files r). \<exists>bytes. length bytes = uf_size_bytes (ui_files r ! n)
         \<and> ui_hashes r ! n = Some (ud_sha256 d bytes)
         \<and> js_get (up_work t) (stepWorkdirPath (ui_space_root r) (ui_run_id r) (ui_step_id r),
             staged_name n (uf_name (ui_files r ! n))) = Some bytes)"
proof -
  have ok: "uploads_ok d s" unfolding assms(2) by (rule reachable_uploads [OF assms(1)])
  have id: "ui_intent_id r = pp_intent_id inp" by (rule record_id [OF ok assms(4)])
  have fits: "intent_fits d (up_stored s) r" using ok assms(4) unfolding uploads_ok_def files_kept_def by blast
  obtain s1 where req: "requireOpen d (pp_intent_id inp) (pp_actor_id inp) (pp_token_id inp) s = (Inr r, s1)"
    using assms(3,4) by (auto simp: prepareResolve_def requireOpen_def split: prod.splits sum.splits if_splits)
  note own = require_record [OF req]
  have refusal: "prepare_refusal d inp r s1 = None"
    using assms(3) by (cases "prepare_refusal d inp r s1") (simp_all add: prepareResolve_def req)
  then have bound: "ui_step_id r = pp_step_id inp" "ui_branch r = pp_branch inp" and all: "False \<notin> set (ui_uploaded r)"
    by (simp_all add: prepare_refusal_def split: if_splits)
  obtain s2 where stage: "stage_files r (enumerate 0 (ui_files r)) s1 = (Inr outs, s2)"
    and t: "up_work t = up_work s2"
    using assms(3) refusal
    by (auto simp: prepareResolve_def req update_record_def persist_def tick_def split: prod.splits sum.splits)
  have uploaded: "ui_uploaded r ! n" if "n < length (ui_files r)" for n
    using all that fits unfolding intent_fits_def by (metis nth_mem)
  have stored: "\<exists>bytes. js_get (up_stored s1) (ui_intent_id r, 0 + n) = Some bytes \<and> length bytes = uf_size_bytes (ui_files r ! n)
      \<and> ui_hashes r ! n = Some (ud_sha256 d bytes)" if "n < length (ui_files r)" for n
    using fits that uploaded [OF that] own unfolding intent_fits_def by (auto simp: tick_def)
  from staged_files [OF stage assms(5) _ refl] stored
  have outs: "outs = map (\<lambda>(i, f). handed_over i f) (enumerate 0 (ui_files r))"
    and work: "\<forall>m < length (ui_files r). js_get (up_work s2) (stepWorkdirPath (ui_space_root r) (ui_run_id r) (ui_step_id r),
        staged_name (0 + m) (uf_name (ui_files r ! m))) = js_get (up_stored s1) (ui_intent_id r, 0 + m)"
    by blast+
  have "\<exists>bytes. length bytes = uf_size_bytes (ui_files r ! n) \<and> ui_hashes r ! n = Some (ud_sha256 d bytes)
         \<and> js_get (up_work t) (stepWorkdirPath (ui_space_root r) (ui_run_id r) (ui_step_id r),
             staged_name n (uf_name (ui_files r ! n))) = Some bytes" if "n < length (ui_files r)" for n
    using stored [OF that] work that unfolding t by auto
  then show ?thesis using own bound outs by blast
qed

lemma sample_prepared:
  "\<exists>t. prepareResolve sample_uploads sample_prepare uploaded = (Inr [handed_over 0 report_file], t)"
proof -
  have inp: "pp_intent_id sample_prepare = ''upi_0''" "pp_run_id sample_prepare = ''run_1''" "pp_step_id sample_prepare = ''draft''"
    "pp_branch sample_prepare = ''ok''" "pp_actor_id sample_prepare = ''ann''" "pp_token_id sample_prepare = ''t''"
    "pp_idempotency_key sample_prepare = Some ''k''" by (simp_all add: sample_prepare_def)
  have r: "ui_actor_id uploaded_intent = ''ann''" "ui_token_id uploaded_intent = ''t''" "ui_state uploaded_intent = IntentOpen"
    "ui_run_id uploaded_intent = ''run_1''" "ui_step_id uploaded_intent = ''draft''" "ui_branch uploaded_intent = ''ok''"
    "ui_idempotency_key uploaded_intent = ''k''" "ui_uploaded uploaded_intent = [True]" "ui_files uploaded_intent = [report_file]"
    "ui_intent_id uploaded_intent = ''upi_0''" "ui_space_id uploaded_intent = ''s''"
    by (simp_all add: uploaded_intent_def)
  have req: "requireOpen sample_uploads ''upi_0'' ''ann'' ''t'' uploaded = (Inr uploaded_intent, tick uploaded)"
    unfolding requireOpen_def by (simp add: uploaded_rows r uploaded_lease)
  have res: "reserved P (tick uploaded) \<le> 2" for P
    by (simp add: reserved_def tick_def uploaded_rows r files_total_def report_file_def)
  have "prepare_refusal sample_uploads sample_prepare uploaded_intent (tick uploaded) = None"
    using res [of "\<lambda>c. ui_run_id c = ''run_1''"] res [of "\<lambda>c. ui_space_id c = ''s''"]
    by (simp add: prepare_refusal_def inp r run_bytes_def space_bytes_def sample_uploads_def directoryBytes_def
        MAX_RUN_ARTIFACT_BYTES_def MAX_SPACE_ARTIFACT_BYTES_def)
  moreover have "plain_name (uf_name report_file)" by code_simp
  note write_plain [OF this]
  ultimately show ?thesis
    by (simp add: prepareResolve_def inp req r tick_def uploaded_rows handed_over_def)
       (simp add: report_file_def)
qed

theorem handed_over_as_declared_witness:
  "\<exists>t bytes. prepareResolve sample_uploads sample_prepare uploaded = (Inr [handed_over 0 report_file], t)
    \<and> js_get (up_work t) ((''/s'', ''run_1'', ''draft''), ''0-a.txt'') = Some bytes \<and> length bytes = 2"
proof -
  obtain t where t: "prepareResolve sample_uploads sample_prepare uploaded = (Inr [handed_over 0 report_file], t)"
    using sample_prepared by blast
  have get: "js_get (up_records uploaded) (pp_intent_id sample_prepare) = Some uploaded_intent"
    using uploaded_rows(1) by (simp add: sample_prepare_def)
  have "\<forall>f \<in> set (ui_files uploaded_intent). plain_name (uf_name f)" by code_simp
  note handed_over = handed_over_as_declared [OF upload_ulids uploaded_def t get this]
  have "staged_name 0 (uf_name (ui_files uploaded_intent ! 0)) = ''0-a.txt''" "uf_size_bytes (ui_files uploaded_intent ! 0) = 2"
    "stepWorkdirPath (ui_space_root uploaded_intent) (ui_run_id uploaded_intent) (ui_step_id uploaded_intent)
      = (''/s'', ''run_1'', ''draft'')" "0 < length (ui_files uploaded_intent)"
    by code_simp+
  then show ?thesis using handed_over t by metis
qed

section \<open>Intents and resolutions\<close>















end
