(* ===== verification/Gates.thy ===== *)
theory Gates
  imports StepOpen RunPolicy ParseManifest
begin

text \<open>
  Gates: points at which a run waits for somebody to approve or reject (\<open>hub-core/src/gates/service.ts\<close>),
  who is notified of them (\<open>projections/notifications.ts\<close>), and the orchestration of a session, which an
  agent proposes as a flow and which is bound to a run once its gate is approved (\<open>orchestration/\<close>).
  The text of a gate's payload is written and read by \<open>gd_encode\<close> and \<open>gd_decode\<close>, standing for
  \<open>JSON.stringify\<close> and \<open>JSON.parse\<close>.
\<close>

section \<open>Notifications of a gate\<close>

record gate_notice =
  gc_gate_id :: string
  gc_run_id :: string
  gc_session_id :: string
  gc_space_id :: string
  gc_space_name :: "string option"
  gc_action_name :: "string option"
  gc_assignees :: "string list option"
  gc_expires_at :: "nat option"
  gc_now :: nat

definition reads_space :: "grant_row list \<Rightarrow> string \<Rightarrow> bool" where
  "reads_space grants actor \<longleftrightarrow>
     list_ex (\<lambda>g. gn_actor_id g = actor \<and> gn_status g = GrantActive \<and> ''space:read'' \<in> set (gn_scopes g)) grants"

definition gate_recipients :: "string list option \<Rightarrow> grant_row list \<Rightarrow> string \<Rightarrow> string list option" where
  "gate_recipients assignees grants fallback =
     (case resolveGateNotificationRecipients assignees grants of
        None \<Rightarrow> None
      | Some [] \<Rightarrow> Some (if fallback \<noteq> [] then [fallback] else [])
      | Some rs \<Rightarrow> Some rs)"

definition gate_visibility_of :: "gate_notice \<Rightarrow> grant_row list \<Rightarrow> string \<Rightarrow> gate_visibility" where
  "gate_visibility_of n grants actor = \<lparr> gv_actor_id = actor, gv_assignees = gc_assignees n,
     gv_can_read_space = reads_space grants actor, gv_space_name = gc_space_name n,
     gv_space_id = addSpaceId (gc_space_id n) \<rparr>"

text \<open>\<open>buildGateNotificationDrafts\<close>, each draft stored as it is made; \<open>space_name ?? space_id\<close> is shown.\<close>

definition notify_gate :: "session_run_deps \<Rightarrow> gate_notice \<Rightarrow> grant_row list \<Rightarrow> string \<Rightarrow> unit hub_op" where
  "notify_gate deps n grants actor =
     (if \<not> shouldNotifyActor (gate_visibility_of n grants actor) then skip
      else do {
        i \<leftarrow> ulid deps;
        let hidden = \<not> reads_space grants actor;
        studio_do (insertNotification \<lparr>
          nt_notification_id = i, nt_actor_id = actor, nt_kind = ''gate'', nt_status = NtPending,
          nt_gate_id = Some (gc_gate_id n), nt_step_id = None, nt_run_id = Some (gc_run_id n),
          nt_session_id = Some (gc_session_id n), nt_space_id = gc_space_id n, nt_space_hidden = hidden,
          nt_title = (if truthy_str (gc_action_name n) then ''Approval needed: '' @ the (gc_action_name n)
                      else ''Gate needs your decision''),
          nt_summary = Some (if hidden then ''Private space'' else opt_default (addSpaceId (gc_space_id n)) (gc_space_name n)),
          nt_expires_at = gc_expires_at n, nt_created_at = gc_now n, nt_dismissed_at = None, nt_resolved_at = None \<rparr>)
      })"

section \<open>Creating a gate\<close>

record gate_dto =
  gt_gate_id :: string
  gt_run_id :: string
  gt_session_id :: string
  gt_step_id :: string
  gt_status :: gate_status
  gt_assignees :: "string list option"
  gt_expires_at :: "nat option"
  gt_form :: "gate_form option"
  gt_payload_ref :: "string option"

definition rowToGate :: "gate_row \<Rightarrow> gate_dto" where
  "rowToGate g = \<lparr> gt_gate_id = ''gate_'' @ ga_gate_id g, gt_run_id = prefixedRun (ga_run_id g),
     gt_session_id = prefixedSession (ga_session_id g), gt_step_id = ga_step_id g, gt_status = ga_status g,
     gt_assignees = ga_assignees g, gt_expires_at = ga_expires_at g, gt_form = ga_form g, gt_payload_ref = ga_payload_ref g \<rparr>"

record gate_input =
  gi_run_id :: string
  gi_session_id :: string
  gi_space_id :: string
  gi_step_id :: string
  gi_assignees :: "string list option"
  gi_form :: "gate_form option"
  gi_payload_ref :: "string option"
  gi_action_name :: "string option"
  gi_expires_at :: "nat option"
  gi_actor_id :: string
  gi_token_id :: string

definition pending_gate :: "string \<Rightarrow> nat \<Rightarrow> gate_input \<Rightarrow> gate_row" where
  "pending_gate i ts inp = \<lparr> ga_gate_id = i, ga_run_id = bare_with ''run_'' (gi_run_id inp),
     ga_session_id = bareSessionId (gi_session_id inp), ga_space_id = bareSpaceId (gi_space_id inp),
     ga_step_id = gi_step_id inp, ga_status = GatePending, ga_assignees = gi_assignees inp,
     ga_expires_at = gi_expires_at inp, ga_form = gi_form inp, ga_payload_ref = gi_payload_ref inp,
     ga_action_name = gi_action_name inp, ga_created_at = ts, ga_resolved_at = None, ga_resolved_by = None,
     ga_decision = None \<rparr>"

definition gate_event :: "string \<Rightarrow> gate_row \<Rightarrow> string \<Rightarrow> string \<Rightarrow> jobj \<Rightarrow> journal_call" where
  "gate_event type g actor token data = \<lparr> jc_type = type, jc_space_id = addSpaceId (ga_space_id g),
     jc_session_id = Some (prefixedSession (ga_session_id g)), jc_run_id = Some (prefixedRun (ga_run_id g)),
     jc_actor_id = actor, jc_token_id = token, jc_data = data \<rparr>"

definition notice_of :: "gate_row \<Rightarrow> space_names option \<Rightarrow> gate_notice" where
  "notice_of g space = \<lparr> gc_gate_id = ga_gate_id g, gc_run_id = ga_run_id g, gc_session_id = ga_session_id g,
     gc_space_id = ga_space_id g, gc_space_name = space_label space, gc_action_name = ga_action_name g,
     gc_assignees = ga_assignees g, gc_expires_at = ga_expires_at g, gc_now = ga_created_at g \<rparr>"

text \<open>The run is put to waiting, whatever its lifecycle.\<close>

definition wait_for_gate :: "string \<Rightarrow> unit hub_op" where
  "wait_for_gate run_bare =
     do {
       run \<leftarrow> studio_ask (\<lambda>st. getRun st run_bare);
       case run of
         None \<Rightarrow> skip
       | Some r \<Rightarrow> (if rr_lifecycle r \<noteq> RInputRequired
           then studio_do (updateRunLifecycle run_bare RInputRequired None) else skip)
     }"

text \<open>What follows the storing of a gate: the run waits, its recipients are told, the event is journaled.\<close>

definition announce_gate :: "session_run_deps \<Rightarrow> gate_row \<Rightarrow> string \<Rightarrow> string \<Rightarrow> gate_dto outcome hub_op" where
  "announce_gate deps g actor token =
     do {
       _ \<leftarrow> wait_for_gate (ga_run_id g);
       space \<leftarrow> studio_ask (\<lambda>st. getSpace st (ga_space_id g));
       grants \<leftarrow> studio_ask (\<lambda>st. listGrants st (ga_space_id g));
       case gate_recipients (ga_assignees g) grants actor of
         None \<Rightarrow> State_Monad.return (Raised ''undefined is not iterable'')
       | Some recipients \<Rightarrow> do {
           _ \<leftarrow> for_each recipients (notify_gate deps (notice_of g space) grants);
           _ \<leftarrow> append_journal (gate_event ''mrmr.gate.pending'' g actor token
             [(''gate_id'', JStr (''gate_'' @ ga_gate_id g)), (''step_id'', JStr (ga_step_id g)),
              (''assignees'', JArr (map JStr (opt_default [] (ga_assignees g)))), (''action_name'', opt_str (ga_action_name g))]);
           State_Monad.return (Done (rowToGate g))
         }
     }"

definition createPendingGate :: "session_run_deps \<Rightarrow> gate_input \<Rightarrow> gate_dto outcome hub_op" where
  "createPendingGate deps inp =
     do {
       i \<leftarrow> ulid deps;
       ts \<leftarrow> nowIso;
       let g = pending_gate i ts inp;
       _ \<leftarrow> studio_do (insertGate g);
       announce_gate deps g (gi_actor_id inp) (gi_token_id inp)
     }"

definition listGatesForRun :: "studio \<Rightarrow> string \<Rightarrow> gate_dto list" where
  "listGatesForRun st run_id = map rowToGate (listGatesByRun st (bare_with ''run_'' run_id))"

definition getGateById :: "studio \<Rightarrow> string \<Rightarrow> gate_row option" where
  "getGateById st i = getGate st (stripPrefix i)"

section \<open>Orchestration\<close>

record orchestration_preview =
  op_manifest_name :: string
  op_flow_digest :: string

record pending_flow =
  pq_flow_id :: string
  pq_manifest :: flow_manifest
  pq_preview :: "orchestration_preview option"

record gate_deps =
  gd_run :: session_run_deps
  gd_digests :: content_digests
  gd_encode :: "pending_flow \<Rightarrow> string"
  gd_decode :: "string \<Rightarrow> pending_flow option"

definition ORCHESTRATION_VALIDATE_ACTION :: string where "ORCHESTRATION_VALIDATE_ACTION = ''orchestration.validate''"
definition ORCHESTRATION_PROPOSED_STEP :: string where "ORCHESTRATION_PROPOSED_STEP = ''orchestration:proposed''"

text \<open>Steps of a parsed manifest have no \<open>executor\<close>, the only thing \<open>walkSteps\<close> lists.\<close>

definition buildOrchestrationPreview :: "content_digests \<Rightarrow> flow_manifest \<Rightarrow> string \<Rightarrow> orchestration_preview" where
  "buildOrchestrationPreview dg m flow_id =
     \<lparr> op_manifest_name = fm_name m, op_flow_digest = fi_digest (compileFlowIr dg m flow_id) \<rparr>"

definition pendingPayloadRef :: "gate_deps \<Rightarrow> flow_manifest \<Rightarrow> string \<Rightarrow> string" where
  "pendingPayloadRef d m flow_id = gd_encode d \<lparr> pq_flow_id = flow_id, pq_manifest = m,
     pq_preview = Some (buildOrchestrationPreview (gd_digests d) m flow_id) \<rparr>"

definition parseOrchestrationPayloadRef :: "gate_deps \<Rightarrow> string option \<Rightarrow> pending_flow option" where
  "parseOrchestrationPayloadRef d payload =
     (if \<not> truthy_str payload then None
      else case gd_decode d (the payload) of
        None \<Rightarrow> None
      | Some p \<Rightarrow> if pq_flow_id p = [] then None
          else Some (p\<lparr> pq_preview := Some (opt_default
            (buildOrchestrationPreview (gd_digests d) (pq_manifest p) (pq_flow_id p)) (pq_preview p)) \<rparr>))"

text \<open>The index of a space as it stands, and with one flow replaced or added.\<close>

definition getSpaceIndexSnapshot :: "studio \<Rightarrow> string \<Rightarrow> space_index" where
  "getSpaceIndexSnapshot st space_id = \<lparr>
     sx_flows = filter (\<lambda>e. bareSpaceId (fe_origin_space_id e) = bareSpaceId space_id) (js_values (sd_flow_index st)),
     sx_run_policies = listIndexedRunPolicies st space_id, sx_hooks = listIndexedHooks st space_id,
     sx_personas = listIndexedPersonas st space_id \<rparr>"

definition upsertEphemeralFlowEntry :: "string \<Rightarrow> flow_index_entry \<Rightarrow> studio \<Rightarrow> studio" where
  "upsertEphemeralFlowEntry space_id e st =
     (let bare = stripPrefix space_id; now = getSpaceIndexSnapshot st bare in
      replaceSpaceIndex bare (now\<lparr> sx_flows := filter (\<lambda>f. fe_flow_id f \<noteq> fe_flow_id e) (sx_flows now) @ [e] \<rparr>) st)"

record bind_input =
  bn_run_id :: string
  bn_session_id :: string
  bn_space_id :: string
  bn_manifest :: flow_manifest
  bn_flow_id :: string
  bn_actor_id :: string
  bn_token_id :: string
  bn_capabilities :: "capability list"

definition orchestrated_flow :: "content_digests \<Rightarrow> bind_input \<Rightarrow> flow_index_entry" where
  "orchestrated_flow dg inp =
     (let ir = compileFlowIr dg (bn_manifest inp) (bn_flow_id inp) in
      \<lparr> fe_flow_id = bn_flow_id inp, fe_origin_space_id = bn_space_id inp, fe_name = fm_name (bn_manifest inp),
        fe_digest = fi_digest ir, fe_triggers = Some (fm_triggers (bn_manifest inp)), fe_ir = Some ir, fe_catalog = None \<rparr>)"

definition with_input :: "jobj \<Rightarrow> jobj" where
  "with_input ctx = js_set ''input'' (coalesce (prop_of ctx ''input'') (JObj [])) ctx"

definition bound_context :: "jobj \<Rightarrow> jobj" where
  "bound_context ctx = with_input (js_set ''_orchestration_pending'' JUndef ctx)"

definition bindOrchestrationToRun ::
    "gate_deps \<Rightarrow> bind_input \<Rightarrow> ((string \<times> string) + step_dispatch list) hub_op" where
  "bindOrchestrationToRun d inp =
     do {
       let run_bare = bare_with ''run_'' (bn_run_id inp);
       found \<leftarrow> studio_ask (\<lambda>st. getRun st run_bare);
       case found of
         None \<Rightarrow> State_Monad.return (Inl (''RUN_NOT_FOUND'', ''Run not found''))
       | Some run \<Rightarrow> do {
           let e = orchestrated_flow (gd_digests d) inp;
           _ \<leftarrow> studio_do (upsertEphemeralFlowEntry (bn_space_id inp) e);
           _ \<leftarrow> studio_do (updateRunFlowBinding run_bare (bn_flow_id inp) (fe_digest e) (Some (bound_context (rr_exec_context run))));
           _ \<leftarrow> append_journal \<lparr> jc_type = ''mrmr.flow.attached'', jc_space_id = bn_space_id inp,
             jc_session_id = Some (bn_session_id inp), jc_run_id = Some (bn_run_id inp), jc_actor_id = bn_actor_id inp,
             jc_token_id = bn_token_id inp, jc_data = [(''flow_id'', JStr (bn_flow_id inp)),
               (''flow_digest'', JStr (fe_digest e)), (''manifest_name'', JStr (fm_name (bn_manifest inp)))] \<rparr>;
           case prepareFlowStart e \<lparr> pi_exec_context = with_input (rr_exec_context run), pi_origin_space_id = bn_space_id inp,
               pi_capabilities = bn_capabilities inp, pi_flow_acl = None, pi_mode = StartManual \<rparr> of
             Inl problem \<Rightarrow> State_Monad.return (Inl problem)
           | Inr (_, steps) \<Rightarrow> do {
               _ \<leftarrow> studio_do (updateRunLifecycle run_bare RWorking None);
               _ \<leftarrow> (if steps = [] then skip
                     else effect (StepsDispatched \<lparr> dc_dispatch = steps, dc_session_id = bn_session_id inp,
                       dc_run_id = bn_run_id inp, dc_actor_id = bn_actor_id inp, dc_token_id = bn_token_id inp \<rparr>));
               _ \<leftarrow> refreshSessionStatus (rr_session_id run);
               State_Monad.return (Inr steps)
             }
         }
     }"

definition isOrchestrationGate :: "gate_row \<Rightarrow> bool" where
  "isOrchestrationGate g \<longleftrightarrow> ga_action_name g = Some ORCHESTRATION_VALIDATE_ACTION"

definition bindOrchestrationFromGate ::
    "gate_deps \<Rightarrow> gate_row \<Rightarrow> string \<Rightarrow> string \<Rightarrow> capability list \<Rightarrow> ((string \<times> string) + step_dispatch list) hub_op" where
  "bindOrchestrationFromGate d g actor token caps =
     (if \<not> isOrchestrationGate g
      then State_Monad.return (Inl (''NOT_ORCHESTRATION_GATE'', ''Gate is not orchestration.validate''))
      else case parseOrchestrationPayloadRef d (ga_payload_ref g) of
        None \<Rightarrow> State_Monad.return (Inl (''INVALID_GATE_PAYLOAD'', ''Missing orchestration manifest on gate''))
      | Some p \<Rightarrow> bindOrchestrationToRun d \<lparr> bn_run_id = ''run_'' @ ga_run_id g, bn_session_id = ''ses_'' @ ga_session_id g,
          bn_space_id = addSpaceId (ga_space_id g), bn_manifest = pq_manifest p, bn_flow_id = pq_flow_id p,
          bn_actor_id = actor, bn_token_id = token, bn_capabilities = caps \<rparr>)"

definition rejectOrchestrationGate :: "gate_row \<Rightarrow> unit hub_op" where
  "rejectOrchestrationGate g =
     do {
       ts \<leftarrow> nowIso;
       _ \<leftarrow> studio_do (updateRunLifecycle (ga_run_id g) RCancelled (Some ts));
       _ \<leftarrow> refreshSessionStatus (ga_session_id g);
       skip
     }"

section \<open>Resolving a gate\<close>

datatype disposition = Continue | Cancel
datatype decision = Approved | Rejected

record resolve_gate_input =
  rg_gate_id :: string
  rg_actor_id :: string
  rg_token_id :: string
  rg_space_id :: "string option"
  rg_disposition :: "disposition option"
  rg_output :: "jobj option"
  rg_decision :: "decision option"
  rg_resume_data :: "jobj option"
  rg_form_values :: "jobj option"
  rg_can_resolve :: bool
  rg_capabilities :: "capability list option"

text \<open>The current wire names a disposition, the older one a decision.\<close>

definition mapGateResolveInput :: "resolve_gate_input \<Rightarrow> disposition \<times> jobj \<times> decision" where
  "mapGateResolveInput inp =
     (case rg_disposition inp of
        Some dis \<Rightarrow> (dis, spread (spread [] (opt_default [] (rg_output inp))) (opt_default [] (rg_form_values inp)),
          (if dis = Continue then Approved else Rejected))
      | None \<Rightarrow>
          (let dec = (if rg_decision inp = Some Rejected then Rejected else Approved) in
           ((if dec = Approved then Continue else Cancel),
            spread (spread (spread [] (opt_default [] (rg_resume_data inp))) (opt_default [] (rg_form_values inp)))
              (opt_default [] (rg_output inp)), dec)))"

text \<open>Whether a grant of the actor lets it resolve; \<open>None\<close> when reading its scopes throws.\<close>

fun some_grant_resolves :: "grant_row list \<Rightarrow> bool option" where
  "some_grant_resolves [] = Some False"
| "some_grant_resolves (g # gs) =
     (case resolveEffectiveCapabilities (gn_scopes g) (gn_capabilities g) of
        None \<Rightarrow> None
      | Some caps \<Rightarrow> if canResolveGate caps then Some True else some_grant_resolves gs)"

definition actor_grants :: "studio \<Rightarrow> string \<Rightarrow> string \<Rightarrow> grant_row list" where
  "actor_grants st space_id actor = filter (\<lambda>g. gn_actor_id g = actor \<and> gn_status g = GrantActive) (listGrants st space_id)"

text \<open>A token resolves gates of its own space only, unless it is privileged.\<close>

definition outside_space :: "gate_row \<Rightarrow> resolve_gate_input \<Rightarrow> bool" where
  "outside_space g inp \<longleftrightarrow> truthy_str (rg_space_id inp)
     \<and> \<not> (the (rg_space_id inp) = ''bootstrap'' \<or> hasCapability (opt_default [] (rg_capabilities inp)) [''hub:admin''])
     \<and> bareSpaceId (the (rg_space_id inp)) \<noteq> ga_space_id g"

text \<open>The gate to resolve, or the error; \<open>Raised\<close> when reading the grants throws.\<close>

definition check_gate :: "studio \<Rightarrow> resolve_gate_input \<Rightarrow> ((string \<times> string) + gate_row) outcome" where
  "check_gate st inp =
     (case getGate st (stripPrefix (rg_gate_id inp)) of
        None \<Rightarrow> Done (Inl (''gate_not_found'', ''Gate not found''))
      | Some g \<Rightarrow>
          if ga_status g \<noteq> GatePending then Done (Inl (''gate_terminal'', ''Gate already resolved''))
          else if outside_space g inp
          then Done (Inl (''SCOPE_ENFORCEMENT_FAILURE'', ''token space does not match gate space''))
          else (case some_grant_resolves (actor_grants st (ga_space_id g) (rg_actor_id inp)) of
              None \<Rightarrow> Raised ''undefined is not iterable''
            | Some granted \<Rightarrow>
                if rg_can_resolve inp \<or> rg_actor_id inp \<in> set (opt_default [] (ga_assignees g)) \<or> granted
                then Done (Inr g)
                else Done (Inl (''SCOPE_ENFORCEMENT_FAILURE'', ''flow:run required''))))"

definition decision_str :: "decision \<Rightarrow> string" where
  "decision_str dec = (case dec of Approved \<Rightarrow> ''approved'' | Rejected \<Rightarrow> ''rejected'')"

definition disposition_str :: "disposition \<Rightarrow> string" where
  "disposition_str dis = (case dis of Continue \<Rightarrow> ''continue'' | Cancel \<Rightarrow> ''cancel'')"

text \<open>What the decision does to the run: the error of a binding that failed is answered.\<close>

definition act_on_run :: "gate_deps \<Rightarrow> resolve_gate_input \<Rightarrow> gate_row \<Rightarrow> decision \<Rightarrow> (string \<times> string) option outcome hub_op" where
  "act_on_run d inp g dec =
     do {
       run \<leftarrow> studio_ask (\<lambda>st. getRun st (ga_run_id g));
       if isOrchestrationGate g \<and> dec = Approved then do {
         r \<leftarrow> bindOrchestrationFromGate d g (rg_actor_id inp) (rg_token_id inp) (opt_default [''flow:run''] (rg_capabilities inp));
         State_Monad.return (Done (case r of Inl e \<Rightarrow> Some e | Inr _ \<Rightarrow> None))
       }
       else if isOrchestrationGate g then do {
         _ \<leftarrow> rejectOrchestrationGate g;
         State_Monad.return (Done None)
       }
       else case run of
         None \<Rightarrow> State_Monad.return (Done None)
       | Some r \<Rightarrow>
           if dec = Approved then
             (if rr_lifecycle r = RInputRequired then do {
                _ \<leftarrow> studio_do (updateRunLifecycle (ga_run_id g) RWorking None);
                State_Monad.return (Done None)
              }
              else State_Monad.return (Done None))
           else do {
             x \<leftarrow> failRunWithNotification (gd_run d) \<lparr> fn_run_id = prefixedRun (ga_run_id g), fn_actor_id = rg_actor_id inp,
               fn_token_id = rg_token_id inp, fn_reason = Some ''gate_rejected'', fn_notify = None \<rparr>;
             State_Monad.return (if x = Threw then Raised ''undefined is not iterable'' else Done None)
           }
     }"

text \<open>What follows the recording of the decision.\<close>

definition carry_out :: "gate_deps \<Rightarrow> resolve_gate_input \<Rightarrow> gate_row \<Rightarrow> nat \<Rightarrow> ((string \<times> string) + gate_dto) outcome hub_op" where
  "carry_out d inp g ts =
     do {
       let (dis, output, dec) = mapGateResolveInput inp;
       let bare = stripPrefix (rg_gate_id inp);
       _ \<leftarrow> studio_do (resolveNotificationsForGate bare ts);
       after (act_on_run d inp g dec) (\<lambda>problem. case problem of
         Some e \<Rightarrow> State_Monad.return (Done (Inl e))
       | None \<Rightarrow> do {
           _ \<leftarrow> append_journal (gate_event ''mrmr.gate.resolved'' g (rg_actor_id inp) (rg_token_id inp)
             [(''gate_id'', JStr (''gate_'' @ bare)), (''disposition'', JStr (disposition_str dis)), (''output'', JObj output),
              (''decision'', JStr (decision_str dec)), (''form_values'', opt_obj (rg_form_values inp)),
              (''resume_data'', opt_obj (rg_resume_data inp))]);
           updated \<leftarrow> studio_ask (\<lambda>st. getGate st bare);
           State_Monad.return (Done (Inr (rowToGate (the updated))))
         })
     }"

definition record_decision :: "resolve_gate_input \<Rightarrow> nat \<Rightarrow> studio \<Rightarrow> studio" where
  "record_decision inp ts =
     (let dec = snd (snd (mapGateResolveInput inp)) in
      updateGateStatus (stripPrefix (rg_gate_id inp)) (if dec = Approved then GateApproved else GateRejected) (Some ts)
        (Some (rg_actor_id inp)) (Some (decision_str dec)))"

definition resolveGate :: "gate_deps \<Rightarrow> resolve_gate_input \<Rightarrow> ((string \<times> string) + gate_dto) outcome hub_op" where
  "resolveGate d inp =
     do {
       checked \<leftarrow> studio_ask (\<lambda>st. check_gate st inp);
       case checked of
         Raised m \<Rightarrow> State_Monad.return (Raised m)
       | OutOfFuel \<Rightarrow> State_Monad.return OutOfFuel
       | Done (Inl e) \<Rightarrow> State_Monad.return (Done (Inl e))
       | Done (Inr g) \<Rightarrow> do {
           ts \<leftarrow> nowIso;
           _ \<leftarrow> studio_do (record_decision inp ts);
           carry_out d inp g ts
         }
     }"

section \<open>Proposing an orchestration\<close>

record attach_input =
  at_session_id :: string
  at_space_id :: string
  at_manifest :: "json option"
  at_actor_id :: string
  at_token_id :: string
  at_capabilities :: "capability list"
  at_breakglass :: bool

record attached =
  ad_run_id :: string
  ad_gate_id :: "string option"
  ad_preview :: orchestration_preview
  ad_bound :: bool

definition orchestrationForm :: gate_form where
  "orchestrationForm = \<lparr> gf_id = ''orchestration.validate.v1'', gf_fields =
     [JObj [(''name'', JStr ''decision''), (''type'', JStr ''enum''),
        (''values'', JArr [JStr ''approve'', JStr ''reject'']), (''required'', JBool True)],
      JObj [(''name'', JStr ''notes''), (''type'', JStr ''string''), (''required'', JBool False)]] \<rparr>"

definition attach_run_input :: "attach_input \<Rightarrow> string \<Rightarrow> create_run_input" where
  "attach_run_input inp space = \<lparr> ci_session_id = at_session_id inp, ci_space_id = Some space, ci_flow_id = None,
     ci_flow_digest = None, ci_input_params = Some [(''_orchestration_pending'', JBool True)], ci_reference_run_ids = None,
     ci_actor_id = at_actor_id inp, ci_token_id = at_token_id inp, ci_capabilities = at_capabilities inp,
     ci_contract_ref_id = None, ci_metadata = None, ci_from_step_id = None \<rparr>"

definition attachOrchestration ::
    "gate_deps \<Rightarrow> zod_parse \<Rightarrow> ajv_compile \<Rightarrow> attach_input \<Rightarrow> ((string \<times> string) + attached) outcome hub_op" where
  "attachOrchestration d safeParse ajv inp =
     (if \<not> hasCapability (at_capabilities inp) [''flow:run'']
      then State_Monad.return (Done (Inl (''SCOPE_ENFORCEMENT_FAILURE'', ''flow:run required on session'')))
      else case at_manifest inp of
        None \<Rightarrow> State_Monad.return (Done (Inl (''INVALID_ATTACH_PAYLOAD'', ''Expected murrmure.flow.attach/v1 payload'')))
      | Some raw \<Rightarrow>
          (case parseFlowManifest safeParse ajv raw of
             ParseError c m \<Rightarrow> State_Monad.return (Done (Inl (c, m)))
           | ParseOk manifest \<Rightarrow> do {
               u \<leftarrow> ulid (gd_run d);
               let flow_id = ''flw_orch_'' @ u;
               let preview = buildOrchestrationPreview (gd_digests d) manifest flow_id;
               let space = addSpaceId (stripPrefix (at_space_id inp));
               r \<leftarrow> admitAndCreateRun (gd_run d) (attach_run_input inp space);
               case r of
                 Refused c m \<Rightarrow> State_Monad.return (Done (Inl (c, m)))
               | AtCapacity e \<Rightarrow> State_Monad.return (Done (Inl (''FLOW_CONCURRENCY_LIMIT'', ax_message e)))
               | Threw \<Rightarrow> State_Monad.return (Raised '''')
               | Reply (run, _) \<Rightarrow> do {
                   _ \<leftarrow> studio_do (updateRunLifecycle (bare_with ''run_'' (rv_run_id run)) RInputRequired None);
                   if at_breakglass inp \<and> hasCapability (at_capabilities inp) [''hub:admin''] then do {
                     b \<leftarrow> bindOrchestrationToRun d \<lparr> bn_run_id = rv_run_id run, bn_session_id = at_session_id inp,
                       bn_space_id = space, bn_manifest = manifest, bn_flow_id = flow_id, bn_actor_id = at_actor_id inp,
                       bn_token_id = at_token_id inp, bn_capabilities = at_capabilities inp \<rparr>;
                     State_Monad.return (Done (case b of Inl e \<Rightarrow> Inl e
                       | Inr _ \<Rightarrow> Inr \<lparr> ad_run_id = rv_run_id run, ad_gate_id = None, ad_preview = preview, ad_bound = True \<rparr>))
                   }
                   else after (createPendingGate (gd_run d) \<lparr> gi_run_id = rv_run_id run, gi_session_id = at_session_id inp,
                       gi_space_id = space, gi_step_id = ORCHESTRATION_PROPOSED_STEP, gi_assignees = None,
                       gi_form = Some orchestrationForm, gi_payload_ref = Some (pendingPayloadRef d manifest flow_id),
                       gi_action_name = Some ORCHESTRATION_VALIDATE_ACTION, gi_expires_at = None,
                       gi_actor_id = at_actor_id inp, gi_token_id = at_token_id inp \<rparr>)
                     (\<lambda>g. State_Monad.return (Done (Inr \<lparr> ad_run_id = rv_run_id run, ad_gate_id = Some (gt_gate_id g),
                       ad_preview = preview, ad_bound = False \<rparr>)))
                 }
             }))"

end
