(* ===== verification/GateProofs.thy ===== *)
theory GateProofs
  imports Gates Outcomes RunProofs
begin

text \<open>
  Gates are decided once and by those who may: what every operation on gates leaves alone, and what a
  decision does to the gate, its notifications and its run.
\<close>

section \<open>What leaves the gates alone\<close>

definition gates_are :: "(string, gate_row) jsmap \<Rightarrow> nat \<Rightarrow> hub \<Rightarrow> bool" where
  "gates_are G n h \<longleftrightarrow> sd_gates (hb_studio h) = G \<and> n \<le> hb_next_id h"

lemma gates_studio: "(\<And>st. sd_gates (f st) = sd_gates st) \<Longrightarrow> keeps (gates_are G n) (studio_do f)"
  by (rule keepsI) (simp add: gates_are_def studio_do_def)

lemma gates_basic [keeps_intros]:
  "keeps (gates_are G n) (studio_ask g)" "keeps (gates_are G n) nowIso" "keeps (gates_are G n) (ulid d)"
  "keeps (gates_are G n) (append_journal c)" "keeps (gates_are G n) (terminateRunExecutors i r)"
  "keeps (gates_are G n) (effect e)"
  by (auto intro!: keepsI simp: gates_are_def studio_ask_def nowIso_def ulid_def append_journal_def
      terminateRunExecutors_def effect_def final_def)

lemma gates_updates [keeps_intros]:
  "keeps (gates_are G n) (studio_do (updateRunLifecycle i l t))" "keeps (gates_are G n) (studio_do (insertNotification m))"
  "keeps (gates_are G n) (studio_do (updateSessionStatus i s))" "keeps (gates_are G n) (studio_do (insertRun r))"
  "keeps (gates_are G n) (studio_do (updateSessionSpacesTouched i touched))"
  "keeps (gates_are G n) (studio_do (resolveNotificationsForGate i at))"
  "keeps (gates_are G n) (studio_do (upsertEphemeralFlowEntry sp e))"
  "keeps (gates_are G n) (studio_do (updateRunFlowBinding i f dg ctx))"
  by (rule gates_studio; simp add: updateRunLifecycle_def insertNotification_def updateSessionStatus_def insertRun_def
      updateSessionSpacesTouched_def resolveNotificationsForGate_def resolve_pending_def upsertEphemeralFlowEntry_def
      replaceSpaceIndex_def updateRunFlowBinding_def Let_def)+

lemma gates_refresh [keeps_intros]: "keeps (gates_are G n) (refreshSessionStatus i)"
  unfolding refreshSessionStatus_def by (intro keeps_intros)

lemma gates_fail [keeps_intros]: "keeps (gates_are G n) (failRunWithNotification d f)"
  unfolding failRunWithNotification_def notify_all_failed_def notify_failed_def by (intro keeps_intros)

lemma gates_create [keeps_intros]: "keeps (gates_are G n) (createRun d inp)"
  unfolding createRun_def insert_run_steps_def by (intro keeps_intros)

lemma gates_admit [keeps_intros]: "keeps (gates_are G n) (admitAndCreateRun d inp)"
  unfolding admitAndCreateRun_def by (intro keeps_intros)

lemma gates_bind [keeps_intros]: "keeps (gates_are G n) (bindOrchestrationToRun d b)"
  unfolding bindOrchestrationToRun_def by (intro keeps_intros)

lemma gates_act [keeps_intros]: "keeps (gates_are G n) (act_on_run d inp g dec)"
  unfolding act_on_run_def bindOrchestrationFromGate_def rejectOrchestrationGate_def by (intro keeps_intros)

lemma gates_notify [keeps_intros]: "keeps (gates_are G n) (notify_gate d no gr a)"
  unfolding notify_gate_def by (intro keeps_intros)

lemma gates_wait [keeps_intros]: "keeps (gates_are G n) (wait_for_gate r)"
  unfolding wait_for_gate_def by (intro keeps_intros)

section \<open>Runs of operations on gates\<close>

text \<open>
  A gate is decided when it is no longer pending. Gates are named by ids the hub has given out, so a
  new gate never takes the place of another.
\<close>

definition decided :: "hub \<Rightarrow> string \<Rightarrow> gate_row \<Rightarrow> bool" where
  "decided h i g \<longleftrightarrow> js_get (sd_gates (hb_studio h)) i = Some g \<and> ga_status g \<noteq> GatePending"

definition gates_named :: "gate_deps \<Rightarrow> hub \<Rightarrow> bool" where
  "gates_named d h \<longleftrightarrow> inj (rd_ulid (gd_run d)) \<and>
     (\<forall>i g. js_get (sd_gates (hb_studio h)) i = Some g \<longrightarrow> (\<exists>n < hb_next_id h. i = rd_ulid (gd_run d) n))"

definition decisions_grow :: "hub \<Rightarrow> hub \<Rightarrow> bool" where
  "decisions_grow s t \<longleftrightarrow> (\<forall>i g. decided s i g \<longrightarrow> decided t i g)"

definition gates_grown :: "gate_deps \<Rightarrow> hub \<Rightarrow> hub \<Rightarrow> bool" where
  "gates_grown d s t \<longleftrightarrow> gates_named d t \<and> decisions_grow s t"

lemma grown_refl: "gates_named d s \<Longrightarrow> gates_grown d s s"
  by (simp add: gates_grown_def decisions_grow_def)

lemma grown_same:
  assumes "gates_grown d s h" "gates_are (sd_gates (hb_studio h)) (hb_next_id h) t"
  shows "gates_grown d s t"
proof -
  have "sd_gates (hb_studio t) = sd_gates (hb_studio h)" "hb_next_id h \<le> hb_next_id t"
    using assms(2) by (simp_all add: gates_are_def)
  then have "gates_named d t" "decisions_grow s t"
    using assms(1) unfolding gates_grown_def gates_named_def decisions_grow_def decided_def by (metis order.strict_trans2)+
  then show ?thesis by (simp add: gates_grown_def)
qed

lemma grown_after:
  assumes "gates_grown d s h" "\<And>G n. keeps (gates_are G n) m"
  shows "gates_grown d s (final m h)"
  using grown_same [OF assms(1) keepsD [OF assms(2)]] by (simp add: gates_are_def)

lemma grown_keeps: "(\<And>G n. keeps (gates_are G n) m) \<Longrightarrow> keeps (gates_grown d s) m"
  by (rule keepsI) (rule grown_after)

lemma create_splits:
  "run_state (createPendingGate deps inp) h =
     run_state (announce_gate deps g (gi_actor_id inp) (gi_token_id inp))
       (h\<lparr> hb_next_id := Suc (hb_next_id h), hb_studio := insertGate g (hb_studio h) \<rparr>)"
  if "g = pending_gate (rd_ulid deps (hb_next_id h)) (hb_now h) inp"
  by (simp add: that createPendingGate_def ulid_def nowIso_def studio_do_def Let_def)

lemma announce_keeps [keeps_intros]: "keeps (gates_are G n) (announce_gate deps g actor token)"
  unfolding announce_gate_def by (intro keeps_intros)

lemma create_grows:
  "keeps (gates_grown d s) (createPendingGate (gd_run d) inp)"
proof (rule keepsI)
  fix h assume h: "gates_grown d s h"
  define g where "g = pending_gate (rd_ulid (gd_run d) (hb_next_id h)) (hb_now h) inp"
  let ?h = "h\<lparr> hb_next_id := Suc (hb_next_id h), hb_studio := insertGate g (hb_studio h) \<rparr>"
  have named: "gates_named d h" and inj: "inj (rd_ulid (gd_run d))" and grow: "decisions_grow s h"
    using h by (simp_all add: gates_grown_def gates_named_def)
  have i: "ga_gate_id g = rd_ulid (gd_run d) (hb_next_id h)" by (simp add: g_def pending_gate_def)
  have fresh: "js_get (sd_gates (hb_studio h)) (ga_gate_id g) = None"
    using named inj unfolding gates_named_def i by (metis injD less_irrefl not_Some_eq)
  have "gates_grown d s ?h"
    using named grow fresh inj unfolding gates_grown_def gates_named_def decisions_grow_def decided_def
    by (auto simp: insertGate_def i less_Suc_eq split: if_splits)
  then show "gates_grown d s (final (createPendingGate (gd_run d) inp) h)"
    using grown_after [OF _ announce_keeps] by (simp add: final_def create_splits [OF g_def])
qed

lemma carry_keeps [keeps_intros]: "keeps (gates_are G n) (carry_out d inp g ts)"
  unfolding carry_out_def by (intro keeps_intros)

text \<open>A decision is taken on a pending gate, by somebody who may take it.\<close>

definition may_decide :: "studio \<Rightarrow> resolve_gate_input \<Rightarrow> gate_row \<Rightarrow> bool" where
  "may_decide st inp g \<longleftrightarrow> \<not> outside_space g inp \<and>
     (rg_can_resolve inp \<or> rg_actor_id inp \<in> set (opt_default [] (ga_assignees g))
      \<or> some_grant_resolves (actor_grants st (ga_space_id g) (rg_actor_id inp)) = Some True)"

lemma check_gate_passes:
  assumes "check_gate st inp = Done (Inr g)"
  shows "getGate st (stripPrefix (rg_gate_id inp)) = Some g" "ga_status g = GatePending" "may_decide st inp g"
proof -
  obtain g' where g: "getGate st (stripPrefix (rg_gate_id inp)) = Some g'"
    using assms by (cases "getGate st (stripPrefix (rg_gate_id inp))") (simp_all add: check_gate_def)
  have "g' = g" using assms by (auto simp: check_gate_def g split: if_splits option.splits)
  then show "getGate st (stripPrefix (rg_gate_id inp)) = Some g" using g by simp
  show "ga_status g = GatePending"
    using assms \<open>g' = g\<close> by (auto simp: check_gate_def g split: if_splits option.splits)
  show "may_decide st inp g"
    using assms \<open>g' = g\<close> by (auto simp: check_gate_def may_decide_def g split: if_splits option.splits)
qed

lemma gate_resolve_cases:
  obtains (refused) "final (resolveGate d inp) h = h"
      "\<And>g. check_gate (hb_studio h) inp \<noteq> Done (Inr g)"
  | (decided) g where "check_gate (hb_studio h) inp = Done (Inr g)"
      "run_state (resolveGate d inp) h =
         run_state (carry_out d inp g (hb_now h)) (h\<lparr> hb_studio := record_decision inp (hb_now h) (hb_studio h) \<rparr>)"
proof (cases "check_gate (hb_studio h) inp")
  case (Done x)
  then show ?thesis using that
    by (cases x) (simp_all add: resolveGate_def final_def studio_ask_def studio_do_def nowIso_def)
qed (use that in \<open>simp_all add: resolveGate_def final_def studio_ask_def\<close>)

lemma record_decision_gates:
  "sd_gates (record_decision inp ts st) = map_at (bare_with ''gate_'' (stripPrefix (rg_gate_id inp)))
     (\<lambda>g. g\<lparr> ga_status := (if snd (snd (mapGateResolveInput inp)) = Approved then GateApproved else GateRejected),
             ga_resolved_at := Some ts, ga_resolved_by := Some (rg_actor_id inp),
             ga_decision := Some (decision_str (snd (snd (mapGateResolveInput inp)))) \<rparr>) (sd_gates st)"
  by (simp add: record_decision_def updateGateStatus_def Let_def)

lemma resolve_grows: "keeps (gates_grown d s) (resolveGate d inp)"
proof (rule keepsI)
  fix h assume h: "gates_grown d s h"
  show "gates_grown d s (final (resolveGate d inp) h)"
  proof (cases rule: gate_resolve_cases [of d inp h])
    case refused
    with h show ?thesis by simp
  next
    case (decided g)
    note pending = check_gate_passes [OF decided(1)]
    let ?h = "h\<lparr> hb_studio := record_decision inp (hb_now h) (hb_studio h) \<rparr>"
    have "gates_grown d s ?h"
      using h pending(1,2) unfolding gates_grown_def gates_named_def decisions_grow_def decided_def
      by (auto simp: record_decision_gates getGate_def map_at_def split: if_splits option.splits)
    then have "gates_grown d s (final (carry_out d inp g (hb_now h)) ?h)"
      by (rule grown_after) (rule carry_keeps)
    then show ?thesis by (simp add: final_def decided(2))
  qed
qed

lemma grown_parts [keeps_intros]:
  "keeps (gates_grown d s) (studio_do (updateRunLifecycle i l t))" "keeps (gates_grown d s) (ulid r)"
  "keeps (gates_grown d s) (bindOrchestrationToRun d b)" "keeps (gates_grown d s) (admitAndCreateRun r inp)"
  by (rule grown_keeps, rule gates_updates gates_basic gates_bind gates_admit)+

lemma attach_grows: "keeps (gates_grown d s) (attachOrchestration d safeParse ajv inp)"
  unfolding attachOrchestration_def by (intro keeps_intros create_grows)

datatype gate_op =
    CreateGate gate_input
  | ResolveGate resolve_gate_input
  | AttachFlow attach_input
  | BindFlow bind_input
  | StartRun create_run_input

fun run_gate_op :: "gate_deps \<Rightarrow> zod_parse \<Rightarrow> ajv_compile \<Rightarrow> gate_op \<Rightarrow> hub \<Rightarrow> hub" where
  "run_gate_op d safeParse ajv (CreateGate inp) = final (createPendingGate (gd_run d) inp)"
| "run_gate_op d safeParse ajv (ResolveGate inp) = final (resolveGate d inp)"
| "run_gate_op d safeParse ajv (AttachFlow inp) = final (attachOrchestration d safeParse ajv inp)"
| "run_gate_op d safeParse ajv (BindFlow inp) = final (bindOrchestrationToRun d inp)"
| "run_gate_op d safeParse ajv (StartRun inp) = final (admitAndCreateRun (gd_run d) inp)"

lemma gate_step_grows: "gates_named d h \<Longrightarrow> gates_grown d h (run_gate_op d safeParse ajv op h)"
  using keepsD [OF create_grows grown_refl] keepsD [OF resolve_grows grown_refl] keepsD [OF attach_grows grown_refl]
    grown_after [OF grown_refl gates_bind] grown_after [OF grown_refl gates_admit]
  by (cases op) simp_all

interpretation gate_run: monotone_system "run_gate_op d safeParse ajv" "gates_named d" decisions_grow
  by unfold_locales (use gate_step_grows in \<open>auto simp: gates_grown_def decisions_grow_def\<close>)

section \<open>What a decision does\<close>

text \<open>Nobody is told of the gate any more: no notification of it is pending.\<close>

definition told_no_more :: "string \<Rightarrow> hub \<Rightarrow> bool" where
  "told_no_more i h \<longleftrightarrow> (\<forall>(k, m) \<in> set (sd_notifications (hb_studio h)). nt_gate_id m = Some i \<longrightarrow> nt_status m \<noteq> NtPending)"

lemma told_studio: "(\<And>st. sd_notifications (f st) = sd_notifications st) \<Longrightarrow> keeps (told_no_more i) (studio_do f)"
  by (rule keepsI) (simp add: told_no_more_def studio_do_def)

lemma js_set_pairs: "x \<in> set (js_set k v m) \<Longrightarrow> x = (k, v) \<or> x \<in> set m"
  by (induction m) (auto simp: js_set_def split: if_splits)

lemma told_insert: "nt_gate_id m \<noteq> Some i \<Longrightarrow> keeps (told_no_more i) (studio_do (insertNotification m))"
  by (rule keepsI) (auto simp: told_no_more_def studio_do_def insertNotification_def dest!: js_set_pairs)

lemma told_parts [keeps_intros]:
  "keeps (told_no_more i) (studio_ask g)" "keeps (told_no_more i) nowIso" "keeps (told_no_more i) (ulid d)"
  "keeps (told_no_more i) (append_journal c)" "keeps (told_no_more i) (terminateRunExecutors r e)"
  "keeps (told_no_more i) (effect x)"
  by (auto intro!: keepsI simp: told_no_more_def studio_ask_def nowIso_def ulid_def append_journal_def
      terminateRunExecutors_def effect_def final_def)

lemma told_updates [keeps_intros]:
  "keeps (told_no_more i) (studio_do (updateRunLifecycle r l t))"
  "keeps (told_no_more i) (studio_do (updateSessionStatus r st))"
  "keeps (told_no_more i) (studio_do (upsertEphemeralFlowEntry space e))"
  "keeps (told_no_more i) (studio_do (updateRunFlowBinding r f dg ctx))"
  by (rule told_studio; simp add: updateRunLifecycle_def updateSessionStatus_def upsertEphemeralFlowEntry_def
      replaceSpaceIndex_def updateRunFlowBinding_def Let_def)+

lemma told_refresh [keeps_intros]: "keeps (told_no_more i) (refreshSessionStatus r)"
  unfolding refreshSessionStatus_def by (intro keeps_intros)

lemma told_fail [keeps_intros]: "keeps (told_no_more i) (failRunWithNotification d f)"
  unfolding failRunWithNotification_def notify_all_failed_def notify_failed_def
  by (intro keeps_intros told_insert) simp_all

lemma told_bind [keeps_intros]: "keeps (told_no_more i) (bindOrchestrationToRun d b)"
  unfolding bindOrchestrationToRun_def by (intro keeps_intros)

lemma told_act [keeps_intros]: "keeps (told_no_more i) (act_on_run d inp g dec)"
  unfolding act_on_run_def bindOrchestrationFromGate_def rejectOrchestrationGate_def by (intro keeps_intros)

lemma told_carry:
  "told_no_more (bare_with ''gate_'' (stripPrefix (rg_gate_id inp))) (final (carry_out d inp g ts) h)"
proof -
  let ?i = "bare_with ''gate_'' (stripPrefix (rg_gate_id inp))"
  have "told_no_more ?i (final (studio_do (resolveNotificationsForGate (stripPrefix (rg_gate_id inp)) ts)) h)"
    by (auto simp: told_no_more_def studio_do_def resolveNotificationsForGate_def resolve_pending_def split: if_splits)
  then show ?thesis unfolding carry_out_def Let_def split_def final_bind
    by (rule keepsD [rotated]) (intro keeps_intros)
qed

lemma carry_gate:
  "sd_gates (hb_studio (final (carry_out d inp g ts) h)) = sd_gates (hb_studio h)"
  using keepsD [OF carry_keeps [where G = "sd_gates (hb_studio h)" and n = 0]] by (simp add: gates_are_def)

section \<open>What a decision does to the run\<close>

definition runs_are :: "(string, run_row) jsmap \<Rightarrow> hub \<Rightarrow> bool" where
  "runs_are R h \<longleftrightarrow> sd_runs (hb_studio h) = R"

lemma runs_studio: "(\<And>st. sd_runs (f st) = sd_runs st) \<Longrightarrow> keeps (runs_are R) (studio_do f)"
  by (rule keepsI) (simp add: runs_are_def studio_do_def)

lemma runs_parts [keeps_intros]:
  "keeps (runs_are R) (studio_ask g)" "keeps (runs_are R) nowIso" "keeps (runs_are R) (ulid d)"
  "keeps (runs_are R) (append_journal c)" "keeps (runs_are R) (terminateRunExecutors r e)"
  "keeps (runs_are R) (effect x)"
  by (auto intro!: keepsI simp: runs_are_def studio_ask_def nowIso_def ulid_def append_journal_def
      terminateRunExecutors_def effect_def final_def)

lemma runs_updates [keeps_intros]:
  "keeps (runs_are R) (studio_do (insertNotification m))"
  "keeps (runs_are R) (studio_do (updateSessionStatus r st))"
  "keeps (runs_are R) (studio_do (resolveNotificationsForGate i t))"
  "keeps (runs_are R) (studio_do (upsertEphemeralFlowEntry space e))"
  by (rule runs_studio; simp add: insertNotification_def updateSessionStatus_def upsertEphemeralFlowEntry_def
      resolveNotificationsForGate_def resolve_pending_def replaceSpaceIndex_def Let_def)+

lemma runs_refresh [keeps_intros]: "keeps (runs_are R) (refreshSessionStatus r)"
  unfolding refreshSessionStatus_def by (intro keeps_intros)

lemma runs_notify [keeps_intros]: "keeps (runs_are R) (notify_all_failed deps inp run space ts)"
  unfolding notify_all_failed_def notify_failed_def by (intro keeps_intros)

lemma runs_same: "(\<And>R. keeps (runs_are R) m) \<Longrightarrow> sd_runs (hb_studio (final m h)) = sd_runs (hb_studio h)"
  by (auto simp: keeps_def runs_are_def)

lemmas runs_frame [simp] = runs_parts [THEN runs_same] runs_updates [THEN runs_same] runs_refresh [THEN runs_same]
  runs_notify [THEN runs_same]

lemma fail_runs:
  assumes "getRun (hb_studio h) i = Some r" "stripPrefix (fn_run_id inp) = i"
  shows "getRun (hb_studio (final (failRunWithNotification deps inp) h)) i =
    Some (if isRunTerminal (rr_lifecycle r) then r else r\<lparr> rr_lifecycle := RFailed, rr_ended_at := Some (hb_now h) \<rparr>)"
  using assms
  by (simp add: failRunWithNotification_def Let_def final_bind result_bind getRun_def updateRunLifecycle_def map_at_def)

text \<open>An id without an underscore carries no prefix.\<close>

lemma starts_set: "starts_with i p \<Longrightarrow> set p \<subseteq> set i"
  unfolding starts_with_def by (metis set_take_subset)

lemma plain_id [simp]:
  assumes "CHR ''_'' \<notin> set i"
  shows "stripPrefix (prefixedRun i) = i" "bareRunId i = i"
    "bareRunId (CHR ''r'' # CHR ''u'' # CHR ''n'' # CHR ''_'' # i) = i"
    "bare_with ''run_'' (CHR ''r'' # CHR ''u'' # CHR ''n'' # CHR ''_'' # i) = i"
proof -
  have no: "\<not> starts_with i ''run_''" "\<not> starts_with i ''ins_''" using assms starts_set [of i] by fastforce+
  then show "stripPrefix (prefixedRun i) = i" "bareRunId i = i"
    "bareRunId (CHR ''r'' # CHR ''u'' # CHR ''n'' # CHR ''_'' # i) = i"
    "bare_with ''run_'' (CHR ''r'' # CHR ''u'' # CHR ''n'' # CHR ''_'' # i) = i"
    by (simp_all add: stripPrefix_def prefixedRun_def with_prefix_def bareRunId_def bare_with_def)
      (simp_all add: starts_with_def)
qed

definition run_after_gate :: "gate_row \<Rightarrow> decision \<Rightarrow> run_lifecycle \<Rightarrow> run_lifecycle" where
  "run_after_gate g dec l =
     (if isOrchestrationGate g then (if dec = Approved then RWorking else RCancelled)
      else if dec = Approved then (if l = RInputRequired then RWorking else l)
      else if isRunTerminal l then l else RFailed)"

lemma upsert_runs [simp]: "sd_runs (upsertEphemeralFlowEntry space e st) = sd_runs st"
  by (simp add: upsertEphemeralFlowEntry_def replaceSpaceIndex_def Let_def)

lemma bind_runs:
  assumes "result (bindOrchestrationToRun d b) h = Inr steps" "CHR ''_'' \<notin> set i" "bn_run_id b = ''run_'' @ i"
    and "getRun (hb_studio h) i = Some r"
  shows "map_option rr_lifecycle (getRun (hb_studio (final (bindOrchestrationToRun d b) h)) i) = Some RWorking"
  using assms
  by (simp add: bindOrchestrationToRun_def Let_def final_bind result_bind getRun_def updateRunLifecycle_def map_at_def
      updateRunFlowBinding_def split: sum.splits prod.splits)

lemma act_runs:
  assumes "result (act_on_run d inp g dec) h = Done None" "CHR ''_'' \<notin> set (ga_run_id g)"
    and "getRun (hb_studio h) (ga_run_id g) = Some r"
  shows "map_option rr_lifecycle (getRun (hb_studio (final (act_on_run d inp g dec) h)) (ga_run_id g)) =
    Some (run_after_gate g dec (rr_lifecycle r))"
proof (cases "isOrchestrationGate g")
  case plain: False
  show ?thesis
  proof (cases dec)
    case Approved
    with plain assms show ?thesis
      by (simp add: act_on_run_def final_bind run_after_gate_def getRun_def updateRunLifecycle_def map_at_def)
  next
    case Rejected
    with plain assms show ?thesis
      using fail_runs [OF assms(3), where deps = "gd_run d"]
      by (simp add: act_on_run_def final_bind run_after_gate_def)
  qed
next
  case orch: True
  show ?thesis
  proof (cases dec)
    case Approved
    with orch assms show ?thesis
      by (fastforce simp: act_on_run_def final_bind result_bind run_after_gate_def bindOrchestrationFromGate_def
          dest: bind_runs [simplified] split: sum.splits option.splits)
  next
    case Rejected
    with orch assms show ?thesis
      by (simp add: act_on_run_def final_bind run_after_gate_def rejectOrchestrationGate_def getRun_def
          updateRunLifecycle_def map_at_def)
  qed
qed

end
