(* ===== verification/GateRoutes.thy ===== *)
theory GateRoutes
  imports GateProofs UploadRoutes
begin

text \<open>
  The requests on gates (\<open>hub-daemon/src/routes/phase07/index.ts\<close>) and what a caller is shown of a gate
  (\<open>presentGateForActor\<close> of \<open>gates/service.ts\<close>). The effective capabilities of the token are an argument;
  of a request body the parts the route reads are given, objects where it spreads them. The events broadcast
  to the shell are left out.
\<close>

section \<open>What is shown of a gate\<close>

record gate_view =
  gw_gate :: gate_dto
  gw_created_at :: nat
  gw_action_name :: "string option"
  gw_space_label :: string
  gw_space_hidden :: bool
  gw_space_link :: "string option"
  gw_preview :: "orchestration_preview option"
  gw_title :: string
  gw_summary :: string

definition left_quote :: string where "left_quote = [CHR 0xE2, CHR 0x80, CHR 0x9C]"
definition right_quote :: string where "right_quote = [CHR 0xE2, CHR 0x80, CHR 0x9D]"

definition gate_title :: "gate_row \<Rightarrow> string" where
  "gate_title g =
     (if ga_step_id g = ORCHESTRATION_PROPOSED_STEP then ''Validate proposed orchestration''
      else if truthy_str (ga_action_name g) then ''Approval needed: '' @ the (ga_action_name g)
      else if starts_with (ga_step_id g) ''gate:'' then ''Review required '' @ em_dash @ '' '' @ ga_step_id g
      else ''Approval needed '' @ em_dash @ '' '' @ ga_step_id g)"

definition gate_summary :: "gate_row \<Rightarrow> pending_flow option \<Rightarrow> string" where
  "gate_summary g pending =
     (case pending of
        Some p \<Rightarrow> ''Agent proposed pipeline '' @ left_quote @ op_manifest_name (the (pq_preview p)) @ right_quote @ ''.''
      | None \<Rightarrow>
          (if truthy_str (ga_action_name g)
           then ''Run blocked at '' @ the (ga_action_name g) @ '' until you approve or reject.''
           else ''Run blocked at '' @ ga_step_id g @ '' until you approve or reject.''))"

definition presentGateForActor :: "gate_deps \<Rightarrow> gate_dto \<Rightarrow> gate_row \<Rightarrow> string \<Rightarrow> bool \<Rightarrow> string option \<Rightarrow> gate_view" where
  "presentGateForActor d gate g actor can_read space_name =
     (let ctx = sanitizeGateContext \<lparr> gv_actor_id = actor, gv_assignees = gt_assignees gate, gv_can_read_space = can_read,
            gv_space_name = space_name, gv_space_id = addSpaceId (ga_space_id g) \<rparr> (ga_action_name g) False;
          pending = (if isOrchestrationGate g then parseOrchestrationPayloadRef d (ga_payload_ref g) else None) in
      \<lparr> gw_gate = gate, gw_created_at = ga_created_at g,
        gw_action_name = (if truthy_str (ga_action_name g) then ga_action_name g else None),
        gw_space_label = gx_space_label ctx, gw_space_hidden = gx_space_hidden ctx,
        gw_space_link = (if truthy_str (gx_space_link ctx) then gx_space_link ctx else None),
        gw_preview = (case pending of None \<Rightarrow> None | Some p \<Rightarrow> pq_preview p),
        gw_title = gate_title g, gw_summary = gate_summary g pending \<rparr>)"

section \<open>Requests\<close>

definition scope_denied :: denial where "scope_denied = (''SCOPE_ENFORCEMENT_FAILURE'', 403)"

definition privileged :: "bearer \<Rightarrow> capability list \<Rightarrow> bool" where
  "privileged tk effective \<longleftrightarrow> tc_space_id tk = ''bootstrap'' \<or> hasCapability effective [''hub:admin'']"

definition present_row :: "gate_deps \<Rightarrow> studio \<Rightarrow> bearer \<Rightarrow> bool \<Rightarrow> gate_dto \<Rightarrow> gate_row \<Rightarrow> gate_view" where
  "present_row d st tk can_read gate g =
     presentGateForActor d gate g (tc_actor_id tk) can_read (space_label (getSpace st (ga_space_id g)))"

definition route_list_gates ::
    "gate_deps \<Rightarrow> studio \<Rightarrow> bearer \<Rightarrow> capability list \<Rightarrow> string \<Rightarrow> denial + gate_view list" where
  "route_list_gates d st tk effective run_id =
     (if \<not> hasCapability effective [''space:read''] then Inl scope_denied
      else let can_read = (if privileged tk effective then True else hasCapability effective [''space:read'']) in
        Inr (List.map_filter (\<lambda>gate. map_option (present_row d st tk can_read gate) (getGateById st (gt_gate_id gate)))
          (listGatesForRun st run_id)))"

record resolve_gate_body =
  gb_disposition :: "string option"
  gb_output :: "jobj option"
  gb_decision :: "string option"
  gb_resume_data :: "jobj option"
  gb_form_values :: "jobj option"
  gb_form :: "jobj option"

definition resolve_gate_request :: "bearer \<Rightarrow> capability list \<Rightarrow> string \<Rightarrow> resolve_gate_body \<Rightarrow> resolve_gate_input" where
  "resolve_gate_request tk effective gate_id b =
     \<lparr> rg_gate_id = gate_id, rg_actor_id = tc_actor_id tk, rg_token_id = tc_token_id tk, rg_space_id = Some (tc_space_id tk),
       rg_disposition = (if gb_disposition b = Some ''cancel'' then Some Cancel
         else if gb_disposition b = Some ''continue'' then Some Continue else None),
       rg_output = gb_output b,
       rg_decision = (if gb_decision b = Some ''rejected'' then Some Rejected
         else if gb_decision b = Some ''approved'' then Some Approved else None),
       rg_resume_data = gb_resume_data b, rg_form_values = or_try (gb_form_values b) (gb_form b),
       rg_can_resolve = hasCapability effective [''flow:run''], rg_capabilities = Some effective \<rparr>"

definition resolve_status :: "string \<Rightarrow> nat" where
  "resolve_status code = (if code = ''gate_not_found'' then 404 else if code = ''SCOPE_ENFORCEMENT_FAILURE'' then 403 else 409)"

definition route_resolve_gate ::
    "gate_deps \<Rightarrow> bearer \<Rightarrow> capability list \<Rightarrow> string \<Rightarrow> resolve_gate_body \<Rightarrow> (denial + gate_dto) outcome hub_op" where
  "route_resolve_gate d tk effective gate_id b =
     (if \<not> hasCapability effective [''flow:run''] then State_Monad.return (Done (Inl scope_denied))
      else do {
        found \<leftarrow> studio_ask (\<lambda>st. getGateById st gate_id);
        case found of
          None \<Rightarrow> State_Monad.return (Done (Inl (''gate_not_found'', 404)))
        | Some g \<Rightarrow>
            if \<not> privileged tk effective \<and> bareSpaceId (tc_space_id tk) \<noteq> ga_space_id g
            then State_Monad.return (Done (Inl scope_denied))
            else after (resolveGate d (resolve_gate_request tk effective gate_id b))
              (\<lambda>r. State_Monad.return (Done (case r of Inl (code, m) \<Rightarrow> Inl (code, resolve_status code) | Inr g \<Rightarrow> Inr g)))
      })"

record create_gate_body =
  kb_session_id :: "string option"
  kb_space_id :: "string option"
  kb_step_id :: "string option"
  kb_assignees :: "string list option"
  kb_form :: "gate_form option"
  kb_action_name :: "string option"
  kb_expires_at :: "nat option"

definition create_gate_request :: "bearer \<Rightarrow> run_row \<Rightarrow> string \<Rightarrow> create_gate_body \<Rightarrow> gate_input" where
  "create_gate_request tk run run_id b =
     \<lparr> gi_run_id = run_id, gi_session_id = opt_default (''ses_'' @ rr_session_id run) (kb_session_id b),
       gi_space_id = opt_default (with_prefix ''spc_'' (opt_default (tc_space_id tk) (rr_space_id run))) (kb_space_id b),
       gi_step_id = opt_default ''gate:review'' (kb_step_id b), gi_assignees = kb_assignees b, gi_form = kb_form b,
       gi_payload_ref = None, gi_action_name = kb_action_name b, gi_expires_at = kb_expires_at b,
       gi_actor_id = tc_actor_id tk, gi_token_id = tc_token_id tk \<rparr>"

definition route_create_gate ::
    "gate_deps \<Rightarrow> bearer \<Rightarrow> capability list \<Rightarrow> string \<Rightarrow> create_gate_body \<Rightarrow> (denial + gate_dto) hub_op" where
  "route_create_gate d tk effective run_id b =
     (if \<not> hasCapability effective [''flow:run'', ''hub:admin''] then State_Monad.return (Inl scope_denied)
      else do {
        run \<leftarrow> studio_ask (\<lambda>st. getRun st (bare_with ''run_'' run_id));
        case run of
          None \<Rightarrow> State_Monad.return (Inl (''run_not_found'', 404))
        | Some r \<Rightarrow> do {
            x \<leftarrow> createPendingGate (gd_run d) (create_gate_request tk r run_id b);
            State_Monad.return (case x of Done g \<Rightarrow> Inr g | _ \<Rightarrow> Inl (''GATE_CREATE_FAILED'', 500))
          }
      })"

end
