(* ===== verification/GateProperties.thy ===== *)
theory GateProperties
  imports GateRoutes EngineSamples
begin

text \<open>
  The properties of gates: decided once, by those who may, with the run moved on; and what is left when the
  binding of an approved flow fails, when a run that has ended gets a gate, and when it waits for two.
\<close>

section \<open>A run with a gate\<close>

definition sample_gates :: gate_deps where
  "sample_gates = \<lparr> gd_run = \<lparr> rd_ulid = (\<lambda>n. CHR ''G'' # replicate n CHR ''x''), rd_instance_create = (\<lambda>_ _ _ _. None) \<rparr>,
     gd_digests = \<lparr> dg_graph = (\<lambda>_. ''g''), dg_catalog = (\<lambda>_. ''c''), dg_ir = (\<lambda>_. ''i'') \<rparr>,
     gd_encode = (\<lambda>p. pq_flow_id p), gd_decode = (\<lambda>_. None) \<rparr>"

definition gate_run_input :: create_run_input where
  "gate_run_input = \<lparr> ci_session_id = ''ses_s'', ci_space_id = Some ''spc_a'', ci_flow_id = None, ci_flow_digest = None,
     ci_input_params = None, ci_reference_run_ids = None, ci_actor_id = ''alice'', ci_token_id = ''t'',
     ci_capabilities = [''flow:run''], ci_contract_ref_id = None, ci_metadata = None, ci_from_step_id = None \<rparr>"

definition review_gate :: "string \<Rightarrow> gate_input" where
  "review_gate step = \<lparr> gi_run_id = ''run_G'', gi_session_id = ''ses_s'', gi_space_id = ''spc_a'', gi_step_id = step,
     gi_assignees = Some [''bob''], gi_form = None, gi_payload_ref = None, gi_action_name = Some ''review'',
     gi_expires_at = None, gi_actor_id = ''alice'', gi_token_id = ''t'' \<rparr>"

definition decide :: "string \<Rightarrow> string \<Rightarrow> decision \<Rightarrow> bool \<Rightarrow> resolve_gate_input" where
  "decide gate actor dec can = \<lparr> rg_gate_id = ''gate_'' @ gate, rg_actor_id = actor, rg_token_id = ''t'',
     rg_space_id = Some ''spc_a'', rg_disposition = None, rg_output = None, rg_decision = Some dec, rg_resume_data = None,
     rg_form_values = None, rg_can_resolve = can, rg_capabilities = None \<rparr>"

abbreviation gate_fold :: "gate_op list \<Rightarrow> hub \<Rightarrow> hub" where
  "gate_fold \<equiv> fold (run_gate_op sample_gates (\<lambda>_. Inl []) (\<lambda>_. Inr (\<lambda>_. None)))"

section \<open>Properties\<close>


definition asked :: hub where
  "asked = gate_fold [StartRun gate_run_input, CreateGate (review_gate ''r'')] engine_hub"

definition reviewed :: "gate_status \<Rightarrow> string option \<Rightarrow> gate_row" where
  "reviewed st by = (pending_gate ''Gx'' 7 (review_gate ''r''))
     \<lparr> ga_status := st, ga_resolved_at := map_option (\<lambda>_. 7) by, ga_resolved_by := by,
        ga_decision := map_option (\<lambda>_. ''approved'') by \<rparr>"

lemma asked_gate: "js_get (sd_gates (hb_studio asked)) ''Gx'' = Some (reviewed GatePending None)" by code_simp


lemma decided_gate:
  "js_get (sd_gates (hb_studio (gate_fold [ResolveGate (decide ''Gx'' ''bob'' Approved False)] asked))) ''Gx'' =
    Some (reviewed GateApproved (Some ''bob''))" by code_simp


lemma gate_changes:
  assumes "final (resolveGate d inp) h \<noteq> h"
  shows "\<exists>g. getGate (hb_studio h) (stripPrefix (rg_gate_id inp)) = Some g \<and> ga_status g = GatePending
    \<and> may_decide (hb_studio h) inp g
    \<and> getGate (hb_studio (final (resolveGate d inp) h)) (stripPrefix (rg_gate_id inp)) = Some (g\<lparr>
        ga_status := (if snd (snd (mapGateResolveInput inp)) = Approved then GateApproved else GateRejected),
        ga_resolved_at := Some (hb_now h), ga_resolved_by := Some (rg_actor_id inp),
        ga_decision := Some (decision_str (snd (snd (mapGateResolveInput inp)))) \<rparr>)
    \<and> told_no_more (bare_with ''gate_'' (stripPrefix (rg_gate_id inp))) (final (resolveGate d inp) h)"
proof (cases rule: gate_resolve_cases [of d inp h])
  case refused
  with assms show ?thesis by simp
next
  case (decided g)
  let ?h = "h\<lparr> hb_studio := record_decision inp (hb_now h) (hb_studio h) \<rparr>"
  note passes = check_gate_passes [OF decided(1)]
  have final: "final (resolveGate d inp) h = final (carry_out d inp g (hb_now h)) ?h"
    by (simp add: final_def decided(2))
  show ?thesis unfolding final
    by (rule exI [of _ g], intro conjI passes told_carry)
      (use passes(1) in \<open>simp add: getGate_def carry_gate record_decision_gates map_at_def\<close>)
qed

text \<open>
  Resolving a gate changes nothing unless the gate is there, is pending, belongs to the token's space
  (or the token is privileged) and the actor may decide it: by \<open>flow:run\<close> on the token, as an assignee,
  or by an active grant. Then the gate is recorded as approved or rejected by that actor, and no
  notification of it is pending any more.
\<close>

theorem gate_decided_by_right:
  assumes "final (resolveGate d inp) h \<noteq> h"
  shows "\<exists>g. getGate (hb_studio h) (stripPrefix (rg_gate_id inp)) = Some g \<and> ga_status g = GatePending
    \<and> may_decide (hb_studio h) inp g
    \<and> getGate (hb_studio (final (resolveGate d inp) h)) (stripPrefix (rg_gate_id inp)) = Some (g\<lparr>
        ga_status := (if snd (snd (mapGateResolveInput inp)) = Approved then GateApproved else GateRejected),
        ga_resolved_at := Some (hb_now h), ga_resolved_by := Some (rg_actor_id inp),
        ga_decision := Some (decision_str (snd (snd (mapGateResolveInput inp)))) \<rparr>)
    \<and> told_no_more (bare_with ''gate_'' (stripPrefix (rg_gate_id inp))) (final (resolveGate d inp) h)"
  using gate_changes [OF assms] .

abbreviation bob_approves :: resolve_gate_input where
  "bob_approves \<equiv> decide ''Gx'' ''bob'' Approved False"

lemma gate_key: "bare_with ''gate_'' (stripPrefix (rg_gate_id bob_approves)) = ''Gx''" by code_simp

theorem gate_decided_by_right_witness:
  "(\<exists>g. getGate (hb_studio asked) (stripPrefix (rg_gate_id bob_approves)) = Some g \<and> may_decide (hb_studio asked) bob_approves g)
    \<and> told_no_more ''Gx'' (final (resolveGate sample_gates bob_approves) asked)"
proof -
  have "final (resolveGate sample_gates bob_approves) asked \<noteq> asked"
  proof
    assume "final (resolveGate sample_gates bob_approves) asked = asked"
    then have "reviewed GateApproved (Some ''bob'') = reviewed GatePending None" using decided_gate asked_gate by simp
    from arg_cong [OF this, of ga_status] show False by (simp add: reviewed_def)
  qed
  from gate_decided_by_right [OF this] show ?thesis unfolding gate_key by blast
qed




text \<open>
  C37. A request decides a gate only with the capability \<open>flow:run\<close>, and only a gate of the token's own
  space unless the token is privileged; the gate was pending, and it is then decided in the name of the
  token's actor.
\<close>

theorem gate_request_decides:
  assumes "final (route_resolve_gate d tk effective gate_id b) h \<noteq> h"
  shows "hasCapability effective [''flow:run''] \<and> (\<exists>g. getGateById (hb_studio h) gate_id = Some g
    \<and> ga_status g = GatePending \<and> (privileged tk effective \<or> bareSpaceId (tc_space_id tk) = ga_space_id g)
    \<and> (\<exists>g'. getGateById (hb_studio (final (route_resolve_gate d tk effective gate_id b) h)) gate_id = Some g'
        \<and> ga_status g' \<noteq> GatePending \<and> ga_resolved_by g' = Some (tc_actor_id tk)))"
proof -
  let ?inp = "resolve_gate_request tk effective gate_id b"
  have id: "rg_gate_id ?inp = gate_id" "rg_actor_id ?inp = tc_actor_id tk"
    by (simp_all add: resolve_gate_request_def)
  have may: "hasCapability effective [''flow:run'']"
    using assms by (auto simp: route_resolve_gate_def split: if_splits)
  obtain g where g: "getGateById (hb_studio h) gate_id = Some g" "privileged tk effective \<or> bareSpaceId (tc_space_id tk) = ga_space_id g"
      "final (route_resolve_gate d tk effective gate_id b) h = final (resolveGate d ?inp) h"
    using assms may by (cases "getGateById (hb_studio h) gate_id")
      (auto simp: route_resolve_gate_def final_bind run_after split: if_splits outcome.splits)
  from gate_changes [of d ?inp h] assms g(3) obtain g0 g' where g0: "getGate (hb_studio h) (stripPrefix gate_id) = Some g0"
      "ga_status g0 = GatePending" "getGate (hb_studio (final (resolveGate d ?inp) h)) (stripPrefix gate_id) = Some g'"
      "ga_status g' \<noteq> GatePending" "ga_resolved_by g' = Some (tc_actor_id tk)"
    unfolding id by auto
  with g may show ?thesis by (auto simp: getGateById_def)
qed

definition bobs_token :: bearer where
  "bobs_token = \<lparr> tc_actor_id = ''bob'', tc_token_id = ''t'', tc_space_id = ''spc_a'', tc_harness_id = None, tc_scope_ref = None \<rparr>"

definition empty_body :: resolve_gate_body where
  "empty_body = \<lparr> gb_disposition = None, gb_output = None, gb_decision = None, gb_resume_data = None, gb_form_values = None,
     gb_form = None \<rparr>"

abbreviation bob_posts :: "hub \<Rightarrow> hub" where
  "bob_posts \<equiv> final (route_resolve_gate sample_gates bobs_token [''flow:run''] ''gate_Gx'' empty_body)"

text \<open>A body that names neither a disposition nor a decision approves.\<close>

lemma empty_body_approves:
  "js_get (sd_gates (hb_studio (bob_posts asked))) ''Gx'' = Some (reviewed GateApproved (Some ''bob''))" by code_simp

theorem gate_request_decides_witness:
  "\<exists>g'. getGateById (hb_studio (bob_posts asked)) ''gate_Gx'' = Some g' \<and> ga_resolved_by g' = Some ''bob''"
proof -
  have "bob_posts asked \<noteq> asked"
  proof
    assume "bob_posts asked = asked"
    then have "reviewed GateApproved (Some ''bob'') = reviewed GatePending None" using empty_body_approves asked_gate by simp
    from arg_cong [OF this, of ga_status] show False by (simp add: reviewed_def)
  qed
  from gate_request_decides [OF this] show ?thesis by (auto simp: bobs_token_def)
qed

section \<open>What a gate does not hold\<close>

text \<open>
  Two gates of a run: deciding one puts the run back to work while the other still waits.
\<close>

lemma one_gate_of_two:
  "let h = gate_fold [CreateGate (review_gate ''r2''), ResolveGate bob_approves] asked in
   lifecycle_of h ''G'' = Some RWorking \<and> length (listPendingGates (hb_studio h) (Some ''run_G'') None) = 1" by code_simp

text \<open>A gate put on a run that has ended revives it: nothing looks at the lifecycle.\<close>

lemma gate_revives_run:
  "let ended = final (failRunWithNotification (gd_run sample_gates) \<lparr> fn_run_id = ''run_G'', fn_actor_id = ''alice'',
       fn_token_id = ''t'', fn_reason = None, fn_notify = None \<rparr>) (gate_fold [StartRun gate_run_input] engine_hub);
     h = gate_fold [CreateGate (review_gate ''r'')] ended in
   lifecycle_of ended ''G'' = Some RFailed \<and> lifecycle_of h ''G'' = Some RInputRequired
   \<and> lifecycle_of (gate_fold [ResolveGate (decide ''Gxx'' ''bob'' Approved False)] h) ''G'' = Some RWorking" by code_simp

text \<open>
  A proposed flow that does not allow a manual start is taken, previewed and put to a gate; the approval is
  recorded before the binding fails, so the gate is approved, the proposer sees an error, no
  \<open>mrmr.gate.resolved\<close> is journaled, and the run waits with no gate left that could move it.
\<close>

definition unstartable :: flow_manifest where
  "unstartable = \<lparr> fm_name = ''f'', fm_description = None, fm_triggers = \<lparr> sc_manual = Some False, sc_flow_call = None,
     sc_events = None, sc_schedule = None, sc_idempotency = None \<rparr>, fm_suggested = None, fm_steps = [] \<rparr>"

definition proposal :: attach_input where
  "proposal = \<lparr> at_session_id = ''ses_s'', at_space_id = ''spc_a'', at_manifest = Some (JObj []), at_actor_id = ''alice'',
     at_token_id = ''t'', at_capabilities = [''flow:run''], at_breakglass = False \<rparr>"

definition proposing :: gate_deps where
  "proposing = sample_gates\<lparr> gd_decode := (\<lambda>i. Some \<lparr> pq_flow_id = i, pq_manifest = unstartable, pq_preview = None \<rparr>) \<rparr>"

lemma binding_fails_after_approval:
  "let h = final (attachOrchestration proposing (\<lambda>_. Inr unstartable) (\<lambda>_. Inr (\<lambda>_. None)) proposal) engine_hub;
     m = resolveGate proposing (decide ''Gxx'' ''alice'' Approved True) in
   result m h = Done (Inl (''MANUAL_START_DISABLED'', ''Flow does not allow manual start''))
   \<and> map_option ga_status (js_get (sd_gates (hb_studio (final m h))) ''Gxx'') = Some GateApproved
   \<and> lifecycle_of (final m h) ''Gx'' = Some RInputRequired
   \<and> listPendingGates (hb_studio (final m h)) None None = []" by code_simp

text \<open>
  The gates of a run are shown to a token of any space: whether the caller can read the space is taken from
  the token's own \<open>space:read\<close>, not from a grant in the gate's space.
\<close>

definition strangers_token :: bearer where
  "strangers_token = \<lparr> tc_actor_id = ''eve'', tc_token_id = ''u'', tc_space_id = ''spc_b'', tc_harness_id = None, tc_scope_ref = None \<rparr>"

lemma gates_seen_from_outside:
  "map (\<lambda>w. (gw_space_hidden w, gw_space_label w, gw_action_name w))
     (case route_list_gates sample_gates (hb_studio asked) strangers_token [''space:read''] ''run_G'' of Inl e \<Rightarrow> [] | Inr ws \<Rightarrow> ws)
   = [(False, ''spc_a'', Some ''review'')]" by code_simp

text \<open>An assignee without \<open>flow:run\<close> is refused by the route, though the service lets assignees decide.\<close>

lemma assignee_refused:
  "result (route_resolve_gate sample_gates bobs_token [''space:read''] ''gate_Gx'' empty_body) asked = Done (Inl scope_denied)
   \<and> may_decide (hb_studio asked) (resolve_gate_request bobs_token [''space:read''] ''gate_Gx'' empty_body) (reviewed GatePending None)"
  by code_simp

end
