(* ===== verification/Promotion.thy ===== *)
theory Promotion
  imports UploadRoutes
begin

text \<open>
  The files of a resolution become artifacts of the run (\<open>promoteArtifactsOut\<close> of
  \<open>hub-core/src/flow-engine/step-artifacts.ts\<close>, with the paths of \<open>run-scratch-paths.ts\<close> and the sums of
  \<open>fs-bytes.ts\<close>). The file tree of a space maps a path, a list of names, to the text of a regular file;
  directories are there when they are needed. Registering a file for other hubs is a parameter.
\<close>

section \<open>Paths\<close>

type_synonym path = "string list"
type_synonym file_tree = "(path, string) jsmap"

text \<open>\<open>join(base, s)\<close> of an absolute base, normalised.\<close>

definition join_path :: "path \<Rightarrow> string \<Rightarrow> path" where
  "join_path base s = rev (normal_parts (rev base) (split_on (CHR ''/'') s))"

definition path_of :: "string \<Rightarrow> path" where
  "path_of s = rev (normal_parts [] (split_on (CHR ''/'') s))"

definition under :: "path \<Rightarrow> path \<Rightarrow> bool" where
  "under base p \<longleftrightarrow> take (length base) p = base"

definition spaceRunsDir :: "path \<Rightarrow> path" where
  "spaceRunsDir root = root @ [''.mrmr'', ''dev'', ''runs'']"

definition runScratchDir :: "path \<Rightarrow> string \<Rightarrow> path" where
  "runScratchDir root run_id = join_path (spaceRunsDir root) (prefixedRun run_id)"

definition stepStableDir :: "path \<Rightarrow> string \<Rightarrow> string \<Rightarrow> path" where
  "stepStableDir root run_id step_id = join_path (runScratchDir root run_id @ [''steps'']) step_id"

definition stepWorkdir :: "path \<Rightarrow> string \<Rightarrow> string \<Rightarrow> path" where
  "stepWorkdir root run_id step_id = stepStableDir root run_id step_id @ [''work'']"

definition stableArtifactRelPath :: "string \<Rightarrow> string \<Rightarrow> string \<Rightarrow> string \<Rightarrow> string" where
  "stableArtifactRelPath run_id step_id slot filename =
     join_with ''/'' (join_path (join_path (stepStableDir [] run_id step_id) slot) filename)"

definition directoryBytesBelow :: "file_tree \<Rightarrow> path \<Rightarrow> nat" where
  "directoryBytesBelow t dir = sum_list (map (\<lambda>(p, b). length b) (filter (\<lambda>(p, b). under dir p) t))"

text \<open>
  The file a path of a resolution names: below the working directory, and with no two dots in a row
  anywhere on the way to it.
\<close>

definition resolveWorkdirRelativePath :: "path \<Rightarrow> string \<Rightarrow> path option" where
  "resolveWorkdirRelativePath workdir p =
     (let absolute = starts_with p ''/'';
          parts = (if absolute then dropWhile (\<lambda>x. x = ''..'') (path_of p) else path_of p);
          full = (if absolute then parts else workdir @ parts) in
      if \<not> absolute \<and> parts \<noteq> [] \<and> hd parts = ''..'' then None
      else if \<not> under workdir full \<or> list_ex (\<lambda>x. str_includes x ''..'') (drop (length workdir) full) then None
      else Some full)"

definition is_directory :: "file_tree \<Rightarrow> path \<Rightarrow> bool" where
  "is_directory t q \<longleftrightarrow> list_ex (\<lambda>(r, b). under q r \<and> r \<noteq> q) t"

text \<open>The error of a read that finds no regular file.\<close>

definition read_error :: "file_tree \<Rightarrow> path \<Rightarrow> string" where
  "read_error t q = (if is_directory t q then ''EISDIR'' else ''ENOENT'')"

section \<open>Checks\<close>

record promotion =
  pm_space_root :: path
  pm_run_id :: string
  pm_step_id :: string
  pm_out :: "artifact_out list"
  pm_slots :: "(string, artifact_slot) jsmap"
  pm_register :: "(nat \<Rightarrow> string \<Rightarrow> string \<Rightarrow> string \<Rightarrow> string + (string \<times> string)) option"

record prepared =
  pr_out :: artifact_out
  pr_bytes :: string
  pr_name :: string
  pr_src :: path

definition no_limits :: artifact_slot where
  "no_limits = \<lparr> sl_description = None, sl_media_types = None, sl_extensions = None, sl_min_bytes = None,
     sl_max_bytes = None, sl_min_files = None, sl_max_files = None, sl_max_total_bytes = None \<rparr>"

text \<open>\<open>artifact_slots[slot]\<close>, which also finds the members every object inherits.\<close>

definition slot_def :: "(string, artifact_slot) jsmap \<Rightarrow> string \<Rightarrow> artifact_slot option" where
  "slot_def slots s = (case js_get slots s of Some d \<Rightarrow> Some d
     | None \<Rightarrow> if s \<in> set OBJECT_PROTOTYPE then Some no_limits else None)"

text \<open>\<open>basename(out.name ?? out.path) || out.slot\<close>\<close>

definition promoted_name :: "artifact_out \<Rightarrow> string" where
  "promoted_name a =
     (let base = last ([] # filter (\<lambda>x. x \<noteq> []) (split_on (CHR ''/'') (opt_default (ao_path a) (ao_name a)))) in
      if base = [] then ao_slot a else base)"

definition first_error :: "(bool \<times> string) list \<Rightarrow> string option" where
  "first_error cs = map_option snd (find fst cs)"

definition over :: "int option \<Rightarrow> int \<Rightarrow> bool" where
  "over bound n \<longleftrightarrow> (case bound of None \<Rightarrow> False | Some m \<Rightarrow> n > m)"

definition below :: "int option \<Rightarrow> int \<Rightarrow> bool" where
  "below bound n \<longleftrightarrow> (case bound of None \<Rightarrow> False | Some m \<Rightarrow> n < m)"

definition shown_bound :: "int option \<Rightarrow> string" where
  "shown_bound bound = int_str (opt_default 0 bound)"

definition file_checks :: "artifact_slot \<Rightarrow> artifact_out \<Rightarrow> string \<Rightarrow> nat \<Rightarrow> (bool \<times> string) list" where
  "file_checks d a name n =
     [(n > MAX_ARTIFACT_FILE_BYTES, ''Artifact '' @ quoted name @ '' exceeds the 25 MiB file ceiling''),
      (below (sl_min_bytes d) (int n),
       ''Artifact slot '' @ quoted (ao_slot a) @ '' is smaller than min_bytes ('' @ shown_bound (sl_min_bytes d) @ '')''),
      (over (sl_max_bytes d) (int n),
       ''Artifact slot '' @ quoted (ao_slot a) @ '' exceeds max_bytes ('' @ shown_bound (sl_max_bytes d) @ '')''),
      (opt_default [] (sl_media_types d) \<noteq> []
         \<and> (\<not> truthy_str (ao_media_type a) \<or> to_lower (the (ao_media_type a)) \<notin> set (opt_default [] (sl_media_types d))),
       ''Artifact '' @ quoted name @ '' has unsupported media type '' @ quoted (opt_default [] (ao_media_type a))),
      (opt_default [] (sl_extensions d) \<noteq> [] \<and> to_lower (extname name) \<notin> set (opt_default [] (sl_extensions d)),
       ''Artifact '' @ quoted name @ '' has an unsupported extension'')]"

text \<open>The ceilings compared as integers, which evaluates.\<close>

lemma file_ceiling_code [code_unfold]: "n > MAX_ARTIFACT_FILE_BYTES \<longleftrightarrow> int n > 26214400"
  and step_ceiling_code [code_unfold]: "n > MAX_STEP_RESOLUTION_BYTES \<longleftrightarrow> int n > 52428800"
  and run_ceiling_code [code_unfold]: "n > MAX_RUN_ARTIFACT_BYTES \<longleftrightarrow> int n > 262144000"
  and space_ceiling_code [code_unfold]: "n > MAX_SPACE_ARTIFACT_BYTES \<longleftrightarrow> int n > 2147483648"
  by (simp_all add: MAX_ARTIFACT_FILE_BYTES_def MAX_STEP_RESOLUTION_BYTES_def MAX_RUN_ARTIFACT_BYTES_def
      MAX_SPACE_ARTIFACT_BYTES_def)

definition of_slot :: "string \<Rightarrow> prepared list \<Rightarrow> prepared list" where
  "of_slot s items = filter (\<lambda>x. ao_slot (pr_out x) = s) items"

definition bytes_of :: "prepared list \<Rightarrow> nat" where
  "bytes_of items = sum_list (map (\<lambda>x. length (pr_bytes x)) items)"

text \<open>Names, counts and totals of a slot are those of the items prepared so far.\<close>

definition prepare_item ::
    "(string, artifact_slot) jsmap \<Rightarrow> path \<Rightarrow> file_tree \<Rightarrow> artifact_out \<Rightarrow> prepared list \<Rightarrow> string + prepared list" where
  "prepare_item slots workdir t a items =
     (case slot_def slots (ao_slot a) of
        None \<Rightarrow> Inr items
      | Some d \<Rightarrow>
          (case resolveWorkdirRelativePath workdir (ao_path a) of
             None \<Rightarrow> Inl (''Artifact path '' @ quoted (ao_path a) @ '' escapes step workdir'')
           | Some src \<Rightarrow>
               (case js_get t src of
                  None \<Rightarrow> Inl (read_error t src)
                | Some bytes \<Rightarrow>
                    (let name = promoted_name a in
                     if to_lower name \<in> set (map (to_lower \<circ> pr_name) (of_slot (ao_slot a) items))
                     then Inl (''Artifact slot '' @ quoted (ao_slot a) @ '' contains duplicate filename '' @ quoted name)
                     else case first_error (file_checks d a name (length bytes)) of
                       Some e \<Rightarrow> Inl e
                     | None \<Rightarrow> Inr (items @ [\<lparr> pr_out = a, pr_bytes = bytes, pr_name = name, pr_src = src \<rparr>])))))"

fun prepare_items ::
    "(string, artifact_slot) jsmap \<Rightarrow> path \<Rightarrow> file_tree \<Rightarrow> artifact_out list \<Rightarrow> prepared list \<Rightarrow> string + prepared list" where
  "prepare_items slots workdir t [] items = Inr items"
| "prepare_items slots workdir t (a # as) items =
     (case prepare_item slots workdir t a items of
        Inl e \<Rightarrow> Inl e | Inr items' \<Rightarrow> prepare_items slots workdir t as items')"

definition slot_checks :: "prepared list \<Rightarrow> string \<times> artifact_slot \<Rightarrow> (bool \<times> string) list" where
  "slot_checks items sd =
     (let s = fst sd; d = snd sd; count = int (length (of_slot s items)); sum_bytes = int (bytes_of (of_slot s items)) in
      [(below (sl_min_files d) count,
        ''Artifact slot '' @ quoted s @ '' requires at least '' @ shown_bound (sl_min_files d) @ '' file(s)''),
       (count > opt_default 1 (sl_max_files d),
        ''Artifact slot '' @ quoted s @ '' accepts at most '' @ int_str (opt_default 1 (sl_max_files d)) @ '' file(s)''),
       (over (sl_max_total_bytes d) sum_bytes,
        ''Artifact slot '' @ quoted s @ '' exceeds max_total_bytes ('' @ shown_bound (sl_max_total_bytes d) @ '')'')])"

definition ceiling_checks :: "promotion \<Rightarrow> file_tree \<Rightarrow> nat \<Rightarrow> (bool \<times> string) list" where
  "ceiling_checks p t sum_bytes =
     [(sum_bytes > MAX_STEP_RESOLUTION_BYTES, ''Artifacts exceed the 50 MiB step-resolution ceiling''),
      (directoryBytesBelow t (runScratchDir (pm_space_root p) (pm_run_id p)) + sum_bytes > MAX_RUN_ARTIFACT_BYTES,
       ''Artifacts exceed the 250 MiB run ceiling''),
      (directoryBytesBelow t (spaceRunsDir (pm_space_root p)) + sum_bytes > MAX_SPACE_ARTIFACT_BYTES,
       ''Artifacts exceed the 2 GiB space ceiling'')]"

section \<open>Copies\<close>

definition stable_dir :: "promotion \<Rightarrow> path" where
  "stable_dir p = stepStableDir (pm_space_root p) (pm_run_id p) (pm_step_id p)"

definition work_dir :: "promotion \<Rightarrow> path" where
  "work_dir p = stepWorkdir (pm_space_root p) (pm_run_id p) (pm_step_id p)"

definition dest_of :: "promotion \<Rightarrow> prepared \<Rightarrow> path" where
  "dest_of p x = join_path (join_path (stable_dir p) (ao_slot (pr_out x))) (pr_name x)"

text \<open>
  A directory was made for the slot; a file cannot be copied onto it, onto one it lies in or onto another
  directory, and none is made where a file is.
\<close>

definition onto_directory :: "promotion \<Rightarrow> prepared \<Rightarrow> bool" where
  "onto_directory p x \<longleftrightarrow> under (dest_of p x) (join_path (stable_dir p) (ao_slot (pr_out x)))"

definition artifact_file_of :: "promotion \<Rightarrow> prepared \<Rightarrow> (string \<times> string) option \<Rightarrow> artifact_file" where
  "artifact_file_of p x reg = \<lparr> af_name = pr_name x,
     af_path = stableArtifactRelPath (pm_run_id p) (pm_step_id p) (ao_slot (pr_out x)) (pr_name x),
     af_transfer_id = map_option fst reg, af_digest = map_option snd reg, af_size_bytes = Some (int (length (pr_bytes x))) \<rparr>"

definition registered :: "promotion \<Rightarrow> nat \<Rightarrow> prepared \<Rightarrow> string + (string \<times> string) option" where
  "registered p n x =
     (case pm_register p of
        None \<Rightarrow> Inr None
      | Some reg \<Rightarrow> (case reg n (pr_name x) (pr_bytes x) (ao_slot (pr_out x)) of Inl e \<Rightarrow> Inl e | Inr r \<Rightarrow> Inr (Some r)))"

definition file_on_way :: "file_tree \<Rightarrow> path \<Rightarrow> bool" where
  "file_on_way t q \<longleftrightarrow> list_ex (\<lambda>(r, b). under r q) t"

type_synonym slot_files = "(string, artifact_file list) jsmap"

fun copy_items :: "promotion \<Rightarrow> nat \<Rightarrow> prepared list \<Rightarrow> slot_files \<Rightarrow> file_tree \<Rightarrow> (string + slot_files) \<times> file_tree" where
  "copy_items p n [] files t = (Inr files, t)"
| "copy_items p n (x # xs) files t =
     (case js_get t (pr_src x) of
        None \<Rightarrow> (Inl ''ENOENT'', t)
      | Some bytes \<Rightarrow>
          if file_on_way t (join_path (stable_dir p) (ao_slot (pr_out x))) then (Inl ''EEXIST'', t)
          else if onto_directory p x \<or> is_directory t (dest_of p x) then (Inl ''EISDIR'', t)
          else (let t' = js_set (dest_of p x) bytes t in
           case registered p n x of
             Inl e \<Rightarrow> (Inl e, t')
           | Inr reg \<Rightarrow>
               (let s = ao_slot (pr_out x) in
                copy_items p (Suc n) xs (js_set s (opt_default [] (js_get files s) @ [artifact_file_of p x reg]) files) t')))"

definition remove_tree :: "path \<Rightarrow> file_tree \<Rightarrow> file_tree" where
  "remove_tree dir t = filter (\<lambda>(q, b). \<not> under dir q) t"

definition promoted_artifact :: "(string, artifact_slot) jsmap \<Rightarrow> string \<times> artifact_file list \<Rightarrow> step_artifact" where
  "promoted_artifact slots sf = \<lparr> sa_slot = fst sf,
     sa_collection = (opt_default 1 (case slot_def slots (fst sf) of None \<Rightarrow> None | Some d \<Rightarrow> sl_max_files d) > 1),
     sa_files = snd sf \<rparr>"

definition promoteArtifactsOut :: "promotion \<Rightarrow> file_tree \<Rightarrow> (string + step_artifact list) \<times> file_tree" where
  "promoteArtifactsOut p t =
     (case prepare_items (pm_slots p) (work_dir p) t (pm_out p) [] of
        Inl e \<Rightarrow> (Inl e, t)
      | Inr items \<Rightarrow>
          (case first_error (ceiling_checks p t (bytes_of items) @ concat (map (slot_checks items) (pm_slots p))) of
             Some e \<Rightarrow> (Inl e, t)
           | None \<Rightarrow>
               if file_on_way t (stable_dir p) then (Inl ''EEXIST'', t)
               else (case copy_items p 0 items [] t of
                  (Inl e, t') \<Rightarrow> (Inl e, remove_tree (stable_dir p) t')
                | (Inr files, t') \<Rightarrow>
                    (Inr (map (promoted_artifact (pm_slots p)) files), fold (\<lambda>x. js_delete (pr_src x)) items t'))))"

end
