(* ===== verification/PromotionProperties.thy ===== *)
theory PromotionProperties
  imports Promotion EngineSamples
begin

text \<open>
  What a promotion prepares, copies and leaves behind, and the properties that follow: what was submitted
  is what is stored, within every limit; a failure leaves no part of it. The examples show what a failure
  takes with it, and three submissions that go wrong.
\<close>

section \<open>Preparing\<close>

lemma of_slot_append [simp]: "of_slot s (xs @ ys) = of_slot s xs @ of_slot s ys"
  and of_slot_Cons [simp]: "of_slot s (x # xs) = (if ao_slot (pr_out x) = s then x # of_slot s xs else of_slot s xs)"
  and of_slot_Nil [simp]: "of_slot s [] = []"
  by (simp_all add: of_slot_def)

definition item_ok :: "(string, artifact_slot) jsmap \<Rightarrow> path \<Rightarrow> file_tree \<Rightarrow> prepared \<Rightarrow> bool" where
  "item_ok slots workdir t x \<longleftrightarrow> resolveWorkdirRelativePath workdir (ao_path (pr_out x)) = Some (pr_src x)
     \<and> js_get t (pr_src x) = Some (pr_bytes x) \<and> pr_name x = promoted_name (pr_out x)
     \<and> (\<exists>d. slot_def slots (ao_slot (pr_out x)) = Some d
          \<and> list_all (Not \<circ> fst) (file_checks d (pr_out x) (pr_name x) (length (pr_bytes x))))"

definition names_apart :: "prepared list \<Rightarrow> bool" where
  "names_apart items \<longleftrightarrow> (\<forall>s. distinct (map (to_lower \<circ> pr_name) (of_slot s items)))"

lemma first_error_None: "first_error cs = None \<longleftrightarrow> list_all (Not \<circ> fst) cs"
  by (auto simp: first_error_def find_None_iff list_all_iff)

lemma prepare_item_cases:
  assumes "prepare_item slots workdir t a items = Inr items'"
  obtains "slot_def slots (ao_slot a) = None" "items' = items"
  | x where "items' = items @ [x]" "pr_out x = a" "item_ok slots workdir t x"
      "to_lower (pr_name x) \<notin> set (map (to_lower \<circ> pr_name) (of_slot (ao_slot a) items))" "slot_def slots (ao_slot a) \<noteq> None"
proof (cases "slot_def slots (ao_slot a)")
  case None
  then show thesis using assms that(1) by (simp add: prepare_item_def)
next
  case (Some d)
  obtain src bytes where s: "resolveWorkdirRelativePath workdir (ao_path a) = Some src" "js_get t src = Some bytes"
    using assms Some by (auto simp: prepare_item_def split: option.splits)
  show thesis
    using assms Some s by (intro that(2) [of "\<lparr> pr_out = a, pr_bytes = bytes, pr_name = promoted_name a, pr_src = src \<rparr>"])
      (auto simp: prepare_item_def item_ok_def first_error_None Let_def split: if_splits option.splits)
qed

lemma prepare_items_ok:
  assumes "prepare_items slots workdir t as items = Inr items'"
  shows "\<exists>new. items' = items @ new \<and> list_all (item_ok slots workdir t) new
    \<and> map pr_out new = filter (\<lambda>a. slot_def slots (ao_slot a) \<noteq> None) as \<and> (names_apart items \<longrightarrow> names_apart items')"
  using assms
proof (induction as arbitrary: items)
  case (Cons a as)
  then obtain mid where mid: "prepare_item slots workdir t a items = Inr mid" "prepare_items slots workdir t as mid = Inr items'"
    by (auto split: sum.splits)
  obtain new where new: "items' = mid @ new" "list_all (item_ok slots workdir t) new"
      "map pr_out new = filter (\<lambda>a. slot_def slots (ao_slot a) \<noteq> None) as" "names_apart mid \<longrightarrow> names_apart items'"
    using Cons.IH [OF mid(2)] by blast
  from mid(1) show ?case
  proof (cases rule: prepare_item_cases)
    case 1
    with new show ?thesis by auto
  next
    case (2 x)
    have "names_apart items \<Longrightarrow> names_apart mid" using 2 by (auto simp: names_apart_def)
    with 2 new show ?thesis by (intro exI [of _ "x # new"]) auto
  qed
qed simp

section \<open>Copying\<close>

definition files_ref :: "artifact_file \<Rightarrow> string \<times> string \<times> int option" where
  "files_ref f = (af_name f, af_path f, af_size_bytes f)"

definition item_ref :: "promotion \<Rightarrow> prepared \<Rightarrow> string \<times> string \<times> int option" where
  "item_ref p x = (pr_name x, stableArtifactRelPath (pm_run_id p) (pm_step_id p) (ao_slot (pr_out x)) (pr_name x),
     Some (int (length (pr_bytes x))))"

lemma ref_of_file [simp]: "files_ref (artifact_file_of p x reg) = item_ref p x"
  by (simp add: files_ref_def item_ref_def artifact_file_of_def)

lemma copy_step:
  assumes "copy_items p n (x # xs) files t = (Inr files', t')"
  obtains bytes reg where "js_get t (pr_src x) = Some bytes" "\<not> onto_directory p x" "registered p n x = Inr reg"
    "copy_items p (Suc n) xs (js_set (ao_slot (pr_out x))
       (opt_default [] (js_get files (ao_slot (pr_out x))) @ [artifact_file_of p x reg]) files)
       (js_set (dest_of p x) bytes t) = (Inr files', t')"
  using assms by (auto simp: Let_def split: option.splits if_splits sum.splits)

lemma copy_files:
  assumes "copy_items p n xs files t = (Inr files', t')"
  shows "map files_ref (opt_default [] (js_get files' s)) =
      map files_ref (opt_default [] (js_get files s)) @ map (item_ref p) (of_slot s xs)
    \<and> (js_ok files \<longrightarrow> js_ok files') \<and> list_all (\<lambda>x. \<not> onto_directory p x) xs"
  using assms
proof (induction xs arbitrary: n files t)
  case (Cons x xs)
  from Cons.prems obtain bytes reg where "\<not> onto_directory p x"
    "copy_items p (Suc n) xs (js_set (ao_slot (pr_out x))
       (opt_default [] (js_get files (ao_slot (pr_out x))) @ [artifact_file_of p x reg]) files)
       (js_set (dest_of p x) bytes t) = (Inr files', t')" by (rule copy_step)
  with Cons.IH [OF this(2)] show ?case by (auto simp: opt_default_def)
qed simp



section \<open>Paths\<close>

lemma normal_parts_append: "normal_parts acc (xs @ ys) = normal_parts (normal_parts acc xs) ys"
  by (induction acc xs rule: normal_parts.induct) auto

lemma split_plain: "c \<notin> set s \<Longrightarrow> split_on c s = [s]"
  by (induction s) auto

definition plain_segment :: "string \<Rightarrow> bool" where
  "plain_segment s \<longleftrightarrow> CHR ''/'' \<notin> set s \<and> s \<noteq> [] \<and> s \<noteq> ''.'' \<and> s \<noteq> ''..''"

lemma join_plain [simp]: "plain_segment s \<Longrightarrow> join_path base s = base @ [s]"
  by (simp add: join_path_def plain_segment_def split_plain)

lemma under_refl [simp]: "under base base"
  and under_append [simp]: "under base (base @ q)"
  by (simp_all add: under_def)




section \<open>Files of a slot\<close>

definition files_of :: "string \<Rightarrow> step_artifact list \<Rightarrow> artifact_file list" where
  "files_of s arts = concat (map sa_files (filter (\<lambda>a. sa_slot a = s) arts))"

definition size_sum :: "artifact_file list \<Rightarrow> int" where
  "size_sum fs = sum_list (map (\<lambda>f. opt_default 0 (af_size_bytes f)) fs)"

definition all_sizes :: "step_artifact list \<Rightarrow> int" where
  "all_sizes arts = size_sum (concat (map sa_files arts))"

lemma files_of_promoted:
  "js_ok files \<Longrightarrow> files_of s (map (promoted_artifact slots) files) = opt_default [] (js_get files s)"
proof (induction files)
  case (Cons sf files)
  have "files_of s (map (promoted_artifact slots) files) = []" if "s = fst sf"
  proof -
    have "filter (\<lambda>a. sa_slot a = s) (map (promoted_artifact slots) files) = []"
      using Cons.prems that by (auto simp: filter_empty_conv promoted_artifact_def js_ok_def rev_image_eqI)
    then show ?thesis by (simp add: files_of_def)
  qed
  with Cons show ?case
    by (cases sf) (auto simp: files_of_def promoted_artifact_def js_ok_def js_get_def opt_default_def)
qed (simp add: files_of_def js_get_def opt_default_def)

lemma size_sum_append [simp]: "size_sum (xs @ ys) = size_sum xs + size_sum ys"
  by (simp add: size_sum_def)

definition slots_sum :: "slot_files \<Rightarrow> int" where
  "slots_sum files = size_sum (concat (map snd files))"

lemma slots_sum_set:
  "js_ok files \<Longrightarrow> slots_sum (js_set s (opt_default [] (js_get files s) @ [f]) files) = slots_sum files + opt_default 0 (af_size_bytes f)"
proof (induction files)
  case (Cons sf files)
  then show ?case
    by (cases sf) (auto simp: slots_sum_def js_set_def js_get_def js_ok_def opt_default_def size_sum_def)
qed (simp add: slots_sum_def js_set_def js_get_def size_sum_def opt_default_def)

lemma copied_bytes:
  "copy_items p n xs files t = (Inr files', t') \<Longrightarrow> js_ok files \<Longrightarrow> slots_sum files' = slots_sum files + int (bytes_of xs)"
proof (induction xs arbitrary: n files t)
  case (Cons x xs)
  from Cons.prems(1) obtain bytes reg where step:
    "copy_items p (Suc n) xs (js_set (ao_slot (pr_out x))
       (opt_default [] (js_get files (ao_slot (pr_out x))) @ [artifact_file_of p x reg]) files)
       (js_set (dest_of p x) bytes t) = (Inr files', t')" by (rule copy_step)
  show ?case
    using Cons.IH [OF step] slots_sum_set [OF Cons.prems(2)] Cons.prems(2)
    by (simp add: bytes_of_def) (simp add: artifact_file_of_def opt_default_def)
qed (simp add: bytes_of_def)

lemma all_sizes_promoted: "all_sizes (map (promoted_artifact slots) files) = slots_sum files"
  by (simp add: all_sizes_def slots_sum_def promoted_artifact_def comp_def)

lemma sum_of_sizes:
  "sum_list (map (opt_default 0) (map (\<lambda>x. Some (int (length (pr_bytes x)))) items)) = int (bytes_of items)"
  by (induction items) (simp_all add: bytes_of_def opt_default_def)

lemma promote_success:
  assumes "promoteArtifactsOut p t = (Inr arts, t')"
  obtains items files t1 where "prepare_items (pm_slots p) (work_dir p) t (pm_out p) [] = Inr items"
    "list_all (Not \<circ> fst) (ceiling_checks p t (bytes_of items) @ concat (map (slot_checks items) (pm_slots p)))"
    "copy_items p 0 items [] t = (Inr files, t1)" "arts = map (promoted_artifact (pm_slots p)) files"
    "t' = fold (\<lambda>x. js_delete (pr_src x)) items t1"
  using assms by (auto simp: promoteArtifactsOut_def first_error_None split: sum.splits option.splits prod.splits if_splits)

section \<open>Properties\<close>

text \<open>
  C38. What a promotion accepts is within every limit: each file within 25 MiB, the submission within 50 MiB,
  the run within 250 MiB and the space within 2 GiB with what is stored already, every slot within its
  bounds on files and bytes, and no two files of a slot have the same name, whatever the case of letters.
\<close>

theorem promotion_within_limits:
  assumes "promoteArtifactsOut p t = (Inr arts, t')"
  shows "(\<forall>s. \<forall>f\<in>set (files_of s arts). opt_default 0 (af_size_bytes f) \<le> int MAX_ARTIFACT_FILE_BYTES)
    \<and> all_sizes arts \<le> int MAX_STEP_RESOLUTION_BYTES
    \<and> int (directoryBytesBelow t (runScratchDir (pm_space_root p) (pm_run_id p))) + all_sizes arts \<le> int MAX_RUN_ARTIFACT_BYTES
    \<and> int (directoryBytesBelow t (spaceRunsDir (pm_space_root p))) + all_sizes arts \<le> int MAX_SPACE_ARTIFACT_BYTES
    \<and> (\<forall>(s, d)\<in>set (pm_slots p). \<not> below (sl_min_files d) (int (length (files_of s arts)))
         \<and> int (length (files_of s arts)) \<le> opt_default 1 (sl_max_files d)
         \<and> \<not> over (sl_max_total_bytes d) (size_sum (files_of s arts)))
    \<and> (\<forall>s. distinct (map (to_lower \<circ> af_name) (files_of s arts)))"
proof -
  from assms obtain items files t1 where s: "prepare_items (pm_slots p) (work_dir p) t (pm_out p) [] = Inr items"
    "list_all (Not \<circ> fst) (ceiling_checks p t (bytes_of items) @ concat (map (slot_checks items) (pm_slots p)))"
    "copy_items p 0 items [] t = (Inr files, t1)" "arts = map (promoted_artifact (pm_slots p)) files"
    by (rule promote_success)
  have ok: "js_ok files" using copy_files [OF s(3)] by simp
  have refs: "map files_ref (files_of sl arts) = map (item_ref p) (of_slot sl items)" for sl
    using copy_files [OF s(3), of sl] ok by (simp add: s(4) files_of_promoted opt_default_def)
  have names: "map af_name (files_of sl arts) = map pr_name (of_slot sl items)" for sl
    using arg_cong [OF refs, of "map fst"] by (simp add: files_ref_def item_ref_def comp_def)
  have sizes: "map af_size_bytes (files_of sl arts) = map (\<lambda>x. Some (int (length (pr_bytes x)))) (of_slot sl items)" for sl
    using arg_cong [OF refs, of "map (snd \<circ> snd)"] by (simp add: files_ref_def item_ref_def comp_def)
  have len: "length (files_of sl arts) = length (of_slot sl items)" for sl using arg_cong [OF names, of length] by simp
  have "size_sum (files_of sl arts) = sum_list (map (opt_default 0) (map af_size_bytes (files_of sl arts)))" for sl
    by (simp add: size_sum_def comp_def)
  then have sum: "size_sum (files_of sl arts) = int (bytes_of (of_slot sl items))" for sl
    unfolding sizes sum_of_sizes .
  have prepared: "list_all (item_ok (pm_slots p) (work_dir p) t) items" "names_apart items"
    using prepare_items_ok [OF s(1)] by (auto simp: names_apart_def)
  have "\<forall>x\<in>set items. length (pr_bytes x) \<le> MAX_ARTIFACT_FILE_BYTES"
    using prepared(1) by (auto simp: list_all_iff item_ok_def file_checks_def)
  then have "\<forall>x\<in>set (of_slot sl items). length (pr_bytes x) \<le> MAX_ARTIFACT_FILE_BYTES" for sl
    by (auto simp: of_slot_def)
  then have each: "\<forall>n\<in>set (map af_size_bytes (files_of sl arts)). opt_default 0 n \<le> int MAX_ARTIFACT_FILE_BYTES" for sl
    unfolding sizes by (auto simp: opt_default_def)
  have total: "all_sizes arts = int (bytes_of items)"
    using copied_bytes [OF s(3)] by (simp add: s(4) all_sizes_promoted slots_sum_def size_sum_def)
  have ceilings: "bytes_of items \<le> MAX_STEP_RESOLUTION_BYTES"
      "directoryBytesBelow t (runScratchDir (pm_space_root p) (pm_run_id p)) + bytes_of items \<le> MAX_RUN_ARTIFACT_BYTES"
      "directoryBytesBelow t (spaceRunsDir (pm_space_root p)) + bytes_of items \<le> MAX_SPACE_ARTIFACT_BYTES"
    using s(2) by (simp_all add: ceiling_checks_def)
  have slots: "\<not> below (sl_min_files d) (int (length (of_slot sl items))) \<and> int (length (of_slot sl items)) \<le> opt_default 1 (sl_max_files d)
      \<and> \<not> over (sl_max_total_bytes d) (int (bytes_of (of_slot sl items)))" if "(sl, d) \<in> set (pm_slots p)" for sl d
  proof -
    have "list_all (Not \<circ> fst) (slot_checks items (sl, d))" using s(2) that by (auto simp: list_all_iff)
    then show ?thesis by (simp add: slot_checks_def Let_def)
  qed
  have "distinct (map (to_lower \<circ> af_name) (files_of sl arts))" for sl
    using prepared(2) arg_cong [OF names, of "map to_lower"] by (simp add: names_apart_def)
  moreover have "\<forall>f\<in>set (files_of sl arts). opt_default 0 (af_size_bytes f) \<le> int MAX_ARTIFACT_FILE_BYTES" for sl
    using each by simp
  moreover have "all_sizes arts \<le> int MAX_STEP_RESOLUTION_BYTES"
      "int (directoryBytesBelow t (runScratchDir (pm_space_root p) (pm_run_id p))) + all_sizes arts \<le> int MAX_RUN_ARTIFACT_BYTES"
      "int (directoryBytesBelow t (spaceRunsDir (pm_space_root p))) + all_sizes arts \<le> int MAX_SPACE_ARTIFACT_BYTES"
    using ceilings unfolding total by linarith+
  ultimately show ?thesis using slots unfolding len sum by blast
qed








section \<open>Examples\<close>

definition one_slot :: "string \<Rightarrow> (string, artifact_slot) jsmap" where
  "one_slot s = [(s, no_limits\<lparr> sl_max_files := Some 2 \<rparr>)]"

definition out_of :: "string \<Rightarrow> string \<Rightarrow> artifact_out" where
  "out_of s q = \<lparr> ao_slot = s, ao_path = q, ao_name = None, ao_media_type = None, ao_size_bytes = None \<rparr>"

definition sample_promotion :: "string \<Rightarrow> artifact_out list \<Rightarrow> promotion" where
  "sample_promotion s as = \<lparr> pm_space_root = [''home''], pm_run_id = ''run_r'', pm_step_id = ''draft'', pm_out = as,
     pm_slots = one_slot s, pm_register = None \<rparr>"

definition worked :: "string \<Rightarrow> path" where
  "worked name = [''home'', ''.mrmr'', ''dev'', ''runs'', ''run_r'', ''steps'', ''draft'', ''work'', name]"

definition kept_path :: "string \<Rightarrow> string \<Rightarrow> path" where
  "kept_path s name = [''home'', ''.mrmr'', ''dev'', ''runs'', ''run_r'', ''steps'', ''draft'', s, name]"

definition two_files :: file_tree where
  "two_files = [(worked ''a.md'', ''one''), (worked ''b.md'', ''two''), ([''home'', ''x''], ''other'')]"

definition both :: promotion where
  "both = sample_promotion ''report'' [out_of ''report'' ''a.md'', out_of ''report'' ''./b.md'']"

definition kept_file :: "string \<Rightarrow> string \<Rightarrow> string \<Rightarrow> artifact_file" where
  "kept_file s name bytes = \<lparr> af_name = name, af_path = ''.mrmr/dev/runs/run_r/steps/draft/'' @ s @ ''/'' @ name,
     af_transfer_id = None, af_digest = None, af_size_bytes = Some (int (length bytes)) \<rparr>"

definition both_kept :: "step_artifact list" where
  "both_kept = [\<lparr> sa_slot = ''report'', sa_collection = True,
     sa_files = [kept_file ''report'' ''a.md'' ''one'', kept_file ''report'' ''b.md'' ''two''] \<rparr>]"

lemma both_promoted:
  "promoteArtifactsOut both two_files = (Inr both_kept,
     [([''home'', ''x''], ''other''), (kept_path ''report'' ''a.md'', ''one''), (kept_path ''report'' ''b.md'', ''two'')])"
  by code_simp

theorem promotion_within_limits_witness:
  "all_sizes both_kept \<le> int MAX_STEP_RESOLUTION_BYTES \<and> distinct (map (to_lower \<circ> af_name) (files_of ''report'' both_kept))"
  using promotion_within_limits [OF both_promoted] by blast







text \<open>A slot named \<open>work\<close> is promoted onto its own source, which is then unlinked: the record names a file that is gone.\<close>

lemma slot_named_work_is_lost:
  "promoteArtifactsOut (sample_promotion ''work'' [out_of ''work'' ''a.md'']) [(worked ''a.md'', ''one'')] =
     (Inr [\<lparr> sa_slot = ''work'', sa_collection = True, sa_files = [kept_file ''work'' ''a.md'' ''one''] \<rparr>], [])"
  by code_simp

text \<open>A second iteration that submits a file of the same name overwrites the first, which the run still lists.\<close>

lemma second_iteration_overwrites:
  "let p = sample_promotion ''report'' [out_of ''report'' ''a.md''];
       t1 = snd (promoteArtifactsOut p [(worked ''a.md'', ''one'')]);
       t2 = snd (promoteArtifactsOut p (js_set (worked ''a.md'') ''other'' t1)) in
   js_get t1 (kept_path ''report'' ''a.md'') = Some ''one'' \<and> js_get t2 (kept_path ''report'' ''a.md'') = Some ''other''"
  by code_simp

text \<open>A name with two dots in a row inside counts as an escape from the working directory.\<close>

lemma dotted_name_refused:
  "fst (promoteArtifactsOut (sample_promotion ''report'' [out_of ''report'' ''a..b.md'']) [(worked ''a..b.md'', ''one'')]) =
     Inl ''Artifact path 'a..b.md' escapes step workdir''"
  by code_simp

end
