(* ===== verification/Spec2Isabelle.thy ===== *)
theory Spec2Isabelle
  imports KernelProperties FlowProperties RunProperties EngineProperties QueueProperties SeatProperties UploadProperties GateProperties
    PromotionProperties
begin

text \<open>
  Murrmure is a hub on which people and agents run flows together. This development models the
  layers of the hub that keep state, and the tools that read flow definitions for them.

  The runtime kernel (\<open>packages/runtime-kernel\<close>, \<open>packages/runtime-persistence\<close>) executes commands:
  each is authorised, replayed if it was executed before, matched against the rules of its
  aggregate and committed in one transaction as a journal entry with a snapshot; entries then fan
  out to waits, reactions and projections.
  \<^item> \<open>JsValue\<close>, \<open>Prelude\<close>: JSON values, insertion-ordered maps, numbers, the state monad's helpers.
  \<^item> \<open>Contracts\<close>: the wire types of \<open>runtime-contracts\<close>. \<open>Executor\<close>: \<open>executor/match.ts\<close>,
    \<open>checkpoint/lifecycle.ts\<close>, \<open>journal/build-entry.ts\<close>. \<open>Fold\<close>: \<open>journal/fold.ts\<close>.
  \<^item> \<open>MemoryStore\<close>, \<open>StoreProofs\<close>, \<open>Leases\<close>: \<open>memory/store.ts\<close>, its transactions, leases and locks.
  \<^item> \<open>Waiters\<close>, \<open>Reactions\<close>, \<open>Projections\<close>, \<open>Fanout\<close>: the directories of these names; \<open>FanoutProofs\<close>
    and \<open>FanoutBehaviour\<close> their lemmas.
  \<^item> \<open>Kernel\<close>: \<open>command/handler.ts\<close>, every method of RuntimeKernel; \<open>KernelProofs\<close>, \<open>KernelInv\<close>,
    \<open>KernelRuns\<close>, \<open>KernelBehaviour\<close> its invariant, runs of commands and the cases of a command;
    \<open>Samples\<close> concrete inputs. The properties are in \<open>KernelProperties\<close> and in this file.

  The flow tools (\<open>packages/hub-core/src/flow-engine\<close>, \<open>index\<close>, \<open>packages/contracts\<close>) parse and compile
  flow manifests.
  \<^item> \<open>FlowTypes\<close>: manifests, catalogs, intermediate form. \<open>ParseManifest\<close>: \<open>parse-flow-manifest.ts\<close> and
    the raw scans of \<open>step-contract-compile.ts\<close>. \<open>TokenLint\<close>, \<open>StepCompile\<close>, \<open>StepCompileProofs\<close>: the
    rest of that file.
  \<^item> \<open>FlowGraph\<close>, \<open>FlowGraphProofs\<close>: \<open>compile.ts\<close>, \<open>plan.ts\<close>, \<open>join.ts\<close>, \<open>advance.ts\<close>, \<open>step-catalog.ts\<close>,
    \<open>cycle-detect.ts\<close>. \<open>BranchContract\<close>: \<open>branch-validation.ts\<close>. Properties in \<open>FlowProperties\<close>.

  The hub's run service (\<open>packages/hub-core/src/run\<close>, \<open>session\<close>) keeps sessions, runs and step memos.
  \<^item> \<open>Grants\<close>: \<open>grants/migrate.ts\<close>, \<open>gates/redaction.ts\<close>, recipients of \<open>projections/notifications.ts\<close>.
    \<open>Studio\<close>: the rows and operations of \<open>hub-persistence/src/memory.ts\<close> the services use.
  \<^item> \<open>RunService\<close>: \<open>run/service.ts\<close>, \<open>run/admission.ts\<close>, \<open>run/lifecycle.ts\<close>, \<open>session/\<close>; \<open>RunProofs\<close> what
    each operation does to the table of runs. \<open>RunPolicy\<close>: \<open>index/run-policy.ts\<close>, the flow index and
    the guard of the apply route.
  \<^item> \<open>RunCapacity\<close>: the abstract machine, a table of runs in which one may be moved, started within
    the limit of its flow, or the limits replaced while nothing is active. \<open>HubSteps\<close>: the
    interleavings of the service's operations as an inductive step relation, and the refinement.
    Properties in \<open>RunProperties\<close>.

  The step engine (\<open>packages/hub-core/src/flow-engine\<close>, \<open>invoke\<close>) drives a run along its catalog.
  \<^item> \<open>Templates\<close>: \<open>templates.ts\<close>. \<open>ExecContext\<close>: \<open>exec-context.ts\<close>, the parts of \<open>step-artifacts.ts\<close> that do
    not touch files. \<open>Credentials\<close>: \<open>run-resolve-credential-registry.ts\<close> as a store of set objects.
  \<^item> \<open>FlowStart\<close>: \<open>start.ts\<close>, \<open>run-service.ts\<close>, the snapshot a run is started with, refining the table of
    \<open>RunCapacity\<close>. \<open>StartFlowSteps\<close>: \<open>start-flow.ts\<close>, a flow that calls another and is completed by it.
  \<^item> \<open>StepOpen\<close>: \<open>step-open.ts\<close> and \<open>open-child-step.ts\<close>. \<open>StepResolve\<close>: \<open>step-resolve.ts\<close>, from the checks of
    a resolution over its commit to the routes that open, reset, resume, fail or complete.
  \<^item> \<open>StepProofs\<close>: which operations leave the hub alone and what an activation does. \<open>OpenSteps\<close>: the set
    of open steps of a run under every operation, and the step relation of the engine.
    \<open>FlowCallProofs\<close>: the fuel of calls and of parents is enough. \<open>EngineSamples\<close>: flows that loop,
    nest and call. Properties in \<open>EngineProperties\<close>.

  Executors (\<open>packages/hub-core/src/executors\<close>, \<open>invoke\<close>) are agents outside the hub that work on steps.
  \<^item> \<open>PollQueue\<close>: \<open>queue-store.ts\<close>, \<open>queue-offer.ts\<close>, \<open>queue-complete.ts\<close> and the completion of
    \<open>invoke/completion.ts\<close>. A promise is a number, its resolution an answer in the state, a timer a
    step. \<open>PollProofs\<close>: the queue, the promises and the sleepers under every operation.
  \<^item> \<open>TimeoutScheduler\<close>: \<open>timeout-scheduler.ts\<close> and \<open>timeout-sweep.ts\<close>, and the working time of an executor as a
    reference. \<open>RunExecutors\<close>: \<open>run-executor-cancel.ts\<close>, the registry of handles as a store of shared
    sets, and the end of a run. Properties in \<open>QueueProperties\<close>.

  Meetings and events (\<open>packages/hub-core/src/meetings\<close>, \<open>hooks\<close>, \<open>events\<close>, \<open>hub-daemon/src/live-assignments.ts\<close>):
  seats of a session speak, others are woken, and events of a space start runs.
  \<^item> \<open>LiveSeats\<close>: \<open>live-assignments.ts\<close> and \<open>list-meeting-seats.ts\<close>, the seats, their controllers' effects as
    a log and the messages queued for them; \<open>LiveProofs\<close> each message noted once per seat.
  \<^item> \<open>Meeting\<close>: \<open>roster.ts\<close>, \<open>journal.ts\<close>, \<open>snapshot.ts\<close>, \<open>errors.ts\<close>, \<open>list.ts\<close> and the journal index of
    \<open>memory.ts\<close>. \<open>Transcript\<close>: \<open>transcript.ts\<close>. \<open>WakeData\<close>: \<open>assignment-prompt.ts\<close>. \<open>EventHooks\<close>:
    \<open>hooks/matcher.ts\<close> and \<open>hooks/dispatch.ts\<close>. \<open>MeetingOps\<close>: \<open>said.ts\<close>, \<open>dispatch.ts\<close>, \<open>receipts.ts\<close>.
    \<open>MeetingRooms\<close>: \<open>convene.ts\<close>, \<open>resume.ts\<close>, \<open>close.ts\<close>, \<open>resolve-bound-step.ts\<close> and the meeting routes.
    \<open>EmitEvents\<close>: \<open>events/emit.ts\<close>.
  \<^item> \<open>Outcomes\<close>: what operations that may throw keep, part by part. \<open>MeetingProofs\<close>: the snapshot of a
    meeting is the fold of its journal rows. Properties in \<open>MeetingProperties\<close> and \<open>SeatProperties\<close>.

  Uploads (\<open>hub-daemon/src/upload-intent-service.ts\<close>, \<open>routes/runs/step-work-upload.ts\<close>, \<open>resolve-step.ts\<close>): files
  are declared, transferred, and handed to the resolution of a step.
  \<^item> \<open>Uploads\<close>: the service; its disk is the records saved and the files stored and staged, its working
    tree the parameter \<open>ud_runs_dir\<close>, one value per reading of the clock. \<open>UploadProofs\<close>: memory and disk
    agree. \<open>UploadRuns\<close>: runs of requests, in which accepted files stand. \<open>UploadRoutes\<close>: the requests,
    \<open>config/scopes.ts\<close> and \<open>route_resolve\<close>. Properties in \<open>UploadProperties\<close>.

  \<^item> \<open>Promotion\<close>: \<open>promoteArtifactsOut\<close> of \<open>step-artifacts.ts\<close> with \<open>run-scratch-paths.ts\<close> and \<open>fs-bytes.ts\<close>, the
    files of a resolution become artifacts of its run. Its file tree maps paths to texts, no file lies on
    the way to another, and directories are there when they are needed; registering a file is the
    parameter \<open>pm_register\<close>. The engine has promotion as its parameter \<open>en_promote\<close>, of which this is the
    code's. Properties in \<open>PromotionProperties\<close>, which also shows what a failure takes with it.

  Gates and orchestration (\<open>packages/hub-core/src/gates\<close>, \<open>orchestration\<close>, \<open>hub-daemon/src/routes/phase07\<close>): a
  run waits for a decision, and an agent's proposed flow is bound once its gate is approved.
  \<^item> \<open>Gates\<close>: \<open>gates/service.ts\<close>, the gate drafts of \<open>projections/notifications.ts\<close>, \<open>attach.ts\<close>, \<open>bind.ts\<close>,
    \<open>preview.ts\<close>. \<open>GateRoutes\<close>: the requests on gates and what is shown of one. \<open>GateProofs\<close>: what
    leaves the gates alone and what a decision does. Properties in \<open>GateProperties\<close>.

  How state is kept. Kernel operations run in \<open>State_Monad\<close> over a world of the store, the deferred
  promises, the pending waits' progress and counters for identifiers and time; a transaction that
  throws is \<open>Inl\<close> and is rolled back. Hub operations are functions on a record of the studio, the
  appended journal events, the terminated executors and \<open>hb_effects\<close>, the log of what the engine asks
  other parts for: dispatches of steps, assignments of resolvers, meetings. An \<open>await\<close> inside an
  operation is not a point of interleaving, except where the code itself leaves the caller
  (timeouts, blocked waits): these are steps of their own. Operations of the engine answer an
  \<open>outcome\<close>: a value, a thrown error, or the end of the model's fuel.

  Parameters of the model, with what is assumed of them where it is used: identifiers are distinct
  (\<open>inj (ulid_at d)\<close>) and as long as the generator makes them (\<open>ulids_ok\<close>), a new run's identifier is
  fresh, space ids carry their prefix when a policy is looked up, the schema validators, content
  digests, the policy and rule ports and the flow instance service are arbitrary functions. The
  fields \<open>en_*\<close> of \<open>engine_deps\<close> are the engine's: validator, digests, the promotion of artifact files,
  the answer of the meeting service and the authority a run is dispatched with. The fields \<open>ed_*\<close> are
  those of events: digests and the invocation of an action; \<open>ud_*\<close> those of uploads: identifiers, the
  clock, hashes and the working tree; \<open>gd_encode\<close> and \<open>gd_decode\<close> write and read a proposed flow. Meetings
  assume ids of the form the hub makes (\<open>hub_ids\<close>) and distinct journal entries.

  Locales: \<open>keyed_map\<close>, \<open>section_store\<close>, \<open>sequenced_log\<close>, \<open>write_once\<close> and \<open>owned_lease\<close> state the laws of the
  stores, \<open>invariant_system\<close> and \<open>monotone_system\<close> those of a machine whose steps keep an invariant or
  an order; each is interpreted on the model's operations in the theory that provides them.

  Bounds. \<open>dfs\<close> and \<open>search\<close> take fuel; \<open>searches_return\<close> shows that the number of flows (steps) plus
  one is enough for every input, and the callers pass that much. \<open>executeStartFlowStep\<close> has the calls
  that are left up to \<open>FLOW_CALL_MAX_DEPTH\<close> as fuel, \<open>complete_parents\<close> one more than the number of stored
  memos, \<open>catalog_ancestor\<close> the length of the catalog; \<open>flow_calls_return\<close> shows that a call, a chain
  of parents and a resolution never use it up. The queue of reactions is drained in batches of 100
  as in the code; \<open>verifyFold\<close> reads 1000 entries as in the code.

  Simplifications of the engine: JSON numbers are integers, and a lookup by a name reads own
  properties, save for branches, where \<open>branch_named\<close> also knows the members of \<open>Object.prototype\<close>. Times
  of meetings are the texts the code writes. The journal index of meetings holds the entries of modelled
  operations only. The operations of the upload service are atomic, and the contents of files are
  texts; \<open>write_accepted\<close> is the part of a transfer that the code runs after the disk has answered.

  Not modelled: processes, sockets and HTTP (executors, daemon routes, MCP, command line, shell),
  the SQL statements of the SQLite adapters, files of a space and their digests, federation, and
  mail. Matrix steps and the advance runner, the slice a resolver is given, the graph of a run, the
  list of who may be invited, the convene and artifact requests of meetings, the cron scheduler, the
  catalog of emittable events, the waiting and notification requests beside those on gates, and the
  hub's request dispatcher are left out.
\<close>

section \<open>Runs of the kernel\<close>



text \<open>
  C2. Along any run the journal only grows at its end, a recorded command result is never replaced,
  and no aggregate disappears or loses a revision.
\<close>

theorem runs_only_grow:
  assumes "inj (ulid_at d)" and "w = fold (kernel_step d) ops init_world"
    and "v = fold (kernel_step d) rest w"
  shows "(\<exists>es. ms_journal (w_store v) = ms_journal (w_store w) @ es) \<and>
    (js_get (ms_idempotency (w_store w)) cid = Some r \<longrightarrow> js_get (ms_idempotency (w_store v)) cid = Some r) \<and>
    older (js_get (ms_snapshots (w_store w)) aid) (js_get (ms_snapshots (w_store v)) aid)"
proof -
  have "kernel_inv d w" unfolding assms(2) by (rule reachable_inv [OF assms(1)])
  then have "world_grows w v"
    unfolding assms(3) using kernel_run.run_grows assms(1) by blast
  then show ?thesis by (simp add: world_grows_def store_grows_def)
qed

theorem runs_only_grow_witness:
  "\<exists>es. ms_journal (w_store (fold (kernel_step sample_deps) [Execute (lost_command None)] init_world)) =
     ms_journal (w_store init_world) @ es"
  using runs_only_grow [OF sample_inj, of init_world "[]" _ "[Execute (lost_command None)]"] by simp

section \<open>Commands\<close>

text \<open>
  C3. A command whose identifier is recorded is replayed: the answer is the recorded result, marked
  as a replay, and nothing of the world changes.
\<close>

theorem replayed_command_changes_nothing:
  assumes "pv_command_id (command_provenance cmd) = Some cid" and "cid \<noteq> []"
    and "js_get (ms_idempotency (w_store w)) cid = Some r"
  shows "result (execute d cmd) w = Returned (replay_result r) \<and> final (execute d cmd) w = w"
  using execute_replay [OF assms] by (simp add: result_def final_def)

definition replay_world :: world where
  "replay_world = init_world\<lparr>w_store := createMemoryStoreState
     \<lparr>ms_idempotency := [(''c1'', successResult ''event_appended'' [])]\<rparr>\<rparr>"

theorem replayed_command_witness:
  "final (execute sample_deps (lost_command None)) replay_world = replay_world"
  using replayed_command_changes_nothing [of "lost_command None" "''c1''" replay_world
      "successResult ''event_appended'' []" sample_deps]
  by (simp add: lost_command_def sample_prov_def replay_world_def js_get_def)

text \<open>
  A command its handler denies changes no aggregate and no checkpoint, and appends at most one
  entry, a denial, whose number is the one the result carries.
\<close>

theorem denial_changes_nothing:
  assumes "kernel_inv d w" and "inj (ulid_at d)" and "new_command d cmd w"
    and "handle_outcome d cmd w = Inr r" and "cr_outcome r = Denial"
    and "w' = final (execute d cmd) w"
  shows "ms_snapshots (w_store w') = ms_snapshots (w_store w) \<and>
    ms_checkpoints (w_store w') = ms_checkpoints (w_store w) \<and>
    (ms_journal (w_store w') = ms_journal (w_store w) \<or>
     (\<exists>e. ms_journal (w_store w') = ms_journal (w_store w) @ [e] \<and> je_outcome e = Denial \<and>
        cr_seq r = Some (je_seq e)))"
  using denied_changes_nothing [OF assms(1-5)] unfolding assms(6) by blast

theorem denial_changes_nothing_witness:
  "ms_snapshots (w_store (final (execute sample_deps (lost_command None)) init_world)) = []"
  using denial_changes_nothing [OF kernel_inv_init sample_inj lost_command_new lost_command_outcome
      lost_command_denied refl] by simp

text \<open>
  A caller that asked to wait (\<open>block_on\<close>) and whose transition is denied gets that denial back
  at once: the command never stays blocked.
\<close>

theorem denied_transition_never_blocks:
  assumes "kernel_inv d w" and "inj (ulid_at d)" and "ulid_at d (w_ids w) \<noteq> []"
    and "cmd = StateTransition p aid event payload n (Some c)" and "new_command d cmd w"
    and "handle_outcome d cmd w = Inr r" and "cr_outcome r = Denial"
  shows "result (execute d cmd) w = Returned r"
  using denied_never_blocks [OF assms(1,2,5,4,6,7,3)] .

theorem denied_transition_never_blocks_witness:
  "\<exists>r. result (execute sample_deps (lost_command (Some (WState ''live'')))) init_world = Returned r"
  using denied_transition_never_blocks [OF kernel_inv_init sample_inj _ lost_command_def lost_command_new
      lost_command_outcome lost_command_denied] by auto

text \<open>
  C4. A matching transition at the expected revision, without a checkpoint: the stored aggregate
  becomes \<open>applyTransition\<close> of the old one, exactly one revision further and in the transition's
  target state, and one successful \<open>transition.applied\<close> entry with that effect is appended.
\<close>

theorem transition_effect:
  assumes "js_get (ms_snapshots (w_store w)) aid = Some ag" and "ag_aggregate_id ag = aid"
    and "rules_load d (ag_rule_ref ag) = Some art"
    and "findMatchingTransition d ag art event (pv_actor_id p) (pv_actor_kind p) = Some t"
    and "tr_checkpoint t = None"
    and "w' = final (handleTransition d p aid event payload (ag_revision ag)) w"
    and "ag' = applyTransition ag t art (now_iso_at d (w_clock w)) payload"
  shows "ms_snapshots (w_store w') = js_set aid ag' (ms_snapshots (w_store w)) \<and>
    ag_revision ag' = ag_revision ag + 1 \<and> ag_state ag' = tr_to t \<and> tr_from t = ag_state ag \<and>
    (\<exists>e. ms_journal (w_store w') = ms_journal (w_store w) @ [e] \<and> je_type e = E_TRANSITION_APPLIED \<and>
       je_outcome e = Success \<and> je_payload e = transitionAppliedPayload t ag' payload)"
  using transition_applies [OF assms(1-5)] findMatchingTransition_Some(2) [OF assms(4)]
  unfolding assms(6,7) by auto

theorem transition_effect_witness:
  "let w' = final (handleTransition sample_deps (sample_prov ''c1'') ''id0'' ''publish'' None 0) sample_world in
   \<exists>ag. ms_snapshots (w_store w') = js_set ''id0'' ag (ms_snapshots (w_store sample_world)) \<and>
     ag_revision ag = 1 \<and> ag_state ag = ''live''"
proof -
  have id: "ag_aggregate_id sample_ag = ''id0''" "ag_revision sample_ag = 0" and "tr_to sample_transition = ''live''"
    and cp: "tr_checkpoint sample_transition = None"
    by (simp_all add: sample_ag_def sample_transition_def)
  then show ?thesis
    using transition_effect [OF sample_get id(1) sample_load sample_match(1) cp refl refl,
        of "sample_prov ''c1''" None]
    unfolding Let_def by auto
qed

text \<open>
  A matching transition whose rule declares a checkpoint pauses: the aggregate is unchanged, a
  pending checkpoint from its state to the transition's target is stored, and
  \<open>checkpoint.created\<close> is appended.
\<close>

theorem checkpoint_pauses:
  assumes "js_get (ms_snapshots (w_store w)) aid = Some ag"
    and "rules_load d (ag_rule_ref ag) = Some art"
    and "findMatchingTransition d ag art event (pv_actor_id p) (pv_actor_kind p) = Some t"
    and "tr_checkpoint t = Some c"
    and "w' = final (handleTransition d p aid event payload (ag_revision ag)) w"
  shows "ms_snapshots (w_store w') = ms_snapshots (w_store w) \<and>
    (\<exists>cp. ms_checkpoints (w_store w') = js_set (cp_checkpoint_id cp) cp (ms_checkpoints (w_store w)) \<and>
       cp_status cp = CpPending \<and> cp_aggregate_id cp = aid \<and> cp_from_state cp = ag_state ag \<and>
       cp_to_state cp = tr_to t \<and> cp_votes cp = []) \<and>
    (\<exists>e. ms_journal (w_store w') = ms_journal (w_store w) @ [e] \<and> je_type e = E_CHECKPOINT_CREATED)"
proof (intro conjI)
  let ?cp = "checkpointFromTransition (ulid_at d (w_ids w)) (pv_scope_id p) aid t c (now_iso_at d (w_clock w))"
  note e = transition_pauses [OF assms(1-4), where payload = payload, folded assms(5)]
  show "ms_snapshots (w_store w') = ms_snapshots (w_store w)" by (rule e(1))
  show "\<exists>e. ms_journal (w_store w') = ms_journal (w_store w) @ [e] \<and> je_type e = E_CHECKPOINT_CREATED"
    by (rule e(3))
  show "\<exists>cp. ms_checkpoints (w_store w') = js_set (cp_checkpoint_id cp) cp (ms_checkpoints (w_store w)) \<and>
       cp_status cp = CpPending \<and> cp_aggregate_id cp = aid \<and> cp_from_state cp = ag_state ag \<and>
       cp_to_state cp = tr_to t \<and> cp_votes cp = []"
    by (rule exI [of _ ?cp], intro conjI)
      (use e(2) findMatchingTransition_Some(2) [OF assms(3)] in \<open>simp_all add: checkpointFromTransition_def\<close>)
qed

theorem checkpoint_pauses_witness:
  "ms_snapshots (w_store (final (handleTransition sample_deps (sample_prov ''c1'') ''id0'' ''review'' None
     (ag_revision sample_ag)) sample_world)) = [(''id0'', sample_ag)]"
proof -
  have "tr_checkpoint sample_review = Some sample_checkpoint" by (simp add: sample_review_def)
  from checkpoint_pauses [OF sample_get sample_load sample_match(2) this refl, of "sample_prov ''c1''" None]
  show ?thesis by (simp add: sample_world_snapshots)
qed

text \<open>
  A matching transition with a stale expected revision is refused with \<open>revision.conflict\<close> and
  changes no aggregate.
\<close>

theorem stale_revision_refused:
  assumes "js_get (ms_snapshots (w_store w)) aid = Some ag"
    and "rules_load d (ag_rule_ref ag) = Some art"
    and "findMatchingTransition d ag art event (pv_actor_id p) (pv_actor_kind p) = Some t"
    and "expected \<noteq> ag_revision ag"
    and "w' = final (handleTransition d p aid event payload expected) w"
  shows "ms_snapshots (w_store w') = ms_snapshots (w_store w) \<and>
    (\<exists>e. ms_journal (w_store w') = ms_journal (w_store w) @ [e] \<and> je_type e = E_REVISION_CONFLICT)"
  using transition_stale [OF assms(1-4), where payload = payload] unfolding assms(5) by blast

theorem stale_revision_refused_witness:
  "ms_snapshots (w_store (final (handleTransition sample_deps (sample_prov ''c1'') ''id0'' ''publish'' None 7)
     sample_world)) = [(''id0'', sample_ag)]"
proof -
  have "7 \<noteq> ag_revision sample_ag" by (simp add: sample_ag_def)
  from stale_revision_refused [OF sample_get sample_load sample_match(1) this refl, of "sample_prov ''c1''" None]
  show ?thesis by (simp add: sample_world_snapshots)
qed

text \<open>
  A command the policy refuses answers 403, changes no aggregate and no wait, appends one
  \<open>policy.denied\<close> entry of that command, and records the result under its identifier.
\<close>

theorem policy_refusal:
  assumes "pv_command_id (command_provenance cmd) = Some cid" and "cid \<noteq> []"
    and "js_get (ms_idempotency (w_store w)) cid = None"
    and "\<not> pr_allowed (policy_evaluate d (command_provenance cmd) (command_kind cmd))"
    and "w' = final (execute d cmd) w"
  shows "ms_snapshots (w_store w') = ms_snapshots (w_store w) \<and> ms_waits (w_store w') = ms_waits (w_store w) \<and>
    (\<exists>e. ms_journal (w_store w') = ms_journal (w_store w) @ [e] \<and> je_type e = E_POLICY_DENIED \<and>
       je_outcome e = Denial \<and> je_command_id e = Some cid) \<and>
    (\<exists>r. result (execute d cmd) w = Returned r \<and> cr_outcome r = Denial \<and> cr_http_semantic r = Http403 \<and>
       js_get (ms_idempotency (w_store w')) cid = Some r)"
  using execute_refused [OF assms(1-4)] unfolding assms(5) by blast

theorem policy_refusal_witness:
  "\<exists>r. result (execute sample_deps (WaitCancel (sample_prov ''c1''\<lparr>pv_actor_id := ''mallory''\<rparr>) ''w'')) init_world =
     Returned r \<and> cr_http_semantic r = Http403"
  using policy_refusal [of "WaitCancel (sample_prov ''c1''\<lparr>pv_actor_id := ''mallory''\<rparr>) ''w''" "''c1''" init_world
      sample_deps, OF _ _ _ _ refl]
  by (simp add: sample_prov_def sample_allowed) blast

end
